(* ===== verification/Prelude.thy ===== *)
theory Prelude
  imports Main "HOL-Library.Word"
begin

text \<open>
  Shared vocabulary of the development: the parts of the Go language and of its standard library
  that several services of the repository use, and the generic facts on lists and tables on which
  the component theories rest.

  A Go \<^verbatim>\<open>string\<close> is a byte sequence, so it is modelled by the HOL type \<^typ>\<open>string\<close> (a
  list of 8-bit characters).  \<open>TrimSpace\<close>, \<open>RuneCountInString\<close>, \<open>Contains\<close>, \<open>ParseUint\<close> and
  \<open>FormatUint\<close> follow the library functions on every byte sequence.  \<open>ToLower\<close> is exact for every
  rune whose lower case is an ASCII character, that is for the ASCII letters, U+0130 and U+212A; it
  leaves every other rune alone, so a comparison of its result with an ASCII constant has the
  outcome it has in Go.  A \<^verbatim>\<open>time.Time\<close> is its number of nanoseconds, a \<^verbatim>\<open>uint64\<close> that is only
  compared is a \<^typ>\<open>nat\<close>, a row set of a database table is a list of records.
\<close>

named_theorems go_defs \<open>definitions of the Go library functions\<close>
named_theorems table_simps \<open>facts on tables as lists of rows with a key\<close>

type_synonym time = int
type_synonym uint64 = nat

section \<open>Strings\<close>

definition space_seqs :: "string list" where
  "space_seqs =
    [[CHR 0x09], [CHR 0x0A], [CHR 0x0B], [CHR 0x0C], [CHR 0x0D], [CHR 0x20],
     [CHR 0xC2, CHR 0x85], [CHR 0xC2, CHR 0xA0], [CHR 0xE1, CHR 0x9A, CHR 0x80],
     [CHR 0xE2, CHR 0x80, CHR 0x80], [CHR 0xE2, CHR 0x80, CHR 0x81], [CHR 0xE2, CHR 0x80, CHR 0x82],
     [CHR 0xE2, CHR 0x80, CHR 0x83], [CHR 0xE2, CHR 0x80, CHR 0x84], [CHR 0xE2, CHR 0x80, CHR 0x85],
     [CHR 0xE2, CHR 0x80, CHR 0x86], [CHR 0xE2, CHR 0x80, CHR 0x87], [CHR 0xE2, CHR 0x80, CHR 0x88],
     [CHR 0xE2, CHR 0x80, CHR 0x89], [CHR 0xE2, CHR 0x80, CHR 0x8A], [CHR 0xE2, CHR 0x80, CHR 0xA8],
     [CHR 0xE2, CHR 0x80, CHR 0xA9], [CHR 0xE2, CHR 0x80, CHR 0xAF], [CHR 0xE2, CHR 0x81, CHR 0x9F],
     [CHR 0xE3, CHR 0x80, CHR 0x80]]"

definition HasPrefix :: "string \<Rightarrow> string \<Rightarrow> bool" where
  "HasPrefix s p \<longleftrightarrow> take (length p) s = p"

function strip_seqs :: "string list \<Rightarrow> string \<Rightarrow> string" where
  "strip_seqs ps s =
     (case find (\<lambda>p. p \<noteq> [] \<and> HasPrefix s p) ps of
        None \<Rightarrow> s
      | Some p \<Rightarrow> strip_seqs ps (drop (length p) s))"
  by pat_completeness auto
termination
  by (relation "measure (\<lambda>(ps, s). length s)")
     (auto simp: find_Some_iff HasPrefix_def intro!: diff_less)

declare strip_seqs.simps [simp del]

lemma strip_seqs_code [code]:
  "strip_seqs ps [] = []"
  "strip_seqs ps (c # cs) =
     (case find (\<lambda>p. p \<noteq> [] \<and> HasPrefix (c # cs) p) ps of
        None \<Rightarrow> c # cs
      | Some p \<Rightarrow> strip_seqs ps (drop (length p) (c # cs)))"
proof -
  have "find (\<lambda>p. p \<noteq> [] \<and> HasPrefix [] p) ps = None" by (auto simp: find_None_iff HasPrefix_def)
  then show "strip_seqs ps [] = []" by (subst strip_seqs.simps) simp
qed (rule strip_seqs.simps)

definition TrimSpace :: "string \<Rightarrow> string" where
  "TrimSpace s = rev (strip_seqs (map rev space_seqs) (rev (strip_seqs space_seqs s)))"

definition lower_byte :: "char \<Rightarrow> char" where
  "lower_byte c = (let n = (of_char c :: nat) in if 65 \<le> n \<and> n \<le> 90 then char_of (n + 32) else c)"

fun ToLower :: "string \<Rightarrow> string" where
  "ToLower (a # b # c # s) =
     (if a = CHR 0xE2 \<and> b = CHR 0x84 \<and> c = CHR 0xAA then CHR ''k'' # ToLower s
      else if a = CHR 0xC4 \<and> b = CHR 0xB0 then CHR ''i'' # ToLower (c # s)
      else lower_byte a # ToLower (b # c # s))"
| "ToLower [a, b] = (if a = CHR 0xC4 \<and> b = CHR 0xB0 then ''i'' else [lower_byte a, lower_byte b])"
| "ToLower [a] = [lower_byte a]"
| "ToLower [] = []"

fun Contains :: "string \<Rightarrow> string \<Rightarrow> bool" where
  "Contains [] p \<longleftrightarrow> p = []"
| "Contains (c # cs) p \<longleftrightarrow> HasPrefix (c # cs) p \<or> Contains cs p"

definition byte_in :: "int \<Rightarrow> int \<Rightarrow> string \<Rightarrow> nat \<Rightarrow> bool" where
  "byte_in lo hi s i \<longleftrightarrow> i < length s \<and> lo \<le> of_char (s ! i) \<and> of_char (s ! i) \<le> hi"

text \<open>The width of the rune at the start of a non-empty string; an invalid encoding is one byte wide.\<close>

definition rune_width :: "string \<Rightarrow> nat" where
  "rune_width s =
    (if byte_in 0xC2 0xDF s 0 \<and> byte_in 0x80 0xBF s 1 then 2
     else if byte_in 0xE0 0xE0 s 0 \<and> byte_in 0xA0 0xBF s 1 \<and> byte_in 0x80 0xBF s 2 then 3
     else if byte_in 0xED 0xED s 0 \<and> byte_in 0x80 0x9F s 1 \<and> byte_in 0x80 0xBF s 2 then 3
     else if byte_in 0xE1 0xEF s 0 \<and> \<not> byte_in 0xED 0xED s 0 \<and> byte_in 0x80 0xBF s 1
             \<and> byte_in 0x80 0xBF s 2 then 3
     else if byte_in 0xF0 0xF0 s 0 \<and> byte_in 0x90 0xBF s 1 \<and> byte_in 0x80 0xBF s 2
             \<and> byte_in 0x80 0xBF s 3 then 4
     else if byte_in 0xF1 0xF3 s 0 \<and> byte_in 0x80 0xBF s 1 \<and> byte_in 0x80 0xBF s 2
             \<and> byte_in 0x80 0xBF s 3 then 4
     else if byte_in 0xF4 0xF4 s 0 \<and> byte_in 0x80 0x8F s 1 \<and> byte_in 0x80 0xBF s 2
             \<and> byte_in 0x80 0xBF s 3 then 4
     else 1)"

text \<open>Evaluation on the binary integers.\<close>

lemma of_char_nat_le: "(of_char c :: nat) \<le> n \<longleftrightarrow> (of_char c :: int) \<le> int n"
  "n \<le> (of_char c :: nat) \<longleftrightarrow> int n \<le> (of_char c :: int)"
  by (metis of_nat_of_char of_nat_le_iff)+

lemma lower_byte_code [code]:
  "lower_byte c = (let n = (of_char c :: int) in if 65 \<le> n \<and> n \<le> 90 then char_of (n + 32) else c)"
proof -
  have "char_of (of_char c + 32 :: nat) = char_of (of_char c + 32 :: int)"
    by (metis char_of_nat of_nat_add of_nat_numeral of_nat_of_char)
  then show ?thesis by (simp add: lower_byte_def Let_def of_char_nat_le)
qed

lemma rune_width_pos [simp]: "0 < rune_width s"
  by (simp add: rune_width_def)

fun RuneCountInString :: "string \<Rightarrow> nat" where
  "RuneCountInString [] = 0"
| "RuneCountInString (c # cs) = Suc (RuneCountInString (drop (rune_width (c # cs) - 1) cs))"

definition is_digit :: "char \<Rightarrow> bool" where
  "is_digit c \<longleftrightarrow> 48 \<le> (of_char c :: nat) \<and> (of_char c :: nat) \<le> 57"

definition digit_value :: "char \<Rightarrow> nat" where
  "digit_value c = of_char c - 48"

definition decimal_value :: "string \<Rightarrow> nat" where
  "decimal_value s = foldl (\<lambda>a c. 10 * a + digit_value c) 0 s"

text \<open>\<^verbatim>\<open>strconv.ParseUint(s, 10, 64)\<close>: \<open>None\<close> stands for the error.\<close>

definition ParseUint :: "string \<Rightarrow> uint64 option" where
  "ParseUint s =
     (if s \<noteq> [] \<and> list_all is_digit s \<and> decimal_value s < 2 ^ 64
      then Some (decimal_value s) else None)"

definition digit_char :: "nat \<Rightarrow> char" where
  "digit_char d = char_of (d + 48)"

fun FormatUint :: "nat \<Rightarrow> string" where
  "FormatUint n = (if n < 10 then [digit_char n] else FormatUint (n div 10) @ [digit_char (n mod 10)])"

declare FormatUint.simps [simp del]

text \<open>The verb \<^verbatim>\<open>%04d\<close> of package fmt on an unsigned number.\<close>

definition format_04d :: "nat \<Rightarrow> string" where
  "format_04d n = replicate (4 - length (FormatUint n)) (CHR ''0'') @ FormatUint n"

lemma is_digit_code [code]: "is_digit c \<longleftrightarrow> 48 \<le> (of_char c :: int) \<and> (of_char c :: int) \<le> 57"
  by (simp add: is_digit_def of_char_nat_le)

subsection \<open>Laws of the string functions\<close>

lemma strip_seqs_suffix: "\<exists>p. s = p @ strip_seqs ps s"
proof (induction ps s rule: strip_seqs.induct)
  case (1 ps s)
  show ?case
  proof (cases "find (\<lambda>p. p \<noteq> [] \<and> HasPrefix s p) ps")
    case None
    then show ?thesis by (subst strip_seqs.simps) auto
  next
    case (Some p)
    with 1 obtain q where "drop (length p) s = q @ strip_seqs ps (drop (length p) s)" by blast
    then have "s = (take (length p) s @ q) @ strip_seqs ps (drop (length p) s)"
      by (metis append.assoc append_take_drop_id)
    moreover from Some have "strip_seqs ps s = strip_seqs ps (drop (length p) s)"
      by (simp add: strip_seqs.simps [of ps s])
    ultimately have "s = (take (length p) s @ q) @ strip_seqs ps s" by (simp only:)
    then show ?thesis ..
  qed
qed

lemma strip_seqs_stuck:
  "find (\<lambda>p. p \<noteq> [] \<and> HasPrefix s p) ps = None \<Longrightarrow> strip_seqs ps s = s"
  by (subst strip_seqs.simps) simp

lemma strip_seqs_no_prefix:
  "find (\<lambda>p. p \<noteq> [] \<and> HasPrefix (strip_seqs ps s) p) ps = None"
proof (induction ps s rule: strip_seqs.induct)
  case (1 ps s)
  then show ?case
    by (cases "find (\<lambda>p. p \<noteq> [] \<and> HasPrefix s p) ps")
       (simp_all add: strip_seqs.simps [of ps s])
qed

lemma strip_seqs_prefix_closed:
  assumes "find (\<lambda>p. p \<noteq> [] \<and> HasPrefix (s @ t) p) ps = None"
  shows "find (\<lambda>p. p \<noteq> [] \<and> HasPrefix s p) ps = None"
  using assms
  by (auto simp: find_None_iff HasPrefix_def)

lemma TrimSpace_idem [simp]: "TrimSpace (TrimSpace s) = TrimSpace s"
proof -
  let ?l = "strip_seqs space_seqs s"
  let ?r = "strip_seqs (map rev space_seqs) (rev ?l)"
  obtain p where "rev ?l = p @ ?r" using strip_seqs_suffix by blast
  then have "?l = rev ?r @ rev p" by (metis rev_append rev_rev_ident)
  then have "find (\<lambda>q. q \<noteq> [] \<and> HasPrefix (rev ?r @ rev p) q) space_seqs = None"
    using strip_seqs_no_prefix [of space_seqs s] by (simp only:)
  then have "find (\<lambda>q. q \<noteq> [] \<and> HasPrefix (rev ?r) q) space_seqs = None"
    by (rule strip_seqs_prefix_closed)
  then have "strip_seqs space_seqs (rev ?r) = rev ?r" by (rule strip_seqs_stuck)
  moreover have "strip_seqs (map rev space_seqs) ?r = ?r"
    by (rule strip_seqs_stuck) (rule strip_seqs_no_prefix)
  ultimately show ?thesis by (simp add: TrimSpace_def)
qed

lemma TrimSpace_empty [simp]: "TrimSpace [] = []"
  by (simp add: TrimSpace_def strip_seqs_stuck find_None_iff HasPrefix_def)

lemma is_digit_digit_char [simp]: "d < 10 \<Longrightarrow> is_digit (digit_char d)"
  by (simp add: is_digit_def digit_char_def)

lemma digit_value_digit_char [simp]: "d < 10 \<Longrightarrow> digit_value (digit_char d) = d"
  by (simp add: digit_value_def digit_char_def)

lemma decimal_value_snoc [simp]: "decimal_value (s @ [c]) = 10 * decimal_value s + digit_value c"
  by (simp add: decimal_value_def)

lemma FormatUint_nonempty [simp]: "FormatUint n \<noteq> []"
  by (subst FormatUint.simps) simp

lemma FormatUint_digits: "list_all is_digit (FormatUint n)"
proof (induction n rule: FormatUint.induct)
  case (1 n)
  then show ?case by (subst FormatUint.simps) auto
qed

lemma decimal_value_FormatUint [simp]: "decimal_value (FormatUint n) = n"
proof (induction n rule: FormatUint.induct)
  case (1 n)
  then show ?case
    by (subst FormatUint.simps) (auto simp: decimal_value_def [of "[_]"])
qed

lemma ParseUint_FormatUint [simp]: "n < 2 ^ 64 \<Longrightarrow> ParseUint (FormatUint n) = Some n"
  by (simp add: ParseUint_def FormatUint_digits)

lemma ParseUint_code [code]:
  "ParseUint s =
     (if s \<noteq> [] \<and> list_all is_digit s \<and> int (decimal_value s) < 18446744073709551616
      then Some (decimal_value s) else None)"
  by (simp add: ParseUint_def)

lemma ParseUint_bound: "ParseUint s = Some n \<Longrightarrow> n < 2 ^ 64"
  by (simp add: ParseUint_def split: if_splits)

lemma FormatUint_inject [simp]: "FormatUint m = FormatUint n \<longleftrightarrow> m = n"
  by (metis decimal_value_FormatUint)

lemma RuneCountInString_le: "RuneCountInString s \<le> length s"
proof (induction s rule: RuneCountInString.induct)
  case 1
  then show ?case by simp
next
  case (2 c cs)
  then show ?case by simp
qed

subsection \<open>Runes and folding\<close>

text \<open>The runes of a string, each as its bytes, and the number of a rune; U+FFFD stands for an invalid byte.\<close>

fun runes :: "string \<Rightarrow> string list" where
  "runes [] = []"
| "runes (c # cs) = take (rune_width (c # cs)) (c # cs) # runes (drop (rune_width (c # cs) - 1) cs)"

fun rune_value :: "string \<Rightarrow> int" where
  "rune_value [a] = (if (of_char a :: int) < 128 then of_char a else 0xFFFD)"
| "rune_value [a, b] = (of_char a mod 32) * 64 + of_char b mod 64"
| "rune_value [a, b, c] = (of_char a mod 16) * 4096 + (of_char b mod 64) * 64 + of_char c mod 64"
| "rune_value [a, b, c, d] =
     (of_char a mod 8) * 262144 + (of_char b mod 64) * 4096 + (of_char c mod 64) * 64 + of_char d mod 64"
| "rune_value _ = 0xFFFD"

lemma length_runes [simp]: "length (runes s) = RuneCountInString s"
  by (induction s rule: RuneCountInString.induct) simp_all

text \<open>\<^verbatim>\<open>strings.EqualFold\<close>, exact when one of the texts is ASCII.\<close>

fun fold_case :: "string \<Rightarrow> string" where
  "fold_case (a # b # c # s) =
     (if a = CHR 0xE2 \<and> b = CHR 0x84 \<and> c = CHR 0xAA then CHR ''k'' # fold_case s
      else if a = CHR 0xC5 \<and> b = CHR 0xBF then CHR ''s'' # fold_case (c # s)
      else lower_byte a # fold_case (b # c # s))"
| "fold_case [a, b] = (if a = CHR 0xC5 \<and> b = CHR 0xBF then ''s'' else [lower_byte a, lower_byte b])"
| "fold_case [a] = [lower_byte a]"
| "fold_case [] = []"

definition EqualFold :: "string \<Rightarrow> string \<Rightarrow> bool" where
  "EqualFold s t \<longleftrightarrow> fold_case s = fold_case t"

text \<open>\<^verbatim>\<open>strings.SplitN(s, " ", 2)\<close>: the parts before and after the first space, if there is one.\<close>

fun split_space :: "string \<Rightarrow> (string \<times> string) option" where
  "split_space [] = None"
| "split_space (c # cs) =
     (if c = CHR '' '' then Some ([], cs) else map_option (\<lambda>(a, b). (c # a, b)) (split_space cs))"

section \<open>Signed integers\<close>

text \<open>The value of an \<^verbatim>\<open>int64\<close> result: two's complement wrap-around.\<close>

definition int64 :: "int \<Rightarrow> int" where
  "int64 x = (x + 2 ^ 63) mod 2 ^ 64 - 2 ^ 63"

lemma int64_id: "- (2 ^ 63) \<le> x \<Longrightarrow> x < 2 ^ 63 \<Longrightarrow> int64 x = x"
  by (simp add: int64_def)

lemma int64_range: "- (2 ^ 63) \<le> int64 x" "int64 x < 2 ^ 63"
  using pos_mod_bound [of "2 ^ 64" "x + 2 ^ 63"] by (simp_all add: int64_def)

section \<open>Errors\<close>

text \<open>
  A Go error is a sentinel value of the package, a formatted text, or a text that wraps another
  error (\<^verbatim>\<open>%w\<close>).  \<open>errors_Is\<close> is \<^verbatim>\<open>errors.Is\<close> against a sentinel, \<open>Error\<close> the method of that name.
\<close>

datatype 'e goerr = Sentinel 'e | Text string | Wrap string "'e goerr"

primrec errors_Is :: "'e goerr \<Rightarrow> 'e \<Rightarrow> bool" where
  "errors_Is (Sentinel a) e \<longleftrightarrow> a = e"
| "errors_Is (Text t) e \<longleftrightarrow> False"
| "errors_Is (Wrap t inner) e \<longleftrightarrow> errors_Is inner e"

primrec Error :: "('e \<Rightarrow> string) \<Rightarrow> 'e goerr \<Rightarrow> string" where
  "Error msg (Sentinel a) = msg a"
| "Error msg (Text t) = t"
| "Error msg (Wrap t inner) = t @ Error msg inner"

text \<open>A gRPC status error: its code and its message.\<close>

datatype grpc_code =
    InvalidArgument | NotFound | AlreadyExists | PermissionDenied | FailedPrecondition
  | Unauthenticated | DeadlineExceeded | Unavailable | Internal
  | Canceled | Unknown | ResourceExhausted | Aborted | OutOfRange | Unimplemented | DataLoss

type_synonym grpc_error = "grpc_code \<times> string"

section \<open>Tables\<close>

text \<open>
  A table is a list of rows, each with a numeric primary key.  The statements of the repositories
  select rows by a condition, order them by key, cut a window, or update the rows that match.
\<close>

definition by_id :: "('r \<Rightarrow> nat) \<Rightarrow> nat \<Rightarrow> 'r list \<Rightarrow> 'r option" where
  "by_id key i rows = find (\<lambda>r. key r = i) rows"

definition order_desc :: "('r \<Rightarrow> nat) \<Rightarrow> 'r list \<Rightarrow> 'r list" where
  "order_desc key rows = rev (sort_key key rows)"

definition order_asc :: "('r \<Rightarrow> nat) \<Rightarrow> 'r list \<Rightarrow> 'r list" where
  "order_asc key rows = sort_key key rows"

definition update_rows :: "('r \<Rightarrow> bool) \<Rightarrow> ('r \<Rightarrow> 'r) \<Rightarrow> 'r list \<Rightarrow> 'r list" where
  "update_rows P f rows = map (\<lambda>r. if P r then f r else r) rows"

definition first_row :: "'r list \<Rightarrow> 'r option" where
  "first_row rows = (case rows of [] \<Rightarrow> None | r # _ \<Rightarrow> Some r)"

definition keys_below :: "('r \<Rightarrow> nat) \<Rightarrow> nat \<Rightarrow> 'r list \<Rightarrow> bool" where
  "keys_below key n rows \<longleftrightarrow>
     0 < n \<and> sorted_wrt (\<lambda>a b. key a < key b) rows \<and> (\<forall>r \<in> set rows. 0 < key r \<and> key r < n)"

lemma by_id_Some: "by_id key i rows = Some r \<Longrightarrow> r \<in> set rows \<and> key r = i"
  by (auto simp: by_id_def find_Some_iff)

lemma by_id_None: "by_id key i rows = None \<longleftrightarrow> (\<forall>r \<in> set rows. key r \<noteq> i)"
  by (auto simp: by_id_def find_None_iff)

lemma keys_below_distinct: "keys_below key n rows \<Longrightarrow> distinct (map key rows)"
  unfolding keys_below_def
  by (induction rows) auto

lemma keys_below_inj:
  "keys_below key n rows \<Longrightarrow> r \<in> set rows \<Longrightarrow> q \<in> set rows \<Longrightarrow> key r = key q \<Longrightarrow> r = q"
  by (metis keys_below_distinct distinct_map inj_onD)

lemma by_id_eq [table_simps]:
  "keys_below key n rows \<Longrightarrow> r \<in> set rows \<Longrightarrow> by_id key (key r) rows = Some r"
  by (cases "by_id key (key r) rows") (auto simp: by_id_None dest: by_id_Some keys_below_inj)

lemma keys_below_append:
  "keys_below key n rows \<Longrightarrow> key r = n \<Longrightarrow> keys_below key (Suc n) (rows @ [r])"
  by (auto simp: keys_below_def sorted_wrt_append less_Suc_eq)

lemma keys_below_cong:
  assumes "map key rows = map key rows'"
  shows "keys_below key n rows = keys_below key n rows'"
proof -
  have "keys_below key n xs \<longleftrightarrow> 0 < n \<and> sorted_wrt (<) (map key xs) \<and> (\<forall>k \<in> set (map key xs). 0 < k \<and> k < n)" for xs
    by (simp add: keys_below_def sorted_wrt_map)
  with assms show ?thesis by (simp only:)
qed

lemma keys_below_update:
  assumes "\<And>r. key (f r) = key r" and "keys_below key n rows"
  shows "keys_below key n (update_rows P f rows)"
  using assms unfolding keys_below_def update_rows_def
  by (auto simp: sorted_wrt_map intro: sorted_wrt_mono_rel [rotated])

lemma keys_below_sorted: "keys_below key n rows \<Longrightarrow> sorted (map key rows)"
  unfolding keys_below_def
  by (induction rows) (auto simp: order.strict_implies_order)

lemma set_update_rows: "set (update_rows P f rows) = {if P r then f r else r | r. r \<in> set rows}"
  by (auto simp: update_rows_def)

lemma update_rows_mem: "r \<in> set rows \<Longrightarrow> (if P r then f r else r) \<in> set (update_rows P f rows)"
  by (auto simp: update_rows_def)

lemma by_id_mem: "by_id key i rows = Some r \<Longrightarrow> i \<in> key ` set rows"
  by (auto dest!: by_id_Some)

lemma map_update_rows:
  "(\<And>r. r \<in> set rows \<Longrightarrow> P r \<Longrightarrow> f (g r) = f r) \<Longrightarrow> map f (update_rows P g rows) = map f rows"
  by (simp add: update_rows_def)

lemma distinct_update_rows:
  assumes "distinct (map key rows)" "distinct (map f rows)" "\<forall>r \<in> set rows. key r \<noteq> i \<longrightarrow> f r \<noteq> f row"
  shows "distinct (map f (update_rows (\<lambda>r. key r = i) (\<lambda>_. row) rows))"
  using assms
proof (induction rows)
  case (Cons q qs)
  have tail: "i \<notin> key ` set qs \<Longrightarrow> map f (update_rows (\<lambda>r. key r = i) (\<lambda>_. row) qs) = map f qs"
    by (rule map_update_rows) auto
  from Cons show ?case
    by (cases "key q = i") (auto simp: update_rows_def image_iff tail [unfolded update_rows_def])
qed (simp add: update_rows_def)

lemma length_update_rows [simp]: "length (update_rows P f rows) = length rows"
  by (simp add: update_rows_def)

lemma set_order_desc [simp]: "set (order_desc key rows) = set rows"
  by (simp add: order_desc_def)

lemma length_order_desc [simp]: "length (order_desc key rows) = length rows"
  by (simp add: order_desc_def)

lemma order_empty [simp]: "order_desc key rows = [] \<longleftrightarrow> rows = []" "order_asc key rows = [] \<longleftrightarrow> rows = []"
  by (metis length_0_conv length_order_desc) (metis length_0_conv length_sort order_asc_def)

lemma sort_key_ascending: "keys_below key n rows \<Longrightarrow> sort_key key (filter P rows) = filter P rows"
  using keys_below_sorted sorted_map_same [of key]
  by (metis (no_types, lifting) sort_key_id_if_sorted sorted_filter)

lemma first_row_Some: "first_row rows = Some r \<Longrightarrow> r \<in> set rows"
  by (auto simp: first_row_def split: list.splits)

lemma first_row_None [simp]: "first_row rows = None \<longleftrightarrow> rows = []"
  by (simp add: first_row_def split: list.splits)

lemma first_order_desc_max:
  assumes "first_row (order_desc key rows) = Some r"
  shows "r \<in> set rows" and "\<forall>q \<in> set rows. key q \<le> key r"
proof -
  from assms obtain qs where qs: "rev (sort_key key rows) = r # qs"
    by (auto simp: first_row_def order_desc_def split: list.splits)
  then have s: "sort_key key rows = rev qs @ [r]" by (metis rev.simps(2) rev_rev_ident)
  have "sorted (map key (sort_key key rows))" by simp
  then have "\<forall>q \<in> set qs. key q \<le> key r" unfolding s by (auto simp: sorted_append)
  moreover have "set rows = insert r (set qs)"
    using s by (metis set_append set_rev set_sort list.set(1,2) Un_insert_right sup_bot_right)
  ultimately show "r \<in> set rows" and "\<forall>q \<in> set rows. key q \<le> key r" by auto
qed

section \<open>Answers of the database\<close>

definition duplicate_entry :: string where
  "duplicate_entry = ''Error 1062 (23000): Duplicate entry''"

definition foreign_key_fails :: string where
  "foreign_key_fails = ''Error 1452 (23000): a foreign key constraint fails''"

end
