(* ===== verification/Chat_Store.thy ===== *)
theory Chat_Store
  imports Prelude
begin

text \<open>
  The data model (\<^verbatim>\<open>services/chat-service/internal/model/model.go\<close>) and the repositories
  (\<^verbatim>\<open>services/chat-service/internal/repository/repository.go\<close>) of chat-service.

  A \<open>world\<close> holds the three tables, their auto-increment counters, the message bus as the log of
  what was published on it, the number of outbox wake-ups sent, the flag \<open>outboxNotifyState\<close> of the
  running transaction and the auto-close timers.  What the
  repositories and the clock answer beyond the tables is not in the repository's sources and comes
  from an \<open>env\<close>: every call of the database, of the bus and of the clock consumes one tick, and at
  each tick \<open>db_fault\<close> and \<open>bus_fault\<close> say whether the call fails, \<open>clock\<close> what time it is and
  \<open>locked\<close> which outbox rows another transaction holds.  \<open>collate\<close> is the collation of the text
  columns: two values are equal in a \<^verbatim>\<open>WHERE\<close> clause or a unique index iff their collation keys
  are.  All theorems hold for every such environment, so for every pattern of failures.
\<close>

section \<open>Data model\<close>

datatype chat_sentinel =
    RepoNotFound
  | ErrConversationNotFound
  | ErrConversationAlreadyClaimed
  | ErrConversationUnassigned
  | ErrConversationClosed
  | ErrConversationTransferPending
  | ErrConversationTransferNotPending
  | ErrMessageNotFound
  | ErrForbidden

type_synonym cerr = "chat_sentinel goerr"

record conversation =
  conv_ID :: uint64
  conv_SiteID :: string
  conv_VisitorToken :: string
  conv_Status :: string
  conv_AssignedAgentID :: "uint64 option"
  conv_PendingTransferToAgentID :: "uint64 option"
  conv_PendingTransferFromAgentID :: "uint64 option"
  conv_PendingTransferRequestedAt :: "time option"
  conv_CreatedAt :: time
  conv_UpdatedAt :: time
  conv_ClosedAt :: "time option"
  conv_ClosedByAgentID :: "uint64 option"

record message =
  msg_ID :: uint64
  msg_ConversationID :: uint64
  msg_SenderType :: string
  msg_SenderID :: string
  msg_Content :: string
  msg_ClientMsgID :: string
  msg_Status :: string
  msg_CreatedAt :: time
  msg_UpdatedAt :: time

text \<open>The JSON documents that are put on the bus, before they are serialised.\<close>

datatype payload =
    message_new uint64 message
  | message_status uint64 string uint64 string
  | conversation_closed uint64 string

record event_outbox =
  ob_ID :: uint64
  ob_ConversationID :: uint64
  ob_EventType :: string
  ob_Payload :: payload
  ob_Status :: string
  ob_Attempts :: nat
  ob_LastError :: string
  ob_ProcessingAt :: "time option"
  ob_NextRetryAt :: "time option"
  ob_PublishedAt :: "time option"
  ob_CreatedAt :: time
  ob_UpdatedAt :: time

definition OutboxStatusPending :: string where "OutboxStatusPending = ''pending''"
definition OutboxStatusProcessing :: string where "OutboxStatusProcessing = ''processing''"
definition OutboxStatusPublished :: string where "OutboxStatusPublished = ''published''"
definition OutboxStatusDead :: string where "OutboxStatusDead = ''dead''"

lemmas outbox_status_defs =
  OutboxStatusPending_def OutboxStatusProcessing_def OutboxStatusPublished_def OutboxStatusDead_def

record database =
  conversations :: "conversation list"
  messages :: "message list"
  outbox :: "event_outbox list"

record world =
  db :: database
  conversation_seq :: uint64
  message_seq :: uint64
  outbox_seq :: uint64
  tick :: nat
  bus :: "(uint64 \<times> payload) list"
  wakeups :: nat
  shouldNotify :: bool
  timers :: "uint64 \<rightharpoonup> time"

record env =
  clock :: "nat \<Rightarrow> time"
  db_fault :: "nat \<Rightarrow> string option"
  bus_fault :: "nat \<Rightarrow> string option"
  locked :: "nat \<Rightarrow> uint64 \<Rightarrow> bool"
  collate :: "string \<Rightarrow> string"

definition empty_world :: world where
  "empty_world =
     \<lparr>db = \<lparr>conversations = [], messages = [], outbox = []\<rparr>,
      conversation_seq = 1, message_seq = 1, outbox_seq = 1,
      tick = 0, bus = [], wakeups = 0, shouldNotify = False, timers = Map.empty\<rparr>"

section \<open>Calls to the outside\<close>

definition advance :: "world \<Rightarrow> world" where
  "advance w = w\<lparr>tick := Suc (tick w)\<rparr>"

definition db_call :: "env \<Rightarrow> world \<Rightarrow> string option \<times> world" where
  "db_call e w = (db_fault e (tick w), advance w)"

definition Now :: "env \<Rightarrow> world \<Rightarrow> time \<times> world" where
  "Now e w = (clock e (tick w), advance w)"

definition bus_call :: "env \<Rightarrow> world \<Rightarrow> string option \<times> world" where
  "bus_call e w = (bus_fault e (tick w), advance w)"

definition sql_eq :: "env \<Rightarrow> string \<Rightarrow> string \<Rightarrow> bool" where
  "sql_eq e a b \<longleftrightarrow> collate e a = collate e b"

section \<open>Transactions\<close>

text \<open>
  \<open>db.Transaction\<close> of the driver: begin, run the body, roll the tables back when the body fails,
  otherwise commit.  The counters, the bus and the timers are not part of the transaction.
\<close>

definition in_transaction ::
  "env \<Rightarrow> (world \<Rightarrow> (cerr + 'a) \<times> world) \<Rightarrow> world \<Rightarrow> (cerr + 'a) \<times> world" where
  "in_transaction e body w =
     (case db_call e w of
        (Some err, w1) \<Rightarrow> (Inl (Text err), w1)
      | (None, w1) \<Rightarrow>
          (case body w1 of
             (Inl err, w2) \<Rightarrow> (Inl err, w2\<lparr>db := db w1\<rparr>)
           | (Inr a, w2) \<Rightarrow>
               (case db_call e w2 of
                  (Some err, w3) \<Rightarrow> (Inl (Text err), w3\<lparr>db := db w1\<rparr>)
                | (None, w3) \<Rightarrow> (Inr a, w3))))"

section \<open>GormConversationRepository\<close>

definition Create_conversation :: "env \<Rightarrow> conversation \<Rightarrow> world \<Rightarrow> (cerr + conversation) \<times> world" where
  "Create_conversation e c w =
     (case db_call e w of
        (Some err, w1) \<Rightarrow> (Inl (Text err), w1)
      | (None, w1) \<Rightarrow>
          let (now, w2) = Now e w1;
              row = c\<lparr>conv_ID := conversation_seq w2, conv_CreatedAt := now, conv_UpdatedAt := now\<rparr>
          in (Inr row,
              w2\<lparr>db := (db w2)\<lparr>conversations := conversations (db w2) @ [row]\<rparr>,
                 conversation_seq := Suc (conversation_seq w2)\<rparr>))"

definition GetByID :: "env \<Rightarrow> uint64 \<Rightarrow> world \<Rightarrow> (cerr + conversation) \<times> world" where
  "GetByID e i w =
     (case db_call e w of
        (Some err, w1) \<Rightarrow> (Inl (Text err), w1)
      | (None, w1) \<Rightarrow>
          (case by_id conv_ID i (conversations (db w1)) of
             None \<Rightarrow> (Inl (Sentinel RepoNotFound), w1)
           | Some c \<Rightarrow> (Inr c, w1)))"

definition GetLatestOpenBySiteVisitor ::
  "env \<Rightarrow> string \<Rightarrow> string \<Rightarrow> world \<Rightarrow> (cerr + conversation) \<times> world" where
  "GetLatestOpenBySiteVisitor e siteID visitorToken w =
     (case db_call e w of
        (Some err, w1) \<Rightarrow> (Inl (Text err), w1)
      | (None, w1) \<Rightarrow>
          (case first_row (order_desc conv_ID
                  (filter (\<lambda>c. sql_eq e (conv_SiteID c) siteID
                             \<and> sql_eq e (conv_VisitorToken c) visitorToken
                             \<and> conv_Status c = ''open'') (conversations (db w1)))) of
             None \<Rightarrow> (Inl (Sentinel RepoNotFound), w1)
           | Some c \<Rightarrow> (Inr c, w1)))"

record ListConversationsFilter =
  flt_Status :: string
  flt_SiteID :: string
  flt_AssignedAgentID :: "uint64 option"
  flt_UnassignedOnly :: bool
  flt_Limit :: nat
  flt_Offset :: nat

definition filter_matches :: "env \<Rightarrow> ListConversationsFilter \<Rightarrow> conversation \<Rightarrow> bool" where
  "filter_matches e f c \<longleftrightarrow>
     (flt_Status f \<noteq> '''' \<longrightarrow> conv_Status c = flt_Status f)
   \<and> (flt_SiteID f \<noteq> '''' \<longrightarrow> sql_eq e (conv_SiteID c) (flt_SiteID f))
   \<and> (case flt_AssignedAgentID f of None \<Rightarrow> True | Some a \<Rightarrow> conv_AssignedAgentID c = Some a)
   \<and> (flt_UnassignedOnly f \<longrightarrow> conv_AssignedAgentID c = None)"

definition List_conversations ::
  "env \<Rightarrow> ListConversationsFilter \<Rightarrow> world \<Rightarrow> (cerr + conversation list) \<times> world" where
  "List_conversations e f w =
     (case db_call e w of
        (Some err, w1) \<Rightarrow> (Inl (Text err), w1)
      | (None, w1) \<Rightarrow>
          (Inr (take (flt_Limit f) (drop (flt_Offset f)
             (order_desc conv_ID (filter (filter_matches e f) (conversations (db w1)))))), w1))"

text \<open>
  A mutation receives the locked row and answers with the row it wants stored, whether it changed
  it, and the variables it captured; it may itself read the database.
\<close>

type_synonym 'a mutation = "conversation \<Rightarrow> world \<Rightarrow> (cerr + conversation \<times> bool \<times> 'a) \<times> world"

definition save_conversation :: "conversation \<Rightarrow> world \<Rightarrow> world" where
  "save_conversation c w =
     w\<lparr>db := (db w)\<lparr>conversations :=
        update_rows (\<lambda>r. conv_ID r = conv_ID c) (\<lambda>_. c) (conversations (db w))\<rparr>\<rparr>"

definition mutateInDB ::
  "env \<Rightarrow> uint64 \<Rightarrow> 'a mutation \<Rightarrow> world \<Rightarrow> (cerr + conversation \<times> bool \<times> 'a) \<times> world" where
  "mutateInDB e i mutation w =
     (case db_call e w of
        (Some err, w1) \<Rightarrow> (Inl (Text err), w1)
      | (None, w1) \<Rightarrow>
          (case by_id conv_ID i (conversations (db w1)) of
             None \<Rightarrow> (Inl (Sentinel RepoNotFound), w1)
           | Some c \<Rightarrow>
               (case mutation c w1 of
                  (Inl err, w2) \<Rightarrow> (Inl err, w2)
                | (Inr (c', changed, a), w2) \<Rightarrow>
                    if changed then
                      (case db_call e w2 of
                         (Some err, w3) \<Rightarrow> (Inl (Text err), w3)
                       | (None, w3) \<Rightarrow>
                           let (now, w4) = Now e w3; c'' = c'\<lparr>conv_UpdatedAt := now\<rparr>
                           in (Inr (c'', changed, a), save_conversation c'' w4))
                    else (Inr (c', changed, a), w2))))"

definition Mutate ::
  "env \<Rightarrow> bool \<Rightarrow> uint64 \<Rightarrow> 'a mutation \<Rightarrow> world \<Rightarrow> (cerr + conversation \<times> bool \<times> 'a) \<times> world" where
  "Mutate e inTx i mutation w =
     (if inTx then mutateInDB e i mutation w else in_transaction e (mutateInDB e i mutation) w)"

section \<open>GormMessageRepository\<close>

definition Create_message :: "env \<Rightarrow> message \<Rightarrow> world \<Rightarrow> (cerr + message) \<times> world" where
  "Create_message e m w =
     (case db_call e w of
        (Some err, w1) \<Rightarrow> (Inl (Text err), w1)
      | (None, w1) \<Rightarrow>
          if \<exists>r \<in> set (messages (db w1)). msg_ConversationID r = msg_ConversationID m
                \<and> sql_eq e (msg_ClientMsgID r) (msg_ClientMsgID m)
          then (Inl (Text duplicate_entry), w1)
          else if by_id conv_ID (msg_ConversationID m) (conversations (db w1)) = None
          then (Inl (Text foreign_key_fails), w1)
          else
            let (now, w2) = Now e w1;
                row = m\<lparr>msg_ID := message_seq w2, msg_CreatedAt := now, msg_UpdatedAt := now\<rparr>
            in (Inr row,
                w2\<lparr>db := (db w2)\<lparr>messages := messages (db w2) @ [row]\<rparr>,
                   message_seq := Suc (message_seq w2)\<rparr>))"

definition GetByClientMsgID ::
  "env \<Rightarrow> uint64 \<Rightarrow> string \<Rightarrow> world \<Rightarrow> (cerr + message) \<times> world" where
  "GetByClientMsgID e conversationID clientMsgID w =
     (case db_call e w of
        (Some err, w1) \<Rightarrow> (Inl (Text err), w1)
      | (None, w1) \<Rightarrow>
          (case first_row (order_asc msg_ID
                  (filter (\<lambda>m. msg_ConversationID m = conversationID
                             \<and> sql_eq e (msg_ClientMsgID m) clientMsgID) (messages (db w1)))) of
             None \<Rightarrow> (Inl (Sentinel RepoNotFound), w1)
           | Some m \<Rightarrow> (Inr m, w1)))"

definition GetMessageByID :: "env \<Rightarrow> uint64 \<Rightarrow> uint64 \<Rightarrow> world \<Rightarrow> (cerr + message) \<times> world" where
  "GetMessageByID e conversationID messageID w =
     (case db_call e w of
        (Some err, w1) \<Rightarrow> (Inl (Text err), w1)
      | (None, w1) \<Rightarrow>
          (case first_row (order_asc msg_ID
                  (filter (\<lambda>m. msg_ConversationID m = conversationID \<and> msg_ID m = messageID)
                     (messages (db w1)))) of
             None \<Rightarrow> (Inl (Sentinel RepoNotFound), w1)
           | Some m \<Rightarrow> (Inr m, w1)))"

definition GetLatestByConversation :: "env \<Rightarrow> uint64 \<Rightarrow> world \<Rightarrow> (cerr + message) \<times> world" where
  "GetLatestByConversation e conversationID w =
     (case db_call e w of
        (Some err, w1) \<Rightarrow> (Inl (Text err), w1)
      | (None, w1) \<Rightarrow>
          (case first_row (order_desc msg_ID
                  (filter (\<lambda>m. msg_ConversationID m = conversationID) (messages (db w1)))) of
             None \<Rightarrow> (Inl (Sentinel RepoNotFound), w1)
           | Some m \<Rightarrow> (Inr m, w1)))"

definition GetLatestByConversationExcludingSystem ::
  "env \<Rightarrow> uint64 \<Rightarrow> world \<Rightarrow> (cerr + message) \<times> world" where
  "GetLatestByConversationExcludingSystem e conversationID w =
     (case db_call e w of
        (Some err, w1) \<Rightarrow> (Inl (Text err), w1)
      | (None, w1) \<Rightarrow>
          (case first_row (order_desc msg_ID
                  (filter (\<lambda>m. msg_ConversationID m = conversationID \<and> msg_SenderType m \<noteq> ''system'')
                     (messages (db w1)))) of
             None \<Rightarrow> (Inl (Sentinel RepoNotFound), w1)
           | Some m \<Rightarrow> (Inr m, w1)))"

definition ListByConversation ::
  "env \<Rightarrow> uint64 \<Rightarrow> nat \<Rightarrow> uint64 \<Rightarrow> world \<Rightarrow> (cerr + message list) \<times> world" where
  "ListByConversation e conversationID limit beforeID w =
     (case db_call e w of
        (Some err, w1) \<Rightarrow> (Inl (Text err), w1)
      | (None, w1) \<Rightarrow>
          (Inr (take limit (order_desc msg_ID
             (filter (\<lambda>m. msg_ConversationID m = conversationID \<and> (beforeID > 0 \<longrightarrow> msg_ID m < beforeID))
                (messages (db w1))))), w1))"

definition unread_by :: "uint64 \<Rightarrow> string \<Rightarrow> uint64 \<Rightarrow> message \<Rightarrow> bool" where
  "unread_by conversationID senderType lastReadMessageID m \<longleftrightarrow>
     msg_ConversationID m = conversationID \<and> msg_SenderType m = senderType
   \<and> msg_ID m \<le> lastReadMessageID \<and> msg_Status m = ''sent''"

definition MarkReadByConversationAndSender ::
  "env \<Rightarrow> uint64 \<Rightarrow> string \<Rightarrow> uint64 \<Rightarrow> world \<Rightarrow> (cerr + nat) \<times> world" where
  "MarkReadByConversationAndSender e conversationID senderType lastReadMessageID w =
     (case db_call e w of
        (Some err, w1) \<Rightarrow> (Inl (Text err), w1)
      | (None, w1) \<Rightarrow>
          let (now, w2) = Now e w1;
              P = unread_by conversationID senderType lastReadMessageID
          in (Inr (length (filter P (messages (db w2)))),
              w2\<lparr>db := (db w2)\<lparr>messages :=
                 update_rows P (\<lambda>m. m\<lparr>msg_Status := ''read'', msg_UpdatedAt := now\<rparr>) (messages (db w2))\<rparr>\<rparr>))"

section \<open>GormEventOutboxRepository\<close>

definition Create_event :: "env \<Rightarrow> event_outbox \<Rightarrow> world \<Rightarrow> (cerr + event_outbox) \<times> world" where
  "Create_event e ev w =
     (case db_call e w of
        (Some err, w1) \<Rightarrow> (Inl (Text err), w1)
      | (None, w1) \<Rightarrow>
          if by_id conv_ID (ob_ConversationID ev) (conversations (db w1)) = None
          then (Inl (Text foreign_key_fails), w1)
          else
            let (now, w2) = Now e w1;
                row = ev\<lparr>ob_ID := outbox_seq w2, ob_CreatedAt := now, ob_UpdatedAt := now\<rparr>
            in (Inr row,
                w2\<lparr>db := (db w2)\<lparr>outbox := outbox (db w2) @ [row]\<rparr>,
                   outbox_seq := Suc (outbox_seq w2)\<rparr>))"

definition update_outbox :: "(event_outbox \<Rightarrow> bool) \<Rightarrow> (event_outbox \<Rightarrow> event_outbox) \<Rightarrow> world \<Rightarrow> world" where
  "update_outbox P f w = w\<lparr>db := (db w)\<lparr>outbox := update_rows P f (outbox (db w))\<rparr>\<rparr>"

definition retryable :: "time \<Rightarrow> event_outbox \<Rightarrow> bool" where
  "retryable retryableBefore ev \<longleftrightarrow>
     ob_Status ev = OutboxStatusPending
   \<and> (case ob_NextRetryAt ev of None \<Rightarrow> True | Some t \<Rightarrow> t \<le> retryableBefore)"

definition start_processing :: "time \<Rightarrow> event_outbox \<Rightarrow> event_outbox" where
  "start_processing now ev =
     ev\<lparr>ob_Status := OutboxStatusProcessing, ob_Attempts := Suc (ob_Attempts ev),
        ob_ProcessingAt := Some now\<rparr>"

text \<open>The batch of a fetch: the oldest retryable rows that no other transaction has locked.\<close>

definition fetch_batch :: "env \<Rightarrow> nat \<Rightarrow> int \<Rightarrow> time \<Rightarrow> event_outbox list \<Rightarrow> event_outbox list" where
  "fetch_batch e n limit retryableBefore evs =
     take (nat (if limit \<le> 0 then 100 else limit))
       (order_asc ob_ID (filter (\<lambda>ev. retryable retryableBefore ev \<and> \<not> locked e n (ob_ID ev)) evs))"

definition fetch_pending_body ::
  "env \<Rightarrow> int \<Rightarrow> time \<Rightarrow> world \<Rightarrow> (cerr + event_outbox list) \<times> world" where
  "fetch_pending_body e limit retryableBefore w =
     (case db_call e w of
        (Some err, w1) \<Rightarrow> (Inl (Text err), w1)
      | (None, w1) \<Rightarrow>
          let items = fetch_batch e (tick w1) limit retryableBefore (outbox (db w1)) in
          if items = [] then (Inr [], w1)
          else
            (case Now e w1 of
               (now, w2) \<Rightarrow>
                 (case db_call e w2 of
                    (Some err, w3) \<Rightarrow> (Inl (Text err), w3)
                  | (None, w3) \<Rightarrow>
                      (Inr (map (start_processing now) items),
                       update_outbox (\<lambda>ev. ob_ID ev \<in> set (map ob_ID items))
                         (\<lambda>ev. (start_processing now ev)\<lparr>ob_UpdatedAt := now\<rparr>) w3))))"

definition FetchPendingForUpdate ::
  "env \<Rightarrow> int \<Rightarrow> time \<Rightarrow> world \<Rightarrow> (cerr + event_outbox list) \<times> world" where
  "FetchPendingForUpdate e limit retryableBefore =
     in_transaction e (fetch_pending_body e limit retryableBefore)"

definition mark_event ::
  "env \<Rightarrow> uint64 \<Rightarrow> (event_outbox \<Rightarrow> event_outbox) \<Rightarrow> world \<Rightarrow> (cerr + unit) \<times> world" where
  "mark_event e i f w =
     (case db_call e w of
        (Some err, w1) \<Rightarrow> (Inl (Text err), w1)
      | (None, w1) \<Rightarrow> (Inr (), update_outbox (\<lambda>ev. ob_ID ev = i) f w1))"

definition MarkPublished :: "env \<Rightarrow> uint64 \<Rightarrow> time \<Rightarrow> world \<Rightarrow> (cerr + unit) \<times> world" where
  "MarkPublished e i publishedAt =
     mark_event e i (\<lambda>ev. ev\<lparr>ob_Status := OutboxStatusPublished, ob_PublishedAt := Some publishedAt,
        ob_ProcessingAt := None, ob_NextRetryAt := None, ob_LastError := '''',
        ob_UpdatedAt := publishedAt\<rparr>)"

definition MarkForRetry :: "env \<Rightarrow> uint64 \<Rightarrow> time \<Rightarrow> string \<Rightarrow> world \<Rightarrow> (cerr + unit) \<times> world" where
  "MarkForRetry e i nextRetryAt lastError w =
     (let (now, w1) = Now e w in
      mark_event e i (\<lambda>ev. ev\<lparr>ob_Status := OutboxStatusPending, ob_ProcessingAt := None,
        ob_NextRetryAt := Some nextRetryAt, ob_LastError := lastError, ob_UpdatedAt := now\<rparr>) w1)"

definition MarkDead :: "env \<Rightarrow> uint64 \<Rightarrow> string \<Rightarrow> world \<Rightarrow> (cerr + unit) \<times> world" where
  "MarkDead e i lastError w =
     (let (now, w1) = Now e w in
      mark_event e i (\<lambda>ev. ev\<lparr>ob_Status := OutboxStatusDead, ob_ProcessingAt := None,
        ob_NextRetryAt := None, ob_LastError := lastError, ob_UpdatedAt := now\<rparr>) w1)"

definition ReplayDead_repo :: "env \<Rightarrow> int \<Rightarrow> world \<Rightarrow> (cerr + nat) \<times> world" where
  "ReplayDead_repo e limit w =
     (let (now, w1) = Now e w in
      case db_call e w1 of
        (Some err, w2) \<Rightarrow> (Inl (Text err), w2)
      | (None, w2) \<Rightarrow>
          let ids = map ob_ID (take (nat (if limit \<le> 0 then 100 else limit))
                (order_asc ob_ID (filter (\<lambda>ev. ob_Status ev = OutboxStatusDead) (outbox (db w2)))))
          in (Inr (length ids),
              update_outbox (\<lambda>ev. ob_ID ev \<in> set ids)
                (\<lambda>ev. ev\<lparr>ob_Status := OutboxStatusPending, ob_ProcessingAt := None,
                   ob_NextRetryAt := Some now, ob_LastError := '''', ob_UpdatedAt := now\<rparr>) w2))"

definition stale :: "time \<Rightarrow> event_outbox \<Rightarrow> bool" where
  "stale staleBefore ev \<longleftrightarrow>
     ob_Status ev = OutboxStatusProcessing
   \<and> (case ob_ProcessingAt ev of None \<Rightarrow> False | Some t \<Rightarrow> t \<le> staleBefore)"

definition RequeueStaleProcessing :: "env \<Rightarrow> time \<Rightarrow> world \<Rightarrow> (cerr + nat) \<times> world" where
  "RequeueStaleProcessing e staleBefore w =
     (let (now, w1) = Now e w in
      case db_call e w1 of
        (Some err, w2) \<Rightarrow> (Inl (Text err), w2)
      | (None, w2) \<Rightarrow>
          (Inr (length (filter (stale staleBefore) (outbox (db w2)))),
           update_outbox (stale staleBefore)
             (\<lambda>ev. ev\<lparr>ob_Status := OutboxStatusPending, ob_ProcessingAt := None,
                ob_NextRetryAt := Some now, ob_UpdatedAt := now\<rparr>) w2))"

end
