(* ===== verification/Conversation_Machine.thy ===== *)
theory Conversation_Machine
  imports Chat_Store
begin

text \<open>
  The life cycle of a conversation.  The abstract machine has the four phases of
  \<^verbatim>\<open>docs/backend/conversation-state-machine.md\<close>; \<open>phase_step\<close> are its transitions.  The row
  mutations are the closures that \<^verbatim>\<open>chat_service.go\<close> and \<^verbatim>\<open>auto_close_scheduler.go\<close> hand to
  \<open>ConversationRepository.Mutate\<close>.  The locale \<open>row_mutation\<close> is the contract between such a closure
  and the repository; each closure is an interpretation of it.
\<close>

section \<open>Phases\<close>

datatype phase =
    OpenUnassigned
  | OpenAssigned uint64
  | OpenTransferPending uint64 uint64
  | Closed

inductive phase_step :: "phase \<Rightarrow> phase \<Rightarrow> bool" where
  claim: "phase_step OpenUnassigned (OpenAssigned a)"
| transfer: "a \<noteq> b \<Longrightarrow> phase_step (OpenAssigned a) (OpenTransferPending a b)"
| confirm: "phase_step (OpenTransferPending a b) (OpenAssigned b)"
| reject: "phase_step (OpenTransferPending a b) (OpenAssigned a)"
| close: "p \<noteq> Closed \<Longrightarrow> phase_step p Closed"

inductive_cases phase_step_from_Closed [elim!]: "phase_step Closed p"
inductive_simps phase_step_simps: "phase_step p q"

lemma Closed_is_final: "phase_step\<^sup>*\<^sup>* Closed p \<Longrightarrow> p = Closed"
  by (induction rule: rtranclp_induct) auto

definition phase_of :: "conversation \<Rightarrow> phase" where
  "phase_of c =
     (if conv_Status c \<noteq> ''open'' then Closed
      else case conv_AssignedAgentID c of
          None \<Rightarrow> OpenUnassigned
        | Some a \<Rightarrow>
            (case conv_PendingTransferToAgentID c of
               None \<Rightarrow> OpenAssigned a
             | Some b \<Rightarrow> OpenTransferPending a b))"

lemma phase_of_Closed [simp]: "phase_of c = Closed \<longleftrightarrow> conv_Status c \<noteq> ''open''"
  by (auto simp: phase_of_def split: option.splits)

definition conv_wf :: "conversation \<Rightarrow> bool" where
  "conv_wf c \<longleftrightarrow>
     (conv_Status c = ''open'' \<or> conv_Status c = ''closed'')
   \<and> (conv_Status c = ''closed'' \<longleftrightarrow> conv_ClosedAt c \<noteq> None)
   \<and> (conv_Status c = ''open'' \<longrightarrow> conv_ClosedByAgentID c = None)
   \<and> (case conv_PendingTransferToAgentID c of
        None \<Rightarrow> conv_PendingTransferFromAgentID c = None \<and> conv_PendingTransferRequestedAt c = None
      | Some b \<Rightarrow> (\<exists>a. a \<noteq> b \<and> conv_AssignedAgentID c = Some a \<and> conv_PendingTransferFromAgentID c = Some a)
                 \<and> conv_PendingTransferRequestedAt c \<noteq> None)"

definition same_identity :: "conversation \<Rightarrow> conversation \<Rightarrow> bool" where
  "same_identity c c' \<longleftrightarrow>
     conv_ID c' = conv_ID c \<and> conv_SiteID c' = conv_SiteID c
   \<and> conv_VisitorToken c' = conv_VisitorToken c \<and> conv_CreatedAt c' = conv_CreatedAt c"

section \<open>The row mutations\<close>

definition isAdmin :: "string \<Rightarrow> bool" where
  "isAdmin actorRole \<longleftrightarrow> actorRole = ''admin'' \<or> actorRole = ''super_admin''"

definition clear_transfer :: "conversation \<Rightarrow> conversation" where
  "clear_transfer c =
     c\<lparr>conv_PendingTransferToAgentID := None, conv_PendingTransferFromAgentID := None,
       conv_PendingTransferRequestedAt := None\<rparr>"

definition claim_mutation :: "uint64 \<Rightarrow> time \<Rightarrow> conversation \<Rightarrow> cerr + conversation \<times> bool \<times> unit" where
  "claim_mutation agentID now c =
     (if conv_Status c \<noteq> ''open'' then Inl (Sentinel ErrConversationClosed)
      else case conv_AssignedAgentID c of
          Some a \<Rightarrow>
            if a = agentID then Inr (c, False, ())
            else Inl (Sentinel ErrConversationAlreadyClaimed)
        | None \<Rightarrow> Inr (clear_transfer (c\<lparr>conv_AssignedAgentID := Some agentID\<rparr>), True, ()))"

text \<open>The captured variable is \<open>targetAgentID\<close>.\<close>

definition transfer_mutation ::
  "string \<Rightarrow> uint64 \<Rightarrow> uint64 \<Rightarrow> time \<Rightarrow> conversation \<Rightarrow> cerr + conversation \<times> bool \<times> uint64" where
  "transfer_mutation actorRole actorAgentID toAgentID now c =
     (if conv_Status c \<noteq> ''open'' then Inl (Sentinel ErrConversationClosed)
      else case conv_AssignedAgentID c of
          None \<Rightarrow> Inl (Sentinel ErrConversationUnassigned)
        | Some owner \<Rightarrow>
            if \<not> isAdmin actorRole \<and> owner \<noteq> actorAgentID then Inl (Sentinel ErrForbidden)
            else if owner = toAgentID then Inr (c, False, 0)
            else case conv_PendingTransferToAgentID c of
                Some b \<Rightarrow>
                  if b = toAgentID then Inr (c, False, 0)
                  else Inl (Sentinel ErrConversationTransferPending)
              | None \<Rightarrow>
                  Inr (c\<lparr>conv_PendingTransferToAgentID := Some toAgentID,
                         conv_PendingTransferFromAgentID := Some owner,
                         conv_PendingTransferRequestedAt := Some now\<rparr>, True, toAgentID))"

definition confirm_mutation ::
  "string \<Rightarrow> uint64 \<Rightarrow> time \<Rightarrow> conversation \<Rightarrow> cerr + conversation \<times> bool \<times> uint64" where
  "confirm_mutation actorRole actorAgentID now c =
     (if conv_Status c \<noteq> ''open'' then Inl (Sentinel ErrConversationClosed)
      else case conv_PendingTransferToAgentID c of
          None \<Rightarrow> Inl (Sentinel ErrConversationTransferNotPending)
        | Some acceptedBy \<Rightarrow>
            if \<not> isAdmin actorRole \<and> acceptedBy \<noteq> actorAgentID then Inl (Sentinel ErrForbidden)
            else Inr (clear_transfer (c\<lparr>conv_AssignedAgentID := Some acceptedBy\<rparr>), True, acceptedBy))"

text \<open>The captured variables are \<open>ownerAgentID\<close> (0 when there is none) and \<open>targetAgentID\<close>.\<close>

definition reject_mutation ::
  "string \<Rightarrow> uint64 \<Rightarrow> time \<Rightarrow> conversation \<Rightarrow> cerr + conversation \<times> bool \<times> (uint64 \<times> uint64)" where
  "reject_mutation actorRole actorAgentID now c =
     (if conv_Status c \<noteq> ''open'' then Inl (Sentinel ErrConversationClosed)
      else case conv_PendingTransferToAgentID c of
          None \<Rightarrow> Inl (Sentinel ErrConversationTransferNotPending)
        | Some target \<Rightarrow>
            if \<not> isAdmin actorRole \<and> target \<noteq> actorAgentID then Inl (Sentinel ErrForbidden)
            else
              let owner = (case conv_PendingTransferFromAgentID c of
                             Some a \<Rightarrow> a
                           | None \<Rightarrow> (case conv_AssignedAgentID c of Some a \<Rightarrow> a | None \<Rightarrow> 0))
              in Inr (clear_transfer c, True, (owner, target)))"

definition close_mutation ::
  "string \<Rightarrow> uint64 \<Rightarrow> time \<Rightarrow> conversation \<Rightarrow> cerr + conversation \<times> bool \<times> unit" where
  "close_mutation actorRole actorAgentID now c =
     (if conv_Status c = ''closed'' then Inr (c, False, ())
      else if \<not> isAdmin actorRole \<and> conv_AssignedAgentID c \<noteq> Some actorAgentID
      then Inl (Sentinel ErrForbidden)
      else Inr (clear_transfer (c\<lparr>conv_Status := ''closed'', conv_ClosedAt := Some now,
                  conv_ClosedByAgentID := Some actorAgentID\<rparr>), True, ()))"

text \<open>What both automatic closings write to the row; the pending-transfer columns are left as they are.\<close>

definition auto_closed_row :: "time \<Rightarrow> conversation \<Rightarrow> conversation" where
  "auto_closed_row now c =
     c\<lparr>conv_Status := ''closed'', conv_ClosedAt := Some now,
       conv_ClosedByAgentID := conv_AssignedAgentID c\<rparr>"

section \<open>The contract of a row mutation\<close>

definition only_ticks :: "world \<Rightarrow> world \<Rightarrow> bool" where
  "only_ticks w w' \<longleftrightarrow> (\<exists>n. w' = w\<lparr>tick := n\<rparr>)"

lemma only_ticks_refl [simp]: "only_ticks w w"
  unfolding only_ticks_def by (rule exI [of _ "tick w"]) simp

lemma only_ticks_trans: "only_ticks w w1 \<Longrightarrow> only_ticks w1 w2 \<Longrightarrow> only_ticks w w2"
  by (auto simp: only_ticks_def)

lemma only_ticks_advance [simp]: "only_ticks w (advance w)"
  by (auto simp: only_ticks_def advance_def)

lemma advance_frame [simp]:
  "db (advance w) = db w" "conversation_seq (advance w) = conversation_seq w"
  "message_seq (advance w) = message_seq w" "outbox_seq (advance w) = outbox_seq w"
  "bus (advance w) = bus w" "wakeups (advance w) = wakeups w" "timers (advance w) = timers w"
  "shouldNotify (advance w) = shouldNotify w"
  by (simp_all add: advance_def)

lemma only_ticks_advance2 [simp]: "only_ticks w (advance (advance w))"
  by (rule only_ticks_trans [OF only_ticks_advance only_ticks_advance])

lemma only_ticks_db_call: "db_call e w = (r, w') \<Longrightarrow> only_ticks w w'"
  by (auto simp: db_call_def)

lemma only_ticks_bus_call: "bus_call e w = (r, w') \<Longrightarrow> only_ticks w w'"
  by (auto simp: bus_call_def)

lemma only_ticks_Now: "Now e w = (t, w') \<Longrightarrow> only_ticks w w'"
  by (auto simp: Now_def)

lemma only_ticks_same [simp]:
  assumes "only_ticks w w'"
  shows "db w' = db w" "conversation_seq w' = conversation_seq w" "message_seq w' = message_seq w"
    "outbox_seq w' = outbox_seq w" "bus w' = bus w" "wakeups w' = wakeups w" "timers w' = timers w"
    "shouldNotify w' = shouldNotify w"
  using assms by (auto simp: only_ticks_def)

locale row_mutation =
  fixes m :: "'a mutation"
  assumes reads: "m c w = (r, w') \<Longrightarrow> only_ticks w w'"
    and identity: "m c w = (Inr (c', b, a), w') \<Longrightarrow> same_identity c c'"
    and quiet: "m c w = (Inr (c', False, a), w') \<Longrightarrow> c' = c"
    and wf: "conv_wf c \<Longrightarrow> m c w = (Inr (c', b, a), w') \<Longrightarrow> conv_wf c'"
    and step: "conv_wf c \<Longrightarrow> m c w = (Inr (c', True, a), w') \<Longrightarrow> phase_step (phase_of c) (phase_of c')"
begin

lemma closed_frozen:
  assumes "conv_wf c" and "conv_Status c \<noteq> ''open''" and "m c w = (Inr (c', b, a), w')"
  shows "\<not> b" and "c' = c"
proof -
  from assms(2) have "phase_of c = Closed" by simp
  with step [OF assms(1)] assms(3) show "\<not> b" by (cases b) auto
  with quiet assms(3) show "c' = c" by simp
qed

lemma phase_evolves:
  "conv_wf c \<Longrightarrow> m c w = (Inr (c', b, a), w') \<Longrightarrow> phase_step\<^sup>*\<^sup>* (phase_of c) (phase_of c')"
  by (cases b) (auto dest: step quiet)

end

text \<open>A mutation that only reads the clock.\<close>

definition timed :: "env \<Rightarrow> (time \<Rightarrow> conversation \<Rightarrow> cerr + conversation \<times> bool \<times> 'a) \<Rightarrow> 'a mutation" where
  "timed e f c w = (case Now e w of (now, w') \<Rightarrow> (f now c, w'))"

locale timed_mutation =
  fixes f :: "time \<Rightarrow> conversation \<Rightarrow> cerr + conversation \<times> bool \<times> 'a"
  assumes f_identity: "f t c = Inr (c', b, a) \<Longrightarrow> same_identity c c'"
    and f_quiet: "f t c = Inr (c', False, a) \<Longrightarrow> c' = c"
    and f_wf: "conv_wf c \<Longrightarrow> f t c = Inr (c', b, a) \<Longrightarrow> conv_wf c'"
    and f_step: "conv_wf c \<Longrightarrow> f t c = Inr (c', True, a) \<Longrightarrow> phase_step (phase_of c) (phase_of c')"

sublocale timed_mutation \<subseteq> row_mutation "timed e f" for e
proof
  fix c w r w' assume "timed e f c w = (r, w')"
  then show "only_ticks w w'" by (auto simp: timed_def only_ticks_Now split: prod.splits)
qed (auto simp: timed_def dest: f_identity f_quiet f_wf f_step split: prod.splits)

named_theorems mutation_defs \<open>the row mutations and what they are made of\<close>

lemmas [mutation_defs] =
  claim_mutation_def transfer_mutation_def confirm_mutation_def reject_mutation_def close_mutation_def
  clear_transfer_def same_identity_def Let_def

interpretation claim: timed_mutation "claim_mutation agentID" for agentID
  by unfold_locales
     (auto simp: mutation_defs conv_wf_def phase_of_def intro: phase_step.intros
        split: if_splits option.splits)

interpretation transfer: timed_mutation "transfer_mutation actorRole actorAgentID toAgentID"
  for actorRole actorAgentID toAgentID
  by unfold_locales
     (auto simp: mutation_defs conv_wf_def phase_of_def intro: phase_step.intros
        split: if_splits option.splits)

interpretation confirm: timed_mutation "confirm_mutation actorRole actorAgentID"
  for actorRole actorAgentID
  by unfold_locales
     (auto simp: mutation_defs conv_wf_def phase_of_def intro: phase_step.intros
        split: if_splits option.splits)

interpretation reject: timed_mutation "reject_mutation actorRole actorAgentID"
  for actorRole actorAgentID
  by unfold_locales
     (auto simp: mutation_defs conv_wf_def phase_of_def intro: phase_step.intros
        split: if_splits option.splits)

interpretation close: timed_mutation "close_mutation actorRole actorAgentID"
  for actorRole actorAgentID
  by unfold_locales
     (auto simp: mutation_defs conv_wf_def phase_of_def intro: phase_step.intros
        split: if_splits option.splits)

lemma auto_closed_row_contract:
  assumes "conv_wf c" and "conv_Status c = ''open''"
  shows "conv_wf (auto_closed_row now c)" and "same_identity c (auto_closed_row now c)"
    and "phase_step (phase_of c) (phase_of (auto_closed_row now c))"
  using assms
  by (auto simp: auto_closed_row_def conv_wf_def same_identity_def phase_of_def
      intro: phase_step.intros split: option.splits)

end
