(* ===== verification/Store_Laws.thy ===== *)
theory Store_Laws
  imports Conversation_Machine
begin

text \<open>
  The invariant of the store and the ways it may evolve.  \<open>evolves e w w'\<close> is a preorder: from a
  state with the invariant, the operation leads to a state with the invariant, no row is lost, a
  conversation only moves along the life cycle, a closed one is frozen and receives no message, and
  messages and outbox events keep their contents.  Every operation of the repositories evolves the
  store, a transaction evolves it whenever its body does, and so does \<open>Mutate\<close> on a closure that
  fulfils the contract \<open>row_mutation\<close>.
\<close>

section \<open>Invariant\<close>

definition is_open :: "conversation \<Rightarrow> bool" where
  "is_open c \<longleftrightarrow> conv_Status c = ''open''"

definition client_key :: "env \<Rightarrow> message \<Rightarrow> uint64 \<times> string" where
  "client_key e m = (msg_ConversationID m, collate e (msg_ClientMsgID m))"

definition visitor_key :: "env \<Rightarrow> conversation \<Rightarrow> string \<times> string" where
  "visitor_key e c = (collate e (conv_SiteID c), collate e (conv_VisitorToken c))"

definition outbox_statuses :: "string list" where
  "outbox_statuses = [OutboxStatusPending, OutboxStatusProcessing, OutboxStatusPublished, OutboxStatusDead]"

definition conversations_inv :: "env \<Rightarrow> uint64 \<Rightarrow> conversation list \<Rightarrow> bool" where
  "conversations_inv e n cs \<longleftrightarrow>
     keys_below conv_ID n cs \<and> (\<forall>c \<in> set cs. conv_wf c)
   \<and> distinct (map (visitor_key e) (filter is_open cs))"

definition messages_inv :: "env \<Rightarrow> uint64 \<Rightarrow> uint64 set \<Rightarrow> message list \<Rightarrow> bool" where
  "messages_inv e n ids ms \<longleftrightarrow>
     keys_below msg_ID n ms \<and> distinct (map (client_key e) ms)
   \<and> (\<forall>m \<in> set ms. msg_ConversationID m \<in> ids \<and> msg_Status m \<in> {''sent'', ''read''})"

definition outbox_inv :: "uint64 \<Rightarrow> uint64 set \<Rightarrow> event_outbox list \<Rightarrow> bool" where
  "outbox_inv n ids evs \<longleftrightarrow>
     keys_below ob_ID n evs
   \<and> (\<forall>ev \<in> set evs. ob_ConversationID ev \<in> ids \<and> ob_Status ev \<in> set outbox_statuses)"

text \<open>What the outbox claims to have delivered.\<close>

definition event_of :: "event_outbox \<Rightarrow> uint64 \<times> payload" where
  "event_of ev = (ob_ConversationID ev, ob_Payload ev)"

definition published_set :: "event_outbox list \<Rightarrow> (uint64 \<times> payload) set" where
  "published_set evs = event_of ` {ev \<in> set evs. ob_Status ev = OutboxStatusPublished}"

definition conv_ids :: "database \<Rightarrow> uint64 set" where
  "conv_ids d = conv_ID ` set (conversations d)"

definition store_inv :: "env \<Rightarrow> world \<Rightarrow> bool" where
  "store_inv e w \<longleftrightarrow>
     conversations_inv e (conversation_seq w) (conversations (db w))
   \<and> messages_inv e (message_seq w) (conv_ids (db w)) (messages (db w))
   \<and> outbox_inv (outbox_seq w) (conv_ids (db w)) (outbox (db w))
   \<and> published_set (outbox (db w)) \<subseteq> set (bus w)"

lemma empty_world_inv: "store_inv e empty_world"
  by (simp add: store_inv_def empty_world_def conversations_inv_def messages_inv_def outbox_inv_def
      keys_below_def published_set_def)

lemma store_inv_only_ticks [simp]: "only_ticks w w' \<Longrightarrow> store_inv e w' = store_inv e w"
  by (simp add: store_inv_def)

section \<open>Evolution\<close>

definition conv_grows :: "conversation list \<Rightarrow> conversation list \<Rightarrow> bool" where
  "conv_grows cs cs' \<longleftrightarrow>
     (\<forall>c \<in> set cs. \<exists>c' \<in> set cs'. same_identity c c'
        \<and> phase_step\<^sup>*\<^sup>* (phase_of c) (phase_of c') \<and> (\<not> is_open c \<longrightarrow> c' = c))"

definition same_message :: "message \<Rightarrow> message \<Rightarrow> bool" where
  "same_message m m' \<longleftrightarrow>
     msg_ID m' = msg_ID m \<and> msg_ConversationID m' = msg_ConversationID m
   \<and> msg_SenderType m' = msg_SenderType m \<and> msg_SenderID m' = msg_SenderID m
   \<and> msg_Content m' = msg_Content m \<and> msg_ClientMsgID m' = msg_ClientMsgID m
   \<and> msg_CreatedAt m' = msg_CreatedAt m \<and> (msg_Status m = ''read'' \<longrightarrow> msg_Status m' = ''read'')"

definition msg_grows :: "message list \<Rightarrow> message list \<Rightarrow> bool" where
  "msg_grows ms ms' \<longleftrightarrow> (\<forall>m \<in> set ms. \<exists>m' \<in> set ms'. same_message m m')"

definition closed_ids :: "database \<Rightarrow> uint64 set" where
  "closed_ids d = conv_ID ` {c \<in> set (conversations d). \<not> is_open c}"

definition closed_quiet :: "database \<Rightarrow> database \<Rightarrow> bool" where
  "closed_quiet d d' \<longleftrightarrow>
     (\<forall>m' \<in> set (messages d'). msg_ConversationID m' \<in> closed_ids d \<longrightarrow>
        (\<exists>m \<in> set (messages d). msg_ID m = msg_ID m' \<and> msg_ConversationID m = msg_ConversationID m'))"

definition same_event :: "event_outbox \<Rightarrow> event_outbox \<Rightarrow> bool" where
  "same_event ev ev' \<longleftrightarrow>
     ob_ID ev' = ob_ID ev \<and> ob_ConversationID ev' = ob_ConversationID ev
   \<and> ob_EventType ev' = ob_EventType ev \<and> ob_Payload ev' = ob_Payload ev
   \<and> ob_Attempts ev \<le> ob_Attempts ev'"

definition ev_grows :: "event_outbox list \<Rightarrow> event_outbox list \<Rightarrow> bool" where
  "ev_grows evs evs' \<longleftrightarrow> (\<forall>ev \<in> set evs. \<exists>ev' \<in> set evs'. same_event ev ev')"

definition db_grows :: "database \<Rightarrow> database \<Rightarrow> bool" where
  "db_grows d d' \<longleftrightarrow>
     conv_grows (conversations d) (conversations d') \<and> msg_grows (messages d) (messages d')
   \<and> closed_quiet d d' \<and> ev_grows (outbox d) (outbox d')"

definition seq_le :: "world \<Rightarrow> world \<Rightarrow> bool" where
  "seq_le w w' \<longleftrightarrow>
     conversation_seq w \<le> conversation_seq w' \<and> message_seq w \<le> message_seq w'
   \<and> outbox_seq w \<le> outbox_seq w' \<and> set (bus w) \<subseteq> set (bus w')"

definition evolves :: "env \<Rightarrow> world \<Rightarrow> world \<Rightarrow> bool" where
  "evolves e w w' \<longleftrightarrow> (store_inv e w \<longrightarrow> store_inv e w' \<and> seq_le w w' \<and> db_grows (db w) (db w'))"

lemma conv_grows_refl [simp]: "conv_grows cs cs"
  unfolding conv_grows_def same_identity_def by auto

lemma msg_grows_refl [simp]: "msg_grows ms ms"
  unfolding msg_grows_def same_message_def by auto

lemma ev_grows_refl [simp]: "ev_grows evs evs"
  unfolding ev_grows_def same_event_def by auto

lemma closed_quiet_same [simp]: "messages d' = messages d \<Longrightarrow> closed_quiet d d'"
  unfolding closed_quiet_def by auto

lemma db_grows_refl [simp]: "db_grows d d"
  by (simp add: db_grows_def)

lemma same_identity_trans: "same_identity a b \<Longrightarrow> same_identity b c \<Longrightarrow> same_identity a c"
  by (auto simp: same_identity_def)

lemma conv_grows_trans: "conv_grows a b \<Longrightarrow> conv_grows b c \<Longrightarrow> conv_grows a c"
  unfolding conv_grows_def by (metis same_identity_trans rtranclp_trans)

lemma msg_grows_trans: "msg_grows a b \<Longrightarrow> msg_grows b c \<Longrightarrow> msg_grows a c"
  unfolding msg_grows_def same_message_def by metis

lemma ev_grows_trans: "ev_grows a b \<Longrightarrow> ev_grows b c \<Longrightarrow> ev_grows a c"
  unfolding ev_grows_def same_event_def by (metis le_trans)

lemma closed_ids_mono: "conv_grows (conversations d) (conversations d') \<Longrightarrow> closed_ids d \<subseteq> closed_ids d'"
  unfolding conv_grows_def closed_ids_def by fastforce

lemma closed_quiet_trans:
  assumes "closed_quiet d d1" and "closed_quiet d1 d2" and "conv_grows (conversations d) (conversations d1)"
  shows "closed_quiet d d2"
  unfolding closed_quiet_def
proof (intro ballI impI)
  fix m2 assume m2: "m2 \<in> set (messages d2)" "msg_ConversationID m2 \<in> closed_ids d"
  with closed_ids_mono [OF assms(3)] assms(2) obtain m1 where m1: "m1 \<in> set (messages d1)"
    "msg_ID m1 = msg_ID m2" "msg_ConversationID m1 = msg_ConversationID m2"
    unfolding closed_quiet_def by blast
  with m2 assms(1) show "\<exists>m\<in>set (messages d). msg_ID m = msg_ID m2 \<and> msg_ConversationID m = msg_ConversationID m2"
    unfolding closed_quiet_def by metis
qed

lemma db_grows_trans: "db_grows a b \<Longrightarrow> db_grows b c \<Longrightarrow> db_grows a c"
  unfolding db_grows_def
  by (blast intro: conv_grows_trans msg_grows_trans ev_grows_trans closed_quiet_trans)

lemma evolves_refl [simp]: "evolves e w w"
  by (simp add: evolves_def seq_le_def)

lemma evolves_trans: "evolves e w w1 \<Longrightarrow> evolves e w1 w2 \<Longrightarrow> evolves e w w2"
  unfolding evolves_def seq_le_def by (meson db_grows_trans le_trans subset_trans)

lemma evolves_only_ticks: "only_ticks w w' \<Longrightarrow> evolves e w w'"
  by (simp add: evolves_def seq_le_def)

lemma evolves_ticks_trans: "only_ticks w w1 \<Longrightarrow> evolves e w1 w2 \<Longrightarrow> evolves e w w2"
  by (rule evolves_trans [OF evolves_only_ticks])

lemma evolves_advance [simp]: "evolves e w (advance w)" "evolves e w (advance (advance w))"
  by (simp_all add: evolves_only_ticks)

lemma evolves_frame:
  assumes "db w' = db w" "conversation_seq w' = conversation_seq w" "message_seq w' = message_seq w"
    "outbox_seq w' = outbox_seq w" "set (bus w) \<subseteq> set (bus w')"
  shows "evolves e w w'"
  using assms by (auto simp: evolves_def seq_le_def store_inv_def)

lemma evolves_fields [simp]:
  "evolves e w (w'\<lparr>wakeups := k\<rparr>) = evolves e w w'"
  "evolves e w (w'\<lparr>timers := ts\<rparr>) = evolves e w w'"
  "evolves e w (w'\<lparr>shouldNotify := q\<rparr>) = evolves e w w'"
  by (simp_all add: evolves_def seq_le_def store_inv_def)

lemma keys_below_mono: "keys_below key n rows \<Longrightarrow> n \<le> k \<Longrightarrow> keys_below key k rows"
  unfolding keys_below_def by auto

lemma store_inv_seq_mono:
  assumes "store_inv e w" and "seq_le w w'" and "db w' = db w"
  shows "store_inv e w'"
  using assms
  by (auto simp: store_inv_def seq_le_def conversations_inv_def messages_inv_def outbox_inv_def
      intro: keys_below_mono)

lemma evolves_rollback: "evolves e w w' \<Longrightarrow> evolves e w (w'\<lparr>db := db w\<rparr>)"
  unfolding evolves_def
  by (auto intro: store_inv_seq_mono [where w = w] simp: seq_le_def)

text \<open>A transaction evolves the store when its body does.\<close>

lemma in_transaction_evolves:
  assumes body: "\<And>w r w'. body w = (r, w') \<Longrightarrow> evolves e w w'"
    and run: "in_transaction e body w = (r, w')"
  shows "evolves e w w'"
proof -
  obtain b w1 where b: "db_call e w = (b, w1)" by fastforce
  then have w1: "evolves e w w1" by (intro evolves_only_ticks only_ticks_db_call)
  obtain r2 w2 where 2: "body w1 = (r2, w2)" by fastforce
  then have w2: "evolves e w1 w2" by (rule body)
  obtain c w3 where c: "db_call e w2 = (c, w3)" by fastforce
  then have w3: "evolves e w2 w3" and [simp]: "only_ticks w2 w3"
    by (auto intro: evolves_only_ticks only_ticks_db_call)
  have "evolves e w1 (w2\<lparr>db := db w1\<rparr>)" "evolves e w1 (w3\<lparr>db := db w1\<rparr>)" "evolves e w1 w3"
    using w2 w3 by (auto intro: evolves_rollback evolves_trans)
  with run b 2 c w1 show ?thesis
    by (auto simp: in_transaction_def intro: evolves_trans split: option.splits sum.splits)
qed

text \<open>With a transaction around it a failing body leaves the tables as they were.\<close>

lemma in_transaction_error:
  assumes "in_transaction e body w = (Inl err, w')"
  shows "db w' = db w"
  using assms
  by (auto simp: in_transaction_def db_call_def advance_def split: option.splits sum.splits prod.splits)

lemma in_transaction_ok:
  assumes "in_transaction e body w = (Inr a, w')"
  obtains w1 w2 where "only_ticks w w1" "body w1 = (Inr a, w2)" "only_ticks w2 w'"
  using assms
  by (auto simp: in_transaction_def split: option.splits sum.splits prod.splits
      dest!: only_ticks_db_call)

section \<open>Reads\<close>

lemma repository_reads:
  "GetByID e i w = (r, w') \<Longrightarrow> only_ticks w w'"
  "GetLatestOpenBySiteVisitor e s v w = (r1, w') \<Longrightarrow> only_ticks w w'"
  "List_conversations e f w = (r2, w') \<Longrightarrow> only_ticks w w'"
  "GetByClientMsgID e i s w = (r3, w') \<Longrightarrow> only_ticks w w'"
  "GetLatestByConversationExcludingSystem e i w = (r4, w') \<Longrightarrow> only_ticks w w'"
  "ListByConversation e i n b w = (r5, w') \<Longrightarrow> only_ticks w w'"
  "GetMessageByID e i j w = (r6, w') \<Longrightarrow> only_ticks w w'"
  "GetLatestByConversation e i w = (r7, w') \<Longrightarrow> only_ticks w w'"
  by (auto simp: GetByID_def GetLatestOpenBySiteVisitor_def List_conversations_def GetByClientMsgID_def
      GetLatestByConversationExcludingSystem_def ListByConversation_def GetMessageByID_def
      GetLatestByConversation_def db_call_def split: option.splits)

lemma GetByID_ok: "GetByID e i w = (Inr c, w') \<Longrightarrow> by_id conv_ID i (conversations (db w)) = Some c"
  by (auto simp: GetByID_def db_call_def advance_def split: option.splits)

lemma GetByID_not_found:
  "GetByID e i w = (Inl (Sentinel RepoNotFound), w') \<Longrightarrow> by_id conv_ID i (conversations (db w)) = None"
  by (auto simp: GetByID_def db_call_def advance_def split: option.splits)

section \<open>Writes\<close>

lemma conv_wf_UpdatedAt [simp]: "conv_wf (c\<lparr>conv_UpdatedAt := t\<rparr>) = conv_wf c"
  by (simp add: conv_wf_def split: option.split)

lemma phase_of_UpdatedAt [simp]: "phase_of (c\<lparr>conv_UpdatedAt := t\<rparr>) = phase_of c"
  by (simp add: phase_of_def split: option.split)

lemma same_identity_UpdatedAt [simp]: "same_identity c (c'\<lparr>conv_UpdatedAt := t\<rparr>) = same_identity c c'"
  by (simp add: same_identity_def)

definition replace_row :: "conversation \<Rightarrow> conversation list \<Rightarrow> conversation list" where
  "replace_row c cs = update_rows (\<lambda>r. conv_ID r = conv_ID c) (\<lambda>_. c) cs"

lemma replace_row_simps [simp]:
  "replace_row c [] = []"
  "replace_row c (r # rs) = (if conv_ID r = conv_ID c then c else r) # replace_row c rs"
  by (simp_all add: replace_row_def update_rows_def)

lemma ids_replace_row [simp]: "conv_ID ` set (replace_row c cs) = conv_ID ` set cs"
  by (induction cs) auto

lemma set_replace_row: "r \<in> set (replace_row c cs) \<Longrightarrow> r = c \<or> r \<in> set cs"
  by (auto simp: replace_row_def update_rows_def split: if_splits)

lemma save_conversation_eq:
  "save_conversation c w = w\<lparr>db := (db w)\<lparr>conversations := replace_row c (conversations (db w))\<rparr>\<rparr>"
  by (simp add: save_conversation_def replace_row_def)

lemma keys_below_replace_row: "keys_below conv_ID n cs \<Longrightarrow> keys_below conv_ID n (replace_row c cs)"
  unfolding replace_row_def keys_below_def update_rows_def
  by (auto simp: sorted_wrt_map intro: sorted_wrt_mono_rel [rotated])

lemma visitor_keys_replace_row:
  assumes "\<And>r. r \<in> set cs \<Longrightarrow> conv_ID r = conv_ID c \<Longrightarrow> visitor_key e c = visitor_key e r \<and> is_open r"
    and "distinct (map (visitor_key e) (filter is_open cs))"
  shows "distinct (map (visitor_key e) (filter is_open (replace_row c cs)))
    \<and> visitor_key e ` set (filter is_open (replace_row c cs)) \<subseteq> visitor_key e ` set (filter is_open cs)"
  using assms
proof (induction cs)
  case (Cons r rs)
  let ?A = "visitor_key e ` set (filter is_open rs)"
  let ?B = "visitor_key e ` set (filter is_open (replace_row c rs))"
  let ?x = "if conv_ID r = conv_ID c then c else r"
  have "distinct (map (visitor_key e) (filter is_open rs))" using Cons.prems(2) by (simp split: if_splits)
  with Cons have IH: "distinct (map (visitor_key e) (filter is_open (replace_row c rs)))" "?B \<subseteq> ?A"
    by auto
  have x: "is_open ?x \<Longrightarrow> is_open r" "visitor_key e ?x = visitor_key e r"
    using Cons.prems(1) [of r] by (auto split: if_splits)
  show ?case
  proof (cases "is_open ?x")
    case True
    with x Cons.prems(2) have "is_open r" "visitor_key e ?x \<notin> ?A" by auto
    with IH True x show ?thesis
      unfolding replace_row_simps filter.simps by (simp del: set_filter) blast
  next
    case False
    with IH show ?thesis unfolding replace_row_simps filter.simps by (auto simp del: set_filter)
  qed
qed simp

lemma evolves_conversations:
  assumes "\<And>c. conversations_inv e (conversation_seq w) (conversations (db w)) \<Longrightarrow>
      conversations_inv e (conversation_seq w) cs' \<and> conv_grows (conversations (db w)) cs'"
    and "conv_ID ` set cs' = conv_ids (db w)"
  shows "evolves e w (w\<lparr>db := (db w)\<lparr>conversations := cs'\<rparr>\<rparr>)"
  using assms by (simp add: evolves_def store_inv_def seq_le_def db_grows_def conv_ids_def)

lemma evolves_save_conversation:
  assumes old: "by_id conv_ID i (conversations (db w)) = Some c"
    and new: "same_identity c c'" "conv_wf c \<Longrightarrow> conv_wf c'" "is_open c"
      "conv_wf c \<Longrightarrow> phase_step\<^sup>*\<^sup>* (phase_of c) (phase_of c')"
  shows "evolves e w (save_conversation c' w)"
  unfolding save_conversation_eq
proof (rule evolves_conversations)
  let ?cs = "conversations (db w)"
  assume inv: "conversations_inv e (conversation_seq w) ?cs"
  from old have c: "c \<in> set ?cs" by (auto dest: by_id_Some)
  have row: "r = c" if "r \<in> set ?cs" "conv_ID r = conv_ID c'" for r
    using inv c that new(1) by (auto simp: conversations_inv_def same_identity_def intro: keys_below_inj)
  have "visitor_key e c' = visitor_key e r \<and> is_open r" if "r \<in> set ?cs" "conv_ID r = conv_ID c'" for r
    using row [OF that] new(1,3) by (simp add: visitor_key_def same_identity_def)
  with inv have "distinct (map (visitor_key e) (filter is_open (replace_row c' ?cs)))"
    using visitor_keys_replace_row [of ?cs c' e] by (simp add: conversations_inv_def)
  moreover from inv c new(2) have "\<forall>r \<in> set (replace_row c' ?cs). conv_wf r"
    by (auto simp: conversations_inv_def dest!: set_replace_row)
  ultimately have "conversations_inv e (conversation_seq w) (replace_row c' ?cs)"
    using inv by (simp add: conversations_inv_def keys_below_replace_row)
  moreover have "conv_grows ?cs (replace_row c' ?cs)"
    unfolding conv_grows_def
  proof
    fix r assume r: "r \<in> set ?cs"
    let ?r = "if conv_ID r = conv_ID c' then c' else r"
    from r have "?r \<in> set (replace_row c' ?cs)" by (auto simp: replace_row_def update_rows_def)
    moreover have "same_identity r ?r \<and> phase_step\<^sup>*\<^sup>* (phase_of r) (phase_of ?r) \<and> (\<not> is_open r \<longrightarrow> ?r = r)"
    proof (cases "conv_ID r = conv_ID c'")
      case True
      with row [OF r] new c inv show ?thesis by (simp add: conversations_inv_def)
    qed (simp add: same_identity_def)
    ultimately show "\<exists>c'a\<in>set (replace_row c' ?cs). same_identity r c'a
        \<and> phase_step\<^sup>*\<^sup>* (phase_of r) (phase_of c'a) \<and> (\<not> is_open r \<longrightarrow> c'a = r)" by blast
  qed
  ultimately show "conversations_inv e (conversation_seq w) (replace_row c' ?cs)
      \<and> conv_grows ?cs (replace_row c' ?cs)" by blast
qed (simp add: conv_ids_def)

text \<open>The repository's \<open>Mutate\<close> on a closure that fulfils the contract.\<close>

context row_mutation
begin

lemma mutateInDB_cases:
  assumes "mutateInDB e i m w = (r, w')"
  obtains (failed) err where "r = Inl err" "only_ticks w w'"
  | (kept) c a w1 where "by_id conv_ID i (conversations (db w)) = Some c" "only_ticks w w1"
      "m c w1 = (Inr (c, False, a), w')" "r = Inr (c, False, a)" "only_ticks w w'"
  | (saved) c c' a w1 w2 w3 t where "by_id conv_ID i (conversations (db w)) = Some c" "only_ticks w w1"
      "m c w1 = (Inr (c', True, a), w2)" "r = Inr (c'\<lparr>conv_UpdatedAt := t\<rparr>, True, a)" "only_ticks w w3"
      "w' = save_conversation (c'\<lparr>conv_UpdatedAt := t\<rparr>) w3"
proof -
  obtain b w1 where 1: "db_call e w = (b, w1)" by fastforce
  then have t1: "only_ticks w w1" by (rule only_ticks_db_call)
  show ?thesis
  proof (cases "b = None \<and> by_id conv_ID i (conversations (db w)) \<noteq> None")
    case False
    with assms 1 t1 failed show ?thesis by (auto simp: mutateInDB_def split: option.splits)
  next
    case True
    then obtain c where c: "b = None" "by_id conv_ID i (conversations (db w)) = Some c" by auto
    obtain r2 w2 where 2: "m c w1 = (r2, w2)" by fastforce
    then have t2: "only_ticks w w2" using t1 reads only_ticks_trans by blast
    obtain d w3 where 3: "db_call e w2 = (d, w3)" by fastforce
    then have t3: "only_ticks w w3" using t2 only_ticks_db_call only_ticks_trans by blast
    obtain t w4 where 4: "Now e w3 = (t, w4)" by fastforce
    then have t4: "only_ticks w w4" using t3 only_ticks_Now only_ticks_trans by blast
    show ?thesis
    proof (cases r2)
      case (Inl err)
      with assms 1 t1 c 2 t2 failed show ?thesis by (auto simp: mutateInDB_def)
    next
      case (Inr x)
      obtain c' ch a where x: "x = (c', ch, a)" by (cases x)
      show ?thesis
      proof (cases ch)
        case False
        with 2 Inr x have "c' = c" by (auto dest: quiet)
        with assms 1 t1 c 2 t2 Inr x False show ?thesis
          by (intro kept [of c w1 a]) (auto simp: mutateInDB_def)
      next
        case True
        show ?thesis
        proof (cases d)
          case None
          with assms 1 t1 c 2 t4 3 4 Inr x True show ?thesis
            by (intro saved [of c w1 c' a w2 t w4]) (auto simp: mutateInDB_def Let_def)
        next
          case (Some err)
          with assms 1 t1 c 2 t3 3 Inr x True failed show ?thesis by (auto simp: mutateInDB_def)
        qed
      qed
    qed
  qed
qed

lemma mutateInDB_evolves:
  assumes "mutateInDB e i m w = (r, w')"
  shows "evolves e w w'"
  using assms
proof (cases rule: mutateInDB_cases)
  case (saved c c' a w1 w2 w3 t)
  have open_or_stuck: "evolves e w3 w'" if "is_open c"
    unfolding saved(6)
    using saved that
    by (intro evolves_save_conversation [of i _ c]) (auto dest: identity wf phase_evolves)
  show ?thesis
  proof (cases "is_open c")
    case True
    with open_or_stuck saved(5) show ?thesis by (blast intro: evolves_trans evolves_only_ticks)
  next
    case False
    have "\<not> conv_wf c" using False saved(3) closed_frozen [of c w1 c' True a w2] by (auto simp: is_open_def)
    with saved(1) show ?thesis
      by (auto simp: evolves_def store_inv_def conversations_inv_def dest: by_id_Some)
  qed
qed (auto intro: evolves_only_ticks)

lemma Mutate_evolves: "Mutate e inTx i m w = (r, w') \<Longrightarrow> evolves e w w'"
  by (auto simp: Mutate_def dest: mutateInDB_evolves split: if_splits
      intro: in_transaction_evolves [OF mutateInDB_evolves])

end

lemma evolves_append_conversation:
  assumes "conv_wf row" "conv_ID row = conversation_seq w"
    "is_open row \<Longrightarrow> visitor_key e row \<notin> visitor_key e ` set (filter is_open (conversations (db w)))"
  shows "evolves e w (w\<lparr>db := (db w)\<lparr>conversations := conversations (db w) @ [row]\<rparr>,
           conversation_seq := Suc (conversation_seq w)\<rparr>)"
proof -
  have "conv_grows (conversations (db w)) (conversations (db w) @ [row])"
    by (force simp: conv_grows_def same_identity_def)
  moreover have "conversations_inv e (conversation_seq w) (conversations (db w)) \<Longrightarrow>
      conversations_inv e (Suc (conversation_seq w)) (conversations (db w) @ [row])"
    using assms by (auto simp: conversations_inv_def keys_below_append)
  ultimately show ?thesis
    by (auto simp: evolves_def store_inv_def seq_le_def db_grows_def messages_inv_def outbox_inv_def
        conv_ids_def)
qed

text \<open>Appending a message to an open conversation under a fresh client id.\<close>

lemma evolves_append_message:
  assumes "by_id conv_ID (msg_ConversationID row) (conversations (db w)) = Some c" "is_open c"
    and "msg_ID row = message_seq w" "msg_Status row = ''sent''"
    and "client_key e row \<notin> client_key e ` set (messages (db w))"
  shows "evolves e w (w\<lparr>db := (db w)\<lparr>messages := messages (db w) @ [row]\<rparr>,
           message_seq := Suc (message_seq w)\<rparr>)"
proof -
  have c: "c \<in> set (conversations (db w))" "conv_ID c = msg_ConversationID row"
    using assms(1) by (auto dest: by_id_Some)
  have q: "closed_quiet (db w) ((db w)\<lparr>messages := messages (db w) @ [row]\<rparr>)"
    if "conversations_inv e (conversation_seq w) (conversations (db w))"
  proof -
    have "msg_ConversationID row \<notin> closed_ids (db w)"
      using that c assms(2) by (auto simp: closed_ids_def conversations_inv_def dest: keys_below_inj)
    then show ?thesis by (auto simp: closed_quiet_def)
  qed
  have "msg_grows (messages (db w)) (messages (db w) @ [row])"
    by (force simp: msg_grows_def same_message_def)
  moreover have "messages_inv e (message_seq w) (conv_ids (db w)) (messages (db w)) \<Longrightarrow>
      messages_inv e (Suc (message_seq w)) (conv_ids (db w)) (messages (db w) @ [row])"
    using assms by (auto simp: messages_inv_def keys_below_append conv_ids_def dest: by_id_mem)
  ultimately show ?thesis using q
    by (auto simp: evolves_def store_inv_def seq_le_def db_grows_def conv_ids_def)
qed

lemma evolves_update_messages:
  assumes "\<And>m. same_message m (f m)" and "\<And>m. msg_Status (f m) \<in> {''sent'', ''read''}"
  shows "evolves e w (w\<lparr>db := (db w)\<lparr>messages := update_rows P f (messages (db w))\<rparr>\<rparr>)"
proof -
  let ?ms = "messages (db w)" and ?ms' = "update_rows P f (messages (db w))"
  have ids: "msg_ID (f m) = msg_ID m" "msg_ConversationID (f m) = msg_ConversationID m"
    "client_key e (f m) = client_key e m" for m
    using assms(1) [of m] by (auto simp: same_message_def client_key_def)
  have "map (client_key e) ?ms' = map (client_key e) ?ms"
    by (simp add: update_rows_def ids(3))
  moreover have "keys_below msg_ID n ?ms \<Longrightarrow> keys_below msg_ID n ?ms'" for n
    using keys_below_update [of msg_ID f] ids(1) by blast
  ultimately have "messages_inv e n ids ?ms \<Longrightarrow> messages_inv e n ids ?ms'" for n ids
    using assms(2) by (auto simp: messages_inv_def set_update_rows ids)
  moreover have "msg_grows ?ms ?ms'"
    unfolding msg_grows_def using assms(1)
    by (intro ballI bexI [OF _ update_rows_mem [of _ _ P f]]) (auto simp: same_message_def)
  moreover have "closed_quiet (db w) ((db w)\<lparr>messages := ?ms'\<rparr>)"
    by (force simp: closed_quiet_def set_update_rows ids)
  ultimately show ?thesis
    by (auto simp: evolves_def store_inv_def seq_le_def db_grows_def conv_ids_def)
qed

lemma evolves_append_event:
  assumes "by_id conv_ID (ob_ConversationID row) (conversations (db w)) \<noteq> None"
    and "ob_ID row = outbox_seq w" "ob_Status row = OutboxStatusPending"
  shows "evolves e w (w\<lparr>db := (db w)\<lparr>outbox := outbox (db w) @ [row]\<rparr>,
           outbox_seq := Suc (outbox_seq w)\<rparr>)"
proof -
  have "ob_ConversationID row \<in> conv_ids (db w)"
    using assms(1) by (auto simp: conv_ids_def dest: by_id_mem)
  moreover have "ev_grows (outbox (db w)) (outbox (db w) @ [row])"
    by (force simp: ev_grows_def same_event_def)
  ultimately show ?thesis using assms
    by (auto simp: evolves_def store_inv_def seq_le_def db_grows_def conv_ids_def outbox_inv_def
        keys_below_append published_set_def outbox_statuses_def outbox_status_defs)
qed

lemma evolves_update_outbox:
  assumes "\<And>ev. same_event ev (f ev)" and "\<And>ev. ob_Status (f ev) \<in> set outbox_statuses"
    and "\<And>ev. ev \<in> set (outbox (db w)) \<Longrightarrow> P ev \<Longrightarrow> ob_Status (f ev) = OutboxStatusPublished \<Longrightarrow>
      event_of ev \<in> set (bus w)"
  shows "evolves e w (update_outbox P f w)"
proof -
  let ?evs = "outbox (db w)" and ?evs' = "update_rows P f (outbox (db w))"
  have ids: "ob_ID (f ev) = ob_ID ev" "ob_ConversationID (f ev) = ob_ConversationID ev" for ev
    using assms(1) [of ev] by (auto simp: same_event_def)
  have "keys_below ob_ID n ?evs \<Longrightarrow> keys_below ob_ID n ?evs'" for n
    using keys_below_update [of ob_ID f] ids(1) by blast
  then have "outbox_inv n I ?evs \<Longrightarrow> outbox_inv n I ?evs'" for n I
    using assms(2) by (auto simp: outbox_inv_def set_update_rows ids)
  moreover have "published_set ?evs' \<subseteq> set (bus w)" if "published_set ?evs \<subseteq> set (bus w)"
  proof
    fix x assume "x \<in> published_set ?evs'"
    then obtain ev where ev: "ev \<in> set ?evs" "x = event_of (if P ev then f ev else ev)"
      "ob_Status (if P ev then f ev else ev) = OutboxStatusPublished"
      by (auto simp: published_set_def set_update_rows)
    moreover have "event_of (f ev) = event_of ev" using assms(1) [of ev] by (simp add: event_of_def same_event_def)
    ultimately show "x \<in> set (bus w)"
      using that assms(3) [of ev] by (cases "P ev") (auto simp: published_set_def)
  qed
  moreover have "ev_grows ?evs ?evs'"
    unfolding ev_grows_def using assms(1)
    by (intro ballI bexI [OF _ update_rows_mem [of _ _ P f]]) (auto simp: same_event_def)
  ultimately show ?thesis
    by (auto simp: evolves_def store_inv_def seq_le_def db_grows_def conv_ids_def update_outbox_def)
qed

section \<open>The writing operations of the repositories\<close>

lemma Create_conversation_evolves:
  assumes "Create_conversation e c w = (r, w')" and "conv_wf c"
    and "is_open c \<Longrightarrow> visitor_key e c \<notin> visitor_key e ` set (filter is_open (conversations (db w)))"
  shows "evolves e w w'"
proof (cases "db_fault e (tick w)")
  case (Some err)
  with assms(1) show ?thesis by (auto simp: Create_conversation_def db_call_def intro: evolves_only_ticks)
next
  case None
  let ?v = "advance (advance w)" and ?t = "clock e (Suc (tick w))"
  let ?row = "c\<lparr>conv_ID := conversation_seq w, conv_CreatedAt := ?t, conv_UpdatedAt := ?t\<rparr>"
  have "w' = ?v\<lparr>db := (db ?v)\<lparr>conversations := conversations (db ?v) @ [?row]\<rparr>,
           conversation_seq := Suc (conversation_seq ?v)\<rparr>"
    using assms(1) None by (auto simp: Create_conversation_def db_call_def Now_def advance_def Let_def)
  moreover have "conv_wf ?row" using assms(2) by (auto simp: conv_wf_def split: option.splits)
  moreover have "is_open ?row = is_open c" "visitor_key e ?row = visitor_key e c"
    by (simp_all add: is_open_def visitor_key_def)
  ultimately have "evolves e ?v w'"
    using assms(3) evolves_append_conversation [of ?row ?v e] by simp
  moreover have "evolves e w ?v" by (rule evolves_only_ticks [OF only_ticks_advance2])
  ultimately show ?thesis by (rule evolves_trans [rotated])
qed

text \<open>The outcomes of storing a message: the insertion of exactly one row, or no change.\<close>

lemma Create_message_eq:
  "Create_message e m w =
     (case db_fault e (tick w) of
        Some err \<Rightarrow> (Inl (Text err), advance w)
      | None \<Rightarrow>
          if client_key e m \<in> client_key e ` set (messages (db w)) then (Inl (Text duplicate_entry), advance w)
          else if by_id conv_ID (msg_ConversationID m) (conversations (db w)) = None
          then (Inl (Text foreign_key_fails), advance w)
          else
            let t = clock e (Suc (tick w)); v = advance (advance w);
                row = m\<lparr>msg_ID := message_seq w, msg_CreatedAt := t, msg_UpdatedAt := t\<rparr>
            in (Inr row, v\<lparr>db := (db w)\<lparr>messages := messages (db w) @ [row]\<rparr>,
                  message_seq := Suc (message_seq w)\<rparr>))"
proof -
  have "(\<exists>r \<in> set rows. msg_ConversationID r = msg_ConversationID m
           \<and> sql_eq e (msg_ClientMsgID r) (msg_ClientMsgID m)) \<longleftrightarrow> client_key e m \<in> client_key e ` set rows" for rows
    by (auto simp: client_key_def sql_eq_def image_iff) metis
  then show ?thesis
    by (simp add: Create_message_def db_call_def Now_def advance_def Let_def split: option.split)
qed

lemma Create_message_cases:
  assumes "Create_message e m w = (r, w')"
  obtains (failed) err where "r = Inl err" "only_ticks w w'"
  | (stored) row v c t where "r = Inr row" "only_ticks w v"
      "by_id conv_ID (msg_ConversationID m) (conversations (db w)) = Some c"
      "row = m\<lparr>msg_ID := message_seq w, msg_CreatedAt := t, msg_UpdatedAt := t\<rparr>"
      "client_key e row \<notin> client_key e ` set (messages (db w))"
      "w' = v\<lparr>db := (db w)\<lparr>messages := messages (db w) @ [row]\<rparr>, message_seq := Suc (message_seq w)\<rparr>"
proof -
  let ?t = "clock e (Suc (tick w))"
  let ?row = "m\<lparr>msg_ID := message_seq w, msg_CreatedAt := ?t, msg_UpdatedAt := ?t\<rparr>"
  have key: "client_key e ?row = client_key e m" by (simp add: client_key_def)
  show ?thesis
  proof (cases "\<exists>err. r = Inl err")
    case True
    with assms failed show ?thesis
      by (auto simp: Create_message_eq Let_def split: option.splits if_splits)
  next
    case False
    with assms obtain c where "db_fault e (tick w) = None"
      "client_key e m \<notin> client_key e ` set (messages (db w))"
      "by_id conv_ID (msg_ConversationID m) (conversations (db w)) = Some c"
      by (auto simp: Create_message_eq split: option.splits if_splits)
    with assms key show ?thesis
      by (intro stored [of ?row "advance (advance w)" c ?t])
         (auto simp: Create_message_eq Let_def)
  qed
qed

lemma Create_message_evolves:
  assumes "Create_message e m w = (r, w')" and "msg_Status m = ''sent''"
    and "\<And>c. by_id conv_ID (msg_ConversationID m) (conversations (db w)) = Some c \<Longrightarrow> is_open c"
  shows "evolves e w w'"
  using assms(1)
proof (cases rule: Create_message_cases)
  case (stored row v c t)
  with assms(2,3) have "evolves e v w'"
    using evolves_append_message [of row v c e] by simp
  with stored(2) show ?thesis by (blast intro: evolves_trans evolves_only_ticks)
qed (auto intro: evolves_only_ticks)

lemma MarkRead_evolves:
  assumes "MarkReadByConversationAndSender e i t lastID w = (r, w')"
  shows "evolves e w w'"
proof -
  let ?f = "\<lambda>now m. m\<lparr>msg_Status := ''read'', msg_UpdatedAt := now\<rparr>"
  have f: "evolves e v (v\<lparr>db := (db v)\<lparr>messages := update_rows P (?f now) (messages (db v))\<rparr>\<rparr>)" for v P now
    by (rule evolves_update_messages) (auto simp: same_message_def)
  note g = evolves_trans [OF evolves_only_ticks [OF only_ticks_advance2]
      f [of "advance (advance w)", unfolded advance_frame]]
  from assms g show ?thesis
    by (auto simp: MarkReadByConversationAndSender_def db_call_def Now_def Let_def
        intro: evolves_only_ticks split: option.splits)
qed

lemma Create_event_eq:
  "Create_event e ev w =
     (case db_fault e (tick w) of
        Some err \<Rightarrow> (Inl (Text err), advance w)
      | None \<Rightarrow>
          if by_id conv_ID (ob_ConversationID ev) (conversations (db w)) = None
          then (Inl (Text foreign_key_fails), advance w)
          else
            let t = clock e (Suc (tick w)); v = advance (advance w);
                row = ev\<lparr>ob_ID := outbox_seq w, ob_CreatedAt := t, ob_UpdatedAt := t\<rparr>
            in (Inr row, v\<lparr>db := (db w)\<lparr>outbox := outbox (db w) @ [row]\<rparr>,
                  outbox_seq := Suc (outbox_seq w)\<rparr>))"
  by (simp add: Create_event_def db_call_def Now_def advance_def Let_def split: option.split)

lemma Create_event_cases:
  assumes "Create_event e ev w = (r, w')"
  obtains (failed) err where "r = Inl err" "only_ticks w w'"
  | (stored) row v t where "r = Inr row" "only_ticks w v"
      "by_id conv_ID (ob_ConversationID ev) (conversations (db w)) \<noteq> None"
      "row = ev\<lparr>ob_ID := outbox_seq w, ob_CreatedAt := t, ob_UpdatedAt := t\<rparr>"
      "w' = v\<lparr>db := (db w)\<lparr>outbox := outbox (db w) @ [row]\<rparr>, outbox_seq := Suc (outbox_seq w)\<rparr>"
proof (cases "\<exists>err. r = Inl err")
  case True
  with assms failed show ?thesis
    by (auto simp: Create_event_eq Let_def split: option.splits if_splits)
next
  case False
  let ?t = "clock e (Suc (tick w))"
  let ?row = "ev\<lparr>ob_ID := outbox_seq w, ob_CreatedAt := ?t, ob_UpdatedAt := ?t\<rparr>"
  from False assms have "db_fault e (tick w) = None"
    "by_id conv_ID (ob_ConversationID ev) (conversations (db w)) \<noteq> None"
    by (auto simp: Create_event_eq split: option.splits if_splits)
  with assms show ?thesis
    by (intro stored [of ?row "advance (advance w)" ?t]) (simp_all add: Create_event_eq Let_def)
qed

lemma Create_event_evolves:
  assumes "Create_event e ev w = (r, w')" and "ob_Status ev = OutboxStatusPending"
  shows "evolves e w w'"
  using assms(1)
proof (cases rule: Create_event_cases)
  case (stored row v t)
  then have "evolves e v w'" using assms(2) evolves_append_event [of row v e] by simp
  with stored(2) show ?thesis by (blast intro: evolves_trans evolves_only_ticks)
qed (auto intro: evolves_only_ticks)

end
