(* ===== verification/Auto_Close_Timers.thy ===== *)
theory Auto_Close_Timers
  imports Store_Laws
begin

text \<open>
  The table of auto-close timers of \<^verbatim>\<open>auto_close_scheduler.go\<close>: at most one deadline per
  conversation.  A Go timer that was stopped may already be running its callback, so \<open>fire\<close> can be
  called with a deadline that is no longer the planned one; it then does nothing.
\<close>

definition Schedule :: "uint64 \<Rightarrow> time \<Rightarrow> world \<Rightarrow> world" where
  "Schedule conversationID dueAt w =
     (if conversationID = 0 then w
      else case timers w conversationID of
          Some current \<Rightarrow>
            if current = dueAt then w
            else w\<lparr>timers := (timers w)(conversationID := None, conversationID \<mapsto> dueAt)\<rparr>
        | None \<Rightarrow> w\<lparr>timers := (timers w)(conversationID \<mapsto> dueAt)\<rparr>)"

definition Cancel :: "uint64 \<Rightarrow> world \<Rightarrow> world" where
  "Cancel conversationID w =
     (if conversationID = 0 then w
      else case timers w conversationID of
          Some current \<Rightarrow> w\<lparr>timers := (timers w)(conversationID := None)\<rparr>
        | None \<Rightarrow> w)"

definition Stop_scheduler :: "world \<Rightarrow> world" where
  "Stop_scheduler w = w\<lparr>timers := Map.empty\<rparr>"

text \<open>The callback of a timer; \<open>onDue\<close> is what the service does with a deadline that is due.\<close>

definition fire :: "(uint64 \<Rightarrow> time \<Rightarrow> world \<Rightarrow> world) \<Rightarrow> uint64 \<Rightarrow> time \<Rightarrow> world \<Rightarrow> world" where
  "fire onDue conversationID dueAt w =
     (if timers w conversationID \<noteq> Some dueAt then w
      else onDue conversationID dueAt (w\<lparr>timers := (timers w)(conversationID := None)\<rparr>))"

lemma Schedule_eq:
  "i \<noteq> 0 \<Longrightarrow> Schedule i t w = w\<lparr>timers := (timers w)(i \<mapsto> t)\<rparr>"
proof -
  have "w\<lparr>timers := (timers w)(i \<mapsto> t)\<rparr> = w" if "timers w i = Some t"
    using that by (simp add: map_upd_triv)
  then show "i \<noteq> 0 \<Longrightarrow> ?thesis" by (auto simp: Schedule_def split: option.splits)
qed

lemma Cancel_eq:
  "i \<noteq> 0 \<Longrightarrow> Cancel i w = w\<lparr>timers := (timers w)(i := None)\<rparr>"
proof -
  have "w\<lparr>timers := (timers w)(i := None)\<rparr> = w" if "timers w i = None"
    using that by (simp add: fun_upd_idem)
  then show "i \<noteq> 0 \<Longrightarrow> ?thesis" by (auto simp: Cancel_def split: option.splits)
qed

lemma Schedule_frame [simp]:
  "db (Schedule i t w) = db w" "evolves e v (Schedule i t w) = evolves e v w"
  by (auto simp: Schedule_def split: option.splits)

lemma Cancel_frame [simp]:
  "db (Cancel i w) = db w" "evolves e v (Cancel i w) = evolves e v w"
  by (auto simp: Cancel_def split: option.splits)

lemma Stop_frame [simp]: "evolves e v (Stop_scheduler w) = evolves e v w"
  by (simp add: Stop_scheduler_def)

end
