(* ===== verification/Chat_Service.thy ===== *)
theory Chat_Service
  imports Auto_Close_Timers
begin

text \<open>
  The business layer of chat-service (\<^verbatim>\<open>services/chat-service/internal/service/chat_service.go\<close>) with the
  publisher of its events (\<^verbatim>\<open>services/chat-service/internal/pubsub/redis_publisher.go\<close>).  Each operation
  takes the environment, the configured service, its input struct and the world, and returns the
  Go result (an error on the left) with the world it leaves.  The operations are atomic steps here;
  the logger is left out.
\<close>

section \<open>The service and its configuration\<close>

record chat_service =
  eventOutboxEnabled :: bool
  outboxNotifier :: bool
  noopPublisher :: bool
  autoCloseAfter :: time
  conversationLocker :: "(string \<Rightarrow> nat \<Rightarrow> string option) option"

text \<open>
  \<open>New\<close> with a nil or a Redis publisher; the repositories are the tables of the world, and the
  scheduler exists iff \<open>autoCloseAfter\<close> is positive.  A locker answers, for a key and a tick, with
  the error of \<open>Lock\<close> or with success.
\<close>

definition New :: "bool \<Rightarrow> time \<Rightarrow> chat_service" where
  "New publisher_nil after =
     \<lparr>eventOutboxEnabled = False, outboxNotifier = False, noopPublisher = publisher_nil,
      autoCloseAfter = after, conversationLocker = None\<rparr>"

definition EnableEventOutbox :: "bool \<Rightarrow> bool \<Rightarrow> chat_service \<Rightarrow> chat_service" where
  "EnableEventOutbox txManager_nil outboxRepo_nil s =
     (if txManager_nil \<or> outboxRepo_nil then s else s\<lparr>eventOutboxEnabled := True\<rparr>)"

definition SetOutboxNotifier :: "bool \<Rightarrow> chat_service \<Rightarrow> chat_service" where
  "SetOutboxNotifier notifier_nil s = s\<lparr>outboxNotifier := \<not> notifier_nil\<rparr>"

definition SetConversationLocker ::
  "(string \<Rightarrow> nat \<Rightarrow> string option) option \<Rightarrow> chat_service \<Rightarrow> chat_service" where
  "SetConversationLocker locker s = s\<lparr>conversationLocker := locker\<rparr>"

definition hasScheduler :: "chat_service \<Rightarrow> bool" where
  "hasScheduler s \<longleftrightarrow> autoCloseAfter s > 0"

definition MaxMessageContentChars :: nat where
  "MaxMessageContentChars = 2000"

section \<open>RedisMessagePublisher\<close>

definition PublishConversationEvent :: "env \<Rightarrow> uint64 \<Rightarrow> payload \<Rightarrow> world \<Rightarrow> (cerr + unit) \<times> world" where
  "PublishConversationEvent e conversationID p w =
     (if conversationID = 0 then (Inr (), w)
      else case bus_call e w of
          (Some err, w1) \<Rightarrow> (Inl (Wrap ''publish event failed: '' (Text err)), w1)
        | (None, w1) \<Rightarrow> (Inr (), w1\<lparr>bus := bus w1 @ [(conversationID, p)]\<rparr>))"

definition wrap_error :: "string \<Rightarrow> (cerr + 'a) \<times> world \<Rightarrow> (cerr + 'a) \<times> world" where
  "wrap_error t r = (case r of (Inl err, w) \<Rightarrow> (Inl (Wrap t err), w) | (Inr a, w) \<Rightarrow> (Inr a, w))"

definition PublishMessageCreated :: "env \<Rightarrow> message \<Rightarrow> world \<Rightarrow> (cerr + unit) \<times> world" where
  "PublishMessageCreated e m w =
     wrap_error ''publish message.new failed: ''
       (PublishConversationEvent e (msg_ConversationID m) (message_new (msg_ConversationID m) m) w)"

definition PublishMessageStatusRange ::
  "env \<Rightarrow> uint64 \<Rightarrow> string \<Rightarrow> uint64 \<Rightarrow> string \<Rightarrow> world \<Rightarrow> (cerr + unit) \<times> world" where
  "PublishMessageStatusRange e conversationID senderType upToMessageID status w =
     (if conversationID = 0 \<or> upToMessageID = 0 then (Inr (), w)
      else wrap_error ''publish message.status(range) failed: ''
        (PublishConversationEvent e conversationID
           (message_status conversationID senderType upToMessageID status) w))"

definition PublishConversationClosed :: "env \<Rightarrow> uint64 \<Rightarrow> world \<Rightarrow> (cerr + unit) \<times> world" where
  "PublishConversationClosed e conversationID w =
     (if conversationID = 0 then (Inr (), w)
      else wrap_error ''publish conversation.closed failed: ''
        (PublishConversationEvent e conversationID (conversation_closed conversationID ''closed'') w))"

section \<open>Events and the outbox\<close>

text \<open>The direct publication: a failure is logged and forgotten.\<close>

definition publish_logged :: "chat_service \<Rightarrow> (world \<Rightarrow> (cerr + unit) \<times> world) \<Rightarrow> world \<Rightarrow> (cerr + unit) \<times> world" where
  "publish_logged s publish w = (Inr (), if noopPublisher s then w else snd (publish w))"

definition enqueueOutboxEvent ::
  "env \<Rightarrow> chat_service \<Rightarrow> uint64 \<Rightarrow> string \<Rightarrow> payload \<Rightarrow> world \<Rightarrow> (cerr + unit) \<times> world" where
  "enqueueOutboxEvent e s conversationID eventType p w =
     (if \<not> eventOutboxEnabled s then (Inr (), w)
      else if conversationID = 0 \<or> TrimSpace eventType = [] then (Inr (), w)
      else
        case Create_event e
               \<lparr>ob_ID = 0, ob_ConversationID = conversationID, ob_EventType = TrimSpace eventType,
                ob_Payload = p, ob_Status = OutboxStatusPending, ob_Attempts = 0, ob_LastError = [],
                ob_ProcessingAt = None, ob_NextRetryAt = None, ob_PublishedAt = None,
                ob_CreatedAt = 0, ob_UpdatedAt = 0\<rparr> w of
          (Inl err, w1) \<Rightarrow> (Inl (Wrap ''create outbox event failed: '' err), w1)
        | (Inr row, w1) \<Rightarrow> (Inr (), w1\<lparr>shouldNotify := True\<rparr>))"

definition emitMessageCreated :: "env \<Rightarrow> chat_service \<Rightarrow> message \<Rightarrow> world \<Rightarrow> (cerr + unit) \<times> world" where
  "emitMessageCreated e s m w =
     (if \<not> eventOutboxEnabled s then publish_logged s (PublishMessageCreated e m) w
      else enqueueOutboxEvent e s (msg_ConversationID m) ''message.new''
             (message_new (msg_ConversationID m) m) w)"

definition emitMessageStatusRange ::
  "env \<Rightarrow> chat_service \<Rightarrow> uint64 \<Rightarrow> string \<Rightarrow> uint64 \<Rightarrow> string \<Rightarrow> world \<Rightarrow> (cerr + unit) \<times> world" where
  "emitMessageStatusRange e s conversationID senderType upToMessageID status w =
     (if conversationID = 0 \<or> upToMessageID = 0 then (Inr (), w)
      else if \<not> eventOutboxEnabled s
      then publish_logged s (PublishMessageStatusRange e conversationID senderType upToMessageID status) w
      else enqueueOutboxEvent e s conversationID ''message.status''
             (message_status conversationID senderType upToMessageID status) w)"

definition emitConversationClosed :: "env \<Rightarrow> chat_service \<Rightarrow> uint64 \<Rightarrow> world \<Rightarrow> (cerr + unit) \<times> world" where
  "emitConversationClosed e s conversationID w =
     (if conversationID = 0 then (Inr (), w)
      else if \<not> eventOutboxEnabled s then publish_logged s (PublishConversationClosed e conversationID) w
      else enqueueOutboxEvent e s conversationID ''conversation.closed''
             (conversation_closed conversationID ''closed'') w)"

definition NotifyOutbox :: "env \<Rightarrow> world \<Rightarrow> (cerr + unit) \<times> world" where
  "NotifyOutbox e w =
     (case bus_call e w of
        (Some err, w1) \<Rightarrow> (Inl (Wrap ''publish outbox wakeup failed: '' (Text err)), w1)
      | (None, w1) \<Rightarrow> (Inr (), w1\<lparr>wakeups := Suc (wakeups w1)\<rparr>))"

text \<open>\<open>fn\<close> runs in one transaction with its events when the outbox is on, and on its own otherwise.\<close>

definition withEventTransaction ::
  "env \<Rightarrow> chat_service \<Rightarrow> (world \<Rightarrow> (cerr + 'a) \<times> world) \<Rightarrow> world \<Rightarrow> (cerr + 'a) \<times> world" where
  "withEventTransaction e s fn w =
     (if \<not> eventOutboxEnabled s then fn w
      else case in_transaction e fn (w\<lparr>shouldNotify := False\<rparr>) of
          (Inl err, w1) \<Rightarrow> (Inl err, w1)
        | (Inr a, w1) \<Rightarrow>
            if shouldNotify w1 \<and> outboxNotifier s then (Inr a, snd (NotifyOutbox e w1)) else (Inr a, w1))"

section \<open>System messages\<close>

definition text_transferring :: string where
  "text_transferring =
    [CHR 0xE6, CHR 0xAD, CHR 0xA3, CHR 0xE5, CHR 0x9C, CHR 0xA8, CHR 0xE8, CHR 0xBD,
     CHR 0xAC, CHR 0xE6, CHR 0x8E, CHR 0xA5, CHR 0xE5, CHR 0xAE, CHR 0xA2, CHR 0xE6,
     CHR 0x9C, CHR 0x8D]"

definition text_awaiting :: string where
  "text_awaiting =
    [CHR 0xEF, CHR 0xBC, CHR 0x8C, CHR 0xE7, CHR 0xAD, CHR 0x89, CHR 0xE5, CHR 0xBE,
     CHR 0x85, CHR 0xE5, CHR 0xAF, CHR 0xB9, CHR 0xE6, CHR 0x96, CHR 0xB9, CHR 0xE7,
     CHR 0xA1, CHR 0xAE, CHR 0xE8, CHR 0xAE, CHR 0xA4]"

definition text_transferred :: string where
  "text_transferred =
    [CHR 0xE6, CHR 0x88, CHR 0x90, CHR 0xE5, CHR 0x8A, CHR 0x9F, CHR 0xE8, CHR 0xBD,
     CHR 0xAC, CHR 0xE6, CHR 0x8E, CHR 0xA5, CHR 0xE5, CHR 0xAE, CHR 0xA2, CHR 0xE6,
     CHR 0x9C, CHR 0x8D]"

definition text_agent :: string where
  "text_agent =
    [CHR 0xE5, CHR 0xAE, CHR 0xA2, CHR 0xE6, CHR 0x9C, CHR 0x8D]"

definition text_rejects :: string where
  "text_rejects =
    [CHR 0xE6, CHR 0x8B, CHR 0x92, CHR 0xE7, CHR 0xBB, CHR 0x9D, CHR 0xE8, CHR 0xBD,
     CHR 0xAC, CHR 0xE6, CHR 0x8E, CHR 0xA5]"

definition text_continues :: string where
  "text_continues =
    [CHR 0xEF, CHR 0xBC, CHR 0x8C, CHR 0xE5, CHR 0xBD, CHR 0x93, CHR 0xE5, CHR 0x89,
     CHR 0x8D, CHR 0xE4, CHR 0xBC, CHR 0x9A, CHR 0xE8, CHR 0xAF, CHR 0x9D, CHR 0xE7,
     CHR 0xBB, CHR 0xA7, CHR 0xE7, CHR 0xBB, CHR 0xAD, CHR 0xE7, CHR 0x94, CHR 0xB1,
     CHR 0xE5, CHR 0xAE, CHR 0xA2, CHR 0xE6, CHR 0x9C, CHR 0x8D]"

definition text_serves :: string where
  "text_serves =
    [CHR 0xE6, CHR 0x8E, CHR 0xA5, CHR 0xE5, CHR 0xBE, CHR 0x85]"

definition formatAgentID4 :: "uint64 \<Rightarrow> string" where
  "formatAgentID4 agentID =
     (if agentID > 0 \<and> agentID \<le> 9999 then format_04d agentID else FormatUint agentID)"

definition systemClientMsgID :: "uint64 \<Rightarrow> time \<Rightarrow> string" where
  "systemClientMsgID conversationID now =
     ''sys_transfer_'' @ FormatUint conversationID @ ''_'' @ FormatUint (nat now)"

definition publishSystemMessage ::
  "env \<Rightarrow> chat_service \<Rightarrow> uint64 \<Rightarrow> string \<Rightarrow> world \<Rightarrow> (cerr + unit) \<times> world" where
  "publishSystemMessage e s conversationID content w =
     (if conversationID = 0 then (Inr (), w)
      else case Now e w of
        (now, w1) \<Rightarrow>
          (case Create_message e
                  \<lparr>msg_ID = 0, msg_ConversationID = conversationID, msg_SenderType = ''system'',
                   msg_SenderID = [], msg_Content = content,
                   msg_ClientMsgID = systemClientMsgID conversationID now, msg_Status = ''sent'',
                   msg_CreatedAt = 0, msg_UpdatedAt = 0\<rparr> w1 of
             (Inl err, w2) \<Rightarrow> (Inl (Wrap ''create transfer system message failed: '' err), w2)
           | (Inr m, w2) \<Rightarrow>
               (case emitMessageCreated e s m w2 of
                  (Inl err, w3) \<Rightarrow> (Inl (Wrap ''emit transfer system message failed: '' err), w3)
                | (Inr _, w3) \<Rightarrow> (Inr (), w3))))"

text \<open>\<open>publishTransferSystemMessage\<close> with its template cut at the verb \<^verbatim>\<open>%s\<close>.\<close>

definition publishTransferSystemMessage ::
  "env \<Rightarrow> chat_service \<Rightarrow> uint64 \<Rightarrow> string \<Rightarrow> string \<Rightarrow> uint64 \<Rightarrow> world \<Rightarrow> (cerr + unit) \<times> world" where
  "publishTransferSystemMessage e s conversationID before after agentID w =
     publishSystemMessage e s conversationID (before @ formatAgentID4 agentID @ after) w"

section \<open>Conversations\<close>

record CreateConversationInput =
  cci_SiteID :: string
  cci_VisitorToken :: string

definition buildConversationCreateLockKey :: "string \<Rightarrow> string \<Rightarrow> string" where
  "buildConversationCreateLockKey siteID visitorToken =
     ''conversation:create:'' @ siteID @ '':'' @ visitorToken"

definition acquire_create_lock :: "chat_service \<Rightarrow> string \<Rightarrow> world \<Rightarrow> string option \<times> world" where
  "acquire_create_lock s key w =
     (case conversationLocker s of None \<Rightarrow> (None, w) | Some lock \<Rightarrow> (lock key (tick w), advance w))"

definition CreateConversation ::
  "env \<Rightarrow> chat_service \<Rightarrow> CreateConversationInput \<Rightarrow> world \<Rightarrow> (cerr + conversation) \<times> world" where
  "CreateConversation e s inp w =
     (let siteID = TrimSpace (cci_SiteID inp); visitorToken = TrimSpace (cci_VisitorToken inp) in
      if siteID = [] then (Inl (Text ''site_id is required''), w)
      else if visitorToken = [] then (Inl (Text ''visitor_token is required''), w)
      else case acquire_create_lock s (buildConversationCreateLockKey siteID visitorToken) w of
          (Some err, w1) \<Rightarrow> (Inl (Text err), w1)
        | (None, w1) \<Rightarrow>
            (case GetLatestOpenBySiteVisitor e siteID visitorToken w1 of
               (Inr existing, w2) \<Rightarrow> (Inr existing, w2)
             | (Inl err, w2) \<Rightarrow>
                 if \<not> errors_Is err RepoNotFound then (Inl err, w2)
                 else Create_conversation e
                        \<lparr>conv_ID = 0, conv_SiteID = siteID, conv_VisitorToken = visitorToken,
                         conv_Status = ''open'', conv_AssignedAgentID = None,
                         conv_PendingTransferToAgentID = None, conv_PendingTransferFromAgentID = None,
                         conv_PendingTransferRequestedAt = None, conv_CreatedAt = 0, conv_UpdatedAt = 0,
                         conv_ClosedAt = None, conv_ClosedByAgentID = None\<rparr> w2))"

text \<open>Repository misses are reported as the service's own sentinel.\<close>

definition conversation_lookup_error :: "cerr \<Rightarrow> cerr" where
  "conversation_lookup_error err =
     (if errors_Is err RepoNotFound then Sentinel ErrConversationNotFound else err)"

definition GetConversation :: "env \<Rightarrow> uint64 \<Rightarrow> world \<Rightarrow> (cerr + conversation) \<times> world" where
  "GetConversation e i w =
     (case GetByID e i w of
        (Inl err, w1) \<Rightarrow> (Inl (conversation_lookup_error err), w1)
      | (Inr c, w1) \<Rightarrow> (Inr c, w1))"

record ListConversationsInput =
  lci_Status :: string
  lci_SiteID :: string
  lci_AssignedAgentID :: "uint64 option"
  lci_UnassignedOnly :: bool
  lci_Limit :: int
  lci_Offset :: int

definition ListConversations ::
  "env \<Rightarrow> ListConversationsInput \<Rightarrow> world \<Rightarrow> (cerr + conversation list) \<times> world" where
  "ListConversations e inp w =
     (let limit = (if lci_Limit inp \<le> 0 then 50 else lci_Limit inp) in
      if limit > 200 then (Inl (Text ''invalid limit''), w)
      else if lci_Offset inp < 0 then (Inl (Text ''invalid offset''), w)
      else if lci_Status inp \<noteq> [] \<and> lci_Status inp \<noteq> ''open'' \<and> lci_Status inp \<noteq> ''closed''
      then (Inl (Text ''invalid status''), w)
      else List_conversations e
             \<lparr>flt_Status = lci_Status inp, flt_SiteID = lci_SiteID inp,
              flt_AssignedAgentID = lci_AssignedAgentID inp, flt_UnassignedOnly = lci_UnassignedOnly inp,
              flt_Limit = nat limit, flt_Offset = nat (lci_Offset inp)\<rparr> w)"

section \<open>Messages\<close>

record CreateMessageInput =
  cmi_ConversationID :: uint64
  cmi_SenderType :: string
  cmi_SenderID :: string
  cmi_Content :: string
  cmi_ClientMsgID :: string
  cmi_VisitorToken :: string

definition isDuplicateMessageErr :: "string \<Rightarrow> bool" where
  "isDuplicateMessageErr errText =
     (let msg = ToLower errText in
      Contains msg ''duplicate'' \<or> Contains msg ''unique'' \<or> Contains msg ''1062'')"

fun sentinel_text :: "chat_sentinel \<Rightarrow> string" where
  "sentinel_text RepoNotFound = ''not found''"
| "sentinel_text ErrConversationNotFound = ''conversation not found''"
| "sentinel_text ErrConversationAlreadyClaimed = ''conversation already claimed by another agent''"
| "sentinel_text ErrConversationUnassigned = ''conversation is unassigned''"
| "sentinel_text ErrConversationClosed = ''conversation is already closed''"
| "sentinel_text ErrConversationTransferPending = ''conversation transfer is pending confirmation''"
| "sentinel_text ErrConversationTransferNotPending = ''conversation transfer is not pending confirmation''"
| "sentinel_text ErrMessageNotFound = ''message not found''"
| "sentinel_text ErrForbidden = ''forbidden''"

text \<open>The checks of the sender against the conversation; the result is the sender id to store.\<close>

definition authorize_sender :: "CreateMessageInput \<Rightarrow> conversation \<Rightarrow> cerr + string" where
  "authorize_sender inp c =
     (if conv_Status c = ''closed'' then Inl (Sentinel ErrConversationClosed)
      else if cmi_SenderType inp = ''visitor'' then
        (if TrimSpace (cmi_VisitorToken inp) = [] then Inl (Text ''visitor_token is required'')
         else if conv_VisitorToken c \<noteq> TrimSpace (cmi_VisitorToken inp)
         then Inl (Text ''visitor token does not match conversation'')
         else Inr (cmi_SenderID inp))
      else if cmi_SenderType inp = ''agent'' then
        (if TrimSpace (cmi_SenderID inp) = []
         then Inl (Text ''sender_id is required for agent sender_type'')
         else case ParseUint (TrimSpace (cmi_SenderID inp)) of
             None \<Rightarrow> Inl (Text ''invalid sender_id'')
           | Some senderAgentID \<Rightarrow>
               if senderAgentID = 0 then Inl (Text ''invalid sender_id'')
               else case conv_AssignedAgentID c of
                   None \<Rightarrow> Inl (Sentinel ErrConversationUnassigned)
                 | Some a \<Rightarrow>
                     if a \<noteq> senderAgentID then Inl (Sentinel ErrForbidden)
                     else Inr (TrimSpace (cmi_SenderID inp)))
      else Inr (cmi_SenderID inp))"

definition new_message :: "CreateMessageInput \<Rightarrow> string \<Rightarrow> message" where
  "new_message inp senderID =
     \<lparr>msg_ID = 0, msg_ConversationID = cmi_ConversationID inp, msg_SenderType = cmi_SenderType inp,
      msg_SenderID = senderID, msg_Content = cmi_Content inp, msg_ClientMsgID = cmi_ClientMsgID inp,
      msg_Status = ''sent'', msg_CreatedAt = 0, msg_UpdatedAt = 0\<rparr>"

text \<open>The insertion with its fallback to the row a concurrent request has just stored.\<close>

definition insert_message ::
  "env \<Rightarrow> chat_service \<Rightarrow> CreateMessageInput \<Rightarrow> string \<Rightarrow> world \<Rightarrow> (cerr + message \<times> bool) \<times> world" where
  "insert_message e s inp senderID w =
     (case Create_message e (new_message inp senderID) w of
        (Inl err, w1) \<Rightarrow>
          if isDuplicateMessageErr (Error sentinel_text err) then
            (case GetByClientMsgID e (cmi_ConversationID inp) (cmi_ClientMsgID inp) w1 of
               (Inr existing, w2) \<Rightarrow> (Inr (existing, False), w2)
             | (Inl findErr, w2) \<Rightarrow>
                 if \<not> errors_Is findErr RepoNotFound then (Inl findErr, w2) else (Inl err, w2))
          else (Inl err, w1)
      | (Inr m, w1) \<Rightarrow>
          (case emitMessageCreated e s m w1 of
             (Inl err, w2) \<Rightarrow> (Inl err, w2)
           | (Inr _, w2) \<Rightarrow> (Inr (m, True), w2)))"

definition create_message_body ::
  "env \<Rightarrow> chat_service \<Rightarrow> CreateMessageInput \<Rightarrow> world \<Rightarrow> (cerr + message \<times> bool) \<times> world" where
  "create_message_body e s inp w =
     (case GetByID e (cmi_ConversationID inp) w of
        (Inl err, w1) \<Rightarrow> (Inl (conversation_lookup_error err), w1)
      | (Inr c, w1) \<Rightarrow>
          (case authorize_sender inp c of
             Inl err \<Rightarrow> (Inl err, w1)
           | Inr senderID \<Rightarrow>
               (case GetByClientMsgID e (cmi_ConversationID inp) (cmi_ClientMsgID inp) w1 of
                  (Inr existing, w2) \<Rightarrow> (Inr (existing, False), w2)
                | (Inl err, w2) \<Rightarrow>
                    if \<not> errors_Is err RepoNotFound then (Inl err, w2)
                    else insert_message e s inp senderID w2)))"

definition onMessageCreatedForAutoClose :: "chat_service \<Rightarrow> message \<Rightarrow> world \<Rightarrow> world" where
  "onMessageCreatedForAutoClose s m w =
     (if \<not> hasScheduler s then w
      else if msg_SenderType m = ''agent''
      then Schedule (msg_ConversationID m) (msg_CreatedAt m + autoCloseAfter s) w
      else if msg_SenderType m = ''visitor'' then Cancel (msg_ConversationID m) w
      else w)"

definition valid_sender_type :: "string \<Rightarrow> bool" where
  "valid_sender_type t \<longleftrightarrow> t = ''visitor'' \<or> t = ''agent'' \<or> t = ''system'' \<or> t = ''ai''"

definition CreateMessage ::
  "env \<Rightarrow> chat_service \<Rightarrow> CreateMessageInput \<Rightarrow> world \<Rightarrow> (cerr + message) \<times> world" where
  "CreateMessage e s inp w =
     (if \<not> valid_sender_type (cmi_SenderType inp) then (Inl (Text ''invalid sender_type''), w)
      else if TrimSpace (cmi_Content inp) = [] then (Inl (Text ''content is required''), w)
      else if RuneCountInString (cmi_Content inp) > MaxMessageContentChars
      then (Inl (Text ''invalid content: too long (max 2000 characters)''), w)
      else case withEventTransaction e s (create_message_body e s inp) w of
          (Inl err, w1) \<Rightarrow> (Inl err, w1)
        | (Inr (m, created), w1) \<Rightarrow>
            (Inr m, if created then onMessageCreatedForAutoClose s m w1 else w1))"

record MarkMessagesReadInput =
  mri_ConversationID :: uint64
  mri_LastReadMessageID :: uint64
  mri_ActorType :: string
  mri_ActorAgentID :: uint64
  mri_VisitorToken :: string

definition normalizeActorType :: "string \<Rightarrow> cerr + string" where
  "normalizeActorType actorType =
     (let t = ToLower (TrimSpace actorType) in
      if t \<noteq> ''agent'' \<and> t \<noteq> ''visitor'' then Inl (Text ''invalid actor_type'') else Inr t)"

definition normalizeActorRole :: "string \<Rightarrow> cerr + string" where
  "normalizeActorRole role =
     (let r = ToLower (TrimSpace role) in
      if r \<noteq> ''agent'' \<and> r \<noteq> ''admin'' \<and> r \<noteq> ''super_admin''
      then Inl (Text ''invalid actor_role'') else Inr r)"

text \<open>Whose messages the actor has read, after the checks of the actor.\<close>

definition read_targets :: "MarkMessagesReadInput \<Rightarrow> string \<Rightarrow> conversation \<Rightarrow> cerr + string list" where
  "read_targets inp actorType c =
     (if actorType = ''visitor'' then
        (if TrimSpace (mri_VisitorToken inp) = [] then Inl (Text ''visitor_token is required'')
         else if conv_VisitorToken c \<noteq> mri_VisitorToken inp
         then Inl (Text ''visitor token does not match conversation'')
         else Inr [''agent'', ''ai''])
      else if mri_ActorAgentID inp = 0 then Inl (Text ''actor_agent_id is required'')
      else Inr [''visitor''])"

fun mark_targets ::
  "env \<Rightarrow> chat_service \<Rightarrow> uint64 \<Rightarrow> uint64 \<Rightarrow> string list \<Rightarrow> nat \<Rightarrow> world \<Rightarrow> (cerr + nat) \<times> world" where
  "mark_targets e s i lastID [] totalRows w = (Inr totalRows, w)"
| "mark_targets e s i lastID (t # ts) totalRows w =
     (case MarkReadByConversationAndSender e i t lastID w of
        (Inl err, w1) \<Rightarrow> (Inl err, w1)
      | (Inr rows, w1) \<Rightarrow>
          if rows > 0 then
            (case emitMessageStatusRange e s i t lastID ''read'' w1 of
               (Inl err, w2) \<Rightarrow> (Inl err, w2)
             | (Inr _, w2) \<Rightarrow> mark_targets e s i lastID ts (totalRows + rows) w2)
          else mark_targets e s i lastID ts (totalRows + rows) w1)"

definition mark_read_body ::
  "env \<Rightarrow> chat_service \<Rightarrow> MarkMessagesReadInput \<Rightarrow> string \<Rightarrow> world \<Rightarrow> (cerr + nat) \<times> world" where
  "mark_read_body e s inp actorType w =
     (case GetByID e (mri_ConversationID inp) w of
        (Inl err, w1) \<Rightarrow> (Inl (conversation_lookup_error err), w1)
      | (Inr c, w1) \<Rightarrow>
          (case read_targets inp actorType c of
             Inl err \<Rightarrow> (Inl err, w1)
           | Inr ts \<Rightarrow> mark_targets e s (mri_ConversationID inp) (mri_LastReadMessageID inp) ts 0 w1))"

definition MarkMessagesRead ::
  "env \<Rightarrow> chat_service \<Rightarrow> MarkMessagesReadInput \<Rightarrow> world \<Rightarrow> (cerr + nat) \<times> world" where
  "MarkMessagesRead e s inp w =
     (if mri_ConversationID inp = 0 then (Inl (Text ''conversation_id is required''), w)
      else if mri_LastReadMessageID inp = 0 then (Inl (Text ''last_read_message_id is required''), w)
      else case normalizeActorType (mri_ActorType inp) of
          Inl err \<Rightarrow> (Inl err, w)
        | Inr actorType \<Rightarrow> withEventTransaction e s (mark_read_body e s inp actorType) w)"

definition ListMessages ::
  "env \<Rightarrow> uint64 \<Rightarrow> nat \<Rightarrow> uint64 \<Rightarrow> world \<Rightarrow> (cerr + message list) \<times> world" where
  "ListMessages e conversationID limit beforeID w =
     (case GetConversation e conversationID w of
        (Inl err, w1) \<Rightarrow> (Inl err, w1)
      | (Inr c, w1) \<Rightarrow> ListByConversation e conversationID limit beforeID w1)"

section \<open>Claim, transfer, close\<close>

record ClaimConversationInput =
  cli_ConversationID :: uint64
  cli_AgentID :: uint64

definition ClaimConversation ::
  "env \<Rightarrow> ClaimConversationInput \<Rightarrow> world \<Rightarrow> (cerr + conversation) \<times> world" where
  "ClaimConversation e inp w =
     (if cli_ConversationID inp = 0 then (Inl (Text ''conversation_id is required''), w)
      else if cli_AgentID inp = 0 then (Inl (Text ''agent_id is required''), w)
      else case Mutate e False (cli_ConversationID inp) (timed e (claim_mutation (cli_AgentID inp))) w of
          (Inl err, w1) \<Rightarrow> (Inl (conversation_lookup_error err), w1)
        | (Inr (c, _), w1) \<Rightarrow> (Inr c, w1))"

text \<open>
  The common part of the four operations that mutate the row and then publish: the mutation, the
  translation of a miss, and \<open>after\<close> on the captured variables when the row changed.
\<close>

definition mutate_and_emit ::
  "env \<Rightarrow> chat_service \<Rightarrow> uint64 \<Rightarrow> 'a mutation \<Rightarrow>
   (conversation \<Rightarrow> 'a \<Rightarrow> world \<Rightarrow> (cerr + unit) \<times> world) \<Rightarrow> world \<Rightarrow> (cerr + conversation) \<times> world" where
  "mutate_and_emit e s i mutation after w =
     (case Mutate e (eventOutboxEnabled s) i mutation w of
        (Inl err, w1) \<Rightarrow> (Inl (conversation_lookup_error err), w1)
      | (Inr (c, changed, a), w1) \<Rightarrow>
          if changed then
            (case after c a w1 of
               (Inl err, w2) \<Rightarrow> (Inl err, w2)
             | (Inr _, w2) \<Rightarrow> (Inr c, w2))
          else (Inr c, w1))"

record ActorInput =
  act_ConversationID :: uint64
  act_ActorAgentID :: uint64
  act_ActorRole :: string

record TransferConversationInput = ActorInput +
  tci_ToAgentID :: uint64

definition TransferConversation ::
  "env \<Rightarrow> chat_service \<Rightarrow> TransferConversationInput \<Rightarrow> world \<Rightarrow> (cerr + conversation) \<times> world" where
  "TransferConversation e s inp w =
     (if act_ConversationID inp = 0 then (Inl (Text ''conversation_id is required''), w)
      else if act_ActorAgentID inp = 0 then (Inl (Text ''actor_agent_id is required''), w)
      else if tci_ToAgentID inp = 0 then (Inl (Text ''to_agent_id is required''), w)
      else case normalizeActorRole (act_ActorRole inp) of
          Inl err \<Rightarrow> (Inl err, w)
        | Inr role \<Rightarrow>
            withEventTransaction e s
              (mutate_and_emit e s (act_ConversationID inp)
                 (timed e (transfer_mutation role (act_ActorAgentID inp) (tci_ToAgentID inp)))
                 (\<lambda>c target. publishTransferSystemMessage e s (conv_ID c) text_transferring text_awaiting target)) w)"

definition ConfirmTransferConversation ::
  "env \<Rightarrow> chat_service \<Rightarrow> ActorInput \<Rightarrow> world \<Rightarrow> (cerr + conversation) \<times> world" where
  "ConfirmTransferConversation e s inp w =
     (if act_ConversationID inp = 0 then (Inl (Text ''conversation_id is required''), w)
      else if act_ActorAgentID inp = 0 then (Inl (Text ''actor_agent_id is required''), w)
      else case normalizeActorRole (act_ActorRole inp) of
          Inl err \<Rightarrow> (Inl err, w)
        | Inr role \<Rightarrow>
            withEventTransaction e s
              (mutate_and_emit e s (act_ConversationID inp)
                 (timed e (confirm_mutation role (act_ActorAgentID inp)))
                 (\<lambda>c target. publishTransferSystemMessage e s (conv_ID c) text_transferred [] target)) w)"

definition reject_content :: "uint64 \<times> uint64 \<Rightarrow> string" where
  "reject_content ot =
     (case ot of (owner, target) \<Rightarrow>
        if owner > 0
        then text_agent @ formatAgentID4 target @ text_rejects @ text_continues @ formatAgentID4 owner @ text_serves
        else text_agent @ formatAgentID4 target @ text_rejects)"

definition RejectTransferConversation ::
  "env \<Rightarrow> chat_service \<Rightarrow> ActorInput \<Rightarrow> world \<Rightarrow> (cerr + conversation) \<times> world" where
  "RejectTransferConversation e s inp w =
     (if act_ConversationID inp = 0 then (Inl (Text ''conversation_id is required''), w)
      else if act_ActorAgentID inp = 0 then (Inl (Text ''actor_agent_id is required''), w)
      else case normalizeActorRole (act_ActorRole inp) of
          Inl err \<Rightarrow> (Inl err, w)
        | Inr role \<Rightarrow>
            withEventTransaction e s
              (mutate_and_emit e s (act_ConversationID inp)
                 (timed e (reject_mutation role (act_ActorAgentID inp)))
                 (\<lambda>c ot. publishSystemMessage e s (conv_ID c) (reject_content ot))) w)"

definition CloseConversation ::
  "env \<Rightarrow> chat_service \<Rightarrow> ActorInput \<Rightarrow> world \<Rightarrow> (cerr + conversation) \<times> world" where
  "CloseConversation e s inp w =
     (if act_ConversationID inp = 0 then (Inl (Text ''conversation_id is required''), w)
      else if act_ActorAgentID inp = 0 then (Inl (Text ''actor_agent_id is required''), w)
      else case normalizeActorRole (act_ActorRole inp) of
          Inl err \<Rightarrow> (Inl err, w)
        | Inr role \<Rightarrow>
            (case withEventTransaction e s
                    (mutate_and_emit e s (act_ConversationID inp)
                       (timed e (close_mutation role (act_ActorAgentID inp)))
                       (\<lambda>c _. emitConversationClosed e s (conv_ID c))) w of
               (Inl err, w1) \<Rightarrow> (Inl err, w1)
             | (Inr c, w1) \<Rightarrow>
                 (Inr c, if conv_Status c = ''closed'' \<and> hasScheduler s then Cancel (conv_ID c) w1 else w1)))"

end
