(* ===== verification/Chat_Service_Laws.thy ===== *)
theory Chat_Service_Laws
  imports Chat_Service
begin

text \<open>
  Every operation of the chat service evolves the store: from a state with the invariant it leads to
  one with the invariant, conversations move along their life cycle, closed ones are frozen.  The
  lemmas go up the call graph: publisher, outbox, transaction, system messages, operations.
\<close>

section \<open>Publishing and the outbox\<close>

text \<open>What an operation of the bus may touch.\<close>

definition bus_only :: "world \<Rightarrow> world \<Rightarrow> bool" where
  "bus_only w w' \<longleftrightarrow> (\<exists>n b k. w' = w\<lparr>tick := n, bus := bus w @ b, wakeups := k\<rparr>)"

lemma bus_onlyI: "w' = w\<lparr>tick := n, bus := bus w @ b, wakeups := k\<rparr> \<Longrightarrow> bus_only w w'"
  unfolding bus_only_def by blast

lemma bus_only_same [simp]:
  assumes "bus_only w w'"
  shows "db w' = db w" "conversation_seq w' = conversation_seq w" "message_seq w' = message_seq w"
    "outbox_seq w' = outbox_seq w" "timers w' = timers w" "shouldNotify w' = shouldNotify w"
    "set (bus w) \<subseteq> set (bus w')"
  using assms by (auto simp: bus_only_def)

lemma bus_only_evolves: "bus_only w w' \<Longrightarrow> evolves e w w'"
  by (rule evolves_frame) simp_all

lemma bus_only_refl [simp]: "bus_only w w"
  by (rule bus_onlyI [where b = "[]" and n = "tick w" and k = "wakeups w"]) simp

lemma bus_only_advance [simp]: "bus_only w (advance w)"
  by (rule bus_onlyI [where b = "[]" and n = "Suc (tick w)" and k = "wakeups w"]) (simp add: advance_def)

lemma bus_only_publish [simp]: "bus_only w ((advance w)\<lparr>bus := bus w @ b\<rparr>)"
  by (rule bus_onlyI [where b = b and n = "Suc (tick w)" and k = "wakeups w"]) (simp add: advance_def)

lemma bus_only_wakeup [simp]: "bus_only w ((advance w)\<lparr>wakeups := k\<rparr>)"
  by (rule bus_onlyI [where b = "[]" and n = "Suc (tick w)" and k = k]) (simp add: advance_def)

lemma PublishConversationEvent_bus [simp]: "bus_only w (snd (PublishConversationEvent e i p w))"
  by (simp add: PublishConversationEvent_def bus_call_def split: option.split)

lemma wrap_error_snd [simp]: "snd (wrap_error t r) = snd r"
  by (simp add: wrap_error_def split: prod.split sum.split)

lemma publishers_bus [simp]:
  "bus_only w (snd (PublishMessageCreated e m w))"
  "bus_only w (snd (PublishMessageStatusRange e i t k s w))"
  "bus_only w (snd (PublishConversationClosed e i w))"
  by (simp_all add: PublishMessageCreated_def PublishMessageStatusRange_def PublishConversationClosed_def)

lemma publish_logged_evolves:
  assumes "publish_logged s p w = (r, w')" and "\<And>w. bus_only w (snd (p w))"
  shows "evolves e w w'"
  using assms by (auto simp: publish_logged_def intro: bus_only_evolves)

lemma enqueueOutboxEvent_evolves:
  assumes "enqueueOutboxEvent e s i t p w = (r, w')"
  shows "evolves e w w'"
  using assms
  by (auto simp: enqueueOutboxEvent_def outbox_statuses_def split: if_splits prod.splits sum.splits
      dest!: Create_event_evolves)

lemma emit_evolves:
  "emitMessageCreated e s m w = (r, w') \<Longrightarrow> evolves e w w'"
  "emitMessageStatusRange e s i t k st w = (r, w') \<Longrightarrow> evolves e w w'"
  "emitConversationClosed e s i w = (r, w') \<Longrightarrow> evolves e w w'"
  by (auto simp: emitMessageCreated_def emitMessageStatusRange_def emitConversationClosed_def
      split: if_splits dest: enqueueOutboxEvent_evolves publish_logged_evolves)

text \<open>Emitting an event touches neither conversations nor messages.\<close>

lemma enqueue_tables:
  "enqueueOutboxEvent e s i t p w = (r, w') \<Longrightarrow>
   conversations (db w') = conversations (db w) \<and> messages (db w') = messages (db w)"
  by (auto simp: enqueueOutboxEvent_def split: if_splits prod.splits sum.splits elim!: Create_event_cases)

lemma publish_logged_db:
  "publish_logged s p w = (r, w') \<Longrightarrow> (\<And>w. bus_only w (snd (p w))) \<Longrightarrow> db w' = db w"
  by (auto simp: publish_logged_def)

lemma emit_tables:
  "emitMessageCreated e s m w = (r, w') \<Longrightarrow>
   conversations (db w') = conversations (db w) \<and> messages (db w') = messages (db w)"
  "emitMessageStatusRange e s i t k st w = (r, w') \<Longrightarrow>
   conversations (db w') = conversations (db w) \<and> messages (db w') = messages (db w)"
  "emitConversationClosed e s i w = (r, w') \<Longrightarrow>
   conversations (db w') = conversations (db w) \<and> messages (db w') = messages (db w)"
  by (auto simp: emitMessageCreated_def emitMessageStatusRange_def emitConversationClosed_def
      split: if_splits dest: enqueue_tables publish_logged_db)

lemma NotifyOutbox_bus [simp]: "bus_only w (snd (NotifyOutbox e w))"
  by (simp add: NotifyOutbox_def bus_call_def split: option.split)

text \<open>\<open>withEventTransaction\<close> is atomic when the outbox is on, and evolves the store when its body does.\<close>

lemma withEventTransaction_error:
  assumes "withEventTransaction e s fn w = (Inl err, w')" and "eventOutboxEnabled s"
  shows "db w' = db w"
  using assms
  by (auto simp: withEventTransaction_def dest!: in_transaction_error split: prod.splits sum.splits if_splits)

lemma withEventTransaction_ok:
  assumes "withEventTransaction e s fn w = (Inr a, w')"
  obtains w1 w2 where "db w1 = db w" "message_seq w1 = message_seq w" "outbox_seq w1 = outbox_seq w"
    "fn w1 = (Inr a, w2)" "db w' = db w2" "timers w2 = timers w'"
proof (cases "eventOutboxEnabled s")
  case False
  with assms that [of w w'] show ?thesis by (simp add: withEventTransaction_def)
next
  case True
  with assms obtain v where v: "in_transaction e fn (w\<lparr>shouldNotify := False\<rparr>) = (Inr a, v)"
    "db w' = db v" "timers w' = timers v"
    by (auto simp: withEventTransaction_def split: prod.splits sum.splits if_splits)
  from v(1) obtain w1 w2 where "only_ticks (w\<lparr>shouldNotify := False\<rparr>) w1" "fn w1 = (Inr a, w2)" "only_ticks w2 v"
    by (rule in_transaction_ok)
  with v that [of w1 w2] show ?thesis by simp
qed

lemma withEventTransaction_db:
  assumes "withEventTransaction e s fn w = (r, w')"
  obtains "db w' = db w" | w1 w2 q where "db w1 = db w" "fn w1 = (q, w2)" "db w' = db w2"
proof (cases "eventOutboxEnabled s \<and> (\<exists>err. r = Inl err)")
  case True
  with assms that(1) show ?thesis by (auto dest: withEventTransaction_error)
next
  case False
  show ?thesis
  proof (cases r)
    case (Inl err)
    with False assms that(2) [of w r w'] show ?thesis by (simp add: withEventTransaction_def)
  next
    case (Inr a)
    with assms that(2) show ?thesis by (auto elim: withEventTransaction_ok)
  qed
qed

lemma withEventTransaction_evolves:
  assumes body: "\<And>w r w'. fn w = (r, w') \<Longrightarrow> evolves e w w'"
    and run: "withEventTransaction e s fn w = (r, w')"
  shows "evolves e w w'"
proof (cases "eventOutboxEnabled s")
  case False
  with run body show ?thesis by (simp add: withEventTransaction_def)
next
  case True
  obtain r1 w1 where 1: "in_transaction e fn (w\<lparr>shouldNotify := False\<rparr>) = (r1, w1)" by fastforce
  have "evolves e (w\<lparr>shouldNotify := False\<rparr>) w1" by (rule in_transaction_evolves [OF body 1])
  moreover have "evolves e w (w\<lparr>shouldNotify := False\<rparr>)" by (rule evolves_frame) simp_all
  ultimately have "evolves e w w1" by (rule evolves_trans [rotated])
  moreover have "evolves e w1 w'"
    using run True 1 bus_only_evolves [OF NotifyOutbox_bus]
    by (auto simp: withEventTransaction_def split: sum.splits if_splits)
  ultimately show ?thesis by (rule evolves_trans)
qed

section \<open>System messages and row changes\<close>

lemma publishSystemMessage_evolves:
  assumes "publishSystemMessage e s i content w = (r, w')"
    and "by_id conv_ID i (conversations (db w)) = Some c" "is_open c"
  shows "evolves e w w'"
proof (cases "i = 0")
  case True
  with assms(1) show ?thesis by (simp add: publishSystemMessage_def)
next
  case False
  obtain now w1 where 1: "Now e w = (now, w1)" by fastforce
  then have t1: "only_ticks w w1" by (rule only_ticks_Now)
  let ?m = "\<lparr>msg_ID = 0, msg_ConversationID = i, msg_SenderType = ''system'', msg_SenderID = [],
     msg_Content = content, msg_ClientMsgID = systemClientMsgID i now, msg_Status = ''sent'',
     msg_CreatedAt = 0, msg_UpdatedAt = 0\<rparr>"
  obtain r2 w2 where 2: "Create_message e ?m w1 = (r2, w2)" by fastforce
  have e2: "evolves e w w2"
    using Create_message_evolves [OF 2] assms(2,3) t1
    by (auto intro: evolves_trans [OF evolves_only_ticks [OF t1]])
  show ?thesis
  proof (cases r2)
    case (Inl err)
    with assms(1) False 1 2 e2 show ?thesis by (simp add: publishSystemMessage_def)
  next
    case (Inr m)
    obtain r3 w3 where 3: "emitMessageCreated e s m w2 = (r3, w3)" by fastforce
    have "w' = w3" using assms(1) False 1 2 3 Inr by (auto simp: publishSystemMessage_def split: sum.splits)
    with e2 emit_evolves(1) [OF 3] show ?thesis by (blast intro: evolves_trans)
  qed
qed

lemma by_id_replace_row:
  "by_id conv_ID (conv_ID c) cs \<noteq> None \<Longrightarrow> by_id conv_ID (conv_ID c) (replace_row c cs) = Some c"
  by (induction cs) (auto simp: by_id_def split: if_splits)

lemma by_id_save_conversation:
  "by_id conv_ID (conv_ID c) (conversations (db w)) \<noteq> None \<Longrightarrow>
   by_id conv_ID (conv_ID c) (conversations (db (save_conversation c w))) = Some c"
  by (simp add: save_conversation_eq by_id_replace_row)

context row_mutation
begin

lemma mutateInDB_changed:
  assumes "mutateInDB e i m w = (Inr (c', True, a), w')"
  obtains c c0 t w1 w2 where "by_id conv_ID i (conversations (db w)) = Some c" "only_ticks w w1"
    "m c w1 = (Inr (c0, True, a), w2)" "c' = c0\<lparr>conv_UpdatedAt := t\<rparr>"
    "by_id conv_ID i (conversations (db w')) = Some c'" "conv_ID c' = i"
  using assms
proof (cases rule: mutateInDB_cases)
  case (saved c c0 a0 w1 w2 w3 t)
  have "conv_ID c = i" using saved(1) by (auto dest: by_id_Some)
  moreover have "conv_ID c0 = conv_ID c" using identity [OF saved(3)] by (simp add: same_identity_def)
  ultimately show ?thesis
    using saved by_id_save_conversation [of "c0\<lparr>conv_UpdatedAt := t\<rparr>" w3] that [of c w1 c0 w2 t] by auto
qed auto

lemma Mutate_changed:
  assumes "Mutate e inTx i m w = (Inr (c', True, a), w')"
  obtains c c0 t w1 w2 where "by_id conv_ID i (conversations (db w)) = Some c"
    "m c w1 = (Inr (c0, True, a), w2)" "c' = c0\<lparr>conv_UpdatedAt := t\<rparr>"
    "by_id conv_ID i (conversations (db w')) = Some c'" "conv_ID c' = i"
proof (cases inTx)
  case True
  with assms have "mutateInDB e i m w = (Inr (c', True, a), w')" by (simp add: Mutate_def)
  then show ?thesis by (rule mutateInDB_changed) (rule that)
next
  case False
  with assms obtain u v where "only_ticks w u" "mutateInDB e i m u = (Inr (c', True, a), v)" "only_ticks v w'"
    by (auto simp: Mutate_def elim: in_transaction_ok)
  then have run: "mutateInDB e i m u = (Inr (c', True, a), v)" and [simp]: "db u = db w" "db v = db w'"
    by simp_all
  from run show ?thesis by (rule mutateInDB_changed) (rule that, simp_all)
qed

lemma mutateInDB_db:
  assumes "mutateInDB e i m w = (r, w')"
  obtains (same) "db w' = db w" "\<And>c ch a. r = Inr (c, ch, a) \<Longrightarrow> \<not> ch"
  | (changed) c c0 a t w1 w2 where "by_id conv_ID i (conversations (db w)) = Some c" "db w1 = db w"
      "m c w1 = (Inr (c0, True, a), w2)" "r = Inr (c0\<lparr>conv_UpdatedAt := t\<rparr>, True, a)"
      "db w' = (db w)\<lparr>conversations := replace_row (c0\<lparr>conv_UpdatedAt := t\<rparr>) (conversations (db w))\<rparr>"
  using assms
proof (cases rule: mutateInDB_cases)
  case (saved c c0 a w1 w2 w3 t)
  then show ?thesis using changed [of c w1 c0 a w2 t] by (simp add: save_conversation_eq)
qed (auto intro: same)

lemma Mutate_db:
  assumes "Mutate e inTx i m w = (r, w')"
  obtains (same) "db w' = db w" "\<And>c ch a. r = Inr (c, ch, a) \<Longrightarrow> \<not> ch"
  | (changed) c c0 a t w1 w2 where "by_id conv_ID i (conversations (db w)) = Some c" "db w1 = db w"
      "m c w1 = (Inr (c0, True, a), w2)" "r = Inr (c0\<lparr>conv_UpdatedAt := t\<rparr>, True, a)"
      "db w' = (db w)\<lparr>conversations := replace_row (c0\<lparr>conv_UpdatedAt := t\<rparr>) (conversations (db w))\<rparr>"
proof (cases "inTx \<or> (\<exists>err. r = Inl err)")
  case True
  show ?thesis
  proof (cases inTx)
    case True
    with assms have "mutateInDB e i m w = (r, w')" by (simp add: Mutate_def)
    then show ?thesis by (rule mutateInDB_db) (rule same changed; assumption)+
  next
    case False
    with True assms have "db w' = db w" "\<exists>err. r = Inl err" by (auto simp: Mutate_def dest: in_transaction_error)
    then show ?thesis by (intro same) auto
  qed
next
  case False
  then obtain a where r: "r = Inr a" by (cases r) auto
  from False assms have "in_transaction e (mutateInDB e i m) w = (Inr a, w')" by (simp add: Mutate_def r)
  then obtain u v where "only_ticks w u" and run: "mutateInDB e i m u = (r, v)" and "only_ticks v w'"
    unfolding r by (rule in_transaction_ok)
  then have [simp]: "db u = db w" "db w' = db v" by simp_all
  note unchanged = same and stored = changed
  from run show ?thesis
  proof (cases rule: mutateInDB_db)
    case same
    then show ?thesis by (intro unchanged) simp_all
  next
    case (changed c c0 a t w1 w2)
    then show ?thesis by (intro stored [of c w1 c0 a w2 t]) simp_all
  qed
qed

lemma mutate_and_emit_evolves:
  assumes run: "mutate_and_emit e s i m after w = (r, w')"
    and Q: "\<And>c w c' a w' t. m c w = (Inr (c', True, a), w') \<Longrightarrow> Q (c'\<lparr>conv_UpdatedAt := t\<rparr>)"
    and after: "\<And>c a w r w'. Q c \<Longrightarrow> by_id conv_ID (conv_ID c) (conversations (db w)) = Some c \<Longrightarrow>
      after c a w = (r, w') \<Longrightarrow> evolves e w w'"
  shows "evolves e w w'"
proof -
  obtain r1 w1 where 1: "Mutate e (eventOutboxEnabled s) i m w = (r1, w1)" by fastforce
  then have e1: "evolves e w w1" by (rule Mutate_evolves)
  show ?thesis
  proof (cases "\<exists>c a. r1 = Inr (c, True, a)")
    case False
    with run 1 e1 show ?thesis by (auto simp: mutate_and_emit_def split: sum.splits if_splits)
  next
    case True
    then obtain c a where r1: "r1 = Inr (c, True, a)" by blast
    with 1 have c: "Q c" "by_id conv_ID (conv_ID c) (conversations (db w1)) = Some c"
      by (auto elim!: Mutate_changed intro: Q)
    obtain r2 w2 where 2: "after c a w1 = (r2, w2)" by fastforce
    have "w' = w2" using run 1 r1 2 by (auto simp: mutate_and_emit_def split: sum.splits)
    with e1 after [OF c 2] show ?thesis by (blast intro: evolves_trans)
  qed
qed

end

section \<open>The operations\<close>

lemma CreateConversation_evolves:
  assumes "CreateConversation e s inp w = (r, w')"
  shows "evolves e w w'"
proof -
  let ?site = "TrimSpace (cci_SiteID inp)" and ?tok = "TrimSpace (cci_VisitorToken inp)"
  obtain b w1 where 1: "acquire_create_lock s (buildConversationCreateLockKey ?site ?tok) w = (b, w1)"
    by fastforce
  then have t1: "only_ticks w w1" by (auto simp: acquire_create_lock_def split: option.splits)
  obtain r2 w2 where 2: "GetLatestOpenBySiteVisitor e ?site ?tok w1 = (r2, w2)" by fastforce
  then have t2: "only_ticks w w2" using t1 repository_reads(2) only_ticks_trans by blast
  let ?c = "\<lparr>conv_ID = 0, conv_SiteID = ?site, conv_VisitorToken = ?tok,
     conv_Status = ''open'', conv_AssignedAgentID = None,
     conv_PendingTransferToAgentID = None, conv_PendingTransferFromAgentID = None,
     conv_PendingTransferRequestedAt = None, conv_CreatedAt = 0, conv_UpdatedAt = 0,
     conv_ClosedAt = None, conv_ClosedByAgentID = None\<rparr>"
  have new: "evolves e w w3" if "Create_conversation e ?c w2 = (r3, w3)"
    and nf: "r2 = Inl err" "errors_Is err RepoNotFound" for r3 w3 err
  proof -
    have "filter (\<lambda>c. sql_eq e (conv_SiteID c) ?site \<and> sql_eq e (conv_VisitorToken c) ?tok
            \<and> conv_Status c = ''open'') (conversations (db w)) = []"
      using 2 nf t1
      by (auto simp: GetLatestOpenBySiteVisitor_def db_call_def split: option.splits)
    then have "visitor_key e ?c \<notin> visitor_key e ` set (filter is_open (conversations (db w2)))"
      using t2 by (auto simp: visitor_key_def is_open_def sql_eq_def filter_empty_conv)
    with that(1) have "evolves e w2 w3"
      by (intro Create_conversation_evolves) (auto simp: conv_wf_def)
    with t2 show ?thesis by (blast intro: evolves_trans evolves_only_ticks)
  qed
  from assms 1 2 t1 t2 show ?thesis
    by (auto simp: CreateConversation_def Let_def intro: evolves_only_ticks new
        split: if_splits option.splits sum.splits)
qed

lemma authorize_sender_open: "authorize_sender inp c = Inr sid \<Longrightarrow> conv_Status c \<noteq> ''closed''"
  by (auto simp: authorize_sender_def)

lemma insert_message_evolves:
  assumes "insert_message e s inp sid w = (r, w')"
    and "\<And>c. by_id conv_ID (cmi_ConversationID inp) (conversations (db w)) = Some c \<Longrightarrow> is_open c"
  shows "evolves e w w'"
proof -
  obtain r1 w1 where 1: "Create_message e (new_message inp sid) w = (r1, w1)" by fastforce
  have e1: "evolves e w w1"
    using Create_message_evolves [OF 1] assms(2) by (simp add: new_message_def)
  show ?thesis
  proof (cases r1)
    case (Inl err)
    obtain r2 w2 where 2: "GetByClientMsgID e (cmi_ConversationID inp) (cmi_ClientMsgID inp) w1 = (r2, w2)"
      by fastforce
    then have "evolves e w w2" using e1 repository_reads(4) evolves_only_ticks evolves_trans by blast
    with assms(1) 1 2 e1 Inl show ?thesis by (auto simp: insert_message_def split: if_splits sum.splits)
  next
    case (Inr m)
    obtain r2 w2 where 2: "emitMessageCreated e s m w1 = (r2, w2)" by fastforce
    have "w' = w2" using assms(1) 1 2 Inr by (auto simp: insert_message_def split: sum.splits)
    with e1 emit_evolves(1) [OF 2] show ?thesis by (blast intro: evolves_trans)
  qed
qed

text \<open>The outcomes of the body of \<open>CreateMessage\<close>.\<close>

lemma create_message_body_cases:
  assumes "create_message_body e s inp w = (r, w')"
  obtains (read_only) "only_ticks w w'" "\<And>m b. r = Inr (m, b) \<Longrightarrow> \<not> b \<and> (\<exists>c sid w1.
      by_id conv_ID (cmi_ConversationID inp) (conversations (db w)) = Some c \<and> authorize_sender inp c = Inr sid
      \<and> only_ticks w w1 \<and> GetByClientMsgID e (cmi_ConversationID inp) (cmi_ClientMsgID inp) w1 = (Inr m, w'))"
  | (inserting) c sid w2 err w1 where "by_id conv_ID (cmi_ConversationID inp) (conversations (db w)) = Some c"
      "authorize_sender inp c = Inr sid" "only_ticks w w1" "only_ticks w w2"
      "GetByClientMsgID e (cmi_ConversationID inp) (cmi_ClientMsgID inp) w1 = (Inl err, w2)"
      "errors_Is err RepoNotFound" "insert_message e s inp sid w2 = (r, w')"
proof -
  obtain r1 w1 where 1: "GetByID e (cmi_ConversationID inp) w = (r1, w1)" by fastforce
  then have t1: "only_ticks w w1" by (rule repository_reads)
  obtain r2 w2 where 2: "GetByClientMsgID e (cmi_ConversationID inp) (cmi_ClientMsgID inp) w1 = (r2, w2)"
    by fastforce
  then have t2: "only_ticks w w2" using t1 repository_reads(4) only_ticks_trans by blast
  show ?thesis
  proof (cases "\<exists>c sid. r1 = Inr c \<and> authorize_sender inp c = Inr sid")
    case False
    with assms 1 t1 have "only_ticks w w'" "\<And>m b. r \<noteq> Inr (m, b)"
      by (auto simp: create_message_body_def split: sum.splits)
    then show ?thesis by (intro read_only) auto
  next
    case True
    then obtain c sid where c: "r1 = Inr c" "authorize_sender inp c = Inr sid" by blast
    with 1 have row: "by_id conv_ID (cmi_ConversationID inp) (conversations (db w)) = Some c"
      by (auto dest: GetByID_ok)
    show ?thesis
    proof (cases "\<exists>err. r2 = Inl err \<and> errors_Is err RepoNotFound")
      case True
      with assms 1 2 c t1 t2 row show ?thesis
        by (auto simp: create_message_body_def intro: inserting)
    next
      case False
      with assms 1 2 c have "w' = w2" "\<And>m b. r = Inr (m, b) \<Longrightarrow> \<not> b \<and> r2 = Inr m"
        by (auto simp: create_message_body_def split: sum.splits if_splits)
      with 2 t1 t2 row c(2) show ?thesis by (intro read_only) blast+
    qed
  qed
qed

lemma create_message_body_evolves:
  assumes "create_message_body e s inp w = (r, w')"
  shows "evolves e w w'"
  using assms
proof (cases rule: create_message_body_cases)
  case read_only
  then show ?thesis by (simp add: evolves_only_ticks)
next
  case (inserting c sid w2 err w1)
  show ?thesis
  proof (cases "conv_wf c")
    case True
    with inserting(2) have "is_open c" by (auto simp: is_open_def conv_wf_def dest: authorize_sender_open)
    with inserting have "evolves e w2 w'" by (intro insert_message_evolves) auto
    with inserting(4) show ?thesis by (blast intro: evolves_trans evolves_only_ticks)
  next
    case False
    with inserting(1) show ?thesis
      by (auto simp: evolves_def store_inv_def conversations_inv_def dest: by_id_Some)
  qed
qed

lemma onMessageCreated_frame [simp]:
  "db (onMessageCreatedForAutoClose s m w) = db w"
  "evolves e v (onMessageCreatedForAutoClose s m w) = evolves e v w"
  by (simp_all add: onMessageCreatedForAutoClose_def)

lemma CreateMessage_evolves:
  assumes "CreateMessage e s inp w = (r, w')"
  shows "evolves e w w'"
proof -
  obtain r1 w1 where 1: "withEventTransaction e s (create_message_body e s inp) w = (r1, w1)" by fastforce
  have "evolves e w w1" by (rule withEventTransaction_evolves [OF create_message_body_evolves 1])
  with assms 1 show ?thesis by (auto simp: CreateMessage_def split: if_splits sum.splits)
qed

lemma mark_targets_evolves: "mark_targets e s i lastID ts n w = (r, w') \<Longrightarrow> evolves e w w'"
proof (induction ts arbitrary: n w)
  case (Cons t ts)
  obtain r1 w1 where 1: "MarkReadByConversationAndSender e i t lastID w = (r1, w1)" by fastforce
  obtain r2 w2 where 2: "emitMessageStatusRange e s i t lastID ''read'' w1 = (r2, w2)" by fastforce
  have e1: "evolves e w w1" and e2: "evolves e w w2"
    using MarkRead_evolves [OF 1] emit_evolves(2) [OF 2] by (blast intro: evolves_trans)+
  from Cons.prems 1 2 e1 e2 show ?case
    by (auto intro: evolves_trans dest!: Cons.IH split: sum.splits if_splits)
qed simp

lemma mark_read_body_evolves: "mark_read_body e s inp t w = (r, w') \<Longrightarrow> evolves e w w'"
  by (auto simp: mark_read_body_def split: prod.splits sum.splits
      intro: evolves_only_ticks evolves_trans dest!: repository_reads(1) mark_targets_evolves)

lemma MarkMessagesRead_evolves: "MarkMessagesRead e s inp w = (r, w') \<Longrightarrow> evolves e w w'"
  by (auto simp: MarkMessagesRead_def split: if_splits sum.splits
      intro: withEventTransaction_evolves [OF mark_read_body_evolves])

lemma ClaimConversation_evolves: "ClaimConversation e inp w = (r, w') \<Longrightarrow> evolves e w w'"
  by (auto simp: ClaimConversation_def split: if_splits sum.splits prod.splits dest: claim.Mutate_evolves)

lemma publish_to_open:
  "is_open c \<Longrightarrow> by_id conv_ID (conv_ID c) (conversations (db w)) = Some c \<Longrightarrow>
   publishSystemMessage e s (conv_ID c) text w = (r, w') \<Longrightarrow> evolves e w w'"
  by (rule publishSystemMessage_evolves)

lemma publishTransfer_to_open:
  "is_open c \<Longrightarrow> by_id conv_ID (conv_ID c) (conversations (db w)) = Some c \<Longrightarrow>
   publishTransferSystemMessage e s (conv_ID c) before after b w = (r, w') \<Longrightarrow> evolves e w w'"
  by (auto simp: publishTransferSystemMessage_def intro: publish_to_open)

lemma stays_open:
  "timed e (transfer_mutation role a b) c w = (Inr (c', True, x), w') \<Longrightarrow> is_open (c'\<lparr>conv_UpdatedAt := t\<rparr>)"
  "timed e (confirm_mutation role a) c w = (Inr (c', True, y), w') \<Longrightarrow> is_open (c'\<lparr>conv_UpdatedAt := t\<rparr>)"
  "timed e (reject_mutation role a) c w = (Inr (c', True, z), w') \<Longrightarrow> is_open (c'\<lparr>conv_UpdatedAt := t\<rparr>)"
  by (auto simp: timed_def mutation_defs is_open_def split: if_splits option.splits prod.splits)

lemma TransferConversation_evolves:
  assumes "TransferConversation e s inp w = (r, w')"
  shows "evolves e w w'"
  using assms
  by (auto simp: TransferConversation_def split: if_splits sum.splits
      elim!: withEventTransaction_evolves [rotated]
      intro: transfer.mutate_and_emit_evolves [where Q = is_open] stays_open publish_to_open publishTransfer_to_open)

lemma ConfirmTransferConversation_evolves:
  assumes "ConfirmTransferConversation e s inp w = (r, w')"
  shows "evolves e w w'"
  using assms
  by (auto simp: ConfirmTransferConversation_def split: if_splits sum.splits
      elim!: withEventTransaction_evolves [rotated]
      intro: confirm.mutate_and_emit_evolves [where Q = is_open] stays_open publish_to_open publishTransfer_to_open)

lemma RejectTransferConversation_evolves:
  assumes "RejectTransferConversation e s inp w = (r, w')"
  shows "evolves e w w'"
  using assms
  by (auto simp: RejectTransferConversation_def split: if_splits sum.splits
      elim!: withEventTransaction_evolves [rotated]
      intro: reject.mutate_and_emit_evolves [where Q = is_open] stays_open publish_to_open publishTransfer_to_open)

lemma CloseConversation_evolves:
  assumes "CloseConversation e s inp w = (r, w')"
  shows "evolves e w w'"
proof -
  have "evolves e w v" if "withEventTransaction e s (mutate_and_emit e s (act_ConversationID inp)
      (timed e (close_mutation role (act_ActorAgentID inp))) (\<lambda>c _. emitConversationClosed e s (conv_ID c))) w = (q, v)"
    for role q v
    using that
    by (rule withEventTransaction_evolves [rotated])
       (auto intro: close.mutate_and_emit_evolves [where Q = "\<lambda>_. True"] emit_evolves)
  with assms show ?thesis
    by (auto simp: CloseConversation_def split: if_splits sum.splits prod.splits)
qed

lemma read_operations_evolve:
  "GetConversation e i w = (r, w') \<Longrightarrow> only_ticks w w'"
  "ListConversations e inp w = (r1, w') \<Longrightarrow> only_ticks w w'"
  "ListMessages e i n b w = (r2, w') \<Longrightarrow> only_ticks w w'"
  by (auto simp: GetConversation_def ListConversations_def ListMessages_def Let_def
      split: prod.splits sum.splits if_splits dest: repository_reads intro: only_ticks_trans)

end
