(* ===== verification/Auto_Close.thy ===== *)
theory Auto_Close
  imports Chat_Service_Laws
begin

text \<open>
  Automatic closing: the service part of
  \<^verbatim>\<open>services/chat-service/internal/service/auto_close_scheduler.go\<close> (the due timer, the bootstrap
  after a restart) and \<open>AutoCloseInactiveConversations\<close> of \<^verbatim>\<open>chat_service.go\<close>.  Both closures read
  the latest message inside the transaction; each is an interpretation of \<open>row_mutation\<close>.
\<close>

section \<open>The scan of the open conversations\<close>

definition batchSize :: nat where
  "batchSize = 200"

definition open_filter :: "nat \<Rightarrow> ListConversationsFilter" where
  "open_filter offset =
     \<lparr>flt_Status = ''open'', flt_SiteID = [], flt_AssignedAgentID = None, flt_UnassignedOnly = False,
      flt_Limit = batchSize, flt_Offset = offset\<rparr>"

lemma open_page:
  assumes "List_conversations e (open_filter offset) w = (Inr cs, w')"
  shows "cs = take batchSize (drop offset (order_desc conv_ID (filter is_open (conversations (db w)))))"
    and "db w' = db w"
proof -
  have "filter_matches e (open_filter offset) = is_open"
    by (rule ext) (simp add: filter_matches_def open_filter_def is_open_def)
  with assms show "cs = take batchSize (drop offset (order_desc conv_ID (filter is_open (conversations (db w)))))"
    by (auto simp: List_conversations_def db_call_def open_filter_def split: option.splits)
  from assms show "db w' = db w" by (auto dest: repository_reads)
qed

lemma open_page_progress:
  assumes "List_conversations e (open_filter offset) w = (Inr cs, w')" and "cs \<noteq> []"
  shows "length (conversations (db w')) - (offset + batchSize) < length (conversations (db w)) - offset"
proof -
  from assms have "offset < length (filter is_open (conversations (db w)))" by (auto dest: open_page(1))
  then have "offset < length (conversations (db w))" by (meson length_filter_le less_le_trans)
  with open_page(2) [OF assms(1)] show ?thesis by (simp add: batchSize_def)
qed

function list_open_ids :: "env \<Rightarrow> nat \<Rightarrow> uint64 list \<Rightarrow> world \<Rightarrow> (cerr + uint64 list) \<times> world" where
  "list_open_ids e offset conversationIDs w =
     (case List_conversations e (open_filter offset) w of
        (Inl err, w1) \<Rightarrow> (Inl err, w1)
      | (Inr cs, w1) \<Rightarrow>
          if cs = [] then (Inr conversationIDs, w1)
          else if length cs < batchSize then (Inr (conversationIDs @ map conv_ID cs), w1)
          else list_open_ids e (offset + batchSize) (conversationIDs @ map conv_ID cs) w1)"
  by pat_completeness auto
termination
  by (relation "measure (\<lambda>(e, offset, ids, w). length (conversations (db w)) - offset)")
     (auto intro: open_page_progress dest: sym)

declare list_open_ids.simps [simp del]

section \<open>The due timer\<close>

text \<open>The captured variables are \<open>closed\<close>, which is set exactly when the row changes, and \<open>rescheduleAt\<close>.\<close>

definition due_mutation :: "env \<Rightarrow> chat_service \<Rightarrow> time option mutation" where
  "due_mutation e s c w =
     (if conv_Status c \<noteq> ''open'' then (Inr (c, False, None), w)
      else case GetLatestByConversationExcludingSystem e (conv_ID c) w of
          (Inl err, w1) \<Rightarrow>
            if errors_Is err RepoNotFound then (Inr (c, False, None), w1) else (Inl err, w1)
        | (Inr latest, w1) \<Rightarrow>
            if msg_SenderType latest \<noteq> ''agent'' then (Inr (c, False, None), w1)
            else case Now e w1 of
              (now, w2) \<Rightarrow>
                let deadline = msg_CreatedAt latest + autoCloseAfter s in
                if deadline > now then (Inr (c, False, Some deadline), w2)
                else (Inr (auto_closed_row now c, True, None), w2))"

definition due_body :: "env \<Rightarrow> chat_service \<Rightarrow> uint64 \<Rightarrow> world \<Rightarrow> (cerr + bool \<times> time option) \<times> world" where
  "due_body e s conversationID w =
     (case Mutate e (eventOutboxEnabled s) conversationID (due_mutation e s) w of
        (Inl err, w1) \<Rightarrow> if errors_Is err RepoNotFound then (Inr (False, None), w1) else (Inl err, w1)
      | (Inr (c, closed, rescheduleAt), w1) \<Rightarrow>
          if closed then
            (case emitConversationClosed e s conversationID w1 of
               (Inl err, w2) \<Rightarrow> (Inl err, w2)
             | (Inr _, w2) \<Rightarrow> (Inr (closed, rescheduleAt), w2))
          else (Inr (closed, rescheduleAt), w1))"

definition autoCloseConversationByTimeout ::
  "env \<Rightarrow> chat_service \<Rightarrow> uint64 \<Rightarrow> world \<Rightarrow> (cerr + unit) \<times> world" where
  "autoCloseConversationByTimeout e s conversationID w =
     (if conversationID = 0 then (Inr (), w)
      else case withEventTransaction e s (due_body e s conversationID) w of
          (Inl err, w1) \<Rightarrow> (Inl err, w1)
        | (Inr (closed, rescheduleAt), w1) \<Rightarrow>
            if rescheduleAt \<noteq> None \<and> hasScheduler s
            then (Inr (), Schedule conversationID (the rescheduleAt) w1)
            else if \<not> closed then (Inr (), w1)
            else (Inr (), if hasScheduler s then Cancel conversationID w1 else w1))"

definition onAutoCloseDue :: "env \<Rightarrow> chat_service \<Rightarrow> uint64 \<Rightarrow> time \<Rightarrow> world \<Rightarrow> world" where
  "onAutoCloseDue e s conversationID dueAt w = snd (autoCloseConversationByTimeout e s conversationID w)"

definition fire_timer :: "env \<Rightarrow> chat_service \<Rightarrow> uint64 \<Rightarrow> time \<Rightarrow> world \<Rightarrow> world" where
  "fire_timer e s = fire (onAutoCloseDue e s)"

section \<open>The bootstrap\<close>

fun bootstrap :: "env \<Rightarrow> chat_service \<Rightarrow> uint64 list \<Rightarrow> world \<Rightarrow> (cerr + unit) \<times> world" where
  "bootstrap e s [] w = (Inr (), w)"
| "bootstrap e s (i # is) w =
     (case GetLatestByConversationExcludingSystem e i w of
        (Inl err, w1) \<Rightarrow> if errors_Is err RepoNotFound then bootstrap e s is w1 else (Inl err, w1)
      | (Inr latest, w1) \<Rightarrow>
          if msg_SenderType latest \<noteq> ''agent'' then bootstrap e s is w1
          else case Now e w1 of
            (now, w2) \<Rightarrow>
              let deadline = msg_CreatedAt latest + autoCloseAfter s in
              if deadline > now then bootstrap e s is (Schedule i deadline w2)
              else case autoCloseConversationByTimeout e s i w2 of
                  (Inl err, w3) \<Rightarrow> (Inl err, w3)
                | (Inr _, w3) \<Rightarrow> bootstrap e s is w3)"

definition StartAutoCloseScheduler :: "env \<Rightarrow> chat_service \<Rightarrow> world \<Rightarrow> (cerr + unit) \<times> world" where
  "StartAutoCloseScheduler e s w =
     (if \<not> hasScheduler s then (Inr (), w)
      else case list_open_ids e 0 [] w of
          (Inl err, w1) \<Rightarrow> (Inl err, w1)
        | (Inr ids, w1) \<Rightarrow> bootstrap e s ids w1)"

definition StopAutoCloseScheduler :: "chat_service \<Rightarrow> world \<Rightarrow> world" where
  "StopAutoCloseScheduler s w = (if hasScheduler s then Stop_scheduler w else w)"

section \<open>The sweep\<close>

definition inactive_mutation :: "env \<Rightarrow> time \<Rightarrow> unit mutation" where
  "inactive_mutation e cutoff c w =
     (if conv_Status c \<noteq> ''open'' then (Inr (c, False, ()), w)
      else case GetLatestByConversationExcludingSystem e (conv_ID c) w of
          (Inl err, w1) \<Rightarrow>
            if errors_Is err RepoNotFound then (Inr (c, False, ()), w1) else (Inl err, w1)
        | (Inr latest, w1) \<Rightarrow>
            if msg_SenderType latest \<noteq> ''agent'' \<or> msg_CreatedAt latest > cutoff
            then (Inr (c, False, ()), w1)
            else case Now e w1 of (now, w2) \<Rightarrow> (Inr (auto_closed_row now c, True, ()), w2))"

definition inactive_body ::
  "env \<Rightarrow> chat_service \<Rightarrow> time \<Rightarrow> uint64 \<Rightarrow> world \<Rightarrow> (cerr + bool) \<times> world" where
  "inactive_body e s cutoff conversationID w =
     (case Mutate e (eventOutboxEnabled s) conversationID (inactive_mutation e cutoff) w of
        (Inl err, w1) \<Rightarrow> if errors_Is err RepoNotFound then (Inr False, w1) else (Inl err, w1)
      | (Inr (c, changed, _), w1) \<Rightarrow>
          if changed then
            (case emitConversationClosed e s conversationID w1 of
               (Inl err, w2) \<Rightarrow> (Inl err, w2)
             | (Inr _, w2) \<Rightarrow> (Inr changed, w2))
          else (Inr changed, w1))"

fun close_inactive ::
  "env \<Rightarrow> chat_service \<Rightarrow> time \<Rightarrow> uint64 list \<Rightarrow> nat \<Rightarrow> world \<Rightarrow> (nat \<times> cerr option) \<times> world" where
  "close_inactive e s cutoff [] closedCount w = ((closedCount, None), w)"
| "close_inactive e s cutoff (i # is) closedCount w =
     (case GetLatestByConversationExcludingSystem e i w of
        (Inl err, w1) \<Rightarrow>
          if errors_Is err RepoNotFound then close_inactive e s cutoff is closedCount w1
          else ((closedCount, Some err), w1)
      | (Inr latest, w1) \<Rightarrow>
          if msg_SenderType latest \<noteq> ''agent'' \<or> msg_CreatedAt latest > cutoff
          then close_inactive e s cutoff is closedCount w1
          else case withEventTransaction e s (inactive_body e s cutoff i) w1 of
              (Inl err, w2) \<Rightarrow> ((closedCount, Some err), w2)
            | (Inr changed, w2) \<Rightarrow>
                close_inactive e s cutoff is (if changed then Suc closedCount else closedCount) w2)"

definition AutoCloseInactiveConversations ::
  "env \<Rightarrow> chat_service \<Rightarrow> time \<Rightarrow> world \<Rightarrow> (nat \<times> cerr option) \<times> world" where
  "AutoCloseInactiveConversations e s inactivity w =
     (if inactivity \<le> 0 then ((0, Some (Text ''inactivity must be greater than 0'')), w)
      else case Now e w of
        (now, w1) \<Rightarrow>
          (case list_open_ids e 0 [] w1 of
             (Inl err, w2) \<Rightarrow> ((0, Some err), w2)
           | (Inr ids, w2) \<Rightarrow> close_inactive e s (now - inactivity) ids 0 w2))"

section \<open>The closures fulfil the contract of the repository\<close>

interpretation due: row_mutation "due_mutation e s" for e s
proof
  fix c w r w' assume "due_mutation e s c w = (r, w')"
  then show "only_ticks w w'"
    by (auto simp: due_mutation_def Let_def split: if_splits prod.splits sum.splits
        dest!: repository_reads(5) only_ticks_Now intro: only_ticks_trans)
qed (auto simp: due_mutation_def Let_def same_identity_def auto_closed_row_contract
      split: if_splits prod.splits sum.splits,
     simp_all add: auto_closed_row_def)

interpretation inactive: row_mutation "inactive_mutation e cutoff" for e cutoff
proof
  fix c w r w' assume "inactive_mutation e cutoff c w = (r, w')"
  then show "only_ticks w w'"
    by (auto simp: inactive_mutation_def split: if_splits prod.splits sum.splits
        dest!: repository_reads(5) only_ticks_Now intro: only_ticks_trans)
qed (auto simp: inactive_mutation_def same_identity_def auto_closed_row_contract
      split: if_splits prod.splits sum.splits,
     simp_all add: auto_closed_row_def)

section \<open>Evolution\<close>

lemma due_body_evolves:
  assumes "due_body e s i w = (r, w')"
  shows "evolves e w w'"
proof -
  obtain r1 w1 where 1: "Mutate e (eventOutboxEnabled s) i (due_mutation e s) w = (r1, w1)" by fastforce
  obtain r2 w2 where 2: "emitConversationClosed e s i w1 = (r2, w2)" by fastforce
  have "evolves e w w1" "evolves e w w2"
    using due.Mutate_evolves [OF 1] emit_evolves(3) [OF 2] by (blast intro: evolves_trans)+
  with assms 1 2 show ?thesis by (auto simp: due_body_def split: sum.splits if_splits)
qed

lemma autoClose_evolves:
  assumes "autoCloseConversationByTimeout e s i w = (r, w')"
  shows "evolves e w w'"
proof -
  obtain r1 w1 where 1: "withEventTransaction e s (due_body e s i) w = (r1, w1)" by fastforce
  have "evolves e w w1" by (rule withEventTransaction_evolves [OF due_body_evolves 1])
  with assms 1 show ?thesis
    by (auto simp: autoCloseConversationByTimeout_def split: if_splits sum.splits)
qed

lemma fire_timer_evolves: "evolves e w (fire_timer e s i d w)"
proof -
  obtain r v where 1: "autoCloseConversationByTimeout e s i (w\<lparr>timers := (timers w)(i := None)\<rparr>) = (r, v)"
    by fastforce
  have "evolves e w (w\<lparr>timers := (timers w)(i := None)\<rparr>)" by (rule evolves_frame) simp_all
  with autoClose_evolves [OF 1] have "evolves e w v" by (blast intro: evolves_trans)
  with 1 show ?thesis by (simp add: fire_timer_def fire_def onAutoCloseDue_def)
qed

lemma list_open_ids_reads: "list_open_ids e offset ids w = (r, w') \<Longrightarrow> only_ticks w w'"
proof (induction e offset ids w rule: list_open_ids.induct)
  case (1 e offset ids w)
  obtain r1 w1 where p: "List_conversations e (open_filter offset) w = (r1, w1)" by fastforce
  then have t: "only_ticks w w1" by (rule repository_reads)
  from "1.prems" p t show ?case
    by (auto simp: list_open_ids.simps [of e offset] split: sum.splits if_splits
        intro: only_ticks_trans dest!: "1.IH" [OF p [symmetric], rotated 3])
qed

lemma bootstrap_evolves: "bootstrap e s is w = (r, w') \<Longrightarrow> evolves e w w'"
proof (induction "is" arbitrary: w)
  case (Cons i "is")
  obtain r1 w1 where 1: "GetLatestByConversationExcludingSystem e i w = (r1, w1)" by fastforce
  obtain t w2 where 2: "Now e w1 = (t, w2)" by fastforce
  obtain r3 w3 where 3: "autoCloseConversationByTimeout e s i w2 = (r3, w3)" by fastforce
  have e1: "evolves e w w1" and e2: "evolves e w w2" and e3: "evolves e w w3"
    using repository_reads(5) [OF 1] only_ticks_Now [OF 2] autoClose_evolves [OF 3]
    by (blast intro: evolves_trans evolves_only_ticks)+
  have e4: "evolves e w (Schedule i d w2)" for d using e2 by simp
  from Cons.prems 1 2 3 e1 e2 e3 e4 show ?case
    by (auto simp: Let_def simp del: Schedule_frame split: sum.splits if_splits dest!: Cons.IH
        intro: evolves_trans)
qed simp

lemma StartAutoCloseScheduler_evolves: "StartAutoCloseScheduler e s w = (r, w') \<Longrightarrow> evolves e w w'"
  by (auto simp: StartAutoCloseScheduler_def split: if_splits prod.splits sum.splits
      dest!: list_open_ids_reads bootstrap_evolves intro: evolves_trans evolves_only_ticks)

lemma inactive_body_evolves:
  assumes "inactive_body e s cutoff i w = (r, w')"
  shows "evolves e w w'"
proof -
  obtain r1 w1 where 1: "Mutate e (eventOutboxEnabled s) i (inactive_mutation e cutoff) w = (r1, w1)"
    by fastforce
  obtain r2 w2 where 2: "emitConversationClosed e s i w1 = (r2, w2)" by fastforce
  have "evolves e w w1" "evolves e w w2"
    using inactive.Mutate_evolves [OF 1] emit_evolves(3) [OF 2] by (blast intro: evolves_trans)+
  with assms 1 2 show ?thesis by (auto simp: inactive_body_def split: sum.splits if_splits)
qed

lemma close_inactive_evolves: "close_inactive e s cutoff is n w = (r, w') \<Longrightarrow> evolves e w w'"
proof (induction "is" arbitrary: n w)
  case (Cons i "is")
  obtain r1 w1 where 1: "GetLatestByConversationExcludingSystem e i w = (r1, w1)" by fastforce
  obtain r2 w2 where 2: "withEventTransaction e s (inactive_body e s cutoff i) w1 = (r2, w2)" by fastforce
  have e1: "evolves e w w1" using repository_reads(5) [OF 1] by (rule evolves_only_ticks)
  have e2: "evolves e w w2"
    by (rule evolves_trans [OF e1 withEventTransaction_evolves [OF inactive_body_evolves 2]])
  from Cons.prems 1 2 e1 e2 show ?case
    by (auto split: sum.splits if_splits dest!: Cons.IH intro: evolves_trans)
qed simp

lemma AutoCloseInactiveConversations_evolves:
  "AutoCloseInactiveConversations e s d w = (r, w') \<Longrightarrow> evolves e w w'"
  by (auto simp: AutoCloseInactiveConversations_def split: if_splits prod.splits sum.splits
      dest!: list_open_ids_reads close_inactive_evolves only_ticks_Now
      intro: evolves_only_ticks only_ticks_trans evolves_ticks_trans)

lemma StopAutoCloseScheduler_evolves: "evolves e w (StopAutoCloseScheduler s w)"
  by (simp add: StopAutoCloseScheduler_def)

section \<open>When a conversation is closed\<close>

definition latest_spoken :: "database \<Rightarrow> uint64 \<Rightarrow> message option" where
  "latest_spoken d i =
     first_row (order_desc msg_ID
       (filter (\<lambda>m. msg_ConversationID m = i \<and> msg_SenderType m \<noteq> ''system'') (messages d)))"

lemma GetLatest_ok:
  "GetLatestByConversationExcludingSystem e i w = (Inr m, w') \<Longrightarrow> latest_spoken (db w) i = Some m"
  by (auto simp: GetLatestByConversationExcludingSystem_def latest_spoken_def db_call_def split: option.splits)

lemma latest_spoken_spec:
  assumes "latest_spoken d i = Some m"
  shows "m \<in> set (messages d)" "msg_ConversationID m = i" "msg_SenderType m \<noteq> ''system''"
    "\<forall>q \<in> set (messages d). msg_ConversationID q = i \<and> msg_SenderType q \<noteq> ''system'' \<longrightarrow> msg_ID q \<le> msg_ID m"
  using first_order_desc_max [OF assms [unfolded latest_spoken_def]] by auto

lemma due_mutation_changed:
  assumes "due_mutation e s c w = (Inr (c', True, a), w')"
  obtains m now where "latest_spoken (db w) (conv_ID c) = Some m" "msg_SenderType m = ''agent''"
    "msg_CreatedAt m + autoCloseAfter s \<le> now" "c' = auto_closed_row now c"
  using assms
  by (auto simp: due_mutation_def Let_def split: if_splits prod.splits sum.splits dest!: GetLatest_ok)
     (metis linorder_not_less)

lemma due_body_tables:
  assumes "due_body e s i w = (r, w')"
  shows "conversations (db w') = conversations (db w) \<and> messages (db w') = messages (db w)
    \<or> (\<exists>c c' t m now. by_id conv_ID i (conversations (db w)) = Some c
         \<and> latest_spoken (db w) i = Some m \<and> msg_SenderType m = ''agent''
         \<and> msg_CreatedAt m + autoCloseAfter s \<le> now \<and> c' = (auto_closed_row now c)\<lparr>conv_UpdatedAt := t\<rparr>
         \<and> conversations (db w') = replace_row c' (conversations (db w)))"
proof -
  obtain r1 w1 where 1: "Mutate e (eventOutboxEnabled s) i (due_mutation e s) w = (r1, w1)" by fastforce
  obtain r2 w2 where 2: "emitConversationClosed e s i w1 = (r2, w2)" by fastforce
  have same: "conversations (db w') = conversations (db w1)" "messages (db w') = messages (db w1)"
    using assms 1 2 emit_tables(3) [OF 2] by (auto simp: due_body_def split: sum.splits if_splits)
  from 1 show ?thesis
  proof (cases rule: due.Mutate_db)
    case same
    with \<open>conversations (db w') = conversations (db w1)\<close> \<open>messages (db w') = messages (db w1)\<close>
    show ?thesis by simp
  next
    case (changed c c0 a t v1 v2)
    from changed(3) obtain m now where m: "latest_spoken (db v1) (conv_ID c) = Some m"
      "msg_SenderType m = ''agent''" "msg_CreatedAt m + autoCloseAfter s \<le> now" "c0 = auto_closed_row now c"
      by (rule due_mutation_changed)
    have "conv_ID c = i" using changed(1) by (auto dest: by_id_Some)
    with m changed same(1) show ?thesis by auto
  qed
qed

lemma by_id_replace_other:
  "by_id conv_ID i cs = Some c \<Longrightarrow> conv_ID c' \<noteq> i \<Longrightarrow> by_id conv_ID i (replace_row c' cs) = Some c"
  by (induction cs) (auto simp: by_id_def split: if_splits)

text \<open>
  A timer closes a conversation only when the latest message that is not a system message was
  written by an agent and \<open>autoCloseAfter\<close> has passed since then; the assigned agent is recorded.
\<close>

lemma autoClose_only_when_due:
  assumes run: "autoCloseConversationByTimeout e s i w = (r, w')"
    and row: "by_id conv_ID k (conversations (db w)) = Some c" and "is_open c"
    and row': "by_id conv_ID k (conversations (db w')) = Some c'" and "\<not> is_open c'"
  shows "k = i \<and> (\<exists>m now. latest_spoken (db w) i = Some m \<and> msg_SenderType m = ''agent''
    \<and> msg_CreatedAt m + autoCloseAfter s \<le> now
    \<and> conv_ClosedAt c' = Some now \<and> conv_ClosedByAgentID c' = conv_AssignedAgentID c)"
proof -
  obtain r1 w1 where 1: "withEventTransaction e s (due_body e s i) w = (r1, w1)" by fastforce
  have db1: "db w' = db w1 \<or> db w' = db w"
    using run 1 by (auto simp: autoCloseConversationByTimeout_def split: if_splits sum.splits)
  have ne: "db w' \<noteq> db w" using assms by auto
  with db1 1 obtain v1 v2 q where v: "db v1 = db w" "due_body e s i v1 = (q, v2)" "db w' = db v2"
    by (auto elim: withEventTransaction_db)
  have "conversations (db w') \<noteq> conversations (db w)" using assms by auto
  with due_body_tables [OF v(2)] v obtain c0 d t m now where d:
    "by_id conv_ID i (conversations (db w)) = Some c0" "latest_spoken (db w) i = Some m"
    "msg_SenderType m = ''agent''" "msg_CreatedAt m + autoCloseAfter s \<le> now"
    "d = (auto_closed_row now c0)\<lparr>conv_UpdatedAt := t\<rparr>"
    "conversations (db w') = replace_row d (conversations (db w))" by auto
  have id: "conv_ID d = i" using d(1,5) by (auto simp: auto_closed_row_def dest: by_id_Some)
  then have "k = i" using by_id_replace_other [OF row, of d] d(6) row' assms(3,5) by auto
  with d id row row' have "c0 = c" "c' = d" using by_id_replace_row [of d "conversations (db w)"] by auto
  with d \<open>k = i\<close> show ?thesis by (auto simp: auto_closed_row_def)
qed

text \<open>Without faults a due timer closes the conversation, announces it, and leaves no timer behind.\<close>

lemma due_mutation_no_fault:
  assumes "\<And>t. db_fault e t = None" "conv_Status c = ''open''"
    "latest_spoken (db w) (conv_ID c) = Some m" "msg_SenderType m = ''agent''"
  shows "due_mutation e s c w =
    (let now = clock e (Suc (tick w)); deadline = msg_CreatedAt m + autoCloseAfter s in
     (if deadline > now then Inr (c, False, Some deadline) else Inr (auto_closed_row now c, True, None),
      advance (advance w)))"
  using assms
  by (simp add: due_mutation_def GetLatestByConversationExcludingSystem_def db_call_def
      latest_spoken_def Now_def Let_def) (simp add: advance_def)

definition no_db_fault :: "env \<Rightarrow> bool" where
  "no_db_fault e \<longleftrightarrow> (\<forall>t. db_fault e t = None)"

lemma db_call_no_fault [simp]: "no_db_fault e \<Longrightarrow> db_call e w = (None, advance w)"
  by (simp add: no_db_fault_def db_call_def)

lemma due_Mutate_no_fault:
  assumes "no_db_fault e" "by_id conv_ID i (conversations (db w)) = Some c" "is_open c"
    "latest_spoken (db w) i = Some m" "msg_SenderType m = ''agent''"
    "\<And>t. msg_CreatedAt m + autoCloseAfter s \<le> clock e t"
  shows "\<exists>c' w'. Mutate e inTx i (due_mutation e s) w = (Inr (c', True, None), w')
    \<and> conv_Status c' = ''closed'' \<and> conv_ID c' = i
    \<and> db w' = (db w)\<lparr>conversations := replace_row c' (conversations (db w))\<rparr>
    \<and> timers w' = timers w \<and> outbox_seq w' = outbox_seq w"
proof -
  have i: "conv_ID c = i" using assms(2) by (auto dest: by_id_Some)
  have run: "due_mutation e s c v = (Inr (auto_closed_row (clock e (Suc (tick v))) c, True, None), advance (advance v))"
    if "db v = db w" for v
    using due_mutation_no_fault [of e c v m s] assms that i
    by (simp add: no_db_fault_def is_open_def linorder_not_less Let_def)
  show ?thesis
    using assms(1,2) i
    by (simp add: Mutate_def in_transaction_def mutateInDB_def run Now_def Let_def
        save_conversation_eq auto_closed_row_def)
qed

lemma emitConversationClosed_no_fault:
  assumes "no_db_fault e" "i \<noteq> 0" "by_id conv_ID i (conversations (db w)) \<noteq> None"
  shows "\<exists>w'. emitConversationClosed e s i w = (Inr (), w') \<and> timers w' = timers w
    \<and> (if eventOutboxEnabled s
       then conversations (db w') = conversations (db w) \<and> messages (db w') = messages (db w)
         \<and> (\<exists>ev. outbox (db w') = outbox (db w) @ [ev] \<and> ob_Payload ev = conversation_closed i ''closed'' \<and> ob_Status ev = OutboxStatusPending
          \<and> ob_ConversationID ev = i)
       else db w' = db w)"
proof (cases "eventOutboxEnabled s")
  case False
  with assms(2) show ?thesis by (simp add: emitConversationClosed_def publish_logged_def)
next
  case True
  have "TrimSpace ''conversation.closed'' \<noteq> []" by code_simp
  with True assms show ?thesis
    by (simp add: emitConversationClosed_def enqueueOutboxEvent_def Create_event_eq no_db_fault_def Let_def)
qed

lemma fire_timer_closes:
  assumes "no_db_fault e" "hasScheduler s" "timers w i = Some d" "i \<noteq> 0"
    and row: "by_id conv_ID i (conversations (db w)) = Some c" "is_open c"
    and msg: "latest_spoken (db w) i = Some m" "msg_SenderType m = ''agent''"
    and due: "\<And>t. msg_CreatedAt m + autoCloseAfter s \<le> clock e t"
    and w': "w' = fire_timer e s i d w"
  shows "(\<exists>c'. by_id conv_ID i (conversations (db w')) = Some c' \<and> conv_Status c' = ''closed'')
    \<and> messages (db w') = messages (db w) \<and> timers w' = (timers w)(i := None)
    \<and> (eventOutboxEnabled s \<longrightarrow> (\<exists>ev. outbox (db w') = outbox (db w) @ [ev]
         \<and> ob_Payload ev = conversation_closed i ''closed'' \<and> ob_Status ev = OutboxStatusPending))"
proof -
  define u where "u = w\<lparr>timers := (timers w)(i := None)\<rparr>"
  define v where "v = (if eventOutboxEnabled s then advance (u\<lparr>shouldNotify := False\<rparr>) else u)"
  have v: "db v = db w" "timers v = (timers w)(i := None)" by (simp_all add: u_def v_def)
  obtain c' w1 where 1: "Mutate e (eventOutboxEnabled s) i (due_mutation e s) v = (Inr (c', True, None), w1)"
    "conv_Status c' = ''closed''" "conv_ID c' = i"
    "db w1 = (db v)\<lparr>conversations := replace_row c' (conversations (db v))\<rparr>" "timers w1 = timers v"
    using due_Mutate_no_fault [where inTx = "eventOutboxEnabled s", OF assms(1), of i v c m s] assms v by auto
  have row1: "by_id conv_ID i (conversations (db w1)) = Some c'"
    using by_id_replace_row [of c' "conversations (db w)"] 1 v row by simp
  obtain w2 where 2: "emitConversationClosed e s i w1 = (Inr (), w2)" "timers w2 = timers w1"
    "if eventOutboxEnabled s
     then conversations (db w2) = conversations (db w1) \<and> messages (db w2) = messages (db w1)
         \<and> (\<exists>ev. outbox (db w2) = outbox (db w1) @ [ev] \<and> ob_Payload ev = conversation_closed i ''closed'' \<and> ob_Status ev = OutboxStatusPending
          \<and> ob_ConversationID ev = i) else db w2 = db w1"
    using emitConversationClosed_no_fault [of e i w1 s] assms(1,4) row1 by auto
  have body: "due_body e s i v = (Inr (True, None), w2)"
    using 1(1) 2(1) by (simp add: due_body_def)
  obtain w3 where 3: "withEventTransaction e s (due_body e s i) u = (Inr (True, None), w3)"
    "db w3 = db w2" "timers w3 = timers w2"
  proof (cases "eventOutboxEnabled s")
    case True
    with body assms(1) have "in_transaction e (due_body e s i) (u\<lparr>shouldNotify := False\<rparr>) = (Inr (True, None), advance w2)"
      by (simp add: in_transaction_def v_def)
    with True that [of "if shouldNotify w2 \<and> outboxNotifier s then snd (NotifyOutbox e (advance w2)) else advance w2"]
      bus_only_same [OF NotifyOutbox_bus [of "advance w2" e]]
    show ?thesis by (simp add: withEventTransaction_def split: if_splits)
  next
    case False
    with body that show ?thesis by (simp add: withEventTransaction_def v_def)
  qed
  have "w' = Cancel i w3"
    using assms(2-4) 3(1) w' by (simp add: fire_timer_def fire_def onAutoCloseDue_def
        autoCloseConversationByTimeout_def flip: u_def)
  with 3 2(2,3) 1(2-) row1 v assms(4) show ?thesis
    by (auto simp: Cancel_eq split: if_splits)
qed

end
