(* ===== verification/Outbox_Dispatcher.thy ===== *)
theory Outbox_Dispatcher
  imports Auto_Close
begin

text \<open>
  The outbox dispatcher (\<^verbatim>\<open>services/chat-service/internal/service/outbox_dispatcher.go\<close>): the worker
  that moves pending events of the outbox to the bus, with retries, dead letters and the recovery of
  events a crashed worker left behind.  Durations are nanoseconds at the width of \<^verbatim>\<open>int64\<close>.  Starting
  and stopping the goroutines is represented by the events that the select statement of \<open>loop\<close>
  serves.
\<close>

section \<open>Configuration\<close>

record OutboxDispatcherConfig =
  PollInterval :: int
  BatchSize :: int
  MaxAttempts :: int
  RetryBaseInterval :: int
  RetryMaxInterval :: int
  ProcessingTimeout :: int

definition Millisecond :: int where "Millisecond = 1000000"
definition Second :: int where "Second = 1000 * Millisecond"

definition normalized :: "OutboxDispatcherConfig \<Rightarrow> OutboxDispatcherConfig" where
  "normalized c =
     \<lparr>PollInterval = (if PollInterval c \<le> 0 then 5 * Second else PollInterval c),
      BatchSize = (if BatchSize c \<le> 0 then 100 else BatchSize c),
      MaxAttempts = (if MaxAttempts c \<le> 0 then 8 else MaxAttempts c),
      RetryBaseInterval = (if RetryBaseInterval c \<le> 0 then 500 * Millisecond else RetryBaseInterval c),
      RetryMaxInterval = (if RetryMaxInterval c \<le> 0 then 15 * Second else RetryMaxInterval c),
      ProcessingTimeout = (if ProcessingTimeout c \<le> 0 then 30 * Second else ProcessingTimeout c)\<rparr>"

text \<open>\<open>wakeCh\<close> is the number of signals in the channel, whose capacity is one.\<close>

record OutboxDispatcher =
  cfg :: OutboxDispatcherConfig
  wakeCh :: nat

definition NewOutboxDispatcher :: "OutboxDispatcherConfig \<Rightarrow> OutboxDispatcher" where
  "NewOutboxDispatcher c = \<lparr>cfg = normalized c, wakeCh = 0\<rparr>"

definition Trigger :: "OutboxDispatcher \<Rightarrow> OutboxDispatcher" where
  "Trigger d = (if wakeCh d < 1 then d\<lparr>wakeCh := Suc (wakeCh d)\<rparr> else d)"

definition ReplayDead ::
  "env \<Rightarrow> int \<Rightarrow> OutboxDispatcher \<Rightarrow> world \<Rightarrow> (cerr + nat) \<times> OutboxDispatcher \<times> world" where
  "ReplayDead e limit d w =
     (case ReplayDead_repo e limit w of
        (Inl err, w1) \<Rightarrow> (Inl err, d, w1)
      | (Inr rows, w1) \<Rightarrow> (Inr rows, if rows > 0 then Trigger d else d, w1))"

section \<open>Backoff\<close>

fun retry_loop :: "int \<Rightarrow> nat \<Rightarrow> int \<Rightarrow> int" where
  "retry_loop maxInterval 0 delay = (if delay > maxInterval then maxInterval else delay)"
| "retry_loop maxInterval (Suc n) delay =
     (let delay' = int64 (delay * 2) in
      if delay' \<ge> maxInterval then maxInterval else retry_loop maxInterval n delay')"

definition retryDelay :: "OutboxDispatcherConfig \<Rightarrow> int \<Rightarrow> int" where
  "retryDelay c attempts =
     (let n = (if attempts < 1 then 1 else attempts) in
      retry_loop (RetryMaxInterval c) (nat (n - 1)) (RetryBaseInterval c))"

definition trimError :: "cerr \<Rightarrow> string" where
  "trimError err =
     (let msg = TrimSpace (Error sentinel_text err) in
      if length msg \<le> 1024 then msg else take 1024 msg)"

definition next_wakeup_delay :: "int \<Rightarrow> int" where
  "next_wakeup_delay d = (if d < 5 * Second then int64 (d * 2) else d)"

section \<open>Dispatching\<close>

definition dispatch_item :: "env \<Rightarrow> OutboxDispatcherConfig \<Rightarrow> event_outbox \<Rightarrow> world \<Rightarrow> world" where
  "dispatch_item e c item w =
     (case PublishConversationEvent e (ob_ConversationID item) (ob_Payload item) w of
        (Inl err, w1) \<Rightarrow>
          if int (ob_Attempts item) \<ge> MaxAttempts c
          then snd (MarkDead e (ob_ID item) (trimError err) w1)
          else (case Now e w1 of
                  (now, w2) \<Rightarrow>
                    snd (MarkForRetry e (ob_ID item) (now + retryDelay c (int (ob_Attempts item)))
                           (trimError err) w2))
      | (Inr _, w1) \<Rightarrow>
          (case Now e w1 of (now, w2) \<Rightarrow> snd (MarkPublished e (ob_ID item) now w2)))"

fun dispatch_items :: "env \<Rightarrow> OutboxDispatcherConfig \<Rightarrow> event_outbox list \<Rightarrow> world \<Rightarrow> world" where
  "dispatch_items e c [] w = w"
| "dispatch_items e c (item # items) w = dispatch_items e c items (dispatch_item e c item w)"

definition dispatchOnce :: "env \<Rightarrow> OutboxDispatcher \<Rightarrow> world \<Rightarrow> world" where
  "dispatchOnce e d w =
     (case Now e w of
        (t0, w0) \<Rightarrow>
          (case RequeueStaleProcessing e (t0 - ProcessingTimeout (cfg d)) w0 of
             (_, w1) \<Rightarrow>
               (case Now e w1 of
                  (t1, w2) \<Rightarrow>
                    (case FetchPendingForUpdate e (BatchSize (cfg d)) t1 w2 of
                       (Inl err, w3) \<Rightarrow> w3
                     | (Inr items, w3) \<Rightarrow>
                         if items = [] then w3 else dispatch_items e (cfg d) items w3))))"

text \<open>The events the select statement of \<open>loop\<close> serves.\<close>

datatype loop_event = ticker_C | wake_C

fun loop_step :: "env \<Rightarrow> loop_event \<Rightarrow> OutboxDispatcher \<times> world \<Rightarrow> OutboxDispatcher \<times> world" where
  "loop_step e ticker_C (d, w) = (d, dispatchOnce e d w)"
| "loop_step e wake_C (d, w) =
     (if wakeCh d = 0 then (d, w) else (d\<lparr>wakeCh := wakeCh d - 1\<rparr>, dispatchOnce e d w))"

section \<open>Backoff laws\<close>

lemma retry_loop_closed_form:
  assumes "0 < delay" "delay < 2 ^ 62" "maxInterval \<le> 2 ^ 62"
  shows "retry_loop maxInterval n delay = min maxInterval (delay * 2 ^ n)"
  using assms
proof (induction n arbitrary: delay)
  case (Suc n)
  have d2: "int64 (delay * 2) = delay * 2" using Suc.prems by (intro int64_id) auto
  have pow: "delay * 2 \<le> delay * 2 ^ Suc n" using Suc.prems by simp
  show ?case
  proof (cases "maxInterval \<le> delay * 2")
    case True
    with d2 pow show ?thesis by (simp add: Let_def)
  next
    case False
    with Suc.IH [of "delay * 2"] Suc.prems d2 show ?thesis by (simp add: Let_def mult.assoc)
  qed
qed (simp add: min_def)

lemma retryDelay_closed_form:
  assumes "0 < RetryBaseInterval c" "RetryBaseInterval c < 2 ^ 62" "RetryMaxInterval c \<le> 2 ^ 62"
    and "1 \<le> attempts"
  shows "retryDelay c attempts = min (RetryMaxInterval c) (RetryBaseInterval c * 2 ^ nat (attempts - 1))"
  using assms by (simp add: retryDelay_def retry_loop_closed_form)

lemma wakeup_delay_bounds:
  assumes "Second \<le> d" "d \<le> 8 * Second"
  shows "Second \<le> next_wakeup_delay d \<and> next_wakeup_delay d \<le> 10 * Second"
proof -
  have "int64 (d * 2) = d * 2" using assms by (intro int64_id) (auto simp: Second_def Millisecond_def)
  with assms show ?thesis by (auto simp: next_wakeup_delay_def)
qed

section \<open>Evolution and delivery\<close>

lemma mark_event_eq:
  "mark_event e i f w =
     (case db_fault e (tick w) of
        Some err \<Rightarrow> (Inl (Text err), advance w)
      | None \<Rightarrow> (Inr (), update_outbox (\<lambda>ev. ob_ID ev = i) f (advance w)))"
  by (simp add: mark_event_def db_call_def)

text \<open>The marks of an event: which event they concern, and that they keep its identity and statuses.\<close>

lemma marks_evolve:
  "evolves e w (snd (MarkForRetry e i t txt w))"
  "evolves e w (snd (MarkDead e i txt w))"
  by (auto simp: MarkForRetry_def MarkDead_def Now_def mark_event_eq Let_def outbox_statuses_def
      same_event_def outbox_status_defs split: option.split
      intro!: evolves_ticks_trans [OF only_ticks_advance2 evolves_update_outbox])

lemma MarkPublished_evolves:
  assumes "\<And>ev. ev \<in> set (outbox (db w)) \<Longrightarrow> ob_ID ev = i \<Longrightarrow> event_of ev \<in> set (bus w)"
  shows "evolves e w (snd (MarkPublished e i t w))"
  using assms
  by (auto simp: MarkPublished_def mark_event_eq outbox_statuses_def same_event_def split: option.split
      intro!: evolves_ticks_trans [OF only_ticks_advance evolves_update_outbox])

lemma RequeueStale_evolves: "RequeueStaleProcessing e t w = (r, w') \<Longrightarrow> evolves e w w'"
  by (auto simp: RequeueStaleProcessing_def Now_def db_call_def Let_def outbox_statuses_def same_event_def
      outbox_status_defs split: option.splits
      intro!: evolves_ticks_trans [OF only_ticks_advance2 evolves_update_outbox])

lemma ReplayDead_repo_evolves: "ReplayDead_repo e n w = (r, w') \<Longrightarrow> evolves e w w'"
  by (auto simp: ReplayDead_repo_def Now_def db_call_def Let_def outbox_statuses_def same_event_def
      outbox_status_defs split: option.splits
      intro!: evolves_ticks_trans [OF only_ticks_advance2 evolves_update_outbox])

lemma evolves_if_inv: "(store_inv e w \<Longrightarrow> evolves e w w') \<Longrightarrow> evolves e w w'"
  by (auto simp: evolves_def)

text \<open>The identity of the events in the outbox: no operation of the dispatcher touches it.\<close>

definition outbox_keys :: "world \<Rightarrow> (uint64 \<times> uint64 \<times> payload) list" where
  "outbox_keys w = map (\<lambda>ev. (ob_ID ev, event_of ev)) (outbox (db w))"

definition item_known :: "world \<Rightarrow> event_outbox \<Rightarrow> bool" where
  "item_known w item \<longleftrightarrow>
     ob_ConversationID item \<noteq> 0
   \<and> (\<forall>k \<in> set (outbox_keys w). fst k = ob_ID item \<longrightarrow> snd k = event_of item)"

lemma outbox_keys_update [simp]:
  "(\<And>ev. ob_ID (f ev) = ob_ID ev \<and> event_of (f ev) = event_of ev) \<Longrightarrow>
   outbox_keys (update_outbox P f w) = outbox_keys w"
  by (simp add: outbox_keys_def update_outbox_def update_rows_def)

lemma outbox_keys_frame [simp]:
  "outbox_keys (advance w) = outbox_keys w" "bus_only w w' \<Longrightarrow> outbox_keys w' = outbox_keys w"
  by (simp_all add: outbox_keys_def)

lemma marks_keys [simp]:
  "outbox_keys (snd (MarkForRetry e i t txt w)) = outbox_keys w"
  "outbox_keys (snd (MarkDead e i txt w)) = outbox_keys w"
  "outbox_keys (snd (MarkPublished e i t w)) = outbox_keys w"
  by (simp_all add: MarkForRetry_def MarkDead_def MarkPublished_def Now_def mark_event_eq Let_def event_of_def
      split: option.split)

lemma Publish_ok_bus:
  "PublishConversationEvent e i p w = (Inr (), w') \<Longrightarrow> i \<noteq> 0 \<Longrightarrow> bus w' = bus w @ [(i, p)] \<and> db w' = db w"
  by (auto simp: PublishConversationEvent_def bus_call_def split: option.splits)

lemma dispatch_item_keys [simp]: "outbox_keys (dispatch_item e c item w) = outbox_keys w"
proof -
  obtain r w1 where 1: "PublishConversationEvent e (ob_ConversationID item) (ob_Payload item) w = (r, w1)"
    by fastforce
  then have "bus_only w w1" using PublishConversationEvent_bus [of w e "ob_ConversationID item" "ob_Payload item"] by simp
  with 1 show ?thesis by (simp add: dispatch_item_def Now_def split: sum.split)
qed

lemma dispatch_item_evolves:
  assumes "item_known w item"
  shows "evolves e w (dispatch_item e c item w)"
proof -
  obtain r w1 where 1: "PublishConversationEvent e (ob_ConversationID item) (ob_Payload item) w = (r, w1)"
    by fastforce
  then have b: "bus_only w w1" using PublishConversationEvent_bus [of w e "ob_ConversationID item" "ob_Payload item"] by simp
  show ?thesis
  proof (cases r)
    case (Inl err)
    have "evolves e w1 (dispatch_item e c item w)"
      using 1 Inl marks_evolve by (auto simp: dispatch_item_def Now_def intro: evolves_ticks_trans [OF only_ticks_advance])
    with b show ?thesis by (blast intro: evolves_trans bus_only_evolves)
  next
    case (Inr u)
    with 1 assms have bus: "event_of item \<in> set (bus w1)"
      by (auto simp: item_known_def event_of_def dest: Publish_ok_bus)
    have "evolves e (advance w1) (snd (MarkPublished e (ob_ID item) t (advance w1)))" for t
      using assms bus b by (intro MarkPublished_evolves) (force simp: item_known_def outbox_keys_def)
    then have "evolves e w1 (dispatch_item e c item w)"
      using 1 Inr by (auto simp: dispatch_item_def Now_def intro: evolves_ticks_trans [OF only_ticks_advance])
    with b show ?thesis by (blast intro: evolves_trans bus_only_evolves)
  qed
qed

lemma dispatch_items_evolves:
  "(\<And>item. item \<in> set items \<Longrightarrow> item_known w item) \<Longrightarrow> evolves e w (dispatch_items e c items w)"
proof (induction items arbitrary: w)
  case (Cons item items)
  have "item_known (dispatch_item e c item w) q" if "q \<in> set items" for q
    using Cons.prems [of q] that by (simp add: item_known_def)
  then have "evolves e (dispatch_item e c item w) (dispatch_items e c items (dispatch_item e c item w))"
    by (rule Cons.IH)
  moreover have "evolves e w (dispatch_item e c item w)"
    using Cons.prems by (simp add: dispatch_item_evolves)
  ultimately show ?case by (auto intro: evolves_trans)
qed simp

text \<open>The batch a dispatcher claims.\<close>

lemma fetch_batch_mem: "ev \<in> set (fetch_batch e n limit t evs) \<Longrightarrow> ev \<in> set evs \<and> retryable t ev"
  by (auto simp: fetch_batch_def order_asc_def dest!: in_set_takeD)

lemma fetch_pending_body_cases:
  assumes "fetch_pending_body e limit t w = (r, w')"
  obtains (failed) err where "r = Inl err" "only_ticks w w'"
  | (idle) n where "r = Inr []" "only_ticks w w'" "fetch_batch e n limit t (outbox (db w)) = []"
  | (claimed) n now v items where "items = fetch_batch e n limit t (outbox (db w))"
      "r = Inr (map (start_processing now) items)" "only_ticks w v" "items \<noteq> []"
      "w' = update_outbox (\<lambda>ev. ob_ID ev \<in> ob_ID ` set items)
              (\<lambda>ev. (start_processing now ev)\<lparr>ob_UpdatedAt := now\<rparr>) v"
proof -
  let ?n = "tick (advance w)" and ?v = "advance (advance (advance w))"
  let ?items = "fetch_batch e ?n limit t (outbox (db w))"
  have ticks: "only_ticks w ?v" by (rule only_ticks_trans [OF only_ticks_advance2 only_ticks_advance])
  consider "db_fault e (tick w) \<noteq> None" | "db_fault e (tick w) = None" "?items = []"
    | "db_fault e (tick w) = None" "?items \<noteq> []" by blast
  then show ?thesis
  proof cases
    case 1
    with assms failed show ?thesis by (auto simp: fetch_pending_body_def db_call_def)
  next
    case 2
    with assms idle [of ?n] show ?thesis by (auto simp: fetch_pending_body_def db_call_def)
  next
    case 3
    show ?thesis
    proof (cases "db_fault e (tick (advance (advance w)))")
      case (Some err)
      with assms 3 failed ticks show ?thesis by (auto simp: fetch_pending_body_def db_call_def Now_def Let_def)
    next
      case None
      with assms 3 claimed [of ?items ?n "clock e ?n" ?v] ticks show ?thesis
        by (simp add: fetch_pending_body_def db_call_def Now_def Let_def)
    qed
  qed
qed

lemma start_processing_event:
  "ob_ID (start_processing t ev) = ob_ID ev" "event_of (start_processing t ev) = event_of ev"
  "ob_ConversationID (start_processing t ev) = ob_ConversationID ev"
  by (simp_all add: start_processing_def event_of_def)

lemma fetch_pending_body_evolves: "fetch_pending_body e limit t w = (r, w') \<Longrightarrow> evolves e w w'"
  by (erule fetch_pending_body_cases)
     (auto simp: outbox_statuses_def same_event_def start_processing_def outbox_status_defs
       intro: evolves_only_ticks intro!: evolves_ticks_trans [OF _ evolves_update_outbox])

lemma FetchPending_evolves: "FetchPendingForUpdate e limit t w = (r, w') \<Longrightarrow> evolves e w w'"
  unfolding FetchPendingForUpdate_def by (rule in_transaction_evolves [OF fetch_pending_body_evolves])

text \<open>The claimed items are rows of the outbox, and stay known while the batch is worked off.\<close>

lemma FetchPending_items:
  assumes "FetchPendingForUpdate e limit t w = (Inr items, w')" "store_inv e w" "item \<in> set items"
  shows "item_known w' item"
proof -
  from assms(1) obtain u v where u: "only_ticks w u" "fetch_pending_body e limit t u = (Inr items, v)" "only_ticks v w'"
    unfolding FetchPendingForUpdate_def by (rule in_transaction_ok)
  from u(2) show ?thesis
  proof (cases rule: fetch_pending_body_cases)
    case (claimed n now x its)
    with assms(3) obtain ev where ev: "ev \<in> set its" "item = start_processing now ev" by auto
    with claimed(1) u(1) have mem: "ev \<in> set (outbox (db w))" by (auto dest: fetch_batch_mem)
    have "outbox_keys w' = outbox_keys v" "outbox_keys x = outbox_keys w"
      using claimed(3) u by (simp_all add: outbox_keys_def)
    moreover have "outbox_keys v = outbox_keys x"
      unfolding claimed(5) by (rule outbox_keys_update) (simp add: start_processing_def event_of_def)
    ultimately have keys: "outbox_keys w' = outbox_keys w" by simp
    have "ob_ConversationID ev \<noteq> 0" using assms(2) mem
      by (auto simp: store_inv_def outbox_inv_def conv_ids_def conversations_inv_def keys_below_def)
    moreover have "q = ev" if "q \<in> set (outbox (db w))" "ob_ID q = ob_ID ev" for q
      using assms(2) mem that by (auto simp: store_inv_def outbox_inv_def dest: keys_below_inj)
    ultimately show ?thesis
      using ev by (auto simp: item_known_def keys start_processing_event) (auto simp: outbox_keys_def)
  qed (use assms(3) in auto)
qed

lemma dispatchOnce_evolves: "evolves e w (dispatchOnce e d w)"
proof (rule evolves_if_inv)
  assume inv: "store_inv e w"
  let ?w0 = "advance w" and ?t0 = "clock e (tick w) - ProcessingTimeout (cfg d)"
  obtain r1 w1 where 1: "RequeueStaleProcessing e ?t0 ?w0 = (r1, w1)" by fastforce
  obtain r3 w3 where 3: "FetchPendingForUpdate e (BatchSize (cfg d)) (clock e (tick w1)) (advance w1) = (r3, w3)"
    by fastforce
  have e2: "evolves e w (advance w1)"
    by (rule evolves_trans [OF evolves_ticks_trans [OF only_ticks_advance RequeueStale_evolves [OF 1]] evolves_advance(1)])
  with inv have inv2: "store_inv e (advance w1)" by (simp add: evolves_def)
  have e3: "evolves e w w3" by (rule evolves_trans [OF e2 FetchPending_evolves [OF 3]])
  have "evolves e w (dispatch_items e (cfg d) items w3)" if "r3 = Inr items" for items
    by (rule evolves_trans [OF e3 dispatch_items_evolves]) (use FetchPending_items [OF 3 [unfolded that] inv2] in blast)
  with e3 1 3 show "evolves e w (dispatchOnce e d w)"
    by (simp add: dispatchOnce_def Now_def split: sum.split)
qed

lemma ReplayDead_evolves: "ReplayDead e n d w = (r, d', w') \<Longrightarrow> evolves e w w'"
  by (auto simp: ReplayDead_def split: prod.splits sum.splits dest: ReplayDead_repo_evolves)

section \<open>Delivery without faults\<close>

definition no_fault :: "env \<Rightarrow> bool" where
  "no_fault e \<longleftrightarrow> no_db_fault e \<and> (\<forall>t. bus_fault e t = None)"

definition published_ids :: "uint64 set \<Rightarrow> world \<Rightarrow> bool" where
  "published_ids ids w \<longleftrightarrow> (\<forall>ev \<in> set (outbox (db w)). ob_ID ev \<in> ids \<longrightarrow> ob_Status ev = OutboxStatusPublished)"

lemma dispatch_item_no_fault:
  assumes "no_fault e" "ob_ConversationID item \<noteq> 0" "published_ids ids w"
  shows "bus (dispatch_item e c item w) = bus w @ [event_of item]"
    and "published_ids (insert (ob_ID item) ids) (dispatch_item e c item w)"
proof -
  let ?f = "\<lambda>t ev. ev\<lparr>ob_Status := OutboxStatusPublished, ob_PublishedAt := Some t, ob_ProcessingAt := None,
     ob_NextRetryAt := None, ob_LastError := [], ob_UpdatedAt := t\<rparr>"
  have run: "\<exists>t v. dispatch_item e c item w = update_outbox (\<lambda>ev. ob_ID ev = ob_ID item) (?f t) v
      \<and> db v = db w \<and> bus v = bus w @ [event_of item]"
    using assms(1,2)
    by (simp add: dispatch_item_def PublishConversationEvent_def bus_call_def no_fault_def Now_def
        MarkPublished_def mark_event_def event_of_def)
       (intro exI conjI, rule refl, simp_all)
  then obtain t v where v: "dispatch_item e c item w = update_outbox (\<lambda>ev. ob_ID ev = ob_ID item) (?f t) v"
    "db v = db w" "bus v = bus w @ [event_of item]" by blast
  then show "bus (dispatch_item e c item w) = bus w @ [event_of item]" by (simp add: update_outbox_def)
  show "published_ids (insert (ob_ID item) ids) (dispatch_item e c item w)"
    unfolding published_ids_def
  proof (intro ballI impI)
    fix ev assume ev: "ev \<in> set (outbox (db (dispatch_item e c item w)))" "ob_ID ev \<in> insert (ob_ID item) ids"
    from ev(1) v obtain q where "q \<in> set (outbox (db w))" "ev = (if ob_ID q = ob_ID item then ?f t q else q)"
      by (auto simp: update_outbox_def update_rows_def)
    with ev(2) assms(3) show "ob_Status ev = OutboxStatusPublished"
      by (cases "ob_ID q = ob_ID item") (auto simp: published_ids_def)
  qed
qed

lemma dispatch_items_no_fault:
  assumes "no_fault e" "\<forall>item \<in> set items. ob_ConversationID item \<noteq> 0" "published_ids ids w"
  shows "bus (dispatch_items e c items w) = bus w @ map event_of items
    \<and> published_ids (ids \<union> ob_ID ` set items) (dispatch_items e c items w)
    \<and> outbox_keys (dispatch_items e c items w) = outbox_keys w"
  using assms
proof (induction items arbitrary: w ids)
  case (Cons item items)
  from Cons.IH [of "insert (ob_ID item) ids" "dispatch_item e c item w"] Cons.prems
    dispatch_item_no_fault [of e item ids w c]
  show ?case by simp
qed simp

lemma fetch_batch_unlocked:
  assumes "keys_below ob_ID n evs" "\<And>k i. \<not> locked e k i"
  shows "fetch_batch e k limit t evs = take (nat (if limit \<le> 0 then 100 else limit)) (filter (retryable t) evs)"
  using assms by (simp add: fetch_batch_def order_asc_def sort_key_ascending)

text \<open>An event that is due, or that a worker has held for longer than the processing timeout.\<close>

definition deliverable :: "OutboxDispatcherConfig \<Rightarrow> time \<Rightarrow> event_outbox \<Rightarrow> bool" where
  "deliverable c now ev \<longleftrightarrow> retryable now ev \<or> stale (now - ProcessingTimeout c) ev"

definition requeued :: "time \<Rightarrow> time \<Rightarrow> event_outbox \<Rightarrow> event_outbox" where
  "requeued staleBefore now ev =
     (if stale staleBefore ev
      then ev\<lparr>ob_Status := OutboxStatusPending, ob_ProcessingAt := None, ob_NextRetryAt := Some now,
              ob_UpdatedAt := now\<rparr> else ev)"

lemma requeued_retryable:
  assumes "deliverable c now ev" "now \<le> t0" "t0 \<le> t1"
  shows "retryable t1 (requeued (now - ProcessingTimeout c) t0 ev)"
  using assms by (auto simp: deliverable_def requeued_def retryable_def split: option.splits)

lemma requeued_event: "ob_ID (requeued s t ev) = ob_ID ev" "event_of (requeued s t ev) = event_of ev"
  by (simp_all add: requeued_def event_of_def)

lemma Requeue_no_fault:
  assumes "no_db_fault e"
  shows "RequeueStaleProcessing e s w =
    (Inr (length (filter (stale s) (outbox (db w)))),
     (advance (advance w))\<lparr>db := (db w)\<lparr>outbox := map (requeued s (clock e (tick w))) (outbox (db w))\<rparr>\<rparr>)"
proof -
  have "update_rows (stale s) (\<lambda>ev. ev\<lparr>ob_Status := OutboxStatusPending, ob_ProcessingAt := None,
      ob_NextRetryAt := Some t, ob_UpdatedAt := t\<rparr>) evs = map (requeued s t) evs" for t evs
    by (simp add: update_rows_def requeued_def)
  with assms show ?thesis
    by (simp add: RequeueStaleProcessing_def Now_def update_outbox_def)
qed

lemma Fetch_no_fault:
  assumes "no_db_fault e"
  shows "\<exists>now n v. FetchPendingForUpdate e limit t w =
      (Inr (map (start_processing now) (fetch_batch e n limit t (outbox (db w)))), v)
    \<and> outbox_keys v = outbox_keys w \<and> bus v = bus w"
proof -
  obtain r v where 1: "fetch_pending_body e limit t (advance w) = (r, v)" by fastforce
  then show ?thesis
  proof (cases rule: fetch_pending_body_cases)
    case (failed err)
    with 1 assms show ?thesis by (simp add: fetch_pending_body_def Now_def Let_def split: if_splits)
  next
    case (idle n)
    with 1 assms show ?thesis
      by (auto simp: FetchPendingForUpdate_def in_transaction_def outbox_keys_def)
  next
    case (claimed n now x items)
    have k: "outbox_keys v = outbox_keys x"
      unfolding claimed(5) by (rule outbox_keys_update) (simp add: start_processing_def event_of_def)
    have x: "outbox_keys x = outbox_keys w" "bus v = bus w"
      using claimed(3,5) by (simp_all add: outbox_keys_def update_outbox_def)
    from 1 assms claimed(1,2) have
      "FetchPendingForUpdate e limit t w =
        (Inr (map (start_processing now) (fetch_batch e n limit t (outbox (db w)))), advance v)"
      by (simp add: FetchPendingForUpdate_def in_transaction_def)
    with k x show ?thesis by (intro exI [of _ now] exI [of _ n] exI [of _ "advance v"]) simp
  qed
qed

lemma dispatchOnce_delivers_batch:
  assumes nf: "no_fault e" and inv: "store_inv e w" and unlocked: "\<And>k i. \<not> locked e k i"
    and clock: "mono (clock e)" and w': "w' = dispatchOnce e d w"
  shows "\<exists>batch. bus w' = bus w @ map event_of batch \<and> sorted_wrt (\<lambda>a b. ob_ID a < ob_ID b) batch
    \<and> published_ids (ob_ID ` set batch) w' \<and> outbox_keys w' = outbox_keys w
    \<and> (int (length (outbox (db w))) \<le> BatchSize (cfg d) \<longrightarrow>
         (\<forall>ev \<in> set (outbox (db w)). deliverable (cfg d) (clock e (tick w)) ev \<longrightarrow> ob_ID ev \<in> ob_ID ` set batch))"
proof -
  let ?s = "clock e (tick w) - ProcessingTimeout (cfg d)"
  let ?t0 = "clock e (Suc (tick w))"
  define evs where "evs = map (requeued ?s ?t0) (outbox (db w))"
  define w1 where "w1 = (advance (advance (advance w)))\<lparr>db := (db w)\<lparr>outbox := evs\<rparr>\<rparr>"
  define t1 where "t1 = clock e (tick w1)"
  have tick: "tick w \<le> Suc (tick w)" "Suc (tick w) \<le> tick w1" by (simp_all add: w1_def advance_def)
  have rq: "RequeueStaleProcessing e ?s (advance w) = (Inr (length (filter (stale ?s) (outbox (db w)))), w1)"
    using nf Requeue_no_fault [of e ?s "advance w"] by (simp add: no_fault_def w1_def evs_def) (simp add: advance_def)
  have keys1: "outbox_keys w1 = outbox_keys w"
    by (simp add: outbox_keys_def w1_def evs_def requeued_event)
  obtain now n v where f: "FetchPendingForUpdate e (BatchSize (cfg d)) t1 (advance w1) =
      (Inr (map (start_processing now) (fetch_batch e n (BatchSize (cfg d)) t1 evs)), v)"
    "outbox_keys v = outbox_keys w1" "bus v = bus w"
    using Fetch_no_fault [of e "BatchSize (cfg d)" t1 "advance w1"] nf by (auto simp: no_fault_def w1_def)
  define batch where "batch = fetch_batch e n (BatchSize (cfg d)) t1 evs"
  have kb: "keys_below ob_ID (outbox_seq w) evs"
    using inv by (auto simp: evs_def store_inv_def outbox_inv_def keys_below_def sorted_wrt_map requeued_event)
  have batch: "batch = take (nat (if BatchSize (cfg d) \<le> 0 then 100 else BatchSize (cfg d))) (filter (retryable t1) evs)"
    unfolding batch_def by (rule fetch_batch_unlocked [OF kb unlocked])
  have conv: "ob_ConversationID ev \<noteq> 0" if "ev \<in> set batch" for ev
  proof -
    from that have "ev \<in> set evs" unfolding batch_def by (auto dest: fetch_batch_mem)
    then have "event_of ev \<in> event_of ` set (outbox (db w))" by (auto simp: evs_def requeued_event)
    then have "ob_ConversationID ev \<in> conv_ids (db w)"
      using inv by (auto simp: store_inv_def outbox_inv_def event_of_def)
    then show ?thesis using inv by (auto simp: store_inv_def conversations_inv_def keys_below_def conv_ids_def)
  qed
  let ?items = "map (start_processing now) batch"
  have ids: "map event_of ?items = map event_of batch" "ob_ID ` set ?items = ob_ID ` set batch"
    by (auto simp: start_processing_event image_image)
  have w'_eq: "w' = dispatch_items e (cfg d) ?items v"
    using w' rq f(1) by (simp add: dispatchOnce_def Now_def flip: t1_def batch_def)
  have "bus w' = bus v @ map event_of ?items \<and> published_ids ({} \<union> ob_ID ` set ?items) w' \<and> outbox_keys w' = outbox_keys v"
    unfolding w'_eq
    by (rule dispatch_items_no_fault) (use nf conv in \<open>auto simp: start_processing_event published_ids_def\<close>)
  moreover have "sorted_wrt (\<lambda>a b. ob_ID a < ob_ID b) batch"
    unfolding batch using kb by (auto simp: keys_below_def intro: sorted_wrt_take sorted_wrt_filter)
  moreover have "ob_ID ev \<in> ob_ID ` set batch"
    if "int (length (outbox (db w))) \<le> BatchSize (cfg d)" "ev \<in> set (outbox (db w))"
      "deliverable (cfg d) (clock e (tick w)) ev" for ev
  proof -
    have len: "length evs \<le> nat (BatchSize (cfg d))" using that(1) by (simp add: evs_def)
    have "0 < length (outbox (db w))" using that(2) by (cases "outbox (db w)") auto
    with that(1) have "\<not> BatchSize (cfg d) \<le> 0" by linarith
    with le_trans [OF length_filter_le len] have all: "batch = filter (retryable t1) evs"
      unfolding batch by simp
    have "retryable t1 (requeued ?s ?t0 ev)"
      using that(3) tick clock by (intro requeued_retryable) (auto simp: t1_def monoD)
    with that(2) have "requeued ?s ?t0 ev \<in> set batch" unfolding all by (auto simp: evs_def)
    then show ?thesis by (metis image_eqI requeued_event(1))
  qed
  ultimately show ?thesis using f(2,3) keys1 ids by (intro exI [of _ batch]) auto
qed

section \<open>Dead letters\<close>

text \<open>Outside \<open>ids\<close>, a dead event has used up its attempts.\<close>

definition dead_justified :: "OutboxDispatcherConfig \<Rightarrow> uint64 set \<Rightarrow> world \<Rightarrow> bool" where
  "dead_justified c ids w \<longleftrightarrow>
     (\<forall>ev \<in> set (outbox (db w)). ob_Status ev = OutboxStatusDead \<longrightarrow>
        ob_ID ev \<in> ids \<or> MaxAttempts c \<le> int (ob_Attempts ev))"

definition attempts_known :: "world \<Rightarrow> event_outbox \<Rightarrow> bool" where
  "attempts_known w item \<longleftrightarrow>
     (\<forall>ev \<in> set (outbox (db w)). ob_ID ev = ob_ID item \<longrightarrow> ob_Attempts ev = ob_Attempts item)"

lemma update_outbox_mem:
  "ev' \<in> set (outbox (db (update_outbox P f w))) \<longleftrightarrow>
   (\<exists>ev \<in> set (outbox (db w)). ev' = (if P ev then f ev else ev))"
  by (auto simp: update_outbox_def update_rows_def)

lemma dead_justified_update:
  assumes "dead_justified c ids w"
    and "\<And>ev. ev \<in> set (outbox (db w)) \<Longrightarrow> P ev \<Longrightarrow> ob_Status (f ev) = OutboxStatusDead \<Longrightarrow>
      MaxAttempts c \<le> int (ob_Attempts (f ev))"
  shows "dead_justified c ids (update_outbox P f w)"
  unfolding dead_justified_def
proof (intro ballI impI)
  fix ev' assume ev': "ev' \<in> set (outbox (db (update_outbox P f w)))" "ob_Status ev' = OutboxStatusDead"
  then obtain ev where "ev \<in> set (outbox (db w))" "ev' = (if P ev then f ev else ev)"
    by (auto simp: update_outbox_mem)
  with ev'(2) assms show "ob_ID ev' \<in> ids \<or> MaxAttempts c \<le> int (ob_Attempts ev')"
    by (cases "P ev") (auto simp: dead_justified_def)
qed

lemma attempts_known_update:
  assumes "\<And>ev. ob_ID (f ev) = ob_ID ev" "\<And>ev. ob_Attempts (f ev) = ob_Attempts ev"
  shows "attempts_known (update_outbox P f w) item = attempts_known w item"
  by (auto simp: attempts_known_def update_outbox_def update_rows_def ball_Un assms)

lemma dead_frame:
  assumes "db w' = db w"
  shows "dead_justified c ids w' = dead_justified c ids w" "attempts_known w' item = attempts_known w item"
  using assms by (simp_all add: dead_justified_def attempts_known_def)

lemma dead_advance [simp]: "dead_justified c ids (advance w) = dead_justified c ids w"
  by (rule dead_frame) simp

lemma dead_ticks: "only_ticks w w' \<Longrightarrow> dead_justified c ids w' = dead_justified c ids w"
  by (rule dead_frame) simp

lemma dispatch_item_shape:
  "\<exists>v f. db v = db w \<and> (dispatch_item e c item w = v
      \<or> dispatch_item e c item w = update_outbox (\<lambda>ev. ob_ID ev = ob_ID item) f v)
    \<and> (\<forall>ev. ob_ID (f ev) = ob_ID ev \<and> ob_Attempts (f ev) = ob_Attempts ev
        \<and> (ob_Status (f ev) = OutboxStatusDead \<longrightarrow> MaxAttempts c \<le> int (ob_Attempts item)))"
proof -
  obtain r w1 where 1: "PublishConversationEvent e (ob_ConversationID item) (ob_Payload item) w = (r, w1)"
    by fastforce
  have db1: "db w1 = db w" using PublishConversationEvent_bus [of w e "ob_ConversationID item" "ob_Payload item"] 1 by simp
  have mark: "\<exists>v. db v = db w \<and> (snd (mark_event e (ob_ID item) f x) = v
      \<or> snd (mark_event e (ob_ID item) f x) = update_outbox (\<lambda>ev. ob_ID ev = ob_ID item) f v)"
    if "db x = db w" for f x
    using that by (intro exI [of _ "advance x"]) (simp add: mark_event_eq split: option.split)
  show ?thesis
  proof (cases r)
    case (Inr u)
    let ?f = "\<lambda>ev. ev\<lparr>ob_Status := OutboxStatusPublished, ob_PublishedAt := Some (clock e (tick w1)),
        ob_ProcessingAt := None, ob_NextRetryAt := None, ob_LastError := [], ob_UpdatedAt := clock e (tick w1)\<rparr>"
    have "dispatch_item e c item w = snd (mark_event e (ob_ID item) ?f (advance w1))"
      using 1 Inr by (simp add: dispatch_item_def Now_def MarkPublished_def)
    moreover obtain v where "db v = db w" "snd (mark_event e (ob_ID item) ?f (advance w1)) = v
      \<or> snd (mark_event e (ob_ID item) ?f (advance w1)) = update_outbox (\<lambda>ev. ob_ID ev = ob_ID item) ?f v"
      using mark [of "advance w1" ?f] db1 by auto
    ultimately show ?thesis
      by (intro exI [of _ v] exI [of _ ?f]) (simp add: outbox_status_defs)
  next
    case (Inl err)
    show ?thesis
    proof (cases "MaxAttempts c \<le> int (ob_Attempts item)")
      case True
      let ?f = "\<lambda>ev. ev\<lparr>ob_Status := OutboxStatusDead, ob_ProcessingAt := None, ob_NextRetryAt := None,
          ob_LastError := trimError err, ob_UpdatedAt := clock e (tick w1)\<rparr>"
      have "dispatch_item e c item w = snd (mark_event e (ob_ID item) ?f (advance w1))"
        using 1 Inl True by (simp add: dispatch_item_def Now_def MarkDead_def)
      moreover obtain v where "db v = db w" "snd (mark_event e (ob_ID item) ?f (advance w1)) = v
        \<or> snd (mark_event e (ob_ID item) ?f (advance w1)) = update_outbox (\<lambda>ev. ob_ID ev = ob_ID item) ?f v"
        using mark [of "advance w1" ?f] db1 by auto
      ultimately show ?thesis using True
        by (intro exI [of _ v] exI [of _ ?f]) (simp add: outbox_status_defs)
    next
      case False
      let ?f = "\<lambda>ev. ev\<lparr>ob_Status := OutboxStatusPending, ob_ProcessingAt := None,
          ob_NextRetryAt := Some (clock e (tick w1) + retryDelay c (int (ob_Attempts item))),
          ob_LastError := trimError err, ob_UpdatedAt := clock e (tick (advance w1))\<rparr>"
      have "dispatch_item e c item w = snd (mark_event e (ob_ID item) ?f (advance (advance w1)))"
        using 1 Inl False by (simp add: dispatch_item_def Now_def MarkForRetry_def)
      moreover obtain v where "db v = db w" "snd (mark_event e (ob_ID item) ?f (advance (advance w1))) = v
        \<or> snd (mark_event e (ob_ID item) ?f (advance (advance w1))) = update_outbox (\<lambda>ev. ob_ID ev = ob_ID item) ?f v"
        using mark [of "advance (advance w1)" ?f] db1 by auto
      ultimately show ?thesis
        by (intro exI [of _ v] exI [of _ ?f]) (simp add: outbox_status_defs)
    qed
  qed
qed

lemma dispatch_item_dead:
  assumes "dead_justified c ids w" "attempts_known w item"
  shows "dead_justified c ids (dispatch_item e c item w)"
    and "attempts_known (dispatch_item e c item w) q = attempts_known w q"
proof -
  obtain v f where v: "db v = db w" and run: "dispatch_item e c item w = v
      \<or> dispatch_item e c item w = update_outbox (\<lambda>ev. ob_ID ev = ob_ID item) f v"
    and f: "\<And>ev. ob_ID (f ev) = ob_ID ev" "\<And>ev. ob_Attempts (f ev) = ob_Attempts ev"
      "\<And>ev. ob_Status (f ev) = OutboxStatusDead \<Longrightarrow> MaxAttempts c \<le> int (ob_Attempts item)"
    using dispatch_item_shape [of w e c item] by blast
  have "dead_justified c ids v" and known: "attempts_known v item"
    using assms dead_frame [OF v] by simp_all
  have "dead_justified c ids (update_outbox (\<lambda>ev. ob_ID ev = ob_ID item) f v)"
  proof (rule dead_justified_update [OF \<open>dead_justified c ids v\<close>])
    fix ev assume "ev \<in> set (outbox (db v))" "ob_ID ev = ob_ID item" "ob_Status (f ev) = OutboxStatusDead"
    with known f(3) [of ev] show "MaxAttempts c \<le> int (ob_Attempts (f ev))"
      unfolding f(2) by (simp add: attempts_known_def)
  qed
  with run \<open>dead_justified c ids v\<close> show "dead_justified c ids (dispatch_item e c item w)" by auto
  from run show "attempts_known (dispatch_item e c item w) q = attempts_known w q"
    using dead_frame(2) [OF v] attempts_known_update [of f, OF f(1,2)] by metis
qed

lemma dispatch_items_dead:
  "dead_justified c ids w \<Longrightarrow> (\<And>item. item \<in> set items \<Longrightarrow> attempts_known w item) \<Longrightarrow>
   dead_justified c ids (dispatch_items e c items w)"
proof (induction items arbitrary: w)
  case (Cons item items)
  from Cons.IH [of "dispatch_item e c item w"] Cons.prems dispatch_item_dead [of c ids w item e] show ?case
    by simp
qed simp

lemma FetchPending_attempts:
  assumes "FetchPendingForUpdate e limit t w = (Inr items, w')" "store_inv e w" "item \<in> set items"
  shows "attempts_known w' item"
proof -
  from assms(1) obtain u v where u: "only_ticks w u" "fetch_pending_body e limit t u = (Inr items, v)" "only_ticks v w'"
    unfolding FetchPendingForUpdate_def by (rule in_transaction_ok)
  from u(2) show ?thesis
  proof (cases rule: fetch_pending_body_cases)
    case (claimed n now x its)
    with assms(3) obtain ev where ev: "ev \<in> set its" "item = start_processing now ev" by auto
    with claimed(1) u(1) have mem: "ev \<in> set (outbox (db w))" by (auto dest: fetch_batch_mem)
    have out: "outbox (db w') = outbox (db v)" "outbox (db x) = outbox (db w)" using claimed(3) u by simp_all
    show ?thesis
      unfolding attempts_known_def out(1) claimed(5)
    proof (intro ballI impI)
      fix q' assume "q' \<in> set (outbox (db (update_outbox (\<lambda>ev. ob_ID ev \<in> ob_ID ` set its)
          (\<lambda>ev. (start_processing now ev)\<lparr>ob_UpdatedAt := now\<rparr>) x)))" "ob_ID q' = ob_ID item"
      then obtain q where q: "q \<in> set (outbox (db w))"
        "q' = (if ob_ID q \<in> ob_ID ` set its then (start_processing now q)\<lparr>ob_UpdatedAt := now\<rparr> else q)"
        "ob_ID q' = ob_ID item"
        using out(2) unfolding update_outbox_mem by auto
      have "ob_ID q' = ob_ID q" unfolding q(2) by (simp add: start_processing_def)
      with q ev(2) have "ob_ID q = ob_ID ev" by (simp add: start_processing_def)
      with q(1) have "q = ev" using assms(2) mem by (auto simp: store_inv_def outbox_inv_def dest: keys_below_inj)
      with q ev show "ob_Attempts q' = ob_Attempts item" by (simp add: start_processing_def)
    qed
  qed (use assms(3) in auto)
qed

lemma fetch_dead:
  assumes "FetchPendingForUpdate e limit t w = (r, w')" "dead_justified c ids w"
  shows "dead_justified c ids w'"
proof (cases r)
  case (Inl err)
  with assms(1) have "db w' = db w" by (auto simp: FetchPendingForUpdate_def dest: in_transaction_error)
  from dead_frame(1) [OF this] assms(2) show ?thesis by simp
next
  case (Inr items)
  with assms(1) obtain u v where u: "only_ticks w u" "fetch_pending_body e limit t u = (Inr items, v)" "only_ticks v w'"
    unfolding FetchPendingForUpdate_def by (auto elim: in_transaction_ok)
  have "dead_justified c ids v"
    using u(2)
  proof (cases rule: fetch_pending_body_cases)
    case (claimed n now x its)
    have "dead_justified c ids x" using claimed(3) u(1) assms(2) by (simp add: dead_ticks)
    then show ?thesis unfolding claimed(5)
      by (rule dead_justified_update) (simp add: start_processing_def outbox_status_defs)
  qed (use u(1) assms(2) in \<open>simp_all add: dead_ticks\<close>)
  with u(3) show ?thesis by (simp add: dead_ticks)
qed

lemma requeue_dead:
  assumes "RequeueStaleProcessing e t w = (r, w')" "dead_justified c ids w"
  shows "dead_justified c ids w'"
proof -
  have "dead_justified c ids (advance (advance w))" using assms(2) by (simp add: dead_ticks)
  then have "dead_justified c ids (update_outbox P (\<lambda>ev. ev\<lparr>ob_Status := OutboxStatusPending, ob_ProcessingAt := None,
      ob_NextRetryAt := Some s, ob_UpdatedAt := s\<rparr>) (advance (advance w)))" for P s
    by (rule dead_justified_update) (simp add: outbox_status_defs)
  with assms show ?thesis
    by (auto simp: RequeueStaleProcessing_def Now_def db_call_def split: option.splits)
qed

lemma dispatchOnce_dead_justified:
  assumes inv: "store_inv e w" and dead: "dead_justified (cfg d) ids w"
  shows "dead_justified (cfg d) ids (dispatchOnce e d w)"
proof -
  let ?w0 = "advance w" and ?t0 = "clock e (tick w) - ProcessingTimeout (cfg d)"
  obtain r1 w1 where 1: "RequeueStaleProcessing e ?t0 ?w0 = (r1, w1)" by fastforce
  obtain r3 w3 where 3: "FetchPendingForUpdate e (BatchSize (cfg d)) (clock e (tick w1)) (advance w1) = (r3, w3)"
    by fastforce
  have "evolves e w (advance w1)"
    by (rule evolves_trans [OF evolves_ticks_trans [OF only_ticks_advance RequeueStale_evolves [OF 1]] evolves_advance(1)])
  with inv have inv2: "store_inv e (advance w1)" by (simp add: evolves_def)
  have "dead_justified (cfg d) ids ?w0" using dead by (simp add: dead_ticks)
  then have "dead_justified (cfg d) ids (advance w1)" using requeue_dead [OF 1] by (simp add: dead_ticks)
  then have d3: "dead_justified (cfg d) ids w3" by (rule fetch_dead [OF 3])
  have "dead_justified (cfg d) ids (dispatch_items e (cfg d) items w3)" if "r3 = Inr items" for items
    by (rule dispatch_items_dead [OF d3]) (use FetchPending_attempts [OF 3 [unfolded that] inv2] in blast)
  with d3 1 3 show ?thesis by (simp add: dispatchOnce_def Now_def split: sum.split)
qed

end
