(* ===== verification/Chat_System.thy ===== *)
theory Chat_System
  imports Outbox_Dispatcher
begin

text \<open>
  The chat service as a whole: the step relation of its operations, timers and dispatcher, and what
  holds along every sequence of steps, whatever fails on the way.
\<close>

section \<open>Steps\<close>

text \<open>One call into the service, one timer, one round of the dispatcher, or the passage of time.\<close>

inductive chat_step :: "env \<Rightarrow> world \<Rightarrow> world \<Rightarrow> bool" for e where
  create_conversation: "CreateConversation e s i1 w = (r1, w') \<Longrightarrow> chat_step e w w'"
| get_conversation: "GetConversation e n w = (r2, w') \<Longrightarrow> chat_step e w w'"
| list_conversations: "ListConversations e i3 w = (r3, w') \<Longrightarrow> chat_step e w w'"
| create_message: "CreateMessage e s i4 w = (r4, w') \<Longrightarrow> chat_step e w w'"
| mark_read: "MarkMessagesRead e s i5 w = (r5, w') \<Longrightarrow> chat_step e w w'"
| list_messages: "ListMessages e n limit before w = (r6, w') \<Longrightarrow> chat_step e w w'"
| claim: "ClaimConversation e i7 w = (r7, w') \<Longrightarrow> chat_step e w w'"
| transfer: "TransferConversation e s i8 w = (r8, w') \<Longrightarrow> chat_step e w w'"
| confirm: "ConfirmTransferConversation e s i9 w = (r9, w') \<Longrightarrow> chat_step e w w'"
| reject: "RejectTransferConversation e s i9 w = (r9, w') \<Longrightarrow> chat_step e w w'"
| close: "CloseConversation e s i9 w = (r9, w') \<Longrightarrow> chat_step e w w'"
| sweep: "AutoCloseInactiveConversations e s duration w = (r10, w') \<Longrightarrow> chat_step e w w'"
| start_timers: "StartAutoCloseScheduler e s w = (r11, w') \<Longrightarrow> chat_step e w w'"
| stop_timers: "chat_step e w (StopAutoCloseScheduler s w)"
| timer: "chat_step e w (fire_timer e s n dueAt w)"
| dispatch: "chat_step e w (dispatchOnce e d w)"
| replay_dead: "ReplayDead e k d w = (r12, d', w') \<Longrightarrow> chat_step e w w'"
| delay: "only_ticks w w' \<Longrightarrow> chat_step e w w'"

lemma chat_step_evolves: "chat_step e w w' \<Longrightarrow> evolves e w w'"
  by (induction rule: chat_step.induct)
     (auto dest: CreateConversation_evolves CreateMessage_evolves MarkMessagesRead_evolves
        ClaimConversation_evolves TransferConversation_evolves ConfirmTransferConversation_evolves
        RejectTransferConversation_evolves CloseConversation_evolves AutoCloseInactiveConversations_evolves
        StartAutoCloseScheduler_evolves ReplayDead_evolves read_operations_evolve
      intro: evolves_only_ticks StopAutoCloseScheduler_evolves fire_timer_evolves dispatchOnce_evolves)

lemma chat_steps_evolve: "(chat_step e)\<^sup>*\<^sup>* w w' \<Longrightarrow> evolves e w w'"
  by (induction rule: rtranclp_induct) (auto dest: chat_step_evolves intro: evolves_trans)

text \<open>
  C1.  Every state the service can reach from the empty database, under any schedule of calls,
  timers, dispatcher rounds and failures, satisfies the invariant of the store: primary keys ascend
  below the counters, every conversation is well formed, a visitor of a site has at most one open
  conversation, client message ids are unique within a conversation, every message and event belongs
  to a conversation, and every event marked published is on the bus.
\<close>

theorem reachable_store_inv:
  "(chat_step e)\<^sup>*\<^sup>* empty_world w \<Longrightarrow> store_inv e w"
  using chat_steps_evolve [of e empty_world w] empty_world_inv [of e] by (simp add: evolves_def)

definition demo_env :: env where
  "demo_env = \<lparr>clock = (\<lambda>t. int t), db_fault = (\<lambda>_. None), bus_fault = (\<lambda>_. None),
         locked = (\<lambda>_ _. False), collate = ToLower\<rparr>"

definition demo_service :: chat_service where
  "demo_service = SetOutboxNotifier False (EnableEventOutbox False False (New False 1000))"

definition demo_create :: CreateConversationInput where
  "demo_create = \<lparr>cci_SiteID = ''site'', cci_VisitorToken = '' tok ''\<rparr>"

text \<open>A concrete run of the service: a conversation is created, claimed, and both sides speak.\<close>

definition demo_w1 :: world where
  "demo_w1 = snd (CreateConversation demo_env demo_service demo_create empty_world)"

theorem reachable_store_inv_witness: "store_inv demo_env demo_w1 \<and> length (conversations (db demo_w1)) = 1"
proof -
  have "(chat_step demo_env)\<^sup>*\<^sup>* empty_world demo_w1"
    unfolding demo_w1_def by (rule r_into_rtranclp, rule chat_step.create_conversation) (rule prod.collapse [symmetric])
  moreover have "length (conversations (db demo_w1)) = 1" by code_simp
  ultimately show ?thesis using reachable_store_inv [of demo_env demo_w1] by blast
qed

definition demo_claim :: ClaimConversationInput where
  "demo_claim = \<lparr>cli_ConversationID = 1, cli_AgentID = 7\<rparr>"

definition demo_w2 :: world where
  "demo_w2 = snd (ClaimConversation demo_env demo_claim demo_w1)"

definition demo_visitor_says :: CreateMessageInput where
  "demo_visitor_says =
     \<lparr>cmi_ConversationID = 1, cmi_SenderType = ''visitor'', cmi_SenderID = [], cmi_Content = ''hi'',
      cmi_ClientMsgID = ''c1'', cmi_VisitorToken = ''tok''\<rparr>"

definition demo_agent_says :: CreateMessageInput where
  "demo_agent_says =
     \<lparr>cmi_ConversationID = 1, cmi_SenderType = ''agent'', cmi_SenderID = ''7'', cmi_Content = ''hello'',
      cmi_ClientMsgID = ''c2'', cmi_VisitorToken = []\<rparr>"

definition demo_w3 :: world where
  "demo_w3 = snd (CreateMessage demo_env demo_service demo_visitor_says demo_w2)"

definition demo_w4 :: world where
  "demo_w4 = snd (CreateMessage demo_env demo_service demo_agent_says demo_w3)"

lemma demo_steps:
  "chat_step demo_env empty_world demo_w1" "chat_step demo_env demo_w1 demo_w2"
  "chat_step demo_env demo_w2 demo_w3" "chat_step demo_env demo_w3 demo_w4"
  unfolding demo_w1_def demo_w2_def demo_w3_def demo_w4_def
  by (metis prod.collapse chat_step.create_conversation, metis prod.collapse chat_step.claim,
      metis prod.collapse chat_step.create_message, metis prod.collapse chat_step.create_message)

lemma demo_inv:
  "store_inv demo_env demo_w1" "store_inv demo_env demo_w2" "store_inv demo_env demo_w3"
  "store_inv demo_env demo_w4"
proof -
  have "store_inv e w'" if "store_inv e w" "chat_step e w w'" for e w w'
    using chat_step_evolves [OF that(2)] that(1) by (simp add: evolves_def)
  note keep = this
  show 1: "store_inv demo_env demo_w1" by (rule keep [OF empty_world_inv demo_steps(1)])
  show 2: "store_inv demo_env demo_w2" by (rule keep [OF 1 demo_steps(2)])
  show 3: "store_inv demo_env demo_w3" by (rule keep [OF 2 demo_steps(3)])
  show "store_inv demo_env demo_w4" by (rule keep [OF 3 demo_steps(4)])
qed

lemma result_ok: "\<not> isl (fst p) \<Longrightarrow> \<exists>a. p = (Inr a, snd p)"
  by (cases p; cases "fst p") auto

section \<open>Messages are stored and announced atomically\<close>

lemma emitMessageCreated_outbox:
  assumes "emitMessageCreated e s m w = (Inr u, w')" "eventOutboxEnabled s" "msg_ConversationID m \<noteq> 0"
  shows "conversations (db w') = conversations (db w)" "messages (db w') = messages (db w)"
    "\<exists>ev. outbox (db w') = outbox (db w) @ [ev] \<and> ob_Payload ev = message_new (msg_ConversationID m) m
       \<and> ob_ConversationID ev = msg_ConversationID m \<and> ob_Status ev = OutboxStatusPending"
proof -
  have "TrimSpace ''message.new'' \<noteq> []" by code_simp
  then obtain row v where ev: "Create_event e \<lparr>ob_ID = 0, ob_ConversationID = msg_ConversationID m,
      ob_EventType = TrimSpace ''message.new'', ob_Payload = message_new (msg_ConversationID m) m,
      ob_Status = OutboxStatusPending, ob_Attempts = 0, ob_LastError = [],
      ob_ProcessingAt = None, ob_NextRetryAt = None, ob_PublishedAt = None,
      ob_CreatedAt = 0, ob_UpdatedAt = 0\<rparr> w = (Inr row, v)" "db w' = db v"
    using assms by (auto simp: emitMessageCreated_def enqueueOutboxEvent_def split: prod.splits sum.splits)
  from ev(1) have "conversations (db v) = conversations (db w) \<and> messages (db v) = messages (db w)
      \<and> outbox (db v) = outbox (db w) @ [row] \<and> ob_Payload row = message_new (msg_ConversationID m) m
       \<and> ob_ConversationID row = msg_ConversationID m \<and> ob_Status row = OutboxStatusPending"
    by (auto elim!: Create_event_cases)
  with ev(2) show "conversations (db w') = conversations (db w)" "messages (db w') = messages (db w)"
    "\<exists>ev. outbox (db w') = outbox (db w) @ [ev] \<and> ob_Payload ev = message_new (msg_ConversationID m) m
       \<and> ob_ConversationID ev = msg_ConversationID m \<and> ob_Status ev = OutboxStatusPending" by auto
qed

lemma GetByClientMsgID_ok:
  "GetByClientMsgID e i k w = (Inr m, w') \<Longrightarrow>
   m \<in> set (messages (db w)) \<and> client_key e m = (i, collate e k) \<and> only_ticks w w'"
  by (auto simp: GetByClientMsgID_def db_call_def client_key_def sql_eq_def order_asc_def
      split: option.splits dest!: first_row_Some)

lemma insert_message_cases:
  assumes "insert_message e s inp sid w = (Inr (m, created), w')"
  obtains (existing) "\<not> created" "only_ticks w w'" "m \<in> set (messages (db w))"
      "client_key e m = (cmi_ConversationID inp, collate e (cmi_ClientMsgID inp))"
  | (inserted) t v u where "created" "m = (new_message inp sid)\<lparr>msg_ID := message_seq w, msg_CreatedAt := t, msg_UpdatedAt := t\<rparr>"
      "client_key e m \<notin> client_key e ` set (messages (db w))"
      "by_id conv_ID (cmi_ConversationID inp) (conversations (db w)) \<noteq> None"
      "conversations (db v) = conversations (db w)" "messages (db v) = messages (db w) @ [m]"
      "outbox (db v) = outbox (db w)" "emitMessageCreated e s m v = (Inr u, w')"
proof -
  obtain r1 w1 where 1: "Create_message e (new_message inp sid) w = (r1, w1)" by fastforce
  then show ?thesis
  proof (cases rule: Create_message_cases)
    case (failed err)
    with assms 1 obtain w2 where w2: "GetByClientMsgID e (cmi_ConversationID inp) (cmi_ClientMsgID inp) w1 = (Inr m, w2)"
      "\<not> created" "w' = w2"
      by (auto simp: insert_message_def split: if_splits prod.splits sum.splits)
    from GetByClientMsgID_ok [OF w2(1)] failed(2) w2(2,3) show ?thesis
      by (intro existing) (auto intro: only_ticks_trans)
  next
    case (stored row v c t)
    with assms 1 obtain u where "m = row" created "emitMessageCreated e s row w1 = (Inr u, w')"
      by (auto simp: insert_message_def split: prod.splits sum.splits)
    with stored show ?thesis
      by (intro inserted [of t w1 u]) (simp_all add: new_message_def)
  qed
qed

text \<open>
  C2.  With the outbox on, \<open>CreateMessage\<close> is atomic under every schedule of database and bus
  failures: an error leaves the tables as they were; a success either returns the message already
  stored under the same client id and changes nothing, or stores exactly the returned message
  together with exactly one pending event that carries it.
\<close>

theorem CreateMessage_atomic:
  assumes "eventOutboxEnabled s" "store_inv e w" "CreateMessage e s inp w = (r, w')"
  shows "case r of
      Inl err \<Rightarrow> db w' = db w
    | Inr m \<Rightarrow>
        client_key e m = (cmi_ConversationID inp, collate e (cmi_ClientMsgID inp))
        \<and> (db w' = db w \<and> m \<in> set (messages (db w))
           \<or> (\<exists>ev. messages (db w') = messages (db w) @ [m] \<and> outbox (db w') = outbox (db w) @ [ev]
                 \<and> conversations (db w') = conversations (db w)
                 \<and> ob_Payload ev = message_new (cmi_ConversationID inp) m
                 \<and> ob_ConversationID ev = cmi_ConversationID inp \<and> ob_Status ev = OutboxStatusPending))"
proof (cases r)
  case (Inl err)
  with assms show ?thesis
    by (auto simp: CreateMessage_def split: if_splits prod.splits sum.splits dest: withEventTransaction_error)
next
  case (Inr m)
  with assms(3) obtain b v where "withEventTransaction e s (create_message_body e s inp) w = (Inr (m, b), v)" "db w' = db v"
    by (auto simp: CreateMessage_def split: if_splits prod.splits sum.splits)
  then obtain x y where x: "db x = db w" "create_message_body e s inp x = (Inr (m, b), y)" "db w' = db y"
    by (auto elim: withEventTransaction_ok)
  from x(2) show ?thesis
  proof (cases rule: create_message_body_cases)
    case read_only
    then obtain w1 where "only_ticks x w1"
      "GetByClientMsgID e (cmi_ConversationID inp) (cmi_ClientMsgID inp) w1 = (Inr m, y)" by blast
    with read_only(1) x Inr show ?thesis by (auto dest!: GetByClientMsgID_ok)
  next
    case (inserting c sid x2 err x1)
    have pos: "cmi_ConversationID inp \<noteq> 0"
      using assms(2) inserting(1) x(1)
      by (auto simp: store_inv_def conversations_inv_def keys_below_def dest!: by_id_Some)
    from inserting(7) show ?thesis
    proof (cases rule: insert_message_cases)
      case existing
      with inserting(4) x Inr show ?thesis by simp
    next
      case (inserted t z u)
      have id: "msg_ConversationID m = cmi_ConversationID inp" using inserted(2) by (simp add: new_message_def)
      note emit = emitMessageCreated_outbox [OF inserted(8) assms(1), unfolded id, OF pos]
      have "client_key e m = (cmi_ConversationID inp, collate e (cmi_ClientMsgID inp))"
        using inserted(2) by (simp add: client_key_def new_message_def)
      with emit inserted(5-7) inserting(4) x Inr show ?thesis by auto
    qed
  qed
qed

theorem CreateMessage_atomic_witness:
  "eventOutboxEnabled demo_service \<and> store_inv demo_env demo_w2
   \<and> (\<exists>ev m. messages (db demo_w3) = messages (db demo_w2) @ [m] \<and> outbox (db demo_w3) = outbox (db demo_w2) @ [ev])"
proof -
  obtain r where r: "CreateMessage demo_env demo_service demo_visitor_says demo_w2 = (r, demo_w3)"
    unfolding demo_w3_def by (metis prod.collapse)
  have on: "eventOutboxEnabled demo_service" by code_simp
  have "\<not> isl (fst (CreateMessage demo_env demo_service demo_visitor_says demo_w2))" by code_simp
  with r obtain m where m: "r = Inr m" by (cases r) auto
  have "length (messages (db demo_w3)) \<noteq> length (messages (db demo_w2))" by code_simp
  then have "db demo_w3 \<noteq> db demo_w2" by auto
  with CreateMessage_atomic [OF on demo_inv(2) r] m on demo_inv(2) show ?thesis by auto
qed

lemma create_message_ok:
  assumes "CreateMessage e s inp w = (Inr m, w')"
  obtains x y b where "db x = db w" "create_message_body e s inp x = (Inr (m, b), y)" "db w' = db y"
proof -
  from assms obtain b v where
    "withEventTransaction e s (create_message_body e s inp) w = (Inr (m, b), v)" "db w' = db v"
    by (auto simp: CreateMessage_def split: if_splits prod.splits sum.splits)
  with that show ?thesis by (auto elim: withEventTransaction_ok)
qed

text \<open>What a successful \<open>CreateMessage\<close> did, with the outbox on or off.\<close>

lemma CreateMessage_ok:
  assumes "CreateMessage e s inp w = (Inr m, w')"
  obtains c sid where "by_id conv_ID (cmi_ConversationID inp) (conversations (db w)) = Some c"
    "authorize_sender inp c = Inr sid" "conversations (db w') = conversations (db w)"
    "client_key e m = (cmi_ConversationID inp, collate e (cmi_ClientMsgID inp))"
    "messages (db w') = messages (db w) \<and> m \<in> set (messages (db w))
     \<or> messages (db w') = messages (db w) @ [m] \<and> client_key e m \<notin> client_key e ` set (messages (db w))
       \<and> msg_SenderType m = cmi_SenderType inp \<and> msg_SenderID m = sid \<and> msg_Content m = cmi_Content inp"
proof -
  from assms obtain x y b where x: "db x = db w" "create_message_body e s inp x = (Inr (m, b), y)" "db w' = db y"
    by (rule create_message_ok)
  from x(2) show ?thesis
  proof (cases rule: create_message_body_cases)
    case read_only
    then obtain c sid w1 where "by_id conv_ID (cmi_ConversationID inp) (conversations (db x)) = Some c"
      "authorize_sender inp c = Inr sid" "only_ticks x w1"
      "GetByClientMsgID e (cmi_ConversationID inp) (cmi_ClientMsgID inp) w1 = (Inr m, y)" by blast
    with read_only(1) x that [of c sid] show ?thesis by (auto dest!: GetByClientMsgID_ok)
  next
    case (inserting c sid x2 err x1)
    from inserting(7) show ?thesis
    proof (cases rule: insert_message_cases)
      case existing
      with inserting(1,2,4) x that [of c sid] show ?thesis by simp
    next
      case (inserted t z u)
      have "conversations (db y) = conversations (db x) \<and> messages (db y) = messages (db x) @ [m]"
        using emit_tables(1) [OF inserted(8)] inserted(5,6) inserting(4) by simp
      with inserted(2,3) inserting(1,2,4) x that [of c sid] show ?thesis
        by (simp add: client_key_def new_message_def)
    qed
  qed
qed

lemma same_message_key: "same_message m m' \<Longrightarrow> client_key e m' = client_key e m"
  by (simp add: same_message_def client_key_def)

lemma client_key_inj:
  "store_inv e w \<Longrightarrow> m \<in> set (messages (db w)) \<Longrightarrow> q \<in> set (messages (db w)) \<Longrightarrow>
   client_key e m = client_key e q \<Longrightarrow> m = q"
  by (auto simp: store_inv_def messages_inv_def distinct_map dest: inj_onD)

text \<open>
  C3.  Retrying is safe: when a message was created and the same request (or any other with the same
  conversation and client id) succeeds again, however many steps of the service later, it answers
  with the same message and stores nothing new.
\<close>

theorem CreateMessage_idempotent:
  assumes "store_inv e w" "CreateMessage e s inp w = (Inr m, w1)" "(chat_step e)\<^sup>*\<^sup>* w1 w2"
    and "CreateMessage e s' inp' w2 = (Inr m', w3)"
    and "cmi_ConversationID inp' = cmi_ConversationID inp" "cmi_ClientMsgID inp' = cmi_ClientMsgID inp"
  shows "same_message m m' \<and> messages (db w3) = messages (db w2)"
proof -
  have e1: "evolves e w w1" by (rule CreateMessage_evolves [OF assms(2)])
  have e2: "evolves e w1 w2" by (rule chat_steps_evolve [OF assms(3)])
  have inv: "store_inv e w1" "store_inv e w2" using assms(1) e1 e2 by (simp_all add: evolves_def)
  from assms(2) have m: "m \<in> set (messages (db w1))" "client_key e m = (cmi_ConversationID inp, collate e (cmi_ClientMsgID inp))"
    by (auto elim!: CreateMessage_ok)
  from e2 inv m(1) obtain q where q: "q \<in> set (messages (db w2))" "same_message m q"
    unfolding evolves_def db_grows_def msg_grows_def by blast
  from assms(4) show ?thesis
  proof (rule CreateMessage_ok)
    fix c sid assume key: "client_key e m' = (cmi_ConversationID inp', collate e (cmi_ClientMsgID inp'))"
      and out: "messages (db w3) = messages (db w2) \<and> m' \<in> set (messages (db w2)) \<or>
         messages (db w3) = messages (db w2) @ [m'] \<and> client_key e m' \<notin> client_key e ` set (messages (db w2)) \<and>
         msg_SenderType m' = cmi_SenderType inp' \<and> msg_SenderID m' = sid \<and> msg_Content m' = cmi_Content inp'"
    have k: "client_key e m' = client_key e q"
      using key m(2) same_message_key [OF q(2), of e] assms(5,6) by simp
    then have "client_key e m' \<in> client_key e ` set (messages (db w2))" using q(1) by simp
    with out have stored: "messages (db w3) = messages (db w2)" "m' \<in> set (messages (db w2))" by auto
    with client_key_inj [OF inv(2) _ q(1) k] q(2) show ?thesis by simp
  qed
qed

theorem CreateMessage_idempotent_witness:
  "\<exists>m m' w. CreateMessage demo_env demo_service demo_visitor_says demo_w2 = (Inr m, demo_w3)
    \<and> CreateMessage demo_env demo_service demo_visitor_says demo_w4 = (Inr m', w)
    \<and> same_message m m' \<and> messages (db w) = messages (db demo_w4)"
proof -
  have ok: "\<not> isl (fst (CreateMessage demo_env demo_service demo_visitor_says demo_w2))"
    "\<not> isl (fst (CreateMessage demo_env demo_service demo_visitor_says demo_w4))" by code_simp+
  obtain m m' w where run: "CreateMessage demo_env demo_service demo_visitor_says demo_w2 = (Inr m, demo_w3)"
    "CreateMessage demo_env demo_service demo_visitor_says demo_w4 = (Inr m', w)"
    using result_ok [OF ok(1)] result_ok [OF ok(2)] unfolding demo_w3_def by blast
  have "(chat_step demo_env)\<^sup>*\<^sup>* demo_w3 demo_w4" using demo_steps(4) by (rule r_into_rtranclp)
  from CreateMessage_idempotent [OF demo_inv(2) run(1) this run(2)] run show ?thesis by blast
qed

text \<open>
  C4.  Only the parties speak: a message newly stored for a visitor carries the token of the
  conversation, one stored for an agent carries the number of the assigned agent, and the
  conversation was open.
\<close>

theorem CreateMessage_authorized:
  assumes "store_inv e w" "CreateMessage e s inp w = (Inr m, w')" "messages (db w') \<noteq> messages (db w)"
  shows "\<exists>c. by_id conv_ID (cmi_ConversationID inp) (conversations (db w)) = Some c \<and> is_open c
    \<and> (msg_SenderType m = ''visitor'' \<longrightarrow> TrimSpace (cmi_VisitorToken inp) = conv_VisitorToken c)
    \<and> (msg_SenderType m = ''agent'' \<longrightarrow>
         (\<exists>a. conv_AssignedAgentID c = Some a \<and> a \<noteq> 0 \<and> ParseUint (msg_SenderID m) = Some a))
    \<and> msg_SenderType m \<in> {''visitor'', ''agent'', ''system'', ''ai''}
    \<and> TrimSpace (msg_Content m) \<noteq> [] \<and> RuneCountInString (msg_Content m) \<le> 2000"
proof -
  from assms(2,3) obtain c sid where c: "by_id conv_ID (cmi_ConversationID inp) (conversations (db w)) = Some c"
    "authorize_sender inp c = Inr sid" "msg_SenderType m = cmi_SenderType inp" "msg_SenderID m = sid"
    "msg_Content m = cmi_Content inp" by (auto elim!: CreateMessage_ok)
  have "conv_wf c" using assms(1) c(1) by (auto simp: store_inv_def conversations_inv_def dest: by_id_Some)
  with c(2) have "is_open c" by (auto simp: is_open_def conv_wf_def dest: authorize_sender_open)
  moreover have "valid_sender_type (cmi_SenderType inp)" "TrimSpace (cmi_Content inp) \<noteq> []"
    "RuneCountInString (cmi_Content inp) \<le> 2000"
    using assms(2) by (auto simp: CreateMessage_def MaxMessageContentChars_def split: if_splits)
  ultimately show ?thesis
    using c by (auto simp: authorize_sender_def valid_sender_type_def split: if_splits option.splits)
qed

theorem CreateMessage_authorized_witness:
  "\<exists>m c. CreateMessage demo_env demo_service demo_agent_says demo_w3 = (Inr m, demo_w4)
    \<and> by_id conv_ID 1 (conversations (db demo_w3)) = Some c \<and> is_open c
    \<and> (\<exists>a. conv_AssignedAgentID c = Some a \<and> a \<noteq> 0 \<and> ParseUint (msg_SenderID m) = Some a)"
proof -
  have ok: "\<not> isl (fst (CreateMessage demo_env demo_service demo_agent_says demo_w3))" by code_simp
  obtain m where run: "CreateMessage demo_env demo_service demo_agent_says demo_w3 = (Inr m, demo_w4)"
    using result_ok [OF ok] unfolding demo_w4_def by blast
  have "length (messages (db demo_w4)) \<noteq> length (messages (db demo_w3))"
    "msg_SenderType (projr (fst (CreateMessage demo_env demo_service demo_agent_says demo_w3))) = ''agent''"
    "cmi_ConversationID demo_agent_says = 1" by code_simp+
  with run CreateMessage_authorized [OF demo_inv(3) run] show ?thesis by fastforce
qed

section \<open>The life cycle of a conversation\<close>

lemma chat_steps_inv: "store_inv e w \<Longrightarrow> (chat_step e)\<^sup>*\<^sup>* w w' \<Longrightarrow> store_inv e w'"
  using chat_steps_evolve [of e w w'] by (simp add: evolves_def)

lemma store_by_id: "store_inv e w \<Longrightarrow> c \<in> set (conversations (db w)) \<Longrightarrow> by_id conv_ID (conv_ID c) (conversations (db w)) = Some c"
  by (auto simp: store_inv_def conversations_inv_def intro: by_id_eq)

lemma row_follows:
  assumes "store_inv e w" "(chat_step e)\<^sup>*\<^sup>* w w'" "by_id conv_ID i (conversations (db w)) = Some c"
  shows "\<exists>c'. by_id conv_ID i (conversations (db w')) = Some c' \<and> same_identity c c'
    \<and> phase_step\<^sup>*\<^sup>* (phase_of c) (phase_of c') \<and> conv_wf c'"
proof -
  have inv: "store_inv e w'" by (rule chat_steps_inv [OF assms(1,2)])
  from assms chat_steps_evolve [OF assms(2)] obtain c' where c': "c' \<in> set (conversations (db w'))"
    "same_identity c c'" "phase_step\<^sup>*\<^sup>* (phase_of c) (phase_of c')"
    unfolding evolves_def db_grows_def conv_grows_def by (blast dest: by_id_Some)
  moreover have "conv_ID c' = i" using c'(2) assms(3) by (auto simp: same_identity_def dest: by_id_Some)
  moreover have "conv_wf c'" using inv c'(1) by (simp add: store_inv_def conversations_inv_def)
  ultimately show ?thesis using store_by_id [OF inv c'(1)] by auto
qed

text \<open>
  C5.  The concrete conversations refine the abstract machine of the documentation: along every
  sequence of steps a conversation keeps its number, site, visitor and creation time, and its phase
  (unassigned, assigned, transfer pending, closed) moves only by claim, transfer, confirm, reject
  and close.
\<close>

theorem conversation_refines_machine:
  assumes "store_inv e w" "(chat_step e)\<^sup>*\<^sup>* w w'" "by_id conv_ID i (conversations (db w)) = Some c"
  shows "\<exists>c'. by_id conv_ID i (conversations (db w')) = Some c' \<and> same_identity c c'
    \<and> phase_step\<^sup>*\<^sup>* (phase_of c) (phase_of c') \<and> conv_wf c'"
  using assms by (rule row_follows)

theorem conversation_refines_machine_witness:
  "\<exists>c c'. by_id conv_ID 1 (conversations (db demo_w1)) = Some c
    \<and> by_id conv_ID 1 (conversations (db demo_w2)) = Some c' \<and> same_identity c c'
    \<and> phase_of c = OpenUnassigned \<and> phase_step\<^sup>*\<^sup>* OpenUnassigned (phase_of c')"
proof -
  have p: "map_option phase_of (by_id conv_ID 1 (conversations (db demo_w1))) = Some OpenUnassigned" by code_simp
  then obtain c where c: "by_id conv_ID 1 (conversations (db demo_w1)) = Some c" "phase_of c = OpenUnassigned" by auto
  have "(chat_step demo_env)\<^sup>*\<^sup>* demo_w1 demo_w2" using demo_steps(2) by (rule r_into_rtranclp)
  from conversation_refines_machine [OF demo_inv(1) this c(1)] c show ?thesis by auto
qed

text \<open>
  C9.  Closing is final: whatever the service does later, a closed conversation keeps its row
  unchanged and receives no message.
\<close>

theorem closed_conversation_frozen:
  assumes "store_inv e w" "(chat_step e)\<^sup>*\<^sup>* w w'" "by_id conv_ID i (conversations (db w)) = Some c" "\<not> is_open c"
  shows "by_id conv_ID i (conversations (db w')) = Some c
    \<and> {msg_ID m | m. m \<in> set (messages (db w')) \<and> msg_ConversationID m = i}
      = {msg_ID m | m. m \<in> set (messages (db w)) \<and> msg_ConversationID m = i}"
proof -
  have inv: "store_inv e w'" by (rule chat_steps_inv [OF assms(1,2)])
  have c: "c \<in> set (conversations (db w))" "conv_ID c = i" using assms(3) by (auto dest: by_id_Some)
  have g: "db_grows (db w) (db w')" using chat_steps_evolve [OF assms(2)] assms(1) by (simp add: evolves_def)
  then have "c \<in> set (conversations (db w'))"
    using c(1) assms(4) unfolding db_grows_def conv_grows_def by metis
  from store_by_id [OF inv this] c(2) have "by_id conv_ID i (conversations (db w')) = Some c" by simp
  moreover have "i \<in> closed_ids (db w)" using c assms(4) by (auto simp: closed_ids_def)
  then have "\<exists>m \<in> set (messages (db w)). msg_ID m = msg_ID m' \<and> msg_ConversationID m = i"
    if "m' \<in> set (messages (db w'))" "msg_ConversationID m' = i" for m'
    using g that unfolding db_grows_def closed_quiet_def by metis
  moreover have "\<exists>m' \<in> set (messages (db w')). msg_ID m' = msg_ID m \<and> msg_ConversationID m' = i"
    if "m \<in> set (messages (db w))" "msg_ConversationID m = i" for m
    using g that unfolding db_grows_def msg_grows_def same_message_def by metis
  ultimately show ?thesis by (auto, metis+)
qed

definition demo_close :: ActorInput where
  "demo_close = \<lparr>act_ConversationID = 1, act_ActorAgentID = 7, act_ActorRole = '' Agent ''\<rparr>"

definition demo_closed :: world where
  "demo_closed = snd (CloseConversation demo_env demo_service demo_close demo_w2)"

lemma demo_closed_inv: "store_inv demo_env demo_closed"
  by (rule chat_steps_inv [OF demo_inv(2) r_into_rtranclp])
     (auto simp: demo_closed_def intro!: chat_step.close surjective_pairing)

theorem closed_conversation_frozen_witness:
  "\<exists>c. by_id conv_ID 1 (conversations (db demo_closed)) = Some c \<and> \<not> is_open c
    \<and> by_id conv_ID 1 (conversations (db (snd (CreateMessage demo_env demo_service demo_visitor_says demo_closed)))) = Some c"
proof -
  have "map_option is_open (by_id conv_ID 1 (conversations (db demo_closed))) = Some False" by code_simp
  then obtain c where c: "by_id conv_ID 1 (conversations (db demo_closed)) = Some c" "\<not> is_open c" by auto
  have "(chat_step demo_env)\<^sup>*\<^sup>* demo_closed (snd (CreateMessage demo_env demo_service demo_visitor_says demo_closed))"
    by (rule r_into_rtranclp) (auto intro!: chat_step.create_message surjective_pairing)
  from closed_conversation_frozen [OF demo_closed_inv this c] c show ?thesis by blast
qed

end
