(* ===== verification/Chat_Behaviour.thy ===== *)
theory Chat_Behaviour
  imports Chat_System
begin

text \<open>
  What the single operations of the chat service do: opening a conversation, reading marks,
  pagination, transfers.  The theorems are about the calls that succeed, in any environment, and
  about the answers a call must give when nothing fails.
\<close>

section \<open>Opening a conversation\<close>

lemma CreateConversation_ok:
  assumes "CreateConversation e s inp w = (Inr c, w')"
  shows "visitor_key e c = (collate e (TrimSpace (cci_SiteID inp)), collate e (TrimSpace (cci_VisitorToken inp)))
    \<and> is_open c
    \<and> (db w' = db w \<and> c \<in> set (conversations (db w))
       \<or> conversations (db w') = conversations (db w) @ [c] \<and> messages (db w') = messages (db w)
         \<and> conv_SiteID c = TrimSpace (cci_SiteID inp) \<and> conv_VisitorToken c = TrimSpace (cci_VisitorToken inp)
         \<and> phase_of c = OpenUnassigned
         \<and> visitor_key e c \<notin> visitor_key e ` set (filter is_open (conversations (db w))))"
proof -
  let ?site = "TrimSpace (cci_SiteID inp)" and ?tok = "TrimSpace (cci_VisitorToken inp)"
  let ?P = "\<lambda>c. sql_eq e (conv_SiteID c) ?site \<and> sql_eq e (conv_VisitorToken c) ?tok \<and> conv_Status c = ''open''"
  obtain b w1 where 1: "acquire_create_lock s (buildConversationCreateLockKey ?site ?tok) w = (b, w1)"
    by fastforce
  then have d1: "db w1 = db w" by (auto simp: acquire_create_lock_def split: option.splits)
  obtain r2 w2 where 2: "GetLatestOpenBySiteVisitor e ?site ?tok w1 = (r2, w2)" by fastforce
  then have d2: "db w2 = db w" using d1 by (auto dest: repository_reads)
  show ?thesis
  proof (cases r2)
    case (Inr c')
    with assms 1 2 have "c' = c" "w' = w2"
      by (auto simp: CreateConversation_def Let_def split: if_splits option.splits)
    moreover have "c' \<in> set (conversations (db w)) \<and> ?P c'"
      using 2 Inr d1 by (auto simp: GetLatestOpenBySiteVisitor_def db_call_def split: option.splits dest!: first_row_Some)
    ultimately show ?thesis using d2 by (auto simp: visitor_key_def sql_eq_def is_open_def)
  next
    case (Inl err)
    let ?c = "\<lparr>conv_ID = 0, conv_SiteID = ?site, conv_VisitorToken = ?tok,
       conv_Status = ''open'', conv_AssignedAgentID = None,
       conv_PendingTransferToAgentID = None, conv_PendingTransferFromAgentID = None,
       conv_PendingTransferRequestedAt = None, conv_CreatedAt = 0, conv_UpdatedAt = 0,
       conv_ClosedAt = None, conv_ClosedByAgentID = None\<rparr>"
    from assms 1 2 Inl have nf: "errors_Is err RepoNotFound" and "Create_conversation e ?c w2 = (Inr c, w')"
      by (auto simp: CreateConversation_def Let_def split: if_splits option.splits)
    then obtain t where c: "c = ?c\<lparr>conv_ID := conversation_seq w2, conv_CreatedAt := t, conv_UpdatedAt := t\<rparr>"
      "conversations (db w') = conversations (db w2) @ [c]" "messages (db w') = messages (db w2)"
      by (auto simp: Create_conversation_def db_call_def Now_def Let_def split: option.splits)
    have "filter ?P (conversations (db w)) = []"
      using 2 Inl nf d1
      by (auto simp: GetLatestOpenBySiteVisitor_def db_call_def split: option.splits)
    then have "visitor_key e c \<notin> visitor_key e ` set (filter is_open (conversations (db w)))"
      using c(1) by (auto simp: visitor_key_def is_open_def sql_eq_def filter_empty_conv)
    with c d2 show ?thesis by (auto simp: visitor_key_def is_open_def phase_of_def)
  qed
qed

lemma open_key_unique:
  assumes "store_inv e w" "c \<in> set (conversations (db w))" "c' \<in> set (conversations (db w))"
    "is_open c" "is_open c'" "visitor_key e c = visitor_key e c'"
  shows "c = c'"
proof -
  have "distinct (map (visitor_key e) (filter is_open (conversations (db w))))"
    using assms(1) by (simp add: store_inv_def conversations_inv_def)
  then show ?thesis using assms by (auto simp: distinct_map dest: inj_onD)
qed

text \<open>
  C10.  A visitor of a site has one open conversation: \<open>CreateConversation\<close> either stores one new,
  unassigned row for the trimmed site and token, or returns the row that is already open under the
  same collation key and changes nothing; and as long as that conversation stays open, every later
  call of the same visitor returns it again.
\<close>

theorem CreateConversation_reuses:
  assumes "store_inv e w" "CreateConversation e s inp w = (Inr c, w1)"
  shows "is_open c \<and> c \<in> set (conversations (db w1))
    \<and> (conversations (db w1) = conversations (db w) \<or> conversations (db w1) = conversations (db w) @ [c])
    \<and> (\<forall>w2 c2 s' c' w3. (chat_step e)\<^sup>*\<^sup>* w1 w2 \<longrightarrow>
         by_id conv_ID (conv_ID c) (conversations (db w2)) = Some c2 \<longrightarrow> is_open c2 \<longrightarrow>
         CreateConversation e s' inp w2 = (Inr c', w3) \<longrightarrow> c' = c2 \<and> db w3 = db w2)"
proof -
  note ok = CreateConversation_ok [OF assms(2)]
  then have mem: "c \<in> set (conversations (db w1))" "is_open c" by auto
  have later: "c' = c2 \<and> db w3 = db w2" if steps: "(chat_step e)\<^sup>*\<^sup>* w1 w2"
    and row: "by_id conv_ID (conv_ID c) (conversations (db w2)) = Some c2" "is_open c2"
    and run: "CreateConversation e s' inp w2 = (Inr c', w3)" for w2 c2 s' c' w3
  proof -
    have inv1: "store_inv e w1" using CreateConversation_evolves [OF assms(2)] assms(1) by (simp add: evolves_def)
    then have inv2: "store_inv e w2" using steps by (rule chat_steps_inv)
    have "by_id conv_ID (conv_ID c) (conversations (db w1)) = Some c" by (rule store_by_id [OF inv1 mem(1)])
    from row_follows [OF inv1 steps this] row have "same_identity c c2" by auto
    then have key: "visitor_key e c2 = visitor_key e c" by (simp add: visitor_key_def same_identity_def)
    have c2: "c2 \<in> set (conversations (db w2))" using row(1) by (auto dest: by_id_Some)
    note ok2 = CreateConversation_ok [OF run]
    have k: "visitor_key e c' = visitor_key e c2" using ok ok2 key by simp
    with c2 row(2) have "visitor_key e c' \<in> visitor_key e ` set (filter is_open (conversations (db w2)))" by auto
    with ok2 have "db w3 = db w2" "c' \<in> set (conversations (db w2))" "is_open c'" by auto
    with open_key_unique [OF inv2 _ c2 _ row(2) k] show ?thesis by simp
  qed
  have rows: "conversations (db w1) = conversations (db w) \<or> conversations (db w1) = conversations (db w) @ [c]"
    using ok by auto
  show ?thesis
    by (intro conjI mem rows allI impI; elim later [THEN conjunct1] later [THEN conjunct2])
qed

theorem CreateConversation_reuses_witness:
  "\<exists>c c2 c' w3. CreateConversation demo_env demo_service demo_create empty_world = (Inr c, demo_w1)
    \<and> by_id conv_ID (conv_ID c) (conversations (db demo_w2)) = Some c2
    \<and> CreateConversation demo_env demo_service demo_create demo_w2 = (Inr c', w3)
    \<and> c' = c2 \<and> db w3 = db demo_w2"
proof -
  have ok: "\<not> isl (fst (CreateConversation demo_env demo_service demo_create empty_world))"
    "\<not> isl (fst (CreateConversation demo_env demo_service demo_create demo_w2))" by code_simp+
  obtain c c' w3 where run: "CreateConversation demo_env demo_service demo_create empty_world = (Inr c, demo_w1)"
    "CreateConversation demo_env demo_service demo_create demo_w2 = (Inr c', w3)"
    using result_ok [OF ok(1)] result_ok [OF ok(2)] unfolding demo_w1_def by blast
  have "conv_ID (projr (fst (CreateConversation demo_env demo_service demo_create empty_world))) = 1"
    "map_option is_open (by_id conv_ID 1 (conversations (db demo_w2))) = Some True" by code_simp+
  with run(1) obtain c2 where c2: "by_id conv_ID (conv_ID c) (conversations (db demo_w2)) = Some c2" "is_open c2" by auto
  have "(chat_step demo_env)\<^sup>*\<^sup>* demo_w1 demo_w2" using demo_steps(2) by (rule r_into_rtranclp)
  with CreateConversation_reuses [OF empty_world_inv run(1)] c2 run show ?thesis by blast
qed

section \<open>Reading marks\<close>











section \<open>Pagination\<close>

lemma filter_below_nth:
  fixes key :: "'r \<Rightarrow> nat"
  shows "sorted_wrt (\<lambda>a b. key b < key a) xs \<Longrightarrow> m < length xs \<Longrightarrow>
    filter (\<lambda>x. key x < key (xs ! m)) xs = drop (Suc m) xs"
proof (induction xs arbitrary: m)
  case (Cons x xs)
  show ?case
  proof (cases m)
    case 0
    with Cons.prems show ?thesis by (auto simp: filter_id_conv)
  next
    case (Suc k)
    with Cons.prems have "xs ! k \<in> set xs" by simp
    with Cons.prems(1) have "\<not> key x < key (xs ! k)" by auto
    with Cons Suc show ?thesis by simp
  qed
qed simp

definition page_source :: "world \<Rightarrow> uint64 \<Rightarrow> uint64 \<Rightarrow> message list" where
  "page_source w i before =
     rev (filter (\<lambda>m. msg_ConversationID m = i \<and> (before > 0 \<longrightarrow> msg_ID m < before)) (messages (db w)))"

lemma ListMessages_ok:
  assumes "store_inv e w" "ListMessages e i limit before w = (Inr page, w')"
  shows "page = take limit (page_source w i before)" "db w' = db w"
proof -
  have k: "keys_below msg_ID (message_seq w) (messages (db w))"
    using assms(1) by (simp add: store_inv_def messages_inv_def)
  obtain r1 w1 where 1: "GetConversation e i w = (r1, w1)" by fastforce
  then have d1: "db w1 = db w" by (auto dest: read_operations_evolve)
  from assms(2) 1 have 2: "ListByConversation e i limit before w1 = (Inr page, w')"
    by (auto simp: ListMessages_def split: sum.splits)
  then show "page = take limit (page_source w i before)"
    by (auto simp: ListByConversation_def db_call_def d1 order_desc_def sort_key_ascending [OF k] page_source_def
        split: option.splits)
  from assms(2) show "db w' = db w" by (auto dest: read_operations_evolve)
qed

lemma page_source_descending:
  assumes "store_inv e w"
  shows "sorted_wrt (\<lambda>a b. msg_ID b < msg_ID a) (page_source w i before)"
proof -
  have "sorted_wrt (\<lambda>a b. msg_ID a < msg_ID b) (messages (db w))"
    using assms by (simp add: store_inv_def messages_inv_def keys_below_def)
  then show ?thesis unfolding page_source_def sorted_wrt_rev by (rule sorted_wrt_filter)
qed

text \<open>
  C12.  Paging backwards through a conversation misses and repeats nothing: a page is a descending run
  of the messages below the cursor, and the page asked for with the number of its last message as
  cursor continues exactly where it ended.
\<close>

theorem ListMessages_pages:
  assumes "store_inv e w" "ListMessages e i n before w = (Inr p1, w1)" "p1 \<noteq> []"
    and "ListMessages e i n' (msg_ID (last p1)) w1 = (Inr p2, w2)"
  shows "p1 @ p2 = take (length p1 + n') (page_source w i before)
    \<and> sorted_wrt (\<lambda>a b. msg_ID b < msg_ID a) (p1 @ p2)"
proof -
  let ?L = "page_source w i before"
  note p1 = ListMessages_ok [OF assms(1,2)]
  have inv1: "store_inv e w1"
    using assms(2) by (auto simp: assms(1) dest!: read_operations_evolve(3))
  note p2 = ListMessages_ok [OF inv1 assms(4)]
  define k where "k = length p1 - 1"
  have k: "k < length ?L" "Suc k = length p1" "p1 = take (Suc k) ?L"
    using p1(1) assms(3) by (auto simp: k_def Suc_le_eq not_le min_def)
  then have last: "last p1 = ?L ! k" using assms(3) by (simp add: last_conv_nth)
  then have "last p1 \<in> set ?L" using k(1) by simp
  then have pos: "msg_ID (last p1) > 0" and below: "before > 0 \<longrightarrow> msg_ID (last p1) < before"
    using assms(1) by (auto simp: page_source_def store_inv_def messages_inv_def keys_below_def)
  have "page_source w1 i (msg_ID (last p1)) = filter (\<lambda>m. msg_ID m < msg_ID (last p1)) ?L"
    using p1(2) pos below by (auto simp: page_source_def rev_filter intro!: filter_cong)
  also have "\<dots> = drop (Suc k) ?L"
    unfolding last by (rule filter_below_nth [OF page_source_descending [OF assms(1)] k(1)])
  finally have "p2 = take n' (drop (length p1) ?L)" using p2(1) k(2) by simp
  then have "p1 @ p2 = take (length p1 + n') ?L" using k by (metis take_add)
  then show ?thesis using page_source_descending [OF assms(1), of i before] by (metis sorted_wrt_take)
qed

theorem ListMessages_pages_witness:
  "\<exists>p1 p2 wa wb. ListMessages demo_env 1 1 0 demo_w4 = (Inr p1, wa) \<and> p1 \<noteq> []
    \<and> ListMessages demo_env 1 5 (msg_ID (last p1)) wa = (Inr p2, wb)
    \<and> p1 @ p2 = take (length p1 + 5) (page_source demo_w4 1 0)"
proof -
  have ok: "\<not> isl (fst (ListMessages demo_env 1 1 0 demo_w4))"
    "projr (fst (ListMessages demo_env 1 1 0 demo_w4)) \<noteq> []"
    "\<not> isl (fst (ListMessages demo_env 1 5 (msg_ID (last (projr (fst (ListMessages demo_env 1 1 0 demo_w4)))))
       (snd (ListMessages demo_env 1 1 0 demo_w4))))" by code_simp+
  from result_ok [OF ok(1)] obtain p1 wa where 1: "ListMessages demo_env 1 1 0 demo_w4 = (Inr p1, wa)" by blast
  with ok(2,3) have "p1 \<noteq> []" "\<not> isl (fst (ListMessages demo_env 1 5 (msg_ID (last p1)) wa))" by simp_all
  with result_ok obtain p2 wb where 2: "ListMessages demo_env 1 5 (msg_ID (last p1)) wa = (Inr p2, wb)" by blast
  from ListMessages_pages [OF demo_inv(4) 1 \<open>p1 \<noteq> []\<close> 2] 1 2 \<open>p1 \<noteq> []\<close> show ?thesis by blast
qed

section \<open>Claim and transfer\<close>

lemma publishSystemMessage_conversations:
  assumes "publishSystemMessage e s i content w = (r, w')"
  shows "conversations (db w') = conversations (db w)"
proof -
  have store: "conversations (db v') = conversations (db v)" if "Create_message e m v = (q, v')" for m v q v'
    using that by (auto elim!: Create_message_cases)
  show ?thesis
    using assms
    by (auto simp: publishSystemMessage_def Now_def split: if_splits prod.splits sum.splits
        dest!: store emit_tables(1))
qed

text \<open>What a successful row operation did to the row.\<close>

context row_mutation
begin

lemma mutateInDB_ok:
  assumes "mutateInDB e i m w = (Inr (c', ch, a), w')"
  obtains c c0 v u t where "by_id conv_ID i (conversations (db w)) = Some c" "db v = db w"
    "m c v = (Inr (c0, ch, a), u)" "by_id conv_ID i (conversations (db w')) = Some c'"
    "c' = (if ch then c0\<lparr>conv_UpdatedAt := t\<rparr> else c)" "\<not> ch \<Longrightarrow> c0 = c \<and> db w' = db w"
  using assms
proof (cases rule: mutateInDB_cases)
  case (kept c b w1)
  with that [of c w1 c w' 0] show ?thesis by simp
next
  case (saved c c0 b w1 w2 w3 t)
  have "ch = True" "a = b" "c' = c0\<lparr>conv_UpdatedAt := t\<rparr>" using saved(4) by simp_all
  with mutateInDB_changed assms have "by_id conv_ID i (conversations (db w')) = Some c'" by blast
  with saved \<open>ch = True\<close> \<open>a = b\<close> that [of c w1 c0 w2 t] show ?thesis by simp
qed simp

lemma Mutate_ok:
  assumes "Mutate e inTx i m w = (Inr (c', ch, a), w')"
  obtains c c0 v u t where "by_id conv_ID i (conversations (db w)) = Some c" "db v = db w"
    "m c v = (Inr (c0, ch, a), u)" "by_id conv_ID i (conversations (db w')) = Some c'"
    "c' = (if ch then c0\<lparr>conv_UpdatedAt := t\<rparr> else c)" "\<not> ch \<Longrightarrow> c0 = c \<and> db w' = db w"
proof (cases inTx)
  case True
  with assms have "mutateInDB e i m w = (Inr (c', ch, a), w')" by (simp add: Mutate_def)
  then show ?thesis by (rule mutateInDB_ok) (rule that)
next
  case False
  with assms have "in_transaction e (mutateInDB e i m) w = (Inr (c', ch, a), w')" by (simp add: Mutate_def)
  then obtain x y where "only_ticks w x" and run: "mutateInDB e i m x = (Inr (c', ch, a), y)" and "only_ticks y w'"
    by (rule in_transaction_ok)
  then have [simp]: "db x = db w" "db w' = db y" by simp_all
  from run show ?thesis by (rule mutateInDB_ok) (rule that, simp_all)
qed

lemma mutate_and_emit_ok:
  assumes run: "mutate_and_emit e s i m after w = (Inr c', w')"
    and frame: "\<And>c a v r v'. after c a v = (r, v') \<Longrightarrow> conversations (db v') = conversations (db v)"
  obtains c c0 ch a v u t where "by_id conv_ID i (conversations (db w)) = Some c"
    "m c v = (Inr (c0, ch, a), u)" "by_id conv_ID i (conversations (db w')) = Some c'"
    "c' = (if ch then c0\<lparr>conv_UpdatedAt := t\<rparr> else c)" "\<not> ch \<Longrightarrow> c0 = c"
proof -
  from run obtain ch a w1 where 1: "Mutate e (eventOutboxEnabled s) i m w = (Inr (c', ch, a), w1)"
    and 2: "w' = w1 \<or> (\<exists>r. after c' a w1 = (r, w'))"
    by (auto simp: mutate_and_emit_def split: prod.splits sum.splits if_splits)
  have "conversations (db w') = conversations (db w1)" using 2 frame by auto
  with 1 that show ?thesis by (elim Mutate_ok) (metis (full_types))
qed

end

lemma timed_ok: "timed e f c v = (Inr x, u) \<Longrightarrow> \<exists>now. f now c = Inr x"
  by (auto simp: timed_def split: prod.splits)

text \<open>A row operation of the service, reduced to its closure on the stored row.\<close>

definition row_change ::
  "(time \<Rightarrow> conversation \<Rightarrow> cerr + conversation \<times> bool \<times> 'a) \<Rightarrow> uint64 \<Rightarrow> world \<Rightarrow> conversation \<Rightarrow> world \<Rightarrow> bool" where
  "row_change f i w c' w' \<longleftrightarrow>
     (\<exists>c c0 ch a t now. by_id conv_ID i (conversations (db w)) = Some c \<and> f now c = Inr (c0, ch, a)
        \<and> by_id conv_ID i (conversations (db w')) = Some c'
        \<and> c' = (if ch then c0\<lparr>conv_UpdatedAt := t\<rparr> else c) \<and> (\<not> ch \<longrightarrow> c0 = c))"

lemma row_changeI:
  assumes "by_id conv_ID i (conversations (db w)) = Some c" "timed e f c v = (Inr (c0, ch, a), u)"
    "by_id conv_ID i (conversations (db w')) = Some c'"
    "c' = (if ch then c0\<lparr>conv_UpdatedAt := t\<rparr> else c)" "\<not> ch \<Longrightarrow> c0 = c"
  shows "row_change f i w c' w'"
  using assms timed_ok [OF assms(2)] unfolding row_change_def by metis

lemma row_changeE:
  assumes "row_change f i w c' w'" "by_id conv_ID i (conversations (db w)) = Some c"
  obtains c0 ch a t now where "f now c = Inr (c0, ch, a)"
    "by_id conv_ID i (conversations (db w')) = Some c'" "c' = (if ch then c0\<lparr>conv_UpdatedAt := t\<rparr> else c)"
proof -
  from assms(1) obtain d c0 ch a t now where x: "by_id conv_ID i (conversations (db w)) = Some d"
    "f now d = Inr (c0, ch, a)" "by_id conv_ID i (conversations (db w')) = Some c'"
    "c' = (if ch then c0\<lparr>conv_UpdatedAt := t\<rparr> else d)" unfolding row_change_def by blast
  moreover have "d = c" using x(1) assms(2) by simp
  ultimately show ?thesis by (intro that [of now c0 ch a t]) simp_all
qed

context timed_mutation
begin

lemma service_row_change:
  assumes run: "withEventTransaction e s (mutate_and_emit e s i (timed e f) after) w = (Inr c', w')"
    and frame: "\<And>c a v r v'. after c a v = (r, v') \<Longrightarrow> conversations (db v') = conversations (db v)"
  shows "row_change f i w c' w'"
proof -
  from run obtain x y where x: "db x = db w" "mutate_and_emit e s i (timed e f) after x = (Inr c', y)" "db w' = db y"
    by (auto elim: withEventTransaction_ok)
  from x(2) show ?thesis
  proof (rule mutate_and_emit_ok)
    fix c a v r v' assume "after c a v = (r, v')"
    then show "conversations (db v') = conversations (db v)" by (rule frame)
  next
    fix c c0 ch a v u t
    assume "by_id conv_ID i (conversations (db x)) = Some c" "timed e f c v = (Inr (c0, ch, a), u)"
      "by_id conv_ID i (conversations (db y)) = Some c'" "c' = (if ch then c0\<lparr>conv_UpdatedAt := t\<rparr> else c)"
      "\<not> ch \<Longrightarrow> c0 = c"
    then show ?thesis unfolding x(1) x(3) [symmetric] by (rule row_changeI)
  qed
qed

end

lemma transfer_message_conversations:
  "publishTransferSystemMessage e s i before after b v = (r, v') \<Longrightarrow> conversations (db v') = conversations (db v)"
  by (auto simp: publishTransferSystemMessage_def dest: publishSystemMessage_conversations)

lemma Transfer_row:
  "TransferConversation e s inp w = (Inr c', w') \<Longrightarrow>
   \<exists>role. normalizeActorRole (act_ActorRole inp) = Inr role \<and> tci_ToAgentID inp \<noteq> 0
     \<and> row_change (transfer_mutation role (act_ActorAgentID inp) (tci_ToAgentID inp)) (act_ConversationID inp) w c' w'"
  by (auto simp: TransferConversation_def split: if_splits sum.splits
      intro!: transfer.service_row_change dest: transfer_message_conversations)

lemma Confirm_row:
  "ConfirmTransferConversation e s inp w = (Inr c', w') \<Longrightarrow>
   \<exists>role. normalizeActorRole (act_ActorRole inp) = Inr role
     \<and> row_change (confirm_mutation role (act_ActorAgentID inp)) (act_ConversationID inp) w c' w'"
  by (auto simp: ConfirmTransferConversation_def split: if_splits sum.splits
      intro!: confirm.service_row_change dest: transfer_message_conversations)

lemma Reject_row:
  "RejectTransferConversation e s inp w = (Inr c', w') \<Longrightarrow>
   \<exists>role. normalizeActorRole (act_ActorRole inp) = Inr role
     \<and> row_change (reject_mutation role (act_ActorAgentID inp)) (act_ConversationID inp) w c' w'"
  by (auto simp: RejectTransferConversation_def split: if_splits sum.splits
      intro!: reject.service_row_change dest: publishSystemMessage_conversations)

lemma Close_row:
  assumes "CloseConversation e s inp w = (Inr c', w')"
  shows "\<exists>role. normalizeActorRole (act_ActorRole inp) = Inr role
     \<and> row_change (close_mutation role (act_ActorAgentID inp)) (act_ConversationID inp) w c' w'"
proof -
  from assms obtain role v where role: "normalizeActorRole (act_ActorRole inp) = Inr role"
    "withEventTransaction e s (mutate_and_emit e s (act_ConversationID inp)
       (timed e (close_mutation role (act_ActorAgentID inp))) (\<lambda>c _. emitConversationClosed e s (conv_ID c))) w = (Inr c', v)"
    "db w' = db v"
    by (auto simp: CloseConversation_def split: if_splits sum.splits prod.splits)
  have "row_change (close_mutation role (act_ActorAgentID inp)) (act_ConversationID inp) w c' v"
    using role(2) by (rule close.service_row_change) (auto dest: emit_tables(3))
  with role(1,3) show ?thesis by (simp add: row_change_def)
qed

text \<open>The actor of a row operation: an administrator, or the agent concerned.\<close>

definition acts_for :: "ActorInput \<Rightarrow> uint64 \<Rightarrow> bool" where
  "acts_for inp a \<longleftrightarrow>
     (\<exists>role. normalizeActorRole (act_ActorRole inp) = Inr role \<and> (isAdmin role \<or> act_ActorAgentID inp = a))"

text \<open>
  C13.  Transfers are a handshake.  When a transfer of an assigned conversation to another agent
  succeeds, the conversation stays with its owner and is pending for the target; if the target (or
  an administrator) then confirms, it is assigned to the target with nothing pending; if the target
  rejects, the row is back to what it was before the transfer, up to its update time.  Nobody else
  can confirm or reject.
\<close>

theorem transfer_round_trips:
  assumes row: "by_id conv_ID (act_ConversationID inp) (conversations (db w)) = Some c"
    and wf: "conv_wf c" and idle: "conv_PendingTransferToAgentID c = None"
    and other: "conv_AssignedAgentID c \<noteq> Some (tci_ToAgentID inp)"
    and run: "TransferConversation e s inp w = (Inr c1, w1)"
  shows "\<exists>owner. phase_of c = OpenAssigned owner \<and> phase_of c1 = OpenTransferPending owner (tci_ToAgentID inp)
    \<and> by_id conv_ID (act_ConversationID inp) (conversations (db w1)) = Some c1
    \<and> (\<forall>s' inp' c2 w2. act_ConversationID inp' = act_ConversationID inp \<longrightarrow>
         ConfirmTransferConversation e s' inp' w1 = (Inr c2, w2) \<longrightarrow>
         phase_of c2 = OpenAssigned (tci_ToAgentID inp) \<and> acts_for inp' (tci_ToAgentID inp))
    \<and> (\<forall>s' inp' c2 w2. act_ConversationID inp' = act_ConversationID inp \<longrightarrow>
         RejectTransferConversation e s' inp' w1 = (Inr c2, w2) \<longrightarrow>
         c2\<lparr>conv_UpdatedAt := conv_UpdatedAt c\<rparr> = c \<and> acts_for inp' (tci_ToAgentID inp))"
proof -
  let ?to = "tci_ToAgentID inp"
  from Transfer_row [OF run] obtain role where "row_change (transfer_mutation role (act_ActorAgentID inp) ?to)
      (act_ConversationID inp) w c1 w1" by blast
  from row_changeE [OF this row] obtain c0 ch a t now where tr:
    "transfer_mutation role (act_ActorAgentID inp) ?to now c = Inr (c0, ch, a)"
    "c1 = (if ch then c0\<lparr>conv_UpdatedAt := t\<rparr> else c)"
    and row1: "by_id conv_ID (act_ConversationID inp) (conversations (db w1)) = Some c1" by metis
  from tr(1) other idle obtain owner where o: "conv_Status c = ''open''" "conv_AssignedAgentID c = Some owner" "ch"
    "c0 = c\<lparr>conv_PendingTransferToAgentID := Some ?to, conv_PendingTransferFromAgentID := Some owner,
            conv_PendingTransferRequestedAt := Some now\<rparr>"
    by (auto simp: transfer_mutation_def split: if_splits option.splits)
  have c1: "c1 = c\<lparr>conv_PendingTransferToAgentID := Some ?to, conv_PendingTransferFromAgentID := Some owner,
      conv_PendingTransferRequestedAt := Some now, conv_UpdatedAt := t\<rparr>" using tr(2) o(3,4) by simp
  have "phase_of c2 = OpenAssigned ?to \<and> acts_for inp' ?to"
    if "act_ConversationID inp' = act_ConversationID inp" "ConfirmTransferConversation e s' inp' w1 = (Inr c2, w2)"
    for s' inp' c2 w2
  proof -
    from Confirm_row [OF that(2), unfolded that(1)] obtain role where role: "normalizeActorRole (act_ActorRole inp') = Inr role"
      "row_change (confirm_mutation role (act_ActorAgentID inp')) (act_ConversationID inp) w1 c2 w2" by auto
    from role(2) row1 obtain d ch a u now' where d: "confirm_mutation role (act_ActorAgentID inp') now' c1 = Inr (d, ch, a)"
      "c2 = (if ch then d\<lparr>conv_UpdatedAt := u\<rparr> else c1)" by (rule row_changeE)
    from d(1) have "ch \<and> d = clear_transfer (c1\<lparr>conv_AssignedAgentID := Some ?to\<rparr>)
        \<and> (isAdmin role \<or> act_ActorAgentID inp' = ?to) \<and> conv_Status c1 = ''open''"
      by (auto simp: confirm_mutation_def c1 split: if_splits)
    with d(2) role(1) show ?thesis by (simp add: clear_transfer_def phase_of_def acts_for_def)
  qed
  moreover have "c2\<lparr>conv_UpdatedAt := conv_UpdatedAt c\<rparr> = c \<and> acts_for inp' ?to"
    if "act_ConversationID inp' = act_ConversationID inp" "RejectTransferConversation e s' inp' w1 = (Inr c2, w2)"
    for s' inp' c2 w2
  proof -
    from Reject_row [OF that(2), unfolded that(1)] obtain role where role: "normalizeActorRole (act_ActorRole inp') = Inr role"
      "row_change (reject_mutation role (act_ActorAgentID inp')) (act_ConversationID inp) w1 c2 w2" by auto
    have "conv_PendingTransferFromAgentID c = None" "conv_PendingTransferRequestedAt c = None"
      using wf idle by (simp_all add: conv_wf_def)
    moreover from role(2) row1 obtain d ch a u now' where d: "reject_mutation role (act_ActorAgentID inp') now' c1 = Inr (d, ch, a)"
      "c2 = (if ch then d\<lparr>conv_UpdatedAt := u\<rparr> else c1)" by (rule row_changeE)
    from d(1) have "ch \<and> d = clear_transfer c1 \<and> (isAdmin role \<or> act_ActorAgentID inp' = ?to)"
      by (auto simp: reject_mutation_def Let_def c1 split: if_splits)
    with d(2) have "c2 = (clear_transfer c1)\<lparr>conv_UpdatedAt := u\<rparr>" "acts_for inp' ?to"
      using role(1) by (simp_all add: acts_for_def)
    ultimately show ?thesis using idle by (simp add: clear_transfer_def c1)
  qed
  moreover have "phase_of c = OpenAssigned owner \<and> phase_of c1 = OpenTransferPending owner ?to"
    using o c1 idle by (simp add: phase_of_def)
  ultimately show ?thesis using row1 by blast
qed

definition demo_transfer :: TransferConversationInput where
  "demo_transfer = \<lparr>act_ConversationID = 1, act_ActorAgentID = 7, act_ActorRole = ''agent'', tci_ToAgentID = 9\<rparr>"

theorem transfer_round_trips_witness:
  "\<exists>c c1 w1. by_id conv_ID 1 (conversations (db demo_w2)) = Some c
    \<and> TransferConversation demo_env demo_service demo_transfer demo_w2 = (Inr c1, w1)
    \<and> (\<exists>owner. phase_of c = OpenAssigned owner \<and> phase_of c1 = OpenTransferPending owner 9)"
proof -
  have ok: "\<not> isl (fst (TransferConversation demo_env demo_service demo_transfer demo_w2))"
    "map_option (\<lambda>c. (conv_PendingTransferToAgentID c, conv_AssignedAgentID c))
       (by_id conv_ID 1 (conversations (db demo_w2))) = Some (None, Some 7)"
    "act_ConversationID demo_transfer = 1" "tci_ToAgentID demo_transfer = 9" by code_simp+
  from result_ok [OF ok(1)] obtain c1 w1 where
    run: "TransferConversation demo_env demo_service demo_transfer demo_w2 = (Inr c1, w1)" by blast
  from ok(2) obtain c where c: "by_id conv_ID 1 (conversations (db demo_w2)) = Some c"
    "conv_PendingTransferToAgentID c = None" "conv_AssignedAgentID c = Some 7" by auto
  have "conv_wf c" using demo_inv(2) c(1) by (auto simp: store_inv_def conversations_inv_def dest: by_id_Some)
  with transfer_round_trips [OF _ _ c(2) _ run] c run ok(3,4) show ?thesis by auto
qed

end
