(* ===== verification/Chat_Delivery.thy ===== *)
theory Chat_Delivery
  imports Chat_Behaviour
begin

text \<open>
  The promises of the background workers of chat-service: automatic closing and the delivery of the
  outbox, with retries and dead letters.
\<close>

section \<open>Concrete environments\<close>

definition demo_late :: env where
  "demo_late = demo_env\<lparr>clock := (\<lambda>t. 2000 + int t)\<rparr>"

definition demo_down :: env where
  "demo_down = demo_env\<lparr>bus_fault := (\<lambda>_. Some ''connection refused'')\<rparr>"

definition demo_dispatcher :: OutboxDispatcher where
  "demo_dispatcher = NewOutboxDispatcher \<lparr>PollInterval = 0, BatchSize = 0, MaxAttempts = 1,
     RetryBaseInterval = 0, RetryMaxInterval = 0, ProcessingTimeout = 0\<rparr>"

lemma store_inv_collate: "collate e' = collate e \<Longrightarrow> store_inv e' w = store_inv e w"
  by (simp add: store_inv_def conversations_inv_def messages_inv_def visitor_key_def [abs_def]
      client_key_def [abs_def])

lemma demo_late_inv: "store_inv demo_late demo_w4" and demo_down_inv: "store_inv demo_down demo_w4"
  using demo_inv(4) store_inv_collate [of demo_late demo_env] store_inv_collate [of demo_down demo_env]
  by (simp_all add: demo_late_def demo_down_def)

lemma demo_no_fault: "no_fault demo_env" "no_db_fault demo_late"
  by (simp_all add: no_fault_def no_db_fault_def demo_late_def demo_env_def)

lemma demo_w4_row: "\<exists>c. by_id conv_ID 1 (conversations (db demo_w4)) = Some c \<and> is_open c \<and> conv_AssignedAgentID c = Some 7"
proof -
  have "map_option (\<lambda>c. (is_open c, conv_AssignedAgentID c)) (by_id conv_ID 1 (conversations (db demo_w4))) = Some (True, Some 7)"
    by code_simp
  then show ?thesis by auto
qed

section \<open>Automatic closing\<close>

text \<open>
  C14.  The automatic closing of a conversation touches no other one, and closes it only when the
  latest message that is not a system message was written by an agent at least \<open>autoCloseAfter\<close>
  before; the closing is attributed to the assigned agent.  This holds under every failure schedule
  and for timers that fire late or for nothing.
\<close>

theorem auto_close_only_when_due:
  assumes "autoCloseConversationByTimeout e s i w = (r, w')"
    and "by_id conv_ID k (conversations (db w)) = Some c" "is_open c"
    and "by_id conv_ID k (conversations (db w')) = Some c'" "\<not> is_open c'"
  shows "k = i \<and> (\<exists>m now. latest_spoken (db w) i = Some m \<and> msg_SenderType m = ''agent''
    \<and> msg_CreatedAt m + autoCloseAfter s \<le> now
    \<and> conv_ClosedAt c' = Some now \<and> conv_ClosedByAgentID c' = conv_AssignedAgentID c)"
  using assms by (rule autoClose_only_when_due)

definition demo_late_closed :: "(cerr + unit) \<times> world" where
  "demo_late_closed = autoCloseConversationByTimeout demo_late demo_service 1 demo_w4"

theorem auto_close_only_when_due_witness:
  "\<exists>c'. by_id conv_ID 1 (conversations (db (snd demo_late_closed))) = Some c' \<and> \<not> is_open c'
    \<and> conv_ClosedByAgentID c' = Some 7
    \<and> (\<exists>m. latest_spoken (db demo_w4) 1 = Some m \<and> msg_SenderType m = ''agent'')"
proof -
  obtain c where c: "by_id conv_ID 1 (conversations (db demo_w4)) = Some c" "is_open c" "conv_AssignedAgentID c = Some 7"
    using demo_w4_row by blast
  have "map_option is_open (by_id conv_ID 1 (conversations (db (snd demo_late_closed)))) = Some False" by code_simp
  then obtain c' where c': "by_id conv_ID 1 (conversations (db (snd demo_late_closed))) = Some c'" "\<not> is_open c'" by auto
  have "autoCloseConversationByTimeout demo_late demo_service 1 demo_w4 = (fst demo_late_closed, snd demo_late_closed)"
    by (simp add: demo_late_closed_def)
  from auto_close_only_when_due [OF this c(1,2) c'] c' c(3) show ?thesis by auto
qed

text \<open>
  C15.  A due timer does its work: without database failures, when the timer of an open
  conversation fires after the deadline of the agent's latest message, the conversation is closed,
  its messages are untouched, the timer is gone, and with the outbox on exactly one pending event
  announces the closing.
\<close>

theorem due_timer_closes:
  assumes "no_db_fault e" "hasScheduler s" "timers w i = Some d" "i \<noteq> 0"
    and "by_id conv_ID i (conversations (db w)) = Some c" "is_open c"
    and "latest_spoken (db w) i = Some m" "msg_SenderType m = ''agent''"
    and "\<forall>t. msg_CreatedAt m + autoCloseAfter s \<le> clock e t"
    and "w' = fire_timer e s i d w"
  shows "(\<exists>c'. by_id conv_ID i (conversations (db w')) = Some c' \<and> conv_Status c' = ''closed'')
    \<and> messages (db w') = messages (db w) \<and> timers w' = (timers w)(i := None)
    \<and> (eventOutboxEnabled s \<longrightarrow> (\<exists>ev. outbox (db w') = outbox (db w) @ [ev]
         \<and> ob_Payload ev = conversation_closed i ''closed'' \<and> ob_Status ev = OutboxStatusPending))"
  using fire_timer_closes [OF assms(1-8) _ assms(10)] assms(9) by simp

theorem due_timer_closes_witness:
  "\<exists>d c'. timers demo_w4 1 = Some d
    \<and> by_id conv_ID 1 (conversations (db (fire_timer demo_late demo_service 1 d demo_w4))) = Some c'
    \<and> conv_Status c' = ''closed'' \<and> timers (fire_timer demo_late demo_service 1 d demo_w4) 1 = None"
proof -
  obtain c where c: "by_id conv_ID 1 (conversations (db demo_w4)) = Some c" "is_open c" using demo_w4_row by blast
  have v: "hasScheduler demo_service" "autoCloseAfter demo_service = 1000" "\<not> Option.is_none (timers demo_w4 1)"
    "map_option (\<lambda>m. (msg_SenderType m, msg_CreatedAt m < 1000)) (latest_spoken (db demo_w4) 1) = Some (''agent'', True)"
    by code_simp+
  then obtain d m where d: "timers demo_w4 1 = Some d" and
    m: "latest_spoken (db demo_w4) 1 = Some m" "msg_SenderType m = ''agent''" "msg_CreatedAt m < 1000"
    by (auto simp: Option.is_none_def)
  have due: "\<forall>t. msg_CreatedAt m + autoCloseAfter demo_service \<le> clock demo_late t"
  proof
    fix t :: nat
    have "clock demo_late t = 2000 + int t" by (simp add: demo_late_def)
    with m(3) v(2) show "msg_CreatedAt m + autoCloseAfter demo_service \<le> clock demo_late t" by simp
  qed
  have "(\<exists>c'. by_id conv_ID 1 (conversations (db (fire_timer demo_late demo_service 1 d demo_w4))) = Some c' \<and> conv_Status c' = ''closed'')
    \<and> timers (fire_timer demo_late demo_service 1 d demo_w4) = (timers demo_w4)(1 := None)"
    using due_timer_closes [OF demo_no_fault(2) v(1) d _ c m(1,2) due refl] by simp
  with d show ?thesis by auto
qed

section \<open>Delivery\<close>

text \<open>
  C16.  Delivery: without failures and competing workers, one round of the dispatcher appends to
  the bus exactly the events of a batch, in ascending order of their numbers, and marks every one
  of them published; when the outbox fits into one batch, the batch contains every event that is
  due and every event a worker has held for longer than the processing timeout.
\<close>

theorem dispatcher_delivers:
  assumes "no_fault e" "store_inv e w" "\<forall>k i. \<not> locked e k i" "mono (clock e)" "w' = dispatchOnce e d w"
  shows "\<exists>batch. bus w' = bus w @ map event_of batch \<and> sorted_wrt (\<lambda>a b. ob_ID a < ob_ID b) batch
    \<and> published_ids (ob_ID ` set batch) w' \<and> outbox_keys w' = outbox_keys w
    \<and> (int (length (outbox (db w))) \<le> BatchSize (cfg d) \<longrightarrow>
         (\<forall>ev \<in> set (outbox (db w)). deliverable (cfg d) (clock e (tick w)) ev \<longrightarrow> ob_ID ev \<in> ob_ID ` set batch))"
  using dispatchOnce_delivers_batch [OF assms(1,2) _ assms(4,5)] assms(3) by simp

theorem dispatcher_delivers_witness:
  "\<exists>batch. bus (dispatchOnce demo_env demo_dispatcher demo_w4) = bus demo_w4 @ map event_of batch
    \<and> ob_ID ` set (outbox (db demo_w4)) \<subseteq> ob_ID ` set batch \<and> length (outbox (db demo_w4)) = 2"
proof -
  have m: "mono (clock demo_env)" "\<forall>k i. \<not> locked demo_env k i" by (auto simp: demo_env_def mono_def)
  have v: "length (outbox (db demo_w4)) = 2" "BatchSize (cfg demo_dispatcher) = 100"
    "list_all (deliverable (cfg demo_dispatcher) (clock demo_env (tick demo_w4))) (outbox (db demo_w4))" by code_simp+
  from dispatcher_delivers [OF demo_no_fault(1) demo_inv(4) m(2,1) refl, of demo_dispatcher] v
  show ?thesis by (auto simp: list_all_iff)
qed

text \<open>
  C17.  Dead letters: under every failure schedule, an event that a round of the dispatcher leaves
  dead was dead before or has used up its \<open>MaxAttempts\<close> attempts.
\<close>

theorem dead_letters_exhausted:
  assumes "store_inv e w" "ev \<in> set (outbox (db (dispatchOnce e d w)))" "ob_Status ev = OutboxStatusDead"
  shows "(\<exists>ev0 \<in> set (outbox (db w)). ob_ID ev0 = ob_ID ev \<and> ob_Status ev0 = OutboxStatusDead)
    \<or> MaxAttempts (cfg d) \<le> int (ob_Attempts ev)"
proof -
  let ?ids = "ob_ID ` {ev0 \<in> set (outbox (db w)). ob_Status ev0 = OutboxStatusDead}"
  have "dead_justified (cfg d) ?ids w" by (auto simp: dead_justified_def)
  from dispatchOnce_dead_justified [OF assms(1) this] assms(2,3)
  have "ob_ID ev \<in> ?ids \<or> MaxAttempts (cfg d) \<le> int (ob_Attempts ev)" by (simp add: dead_justified_def)
  then show ?thesis by (metis (mono_tags, lifting) image_iff mem_Collect_eq)
qed

theorem dead_letters_exhausted_witness:
  "\<exists>ev \<in> set (outbox (db (dispatchOnce demo_down demo_dispatcher demo_w4))). ob_Status ev = OutboxStatusDead
    \<and> ((\<exists>ev0 \<in> set (outbox (db demo_w4)). ob_ID ev0 = ob_ID ev \<and> ob_Status ev0 = OutboxStatusDead)
       \<or> MaxAttempts (cfg demo_dispatcher) \<le> int (ob_Attempts ev))"
proof -
  have "list_ex (\<lambda>ev. ob_Status ev = OutboxStatusDead) (outbox (db (dispatchOnce demo_down demo_dispatcher demo_w4)))"
    by code_simp
  then obtain ev where ev: "ev \<in> set (outbox (db (dispatchOnce demo_down demo_dispatcher demo_w4)))"
    "ob_Status ev = OutboxStatusDead" by (auto simp: list_ex_iff)
  from dead_letters_exhausted [OF demo_down_inv ev] ev show ?thesis by blast
qed

text \<open>
  C18.  The retry delay is the capped exponential backoff it means to be, at the width of the
  duration type: base interval times a power of two, at most the maximal interval, as long as the
  configured intervals stay below \<open>2 ^ 62\<close> nanoseconds (146 years).
\<close>

theorem retryDelay_backoff:
  assumes "RetryBaseInterval c < 2 ^ 62" "RetryMaxInterval c \<le> 2 ^ 62"
  shows "retryDelay (normalized c) (int attempts) =
    min (RetryMaxInterval (normalized c)) (RetryBaseInterval (normalized c) * 2 ^ (attempts - 1))"
proof (cases attempts)
  case 0
  then show ?thesis by (simp add: retryDelay_def min_def)
next
  case (Suc n)
  have "0 < RetryBaseInterval (normalized c)" "RetryBaseInterval (normalized c) < 2 ^ 62"
    "RetryMaxInterval (normalized c) \<le> 2 ^ 62"
    using assms by (auto simp: normalized_def Second_def Millisecond_def)
  from retryDelay_closed_form [OF this, of "int attempts"] Suc show ?thesis by (simp add: nat_diff_distrib)
qed

theorem retryDelay_backoff_witness:
  "retryDelay (normalized (cfg demo_dispatcher)) (int 3) = 4 * (500 * Millisecond)"
proof -
  have c: "RetryBaseInterval (cfg demo_dispatcher) = 500000000" "RetryMaxInterval (cfg demo_dispatcher) = 15000000000"
    by code_simp+
  then have "retryDelay (normalized (cfg demo_dispatcher)) (int 3) =
     min (RetryMaxInterval (normalized (cfg demo_dispatcher))) (RetryBaseInterval (normalized (cfg demo_dispatcher)) * 2 ^ (3 - 1))"
    by (intro retryDelay_backoff) simp_all
  with c show ?thesis by (simp add: normalized_def Second_def Millisecond_def)
qed

end
