(* ===== verification/Chat_Api.thy ===== *)
theory Chat_Api
  imports Chat_Delivery
begin

text \<open>
  The gRPC servers of chat-service: \<^verbatim>\<open>services/chat-service/internal/grpcserver/server.go\<close> (internal
  interface and the mapping of errors) and \<^verbatim>\<open>gateway_server.go\<close> (the interface of the gateway).  A
  gRPC error is a code with its message.  Protocol messages are records; a time is left unformatted,
  and an absent time, which the wire shows as the empty text, is \<open>None\<close>.
\<close>

section \<open>Errors\<close>

definition mapError :: "cerr \<Rightarrow> grpc_error" where
  "mapError err =
     (let text = Error sentinel_text err in
      if errors_Is err ErrConversationNotFound then (NotFound, text)
      else if errors_Is err ErrMessageNotFound then (NotFound, text)
      else if errors_Is err ErrForbidden then (PermissionDenied, text)
      else if errors_Is err ErrConversationAlreadyClaimed then (AlreadyExists, text)
      else if errors_Is err ErrConversationUnassigned \<or> errors_Is err ErrConversationClosed
            \<or> errors_Is err ErrConversationTransferPending \<or> errors_Is err ErrConversationTransferNotPending
      then (FailedPrecondition, text)
      else
        let msg = ToLower text in
        if Contains msg ''invalid'' \<or> Contains msg ''required'' then (InvalidArgument, text)
        else if Contains msg ''match conversation'' then (PermissionDenied, text)
        else if Contains msg ''duplicate'' \<or> Contains msg ''unique'' then (AlreadyExists, text)
        else (Internal, ''internal error''))"

definition reply :: "('a \<Rightarrow> 'b) \<Rightarrow> (cerr + 'a) \<times> world \<Rightarrow> (grpc_error + 'b) \<times> world" where
  "reply f r = (case r of (Inl err, w) \<Rightarrow> (Inl (mapError err), w) | (Inr a, w) \<Rightarrow> (Inr (f a), w))"

section \<open>Protocol messages\<close>

record conversation_pb =
  pb_Id :: uint64
  pb_SiteId :: string
  pb_VisitorToken :: string
  pb_Status :: string
  pb_CreatedAt :: time
  pb_UpdatedAt :: time
  pb_AssignedAgentId :: uint64
  pb_ClosedAt :: "time option"
  pb_ClosedByAgentId :: uint64
  pb_PendingTransferToAgentId :: uint64
  pb_PendingTransferFromAgentId :: uint64
  pb_PendingTransferRequestedAt :: "time option"

definition or_zero :: "uint64 option \<Rightarrow> uint64" where
  "or_zero p = (case p of None \<Rightarrow> 0 | Some n \<Rightarrow> n)"

definition toConversationPB :: "conversation \<Rightarrow> conversation_pb" where
  "toConversationPB c =
     \<lparr>pb_Id = conv_ID c, pb_SiteId = conv_SiteID c, pb_VisitorToken = conv_VisitorToken c,
      pb_Status = conv_Status c, pb_CreatedAt = conv_CreatedAt c, pb_UpdatedAt = conv_UpdatedAt c,
      pb_AssignedAgentId = or_zero (conv_AssignedAgentID c), pb_ClosedAt = conv_ClosedAt c,
      pb_ClosedByAgentId = or_zero (conv_ClosedByAgentID c),
      pb_PendingTransferToAgentId = or_zero (conv_PendingTransferToAgentID c),
      pb_PendingTransferFromAgentId = or_zero (conv_PendingTransferFromAgentID c),
      pb_PendingTransferRequestedAt = conv_PendingTransferRequestedAt c\<rparr>"

record message_pb =
  pbm_Id :: uint64
  pbm_ConversationId :: uint64
  pbm_SenderType :: string
  pbm_SenderId :: string
  pbm_Content :: string
  pbm_ClientMsgId :: string
  pbm_CreatedAt :: time
  pbm_UpdatedAt :: time
  pbm_Status :: string

definition toMessagePB :: "message \<Rightarrow> message_pb" where
  "toMessagePB m =
     \<lparr>pbm_Id = msg_ID m, pbm_ConversationId = msg_ConversationID m, pbm_SenderType = msg_SenderType m,
      pbm_SenderId = msg_SenderID m, pbm_Content = msg_Content m, pbm_ClientMsgId = msg_ClientMsgID m,
      pbm_CreatedAt = msg_CreatedAt m, pbm_UpdatedAt = msg_UpdatedAt m, pbm_Status = msg_Status m\<rparr>"

section \<open>The internal interface\<close>

definition grpc_CreateMessage ::
  "env \<Rightarrow> chat_service \<Rightarrow> CreateMessageInput \<Rightarrow> world \<Rightarrow> (grpc_error + message_pb) \<times> world" where
  "grpc_CreateMessage e s req w =
     (if cmi_ConversationID req = 0 then (Inl (InvalidArgument, ''conversation_id is required''), w)
      else if TrimSpace (cmi_SenderType req) = [] then (Inl (InvalidArgument, ''sender_type is required''), w)
      else if TrimSpace (cmi_Content req) = [] then (Inl (InvalidArgument, ''content is required''), w)
      else if TrimSpace (cmi_ClientMsgID req) = [] then (Inl (InvalidArgument, ''client_msg_id is required''), w)
      else reply toMessagePB (CreateMessage e s req w))"

section \<open>The gateway interface\<close>

definition gw_CreateConversation ::
  "env \<Rightarrow> chat_service \<Rightarrow> CreateConversationInput \<Rightarrow> world \<Rightarrow> (grpc_error + conversation_pb) \<times> world" where
  "gw_CreateConversation e s req w =
     (if TrimSpace (cci_SiteID req) = [] then (Inl (InvalidArgument, ''site_id is required''), w)
      else if TrimSpace (cci_VisitorToken req) = [] then (Inl (InvalidArgument, ''visitor_token is required''), w)
      else reply toConversationPB (CreateConversation e s req w))"

definition gw_GetConversation :: "env \<Rightarrow> uint64 \<Rightarrow> world \<Rightarrow> (grpc_error + conversation_pb) \<times> world" where
  "gw_GetConversation e i w =
     (if i = 0 then (Inl (InvalidArgument, ''id is required''), w)
      else reply toConversationPB (GetConversation e i w))"

text \<open>An unset agent filter is 0 on the wire.\<close>

record ListConversationsRequest =
  lcr_Status :: string
  lcr_SiteId :: string
  lcr_AssignedAgentId :: uint64
  lcr_UnassignedOnly :: bool
  lcr_Limit :: int
  lcr_Offset :: int

definition gw_ListConversations ::
  "env \<Rightarrow> ListConversationsRequest \<Rightarrow> world \<Rightarrow> (grpc_error + conversation_pb list) \<times> world" where
  "gw_ListConversations e req w =
     (let limit = (if lcr_Limit req \<le> 0 then 50 else lcr_Limit req) in
      if lcr_Offset req < 0
      then (Inl (InvalidArgument, ''offset must be greater than or equal to 0''), w)
      else reply (map toConversationPB)
        (ListConversations e
           \<lparr>lci_Status = lcr_Status req, lci_SiteID = lcr_SiteId req,
            lci_AssignedAgentID = (if lcr_AssignedAgentId req > 0 then Some (lcr_AssignedAgentId req) else None),
            lci_UnassignedOnly = lcr_UnassignedOnly req, lci_Limit = limit, lci_Offset = lcr_Offset req\<rparr> w))"

definition gw_CreateMessage ::
  "env \<Rightarrow> chat_service \<Rightarrow> CreateMessageInput \<Rightarrow> world \<Rightarrow> (grpc_error + message_pb) \<times> world" where
  "gw_CreateMessage e s req w =
     (if cmi_ConversationID req = 0 then (Inl (InvalidArgument, ''conversation_id is required''), w)
      else if TrimSpace (cmi_SenderType req) = [] then (Inl (InvalidArgument, ''sender_type is required''), w)
      else if TrimSpace (cmi_Content req) = [] then (Inl (InvalidArgument, ''content is required''), w)
      else if TrimSpace (cmi_ClientMsgID req) = [] then (Inl (InvalidArgument, ''client_msg_id is required''), w)
      else reply toMessagePB (CreateMessage e s req w))"

definition gw_ListMessages ::
  "env \<Rightarrow> uint64 \<Rightarrow> int \<Rightarrow> uint64 \<Rightarrow> world \<Rightarrow> (grpc_error + message_pb list) \<times> world" where
  "gw_ListMessages e conversationID reqLimit beforeID w =
     (if conversationID = 0 then (Inl (InvalidArgument, ''conversation_id is required''), w)
      else
        let limit = (if reqLimit \<le> 0 then 50 else reqLimit);
            limit' = (if limit > 200 then 200 else limit)
        in reply (map toMessagePB) (ListMessages e conversationID (nat limit') beforeID w))"

definition gw_MarkMessagesRead ::
  "env \<Rightarrow> chat_service \<Rightarrow> MarkMessagesReadInput \<Rightarrow> world \<Rightarrow> (grpc_error + nat) \<times> world" where
  "gw_MarkMessagesRead e s req w =
     (if mri_ConversationID req = 0 then (Inl (InvalidArgument, ''conversation_id is required''), w)
      else if mri_LastReadMessageID req = 0 then (Inl (InvalidArgument, ''last_read_message_id is required''), w)
      else if TrimSpace (mri_ActorType req) = [] then (Inl (InvalidArgument, ''actor_type is required''), w)
      else reply id (MarkMessagesRead e s req w))"

definition gw_ClaimConversation ::
  "env \<Rightarrow> ClaimConversationInput \<Rightarrow> world \<Rightarrow> (grpc_error + conversation_pb) \<times> world" where
  "gw_ClaimConversation e req w =
     (if cli_ConversationID req = 0 then (Inl (InvalidArgument, ''conversation_id is required''), w)
      else if cli_AgentID req = 0 then (Inl (InvalidArgument, ''agent_id is required''), w)
      else reply toConversationPB (ClaimConversation e req w))"

definition gw_TransferConversation ::
  "env \<Rightarrow> chat_service \<Rightarrow> TransferConversationInput \<Rightarrow> world \<Rightarrow> (grpc_error + conversation_pb) \<times> world" where
  "gw_TransferConversation e s req w =
     (if act_ConversationID req = 0 then (Inl (InvalidArgument, ''conversation_id is required''), w)
      else if act_ActorAgentID req = 0 then (Inl (InvalidArgument, ''actor_agent_id is required''), w)
      else if tci_ToAgentID req = 0 then (Inl (InvalidArgument, ''to_agent_id is required''), w)
      else if TrimSpace (act_ActorRole req) = [] then (Inl (InvalidArgument, ''actor_role is required''), w)
      else reply toConversationPB (TransferConversation e s req w))"

definition gw_ConfirmTransferConversation ::
  "env \<Rightarrow> chat_service \<Rightarrow> ActorInput \<Rightarrow> world \<Rightarrow> (grpc_error + conversation_pb) \<times> world" where
  "gw_ConfirmTransferConversation e s req w =
     (if act_ConversationID req = 0 then (Inl (InvalidArgument, ''conversation_id is required''), w)
      else if act_ActorAgentID req = 0 then (Inl (InvalidArgument, ''actor_agent_id is required''), w)
      else if TrimSpace (act_ActorRole req) = [] then (Inl (InvalidArgument, ''actor_role is required''), w)
      else reply toConversationPB (ConfirmTransferConversation e s req w))"

definition gw_RejectTransferConversation ::
  "env \<Rightarrow> chat_service \<Rightarrow> ActorInput \<Rightarrow> world \<Rightarrow> (grpc_error + conversation_pb) \<times> world" where
  "gw_RejectTransferConversation e s req w =
     (if act_ConversationID req = 0 then (Inl (InvalidArgument, ''conversation_id is required''), w)
      else if act_ActorAgentID req = 0 then (Inl (InvalidArgument, ''actor_agent_id is required''), w)
      else if TrimSpace (act_ActorRole req) = [] then (Inl (InvalidArgument, ''actor_role is required''), w)
      else reply toConversationPB (RejectTransferConversation e s req w))"

definition gw_CloseConversation ::
  "env \<Rightarrow> chat_service \<Rightarrow> ActorInput \<Rightarrow> world \<Rightarrow> (grpc_error + conversation_pb) \<times> world" where
  "gw_CloseConversation e s req w =
     (if act_ConversationID req = 0 then (Inl (InvalidArgument, ''conversation_id is required''), w)
      else if act_ActorAgentID req = 0 then (Inl (InvalidArgument, ''actor_agent_id is required''), w)
      else if TrimSpace (act_ActorRole req) = [] then (Inl (InvalidArgument, ''actor_role is required''), w)
      else reply toConversationPB (CloseConversation e s req w))"

section \<open>Errors on the wire\<close>

text \<open>Wrapping an error changes its text, never the classification of a sentinel.\<close>

lemma errors_Is_unique: "errors_Is err a \<Longrightarrow> errors_Is err b \<Longrightarrow> a = b"
  by (induction err) auto

definition sentinel_code :: "chat_sentinel \<Rightarrow> grpc_code option" where
  "sentinel_code a =
     (case a of
        ErrConversationNotFound \<Rightarrow> Some NotFound
      | ErrMessageNotFound \<Rightarrow> Some NotFound
      | ErrForbidden \<Rightarrow> Some PermissionDenied
      | ErrConversationAlreadyClaimed \<Rightarrow> Some AlreadyExists
      | ErrConversationUnassigned \<Rightarrow> Some FailedPrecondition
      | ErrConversationClosed \<Rightarrow> Some FailedPrecondition
      | ErrConversationTransferPending \<Rightarrow> Some FailedPrecondition
      | ErrConversationTransferNotPending \<Rightarrow> Some FailedPrecondition
      | RepoNotFound \<Rightarrow> None)"

text \<open>
  C19.  The wire shows domain errors by their code, however often they were wrapped, and hides the
  text of everything it cannot classify: an answer with the code \<open>Internal\<close> carries only the fixed
  text, and every other answer names the error.
\<close>

theorem mapError_classifies:
  "(\<forall>a k. errors_Is err a \<longrightarrow> sentinel_code a = Some k \<longrightarrow> mapError err = (k, Error sentinel_text err))
   \<and> (fst (mapError err) = Internal \<longrightarrow> snd (mapError err) = ''internal error'')
   \<and> (fst (mapError err) \<noteq> Internal \<longrightarrow> snd (mapError err) = Error sentinel_text err)"
proof (intro conjI allI impI)
  fix a k assume a: "errors_Is err a" "sentinel_code a = Some k"
  have other: "errors_Is err b \<longleftrightarrow> a = b" for b using a(1) errors_Is_unique by metis
  from a(2) show "mapError err = (k, Error sentinel_text err)"
    unfolding mapError_def other by (cases a) (simp_all add: sentinel_code_def Let_def)
qed (auto simp: mapError_def Let_def split: if_splits)

theorem mapError_classifies_witness:
  "mapError (Wrap ''transfer: '' (Sentinel ErrForbidden)) = (PermissionDenied, ''transfer: forbidden'')"
  using mapError_classifies [of "Wrap ''transfer: '' (Sentinel ErrForbidden)"]
  by (simp add: sentinel_code_def)

end
