(* ===== verification/Realtime_Hub.thy ===== *)
theory Realtime_Hub
  imports Chat_Api
begin

text \<open>
  The connections of realtime-service: \<^verbatim>\<open>services/realtime-service/internal/ws/client.go\<close> and
  \<^verbatim>\<open>hub.go\<close>.  A client is the queue between the business code and the socket; \<open>wire\<close> is what its
  write loop has put on the socket.  The hub maps a conversation to the clients registered for it.
  Client pointers are numbers, and \<open>pool\<close> is the memory they point to.
\<close>

section \<open>Clients\<close>

text \<open>The JSON documents that are sent to a browser, before they are serialised.\<close>

datatype frame =
    bus_event payload
  | replay_message uint64 message_pb
  | replay_end uint64 uint64 nat bool uint64
  | message_ack string uint64 string
  | message_nack string string
  | error_frame string

record client =
  send :: "frame list"
  closed :: bool
  wire :: "frame list"

definition send_capacity :: nat where
  "send_capacity = 64"

definition NewClient :: client where
  "NewClient = \<lparr>send = [], closed = False, wire = []\<rparr>"

text \<open>A send on a closed channel panics; the recovery turns that into a failure.\<close>

definition TrySend :: "frame \<Rightarrow> client \<Rightarrow> bool \<times> client" where
  "TrySend p c =
     (if closed c then (False, c)
      else if length (send c) < send_capacity then (True, c\<lparr>send := send c @ [p]\<rparr>)
      else (False, c))"

definition Close_client :: "client \<Rightarrow> client" where
  "Close_client c = c\<lparr>closed := True\<rparr>"

text \<open>One turn of the write loop that finds a message in the queue.\<close>

definition write_one :: "client \<Rightarrow> client" where
  "write_one c = (case send c of [] \<Rightarrow> c | p # ps \<Rightarrow> c\<lparr>send := ps, wire := wire c @ [p]\<rparr>)"

definition accepted :: "client \<Rightarrow> frame list" where
  "accepted c = wire c @ send c"

definition client_inv :: "client \<Rightarrow> bool" where
  "client_inv c \<longleftrightarrow> length (send c) \<le> send_capacity"

lemma client_simps [simp]:
  "accepted (write_one c) = accepted c" "closed (write_one c) = closed c"
  "closed (Close_client c)" "accepted (Close_client c) = accepted c"
  by (simp_all add: accepted_def write_one_def Close_client_def split: list.split)

lemma TrySend_spec:
  "TrySend p c = (True, c') \<Longrightarrow> accepted c' = accepted c @ [p] \<and> \<not> closed c' \<and> \<not> closed c"
  "TrySend p c = (False, c') \<Longrightarrow> c' = c"
  by (auto simp: TrySend_def accepted_def split: if_splits)

lemma client_inv_steps:
  "client_inv NewClient" "client_inv c \<Longrightarrow> client_inv (snd (TrySend p c))"
  "client_inv c \<Longrightarrow> client_inv (write_one c)" "client_inv c \<Longrightarrow> client_inv (Close_client c)"
  by (auto simp: client_inv_def NewClient_def TrySend_def write_one_def Close_client_def split: list.split)

section \<open>The hub\<close>

record hub =
  clients :: "string \<rightharpoonup> nat list"
  pool :: "nat \<Rightarrow> client"

definition NewHub :: "(nat \<Rightarrow> client) \<Rightarrow> hub" where
  "NewHub mem = \<lparr>clients = Map.empty, pool = mem\<rparr>"

definition Register :: "string \<Rightarrow> nat \<Rightarrow> hub \<Rightarrow> hub" where
  "Register conversationID c h =
     (let h1 = (if clients h conversationID = None
                then h\<lparr>clients := (clients h)(conversationID \<mapsto> [])\<rparr> else h);
          bucket = the (clients h1 conversationID)
      in h1\<lparr>clients := (clients h1)(conversationID \<mapsto> List.insert c bucket)\<rparr>)"

definition Unregister :: "string \<Rightarrow> nat \<Rightarrow> hub \<Rightarrow> hub" where
  "Unregister conversationID c h =
     (case clients h conversationID of
        None \<Rightarrow> h
      | Some bucket \<Rightarrow>
          let bucket' = remove1 c bucket in
          if bucket' = [] then h\<lparr>clients := (clients h)(conversationID := None)\<rparr>
          else h\<lparr>clients := (clients h)(conversationID \<mapsto> bucket')\<rparr>)"

definition deliver :: "frame \<Rightarrow> client \<Rightarrow> client" where
  "deliver p c = (case TrySend p c of (True, c') \<Rightarrow> c' | (False, c') \<Rightarrow> Close_client c')"

fun deliver_all :: "frame \<Rightarrow> nat list \<Rightarrow> (nat \<Rightarrow> client) \<Rightarrow> nat \<Rightarrow> client" where
  "deliver_all p [] mem = mem"
| "deliver_all p (c # cs) mem = deliver_all p cs (mem(c := deliver p (mem c)))"

definition Broadcast :: "string \<Rightarrow> frame \<Rightarrow> hub \<Rightarrow> hub" where
  "Broadcast conversationID p h =
     (case clients h conversationID of
        None \<Rightarrow> h
      | Some bucket \<Rightarrow> h\<lparr>pool := deliver_all p bucket (pool h)\<rparr>)"

definition members :: "hub \<Rightarrow> string \<Rightarrow> nat set" where
  "members h r = (case clients h r of None \<Rightarrow> {} | Some cs \<Rightarrow> set cs)"

definition hub_inv :: "hub \<Rightarrow> bool" where
  "hub_inv h \<longleftrightarrow> (\<forall>r cs. clients h r = Some cs \<longrightarrow> cs \<noteq> [] \<and> distinct cs)"

section \<open>The registry as an interface\<close>

text \<open>What the handlers rely on: who is registered where, and that nothing else changes.\<close>

locale room_registry =
  fixes register unregister :: "string \<Rightarrow> nat \<Rightarrow> 'h \<Rightarrow> 'h"
    and room :: "'h \<Rightarrow> string \<Rightarrow> nat set"
    and inv :: "'h \<Rightarrow> bool"
  assumes register_room: "inv h \<Longrightarrow> room (register r c h) q = (if q = r then insert c (room h q) else room h q)"
    and unregister_room: "inv h \<Longrightarrow> room (unregister r c h) q = (if q = r then room h q - {c} else room h q)"
    and register_inv: "inv h \<Longrightarrow> inv (register r c h)"
    and unregister_inv: "inv h \<Longrightarrow> inv (unregister r c h)"
begin

text \<open>A session registers, and undoes exactly that when it ends, whatever other sessions do meanwhile.\<close>

fun session_ops :: "(bool \<times> string \<times> nat) list \<Rightarrow> 'h \<Rightarrow> 'h" where
  "session_ops [] h = h"
| "session_ops ((reg, r, c) # ops) h = session_ops ops (if reg then register r c h else unregister r c h)"

lemma session_ops_inv: "inv h \<Longrightarrow> inv (session_ops ops h)"
  by (induction ops h rule: session_ops.induct) (auto simp: register_inv unregister_inv)

lemma session_ops_other:
  "inv h \<Longrightarrow> \<forall>(reg, r', c') \<in> set ops. c' \<noteq> c \<Longrightarrow> c \<in> room (session_ops ops h) r \<longleftrightarrow> c \<in> room h r"
  by (induction ops h rule: session_ops.induct)
     (auto simp: register_inv unregister_inv register_room unregister_room)

lemma session_is_local:
  assumes "inv h" "c \<notin> room h q" "\<forall>(reg, r', c') \<in> set ops. c' \<noteq> c"
  shows "c \<in> room (session_ops ops (register r c h)) r"
    and "c \<notin> room (unregister r c (session_ops ops (register r c h))) q"
  using assms session_ops_other [OF register_inv [OF assms(1)], of ops c] session_ops_inv [OF register_inv [OF assms(1)]]
  by (auto simp: register_room unregister_room)

end

lemma members_simps:
  "members (h\<lparr>pool := mem\<rparr>) r = members h r"
  "members (h\<lparr>clients := (clients h)(q \<mapsto> cs)\<rparr>) r = (if r = q then set cs else members h r)"
  "members (h\<lparr>clients := (clients h)(q := None)\<rparr>) r = (if r = q then {} else members h r)"
  by (auto simp: members_def)

lemma Register_eq:
  "Register r c h = h\<lparr>clients := (clients h)(r \<mapsto> List.insert c (case clients h r of None \<Rightarrow> [] | Some cs \<Rightarrow> cs))\<rparr>"
  by (auto simp: Register_def Let_def split: option.split)

interpretation hub: room_registry Register Unregister members hub_inv
proof
  fix h r c q assume inv: "hub_inv h"
  show "members (Register r c h) q = (if q = r then insert c (members h q) else members h q)"
    unfolding Register_eq members_simps by (auto simp: members_def split: option.split)
  show "members (Unregister r c h) q = (if q = r then members h q - {c} else members h q)"
  proof (cases "clients h r")
    case None
    then show ?thesis by (auto simp: Unregister_def members_def)
  next
    case (Some cs)
    have 1: "members (Unregister r c h) q = (if q = r then set (remove1 c cs) else members h q)"
    proof (cases "remove1 c cs = []")
      case True
      then have "Unregister r c h = h\<lparr>clients := (clients h)(r := None)\<rparr>" by (simp add: Unregister_def Some)
      with True show ?thesis by (simp add: members_simps)
    next
      case False
      then have "Unregister r c h = h\<lparr>clients := (clients h)(r \<mapsto> remove1 c cs)\<rparr>" by (simp add: Unregister_def Some)
      then show ?thesis by (simp add: members_simps)
    qed
    from inv Some have "distinct cs" unfolding hub_inv_def by blast
    then have 2: "set (remove1 c cs) = set cs - {c}" by (rule set_remove1_eq)
    have 3: "members h r = set cs" using Some by (simp add: members_def)
    show ?thesis unfolding 1 2 using 3 by simp
  qed
  show "hub_inv (Register r c h)"
    using inv by (auto simp: hub_inv_def Register_eq List.insert_def split: option.splits if_splits)
  show "hub_inv (Unregister r c h)"
    using inv by (auto simp: hub_inv_def Unregister_def Let_def split: option.splits if_splits)
qed

section \<open>Broadcasting\<close>

lemma deliver_all_pool:
  "distinct cs \<Longrightarrow> deliver_all p cs mem x = (if x \<in> set cs then deliver p (mem x) else mem x)"
  by (induction cs arbitrary: mem) auto

lemma Broadcast_pool:
  assumes "hub_inv h"
  shows "pool (Broadcast r p h) x = (if x \<in> members h r then deliver p (pool h x) else pool h x)"
proof (cases "clients h r")
  case (Some cs)
  with assms have "distinct cs" by (simp add: hub_inv_def)
  with Some show ?thesis by (simp add: Broadcast_def members_def deliver_all_pool)
qed (simp add: Broadcast_def members_def)

lemma Broadcast_clients [simp]: "clients (Broadcast r p h) = clients h"
  by (simp add: Broadcast_def split: option.split)

lemma Broadcast_frame [simp]:
  "members (Broadcast r p h) = members h" "hub_inv (Broadcast r p h) = hub_inv h"
  "hub_inv (h\<lparr>pool := mem\<rparr>) = hub_inv h" "members (h\<lparr>pool := mem\<rparr>) = members h"
  by (auto simp: members_def hub_inv_def)

lemma deliver_spec:
  "\<not> closed (deliver p c) \<Longrightarrow> \<not> closed c \<and> accepted (deliver p c) = accepted c @ [p]"
  "closed c \<Longrightarrow> closed (deliver p c) \<and> accepted (deliver p c) = accepted c"
  by (auto simp: deliver_def TrySend_def accepted_def Close_client_def split: if_splits)

text \<open>The traffic of a hub: broadcasts, turns of the write loops, and other sessions coming and going.\<close>

datatype traffic =
    broadcast string frame
  | write_turn nat
  | join string nat
  | leave string nat

fun traffic_step :: "traffic \<Rightarrow> hub \<Rightarrow> hub" where
  "traffic_step (broadcast r p) h = Broadcast r p h"
| "traffic_step (write_turn x) h = h\<lparr>pool := (pool h)(x := write_one (pool h x))\<rparr>"
| "traffic_step (join r x) h = Register r x h"
| "traffic_step (leave r x) h = Unregister r x h"

fun moves :: "nat \<Rightarrow> traffic \<Rightarrow> bool" where
  "moves x (join r y) \<longleftrightarrow> y = x"
| "moves x (leave r y) \<longleftrightarrow> y = x"
| "moves x _ \<longleftrightarrow> False"

fun broadcasts_to :: "string set \<Rightarrow> traffic list \<Rightarrow> frame list" where
  "broadcasts_to R [] = []"
| "broadcasts_to R (broadcast r p # ts) = (if r \<in> R then p # broadcasts_to R ts else broadcasts_to R ts)"
| "broadcasts_to R (_ # ts) = broadcasts_to R ts"

definition rooms_of :: "hub \<Rightarrow> nat \<Rightarrow> string set" where
  "rooms_of h x = {r. x \<in> members h r}"

lemma traffic_step_inv: "hub_inv h \<Longrightarrow> hub_inv (traffic_step t h)"
  by (cases t) (simp_all add: hub.register_inv hub.unregister_inv)

lemma traffic_step_rooms: "hub_inv h \<Longrightarrow> \<not> moves x t \<Longrightarrow> rooms_of (traffic_step t h) x = rooms_of h x"
  by (cases t) (auto simp: rooms_of_def hub.register_room hub.unregister_room)

lemma Register_pool [simp]: "pool (Register r x h) = pool h" "pool (Unregister r x h) = pool h"
  by (simp_all add: Register_eq Unregister_def Let_def split: option.split)

lemma fold_traffic_inv: "hub_inv h \<Longrightarrow> hub_inv (fold traffic_step ts h)"
  by (induction ts arbitrary: h) (auto simp: traffic_step_inv)

lemma closed_stays: "closed (pool h x) \<Longrightarrow> hub_inv h \<Longrightarrow> closed (pool (fold traffic_step ts h) x)"
proof (induction ts arbitrary: h)
  case (Cons t ts)
  have "closed (pool (traffic_step t h) x)"
    using Cons.prems by (cases t) (auto simp: Broadcast_pool dest: deliver_spec)
  with Cons show ?case by (simp add: traffic_step_inv)
qed simp

lemma no_gaps:
  "hub_inv h \<Longrightarrow> \<forall>t \<in> set ts. \<not> moves x t \<Longrightarrow> \<not> closed (pool (fold traffic_step ts h) x) \<Longrightarrow>
   accepted (pool (fold traffic_step ts h) x) = accepted (pool h x) @ broadcasts_to (rooms_of h x) ts"
proof (induction ts arbitrary: h)
  case (Cons t ts)
  let ?h = "traffic_step t h"
  have inv: "hub_inv ?h" and rooms: "rooms_of ?h x = rooms_of h x"
    using Cons.prems by (simp_all add: traffic_step_inv traffic_step_rooms)
  have open1: "\<not> closed (pool ?h x)" using closed_stays [OF _ inv, of x ts] Cons.prems(3) by auto
  have "accepted (pool ?h x) = accepted (pool h x) @ broadcasts_to (rooms_of h x) [t]"
    using open1 Cons.prems(1)
    by (cases t) (auto simp: Broadcast_pool rooms_of_def dest: deliver_spec split: if_splits)
  moreover have "broadcasts_to R (t # ts) = broadcasts_to R [t] @ broadcasts_to R ts" for R by (cases t) auto
  ultimately show ?case using Cons.IH [OF inv] Cons.prems rooms by simp
qed simp

end
