(* ===== verification/Realtime_Ws.thy ===== *)
theory Realtime_Ws
  imports Realtime_Hub
begin

text \<open>
  The websocket handler of realtime-service
  (\<^verbatim>\<open>services/realtime-service/internal/ws/handler.go\<close>): the replay of missed messages after a
  reconnect and the sending of messages.  The calls to chat-service and admin-service are arguments;
  \<open>'w\<close> is the state behind them.  The write loop runs beside the handler: \<open>drain k\<close> is the number of
  frames it takes from the queue before the \<open>k\<close>-th frame of a replay is offered.  JSON is decoded.
\<close>

definition replayPageSize :: nat where "replayPageSize = 100"
definition maxReplayMessages :: nat where "maxReplayMessages = 500"
definition ws_maxMessageContentChars :: nat where "ws_maxMessageContentChars = 2000"

section \<open>Replay\<close>

type_synonym 'w list_call = "uint64 \<Rightarrow> nat \<Rightarrow> uint64 \<Rightarrow> 'w \<Rightarrow> (string + message_pb list) \<times> 'w"

text \<open>The scan of one page: the messages missed so far, \<open>stop\<close> and \<open>truncated\<close>.\<close>

fun scan_page :: "uint64 \<Rightarrow> message_pb list \<Rightarrow> message_pb list \<Rightarrow> message_pb list \<times> bool \<times> bool" where
  "scan_page lastMessageID [] missed = (missed, False, False)"
| "scan_page lastMessageID (item # items) missed =
     (if pbm_Id item \<le> lastMessageID then (missed, True, False)
      else if length (missed @ [item]) \<ge> maxReplayMessages then (missed @ [item], True, True)
      else scan_page lastMessageID items (missed @ [item]))"

lemma scan_page_continues:
  "scan_page l items missed = (missed', False, tr) \<Longrightarrow> missed' = missed @ items \<and> \<not> tr"
  by (induction l items missed rule: scan_page.induct) (auto split: if_splits)

lemma scan_page_progress:
  assumes "scan_page l items missed = (missed', False, tr)" "items \<noteq> []" "\<not> maxReplayMessages \<le> length missed"
  shows "maxReplayMessages - length missed' < maxReplayMessages - length missed"
proof -
  have "length missed' = length missed + length items" using scan_page_continues [OF assms(1)] by simp
  moreover have "1 \<le> length items" using assms(2) by (cases items) auto
  ultimately show ?thesis using assms(3) by linarith
qed

function collect_missed ::
  "'w list_call \<Rightarrow> uint64 \<Rightarrow> uint64 \<Rightarrow> uint64 \<Rightarrow> message_pb list \<Rightarrow> 'w \<Rightarrow> (string + message_pb list \<times> bool) \<times> 'w" where
  "collect_missed ListM conversationID lastMessageID beforeID missed w =
     (if length missed \<ge> maxReplayMessages then (Inr (missed, False), w)
      else case ListM conversationID replayPageSize beforeID w of
          (Inl err, w1) \<Rightarrow> (Inl err, w1)
        | (Inr items, w1) \<Rightarrow>
            if items = [] then (Inr (missed, False), w1)
            else case scan_page lastMessageID items missed of
                (missed', stop, truncated) \<Rightarrow>
                  if stop then (Inr (missed', truncated), w1)
                  else if pbm_Id (last items) = 0 then (Inr (missed', False), w1)
                  else collect_missed ListM conversationID lastMessageID (pbm_Id (last items)) missed' w1)"
  by pat_completeness auto
termination
  by (relation "measure (\<lambda>(f, i, l, b, missed, w). maxReplayMessages - length missed)")
     (auto intro: scan_page_progress [OF sym])

declare collect_missed.simps [simp del]

fun drain_queue :: "nat \<Rightarrow> client \<Rightarrow> client" where
  "drain_queue 0 c = c"
| "drain_queue (Suc n) c = drain_queue n (write_one c)"

fun send_frames :: "(nat \<Rightarrow> nat) \<Rightarrow> nat \<Rightarrow> frame list \<Rightarrow> client \<Rightarrow> bool \<times> client" where
  "send_frames drain k [] c = (True, c)"
| "send_frames drain k (f # fs) c =
     (case TrySend f (drain_queue (drain k) c) of
        (False, c') \<Rightarrow> (False, c')
      | (True, c') \<Rightarrow> send_frames drain (Suc k) fs c')"

definition marshalMessageNewEvent :: "uint64 \<Rightarrow> message_pb \<Rightarrow> frame" where
  "marshalMessageNewEvent conversationID m =
     replay_message (if pbm_ConversationId m = 0 then conversationID else pbm_ConversationId m) m"

definition replay_end_of :: "uint64 \<Rightarrow> uint64 \<Rightarrow> message_pb list \<Rightarrow> bool \<Rightarrow> frame" where
  "replay_end_of conversationID lastMessageID missed truncated =
     (let lastReplayedID = (if missed \<noteq> [] then pbm_Id (last missed) else lastMessageID);
          nextBeforeID = (if missed \<noteq> [] \<and> truncated then pbm_Id (hd missed) else 0)
      in replay_end conversationID lastReplayedID (length missed) truncated nextBeforeID)"

definition replayMessages ::
  "'w list_call \<Rightarrow> (nat \<Rightarrow> nat) \<Rightarrow> uint64 \<Rightarrow> uint64 \<Rightarrow> client \<Rightarrow> 'w \<Rightarrow> (string + unit) \<times> client \<times> 'w" where
  "replayMessages ListM drain conversationID lastMessageID c w =
     (if lastMessageID = 0 then (Inr (), c, w)
      else case collect_missed ListM conversationID lastMessageID 0 [] w of
          (Inl err, w1) \<Rightarrow> (Inl err, c, w1)
        | (Inr (collected, truncated), w1) \<Rightarrow>
            let missed = sort_key pbm_Id collected in
            (case send_frames drain 0 (map (marshalMessageNewEvent conversationID) missed) c of
               (False, c1) \<Rightarrow> (Inl ''client replay queue is full'', c1, w1)
             | (True, c1) \<Rightarrow>
                 (case send_frames drain (length missed)
                         [replay_end_of conversationID lastMessageID missed truncated] c1 of
                    (False, c2) \<Rightarrow> (Inl ''client replay queue is full'', c2, w1)
                  | (True, c2) \<Rightarrow> (Inr (), c2, w1))))"

text \<open>
  The opening of a session in \<open>Serve\<close>: the new client is registered under the path parameter, then
  the replay runs; when it fails, the client is unregistered and closed.
\<close>

definition open_session ::
  "'w list_call \<Rightarrow> (nat \<Rightarrow> nat) \<Rightarrow> string \<Rightarrow> uint64 \<Rightarrow> uint64 \<Rightarrow> nat \<Rightarrow> hub \<Rightarrow> 'w \<Rightarrow> bool \<times> hub \<times> 'w" where
  "open_session ListM drain param conversationID lastMessageID x h w =
     (let h1 = Register param x (h\<lparr>pool := (pool h)(x := NewClient)\<rparr>) in
      case replayMessages ListM drain conversationID lastMessageID (pool h1 x) w of
        (Inl err, c, w1) \<Rightarrow>
          (False, Unregister param x (h1\<lparr>pool := (pool h1)(x := Close_client c)\<rparr>), w1)
      | (Inr _, c, w1) \<Rightarrow> (True, h1\<lparr>pool := (pool h1)(x := c)\<rparr>, w1))"

section \<open>Sending\<close>

record site =
  site_SiteID :: string
  site_Domain :: string
  site_Domains :: "string list"
  site_Status :: string

type_synonym 'w site_call = "string \<Rightarrow> 'w \<Rightarrow> (grpc_error option + site) \<times> 'w"

text \<open>
  \<open>validateConversationSite\<close>: the HTTP status and the text of the refusal.  A failed call answers
  with a gRPC status or (\<open>None\<close>) with an error that is none; without a client nothing is checked.
\<close>

definition validateConversationSite ::
  "'w site_call option \<Rightarrow> string \<Rightarrow> 'w \<Rightarrow> (nat \<times> string + site option) \<times> 'w" where
  "validateConversationSite siteClient siteID w =
     (case siteClient of
        None \<Rightarrow> (Inr None, w)
      | Some GetSite \<Rightarrow>
          if TrimSpace siteID = [] then (Inl (409, ''site is unavailable''), w)
          else case GetSite (TrimSpace siteID) w of
              (Inl (Some (code, _)), w1) \<Rightarrow>
                (Inl (case code of
                        NotFound \<Rightarrow> (409, ''site is unavailable'')
                      | DeadlineExceeded \<Rightarrow> (504, ''upstream timeout'')
                      | _ \<Rightarrow> (502, ''upstream unavailable'')), w1)
            | (Inl None, w1) \<Rightarrow> (Inl (502, ''upstream unavailable''), w1)
            | (Inr s, w1) \<Rightarrow>
                if TrimSpace (ToLower (site_Status s)) \<noteq> ''active''
                then (Inl (409, ''site is not active''), w1)
                else (Inr (Some s), w1))"

record connectionContext =
  ctx_Role :: string
  ctx_AgentID :: uint64
  ctx_SiteID :: string
  ctx_SiteDomains :: "string list"
  ctx_VisitorToken :: string

record sendMessagePayload =
  smp_SenderType :: string
  smp_Content :: string
  smp_ClientMsgID :: string
  smp_VisitorToken :: string
  smp_SenderID :: string

text \<open>
  The sender of a message, as the connection allows it: the type, the id and the token to pass on,
  or the reason of the refusal.
\<close>

definition resolve_sender :: "connectionContext \<Rightarrow> sendMessagePayload \<Rightarrow> string + string \<times> string \<times> string" where
  "resolve_sender connCtx p =
     (let t = ToLower (TrimSpace (smp_SenderType p));
          senderType = (if t = [] then ''visitor'' else t)
      in if senderType = ''visitor'' then
           (if ctx_Role connCtx \<noteq> ''visitor'' then Inl ''agent connection cannot send visitor message''
            else
              let tok = TrimSpace (smp_VisitorToken p);
                  token = (if tok = [] then ctx_VisitorToken connCtx else tok)
              in if token \<noteq> ctx_VisitorToken connCtx then Inl ''invalid visitor_token''
                 else Inr (senderType, TrimSpace (smp_SenderID p), token))
         else if senderType = ''agent'' then
           (if ctx_Role connCtx \<noteq> ''agent'' then Inl ''agent access_token is required''
            else Inr (senderType, FormatUint (ctx_AgentID connCtx), smp_VisitorToken p))
         else Inl ''invalid sender_type'')"

type_synonym 'w create_call = "CreateMessageInput \<Rightarrow> 'w \<Rightarrow> (string + message_pb) \<times> 'w"

definition sendNack :: "client \<Rightarrow> string \<Rightarrow> string \<Rightarrow> client" where
  "sendNack c clientMsgID reason = snd (TrySend (message_nack clientMsgID reason) c)"

definition onSendMessage ::
  "'w site_call option \<Rightarrow> 'w create_call \<Rightarrow> string \<Rightarrow> sendMessagePayload option \<Rightarrow> client \<Rightarrow> connectionContext \<Rightarrow> 'w \<Rightarrow>
   (string + unit) \<times> client \<times> 'w" where
  "onSendMessage siteClient create conversationID raw c connCtx w =
     (case raw of
        None \<Rightarrow> (Inl ''invalid message.send payload'', c, w)
      | Some p \<Rightarrow>
          let id = TrimSpace (smp_ClientMsgID p);
              nack = (\<lambda>reason w'. (Inr (), sendNack c id reason, w'))
          in if id = [] then (Inl ''client_msg_id is required'', c, w)
             else if TrimSpace (smp_Content p) = [] then nack ''content is required'' w
             else if RuneCountInString (smp_Content p) > ws_maxMessageContentChars
             then nack ''content is too long (max 2000 characters)'' w
             else case ParseUint conversationID of
                 None \<Rightarrow> nack ''invalid conversation_id'' w
               | Some conversationIDUint \<Rightarrow>
                   if ctx_SiteID connCtx = [] then nack ''site is unavailable'' w
                   else case validateConversationSite siteClient (ctx_SiteID connCtx) w of
                       (Inl (_, reason), w1) \<Rightarrow> nack reason w1
                     | (Inr _, w1) \<Rightarrow>
                         (case resolve_sender connCtx p of
                            Inl reason \<Rightarrow> nack reason w1
                          | Inr (senderType, senderID, visitorToken) \<Rightarrow>
                              (case create \<lparr>cmi_ConversationID = conversationIDUint, cmi_SenderType = senderType,
                                       cmi_SenderID = senderID, cmi_Content = smp_Content p,
                                       cmi_ClientMsgID = id, cmi_VisitorToken = visitorToken\<rparr> w1 of
                                 (Inl err, w2) \<Rightarrow> nack err w2
                               | (Inr m, w2) \<Rightarrow>
                                   (case TrySend (message_ack id (pbm_Id m) (pbm_Status m)) c of
                                      (True, c') \<Rightarrow> (Inr (), c', w2)
                                    | (False, c') \<Rightarrow> (Inl ''client ack queue is full'', c', w2)))))"

text \<open>A message from the socket, decoded: \<open>None\<close> when it is no envelope.\<close>

definition handleMessage ::
  "'w site_call option \<Rightarrow> 'w create_call \<Rightarrow> string \<Rightarrow> (string \<times> sendMessagePayload option) option \<Rightarrow> client \<Rightarrow>
   connectionContext \<Rightarrow> 'w \<Rightarrow> (string + unit) \<times> client \<times> 'w" where
  "handleMessage siteClient create conversationID raw c connCtx w =
     (case raw of
        None \<Rightarrow> (Inl ''invalid payload'', c, w)
      | Some (t, payload) \<Rightarrow>
          if t = ''message.send'' then onSendMessage siteClient create conversationID payload c connCtx w
          else (Inl ''unsupported message type'', c, w))"

text \<open>One turn of \<open>ReadLoop\<close>: an error of the handler is offered to the browser.\<close>

definition read_turn ::
  "'w site_call option \<Rightarrow> 'w create_call \<Rightarrow> string \<Rightarrow> (string \<times> sendMessagePayload option) option \<Rightarrow> client \<Rightarrow>
   connectionContext \<Rightarrow> 'w \<Rightarrow> client \<times> 'w" where
  "read_turn siteClient create conversationID raw c connCtx w =
     (case handleMessage siteClient create conversationID raw c connCtx w of
        (Inr _, c', w') \<Rightarrow> (c', w')
      | (Inl err, c', w') \<Rightarrow> (snd (TrySend (error_frame err) c'), w'))"

section \<open>The replay against a paged history\<close>

text \<open>
  What the handler needs of chat-service: the history of a conversation in descending order of
  positive numbers, of which a call returns the next page below a cursor.
\<close>

locale paged_history =
  fixes ListM :: "'w list_call" and conversationID :: uint64
    and history :: "'w \<Rightarrow> message_pb list" and ok :: "'w \<Rightarrow> bool"
  assumes descending: "ok w \<Longrightarrow> sorted_wrt (\<lambda>a b. pbm_Id b < pbm_Id a) (history w)"
    and positive: "ok w \<Longrightarrow> m \<in> set (history w) \<Longrightarrow> 0 < pbm_Id m"
    and page: "ok w \<Longrightarrow> ListM conversationID replayPageSize before w = (Inr items, w') \<Longrightarrow>
        items = take replayPageSize (filter (\<lambda>m. before > 0 \<longrightarrow> pbm_Id m < before) (history w))
        \<and> ok w' \<and> history w' = history w"

lemma scan_page_eq:
  assumes "length missed < maxReplayMessages"
  shows "scan_page l items missed =
    (let new = takeWhile (\<lambda>m. l < pbm_Id m) items in
     if maxReplayMessages \<le> length missed + length new
     then (missed @ take (maxReplayMessages - length missed) new, True, True)
     else (missed @ new, new \<noteq> items, False))"
  using assms
proof (induction l items missed rule: scan_page.induct)
  case (2 l item items missed)
  show ?case
  proof (cases "l < pbm_Id item \<and> length (missed @ [item]) < maxReplayMessages")
    case True
    then have "maxReplayMessages - length missed = Suc (maxReplayMessages - length (missed @ [item]))"
      by (simp add: Suc_diff_Suc)
    with 2 True show ?thesis by (auto simp: Let_def)
  next
    case False
    show ?thesis
    proof (cases "l < pbm_Id item")
      case True
      with False "2.prems" have "maxReplayMessages = Suc (length missed)" by simp
      then have "maxReplayMessages - length missed = Suc 0" "maxReplayMessages = Suc (length missed)" by simp_all
      with True show ?thesis by (simp add: Let_def)
    next
      case False
      with "2.prems" show ?thesis by (simp add: Let_def)
    qed
  qed
qed simp

lemma takeWhile_descending:
  fixes key :: "'r \<Rightarrow> nat"
  shows "sorted_wrt (\<lambda>a b. key b < key a) xs \<Longrightarrow> takeWhile (\<lambda>x. l < key x) xs = filter (\<lambda>x. l < key x) xs"
proof (induction xs)
  case (Cons x xs)
  then have "\<not> l < key x \<Longrightarrow> filter (\<lambda>x. l < key x) xs = []" by (auto simp: filter_empty_conv)
  with Cons show ?case by simp
qed simp

context paged_history
begin

lemma page_after:
  assumes "ok w" "k \<le> length (history w)"
    and before: "before = (if k = 0 then 0 else pbm_Id (history w ! (k - 1)))"
  shows "filter (\<lambda>m. before > 0 \<longrightarrow> pbm_Id m < before) (history w) = drop k (history w)"
proof (cases k)
  case (Suc j)
  with assms(2) have j: "j < length (history w)" by simp
  then have "0 < before" using positive [OF assms(1) nth_mem [OF j]] Suc before by simp
  then have "filter (\<lambda>m. before > 0 \<longrightarrow> pbm_Id m < before) (history w)
      = filter (\<lambda>m. pbm_Id m < pbm_Id (history w ! j)) (history w)"
    using Suc before by simp
  also have "\<dots> = drop (Suc j) (history w)" by (rule filter_below_nth [OF descending [OF assms(1)] j])
  finally show ?thesis using Suc by simp
qed (simp add: before)

lemma collect_from:
  "collect_missed ListM conversationID l before missed w = (Inr (out, tr), w') \<Longrightarrow>
   ok w \<Longrightarrow> length missed < maxReplayMessages \<Longrightarrow> missed = take (length missed) (history w) \<Longrightarrow>
   \<forall>m \<in> set missed. l < pbm_Id m \<Longrightarrow>
   before = (if missed = [] then 0 else pbm_Id (last missed)) \<Longrightarrow>
   out = take maxReplayMessages (takeWhile (\<lambda>m. l < pbm_Id m) (history w))
   \<and> tr = (maxReplayMessages \<le> length (takeWhile (\<lambda>m. l < pbm_Id m) (history w))) \<and> ok w' \<and> history w' = history w"
proof (induction "maxReplayMessages - length missed" arbitrary: before missed w rule: less_induct)
  case less
  let ?H = "history w" and ?k = "length missed"
  let ?T = "takeWhile (\<lambda>m. l < pbm_Id m) ?H"
  have k: "?k \<le> length ?H" using arg_cong [OF less.prems(4), of length] by simp
  obtain r1 w1 where 1: "ListM conversationID replayPageSize before w = (r1, w1)" by fastforce
  from less.prems(1,3) 1 obtain items where items: "r1 = Inr items"
    by (cases r1) (auto simp: collect_missed.simps [of _ _ _ before missed w])
  have before: "before = (if ?k = 0 then 0 else pbm_Id (?H ! (?k - 1)))"
  proof (cases "missed = []")
    case False
    then have "last missed = missed ! (?k - 1)" by (rule last_conv_nth)
    also have "\<dots> = take ?k ?H ! (?k - 1)" using less.prems(4) by simp
    also have "\<dots> = ?H ! (?k - 1)" using False by simp
    finally show ?thesis using less.prems(6) False by simp
  qed (simp add: less.prems(6))
  from page [OF less.prems(2) 1 [unfolded items]] page_after [OF less.prems(2) k before]
  have pg: "items = take replayPageSize (drop ?k ?H)" and ok1: "ok w1" and h1: "history w1 = ?H" by auto
  have split: "?H = missed @ drop ?k ?H" using less.prems(4) by (metis append_take_drop_id)
  then have T: "?T = missed @ takeWhile (\<lambda>m. l < pbm_Id m) (drop ?k ?H)"
    using less.prems(5) by (metis takeWhile_append2)
  let ?new = "takeWhile (\<lambda>m. l < pbm_Id m) items"
  have rest: "drop ?k ?H = items @ drop replayPageSize (drop ?k ?H)"
    unfolding pg by (rule append_take_drop_id [symmetric])
  have new: "?new \<noteq> items \<Longrightarrow> takeWhile (\<lambda>m. l < pbm_Id m) (drop ?k ?H) = ?new"
    using rest by (metis takeWhile_append1 takeWhile_eq_all_conv)
  have pre: "\<exists>zs. takeWhile (\<lambda>m. l < pbm_Id m) (drop ?k ?H) = ?new @ zs"
    using new rest by (metis append_Nil2 takeWhile_append2 takeWhile_eq_all_conv)
  consider "items = []" | "items \<noteq> []" "maxReplayMessages \<le> ?k + length ?new"
    | "items \<noteq> []" "\<not> maxReplayMessages \<le> ?k + length ?new" "?new \<noteq> items"
    | "items \<noteq> []" "\<not> maxReplayMessages \<le> ?k + length ?new" "?new = items" by blast
  then show ?case
  proof cases
    case 1
    then have "drop ?k ?H = []" using pg by (simp add: replayPageSize_def)
    with T less.prems(1,3) 1 \<open>ListM _ _ _ _ = _\<close> items ok1 h1 show ?thesis
      by (simp add: collect_missed.simps [of _ _ _ before missed w])
  next
    case 2
    with less.prems(1,3) \<open>ListM _ _ _ _ = _\<close> items
    have out: "out = missed @ take (maxReplayMessages - ?k) ?new" "tr" "w' = w1"
      by (auto simp: collect_missed.simps [of _ _ _ before missed w] scan_page_eq [OF less.prems(3)] Let_def)
    from pre obtain zs where zs: "?T = missed @ ?new @ zs" using T by auto
    with 2 less.prems(3) out ok1 h1 show ?thesis by simp
  next
    case 3
    with less.prems(1,3) \<open>ListM _ _ _ _ = _\<close> items
    have "out = missed @ ?new" "\<not> tr" "w' = w1"
      by (auto simp: collect_missed.simps [of _ _ _ before missed w] scan_page_eq [OF less.prems(3)] Let_def)
    with 3 T new ok1 h1 show ?thesis by simp
  next
    case 4
    let ?m = "missed @ items"
    have "last items \<in> set ?H" using 4(1) pg by (metis in_set_dropD in_set_takeD last_in_set)
    then have "0 < pbm_Id (last items)" using positive [OF less.prems(2)] by blast
    with less.prems(1,3) \<open>ListM _ _ _ _ = _\<close> items 4
    have run: "collect_missed ListM conversationID l (pbm_Id (last items)) ?m w1 = (Inr (out, tr), w')"
      by (auto simp: collect_missed.simps [of _ _ _ before missed w] scan_page_eq [OF less.prems(3)] Let_def)
    have shorter: "maxReplayMessages - length ?m < maxReplayMessages - length missed"
      using 4(1) less.prems(3) by (cases items) auto
    have prefix: "?m = take (length ?m) (history w1)"
      using split rest unfolding h1 by (metis append_assoc append_eq_conv_conj length_append)
    have all: "\<forall>m \<in> set ?m. l < pbm_Id m"
      using less.prems(5) 4(3) by (metis Un_iff set_append takeWhile_eq_all_conv)
    have len: "length ?m < maxReplayMessages" using 4 by simp
    have bef: "pbm_Id (last items) = (if ?m = [] then 0 else pbm_Id (last ?m))" using 4(1) by simp
    from less.hyps [OF shorter run ok1 len prefix all bef] show ?thesis unfolding h1 .
  qed
qed

text \<open>The messages after the last one seen, the newest 500 of them at most.\<close>

lemma collect_missed_spec:
  assumes "collect_missed ListM conversationID l 0 [] w = (Inr (out, tr), w')" "ok w"
  defines "new \<equiv> filter (\<lambda>m. l < pbm_Id m) (history w)"
  shows "out = take maxReplayMessages new \<and> tr = (maxReplayMessages \<le> length new)"
  using collect_from [OF assms(1,2)] takeWhile_descending [OF descending [OF assms(2)], of l]
  by (simp add: maxReplayMessages_def new_def)

end

section \<open>The handler on top of chat-service\<close>

text \<open>
  \<^verbatim>\<open>services/realtime-service/internal/chatclient/client.go\<close>: the calls of the handler reach the gRPC
  servers of chat-service.  \<open>render\<close> is the text gRPC gives a status error.
\<close>

definition client_ListMessages :: "(grpc_error \<Rightarrow> string) \<Rightarrow> env \<Rightarrow> world list_call" where
  "client_ListMessages render e conversationID limit beforeID w =
     (case gw_ListMessages e conversationID (int limit) beforeID w of
        (Inl err, w1) \<Rightarrow> (Inl (render err), w1)
      | (Inr items, w1) \<Rightarrow> (Inr items, w1))"

definition client_CreateMessage :: "(grpc_error \<Rightarrow> string) \<Rightarrow> env \<Rightarrow> chat_service \<Rightarrow> world create_call" where
  "client_CreateMessage render e s req w =
     (case grpc_CreateMessage e s req w of
        (Inl err, w1) \<Rightarrow> (Inl (render err), w1)
      | (Inr m, w1) \<Rightarrow> (Inr m, w1))"

definition chat_history :: "uint64 \<Rightarrow> world \<Rightarrow> message_pb list" where
  "chat_history i w = map toMessagePB (page_source w i 0)"

lemma chat_history_before:
  "filter (\<lambda>m. before > 0 \<longrightarrow> pbm_Id m < before) (chat_history i w) = map toMessagePB (page_source w i before)"
  unfolding chat_history_def page_source_def
  by (auto simp: filter_map rev_filter [symmetric] toMessagePB_def comp_def intro!: filter_cong)

lemma client_ListMessages_ok:
  assumes "client_ListMessages render e i n before w = (Inr items, w')" "store_inv e w" "0 < n" "n \<le> 200"
  shows "items = take n (map toMessagePB (page_source w i before)) \<and> db w' = db w \<and> store_inv e w'"
proof -
  from assms(1,3,4) obtain page where run: "ListMessages e i n before w = (Inr page, w')" "items = map toMessagePB page"
    by (auto simp: client_ListMessages_def gw_ListMessages_def reply_def Let_def
        split: prod.splits sum.splits if_splits)
  from ListMessages_ok [OF assms(2) run(1)] run(2) show ?thesis
    using read_operations_evolve(3) [OF run(1)] assms(2) by (simp add: take_map)
qed

interpretation chat_pages: paged_history "client_ListMessages render e" i "chat_history i" "store_inv e" for render e i
proof
  fix w assume inv: "store_inv e w"
  show "sorted_wrt (\<lambda>a b. pbm_Id b < pbm_Id a) (chat_history i w)"
    using page_source_descending [OF inv, of i 0] by (simp add: chat_history_def sorted_wrt_map toMessagePB_def)
  fix m assume "m \<in> set (chat_history i w)"
  then show "0 < pbm_Id m"
    using inv by (auto simp: chat_history_def page_source_def toMessagePB_def store_inv_def messages_inv_def keys_below_def)
next
  fix w before items w' assume inv: "store_inv e w"
    and run: "client_ListMessages render e i replayPageSize before w = (Inr items, w')"
  from client_ListMessages_ok [OF run inv]
  have "items = take replayPageSize (map toMessagePB (page_source w i before))" "db w' = db w" "store_inv e w'"
    by (simp_all add: replayPageSize_def)
  moreover have "chat_history i w' = chat_history i w" using \<open>db w' = db w\<close> by (simp add: chat_history_def page_source_def)
  ultimately show "items = take replayPageSize (filter (\<lambda>m. before > 0 \<longrightarrow> pbm_Id m < before) (chat_history i w))
      \<and> store_inv e w' \<and> chat_history i w' = chat_history i w"
    by (simp add: chat_history_before)
qed

lemma drain_queue_simps [simp]: "accepted (drain_queue n c) = accepted c" "closed (drain_queue n c) = closed c"
  by (induction n c rule: drain_queue.induct) simp_all

lemma send_frames_ok: "send_frames drain k fs c = (True, c') \<Longrightarrow> accepted c' = accepted c @ fs"
proof (induction fs arbitrary: k c)
  case (Cons f fs)
  obtain sent c1 where 1: "TrySend f (drain_queue (drain k) c) = (sent, c1)" by fastforce
  with Cons.prems have sent and 2: "send_frames drain (Suc k) fs c1 = (True, c')" by (auto split: bool.splits)
  with 1 have "accepted c1 = accepted c @ [f]" using TrySend_spec(1) [of f "drain_queue (drain k) c" c1] by simp
  with Cons.IH [OF 2] show ?case by simp
qed simp

lemma insort_last: "\<forall>y \<in> set ys. f y < f x \<Longrightarrow> insort_key f x ys = ys @ [x]"
  by (induction ys) (auto simp: not_le)

lemma sort_descending:
  "sorted_wrt (\<lambda>a b. pbm_Id b < pbm_Id a) xs \<Longrightarrow> sort_key pbm_Id xs = rev xs"
  by (induction xs) (simp_all add: insort_last)

text \<open>The missed messages of a reconnecting browser: the newest 500 after the last one it has seen.\<close>

definition missed_messages :: "uint64 \<Rightarrow> uint64 \<Rightarrow> world \<Rightarrow> message_pb list" where
  "missed_messages i lastID w = take maxReplayMessages (filter (\<lambda>m. lastID < pbm_Id m) (chat_history i w))"

lemma replayMessages_ok:
  assumes inv: "store_inv e w" and l: "lastID \<noteq> 0"
    and run: "replayMessages (client_ListMessages render e) drain i lastID c w = (Inr u, c', w')"
  shows "\<exists>truncated. accepted c' = accepted c @ map (marshalMessageNewEvent i) (rev (missed_messages i lastID w))
      @ [replay_end_of i lastID (rev (missed_messages i lastID w)) truncated]
    \<and> truncated = (maxReplayMessages \<le> length (filter (\<lambda>m. lastID < pbm_Id m) (chat_history i w)))"
proof -
  obtain r1 w1 where 1: "collect_missed (client_ListMessages render e) i lastID 0 [] w = (r1, w1)" by fastforce
  from run l 1 obtain out tr where r1: "r1 = Inr (out, tr)" by (cases r1) (auto simp: replayMessages_def)
  from chat_pages.collect_missed_spec [OF 1 [unfolded r1] inv]
  have out: "out = missed_messages i lastID w"
    "tr = (maxReplayMessages \<le> length (filter (\<lambda>m. lastID < pbm_Id m) (chat_history i w)))"
    by (simp_all add: missed_messages_def)
  have "sorted_wrt (\<lambda>a b. pbm_Id b < pbm_Id a) out"
    unfolding out(1) missed_messages_def by (intro sorted_wrt_take sorted_wrt_filter chat_pages.descending [OF inv])
  then have srt: "sort_key pbm_Id out = rev out" by (rule sort_descending)
  obtain s1 c1 where 2: "send_frames drain 0 (map (marshalMessageNewEvent i) (rev out)) c = (s1, c1)" by fastforce
  obtain s2 c2 where 3: "send_frames drain (length (rev out)) [replay_end_of i lastID (rev out) tr] c1 = (s2, c2)"
    by fastforce
  from run l 1 r1 srt 2 3 have "s1" "s2" "c' = c2"
    by (auto simp: replayMessages_def Let_def split: bool.splits)
  with send_frames_ok [of drain _ _ c c1] send_frames_ok [of drain _ _ c1 c2] 2 3 have
    "accepted c' = accepted c @ map (marshalMessageNewEvent i) (rev out) @ [replay_end_of i lastID (rev out) tr]"
    by fastforce
  with out show ?thesis by blast
qed

end
