(* ===== verification/Text_Laws.thy ===== *)
theory Text_Laws
  imports Prelude
begin

text \<open>Further laws of the string functions: texts without space at their ends, and decimal numbers.\<close>

lemma strip_seqs_hd:
  assumes "\<And>p. p \<in> set ps \<Longrightarrow> hd p \<noteq> hd s" "s \<noteq> []"
  shows "strip_seqs ps s = s"
proof -
  have "\<not> HasPrefix s p" if "p \<in> set ps" "p \<noteq> []" for p
    using assms(1) [OF that(1)] that(2) assms(2) by (cases p; cases s) (auto simp: HasPrefix_def)
  then have "find (\<lambda>p. p \<noteq> [] \<and> HasPrefix s p) ps = None" by (auto simp: find_None_iff)
  then show ?thesis by (rule strip_seqs_stuck)
qed

text \<open>The bytes that a space of Go starts or ends with.\<close>

definition edge_bytes :: "char set" where
  "edge_bytes = hd ` set space_seqs \<union> last ` set space_seqs"

lemma edge_bytes_code: "c \<in> edge_bytes \<longleftrightarrow> c \<in> set (map hd space_seqs @ map last space_seqs)"
  by (simp add: edge_bytes_def)

lemma space_seqs_nonempty: "p \<in> set space_seqs \<Longrightarrow> p \<noteq> []"
  by (auto simp: space_seqs_def)

lemma TrimSpace_id:
  assumes "s \<noteq> []" "hd s \<notin> edge_bytes" "last s \<notin> edge_bytes"
  shows "TrimSpace s = s"
proof -
  have 1: "strip_seqs space_seqs s = s"
    using assms(1,2) by (intro strip_seqs_hd) (metis UnI1 edge_bytes_def imageI, simp)
  have "strip_seqs (map rev space_seqs) (rev s) = rev s"
  proof (rule strip_seqs_hd)
    fix p assume "p \<in> set (map rev space_seqs)"
    then obtain q where "q \<in> set space_seqs" "hd p = last q" by (auto simp: hd_rev)
    with assms(1,3) show "hd p \<noteq> hd (rev s)" by (metis UnI2 edge_bytes_def hd_rev imageI)
  qed (simp add: assms(1))
  with 1 show ?thesis by (simp add: TrimSpace_def)
qed

lemma digit_not_edge: "is_digit c \<Longrightarrow> c \<notin> edge_bytes"
  unfolding edge_bytes_code is_digit_code by (auto simp: space_seqs_def)

lemma TrimSpace_digits [simp]: "list_all is_digit s \<Longrightarrow> TrimSpace s = s"
  by (cases "s = []") (auto simp: list_all_iff digit_not_edge intro!: TrimSpace_id)

lemma TrimSpace_FormatUint [simp]: "TrimSpace (FormatUint n) = FormatUint n"
  by (simp add: FormatUint_digits)

lemma ParseUint_Format_iff: "ParseUint (FormatUint n) = Some m \<longleftrightarrow> m = n \<and> n < 2 ^ 64"
  by (auto simp: ParseUint_def FormatUint_digits)

lemma FormatUint_length: "n < 10 ^ k \<Longrightarrow> 0 < k \<Longrightarrow> length (FormatUint n) \<le> k"
proof (induction k arbitrary: n)
  case (Suc k)
  show ?case
  proof (cases "n < 10")
    case True
    then show ?thesis by (subst FormatUint.simps) simp
  next
    case False
    with Suc.prems have "n div 10 < 10 ^ k" "0 < k" by (auto intro!: Nat.gr0I)
    with Suc.IH [of "n div 10"] False show ?thesis by (subst FormatUint.simps) simp
  qed
qed simp

lemma decimal_value_zeros: "decimal_value (replicate k (CHR ''0'') @ s) = decimal_value s"
proof -
  have "foldl (\<lambda>a c. 10 * a + digit_value c) 0 (replicate k (CHR ''0'')) = 0"
    by (induction k) (simp_all add: digit_value_def)
  then show ?thesis by (simp add: decimal_value_def)
qed

lemma format_04d_digits: "list_all is_digit (format_04d n)"
  by (simp add: format_04d_def FormatUint_digits list_all_iff [of _ "replicate _ _"] is_digit_code)

lemma format_04d_value [simp]: "decimal_value (format_04d n) = n"
  by (simp add: format_04d_def decimal_value_zeros)

lemma format_04d_length: "n < 10000 \<Longrightarrow> length (format_04d n) = 4"
  using FormatUint_length [of n 4] by (simp add: format_04d_def)

end
