(* ===== verification/Realtime_Behaviour.thy ===== *)
theory Realtime_Behaviour
  imports Realtime_Ws Text_Laws
begin

text \<open>
  What a browser can rely on: the stream of a session (replay, then every broadcast, without gaps), the
  room the replay needs in the send queue, and the sender of what it sends.
\<close>

section \<open>The stream of a session\<close>

text \<open>The messages of a conversation after a given one, oldest first.\<close>

definition messages_after :: "uint64 \<Rightarrow> uint64 \<Rightarrow> world \<Rightarrow> message list" where
  "messages_after i lastID w = filter (\<lambda>m. msg_ConversationID m = i \<and> lastID < msg_ID m) (messages (db w))"

lemma chat_history_after:
  "filter (\<lambda>m. lastID < pbm_Id m) (chat_history i w) = rev (map toMessagePB (messages_after i lastID w))"
  by (simp add: chat_history_def page_source_def messages_after_def rev_map [symmetric] rev_filter [symmetric] filter_map
      comp_def toMessagePB_def conj_commute)





text \<open>A browser that has seen the first message of the demonstration reconnects.\<close>

definition demo_hub :: hub where
  "demo_hub = NewHub (\<lambda>_. NewClient)"

definition demo_list :: "world list_call" where
  "demo_list = client_ListMessages snd demo_env"





section \<open>The room a replay needs\<close>

lemma drain_none [simp]: "drain_queue ((\<lambda>_. 0) k) c = c" by simp

lemma send_frames_undrained:
  assumes "\<not> closed c" "length (send c) \<le> send_capacity"
  shows "fst (send_frames (\<lambda>_. 0) k fs c) \<longleftrightarrow> length (send c) + length fs \<le> send_capacity"
    and "fst (send_frames (\<lambda>_. 0) k fs c) \<Longrightarrow>
      snd (send_frames (\<lambda>_. 0) k fs c) = c\<lparr>send := send c @ fs\<rparr>"
  using assms
  by (induction fs arbitrary: k c) (auto simp: TrySend_def split: bool.splits prod.splits)

text \<open>
  C29.  How large a replay may be before the browser takes anything from its queue: when the messages
  could be read, a session whose write loop has not started yet opens exactly if fewer than 64 messages
  are replayed, for the 64 places of the queue must hold them and the end of the replay; with 64 or
  more it is closed again, although a replay may have 500.
\<close>

theorem replay_needs_draining:
  assumes "store_inv e w" "lastID \<noteq> 0"
    and "collect_missed (client_ListMessages render e) i lastID 0 [] w = (Inr out, w1)"
  shows "fst (open_session (client_ListMessages render e) (\<lambda>_. 0) param i lastID x h w)
    \<longleftrightarrow> length (messages_after i lastID w) < 64"
proof -
  obtain collected tr where out: "out = (collected, tr)" by fastforce
  from chat_pages.collect_missed_spec [OF assms(3) [unfolded out] assms(1)]
  have len: "length collected = min 500 (length (messages_after i lastID w))"
    by (simp add: chat_history_after maxReplayMessages_def)
  let ?missed = "sort_key pbm_Id collected"
  let ?fs = "map (marshalMessageNewEvent i) ?missed"
  let ?s1 = "send_frames (\<lambda>_. 0) 0 ?fs NewClient"
  have start: "\<not> closed NewClient" "length (send NewClient) \<le> send_capacity" "send NewClient = []"
    by (simp_all add: NewClient_def)
  note s1 = send_frames_undrained [OF start(1,2), of 0 ?fs]
  have "fst (open_session (client_ListMessages render e) (\<lambda>_. 0) param i lastID x h w)
    \<longleftrightarrow> fst ?s1 \<and> fst (send_frames (\<lambda>_. 0) (length ?missed) [replay_end_of i lastID ?missed tr] (snd ?s1))"
    using assms(2,3) out
    by (auto simp: open_session_def Let_def replayMessages_def split: prod.splits bool.splits sum.splits)
  also have "\<dots> \<longleftrightarrow> length collected < 64"
  proof (cases "fst ?s1")
    case True
    with s1 start(3) have c1: "snd ?s1 = NewClient\<lparr>send := ?fs\<rparr>" "length collected \<le> send_capacity" by simp_all
    then have "\<not> closed (snd ?s1)" "length (send (snd ?s1)) \<le> send_capacity" using start(1) by simp_all
    from send_frames_undrained(1) [OF this, of "length ?missed" "[replay_end_of i lastID ?missed tr]"] True c1
    show ?thesis by (auto simp: send_capacity_def)
  next
    case False
    then show ?thesis using s1(1) start(3) by (simp add: send_capacity_def)
  qed
  finally show ?thesis using len by (simp add: min_less_iff_disj)
qed

theorem replay_needs_draining_witness:
  "fst (open_session demo_list (\<lambda>_. 0) ''1'' 1 1 3 demo_hub demo_w4) \<and> length (messages_after 1 1 demo_w4) < 64"
proof -
  let ?run = "collect_missed (client_ListMessages snd demo_env) 1 1 0 [] demo_w4"
  have "\<not> isl (fst ?run)" "length (messages_after 1 1 demo_w4) < 64" by code_simp+
  then obtain out w1 where "?run = (Inr out, w1)" "length (messages_after 1 1 demo_w4) < 64"
    by (cases ?run; cases "fst ?run") auto
  with replay_needs_draining [OF demo_inv(4) _ this(1), of "''1''" 3 demo_hub] show ?thesis
    by (simp add: demo_list_def)
qed

section \<open>Sending\<close>

text \<open>
  What a turn of the read loop stored: the answer of \<open>create\<close> to a request whose sender the connection
  fixes.
\<close>

lemma read_turn_cases:
  assumes "read_turn siteClient create param raw c ctx w = (c', w')"
    and "\<And>GetSite i v. siteClient = Some GetSite \<Longrightarrow> snd (GetSite i v) = v"
  obtains (nothing) "w' = w"
  | (created) i t sid tok content k where "ParseUint param = Some i"
      "snd (create \<lparr>cmi_ConversationID = i, cmi_SenderType = t, cmi_SenderID = sid, cmi_Content = content,
         cmi_ClientMsgID = k, cmi_VisitorToken = tok\<rparr> w) = w'"
      "t = ''visitor'' \<and> ctx_Role ctx = ''visitor'' \<and> tok = ctx_VisitorToken ctx
       \<or> t = ''agent'' \<and> ctx_Role ctx = ''agent'' \<and> sid = FormatUint (ctx_AgentID ctx)"
proof -
  have site: "validateConversationSite siteClient id w = (r, v) \<Longrightarrow> v = w" for id r v
    using assms(2) [of _ "TrimSpace id" w]
    by (auto simp: validateConversationSite_def split: option.splits if_splits prod.splits sum.splits)
  have sender: "resolve_sender ctx p = Inr (t, sid, tok) \<Longrightarrow>
      t = ''visitor'' \<and> ctx_Role ctx = ''visitor'' \<and> tok = ctx_VisitorToken ctx
      \<or> t = ''agent'' \<and> ctx_Role ctx = ''agent'' \<and> sid = FormatUint (ctx_AgentID ctx)" for p t sid tok
    by (auto simp: resolve_sender_def Let_def split: if_splits)
  obtain r1 c1 w1 where 1: "handleMessage siteClient create param raw c ctx w = (r1, c1, w1)" by (metis prod_cases3)
  with assms(1) have w1: "w' = w1" by (auto simp: read_turn_def split: sum.splits)
  show ?thesis
  proof (cases "w1 = w")
    case True
    with w1 have "w' = w" by simp
    then show ?thesis by (rule nothing)
  next
    case False
    then obtain p where p: "raw = Some (''message.send'', Some p)"
      using 1 by (auto simp: handleMessage_def onSendMessage_def split: option.splits if_splits)
    from 1 False site p obtain i where i: "ParseUint param = Some i"
      by (auto simp: handleMessage_def onSendMessage_def Let_def split: option.splits if_splits)
    obtain v r where v: "validateConversationSite siteClient (ctx_SiteID ctx) w = (v, r)" by fastforce
    with site have r: "r = w" by blast
    from 1 False p i v r obtain t sid tok where send: "resolve_sender ctx p = Inr (t, sid, tok)"
      by (auto simp: handleMessage_def onSendMessage_def Let_def split: if_splits sum.splits)
    let ?req = "\<lparr>cmi_ConversationID = i, cmi_SenderType = t, cmi_SenderID = sid, cmi_Content = smp_Content p,
         cmi_ClientMsgID = TrimSpace (smp_ClientMsgID p), cmi_VisitorToken = tok\<rparr>"
    from 1 False p i v r send have "snd (create ?req w) = w1"
      by (auto simp: handleMessage_def onSendMessage_def Let_def split: if_splits sum.splits prod.splits bool.splits)
    with w1 show ?thesis by (intro created [OF i _ sender [OF send]]) simp
  qed
qed

text \<open>
  C24.  A connection cannot speak for anybody else: with the outbox on, a message that a turn of the read
  loop has stored belongs to the open conversation of the connection, and it is either a visitor's, over a
  visitor connection that holds the token of the conversation, or an agent's, over the connection of
  the very agent to whom the conversation is assigned, whatever the browser claims.
\<close>

theorem ws_sender_forced:
  assumes "store_inv e w" "eventOutboxEnabled s"
    and "\<And>GetSite i v. siteClient = Some GetSite \<Longrightarrow> snd (GetSite i v) = v"
    and "read_turn siteClient (client_CreateMessage render e s) param raw c ctx w = (c', w')"
    and "m \<in> set (messages (db w'))" "m \<notin> set (messages (db w))"
  shows "\<exists>conv. ParseUint param = Some (msg_ConversationID m)
    \<and> by_id conv_ID (msg_ConversationID m) (conversations (db w)) = Some conv \<and> is_open conv
    \<and> (msg_SenderType m = ''visitor'' \<and> ctx_Role ctx = ''visitor'' \<and> conv_VisitorToken conv = TrimSpace (ctx_VisitorToken ctx)
       \<or> msg_SenderType m = ''agent'' \<and> ctx_Role ctx = ''agent'' \<and> conv_AssignedAgentID conv = Some (ctx_AgentID ctx))"
  using assms(4,3)
proof (rule read_turn_cases)
  assume "w' = w"
  with assms(5,6) show ?thesis by simp
next
  fix i t sid tok content k
  let ?inp = "\<lparr>cmi_ConversationID = i, cmi_SenderType = t, cmi_SenderID = sid, cmi_Content = content,
         cmi_ClientMsgID = k, cmi_VisitorToken = tok\<rparr>"
  assume i: "ParseUint param = Some i" and run: "snd (client_CreateMessage render e s ?inp w) = w'"
    and sender: "t = ''visitor'' \<and> ctx_Role ctx = ''visitor'' \<and> tok = ctx_VisitorToken ctx
       \<or> t = ''agent'' \<and> ctx_Role ctx = ''agent'' \<and> sid = FormatUint (ctx_AgentID ctx)"
  obtain r v where r: "CreateMessage e s ?inp w = (r, v)" by fastforce
  have w': "w' = w \<or> w' = v"
    using run r by (auto simp: client_CreateMessage_def grpc_CreateMessage_def reply_def split: if_splits prod.splits sum.splits)
  have "\<not> isl r"
    using r assms(2,5,6) w' by (auto simp: CreateMessage_def split: if_splits prod.splits sum.splits dest: withEventTransaction_error)
  then obtain m' where m': "CreateMessage e s ?inp w = (Inr m', v)" using r by (cases r) auto
  from m' show ?thesis
  proof (rule CreateMessage_ok)
    fix conv sid'
    assume c: "by_id conv_ID (cmi_ConversationID ?inp) (conversations (db w)) = Some conv"
      and auth: "authorize_sender ?inp conv = Inr sid'"
      and key: "client_key e m' = (cmi_ConversationID ?inp, collate e (cmi_ClientMsgID ?inp))"
      and out: "messages (db v) = messages (db w) \<and> m' \<in> set (messages (db w))
       \<or> messages (db v) = messages (db w) @ [m'] \<and> client_key e m' \<notin> client_key e ` set (messages (db w))
         \<and> msg_SenderType m' = cmi_SenderType ?inp \<and> msg_SenderID m' = sid' \<and> msg_Content m' = cmi_Content ?inp"
    from out w' assms(5,6) have m: "m = m'" "msg_SenderType m' = t" by auto
    have id: "msg_ConversationID m' = i" using key by (simp add: client_key_def)
    have "conv_wf conv" using assms(1) c by (auto simp: store_inv_def conversations_inv_def dest: by_id_Some)
    then have op: "is_open conv" using auth by (auto simp: is_open_def conv_wf_def dest: authorize_sender_open)
    have who: "t = ''visitor'' \<and> ctx_Role ctx = ''visitor'' \<and> conv_VisitorToken conv = TrimSpace (ctx_VisitorToken ctx)
       \<or> t = ''agent'' \<and> ctx_Role ctx = ''agent'' \<and> conv_AssignedAgentID conv = Some (ctx_AgentID ctx)"
      using sender auth by (auto simp: authorize_sender_def ParseUint_Format_iff split: if_splits option.splits)
    show ?thesis using i id m c op who by auto
  qed
qed

definition demo_ctx :: connectionContext where
  "demo_ctx = \<lparr>ctx_Role = ''agent'', ctx_AgentID = 7, ctx_SiteID = ''site'', ctx_SiteDomains = [], ctx_VisitorToken = []\<rparr>"

definition demo_send :: sendMessagePayload where
  "demo_send = \<lparr>smp_SenderType = ''Agent'', smp_Content = ''hello'', smp_ClientMsgID = ''c2'', smp_VisitorToken = [],
     smp_SenderID = ''8''\<rparr>"

definition demo_turn :: "client \<times> world" where
  "demo_turn = read_turn None (client_CreateMessage snd demo_env demo_service) ''1'' (Some (''message.send'', Some demo_send))
     NewClient demo_ctx demo_w3"

theorem ws_sender_forced_witness:
  "\<exists>m conv. m \<in> set (messages (db (snd demo_turn))) \<and> by_id conv_ID 1 (conversations (db demo_w3)) = Some conv
    \<and> msg_SenderType m = ''agent'' \<and> conv_AssignedAgentID conv = Some 7"
proof -
  have on: "eventOutboxEnabled demo_service" by code_simp
  have new: "length (messages (db (snd demo_turn))) = Suc (length (messages (db demo_w3)))"
    "distinct (map msg_ID (messages (db (snd demo_turn))))" "ctx_Role demo_ctx = ''agent''" "ctx_AgentID demo_ctx = 7"
    "ParseUint ''1'' = Some 1"
    by code_simp+
  have "\<not> set (messages (db (snd demo_turn))) \<subseteq> set (messages (db demo_w3))"
  proof
    assume "set (messages (db (snd demo_turn))) \<subseteq> set (messages (db demo_w3))"
    from card_mono [OF _ this] distinct_card [of "messages (db (snd demo_turn))"] new(1,2)
      card_length [of "messages (db demo_w3)"] show False by (simp add: distinct_map)
  qed
  then obtain m where m: "m \<in> set (messages (db (snd demo_turn)))" "m \<notin> set (messages (db demo_w3))" by blast
  have run: "read_turn None (client_CreateMessage snd demo_env demo_service) ''1'' (Some (''message.send'', Some demo_send))
     NewClient demo_ctx demo_w3 = (fst demo_turn, snd demo_turn)" by (simp add: demo_turn_def)
  from ws_sender_forced [OF demo_inv(3) on _ run m] new(3-5) m(1) show ?thesis by fastforce
qed

end
