(* ===== verification/Rate_Limiter.thy ===== *)
theory Rate_Limiter
  imports Text_Laws "HOL-Library.AList"
begin

text \<open>
  The rate limiter of the gateway: \<^verbatim>\<open>services/gateway-service/internal/ratelimit/limiter.go\<close> and
  \<^verbatim>\<open>redis_counter.go\<close>.  Requests are counted in Redis per key and window; while Redis fails, a
  circuit breaker turns to token buckets in memory.  The token bucket of golang.org/x/time/rate is a
  parameter: \<open>new_bucket\<close> from the rate per minute and the burst, \<open>bucket_allow\<close> at a time.  Every
  look at the clock and every call of Redis consumes a tick; \<open>redis_fault\<close> says whether a call fails, and
  then also whether Redis carried it out all the same.  Redis uses the clock of the gateway.
\<close>

section \<open>State\<close>

record 'b entry =
  bucket :: 'b
  lastSeen :: time

text \<open>The zero time is \<open>None\<close>; \<open>distributed\<close> says whether a counter is set.\<close>

record 'b limiter =
  entries :: "(string \<times> 'b entry) list"
  perMinute :: int
  burst :: int
  ttl :: time
  maxEntries :: int
  lastCleanup :: "time option"
  distributed :: bool
  distributedPrefix :: string
  distributedWindow :: time
  distributedLimit :: int
  circuitOpenWindow :: time
  circuitFailCount :: int
  circuitFailures :: int
  circuitOpenUntil :: "time option"

record 'b limit_world =
  lim :: "'b limiter"
  redis :: "string \<rightharpoonup> int \<times> time"
  lim_tick :: nat

record 'b limit_env =
  lim_clock :: "nat \<Rightarrow> time"
  redis_fault :: "nat \<Rightarrow> (bool \<times> string) option"
  new_bucket :: "int \<Rightarrow> int \<Rightarrow> 'b"
  bucket_allow :: "'b \<Rightarrow> time \<Rightarrow> bool \<times> 'b"

definition lim_Minute :: time where "lim_Minute = 60000000000"
definition lim_Second :: time where "lim_Second = 1000000000"

definition New_limiter :: "int \<Rightarrow> int \<Rightarrow> time \<Rightarrow> int \<Rightarrow> 'b limiter" where
  "New_limiter per_minute burst0 ttl0 max_entries =
     (let pm = (if per_minute \<le> 0 then 60 else per_minute); bu = (if burst0 \<le> 0 then 20 else burst0)
      in \<lparr>entries = [], perMinute = pm, burst = bu, ttl = (if ttl0 \<le> 0 then 30 * lim_Minute else ttl0),
          maxEntries = (if max_entries \<le> 0 then 100000 else max_entries), lastCleanup = None,
          distributed = False, distributedPrefix = [], distributedWindow = 0, distributedLimit = int64 (pm + bu),
          circuitOpenWindow = 0, circuitFailCount = 0, circuitFailures = 0, circuitOpenUntil = None\<rparr>)"

definition EnableDistributedCounterWithCircuit ::
  "string \<Rightarrow> time \<Rightarrow> int \<Rightarrow> time \<Rightarrow> 'b limiter \<Rightarrow> 'b limiter" where
  "EnableDistributedCounterWithCircuit prefix window failCount openWindow l =
     (let p = TrimSpace (ToLower prefix);
          n = int64 (perMinute l + burst l);
          n' = (if n \<le> 0 then perMinute l else n)
      in l\<lparr>distributed := True,
           distributedPrefix := (if p = [] then ''gateway:ratelimit'' else p),
           distributedWindow := (if window \<le> 0 then lim_Minute else window),
           distributedLimit := (if n' \<le> 0 then 1 else n'),
           circuitFailCount := (if failCount \<le> 0 then 3 else failCount),
           circuitOpenWindow := (if openWindow \<le> 0 then 30 * lim_Second else openWindow),
           circuitFailures := 0, circuitOpenUntil := None\<rparr>)"

definition EnableDistributedCounter :: "string \<Rightarrow> time \<Rightarrow> 'b limiter \<Rightarrow> 'b limiter" where
  "EnableDistributedCounter prefix window l = EnableDistributedCounterWithCircuit prefix window 3 (30 * lim_Second) l"

section \<open>The counter in Redis\<close>

definition lim_now :: "'b limit_env \<Rightarrow> 'b limit_world \<Rightarrow> time \<times> 'b limit_world" where
  "lim_now e w = (lim_clock e (lim_tick w), w\<lparr>lim_tick := Suc (lim_tick w)\<rparr>)"

definition live_count :: "time \<Rightarrow> (string \<rightharpoonup> int \<times> time) \<Rightarrow> string \<Rightarrow> int" where
  "live_count now r k = (case r k of None \<Rightarrow> 0 | Some (n, expires) \<Rightarrow> if now < expires then n else 0)"

text \<open>One transaction of \<^verbatim>\<open>INCR\<close> and \<^verbatim>\<open>EXPIRE\<close>.\<close>

definition IncrWithTTL ::
  "'b limit_env \<Rightarrow> string \<Rightarrow> time \<Rightarrow> 'b limit_world \<Rightarrow> (string + int) \<times> 'b limit_world" where
  "IncrWithTTL e key ttl0 w =
     (let life = (if ttl0 \<le> 0 then lim_Minute else ttl0);
          now = lim_clock e (lim_tick w);
          n = live_count now (redis w) key + 1;
          w1 = w\<lparr>lim_tick := Suc (lim_tick w)\<rparr>;
          w2 = w1\<lparr>redis := (redis w)(key \<mapsto> (n, now + life))\<rparr>
      in case redis_fault e (lim_tick w) of
           None \<Rightarrow> (Inr n, w2)
         | Some (applied, err) \<Rightarrow> (Inl err, if applied then w2 else w1))"

section \<open>The circuit breaker\<close>

definition isCircuitOpen :: "time \<Rightarrow> 'b limiter \<Rightarrow> bool \<times> 'b limiter" where
  "isCircuitOpen now l =
     (case circuitOpenUntil l of
        None \<Rightarrow> (False, l)
      | Some u \<Rightarrow> if now < u then (True, l) else (False, l\<lparr>circuitOpenUntil := None\<rparr>))"

definition onDistributedFailure :: "time \<Rightarrow> 'b limiter \<Rightarrow> 'b limiter" where
  "onDistributedFailure now l =
     (let failCount = (if circuitFailCount l \<le> 0 then 3 else circuitFailCount l);
          openWindow = (if circuitOpenWindow l \<le> 0 then 30 * lim_Second else circuitOpenWindow l)
      in if (case circuitOpenUntil l of None \<Rightarrow> False | Some u \<Rightarrow> now < u) then l
         else if circuitFailures l + 1 \<ge> failCount
         then l\<lparr>circuitOpenUntil := Some (now + openWindow), circuitFailures := 0\<rparr>
         else l\<lparr>circuitFailures := circuitFailures l + 1\<rparr>)"

definition onDistributedSuccess :: "'b limiter \<Rightarrow> 'b limiter" where
  "onDistributedSuccess l = l\<lparr>circuitFailures := 0, circuitOpenUntil := None\<rparr>"

section \<open>Deciding\<close>

text \<open>\<^verbatim>\<open>Truncate\<close> counts from the year 1; the number of seconds is written as a decimal.\<close>

definition zero_offset :: time where "zero_offset = 62135596800 * lim_Second"

definition window_bucket :: "time \<Rightarrow> time \<Rightarrow> int" where
  "window_bucket window now = ((now + zero_offset) - (now + zero_offset) mod window - zero_offset) div lim_Second"

definition FormatInt :: "int \<Rightarrow> string" where
  "FormatInt n = (if n < 0 then ''-'' @ FormatUint (nat (- n)) else FormatUint (nat n))"

definition dist_key :: "'b limiter \<Rightarrow> time \<Rightarrow> time \<Rightarrow> string \<Rightarrow> string" where
  "dist_key l window now k = distributedPrefix l @ '':'' @ FormatInt (window_bucket window now) @ '':'' @ k"

text \<open>\<open>None\<close> is an undecided request.\<close>

definition allowDistributed :: "'b limit_env \<Rightarrow> string \<Rightarrow> 'b limit_world \<Rightarrow> bool option \<times> 'b limit_world" where
  "allowDistributed e normalizedKey w =
     (if \<not> distributed (lim w) then (None, w)
      else case lim_now e w of
        (now, w1) \<Rightarrow>
          (case isCircuitOpen now (lim w1) of
             (True, l) \<Rightarrow> (None, w1\<lparr>lim := l\<rparr>)
           | (False, l) \<Rightarrow>
               let window = (if distributedWindow l \<le> 0 then lim_Minute else distributedWindow l)
               in (case IncrWithTTL e (dist_key l window now normalizedKey) (window + lim_Minute) (w1\<lparr>lim := l\<rparr>) of
                     (Inl err, w2) \<Rightarrow> (None, w2\<lparr>lim := onDistributedFailure now (lim w2)\<rparr>)
                   | (Inr count, w2) \<Rightarrow>
                       (Some (count \<le> distributedLimit (lim w2)), w2\<lparr>lim := onDistributedSuccess (lim w2)\<rparr>))))"

definition cleanupIfNeeded :: "time \<Rightarrow> 'b limiter \<Rightarrow> 'b limiter" where
  "cleanupIfNeeded now l =
     (if (case lastCleanup l of None \<Rightarrow> False | Some t \<Rightarrow> now - t < lim_Minute) then l
      else l\<lparr>entries := filter (\<lambda>(k, item). \<not> lastSeen item < now - ttl l) (entries l), lastCleanup := Some now\<rparr>)"

text \<open>A new bucket is filled from the rate \<open>perMinute / 60\<close> per second.\<close>

definition allowLocal :: "'b limit_env \<Rightarrow> string \<Rightarrow> 'b limit_world \<Rightarrow> bool \<times> 'b limit_world" where
  "allowLocal e normalized w =
     (case lim_now e w of
        (now, w1) \<Rightarrow>
          let l = cleanupIfNeeded now (lim w1); item = map_of (entries l) normalized in
          if item = None \<and> int (length (entries l)) \<ge> maxEntries l then (True, w1\<lparr>lim := l\<rparr>)
          else
            let b = (case item of None \<Rightarrow> new_bucket e (perMinute l) (burst l) | Some it \<Rightarrow> bucket it) in
            (case bucket_allow e b now of
               (ok, b') \<Rightarrow>
                 (ok, w1\<lparr>lim := l\<lparr>entries := AList.update normalized \<lparr>bucket = b', lastSeen = now\<rparr> (entries l)\<rparr>\<rparr>)))"

definition Allow :: "'b limit_env \<Rightarrow> string \<Rightarrow> 'b limit_world \<Rightarrow> bool \<times> 'b limit_world" where
  "Allow e key w =
     (let normalized = TrimSpace (ToLower key) in
      if normalized = [] then (True, w)
      else if distributed (lim w) then
        (case allowDistributed e normalized w of
           (Some allowed, w1) \<Rightarrow> (allowed, w1)
         | (None, w1) \<Rightarrow> allowLocal e normalized w1)
      else allowLocal e normalized w)"

section \<open>What a call of the limiter keeps\<close>

lemma length_update_new: "k \<notin> fst ` set al \<Longrightarrow> AList.update k v al = al @ [(k, v)]"
  by (induction al) auto

lemma length_update_old: "k \<in> fst ` set al \<Longrightarrow> length (AList.update k v al) = length al"
  by (induction al) auto

definition limiter_inv :: "'b limiter \<Rightarrow> bool" where
  "limiter_inv l \<longleftrightarrow> distinct (map fst (entries l)) \<and> int (length (entries l)) \<le> maxEntries l
     \<and> (circuitOpenUntil l \<noteq> None \<longrightarrow> circuitFailures l = 0)
     \<and> 0 \<le> circuitFailures l
     \<and> (distributed l \<longrightarrow> 0 < circuitFailCount l \<and> 0 < circuitOpenWindow l \<and> 0 < distributedWindow l
          \<and> circuitFailures l < circuitFailCount l)"

lemma New_limiter_inv: "limiter_inv (New_limiter pm b t m)"
  by (simp add: New_limiter_def limiter_inv_def Let_def)

lemma Enable_inv: "limiter_inv l \<Longrightarrow> limiter_inv (EnableDistributedCounterWithCircuit p win f o' l)"
  by (simp add: EnableDistributedCounterWithCircuit_def limiter_inv_def Let_def lim_Minute_def lim_Second_def)

lemma isCircuitOpen_inv: "limiter_inv l \<Longrightarrow> limiter_inv (snd (isCircuitOpen now l))"
  by (simp add: limiter_inv_def isCircuitOpen_def split: option.split)

lemma isCircuitOpen_closed: "isCircuitOpen now l = (False, l') \<Longrightarrow> circuitOpenUntil l' = None"
  by (auto simp: isCircuitOpen_def split: option.splits if_splits)

lemma onDistributedSuccess_inv: "limiter_inv l \<Longrightarrow> limiter_inv (onDistributedSuccess l)"
  by (simp add: limiter_inv_def onDistributedSuccess_def)

lemma onDistributedFailure_inv:
  "limiter_inv l \<Longrightarrow> circuitOpenUntil l = None \<Longrightarrow> limiter_inv (onDistributedFailure now l)"
  by (auto simp: limiter_inv_def onDistributedFailure_def Let_def)

text \<open>The configuration, which no operation changes.\<close>

definition lim_conf :: "'b limiter \<Rightarrow> (int \<times> int \<times> int) \<times> bool \<times> string \<times> time \<times> int \<times> time \<times> int" where
  "lim_conf l = ((perMinute l, burst l, maxEntries l), distributed l, distributedPrefix l, distributedWindow l,
     distributedLimit l, circuitOpenWindow l, circuitFailCount l)"

lemma isCircuitOpen_conf [simp]: "lim_conf (snd (isCircuitOpen now l)) = lim_conf l"
  by (simp add: lim_conf_def isCircuitOpen_def split: option.split)

lemma onDistributed_conf [simp]:
  "lim_conf (onDistributedSuccess l) = lim_conf l"
  "lim_conf (onDistributedFailure now l) = lim_conf l"
  by (simp_all add: lim_conf_def onDistributedSuccess_def onDistributedFailure_def Let_def)

lemma cleanup_conf [simp]: "lim_conf (cleanupIfNeeded now l) = lim_conf l"
  by (simp add: lim_conf_def cleanupIfNeeded_def)

lemma IncrWithTTL_lim: "IncrWithTTL e k t w = (r, w') \<Longrightarrow> lim w' = lim w"
  by (auto simp: IncrWithTTL_def Let_def split: option.splits prod.splits if_splits)

lemma cleanup_inv: "limiter_inv l \<Longrightarrow> limiter_inv (cleanupIfNeeded now l)"
proof -
  assume inv: "limiter_inv l"
  let ?es = "filter (\<lambda>(k, item). \<not> lastSeen item < now - ttl l) (entries l)"
  have "length ?es \<le> length (entries l)" by (rule length_filter_le)
  with inv have "int (length ?es) \<le> maxEntries l" unfolding limiter_inv_def by linarith
  with inv show ?thesis by (simp add: limiter_inv_def cleanupIfNeeded_def distinct_map_filter)
qed

lemma allowLocal_inv: "limiter_inv (lim w) \<Longrightarrow> limiter_inv (lim (snd (allowLocal e k w)))"
proof -
  assume "limiter_inv (lim w)"
  then have inv: "limiter_inv (cleanupIfNeeded (lim_clock e (lim_tick w)) (lim w))" by (rule cleanup_inv)
  have upd: "limiter_inv (l\<lparr>entries := AList.update k v (entries l)\<rparr>)"
    if "limiter_inv l" "\<not> (map_of (entries l) k = None \<and> int (length (entries l)) \<ge> maxEntries l)" for l v
  proof (cases "k \<in> fst ` set (entries l)")
    case True
    with that show ?thesis by (simp add: limiter_inv_def distinct_update length_update_old)
  next
    case False
    moreover from this have "map_of (entries l) k = None" by (simp add: map_of_eq_None_iff)
    ultimately show ?thesis using that by (simp add: limiter_inv_def length_update_new)
  qed
  show ?thesis
    using inv upd [OF inv] by (auto simp: allowLocal_def lim_now_def Let_def split: prod.split)
qed

text \<open>The distributed decision in its parts.\<close>

lemma allowDistributed_open:
  assumes "distributed (lim w)" "isCircuitOpen (lim_clock e (lim_tick w)) (lim w) = (True, l)"
  shows "allowDistributed e k w = (None, w\<lparr>lim_tick := Suc (lim_tick w), lim := l\<rparr>)"
  using assms by (simp add: allowDistributed_def lim_now_def)

lemma allowDistributed_closed:
  assumes "distributed (lim w)" "isCircuitOpen (lim_clock e (lim_tick w)) (lim w) = (False, l)"
    and "0 < distributedWindow l"
  shows "allowDistributed e k w =
    (case IncrWithTTL e (dist_key l (distributedWindow l) (lim_clock e (lim_tick w)) k) (distributedWindow l + lim_Minute)
        (w\<lparr>lim_tick := Suc (lim_tick w), lim := l\<rparr>) of
       (Inl err, w2) \<Rightarrow> (None, w2\<lparr>lim := onDistributedFailure (lim_clock e (lim_tick w)) l\<rparr>)
     | (Inr count, w2) \<Rightarrow> (Some (count \<le> distributedLimit l), w2\<lparr>lim := onDistributedSuccess l\<rparr>))"
  using assms by (auto simp: allowDistributed_def lim_now_def Let_def split: prod.split sum.split dest!: IncrWithTTL_lim)

lemma allowDistributed_inv:
  assumes inv: "limiter_inv (lim w)"
  shows "limiter_inv (lim (snd (allowDistributed e k w))) \<and> lim_conf (lim (snd (allowDistributed e k w))) = lim_conf (lim w)"
proof (cases "distributed (lim w)")
  case True
  let ?now = "lim_clock e (lim_tick w)"
  obtain op l where c: "isCircuitOpen ?now (lim w) = (op, l)" by fastforce
  from isCircuitOpen_inv [OF inv, of ?now] isCircuitOpen_conf [of ?now "lim w"] c
  have l: "limiter_inv l" and cf: "lim_conf l = lim_conf (lim w)" by simp_all
  show ?thesis
  proof (cases op)
    case True
    with \<open>distributed (lim w)\<close> c l cf show ?thesis by (simp add: allowDistributed_open)
  next
    case False
    with c have n: "circuitOpenUntil l = None" by (simp add: isCircuitOpen_closed)
    from cf \<open>distributed (lim w)\<close> l have "0 < distributedWindow l" by (simp add: lim_conf_def limiter_inv_def)
    with \<open>distributed (lim w)\<close> c False show ?thesis
      by (simp add: allowDistributed_closed onDistributedSuccess_inv [OF l] onDistributedFailure_inv [OF l n] cf
          split: prod.split sum.split)
  qed
qed (simp add: allowDistributed_def inv)

lemma allowLocal_conf: "lim_conf (lim (snd (allowLocal e k w))) = lim_conf (lim w)"
  using cleanup_conf [of "lim_clock e (lim_tick w)" "lim w"]
  by (simp add: allowLocal_def lim_now_def Let_def lim_conf_def split: prod.split)

lemma Allow_inv:
  assumes "limiter_inv (lim w)"
  shows "limiter_inv (lim (snd (Allow e k w))) \<and> lim_conf (lim (snd (Allow e k w))) = lim_conf (lim w)"
proof -
  let ?k = "TrimSpace (ToLower k)"
  have loc: "limiter_inv (lim (snd (allowLocal e ?k v))) \<and> lim_conf (lim (snd (allowLocal e ?k v))) = lim_conf (lim w)"
    if "limiter_inv (lim v) \<and> lim_conf (lim v) = lim_conf (lim w)" for v
    using that by (simp add: allowLocal_inv allowLocal_conf)
  obtain r w1 where d: "allowDistributed e ?k w = (r, w1)" by fastforce
  with allowDistributed_inv [OF assms, of e ?k]
  have "limiter_inv (lim w1) \<and> lim_conf (lim w1) = lim_conf (lim w)" by simp
  with d assms loc [of w1] loc [of w] show ?thesis
    by (simp add: Allow_def Let_def split: option.split)
qed

fun allow_all :: "'b limit_env \<Rightarrow> string list \<Rightarrow> 'b limit_world \<Rightarrow> bool list \<times> 'b limit_world" where
  "allow_all e [] w = ([], w)"
| "allow_all e (k # ks) w =
     (case Allow e k w of (b, w1) \<Rightarrow> (case allow_all e ks w1 of (bs, w2) \<Rightarrow> (b # bs, w2)))"

lemma allow_all_inv:
  "limiter_inv (lim w) \<Longrightarrow>
    limiter_inv (lim (snd (allow_all e ks w))) \<and> lim_conf (lim (snd (allow_all e ks w))) = lim_conf (lim w)"
proof (induction ks arbitrary: w)
  case (Cons k ks)
  from Allow_inv [OF Cons.prems, of e k] Cons.IH [of "snd (Allow e k w)"] show ?case by (auto split: prod.split)
qed simp

text \<open>
  C33.  The limiter cannot be made to grow without bound: from the configured limiter on, after any sequence
  of requests with any keys, whatever Redis does, at most \<open>maxEntries\<close> keys have a bucket, each one bucket,
  and the counter of failures stays below the threshold that opens the circuit.
\<close>

theorem limiter_bounded:
  assumes "lim w = EnableDistributedCounterWithCircuit p win f o' (New_limiter pm b t m)"
  shows "int (length (entries (lim (snd (allow_all e ks w))))) \<le> (if m \<le> 0 then 100000 else m)
    \<and> distinct (map fst (entries (lim (snd (allow_all e ks w)))))
    \<and> circuitFailures (lim (snd (allow_all e ks w))) < (if f \<le> 0 then 3 else f)"
proof -
  have "limiter_inv (lim w)" by (simp add: assms Enable_inv New_limiter_inv)
  from allow_all_inv [OF this, of e ks] show ?thesis
    by (simp add: assms limiter_inv_def lim_conf_def EnableDistributedCounterWithCircuit_def New_limiter_def Let_def
        split: if_splits)
qed

section \<open>The circuit breaker as a machine\<close>

text \<open>Closed with the number of failures in a row, or open until a time.\<close>

datatype breaker = Closed int | Open time

definition breaker_of :: "'b limiter \<Rightarrow> breaker" where
  "breaker_of l = (case circuitOpenUntil l of None \<Rightarrow> Closed (circuitFailures l) | Some u \<Rightarrow> Open u)"



lemma breaker_of_simps [simp]:
  "circuitOpenUntil l = None \<Longrightarrow> breaker_of l = Closed (circuitFailures l)"
  "circuitOpenUntil l = Some u \<Longrightarrow> breaker_of l = Open u"
  by (simp_all add: breaker_of_def)






section \<open>The count of a window\<close>

text \<open>\<open>h\<close> counts the requests of every key in the window that starts at \<open>t0\<close>.\<close>

definition counted :: "'b limiter \<Rightarrow> time \<Rightarrow> (string \<Rightarrow> nat) \<Rightarrow> (string \<rightharpoonup> int \<times> time) \<Rightarrow> bool" where
  "counted l t0 h r \<longleftrightarrow>
     (\<forall>k. if h k = 0 then r (dist_key l (distributedWindow l) t0 k) = None
          else \<exists>x. r (dist_key l (distributedWindow l) t0 k) = Some (int (h k), x) \<and> t0 + distributedWindow l \<le> x)"

definition in_window :: "'b limit_env \<Rightarrow> time \<Rightarrow> time \<Rightarrow> bool" where
  "in_window e t0 W \<longleftrightarrow> (t0 + zero_offset) mod W = 0 \<and> (\<forall>n. t0 \<le> lim_clock e n \<and> lim_clock e n < t0 + W)"

lemma window_bucket_same:
  assumes "(t0 + zero_offset) mod W = 0" "t0 \<le> t" "t < t0 + W"
  shows "window_bucket W t = window_bucket W t0"
proof -
  have "(t + zero_offset) mod W = ((t - t0) + (t0 + zero_offset)) mod W" by simp
  also have "\<dots> = (t - t0) mod W" using assms(1) by (metis add.right_neutral mod_add_right_eq)
  also have "\<dots> = t - t0" using assms(2,3) by simp
  finally show ?thesis using assms(1) by (simp add: window_bucket_def)
qed

lemma dist_key_inj: "dist_key l W t k = dist_key l W t k' \<longleftrightarrow> k = k'"
  by (simp add: dist_key_def)

lemma dist_key_conf: "lim_conf l = lim_conf l' \<Longrightarrow> dist_key l = dist_key l'"
  by (simp add: dist_key_def lim_conf_def fun_eq_iff)

definition closed_counter :: "'b limit_env \<Rightarrow> 'b limiter \<Rightarrow> 'b limiter \<Rightarrow> bool" where
  "closed_counter e l0 l \<longleftrightarrow> lim_conf l = lim_conf l0 \<and> circuitOpenUntil l = None"

lemma Allow_counts:
  assumes clock: "in_window e t0 (distributedWindow l0)" and faults: "\<And>n. redis_fault e n = None"
    and l0: "distributed l0" "0 < distributedWindow l0"
    and w: "closed_counter e l0 (lim w)" "counted l0 t0 h (redis w)"
    and k: "TrimSpace (ToLower key) = k" "k \<noteq> []"
  shows "\<exists>w'. Allow e key w = (int (Suc (h k)) \<le> distributedLimit l0, w') \<and> closed_counter e l0 (lim w')
    \<and> counted l0 t0 (h(k := Suc (h k))) (redis w')"
proof -
  let ?W = "distributedWindow l0" and ?now = "lim_clock e (lim_tick w)" and ?now2 = "lim_clock e (Suc (lim_tick w))"
  from w(1) have cf: "lim_conf (lim w) = lim_conf l0" and op: "circuitOpenUntil (lim w) = None"
    by (simp_all add: closed_counter_def)
  from cf l0 have d: "distributed (lim w)" and W: "distributedWindow (lim w) = ?W"
    and lim: "distributedLimit (lim w) = distributedLimit l0" by (simp_all add: lim_conf_def)
  have c: "isCircuitOpen ?now (lim w) = (False, lim w)" using op by (simp add: isCircuitOpen_def)
  have "window_bucket ?W ?now = window_bucket ?W t0" using clock by (auto simp: in_window_def intro: window_bucket_same)
  then have key: "dist_key (lim w) ?W ?now k = dist_key l0 ?W t0 k"
    using dist_key_conf [OF cf] by (simp add: dist_key_def)
  have "live_count ?now2 (redis w) (dist_key l0 ?W t0 k) = int (h k)"
  proof (cases "h k = 0")
    case True
    with w(2) show ?thesis by (simp add: counted_def live_count_def)
  next
    case False
    with w(2) obtain x where "redis w (dist_key l0 ?W t0 k) = Some (int (h k), x)" "t0 + ?W \<le> x"
      unfolding counted_def by metis
    moreover have "?now2 < t0 + ?W" using clock by (simp add: in_window_def)
    ultimately show ?thesis by (simp add: live_count_def)
  qed
  then have inc: "IncrWithTTL e (dist_key (lim w) ?W ?now k) (?W + lim_Minute) (w\<lparr>lim_tick := Suc (lim_tick w), lim := lim w\<rparr>) =
      (Inr (int (Suc (h k))), w\<lparr>lim_tick := Suc (Suc (lim_tick w)),
         redis := (redis w)(dist_key l0 ?W t0 k \<mapsto> (int (Suc (h k)), ?now2 + (?W + lim_Minute)))\<rparr>)"
    using l0(2) by (simp add: IncrWithTTL_def Let_def faults key lim_Minute_def add.commute)
  let ?w' = "w\<lparr>lim_tick := Suc (Suc (lim_tick w)), lim := onDistributedSuccess (lim w),
         redis := (redis w)(dist_key l0 ?W t0 k \<mapsto> (int (Suc (h k)), ?now2 + (?W + lim_Minute)))\<rparr>"
  have "allowDistributed e k w = (Some (int (Suc (h k)) \<le> distributedLimit l0), ?w')"
    using allowDistributed_closed [OF d c, of k] l0(2) unfolding W lim inc by simp
  then have "Allow e key w = (int (Suc (h k)) \<le> distributedLimit l0, ?w')"
    using k d by (simp add: Allow_def)
  moreover have "closed_counter e l0 (lim ?w')"
    using w(1) by (simp add: closed_counter_def) (simp add: onDistributedSuccess_def)
  moreover have "t0 + ?W \<le> ?now2 + (?W + lim_Minute)"
    using clock unfolding in_window_def by (simp add: lim_Minute_def) (smt (verit))
  then have "counted l0 t0 (h(k := Suc (h k))) (redis ?w')"
    using w(2) by (simp add: counted_def dist_key_inj)
  ultimately show ?thesis by blast
qed

definition allowed_of :: "string \<Rightarrow> string list \<Rightarrow> bool list \<Rightarrow> nat" where
  "allowed_of k ks bs = length (filter (\<lambda>(key, b). TrimSpace (ToLower key) = k \<and> b) (zip ks bs))"

definition requests_of :: "string \<Rightarrow> string list \<Rightarrow> nat" where
  "requests_of k ks = length (filter (\<lambda>key. TrimSpace (ToLower key) = k) ks)"

lemma allow_all_counts:
  assumes "in_window e t0 (distributedWindow l0)" "\<And>n. redis_fault e n = None"
    and "distributed l0" "0 < distributedWindow l0"
    and "closed_counter e l0 (lim w)" "counted l0 t0 h (redis w)" "k \<noteq> []"
  shows "int (allowed_of k ks (fst (allow_all e ks w))) =
    min (max 0 (distributedLimit l0 - int (h k))) (int (requests_of k ks))"
  using assms(5,6)
proof (induction ks arbitrary: w h)
  case (Cons key ks)
  let ?k = "TrimSpace (ToLower key)"
  show ?case
  proof (cases "?k = []")
    case True
    with assms(7) Cons.IH [OF Cons.prems] show ?thesis
      by (auto simp: Allow_def allowed_of_def requests_of_def split: prod.split)
  next
    case False
    with Allow_counts [OF assms(1-4) Cons.prems refl] obtain w' where
      a: "Allow e key w = (int (Suc (h ?k)) \<le> distributedLimit l0, w')" "closed_counter e l0 (lim w')"
        "counted l0 t0 (h(?k := Suc (h ?k))) (redis w')" by blast
    obtain bs w2 where b: "allow_all e ks w' = (bs, w2)" by fastforce
    from Cons.IH [OF a(2,3)] have ih: "int (allowed_of k ks bs) =
        min (max 0 (distributedLimit l0 - int ((h(?k := Suc (h ?k))) k))) (int (requests_of k ks))" by (simp add: b)
    show ?thesis
    proof (cases "?k = k")
      case True
      with ih a(1) b show ?thesis by (simp add: allowed_of_def requests_of_def) linarith
    next
      case False
      with ih a(1) b show ?thesis by (simp add: allowed_of_def requests_of_def)
    qed
  qed
qed (simp add: allowed_of_def requests_of_def)

text \<open>
  C31.  The distributed limit is exact: from an empty counter, in one window of time in which Redis
  answers, exactly the first \<open>distributedLimit\<close> requests of a key are let through, however the requests
  of other keys come between them, and all that come later are refused.
\<close>

theorem rate_limit_window:
  assumes "in_window e t0 (distributedWindow (lim w))" "\<And>n. redis_fault e n = None"
    and "distributed (lim w)" "0 < distributedWindow (lim w)" "0 \<le> distributedLimit (lim w)"
    and "circuitOpenUntil (lim w) = None" "redis w = Map.empty" "k \<noteq> []"
  shows "int (allowed_of k ks (fst (allow_all e ks w))) = min (distributedLimit (lim w)) (int (requests_of k ks))"
  using allow_all_counts [OF assms(1-4), of w "\<lambda>_. 0" k ks] assms(5-8)
  by (simp add: closed_counter_def counted_def)

section \<open>A run\<close>

definition demo_limit_env :: "nat limit_env" where
  "demo_limit_env = \<lparr>lim_clock = (\<lambda>n. 5 + int n mod 1000), redis_fault = (\<lambda>n. None), new_bucket = (\<lambda>r b. nat b),
     bucket_allow = (\<lambda>b t. (0 < b, b - 1))\<rparr>"

definition broken_limit_env :: "nat limit_env" where
  "broken_limit_env = demo_limit_env\<lparr>redis_fault := (\<lambda>n. Some (False, ''timeout''))\<rparr>"

definition demo_limits :: "nat limit_world" where
  "demo_limits = \<lparr>lim = EnableDistributedCounterWithCircuit ''RL'' lim_Minute 1 1000 (New_limiter 1 1 lim_Minute 1),
     redis = Map.empty, lim_tick = 0\<rparr>"

theorem limiter_bounded_witness:
  "int (length (entries (lim (snd (allow_all broken_limit_env [''a'', ''b'', ''a''] demo_limits))))) \<le> 1
    \<and> distinct (map fst (entries (lim (snd (allow_all broken_limit_env [''a'', ''b'', ''a''] demo_limits)))))
    \<and> circuitFailures (lim (snd (allow_all broken_limit_env [''a'', ''b'', ''a''] demo_limits))) < 1"
  using limiter_bounded [of demo_limits "''RL''" lim_Minute 1 1000 1 1 lim_Minute 1 broken_limit_env "[''a'', ''b'', ''a'']"]
  by (simp add: demo_limits_def)


theorem rate_limit_window_witness:
  "allowed_of ''a'' [''a'', ''b'', '' A '', ''a''] (fst (allow_all demo_limit_env [''a'', ''b'', '' A '', ''a''] demo_limits)) = 2"
proof -
  have "int (allowed_of ''a'' [''a'', ''b'', '' A '', ''a''] (fst (allow_all demo_limit_env [''a'', ''b'', '' A '', ''a''] demo_limits))) =
      min (distributedLimit (lim demo_limits)) (int (requests_of ''a'' [''a'', ''b'', '' A '', ''a'']))"
  proof (rule rate_limit_window [where ?t0.0 = 0])
    have "distributedWindow (lim demo_limits) = lim_Minute" by code_simp
    moreover have "0 \<le> 5 + int n mod 1000 \<and> 5 + int n mod 1000 < 60000000000" for n
      using pos_mod_bound [of 1000 "int n"] by simp
    ultimately show "in_window demo_limit_env 0 (distributedWindow (lim demo_limits))"
      by (simp add: in_window_def demo_limit_env_def lim_Minute_def zero_offset_def lim_Second_def)
  qed (simp_all add: demo_limit_env_def demo_limits_def EnableDistributedCounterWithCircuit_def New_limiter_def Let_def
      lim_Minute_def int64_id)
  moreover have "distributedLimit (lim demo_limits) = 2" by code_simp
  moreover have "requests_of ''a'' [''a'', ''b'', '' A '', ''a''] = 3" by code_simp
  ultimately show ?thesis by simp
qed

end
