(* ===== verification/Effects.thy ===== *)
theory Effects
  imports Prelude
begin

text \<open>
  Operations that read and change a state and may fail, as functions from the state to a result (an
  error or a value) and the next state, with the combinators the models of auth-service,
  admin-service and the gateway are written in.  \<open>keeps R m\<close> says that every run of \<open>m\<close>, failed or
  not, is related by \<open>R\<close>; it is closed under all combinators when \<open>R\<close> is a preorder, so a frame or
  invariant fact about a composed operation follows from those about its parts.
\<close>

named_theorems keeps_intros \<open>introduction rules for what an operation keeps\<close>
named_theorems runs \<open>what a successful run of a composed operation consists of\<close>

type_synonym ('w, 'e, 'a) eff = "'w \<Rightarrow> ('e + 'a) \<times> 'w"

definition ok :: "'a \<Rightarrow> ('w, 'e, 'a) eff" where
  "ok a w = (Inr a, w)"

definition fail :: "'e \<Rightarrow> ('w, 'e, 'a) eff" where
  "fail err w = (Inl err, w)"

definition andThen :: "('w, 'e, 'a) eff \<Rightarrow> ('a \<Rightarrow> ('w, 'e, 'b) eff) \<Rightarrow> ('w, 'e, 'b) eff" where
  "andThen m k w = (case m w of (Inl err, w1) \<Rightarrow> (Inl err, w1) | (Inr a, w1) \<Rightarrow> k a w1)"

text \<open>The continuation sees the error, as Go code that inspects \<open>err\<close> does.\<close>

definition attempt :: "('w, 'e, 'a) eff \<Rightarrow> ('e + 'a \<Rightarrow> ('w, 'f, 'b) eff) \<Rightarrow> ('w, 'f, 'b) eff" where
  "attempt m k w = (case m w of (r, w1) \<Rightarrow> k r w1)"

definition ignore :: "('w, 'e, 'a) eff \<Rightarrow> ('w, 'f, unit) eff" where
  "ignore m = attempt m (\<lambda>_. ok ())"

definition map_error :: "('e \<Rightarrow> 'f) \<Rightarrow> ('w, 'e, 'a) eff \<Rightarrow> ('w, 'f, 'a) eff" where
  "map_error f m = attempt m (case_sum (\<lambda>err. fail (f err)) ok)"

definition lift_result :: "'e + 'a \<Rightarrow> ('w, 'e, 'a) eff" where
  "lift_result r w = (r, w)"

lemmas eff_defs = ok_def fail_def andThen_def attempt_def ignore_def map_error_def lift_result_def

section \<open>Runs\<close>

lemma run_ok [runs, simp]: "ok a w = (r, w') \<longleftrightarrow> r = Inr a \<and> w' = w"
  by (auto simp: ok_def)

lemma run_fail [runs, simp]: "fail err w = (r, w') \<longleftrightarrow> r = Inl err \<and> w' = w"
  by (auto simp: fail_def)

lemma run_lift [runs, simp]: "lift_result x w = (r, w') \<longleftrightarrow> r = x \<and> w' = w"
  by (auto simp: lift_result_def)

lemma run_andThen [runs]:
  "andThen m k w = (Inr b, w') \<longleftrightarrow> (\<exists>a w1. m w = (Inr a, w1) \<and> k a w1 = (Inr b, w'))"
  by (auto simp: andThen_def split: prod.splits sum.splits)

lemma run_andThen_error:
  "andThen m k w = (Inl err, w') \<longleftrightarrow>
     m w = (Inl err, w') \<or> (\<exists>a w1. m w = (Inr a, w1) \<and> k a w1 = (Inl err, w'))"
  by (auto simp: andThen_def split: prod.splits sum.splits)

lemma run_attempt [runs]: "attempt m k w = (r, w') \<longleftrightarrow> (\<exists>x w1. m w = (x, w1) \<and> k x w1 = (r, w'))"
  by (auto simp: attempt_def split: prod.splits)

lemma run_ignore [runs]: "ignore m w = (r, w') \<longleftrightarrow> r = Inr () \<and> (\<exists>x. m w = (x, w'))"
  by (auto simp: ignore_def run_attempt)

lemma run_map_error [runs]: "map_error f m w = (Inr b, w') \<longleftrightarrow> m w = (Inr b, w')"
  by (auto simp: map_error_def attempt_def split: prod.splits sum.splits)

lemma run_map_error_error: "map_error f m w = (Inl err, w') \<longleftrightarrow> (\<exists>x. m w = (Inl x, w') \<and> err = f x)"
  by (auto simp: map_error_def attempt_def split: prod.splits sum.splits)

section \<open>What an operation keeps\<close>

definition keeps :: "('w \<Rightarrow> 'w \<Rightarrow> bool) \<Rightarrow> ('w, 'e, 'a) eff \<Rightarrow> bool" where
  "keeps R m \<longleftrightarrow> (\<forall>w r w'. m w = (r, w') \<longrightarrow> R w w')"

lemma keepsD: "keeps R m \<Longrightarrow> m w = (r, w') \<Longrightarrow> R w w'"
  by (simp add: keeps_def)

lemma keepsI: "(\<And>w r w'. m w = (r, w') \<Longrightarrow> R w w') \<Longrightarrow> keeps R m"
  by (simp add: keeps_def)

lemma keeps_mono: "keeps R m \<Longrightarrow> R \<le> S \<Longrightarrow> keeps S m"
  by (auto simp: keeps_def)

lemma keeps_ok [keeps_intros]: "reflp R \<Longrightarrow> keeps R (ok a)"
  and keeps_fail [keeps_intros]: "reflp R \<Longrightarrow> keeps R (fail err)"
  and keeps_lift [keeps_intros]: "reflp R \<Longrightarrow> keeps R (lift_result x)"
  by (auto simp: keeps_def dest: reflpD)

lemma keeps_andThen [keeps_intros]:
  assumes "transp R" "keeps R m" "\<And>a. keeps R (k a)"
  shows "keeps R (andThen m k)"
  using assms by (auto simp: keeps_def andThen_def split: prod.splits sum.splits dest: transpD) (meson transpE)

lemma keeps_attempt [keeps_intros]:
  assumes "transp R" "keeps R m" "\<And>x. keeps R (k x)"
  shows "keeps R (attempt m k)"
  unfolding keeps_def attempt_def using assms by (auto simp: keeps_def split: prod.splits) (meson transpE)

lemma keeps_ignore [keeps_intros]: "transp R \<Longrightarrow> reflp R \<Longrightarrow> keeps R m \<Longrightarrow> keeps R (ignore m)"
  unfolding ignore_def by (intro keeps_intros)

lemma keeps_map_error [keeps_intros]: "keeps R m \<Longrightarrow> keeps R (map_error f m)"
  by (auto simp: keeps_def map_error_def attempt_def split: prod.splits sum.splits)

lemma keeps_if [keeps_intros]: "(b \<Longrightarrow> keeps R m) \<Longrightarrow> (\<not> b \<Longrightarrow> keeps R n) \<Longrightarrow> keeps R (if b then m else n)"
  by simp

lemma keeps_case_option [keeps_intros]:
  "keeps R m \<Longrightarrow> (\<And>a. keeps R (k a)) \<Longrightarrow> keeps R (case x of None \<Rightarrow> m | Some a \<Rightarrow> k a)"
  by (simp split: option.split)

lemma keeps_case_sum [keeps_intros]:
  "(\<And>a. keeps R (f a)) \<Longrightarrow> (\<And>b. keeps R (k b)) \<Longrightarrow> keeps R (case x of Inl a \<Rightarrow> f a | Inr b \<Rightarrow> k b)"
  by (simp split: sum.split)

lemma keeps_case_prod [keeps_intros]: "(\<And>a b. keeps R (k a b)) \<Longrightarrow> keeps R (case x of (a, b) \<Rightarrow> k a b)"
  by (simp split: prod.split)

end
