(* ===== verification/Identity_Store.thy ===== *)
theory Identity_Store
  imports Effects "HOL-Library.List_Lexorder" "HOL-Library.Char_ord"
begin

text \<open>
  The data model and the repositories of auth-service and admin-service
  (\<^verbatim>\<open>internal/model\<close> and \<^verbatim>\<open>internal/repository\<close> of both), which share one database: agents, super
  administrators, sites with their domains, the AI configuration of a site, and the audit log.

  An \<open>identity_world\<close> holds the tables, their auto-increment counters and a tick.  Every call of the
  database, of the clock, of the random source and of the cryptographic libraries consumes one tick;
  an \<open>identity_env\<close> says for each tick what time it is, whether the database fails, and what the
  libraries answer.  \<open>id_collate\<close> gives the collation key of a text: keys decide equality in a
  \<^verbatim>\<open>WHERE\<close> clause or unique index, and their order is that of \<^verbatim>\<open>ORDER BY\<close>.  The widths of the columns
  count as failures of the database.
\<close>

section \<open>Data model\<close>

datatype identity_sentinel =
    Repo_ErrNotFound
  | Auth_ErrUnauthorized
  | Auth_ErrForbidden
  | Auth_ErrConflict
  | Auth_ErrInvalidCredential
  | Admin_ErrConflict
  | Admin_ErrNotFound
  | Admin_ErrInvalidSession

fun identity_text :: "identity_sentinel \<Rightarrow> string" where
  "identity_text Repo_ErrNotFound = ''not found''"
| "identity_text Auth_ErrUnauthorized = ''unauthorized''"
| "identity_text Auth_ErrForbidden = ''forbidden''"
| "identity_text Auth_ErrConflict = ''conflict''"
| "identity_text Auth_ErrInvalidCredential = ''invalid credentials''"
| "identity_text Admin_ErrConflict = ''conflict''"
| "identity_text Admin_ErrNotFound = ''not found''"
| "identity_text Admin_ErrInvalidSession = ''invalid session''"

type_synonym ierr = "identity_sentinel goerr"
type_synonym version = "64 word"

record agent =
  ag_ID :: uint64
  ag_Email :: string
  ag_PasswordHash :: string
  ag_DisplayName :: string
  ag_SiteID :: string
  ag_Role :: string
  ag_Status :: string
  ag_TokenVersion :: version
  ag_CreatedAt :: time
  ag_UpdatedAt :: time

record super_admin =
  sa_ID :: uint64
  sa_Email :: string
  sa_PasswordHash :: string
  sa_DisplayName :: string
  sa_Status :: string
  sa_TokenVersion :: version
  sa_CreatedAt :: time
  sa_UpdatedAt :: time

text \<open>\<open>st_Domains\<close> is no column; \<open>None\<close> is the nil slice.\<close>

record site_model =
  st_ID :: uint64
  st_SiteID :: string
  st_Name :: string
  st_WidgetKey :: string
  st_Status :: string
  st_CreatedAt :: time
  st_UpdatedAt :: time
  st_Domains :: "string list option"

record site_domain =
  sd_ID :: uint64
  sd_SiteID :: string
  sd_Domain :: string
  sd_CreatedAt :: time
  sd_UpdatedAt :: time

record site_ai_config =
  ai_SiteID :: string
  ai_Enabled :: bool
  ai_ReplyMode :: string
  ai_CreatedAt :: "time option"
  ai_UpdatedAt :: "time option"

record audit_log =
  al_ID :: uint64
  al_ActorAgentID :: uint64
  al_ActorEmail :: string
  al_ActorRole :: string
  al_Action :: string
  al_ResourceType :: string
  al_ResourceID :: string
  al_Summary :: string
  al_IP :: string
  al_UserAgent :: string
  al_CreatedAt :: time

record identity_db =
  sites :: "site_model list"
  site_domains :: "site_domain list"
  ai_configs :: "site_ai_config list"
  agents :: "agent list"
  super_admins :: "super_admin list"
  audit_logs :: "audit_log list"

record identity_world =
  tables :: identity_db
  site_seq :: uint64
  site_domain_seq :: uint64
  super_admin_seq :: uint64
  audit_seq :: uint64
  id_tick :: nat

text \<open>The claims of a token; the times are in seconds.\<close>

record claims =
  cl_AgentID :: uint64
  cl_Email :: string
  cl_Role :: string
  cl_TokenVersion :: version
  cl_Issuer :: string
  cl_Subject :: string
  cl_IssuedAt :: int
  cl_NotBefore :: int
  cl_ExpiresAt :: "int option"

datatype signing_method = HMAC | other_method

text \<open>
  The libraries: \<open>jwt_parse\<close> is \<^verbatim>\<open>jwt.ParseWithClaims\<close> with the key function, the expected issuer and
  the time, and answers with the claims and the field \<^verbatim>\<open>Valid\<close> of the token; \<open>jwt_sign\<close> signs with
  HS256; \<open>bcrypt_hash\<close> may depend on the salt drawn at a tick.  \<open>rune_upper\<close>, \<open>rune_lower\<close> and
  \<open>rune_digit\<close> are the Unicode classes beyond ASCII.
\<close>

record identity_env =
  id_clock :: "nat \<Rightarrow> time"
  id_fault :: "nat \<Rightarrow> string option"
  id_collate :: "string \<Rightarrow> string"
  rand_read :: "nat \<Rightarrow> nat \<Rightarrow> string + string"
  bcrypt_hash :: "nat \<Rightarrow> string \<Rightarrow> int \<Rightarrow> string + string"
  bcrypt_compare :: "string \<Rightarrow> string \<Rightarrow> bool"
  jwt_sign :: "string \<Rightarrow> claims \<Rightarrow> string + string"
  jwt_parse :: "(signing_method \<Rightarrow> string + string) \<Rightarrow> string \<Rightarrow> time \<Rightarrow> string \<Rightarrow> string + claims \<times> bool"
  rune_upper :: "int \<Rightarrow> bool"
  rune_lower :: "int \<Rightarrow> bool"
  rune_digit :: "int \<Rightarrow> bool"

type_synonym 'a ieff = "(identity_world, ierr, 'a) eff"

definition empty_identity :: identity_world where
  "empty_identity =
     \<lparr>tables = \<lparr>sites = [], site_domains = [], ai_configs = [], agents = [], super_admins = [], audit_logs = []\<rparr>,
      site_seq = 1, site_domain_seq = 1, super_admin_seq = 1, audit_seq = 1, id_tick = 0\<rparr>"

section \<open>Calls to the outside\<close>

definition id_advance :: "identity_world \<Rightarrow> identity_world" where
  "id_advance w = w\<lparr>id_tick := Suc (id_tick w)\<rparr>"

definition id_call :: "identity_env \<Rightarrow> unit ieff" where
  "id_call e w = (case id_fault e (id_tick w) of None \<Rightarrow> Inr () | Some err \<Rightarrow> Inl (Text err), id_advance w)"

definition id_now :: "identity_env \<Rightarrow> (identity_world, 'e, time) eff" where
  "id_now e w = (Inr (id_clock e (id_tick w)), id_advance w)"

definition id_eq :: "identity_env \<Rightarrow> string \<Rightarrow> string \<Rightarrow> bool" where
  "id_eq e a b \<longleftrightarrow> id_collate e a = id_collate e b"

text \<open>A query, and a statement that computes its answer and the new tables or fails.\<close>

definition id_query :: "identity_env \<Rightarrow> (identity_world \<Rightarrow> ierr + 'a) \<Rightarrow> 'a ieff" where
  "id_query e q = andThen (id_call e) (\<lambda>_ w. (q w, w))"

definition id_statement :: "identity_env \<Rightarrow> (time \<Rightarrow> identity_world \<Rightarrow> (ierr + 'a) \<times> identity_world) \<Rightarrow> 'a ieff" where
  "id_statement e s = andThen (id_call e) (\<lambda>_. andThen (id_now e) s)"

definition found :: "'a option \<Rightarrow> ierr + 'a" where
  "found x = (case x of None \<Rightarrow> Inl (Sentinel Repo_ErrNotFound) | Some a \<Rightarrow> Inr a)"

definition id_transaction :: "identity_env \<Rightarrow> 'a ieff \<Rightarrow> 'a ieff" where
  "id_transaction e body w =
     (case id_call e w of
        (Inl err, w1) \<Rightarrow> (Inl err, w1)
      | (Inr _, w1) \<Rightarrow>
          (case body w1 of
             (Inl err, w2) \<Rightarrow> (Inl err, w2\<lparr>tables := tables w1\<rparr>)
           | (Inr a, w2) \<Rightarrow>
               (case id_call e w2 of
                  (Inl err, w3) \<Rightarrow> (Inl err, w3\<lparr>tables := tables w1\<rparr>)
                | (Inr _, w3) \<Rightarrow> (Inr a, w3))))"

section \<open>GormAgentRepository\<close>

definition set_agents :: "agent list \<Rightarrow> identity_world \<Rightarrow> identity_world" where
  "set_agents rows w = w\<lparr>tables := (tables w)\<lparr>agents := rows\<rparr>\<rparr>"

definition agent_clash :: "identity_env \<Rightarrow> agent \<Rightarrow> agent \<Rightarrow> bool" where
  "agent_clash e a r \<longleftrightarrow> id_eq e (ag_Email r) (ag_Email a) \<or> id_eq e (ag_DisplayName r) (ag_DisplayName a)"

text \<open>A zero \<^verbatim>\<open>TokenVersion\<close> is inserted as the default 1; a zero id asks for the next one.\<close>

definition Create_agent :: "identity_env \<Rightarrow> agent \<Rightarrow> agent ieff" where
  "Create_agent e a = id_statement e (\<lambda>now w.
     let i = (if ag_ID a = 0 then Suc (Max (insert 0 (ag_ID ` set (agents (tables w))))) else ag_ID a);
         row = a\<lparr>ag_ID := i,
                 ag_TokenVersion := (if ag_TokenVersion a = 0 then 1 else ag_TokenVersion a),
                 ag_CreatedAt := (if ag_CreatedAt a = 0 then now else ag_CreatedAt a),
                 ag_UpdatedAt := (if ag_UpdatedAt a = 0 then now else ag_UpdatedAt a)\<rparr>
     in if \<exists>r \<in> set (agents (tables w)). ag_ID r = i \<or> agent_clash e a r then (Inl (Text duplicate_entry), w)
        else (Inr row, set_agents (agents (tables w) @ [row]) w))"

definition Save_agent :: "identity_env \<Rightarrow> agent \<Rightarrow> agent ieff" where
  "Save_agent e a = id_statement e (\<lambda>now w.
     let row = a\<lparr>ag_UpdatedAt := now\<rparr>; rows = agents (tables w)
     in if \<exists>r \<in> set rows. ag_ID r \<noteq> ag_ID a \<and> agent_clash e a r then (Inl (Text duplicate_entry), w)
        else if \<exists>r \<in> set rows. ag_ID r = ag_ID a
        then (Inr row, set_agents (update_rows (\<lambda>r. ag_ID r = ag_ID a) (\<lambda>_. row) rows) w)
        else (Inr row, set_agents (rows @ [row]) w))"

definition GetAgentByEmail :: "identity_env \<Rightarrow> string \<Rightarrow> agent ieff" where
  "GetAgentByEmail e email = id_query e (\<lambda>w.
     found (first_row (order_asc ag_ID (filter (\<lambda>r. id_eq e (ag_Email r) email) (agents (tables w))))))"

definition GetAgentRow :: "identity_env \<Rightarrow> uint64 \<Rightarrow> agent ieff" where
  "GetAgentRow e i = id_query e (\<lambda>w. found (by_id ag_ID i (agents (tables w))))"

definition List_agents :: "identity_env \<Rightarrow> nat \<Rightarrow> nat \<Rightarrow> agent list ieff" where
  "List_agents e limit offset = id_query e (\<lambda>w.
     Inr (map (\<lambda>a. a\<lparr>ag_PasswordHash := [], ag_TokenVersion := 0\<rparr>)
            (take limit (drop offset (order_desc ag_ID (agents (tables w)))))))"

section \<open>GormSuperAdminRepository\<close>

definition set_super_admins :: "super_admin list \<Rightarrow> identity_world \<Rightarrow> identity_world" where
  "set_super_admins rows w = w\<lparr>tables := (tables w)\<lparr>super_admins := rows\<rparr>\<rparr>"

definition Create_super_admin :: "identity_env \<Rightarrow> super_admin \<Rightarrow> super_admin ieff" where
  "Create_super_admin e a = id_statement e (\<lambda>now w.
     let i = (if sa_ID a = 0 then super_admin_seq w else sa_ID a);
         row = a\<lparr>sa_ID := i,
                 sa_TokenVersion := (if sa_TokenVersion a = 0 then 1 else sa_TokenVersion a),
                 sa_CreatedAt := (if sa_CreatedAt a = 0 then now else sa_CreatedAt a),
                 sa_UpdatedAt := (if sa_UpdatedAt a = 0 then now else sa_UpdatedAt a)\<rparr>
     in if \<exists>r \<in> set (super_admins (tables w)). sa_ID r = i \<or> id_eq e (sa_Email r) (sa_Email a)
        then (Inl (Text duplicate_entry), w)
        else (Inr row, (set_super_admins (super_admins (tables w) @ [row]) w)
                          \<lparr>super_admin_seq := max (super_admin_seq w) (Suc i)\<rparr>))"

definition Save_super_admin :: "identity_env \<Rightarrow> super_admin \<Rightarrow> super_admin ieff" where
  "Save_super_admin e a = id_statement e (\<lambda>now w.
     let row = a\<lparr>sa_UpdatedAt := now\<rparr>; rows = super_admins (tables w)
     in if \<exists>r \<in> set rows. sa_ID r \<noteq> sa_ID a \<and> id_eq e (sa_Email r) (sa_Email a)
        then (Inl (Text duplicate_entry), w)
        else if \<exists>r \<in> set rows. sa_ID r = sa_ID a
        then (Inr row, set_super_admins (update_rows (\<lambda>r. sa_ID r = sa_ID a) (\<lambda>_. row) rows) w)
        else (Inr row, set_super_admins (rows @ [row]) w))"

definition GetSuperAdminByEmail :: "identity_env \<Rightarrow> string \<Rightarrow> super_admin ieff" where
  "GetSuperAdminByEmail e email = id_query e (\<lambda>w.
     found (first_row (order_asc sa_ID (filter (\<lambda>r. id_eq e (sa_Email r) email) (super_admins (tables w))))))"

definition GetSuperAdminRow :: "identity_env \<Rightarrow> uint64 \<Rightarrow> super_admin ieff" where
  "GetSuperAdminRow e i = id_query e (\<lambda>w. found (by_id sa_ID i (super_admins (tables w))))"

section \<open>GormSiteRepository\<close>

definition populateSingleSiteDomains :: "identity_env \<Rightarrow> identity_world \<Rightarrow> site_model \<Rightarrow> site_model" where
  "populateSingleSiteDomains e w s =
     s\<lparr>st_Domains := Some (map sd_Domain (sort_key (\<lambda>d. id_collate e (sd_Domain d))
         (filter (\<lambda>d. sd_SiteID d = st_SiteID s) (site_domains (tables w)))))\<rparr>"

definition List_sites :: "identity_env \<Rightarrow> nat \<Rightarrow> nat \<Rightarrow> site_model list ieff" where
  "List_sites e limit offset = id_query e (\<lambda>w.
     Inr (map (populateSingleSiteDomains e w)
            (take limit (drop offset (order_desc st_ID (sites (tables w)))))))"

definition GetBySiteID :: "identity_env \<Rightarrow> string \<Rightarrow> site_model ieff" where
  "GetBySiteID e siteID = id_query e (\<lambda>w.
     found (map_option (populateSingleSiteDomains e w)
       (first_row (order_asc st_ID (filter (\<lambda>s. id_eq e (st_SiteID s) siteID) (sites (tables w)))))))"

definition GetByDomain :: "identity_env \<Rightarrow> string \<Rightarrow> site_model ieff" where
  "GetByDomain e domain = id_query e (\<lambda>w.
     found (map_option (populateSingleSiteDomains e w)
       (first_row (order_asc st_ID (filter (\<lambda>s. \<exists>d \<in> set (site_domains (tables w)).
           id_eq e (sd_SiteID d) (st_SiteID s) \<and> id_eq e (sd_Domain d) domain) (sites (tables w)))))))"

definition set_sites :: "site_model list \<Rightarrow> identity_world \<Rightarrow> identity_world" where
  "set_sites rows w = w\<lparr>tables := (tables w)\<lparr>sites := rows\<rparr>\<rparr>"

definition set_domains :: "site_domain list \<Rightarrow> identity_world \<Rightarrow> identity_world" where
  "set_domains rows w = w\<lparr>tables := (tables w)\<lparr>site_domains := rows\<rparr>\<rparr>"

definition buildSiteDomainModels :: "string \<Rightarrow> string list \<Rightarrow> site_domain list" where
  "buildSiteDomainModels siteID domains =
     map (\<lambda>d. \<lparr>sd_ID = 0, sd_SiteID = siteID, sd_Domain = d, sd_CreatedAt = 0, sd_UpdatedAt = 0\<rparr>) domains"

definition delete_domains :: "identity_env \<Rightarrow> string \<Rightarrow> unit ieff" where
  "delete_domains e siteID = id_statement e (\<lambda>now w.
     (Inr (), set_domains (filter (\<lambda>d. \<not> id_eq e (sd_SiteID d) siteID) (site_domains (tables w))) w))"

text \<open>One \<^verbatim>\<open>INSERT\<close> of all rows: it is refused as a whole when a domain is taken or occurs twice.\<close>

definition insert_domains :: "identity_env \<Rightarrow> site_domain list \<Rightarrow> unit ieff" where
  "insert_domains e items = id_statement e (\<lambda>now w.
     let rows = map (\<lambda>(i, d). d\<lparr>sd_ID := site_domain_seq w + i, sd_CreatedAt := now, sd_UpdatedAt := now\<rparr>)
                  (zip [0..<length items] items);
         keys = map (\<lambda>d. id_collate e (sd_Domain d)) (site_domains (tables w) @ items)
     in if \<not> distinct keys then (Inl (Text duplicate_entry), w)
        else if \<exists>d \<in> set items. \<forall>s \<in> set (sites (tables w)). \<not> id_eq e (st_SiteID s) (sd_SiteID d)
        then (Inl (Text foreign_key_fails), w)
        else (Inr (), (set_domains (site_domains (tables w) @ rows) w)
                         \<lparr>site_domain_seq := site_domain_seq w + length items\<rparr>))"

definition syncSiteDomainsTx :: "identity_env \<Rightarrow> string \<Rightarrow> string list \<Rightarrow> unit ieff" where
  "syncSiteDomainsTx e siteID domains =
     andThen (delete_domains e siteID) (\<lambda>_.
       let domainItems = buildSiteDomainModels siteID domains
       in if domainItems = [] then ok () else insert_domains e domainItems)"

definition site_columns :: "site_model \<Rightarrow> site_model" where
  "site_columns s = s\<lparr>st_Domains := None\<rparr>"

definition site_clash :: "identity_env \<Rightarrow> site_model \<Rightarrow> site_model \<Rightarrow> bool" where
  "site_clash e s r \<longleftrightarrow> id_eq e (st_SiteID r) (st_SiteID s) \<or> id_eq e (st_WidgetKey r) (st_WidgetKey s)"

definition insert_site :: "identity_env \<Rightarrow> site_model \<Rightarrow> site_model ieff" where
  "insert_site e s = id_statement e (\<lambda>now w.
     let s' = s\<lparr>st_ID := site_seq w, st_CreatedAt := now, st_UpdatedAt := now\<rparr>
     in if \<exists>r \<in> set (sites (tables w)). site_clash e s r then (Inl (Text duplicate_entry), w)
        else (Inr s', (set_sites (sites (tables w) @ [site_columns s']) w)\<lparr>site_seq := Suc (site_seq w)\<rparr>))"

definition update_site :: "identity_env \<Rightarrow> site_model \<Rightarrow> site_model ieff" where
  "update_site e s = id_statement e (\<lambda>now w.
     let s' = s\<lparr>st_UpdatedAt := now\<rparr>; rows = sites (tables w)
     in if \<exists>r \<in> set rows. st_ID r \<noteq> st_ID s \<and> site_clash e s r then (Inl (Text duplicate_entry), w)
        else if \<exists>r \<in> set rows. st_ID r = st_ID s
        then (Inr s', set_sites (update_rows (\<lambda>r. st_ID r = st_ID s) (\<lambda>_. site_columns s') rows) w)
        else (Inr s', set_sites (rows @ [site_columns s']) w))"

definition domains_of :: "site_model \<Rightarrow> string list" where
  "domains_of s = (case st_Domains s of None \<Rightarrow> [] | Some ds \<Rightarrow> ds)"

definition Create_site :: "identity_env \<Rightarrow> site_model \<Rightarrow> site_model ieff" where
  "Create_site e s = id_transaction e
     (andThen (insert_site e s) (\<lambda>s'. andThen (syncSiteDomainsTx e (st_SiteID s') (domains_of s')) (\<lambda>_. ok s')))"

definition Save_site :: "identity_env \<Rightarrow> site_model \<Rightarrow> site_model ieff" where
  "Save_site e s =
     (case st_Domains s of
        None \<Rightarrow> update_site e s
      | Some ds \<Rightarrow> id_transaction e
          (andThen (update_site e s) (\<lambda>s'. andThen (syncSiteDomainsTx e (st_SiteID s') ds) (\<lambda>_. ok s'))))"

section \<open>GormSiteAIConfigRepository\<close>

definition set_ai_configs :: "site_ai_config list \<Rightarrow> identity_world \<Rightarrow> identity_world" where
  "set_ai_configs rows w = w\<lparr>tables := (tables w)\<lparr>ai_configs := rows\<rparr>\<rparr>"

definition GetAIConfigRow :: "identity_env \<Rightarrow> string \<Rightarrow> site_ai_config ieff" where
  "GetAIConfigRow e siteID = id_query e (\<lambda>w. found (find (\<lambda>c. id_eq e (ai_SiteID c) siteID) (ai_configs (tables w))))"

text \<open>The column \<^verbatim>\<open>updated_at\<close> follows the change of another column.\<close>

definition ai_upsert_row :: "time \<Rightarrow> site_ai_config \<Rightarrow> site_ai_config \<Rightarrow> site_ai_config" where
  "ai_upsert_row now c r =
     (if ai_Enabled r = ai_Enabled c \<and> ai_ReplyMode r = ai_ReplyMode c then r
      else r\<lparr>ai_Enabled := ai_Enabled c, ai_ReplyMode := ai_ReplyMode c, ai_UpdatedAt := Some now\<rparr>)"

definition Upsert :: "identity_env \<Rightarrow> site_ai_config \<Rightarrow> unit ieff" where
  "Upsert e c = id_statement e (\<lambda>now w.
     let rows = ai_configs (tables w);
         row = c\<lparr>ai_CreatedAt := Some (case ai_CreatedAt c of None \<Rightarrow> now | Some t \<Rightarrow> t), ai_UpdatedAt := Some now\<rparr>
     in if \<exists>r \<in> set rows. id_eq e (ai_SiteID r) (ai_SiteID c)
        then (Inr (), set_ai_configs (update_rows (\<lambda>r. id_eq e (ai_SiteID r) (ai_SiteID c)) (ai_upsert_row now c) rows) w)
        else if \<forall>s \<in> set (sites (tables w)). \<not> id_eq e (st_SiteID s) (ai_SiteID c)
        then (Inl (Text foreign_key_fails), w)
        else (Inr (), set_ai_configs (rows @ [row]) w))"

section \<open>GormAuditLogRepository\<close>

definition set_audit_logs :: "audit_log list \<Rightarrow> identity_world \<Rightarrow> identity_world" where
  "set_audit_logs rows w = w\<lparr>tables := (tables w)\<lparr>audit_logs := rows\<rparr>\<rparr>"

definition Create_audit_log :: "identity_env \<Rightarrow> audit_log \<Rightarrow> unit ieff" where
  "Create_audit_log e l = id_statement e (\<lambda>now w.
     (Inr (), (set_audit_logs (audit_logs (tables w) @ [l\<lparr>al_ID := audit_seq w, al_CreatedAt := now\<rparr>]) w)
                 \<lparr>audit_seq := Suc (audit_seq w)\<rparr>))"

record audit_log_filter =
  alf_ActorAgentID :: uint64
  alf_Action :: string
  alf_ResourceType :: string

definition audit_matches :: "identity_env \<Rightarrow> audit_log_filter \<Rightarrow> audit_log \<Rightarrow> bool" where
  "audit_matches e f l \<longleftrightarrow>
     (alf_ActorAgentID f > 0 \<longrightarrow> al_ActorAgentID l = alf_ActorAgentID f)
     \<and> (TrimSpace (alf_Action f) \<noteq> [] \<longrightarrow> id_eq e (al_Action l) (TrimSpace (alf_Action f)))
     \<and> (TrimSpace (alf_ResourceType f) \<noteq> [] \<longrightarrow> id_eq e (al_ResourceType l) (TrimSpace (alf_ResourceType f)))"

definition List_audit_logs :: "identity_env \<Rightarrow> audit_log_filter \<Rightarrow> nat \<Rightarrow> nat \<Rightarrow> audit_log list ieff" where
  "List_audit_logs e f limit offset = id_query e (\<lambda>w.
     Inr (take limit (drop offset (order_desc al_ID (filter (audit_matches e f) (audit_logs (tables w)))))))"

end
