(* ===== verification/Auth_Service.thy ===== *)
theory Auth_Service
  imports Identity_Store
begin

text \<open>
  auth-service: the password policy and the tokens (\<^verbatim>\<open>services/auth-service/internal/security\<close>), the
  service (\<^verbatim>\<open>internal/service/auth_service.go\<close>) and its gRPC server (\<^verbatim>\<open>internal/grpcserver\<close>).
\<close>

section \<open>Passwords\<close>

definition weakPasswordBlacklist :: "string list" where
  "weakPasswordBlacklist =
     [''123456'', ''12345678'', ''password'', ''password123'', ''qwerty123'', ''admin123456'', ''letmein123'',
      ''agent12345!'', ''superadmin123!'', ''changeme123!'', ''changeme'']"

definition IsUpper :: "identity_env \<Rightarrow> string \<Rightarrow> bool" where
  "IsUpper e r = (let n = rune_value r in if n < 128 then 65 \<le> n \<and> n \<le> 90 else rune_upper e n)"

definition IsLower :: "identity_env \<Rightarrow> string \<Rightarrow> bool" where
  "IsLower e r = (let n = rune_value r in if n < 128 then 97 \<le> n \<and> n \<le> 122 else rune_lower e n)"

definition IsDigit :: "identity_env \<Rightarrow> string \<Rightarrow> bool" where
  "IsDigit e r = (let n = rune_value r in if n < 128 then 48 \<le> n \<and> n \<le> 57 else rune_digit e n)"

text \<open>The loop over the runes: \<open>None\<close> when it meets a space, else upper, lower, digit and special.\<close>

fun policy_scan :: "identity_env \<Rightarrow> string list \<Rightarrow> bool \<times> bool \<times> bool \<times> bool \<Rightarrow> (bool \<times> bool \<times> bool \<times> bool) option" where
  "policy_scan e [] has = Some has"
| "policy_scan e (r # rs) (upper, lower, digit, special) =
     (if r \<in> set space_seqs then None
      else policy_scan e rs
        (if IsUpper e r then (True, lower, digit, special)
         else if IsLower e r then (upper, True, digit, special)
         else if IsDigit e r then (upper, lower, True, special)
         else (upper, lower, digit, True)))"

definition ValidatePasswordPolicy :: "identity_env \<Rightarrow> string \<Rightarrow> ierr + unit" where
  "ValidatePasswordPolicy e raw =
     (if TrimSpace raw = [] then Inl (Text ''password is required'')
      else if RuneCountInString raw < 12 \<or> RuneCountInString raw > 72
      then Inl (Text ''password must be between 12 and 72 characters'')
      else case policy_scan e (runes raw) (False, False, False, False) of
          None \<Rightarrow> Inl (Text ''password must not contain spaces'')
        | Some (hasUpper, hasLower, hasDigit, hasSpecial) \<Rightarrow>
            if \<not> hasUpper \<or> \<not> hasLower \<or> \<not> hasDigit \<or> \<not> hasSpecial
            then Inl (Text ''password must include upper, lower, digit and special character'')
            else if ToLower raw \<in> set weakPasswordBlacklist
            then Inl (Text ''password is too weak or commonly leaked'')
            else Inr ())"

definition HashPassword :: "identity_env \<Rightarrow> string \<Rightarrow> int \<Rightarrow> string ieff" where
  "HashPassword e raw cost w =
     (case bcrypt_hash e (id_tick w) raw cost of Inl err \<Rightarrow> Inl (Text err) | Inr h \<Rightarrow> Inr h, id_advance w)"

definition ComparePassword :: "identity_env \<Rightarrow> string \<Rightarrow> string \<Rightarrow> bool" where
  "ComparePassword e hash raw = bcrypt_compare e hash raw"

section \<open>Tokens\<close>

definition seconds :: "time \<Rightarrow> int" where
  "seconds t = t div 1000000000"

definition IssueToken ::
  "identity_env \<Rightarrow> string \<Rightarrow> string \<Rightarrow> time \<Rightarrow> uint64 \<Rightarrow> string \<Rightarrow> string \<Rightarrow> version \<Rightarrow> string ieff" where
  "IssueToken e secret issuer expire agentID email role tokenVersion =
     andThen (id_now e) (\<lambda>now.
       lift_result (case jwt_sign e secret
           \<lparr>cl_AgentID = agentID, cl_Email = email, cl_Role = role, cl_TokenVersion = tokenVersion,
            cl_Issuer = issuer, cl_Subject = ''agent:'' @ FormatUint agentID, cl_IssuedAt = seconds now,
            cl_NotBefore = seconds now, cl_ExpiresAt = Some (seconds (now + expire))\<rparr> of
         Inl err \<Rightarrow> Inl (Text err) | Inr token \<Rightarrow> Inr token))"

definition parseTokenWithSecret :: "identity_env \<Rightarrow> string \<Rightarrow> string \<Rightarrow> string \<Rightarrow> claims ieff" where
  "parseTokenWithSecret e secret issuer token =
     andThen (id_now e) (\<lambda>now.
       lift_result (case jwt_parse e
             (\<lambda>m. case m of HMAC \<Rightarrow> Inr secret | other_method \<Rightarrow> Inl ''unexpected signing method'') issuer now token of
           Inl err \<Rightarrow> Inl (Text err)
         | Inr (c, Valid) \<Rightarrow> if \<not> Valid then Inl (Text ''invalid token'') else Inr c))"

fun parse_any :: "identity_env \<Rightarrow> string list \<Rightarrow> string \<Rightarrow> string \<Rightarrow> ierr option \<Rightarrow> claims ieff" where
  "parse_any e [] issuer token lastErr =
     fail (case lastErr of Some err \<Rightarrow> err | None \<Rightarrow> Text ''invalid token'')"
| "parse_any e (secret # secrets) issuer token lastErr =
     (if secret = [] then parse_any e secrets issuer token lastErr
      else attempt (parseTokenWithSecret e secret issuer token)
        (case_sum (\<lambda>err. parse_any e secrets issuer token (Some err)) ok))"

definition ParseTokenAny :: "identity_env \<Rightarrow> string list \<Rightarrow> string \<Rightarrow> string \<Rightarrow> claims ieff" where
  "ParseTokenAny e secrets issuer token = parse_any e secrets issuer token None"

definition buildJWTSecrets :: "string \<Rightarrow> string \<Rightarrow> string list" where
  "buildJWTSecrets primary previous =
     (let primaryText = TrimSpace primary; previousText = TrimSpace previous
      in (if primaryText \<noteq> [] then [primaryText] else [])
         @ (if previousText \<noteq> [] \<and> previousText \<noteq> primaryText then [previousText] else []))"

section \<open>The service\<close>

record auth_service =
  jwtSecret :: string
  jwtVerifySecrets :: "string list"
  jwtIssuer :: string
  jwtExpire :: time
  bcryptCost :: int
  superAdminEmail :: string
  superAdminPassword :: string
  superAdminDisplayName :: string

definition New_auth ::
  "string \<Rightarrow> string \<Rightarrow> string \<Rightarrow> time \<Rightarrow> int \<Rightarrow> string \<Rightarrow> string \<Rightarrow> string \<Rightarrow> auth_service" where
  "New_auth secret previousSecret issuer expire cost email password displayName =
     \<lparr>jwtSecret = secret, jwtVerifySecrets = buildJWTSecrets secret previousSecret, jwtIssuer = issuer,
      jwtExpire = expire, bcryptCost = cost, superAdminEmail = ToLower (TrimSpace email),
      superAdminPassword = TrimSpace password, superAdminDisplayName = TrimSpace displayName\<rparr>"

definition normalizeTokenVersion :: "version \<Rightarrow> version" where
  "normalizeTokenVersion v = (if v = 0 then 1 else v)"

definition isActiveStatus :: "string \<Rightarrow> bool" where
  "isActiveStatus s = EqualFold (TrimSpace s) ''active''"

record login_input =
  li_Email :: string
  li_Password :: string

definition not_found :: "ierr \<Rightarrow> bool" where
  "not_found err = errors_Is err Repo_ErrNotFound"

definition login_agent :: "identity_env \<Rightarrow> auth_service \<Rightarrow> string \<Rightarrow> string \<Rightarrow> (string \<times> agent) ieff" where
  "login_agent e s email password =
     attempt (GetAgentByEmail e email) (\<lambda>r. case r of
         Inl err \<Rightarrow> fail (if not_found err then Sentinel Auth_ErrInvalidCredential else err)
       | Inr a \<Rightarrow>
           if \<not> isActiveStatus (ag_Status a) then fail (Sentinel Auth_ErrUnauthorized)
           else if \<not> ComparePassword e (ag_PasswordHash a) password then fail (Sentinel Auth_ErrInvalidCredential)
           else andThen (IssueToken e (jwtSecret s) (jwtIssuer s) (jwtExpire s) (ag_ID a) (ag_Email a) (ag_Role a)
                           (normalizeTokenVersion (ag_TokenVersion a)))
                  (\<lambda>token. ok (token, a)))"

definition Login :: "identity_env \<Rightarrow> auth_service \<Rightarrow> login_input \<Rightarrow> (string \<times> agent) ieff" where
  "Login e s inp =
     (let email = ToLower (TrimSpace (li_Email inp)) in
      if email = [] \<or> TrimSpace (li_Password inp) = [] then fail (Sentinel Auth_ErrInvalidCredential)
      else attempt (GetSuperAdminByEmail e email) (\<lambda>r. case r of
          Inr a \<Rightarrow>
            if \<not> isActiveStatus (sa_Status a) then fail (Sentinel Auth_ErrUnauthorized)
            else if \<not> ComparePassword e (sa_PasswordHash a) (li_Password inp)
            then fail (Sentinel Auth_ErrInvalidCredential)
            else
              let tokenVersion = normalizeTokenVersion (sa_TokenVersion a) in
              andThen (IssueToken e (jwtSecret s) (jwtIssuer s) (jwtExpire s) (sa_ID a) (sa_Email a)
                         ''super_admin'' tokenVersion)
                (\<lambda>token. ok (token,
                   \<lparr>ag_ID = sa_ID a, ag_Email = sa_Email a, ag_PasswordHash = [], ag_DisplayName = sa_DisplayName a,
                    ag_SiteID = [], ag_Role = ''super_admin'', ag_Status = sa_Status a,
                    ag_TokenVersion = tokenVersion, ag_CreatedAt = sa_CreatedAt a, ag_UpdatedAt = sa_UpdatedAt a\<rparr>))
        | Inl err \<Rightarrow> if \<not> not_found err then fail err else login_agent e s email (li_Password inp)))"

definition ParseToken :: "identity_env \<Rightarrow> auth_service \<Rightarrow> string \<Rightarrow> claims ieff" where
  "ParseToken e s token = ParseTokenAny e (jwtVerifySecrets s) (jwtIssuer s) token"

text \<open>The check of the account behind the claims: its status and its token version.\<close>

definition session_check :: "string \<Rightarrow> version \<Rightarrow> version \<Rightarrow> unit ieff" where
  "session_check status current presented =
     (if \<not> isActiveStatus status then fail (Sentinel Auth_ErrUnauthorized)
      else if normalizeTokenVersion presented \<noteq> normalizeTokenVersion current then fail (Sentinel Auth_ErrUnauthorized)
      else ok ())"

definition ValidateToken :: "identity_env \<Rightarrow> auth_service \<Rightarrow> string \<Rightarrow> claims ieff" where
  "ValidateToken e s token =
     attempt (ParseToken e s token) (\<lambda>r. case r of
         Inl err \<Rightarrow> fail (Sentinel Auth_ErrUnauthorized)
       | Inr c \<Rightarrow>
           let role = ToLower (TrimSpace (cl_Role c));
               missing = (\<lambda>err. if not_found err then Sentinel Auth_ErrUnauthorized else err) in
           if role = ''super_admin'' then
             andThen (map_error missing (GetSuperAdminRow e (cl_AgentID c))) (\<lambda>a.
               andThen (session_check (sa_Status a) (sa_TokenVersion a) (cl_TokenVersion c)) (\<lambda>_. ok c))
           else if role = ''agent'' \<or> role = ''admin'' then
             andThen (map_error missing (GetAgentRow e (cl_AgentID c))) (\<lambda>a.
               andThen (session_check (ag_Status a) (ag_TokenVersion a) (cl_TokenVersion c)) (\<lambda>_. ok c))
           else fail (Sentinel Auth_ErrUnauthorized))"

definition GetAgentByID :: "identity_env \<Rightarrow> uint64 \<Rightarrow> agent ieff" where
  "GetAgentByID e agentID =
     (if agentID = 0 then fail (Sentinel Auth_ErrUnauthorized)
      else map_error (\<lambda>err. if not_found err then Sentinel Auth_ErrUnauthorized else err) (GetAgentRow e agentID))"

text \<open>The corrections of an existing account, before its password.\<close>

definition ensured_profile :: "auth_service \<Rightarrow> super_admin \<Rightarrow> super_admin" where
  "ensured_profile s a =
     a\<lparr>sa_DisplayName := superAdminDisplayName s,
       sa_Status := (if isActiveStatus (sa_Status a) then sa_Status a else ''active''),
       sa_TokenVersion := (if sa_TokenVersion a = 0 then 1 else sa_TokenVersion a)\<rparr>"

definition create_super_admin :: "identity_env \<Rightarrow> auth_service \<Rightarrow> unit ieff" where
  "create_super_admin e s =
     attempt (GetAgentByEmail e (superAdminEmail s)) (\<lambda>r. case r of
         Inr _ \<Rightarrow> fail (Text ''SUPER_ADMIN_EMAIL already exists in agents'')
       | Inl err \<Rightarrow>
           if \<not> not_found err then fail err
           else andThen (HashPassword e (superAdminPassword s) (bcryptCost s)) (\<lambda>hash.
             andThen (Create_super_admin e
               \<lparr>sa_ID = 0, sa_Email = superAdminEmail s, sa_PasswordHash = hash,
                sa_DisplayName = superAdminDisplayName s, sa_Status = ''active'', sa_TokenVersion = 1,
                sa_CreatedAt = 0, sa_UpdatedAt = 0\<rparr>) (\<lambda>_. ok ())))"

definition correct_super_admin :: "identity_env \<Rightarrow> auth_service \<Rightarrow> super_admin \<Rightarrow> unit ieff" where
  "correct_super_admin e s a =
     (let a1 = ensured_profile s a in
      if ComparePassword e (sa_PasswordHash a) (superAdminPassword s) then
        (if a1 = a then ok () else andThen (Save_super_admin e a1) (\<lambda>_. ok ()))
      else
        andThen (HashPassword e (superAdminPassword s) (bcryptCost s)) (\<lambda>hash.
          andThen (Save_super_admin e (a1\<lparr>sa_PasswordHash := hash\<rparr>)) (\<lambda>_. ok ())))"

definition EnsureSuperAdmin :: "identity_env \<Rightarrow> auth_service \<Rightarrow> unit ieff" where
  "EnsureSuperAdmin e s =
     (if superAdminEmail s = [] \<or> superAdminPassword s = [] \<or> superAdminDisplayName s = []
      then fail (Text ''super admin env is required'')
      else case ValidatePasswordPolicy e (superAdminPassword s) of
          Inl err \<Rightarrow> fail (Wrap ''invalid SUPER_ADMIN_PASSWORD: '' err)
        | Inr _ \<Rightarrow>
            attempt (GetSuperAdminByEmail e (superAdminEmail s)) (\<lambda>r. case r of
                Inl err \<Rightarrow> if not_found err then create_super_admin e s else fail err
              | Inr a \<Rightarrow> correct_super_admin e s a))"

section \<open>The gRPC server\<close>

definition auth_mapError :: "ierr \<Rightarrow> grpc_error" where
  "auth_mapError err =
     (let text = Error identity_text err in
      if err = Sentinel Auth_ErrForbidden then (PermissionDenied, text)
      else if err = Sentinel Auth_ErrConflict then (AlreadyExists, text)
      else if err = Sentinel Auth_ErrInvalidCredential then (Unauthenticated, text)
      else if err = Sentinel Auth_ErrUnauthorized then (PermissionDenied, text)
      else if Contains (ToLower text) ''required'' \<or> Contains (ToLower text) ''invalid''
      then (InvalidArgument, text)
      else (Internal, ''internal error''))"

definition parseBearerToken :: "string \<Rightarrow> string" where
  "parseBearerToken header =
     (case split_space header of
        None \<Rightarrow> []
      | Some (scheme, rest) \<Rightarrow> if \<not> EqualFold scheme ''Bearer'' then [] else TrimSpace rest)"

type_synonym 'a geff = "(identity_world, grpc_error, 'a) eff"

record agent_pb =
  pba_Id :: uint64
  pba_Email :: string
  pba_DisplayName :: string
  pba_SiteId :: string
  pba_Role :: string
  pba_Status :: string
  pba_CreatedAt :: time
  pba_UpdatedAt :: time

definition toAgentPB :: "agent \<Rightarrow> agent_pb" where
  "toAgentPB a =
     \<lparr>pba_Id = ag_ID a, pba_Email = ag_Email a, pba_DisplayName = ag_DisplayName a, pba_SiteId = ag_SiteID a,
      pba_Role = ag_Role a, pba_Status = ag_Status a, pba_CreatedAt = ag_CreatedAt a, pba_UpdatedAt = ag_UpdatedAt a\<rparr>"

definition rpc_Login :: "identity_env \<Rightarrow> auth_service \<Rightarrow> login_input \<Rightarrow> (string \<times> agent_pb) geff" where
  "rpc_Login e s req =
     (if TrimSpace (li_Email req) = [] \<or> TrimSpace (li_Password req) = []
      then fail (InvalidArgument, ''email and password are required'')
      else andThen (map_error auth_mapError (Login e s req)) (\<lambda>(token, a). ok (token, toAgentPB a)))"

record me_response =
  me_AgentId :: uint64
  me_Email :: string
  me_Role :: string
  me_Exp :: int
  me_SiteId :: string

definition rpc_Me :: "identity_env \<Rightarrow> auth_service \<Rightarrow> string \<Rightarrow> me_response geff" where
  "rpc_Me e s authorization =
     (let token = parseBearerToken authorization; invalid = (\<lambda>_. (Unauthenticated, ''invalid token'')) in
      if token = [] then fail (Unauthenticated, ''missing bearer token'')
      else andThen (map_error invalid (ValidateToken e s token)) (\<lambda>c.
        andThen (if cl_Role c = ''agent'' \<or> cl_Role c = ''admin''
                 then andThen (map_error invalid (GetAgentByID e (cl_AgentID c))) (\<lambda>a. ok (ag_SiteID a))
                 else ok []) (\<lambda>siteID.
          ok \<lparr>me_AgentId = cl_AgentID c, me_Email = cl_Email c, me_Role = cl_Role c,
              me_Exp = (case cl_ExpiresAt c of None \<Rightarrow> 0 | Some t \<Rightarrow> t), me_SiteId = siteID\<rparr>)))"

end
