(* ===== verification/Admin_Service.thy ===== *)
theory Admin_Service
  imports Auth_Service
begin

text \<open>
  admin-service: the management of sites, of their AI configuration and of agents, with the audit
  log (\<^verbatim>\<open>services/admin-service/internal/service/admin_service.go\<close>).  The repositories, the password
  policy and the token functions are those of \<open>Identity_Store\<close> and \<open>Auth_Service\<close>, whose code
  admin-service repeats.
\<close>

definition SiteAIReplyModeUnassignedAutoReply :: string where
  "SiteAIReplyModeUnassignedAutoReply = ''unassigned_auto_reply''"

record ActorContext =
  actor_AgentID :: uint64
  actor_Email :: string
  actor_Role :: string
  actor_IP :: string
  actor_UserAgent :: string

section \<open>Normalisation of the input\<close>

definition lower_alnum :: "char \<Rightarrow> bool" where
  "lower_alnum c \<longleftrightarrow> is_digit c \<or> (97 \<le> (of_char c :: int) \<and> (of_char c :: int) \<le> 122)"

text \<open>The regular expression \<^verbatim>\<open>^[a-z0-9][a-z0-9_-]*$\<close>.\<close>

definition site_id_format :: "string \<Rightarrow> bool" where
  "site_id_format s \<longleftrightarrow>
     (case s of [] \<Rightarrow> False
      | c # cs \<Rightarrow> lower_alnum c \<and> list_all (\<lambda>d. lower_alnum d \<or> d = CHR ''_'' \<or> d = CHR ''-'') cs)"

definition normalizeSiteID :: "string \<Rightarrow> ierr + string" where
  "normalizeSiteID raw =
     (let siteID = TrimSpace (ToLower raw) in
      if siteID = [] then Inl (Text ''site_id is required'')
      else if length siteID < 4 \<or> length siteID > 64 then Inl (Text ''site_id length must be between 4 and 64'')
      else if \<not> site_id_format siteID then Inl (Text ''site_id format is invalid'')
      else Inr siteID)"

definition normalizeSiteDomain :: "string \<Rightarrow> ierr + string" where
  "normalizeSiteDomain raw =
     (let domain = TrimSpace (ToLower raw) in
      if domain = [] then Inl (Text ''domain is required'') else Inr domain)"

fun normalize_each :: "string list \<Rightarrow> string list \<Rightarrow> ierr + string list" where
  "normalize_each [] normalized = Inr normalized"
| "normalize_each (item # items) normalized =
     (case normalizeSiteDomain item of
        Inl err \<Rightarrow> Inl err
      | Inr domain \<Rightarrow>
          normalize_each items (if domain \<in> set normalized then normalized else normalized @ [domain]))"

definition normalizeSiteDomains :: "string list \<Rightarrow> string \<Rightarrow> ierr + string list" where
  "normalizeSiteDomains items fallback =
     (case normalize_each (items @ (if TrimSpace fallback \<noteq> [] then [fallback] else [])) [] of
        Inl err \<Rightarrow> Inl err
      | Inr normalized \<Rightarrow>
          if normalized = [] then Inl (Text ''at least one domain is required'') else Inr normalized)"

definition normalizeAgentID :: "string \<Rightarrow> ierr + uint64" where
  "normalizeAgentID raw =
     (let agentID = TrimSpace raw in
      if agentID = [] then Inl (Text ''agent_id is required'')
      else if \<not> (length agentID = 4 \<and> list_all is_digit agentID) then Inl (Text ''agent_id must be exactly 4 digits'')
      else case ParseUint agentID of
          None \<Rightarrow> Inl (Text ''invalid agent_id'')
        | Some value \<Rightarrow> if value = 0 then Inl (Text ''agent_id 0000 is not allowed'') else Inr value)"

definition normalizeSiteStatus :: "string \<Rightarrow> ierr + string" where
  "normalizeSiteStatus raw =
     (let st = ToLower (TrimSpace raw) in
      if st \<noteq> ''active'' \<and> st \<noteq> ''disabled'' then Inl (Text ''invalid site status'') else Inr st)"

definition normalizeSiteAIReplyMode :: "string \<Rightarrow> ierr + string" where
  "normalizeSiteAIReplyMode raw =
     (let m = ToLower (TrimSpace raw); replyMode = (if m = [] then SiteAIReplyModeUnassignedAutoReply else m) in
      if replyMode \<noteq> SiteAIReplyModeUnassignedAutoReply then Inl (Text ''invalid reply_mode'') else Inr replyMode)"

definition normalizeAgentStatus :: "string \<Rightarrow> ierr + string" where
  "normalizeAgentStatus raw =
     (let st = ToLower (TrimSpace raw) in
      if st \<noteq> ''active'' \<and> st \<noteq> ''inactive'' then Inl (Text ''invalid agent status'') else Inr st)"

definition nextTokenVersion :: "version \<Rightarrow> version" where
  "nextTokenVersion current = (if current = 0 then 2 else current + 1)"

definition formatAgentID :: "uint64 \<Rightarrow> string" where
  "formatAgentID i = format_04d i"

definition isDuplicateError :: "ierr \<Rightarrow> bool" where
  "isDuplicateError err =
     (let msg = ToLower (Error identity_text err) in Contains msg ''duplicate'' \<or> Contains msg ''unique'')"

definition hex_digit :: "int \<Rightarrow> char" where
  "hex_digit n = (if n < 10 then char_of (n + 48) else char_of (n + 87))"

definition EncodeToString :: "string \<Rightarrow> string" where
  "EncodeToString s = concat (map (\<lambda>c. [hex_digit (of_char c div 16), hex_digit (of_char c mod 16)]) s)"

definition randomHex :: "identity_env \<Rightarrow> string \<Rightarrow> nat \<Rightarrow> string ieff" where
  "randomHex e prefix bytesLen w =
     (case rand_read e (id_tick w) bytesLen of
        Inl err \<Rightarrow> Inl (Text err)
      | Inr buf \<Rightarrow> Inr (prefix @ ''_'' @ EncodeToString buf), id_advance w)"

section \<open>The audit log\<close>

text \<open>The texts of the summaries, in UTF-8.\<close>

definition zh_create_site :: string where
  "zh_create_site =
    [CHR 0xE5, CHR 0x88, CHR 0x9B, CHR 0xE5, CHR 0xBB, CHR 0xBA, CHR 0xE7, CHR 0xAB, CHR 0x99,
     CHR 0xE7, CHR 0x82, CHR 0xB9] @ '' ''"

definition zh_update_site :: string where
  "zh_update_site =
    [CHR 0xE6, CHR 0x9B, CHR 0xB4, CHR 0xE6, CHR 0x96, CHR 0xB0, CHR 0xE7, CHR 0xAB, CHR 0x99,
     CHR 0xE7, CHR 0x82, CHR 0xB9] @ '' ''"

definition zh_site_status :: string where
  "zh_site_status =
    [CHR 0xE7, CHR 0xAB, CHR 0x99, CHR 0xE7, CHR 0x82, CHR 0xB9, CHR 0xE7, CHR 0x8A, CHR 0xB6,
     CHR 0xE6, CHR 0x80, CHR 0x81] @ '' ''"

definition zh_rotate_key :: string where
  "zh_rotate_key =
    [CHR 0xE8, CHR 0xBD, CHR 0xAE, CHR 0xE6, CHR 0x8D, CHR 0xA2, CHR 0xE7, CHR 0xAB, CHR 0x99,
     CHR 0xE7, CHR 0x82, CHR 0xB9] @ '' widget_key''"

definition zh_update_ai :: string where
  "zh_update_ai =
    [CHR 0xE6, CHR 0x9B, CHR 0xB4, CHR 0xE6, CHR 0x96, CHR 0xB0, CHR 0xE7, CHR 0xAB, CHR 0x99,
     CHR 0xE7, CHR 0x82, CHR 0xB9] @ '' AI '' @ [CHR 0xE9, CHR 0x85, CHR 0x8D, CHR 0xE7, CHR 0xBD, CHR 0xAE] @ '' enabled=''"

definition zh_create_agent :: string where
  "zh_create_agent =
    [CHR 0xE5, CHR 0x88, CHR 0x9B, CHR 0xE5, CHR 0xBB, CHR 0xBA, CHR 0xE5, CHR 0x9D, CHR 0x90,
     CHR 0xE5, CHR 0xB8, CHR 0xAD] @ '' ''"

definition zh_agent_status :: string where
  "zh_agent_status =
    [CHR 0xE5, CHR 0x9D, CHR 0x90, CHR 0xE5, CHR 0xB8, CHR 0xAD, CHR 0xE7, CHR 0x8A, CHR 0xB6,
     CHR 0xE6, CHR 0x80, CHR 0x81] @ '' ''"

definition zh_reset_password :: string where
  "zh_reset_password =
    [CHR 0xE9, CHR 0x87, CHR 0x8D, CHR 0xE7, CHR 0xBD, CHR 0xAE, CHR 0xE5, CHR 0x9D, CHR 0x90,
     CHR 0xE5, CHR 0xB8, CHR 0xAD, CHR 0xE5, CHR 0xAF, CHR 0x86, CHR 0xE7, CHR 0xA0, CHR 0x81,
     CHR 0xE5, CHR 0xB9, CHR 0xB6, CHR 0xE5, CHR 0xBC, CHR 0xBA, CHR 0xE5, CHR 0x88, CHR 0xB6,
     CHR 0xE4, CHR 0xB8, CHR 0x8B, CHR 0xE7, CHR 0xBA, CHR 0xBF]"

definition zh_force_logout :: string where
  "zh_force_logout =
    [CHR 0xE5, CHR 0xBC, CHR 0xBA, CHR 0xE5, CHR 0x88, CHR 0xB6, CHR 0xE5, CHR 0x9D, CHR 0x90,
     CHR 0xE5, CHR 0xB8, CHR 0xAD, CHR 0xE4, CHR 0xB8, CHR 0x8B, CHR 0xE7, CHR 0xBA, CHR 0xBF]"

definition or_dash :: "string \<Rightarrow> string" where
  "or_dash s = (if s = [] then ''-'' else s)"

definition writeAuditLog ::
  "identity_env \<Rightarrow> ActorContext \<Rightarrow> string \<Rightarrow> string \<Rightarrow> string \<Rightarrow> string \<Rightarrow> unit ieff" where
  "writeAuditLog e actor action resourceType resourceID summary =
     (if TrimSpace action = [] then ok ()
      else if actor_AgentID actor = 0 then ok ()
      else Create_audit_log e
        \<lparr>al_ID = 0, al_ActorAgentID = actor_AgentID actor, al_ActorEmail = or_dash (TrimSpace (actor_Email actor)),
         al_ActorRole = or_dash (TrimSpace (actor_Role actor)), al_Action = TrimSpace action,
         al_ResourceType = TrimSpace resourceType, al_ResourceID = TrimSpace resourceID,
         al_Summary = TrimSpace summary, al_IP = TrimSpace (actor_IP actor),
         al_UserAgent = TrimSpace (actor_UserAgent actor), al_CreatedAt = 0\<rparr>)"

section \<open>Sites\<close>

definition missing_as :: "identity_sentinel goerr \<Rightarrow> 'a ieff \<Rightarrow> 'a ieff" where
  "missing_as err m = map_error (\<lambda>x. if not_found x then err else x) m"

definition conflict_as :: "'a ieff \<Rightarrow> 'a ieff" where
  "conflict_as m = map_error (\<lambda>x. if isDuplicateError x then Sentinel Admin_ErrConflict else x) m"

record CreateSiteInput =
  csi_SiteID :: string
  csi_Name :: string
  csi_Domain :: string
  csi_Domains :: "string list"

definition CreateSite :: "identity_env \<Rightarrow> CreateSiteInput \<Rightarrow> ActorContext \<Rightarrow> site_model ieff" where
  "CreateSite e inp actor =
     (case normalizeSiteID (csi_SiteID inp) of Inl err \<Rightarrow> fail err | Inr siteID \<Rightarrow>
       let name = TrimSpace (csi_Name inp) in
       (case normalizeSiteDomains (csi_Domains inp) (csi_Domain inp) of Inl err \<Rightarrow> fail err | Inr domains \<Rightarrow>
         if name = [] then fail (Text ''name is required'')
         else andThen (randomHex e ''wk'' 16) (\<lambda>widgetKey.
           andThen (conflict_as (Create_site e
             \<lparr>st_ID = 0, st_SiteID = siteID, st_Name = name, st_WidgetKey = widgetKey, st_Status = ''active'',
              st_CreatedAt = 0, st_UpdatedAt = 0, st_Domains = Some domains\<rparr>)) (\<lambda>site.
             andThen (ignore (writeAuditLog e actor ''site.create'' ''site'' (st_SiteID site)
                        (zh_create_site @ st_SiteID site))) (\<lambda>_. ok site)))))"

definition GetSiteBySiteID :: "identity_env \<Rightarrow> string \<Rightarrow> site_model ieff" where
  "GetSiteBySiteID e siteID =
     (if TrimSpace siteID = [] then fail (Text ''site_id is required'')
      else missing_as (Sentinel Admin_ErrNotFound) (GetBySiteID e (TrimSpace siteID)))"

definition GetSiteByDomain :: "identity_env \<Rightarrow> string \<Rightarrow> site_model ieff" where
  "GetSiteByDomain e domain =
     (case normalizeSiteDomain domain of Inl err \<Rightarrow> fail err | Inr normalizedDomain \<Rightarrow>
       missing_as (Sentinel Admin_ErrNotFound) (GetByDomain e normalizedDomain))"

record UpdateSiteInput =
  usi_SiteID :: string
  usi_Name :: string
  usi_Domains :: "string list"

definition UpdateSite :: "identity_env \<Rightarrow> UpdateSiteInput \<Rightarrow> ActorContext \<Rightarrow> site_model ieff" where
  "UpdateSite e inp actor =
     (let siteID = TrimSpace (usi_SiteID inp); name = TrimSpace (usi_Name inp) in
      if siteID = [] then fail (Text ''site_id is required'')
      else if name = [] then fail (Text ''name is required'')
      else (case normalizeSiteDomains (usi_Domains inp) [] of Inl err \<Rightarrow> fail err | Inr domains \<Rightarrow>
        andThen (missing_as (Sentinel Admin_ErrNotFound) (GetBySiteID e siteID)) (\<lambda>site.
          andThen (conflict_as (Save_site e (site\<lparr>st_Name := name, st_Domains := Some domains\<rparr>))) (\<lambda>saved.
            andThen (ignore (writeAuditLog e actor ''site.update'' ''site'' (st_SiteID saved)
                       (zh_update_site @ st_SiteID saved))) (\<lambda>_. ok saved)))))"

definition UpdateSiteStatus :: "identity_env \<Rightarrow> string \<Rightarrow> string \<Rightarrow> ActorContext \<Rightarrow> site_model ieff" where
  "UpdateSiteStatus e rawSiteID rawStatus actor =
     (let siteID = TrimSpace rawSiteID in
      if siteID = [] then fail (Text ''site_id is required'')
      else (case normalizeSiteStatus rawStatus of Inl err \<Rightarrow> fail err | Inr st \<Rightarrow>
        andThen (missing_as (Sentinel Admin_ErrNotFound) (GetBySiteID e siteID)) (\<lambda>site.
          andThen (Save_site e (site\<lparr>st_Status := st\<rparr>)) (\<lambda>saved.
            andThen (ignore (writeAuditLog e actor ''site.update_status'' ''site'' (st_SiteID saved)
                       (zh_site_status @ st_Status site @ '' -> '' @ st))) (\<lambda>_. ok saved)))))"

definition RotateSiteWidgetKey :: "identity_env \<Rightarrow> string \<Rightarrow> ActorContext \<Rightarrow> site_model ieff" where
  "RotateSiteWidgetKey e rawSiteID actor =
     (let siteID = TrimSpace rawSiteID in
      if siteID = [] then fail (Text ''site_id is required'')
      else andThen (missing_as (Sentinel Admin_ErrNotFound) (GetBySiteID e siteID)) (\<lambda>site.
        andThen (randomHex e ''wk'' 16) (\<lambda>widgetKey.
          andThen (Save_site e (site\<lparr>st_WidgetKey := widgetKey\<rparr>)) (\<lambda>saved.
            andThen (ignore (writeAuditLog e actor ''site.rotate_widget_key'' ''site'' (st_SiteID saved)
                       zh_rotate_key)) (\<lambda>_. ok saved)))))"

section \<open>The AI configuration of a site\<close>

definition default_ai_config :: "string \<Rightarrow> site_ai_config" where
  "default_ai_config siteID =
     \<lparr>ai_SiteID = siteID, ai_Enabled = False, ai_ReplyMode = SiteAIReplyModeUnassignedAutoReply,
      ai_CreatedAt = None, ai_UpdatedAt = None\<rparr>"

definition GetSiteAIConfig :: "identity_env \<Rightarrow> string \<Rightarrow> site_ai_config ieff" where
  "GetSiteAIConfig e rawSiteID =
     (let siteID = TrimSpace rawSiteID in
      if siteID = [] then fail (Text ''site_id is required'')
      else andThen (missing_as (Sentinel Admin_ErrNotFound) (GetBySiteID e siteID)) (\<lambda>_.
        attempt (GetAIConfigRow e siteID) (\<lambda>r. case r of
            Inl err \<Rightarrow> if not_found err then ok (default_ai_config siteID) else fail err
          | Inr config \<Rightarrow> ok config)))"

definition UpdateSiteAIConfig ::
  "identity_env \<Rightarrow> string \<Rightarrow> bool \<Rightarrow> string \<Rightarrow> ActorContext \<Rightarrow> site_ai_config ieff" where
  "UpdateSiteAIConfig e rawSiteID enabled rawMode actor =
     (let siteID = TrimSpace rawSiteID in
      if siteID = [] then fail (Text ''site_id is required'')
      else (case normalizeSiteAIReplyMode rawMode of Inl err \<Rightarrow> fail err | Inr replyMode \<Rightarrow>
        andThen (missing_as (Sentinel Admin_ErrNotFound) (GetBySiteID e siteID)) (\<lambda>_.
          attempt (GetAIConfigRow e siteID) (\<lambda>r.
            if (case r of Inl err \<Rightarrow> \<not> not_found err | Inr _ \<Rightarrow> False) then fail (projl r)
            else
              let config = \<lparr>ai_SiteID = siteID, ai_Enabled = enabled, ai_ReplyMode = replyMode,
                    ai_CreatedAt = (case r of Inl _ \<Rightarrow> None | Inr current \<Rightarrow> ai_CreatedAt current), ai_UpdatedAt = None\<rparr>
              in andThen (Upsert e config) (\<lambda>_.
                   andThen (ignore (writeAuditLog e actor ''site.update_ai_config'' ''site_ai_config'' siteID
                     (zh_update_ai @ (if enabled then ''true'' else ''false'') @
                      '' reply_mode='' @ replyMode))) (\<lambda>_. GetSiteAIConfig e siteID))))))"

section \<open>Agents\<close>

record CreateAgentInput =
  cai_AgentID :: string
  cai_Email :: string
  cai_Password :: string
  cai_DisplayName :: string
  cai_Role :: string
  cai_SiteID :: string

definition CreateAgent :: "identity_env \<Rightarrow> int \<Rightarrow> CreateAgentInput \<Rightarrow> ActorContext \<Rightarrow> agent ieff" where
  "CreateAgent e cost inp actor =
     (case normalizeAgentID (cai_AgentID inp) of Inl err \<Rightarrow> fail err | Inr agentID \<Rightarrow>
     (case normalizeSiteID (cai_SiteID inp) of Inl err \<Rightarrow> fail err | Inr siteID \<Rightarrow>
     andThen (missing_as (Text ''invalid site_id'') (GetBySiteID e siteID)) (\<lambda>_.
       let email = TrimSpace (ToLower (cai_Email inp));
           displayName = TrimSpace (cai_DisplayName inp);
           r = TrimSpace (ToLower (cai_Role inp));
           role = (if r = [] then ''agent'' else r)
       in if role \<noteq> ''agent'' then fail (Text ''invalid role'')
          else if email = [] \<or> displayName = [] then fail (Text ''email and display_name are required'')
          else attempt (GetSuperAdminByEmail e email) (\<lambda>x. case x of
              Inr _ \<Rightarrow> fail (Sentinel Admin_ErrConflict)
            | Inl err \<Rightarrow>
                if \<not> not_found err then fail err
                else
                  (case ValidatePasswordPolicy e (cai_Password inp) of Inl err \<Rightarrow> fail err | Inr _ \<Rightarrow>
                  andThen (HashPassword e (cai_Password inp) cost) (\<lambda>hash.
                  andThen (conflict_as (Create_agent e
                    \<lparr>ag_ID = agentID, ag_Email = email, ag_PasswordHash = hash, ag_DisplayName = displayName,
                     ag_SiteID = siteID, ag_Role = role, ag_Status = ''active'', ag_TokenVersion = 1,
                     ag_CreatedAt = 0, ag_UpdatedAt = 0\<rparr>)) (\<lambda>a.
                  andThen (ignore (writeAuditLog e actor ''agent.create'' ''agent'' (formatAgentID (ag_ID a))
                             (zh_create_agent @ formatAgentID (ag_ID a)))) (\<lambda>_. ok a))))))))"

definition admin_GetAgentByID :: "identity_env \<Rightarrow> uint64 \<Rightarrow> agent ieff" where
  "admin_GetAgentByID e agentID =
     (if agentID = 0 then fail (Text ''agent_id is required'')
      else missing_as (Sentinel Admin_ErrNotFound) (GetAgentRow e agentID))"

definition UpdateAgentStatus :: "identity_env \<Rightarrow> uint64 \<Rightarrow> string \<Rightarrow> ActorContext \<Rightarrow> agent ieff" where
  "UpdateAgentStatus e agentID rawStatus actor =
     (if agentID = 0 then fail (Text ''agent_id is required'')
      else (case normalizeAgentStatus rawStatus of Inl err \<Rightarrow> fail err | Inr st \<Rightarrow>
        andThen (missing_as (Sentinel Admin_ErrNotFound) (GetAgentRow e agentID)) (\<lambda>a.
          if ag_Role a = ''super_admin'' \<and> st \<noteq> ''active''
          then fail (Text ''invalid status transition for super_admin'')
          else andThen (Save_agent e (a\<lparr>ag_Status := st,
                  ag_TokenVersion := (if st \<noteq> ''active'' then nextTokenVersion (ag_TokenVersion a) else ag_TokenVersion a)\<rparr>))
            (\<lambda>saved. andThen (ignore (writeAuditLog e actor ''agent.update_status'' ''agent'' (formatAgentID (ag_ID saved))
                 (zh_agent_status @ ag_Status a @ '' -> '' @ st))) (\<lambda>_. ok saved)))))"

definition ResetAgentPassword :: "identity_env \<Rightarrow> int \<Rightarrow> uint64 \<Rightarrow> string \<Rightarrow> ActorContext \<Rightarrow> agent ieff" where
  "ResetAgentPassword e cost agentID newPassword actor =
     (if agentID = 0 then fail (Text ''agent_id is required'')
      else (case ValidatePasswordPolicy e newPassword of Inl err \<Rightarrow> fail err | Inr _ \<Rightarrow>
        andThen (missing_as (Sentinel Admin_ErrNotFound) (GetAgentRow e agentID)) (\<lambda>a.
          andThen (HashPassword e newPassword cost) (\<lambda>hash.
            andThen (Save_agent e (a\<lparr>ag_PasswordHash := hash, ag_TokenVersion := nextTokenVersion (ag_TokenVersion a)\<rparr>))
              (\<lambda>saved. andThen (ignore (writeAuditLog e actor ''agent.reset_password'' ''agent'' (formatAgentID (ag_ID saved))
                 zh_reset_password)) (\<lambda>_. ok saved))))))"

definition ForceAgentLogout :: "identity_env \<Rightarrow> uint64 \<Rightarrow> ActorContext \<Rightarrow> agent ieff" where
  "ForceAgentLogout e agentID actor =
     (if agentID = 0 then fail (Text ''agent_id is required'')
      else andThen (missing_as (Sentinel Admin_ErrNotFound) (GetAgentRow e agentID)) (\<lambda>a.
        andThen (Save_agent e (a\<lparr>ag_TokenVersion := nextTokenVersion (ag_TokenVersion a)\<rparr>)) (\<lambda>saved.
          andThen (ignore (writeAuditLog e actor ''agent.force_logout'' ''agent'' (formatAgentID (ag_ID saved))
                     zh_force_logout)) (\<lambda>_. ok saved))))"

section \<open>Audit queries and sessions\<close>

record ListAuditLogsInput =
  lai_Limit :: int
  lai_Offset :: int
  lai_ActorAgentID :: uint64
  lai_Action :: string
  lai_ResourceType :: string

definition ListAuditLogs :: "identity_env \<Rightarrow> ListAuditLogsInput \<Rightarrow> audit_log list ieff" where
  "ListAuditLogs e inp =
     (let limit = (if lai_Limit inp \<le> 0 then 50 else lai_Limit inp) in
      if limit > 200 then fail (Text ''invalid limit'')
      else if lai_Offset inp < 0 then fail (Text ''invalid offset'')
      else List_audit_logs e
        \<lparr>alf_ActorAgentID = lai_ActorAgentID inp, alf_Action = TrimSpace (lai_Action inp),
         alf_ResourceType = TrimSpace (lai_ResourceType inp)\<rparr> (nat limit) (nat (lai_Offset inp)))"

definition admin_session_check :: "string \<Rightarrow> version \<Rightarrow> version \<Rightarrow> unit ieff" where
  "admin_session_check status current presented =
     (if ToLower (TrimSpace status) \<noteq> ''active'' then fail (Sentinel Admin_ErrInvalidSession)
      else if normalizeTokenVersion current \<noteq> normalizeTokenVersion presented
      then fail (Sentinel Admin_ErrInvalidSession)
      else ok ())"

definition ValidateAdminSession :: "identity_env \<Rightarrow> string \<Rightarrow> uint64 \<Rightarrow> version \<Rightarrow> unit ieff" where
  "ValidateAdminSession e rawRole agentID tokenVersion =
     (let role = ToLower (TrimSpace rawRole) in
      if TrimSpace rawRole = [] \<or> agentID = 0 \<or> normalizeTokenVersion tokenVersion = 0
      then fail (Sentinel Admin_ErrInvalidSession)
      else if role = ''super_admin'' then
        andThen (missing_as (Sentinel Admin_ErrInvalidSession) (GetSuperAdminRow e agentID)) (\<lambda>a.
          admin_session_check (sa_Status a) (sa_TokenVersion a) tokenVersion)
      else if role = ''admin'' \<or> role = ''agent'' then
        andThen (missing_as (Sentinel Admin_ErrInvalidSession) (GetAgentRow e agentID)) (\<lambda>a.
          admin_session_check (ag_Status a) (ag_TokenVersion a) tokenVersion)
      else fail (Sentinel Admin_ErrInvalidSession))"

end
