(* ===== verification/Admin_Api.thy ===== *)
theory Admin_Api
  imports Admin_Service
begin

text \<open>
  The interfaces of admin-service: the gRPC server
  (\<^verbatim>\<open>services/admin-service/internal/grpcserver/server.go\<close>) with its authorisation, and the
  authorisation of its HTTP routes (\<^verbatim>\<open>internal/middleware/authz.go\<close>).
\<close>

record admin_server =
  jwtSecrets :: "string list"
  adm_jwtIssuer :: string
  adm_bcryptCost :: int

definition New_admin_server :: "string \<Rightarrow> string \<Rightarrow> string \<Rightarrow> int \<Rightarrow> admin_server" where
  "New_admin_server secret previousSecret issuer cost =
     \<lparr>jwtSecrets = buildJWTSecrets secret previousSecret, adm_jwtIssuer = issuer, adm_bcryptCost = cost\<rparr>"

section \<open>Errors\<close>

definition admin_mapError :: "ierr \<Rightarrow> grpc_error" where
  "admin_mapError err =
     (let text = Error identity_text err; msg = ToLower text in
      if err = Sentinel Admin_ErrConflict then (AlreadyExists, text)
      else if err = Sentinel Admin_ErrNotFound then (NotFound, text)
      else if \<exists>p \<in> set [''required'', ''invalid'', ''password'', ''status'', ''format'', ''length'']. Contains msg p
      then (InvalidArgument, text)
      else (Internal, ''internal error''))"

section \<open>Authorisation\<close>

definition requireAdmin :: "identity_env \<Rightarrow> admin_server \<Rightarrow> string \<Rightarrow> claims geff" where
  "requireAdmin e srv authorization =
     (let token = parseBearerToken authorization in
      if token = [] then fail (Unauthenticated, ''missing bearer token'')
      else andThen (map_error (\<lambda>_. (Unauthenticated, ''invalid token''))
                      (ParseTokenAny e (jwtSecrets srv) (adm_jwtIssuer srv) token)) (\<lambda>c.
        if cl_Role c \<noteq> ''admin'' \<and> cl_Role c \<noteq> ''super_admin''
        then fail (PermissionDenied, ''admin role required'')
        else andThen (map_error (\<lambda>err. if errors_Is err Admin_ErrInvalidSession
                                      then (Unauthenticated, ''invalid token'') else (Internal, ''internal error''))
                        (ValidateAdminSession e (cl_Role c) (cl_AgentID c) (cl_TokenVersion c))) (\<lambda>_. ok c)))"

definition super_admin_only :: "claims \<Rightarrow> 'a geff \<Rightarrow> 'a geff" where
  "super_admin_only c m =
     (if cl_Role c \<noteq> ''super_admin'' then fail (PermissionDenied, ''super_admin role required'') else m)"

definition toActorContext :: "claims \<Rightarrow> ActorContext" where
  "toActorContext c =
     \<lparr>actor_AgentID = cl_AgentID c, actor_Email = cl_Email c, actor_Role = cl_Role c,
      actor_IP = [], actor_UserAgent = []\<rparr>"

text \<open>The middleware of the HTTP routes answers with an HTTP status and a text.\<close>

definition session_valid :: "string \<Rightarrow> version \<Rightarrow> version \<Rightarrow> bool" where
  "session_valid status current presented \<longleftrightarrow>
     ToLower (TrimSpace status) = ''active'' \<and> normalizeTokenVersion current = normalizeTokenVersion presented"

definition validateSessionByRole :: "identity_env \<Rightarrow> claims \<Rightarrow> (identity_world, nat \<times> string, bool) eff" where
  "validateSessionByRole e c =
     (let role = ToLower (TrimSpace (cl_Role c)) in
      if role = ''super_admin'' then
        attempt (GetSuperAdminRow e (cl_AgentID c)) (\<lambda>r. case r of
            Inl _ \<Rightarrow> ok False
          | Inr a \<Rightarrow> ok (session_valid (sa_Status a) (sa_TokenVersion a) (cl_TokenVersion c)))
      else if role = ''admin'' \<or> role = ''agent'' then
        attempt (GetAgentRow e (cl_AgentID c)) (\<lambda>r. case r of
            Inl _ \<Rightarrow> ok False
          | Inr a \<Rightarrow> ok (session_valid (ag_Status a) (ag_TokenVersion a) (cl_TokenVersion c)))
      else ok False)"

definition RequireAdmin :: "identity_env \<Rightarrow> admin_server \<Rightarrow> string \<Rightarrow> (identity_world, nat \<times> string, claims) eff" where
  "RequireAdmin e srv header =
     (let token = parseBearerToken header in
      if token = [] then fail (401, ''missing bearer token'')
      else andThen (map_error (\<lambda>_. (401, ''invalid token''))
                      (ParseTokenAny e (jwtSecrets srv) (adm_jwtIssuer srv) token)) (\<lambda>c.
        if cl_Role c \<noteq> ''admin'' \<and> cl_Role c \<noteq> ''super_admin'' then fail (403, ''admin role required'')
        else andThen (validateSessionByRole e c) (\<lambda>valid.
          if \<not> valid then fail (401, ''invalid token'') else ok c)))"

section \<open>Protocol messages\<close>

record site_pb =
  pbs_Id :: uint64
  pbs_SiteId :: string
  pbs_Name :: string
  pbs_Domain :: string
  pbs_Domains :: "string list"
  pbs_WidgetKey :: string
  pbs_Status :: string
  pbs_CreatedAt :: time
  pbs_UpdatedAt :: time

definition firstDomain :: "string list \<Rightarrow> string" where
  "firstDomain items = (case items of [] \<Rightarrow> [] | d # _ \<Rightarrow> d)"

definition toSitePB :: "site_model \<Rightarrow> site_pb" where
  "toSitePB s =
     \<lparr>pbs_Id = st_ID s, pbs_SiteId = st_SiteID s, pbs_Name = st_Name s, pbs_Domain = firstDomain (domains_of s),
      pbs_Domains = domains_of s, pbs_WidgetKey = st_WidgetKey s, pbs_Status = st_Status s,
      pbs_CreatedAt = st_CreatedAt s, pbs_UpdatedAt = st_UpdatedAt s\<rparr>"

record ai_config_pb =
  pbc_SiteId :: string
  pbc_Enabled :: bool
  pbc_ReplyMode :: string
  pbc_UpdatedAt :: "time option"

definition toSiteAIConfigPB :: "site_ai_config \<Rightarrow> ai_config_pb" where
  "toSiteAIConfigPB c =
     \<lparr>pbc_SiteId = ai_SiteID c, pbc_Enabled = ai_Enabled c, pbc_ReplyMode = ai_ReplyMode c,
      pbc_UpdatedAt = ai_UpdatedAt c\<rparr>"

definition rpc_reply :: "('a \<Rightarrow> 'b) \<Rightarrow> 'a ieff \<Rightarrow> 'b geff" where
  "rpc_reply f m = andThen (map_error admin_mapError m) (\<lambda>a. ok (f a))"

section \<open>The handlers\<close>

definition rpc_CreateSite :: "identity_env \<Rightarrow> admin_server \<Rightarrow> string \<Rightarrow> CreateSiteInput \<Rightarrow> site_pb geff" where
  "rpc_CreateSite e srv authorization req =
     andThen (requireAdmin e srv authorization) (\<lambda>c.
       if TrimSpace (csi_SiteID req) = [] \<or> TrimSpace (csi_Name req) = []
       then fail (InvalidArgument, ''site_id and name are required'')
       else rpc_reply toSitePB (CreateSite e req (toActorContext c)))"

definition rpc_UpdateSite :: "identity_env \<Rightarrow> admin_server \<Rightarrow> string \<Rightarrow> UpdateSiteInput \<Rightarrow> site_pb geff" where
  "rpc_UpdateSite e srv authorization req =
     andThen (requireAdmin e srv authorization) (\<lambda>c.
       if TrimSpace (usi_SiteID req) = [] \<or> TrimSpace (usi_Name req) = []
       then fail (InvalidArgument, ''site_id and name are required'')
       else rpc_reply toSitePB (UpdateSite e req (toActorContext c)))"

definition rpc_UpdateSiteStatus :: "identity_env \<Rightarrow> admin_server \<Rightarrow> string \<Rightarrow> string \<Rightarrow> string \<Rightarrow> site_pb geff" where
  "rpc_UpdateSiteStatus e srv authorization siteID status =
     andThen (requireAdmin e srv authorization) (\<lambda>c.
       super_admin_only c (rpc_reply toSitePB (UpdateSiteStatus e siteID status (toActorContext c))))"

definition rpc_RotateSiteWidgetKey :: "identity_env \<Rightarrow> admin_server \<Rightarrow> string \<Rightarrow> string \<Rightarrow> site_pb geff" where
  "rpc_RotateSiteWidgetKey e srv authorization siteID =
     andThen (requireAdmin e srv authorization) (\<lambda>c.
       super_admin_only c (rpc_reply toSitePB (RotateSiteWidgetKey e siteID (toActorContext c))))"

definition rpc_GetSiteAIConfig :: "identity_env \<Rightarrow> string \<Rightarrow> ai_config_pb geff" where
  "rpc_GetSiteAIConfig e siteID = rpc_reply toSiteAIConfigPB (GetSiteAIConfig e siteID)"

definition rpc_UpdateSiteAIConfig ::
  "identity_env \<Rightarrow> admin_server \<Rightarrow> string \<Rightarrow> string \<Rightarrow> bool \<Rightarrow> string \<Rightarrow> ai_config_pb geff" where
  "rpc_UpdateSiteAIConfig e srv authorization siteID enabled mode =
     andThen (requireAdmin e srv authorization) (\<lambda>c.
       super_admin_only c (rpc_reply toSiteAIConfigPB (UpdateSiteAIConfig e siteID enabled mode (toActorContext c))))"

text \<open>The window of a list request.\<close>

definition rpc_window :: "int \<Rightarrow> int \<Rightarrow> (nat \<Rightarrow> nat \<Rightarrow> 'a geff) \<Rightarrow> 'a geff" where
  "rpc_window rawLimit offset k =
     (let limit = (if rawLimit \<le> 0 then 50 else rawLimit) in
      if limit > 200 then fail (InvalidArgument, ''invalid limit'')
      else if offset < 0 then fail (InvalidArgument, ''invalid offset'')
      else k (nat limit) (nat offset))"

definition rpc_ListSites :: "identity_env \<Rightarrow> admin_server \<Rightarrow> string \<Rightarrow> int \<Rightarrow> int \<Rightarrow> site_pb list geff" where
  "rpc_ListSites e srv authorization limit offset =
     andThen (requireAdmin e srv authorization) (\<lambda>c.
       rpc_window limit offset (\<lambda>n k.
         andThen (map_error (\<lambda>_. (Internal, ''internal error'')) (List_sites e n k)) (\<lambda>items. ok (map toSitePB items))))"

definition rpc_GetSiteBySiteID :: "identity_env \<Rightarrow> string \<Rightarrow> site_pb geff" where
  "rpc_GetSiteBySiteID e siteID =
     (if TrimSpace siteID = [] then fail (InvalidArgument, ''site_id is required'')
      else rpc_reply toSitePB (GetSiteBySiteID e (TrimSpace siteID)))"

definition rpc_GetSiteByDomain :: "identity_env \<Rightarrow> string \<Rightarrow> site_pb geff" where
  "rpc_GetSiteByDomain e domain =
     (if TrimSpace domain = [] then fail (InvalidArgument, ''domain is required'')
      else rpc_reply toSitePB (GetSiteByDomain e (TrimSpace domain)))"

definition rpc_CreateAgent :: "identity_env \<Rightarrow> admin_server \<Rightarrow> string \<Rightarrow> CreateAgentInput \<Rightarrow> agent_pb geff" where
  "rpc_CreateAgent e srv authorization req =
     andThen (requireAdmin e srv authorization) (\<lambda>c.
       super_admin_only c (rpc_reply toAgentPB (CreateAgent e (adm_bcryptCost srv) req (toActorContext c))))"

definition rpc_GetAgentByID :: "identity_env \<Rightarrow> uint64 \<Rightarrow> agent_pb geff" where
  "rpc_GetAgentByID e agentID =
     (if agentID = 0 then fail (InvalidArgument, ''agent_id is required'')
      else rpc_reply toAgentPB (admin_GetAgentByID e agentID))"

definition rpc_ListAgents :: "identity_env \<Rightarrow> admin_server \<Rightarrow> string \<Rightarrow> int \<Rightarrow> int \<Rightarrow> agent_pb list geff" where
  "rpc_ListAgents e srv authorization limit offset =
     andThen (requireAdmin e srv authorization) (\<lambda>c.
       rpc_window limit offset (\<lambda>n k.
         andThen (map_error (\<lambda>_. (Internal, ''internal error'')) (List_agents e n k)) (\<lambda>items. ok (map toAgentPB items))))"

definition rpc_UpdateAgentStatus :: "identity_env \<Rightarrow> admin_server \<Rightarrow> string \<Rightarrow> uint64 \<Rightarrow> string \<Rightarrow> agent_pb geff" where
  "rpc_UpdateAgentStatus e srv authorization agentID status =
     andThen (requireAdmin e srv authorization) (\<lambda>c.
       super_admin_only c (rpc_reply toAgentPB (UpdateAgentStatus e agentID status (toActorContext c))))"

definition rpc_ResetAgentPassword :: "identity_env \<Rightarrow> admin_server \<Rightarrow> string \<Rightarrow> uint64 \<Rightarrow> string \<Rightarrow> agent_pb geff" where
  "rpc_ResetAgentPassword e srv authorization agentID newPassword =
     andThen (requireAdmin e srv authorization) (\<lambda>c.
       super_admin_only c (rpc_reply toAgentPB
         (ResetAgentPassword e (adm_bcryptCost srv) agentID newPassword (toActorContext c))))"

definition rpc_ForceAgentLogout :: "identity_env \<Rightarrow> admin_server \<Rightarrow> string \<Rightarrow> uint64 \<Rightarrow> agent_pb geff" where
  "rpc_ForceAgentLogout e srv authorization agentID =
     andThen (requireAdmin e srv authorization) (\<lambda>c.
       super_admin_only c (rpc_reply toAgentPB (ForceAgentLogout e agentID (toActorContext c))))"

definition rpc_ListAuditLogs ::
  "identity_env \<Rightarrow> admin_server \<Rightarrow> string \<Rightarrow> ListAuditLogsInput \<Rightarrow> audit_log list geff" where
  "rpc_ListAuditLogs e srv authorization req =
     andThen (requireAdmin e srv authorization) (\<lambda>c. rpc_reply (\<lambda>items. items) (ListAuditLogs e req))"

end
