(* ===== verification/Gateway_Core.thy ===== *)
theory Gateway_Core
  imports Rate_Limiter Chat_Api Admin_Api
begin

text \<open>
  The common part of the HTTP handlers of the gateway
  (\<^verbatim>\<open>services/gateway-service/internal/handler/http_common.go\<close> and \<^verbatim>\<open>http.go\<close>,
  \<^verbatim>\<open>internal/middleware/error_response.go\<close>): the rate limits of a request, who is asking, what he may
  see, and the answers.  The clients of the upstream services are a record of operations on the state
  \<open>'w\<close> behind them; an error of a call is a gRPC status or (\<open>None\<close>) an error without one.  A handler that
  aborts fails with its answer.  A body is JSON with the times unformatted.
\<close>

section \<open>Go\<close>

text \<open>The conversion to \<^verbatim>\<open>int32\<close>, \<^verbatim>\<open>strconv.Atoi\<close> and \<^verbatim>\<open>strconv.ParseBool\<close>; \<open>None\<close> is an error.\<close>

definition int32 :: "int \<Rightarrow> int" where
  "int32 x = (x + 2 ^ 31) mod 2 ^ 32 - 2 ^ 31"

lemma int32_id: "- (2 ^ 31) \<le> x \<Longrightarrow> x < 2 ^ 31 \<Longrightarrow> int32 x = x"
  by (simp add: int32_def)

definition Atoi :: "string \<Rightarrow> int option" where
  "Atoi s =
     (let (neg, t) = (case s of [] \<Rightarrow> (False, [])
                      | c # cs \<Rightarrow> if c = CHR ''-'' then (True, cs) else if c = CHR ''+'' then (False, cs) else (False, s))
      in if t \<noteq> [] \<and> list_all is_digit t then
           let n = int (decimal_value t) in
           if neg then (if n \<le> 2 ^ 63 then Some (- n) else None)
           else (if n < 2 ^ 63 then Some n else None)
         else None)"

definition ParseBool :: "string \<Rightarrow> bool option" where
  "ParseBool s =
     (if s \<in> set [''1'', ''t'', ''T'', ''TRUE'', ''true'', ''True''] then Some True
      else if s \<in> set [''0'', ''f'', ''F'', ''FALSE'', ''false'', ''False''] then Some False
      else None)"

text \<open>\<^verbatim>\<open>strings.ReplaceAll\<close> of one byte.\<close>

definition ReplaceAll_byte :: "string \<Rightarrow> char \<Rightarrow> char \<Rightarrow> string" where
  "ReplaceAll_byte s old new = map (\<lambda>c. if c = old then new else c) s"

section \<open>Requests and answers\<close>

datatype json =
    JString string | JNumber int | JBool bool | JTime time | JNull | JArray "json list" | JObject "(string \<times> json) list"

abbreviation JUint :: "uint64 \<Rightarrow> json" where
  "JUint n \<equiv> JNumber (int n)"

datatype body = BodyJSON json | BodyText string | BodyHTML string

record http_response =
  rsp_status :: nat
  rsp_body :: body

text \<open>
  What a handler reads of its request.  The body is the outcome of decoding the JSON; \<open>bind_text\<close> is the
  text the validator gives for a decoded body that breaks a binding rule.
\<close>

record 'a http_request =
  Authorization :: string
  WidgetSession :: string
  Referer :: string
  Origin :: string
  Param :: "string \<Rightarrow> string"
  Query :: "string \<Rightarrow> string"
  ClientIP :: string
  req_body :: "string + 'a"
  bind_text :: "'a \<Rightarrow> string"
  ContextRequestID :: "string option"

definition AbortWithError :: "'a http_request \<Rightarrow> nat \<Rightarrow> string \<Rightarrow> string \<Rightarrow> http_response" where
  "AbortWithError c status code message =
     (let requestID = (case ContextRequestID c of None \<Rightarrow> [] | Some i \<Rightarrow> i) in
      \<lparr>rsp_status = status,
       rsp_body = BodyJSON (JObject
         ([(''error'', JObject [(''code'', JString code), (''message'', JString message)])]
          @ (if requestID = [] then [] else [(''request_id'', JString requestID)])))\<rparr>)"

definition NoRouteHandler :: "'a http_request \<Rightarrow> http_response" where
  "NoRouteHandler c = AbortWithError c 404 ''route_not_found'' ''route not found''"

definition NoMethodHandler :: "'a http_request \<Rightarrow> http_response" where
  "NoMethodHandler c = AbortWithError c 405 ''method_not_allowed'' ''method not allowed''"

definition abortBadRequest :: "'a http_request \<Rightarrow> string \<Rightarrow> http_response" where
  "abortBadRequest c message = AbortWithError c 400 ''invalid_argument'' message"

definition abortConflict :: "'a http_request \<Rightarrow> string \<Rightarrow> http_response" where
  "abortConflict c message = AbortWithError c 409 ''conflict'' message"

definition abortForbidden :: "'a http_request \<Rightarrow> string \<Rightarrow> http_response" where
  "abortForbidden c message = AbortWithError c 403 ''forbidden'' message"

definition ok_JSON :: "nat \<Rightarrow> json \<Rightarrow> http_response" where
  "ok_JSON status j = \<lparr>rsp_status = status, rsp_body = BodyJSON j\<rparr>"

section \<open>The upstream services\<close>

type_synonym rpc_error = "grpc_error option"
type_synonym ('w, 'a) rpc = "('w, rpc_error, 'a) eff"

definition handleGRPCError :: "'a http_request \<Rightarrow> rpc_error \<Rightarrow> http_response" where
  "handleGRPCError c err =
     (case err of
        None \<Rightarrow> AbortWithError c 502 ''upstream_unavailable'' ''upstream service unavailable''
      | Some (code, message) \<Rightarrow>
          (case code of
             InvalidArgument \<Rightarrow> abortBadRequest c message
           | NotFound \<Rightarrow> AbortWithError c 404 ''not_found'' message
           | AlreadyExists \<Rightarrow> AbortWithError c 409 ''already_exists'' message
           | Unauthenticated \<Rightarrow> AbortWithError c 401 ''unauthorized'' message
           | PermissionDenied \<Rightarrow> AbortWithError c 403 ''forbidden'' message
           | DeadlineExceeded \<Rightarrow> AbortWithError c 504 ''upstream_timeout'' ''upstream timeout''
           | Unavailable \<Rightarrow> AbortWithError c 502 ''upstream_unavailable'' ''upstream service unavailable''
           | FailedPrecondition \<Rightarrow> AbortWithError c 409 ''failed_precondition'' message
           | _ \<Rightarrow>
               let msg = TrimSpace message in
               AbortWithError c 500 ''internal_error''
                 (if msg = [] \<or> msg = ''internal error'' then ''internal error'' else msg)))"

record 'w clients =
  Auth_Login :: "login_input \<Rightarrow> ('w, string \<times> agent_pb) rpc"
  Auth_Me :: "string \<Rightarrow> ('w, me_response) rpc"
  Admin_CreateSite :: "string \<Rightarrow> CreateSiteInput \<Rightarrow> ('w, site_pb) rpc"
  Admin_UpdateSite :: "string \<Rightarrow> UpdateSiteInput \<Rightarrow> ('w, site_pb) rpc"
  Admin_ListSites :: "string \<Rightarrow> int \<Rightarrow> int \<Rightarrow> ('w, site_pb list) rpc"
  Admin_UpdateSiteStatus :: "string \<Rightarrow> string \<Rightarrow> string \<Rightarrow> ('w, site_pb) rpc"
  Admin_RotateSiteWidgetKey :: "string \<Rightarrow> string \<Rightarrow> ('w, site_pb) rpc"
  Admin_GetSiteAIConfig :: "string \<Rightarrow> ('w, ai_config_pb) rpc"
  Admin_UpdateSiteAIConfig :: "string \<Rightarrow> string \<Rightarrow> bool \<Rightarrow> string \<Rightarrow> ('w, ai_config_pb) rpc"
  Admin_GetSiteBySiteID :: "string \<Rightarrow> ('w, site_pb) rpc"
  Admin_GetSiteByDomain :: "string \<Rightarrow> ('w, site_pb) rpc"
  Admin_CreateAgent :: "string \<Rightarrow> CreateAgentInput \<Rightarrow> ('w, agent_pb) rpc"
  Admin_GetAgentByID :: "uint64 \<Rightarrow> ('w, agent_pb) rpc"
  Admin_ListAgents :: "string \<Rightarrow> int \<Rightarrow> int \<Rightarrow> ('w, agent_pb list) rpc"
  Admin_UpdateAgentStatus :: "string \<Rightarrow> uint64 \<Rightarrow> string \<Rightarrow> ('w, agent_pb) rpc"
  Admin_ResetAgentPassword :: "string \<Rightarrow> uint64 \<Rightarrow> string \<Rightarrow> ('w, agent_pb) rpc"
  Admin_ForceAgentLogout :: "string \<Rightarrow> uint64 \<Rightarrow> ('w, agent_pb) rpc"
  Admin_ListAuditLogs :: "string \<Rightarrow> ListAuditLogsInput \<Rightarrow> ('w, audit_log list) rpc"
  Chat_CreateConversation :: "CreateConversationInput \<Rightarrow> ('w, conversation_pb) rpc"
  Chat_ListConversations :: "ListConversationsRequest \<Rightarrow> ('w, conversation_pb list) rpc"
  Chat_GetConversation :: "uint64 \<Rightarrow> ('w, conversation_pb) rpc"
  Chat_CreateMessage :: "CreateMessageInput \<Rightarrow> ('w, message_pb) rpc"
  Chat_ListMessages :: "uint64 \<Rightarrow> int \<Rightarrow> uint64 \<Rightarrow> ('w, message_pb list) rpc"
  Chat_MarkMessagesRead :: "MarkMessagesReadInput \<Rightarrow> ('w, nat) rpc"
  Chat_ClaimConversation :: "ClaimConversationInput \<Rightarrow> ('w, conversation_pb) rpc"
  Chat_TransferConversation :: "TransferConversationInput \<Rightarrow> ('w, conversation_pb) rpc"
  Chat_ConfirmTransferConversation :: "ActorInput \<Rightarrow> ('w, conversation_pb) rpc"
  Chat_RejectTransferConversation :: "ActorInput \<Rightarrow> ('w, conversation_pb) rpc"
  Chat_CloseConversation :: "ActorInput \<Rightarrow> ('w, conversation_pb) rpc"

text \<open>The client of ai-service, which answers with a status or the started job.\<close>

record SiteStatus =
  ss_KnowledgeDir :: string
  ss_IndexStatus :: string
  ss_IndexedChunks :: int
  ss_LastIndexedAt :: string
  ss_LastIndexError :: string
  ss_ActiveJobID :: string

record ReindexResponse =
  ri_SiteID :: string
  ri_JobID :: string
  ri_Status :: string

record 'w ai_client =
  GetSiteStatus :: "string \<Rightarrow> ('w, string, SiteStatus) eff"
  StartReindex :: "string \<Rightarrow> ('w, string, ReindexResponse) eff"

datatype limiter_scope = login_limiter | visitor_limiter | agent_limiter | admin_limiter

record ('b, 'w) HTTPHandler =
  upstreams :: "'w clients"
  callTimeout :: time
  aiClient :: "'w ai_client option"
  widgetIndexHTML :: string
  limits :: "'b limit_env"

definition NewHTTPHandler :: "'w clients \<Rightarrow> time \<Rightarrow> 'b limit_env \<Rightarrow> ('b, 'w) HTTPHandler" where
  "NewHTTPHandler cs timeout e =
     \<lparr>upstreams = cs, callTimeout = (if timeout \<le> 0 then 8 * lim_Second else timeout), aiClient = None,
      widgetIndexHTML = [], limits = e\<rparr>"

definition SetAIClient :: "'w ai_client \<Rightarrow> ('b, 'w) HTTPHandler \<Rightarrow> ('b, 'w) HTTPHandler" where
  "SetAIClient client h = h\<lparr>aiClient := Some client\<rparr>"

definition SetWidgetIndexHTML :: "string \<Rightarrow> ('b, 'w) HTTPHandler \<Rightarrow> ('b, 'w) HTTPHandler" where
  "SetWidgetIndexHTML indexHTML h = h\<lparr>widgetIndexHTML := indexHTML\<rparr>"

text \<open>The limiters share Redis and the clock; \<open>None\<close> is a limiter that was not set.\<close>

record ('b, 'w) gateway =
  limiters :: "limiter_scope \<Rightarrow> 'b limiter option"
  gw_redis :: "string \<rightharpoonup> int \<times> time"
  gw_tick :: nat
  upstream :: 'w

definition SetRateLimiters :: "'b limiter option \<Rightarrow> 'b limiter option \<Rightarrow> ('b, 'w) gateway \<Rightarrow> ('b, 'w) gateway" where
  "SetRateLimiters loginLimiter visitorLimiter g =
     g\<lparr>limiters := (limiters g)(login_limiter := loginLimiter, visitor_limiter := visitorLimiter)\<rparr>"

definition SetStaffRateLimiters :: "'b limiter option \<Rightarrow> 'b limiter option \<Rightarrow> ('b, 'w) gateway \<Rightarrow> ('b, 'w) gateway" where
  "SetStaffRateLimiters agentLimiter adminLimiter g =
     g\<lparr>limiters := (limiters g)(agent_limiter := agentLimiter, admin_limiter := adminLimiter)\<rparr>"

type_synonym ('b, 'w, 'a) handler = "(('b, 'w) gateway, http_response, 'a) eff"

definition call :: "('w, 'e, 'a) eff \<Rightarrow> (('b, 'w) gateway, 'e, 'a) eff" where
  "call m g = (case m (upstream g) of (r, w) \<Rightarrow> (r, g\<lparr>upstream := w\<rparr>))"

definition abort_unless :: "bool \<Rightarrow> http_response \<Rightarrow> ('b, 'w, unit) handler" where
  "abort_unless b r = (if b then ok () else fail r)"

definition call_or_abort :: "'a http_request \<Rightarrow> ('w, 'x) rpc \<Rightarrow> ('b, 'w, 'x) handler" where
  "call_or_abort c m = map_error (handleGRPCError c) (call m)"

section \<open>Rate limits\<close>

definition limiter_Allow :: "('b, 'w) HTTPHandler \<Rightarrow> limiter_scope \<Rightarrow> string \<Rightarrow> ('b, 'w) gateway \<Rightarrow> bool \<times> ('b, 'w) gateway" where
  "limiter_Allow h scope key g =
     (case limiters g scope of
        None \<Rightarrow> (True, g)
      | Some l \<Rightarrow>
          (case Allow (limits h) key \<lparr>lim = l, redis = gw_redis g, lim_tick = gw_tick g\<rparr> of
             (b, v) \<Rightarrow> (b, g\<lparr>limiters := (limiters g)(scope := Some (lim v)), gw_redis := redis v, gw_tick := lim_tick v\<rparr>)))"

definition sanitizeRateLimitSegment :: "string \<Rightarrow> string" where
  "sanitizeRateLimitSegment v = take 64 (ReplaceAll_byte (TrimSpace (ToLower v)) (CHR '':'') (CHR ''_''))"

fun dedupe :: "string list \<Rightarrow> string list \<Rightarrow> string list" where
  "dedupe seen [] = []"
| "dedupe seen (key # ks) =
     (let normalized = TrimSpace key in
      if normalized = [] \<or> normalized \<in> set seen then dedupe seen ks
      else normalized # dedupe (normalized # seen) ks)"

definition dedupeRateLimitKeys :: "string list \<Rightarrow> string list" where
  "dedupeRateLimitKeys ks = dedupe [] ks"

definition or_text :: "string \<Rightarrow> string \<Rightarrow> string" where
  "or_text s d = (if s = [] then d else s)"

fun join_colon :: "string list \<Rightarrow> string" where
  "join_colon [] = []"
| "join_colon [s] = s"
| "join_colon (s # t # ss) = s @ '':'' @ join_colon (t # ss)"

definition buildActorRateLimitKeys :: "string \<Rightarrow> string \<Rightarrow> string \<Rightarrow> uint64 \<Rightarrow> string list" where
  "buildActorRateLimitKeys scope clientIP action actorID =
     (let scopeSeg = or_text (sanitizeRateLimitSegment scope) ''actor'';
          actionSeg = or_text (sanitizeRateLimitSegment action) ''unknown_action'';
          ip = or_text (sanitizeRateLimitSegment clientIP) ''ip_unknown'';
          i = FormatUint actorID
      in dedupeRateLimitKeys
           ([join_colon [scopeSeg, ''ip'', ip],
             join_colon [scopeSeg, ''ip_action'', actionSeg, ip]]
            @ (if actorID > 0 then
                 [join_colon [scopeSeg, ''id'', i],
                  join_colon [scopeSeg, ''id_action'', actionSeg, i],
                  join_colon [scopeSeg, ''id_ip'', i, ip]]
               else [])))"

definition buildVisitorRateLimitKeys :: "string \<Rightarrow> string \<Rightarrow> string \<Rightarrow> uint64 \<Rightarrow> string \<Rightarrow> string list" where
  "buildVisitorRateLimitKeys clientIP action siteID conversationID visitorToken =
     (let actionSeg = or_text (sanitizeRateLimitSegment action) ''unknown_action'';
          visitor = sanitizeRateLimitSegment visitorToken;
          site = sanitizeRateLimitSegment siteID;
          ip = or_text (sanitizeRateLimitSegment clientIP) ''ip_unknown'';
          i = FormatUint conversationID
      in dedupeRateLimitKeys
           ([join_colon [''visitor'', ''ip'', ip],
             join_colon [''visitor'', ''ip_action'', actionSeg, ip]]
            @ (if site \<noteq> [] then
                 [join_colon [''visitor'', ''site'', site, ip],
                  join_colon [''visitor'', ''site_action'', actionSeg, site, ip]]
               else [])
            @ (if visitor \<noteq> [] then
                 [join_colon [''visitor'', ''token'', visitor],
                  join_colon [''visitor'', ''token_action'', actionSeg, visitor],
                  join_colon [''visitor'', ''token_ip'', visitor, ip]]
               else [])
            @ (if conversationID > 0 then
                 [join_colon [''visitor'', ''conversation'', i],
                  join_colon [''visitor'', ''conversation_action'', actionSeg, i]]
                 @ (if visitor \<noteq> [] then [join_colon [''visitor'', ''conversation_token'', i, visitor]] else [])
               else [])))"

text \<open>Every key is asked until one refuses.\<close>

fun allow_keys :: "('b, 'w) HTTPHandler \<Rightarrow> limiter_scope \<Rightarrow> string list \<Rightarrow> ('b, 'w) gateway \<Rightarrow> bool \<times> ('b, 'w) gateway" where
  "allow_keys h scope [] g = (True, g)"
| "allow_keys h scope (key # ks) g =
     (case limiter_Allow h scope key g of
        (True, g1) \<Rightarrow> allow_keys h scope ks g1
      | (False, g1) \<Rightarrow> (False, g1))"

definition limit_by :: "('b, 'w) HTTPHandler \<Rightarrow> limiter_scope \<Rightarrow> string list \<Rightarrow> http_response \<Rightarrow> ('b, 'w, unit) handler" where
  "limit_by h scope ks refusal g =
     (case allow_keys h scope ks g of (True, g1) \<Rightarrow> (Inr (), g1) | (False, g1) \<Rightarrow> (Inl refusal, g1))"

definition too_many :: "'a http_request \<Rightarrow> http_response" where
  "too_many c = AbortWithError c 429 ''rate_limited'' ''too many requests, please retry later''"

definition applyLoginRateLimit :: "('b, 'w) HTTPHandler \<Rightarrow> 'a http_request \<Rightarrow> string \<Rightarrow> ('b, 'w, unit) handler" where
  "applyLoginRateLimit h c email =
     limit_by h login_limiter
       [join_colon [''login'', sanitizeRateLimitSegment (ClientIP c),
          sanitizeRateLimitSegment (or_text (ToLower (TrimSpace email)) ''unknown'')]]
       (AbortWithError c 429 ''rate_limited'' ''too many login attempts, please retry later'')"

definition applyVisitorRateLimit ::
  "('b, 'w) HTTPHandler \<Rightarrow> 'a http_request \<Rightarrow> string \<Rightarrow> string \<Rightarrow> uint64 \<Rightarrow> string \<Rightarrow> ('b, 'w, unit) handler" where
  "applyVisitorRateLimit h c action siteID conversationID visitorToken =
     limit_by h visitor_limiter (buildVisitorRateLimitKeys (ClientIP c) action siteID conversationID visitorToken) (too_many c)"

definition applyActorRateLimit ::
  "('b, 'w) HTTPHandler \<Rightarrow> 'a http_request \<Rightarrow> limiter_scope \<Rightarrow> string \<Rightarrow> string \<Rightarrow> uint64 \<Rightarrow> ('b, 'w, unit) handler" where
  "applyActorRateLimit h c limiter scope action actorID =
     limit_by h limiter (buildActorRateLimitKeys scope (ClientIP c) action actorID) (too_many c)"

definition applyAgentRateLimit :: "('b, 'w) HTTPHandler \<Rightarrow> 'a http_request \<Rightarrow> string \<Rightarrow> uint64 \<Rightarrow> ('b, 'w, unit) handler" where
  "applyAgentRateLimit h c action agentID = applyActorRateLimit h c agent_limiter ''agent'' action agentID"

definition applyAdminRateLimit :: "('b, 'w) HTTPHandler \<Rightarrow> 'a http_request \<Rightarrow> string \<Rightarrow> uint64 \<Rightarrow> ('b, 'w, unit) handler" where
  "applyAdminRateLimit h c action agentID = applyActorRateLimit h c admin_limiter ''admin'' action agentID"

section \<open>Who is asking, and what he may see\<close>

definition requireActor :: "('b, 'w) HTTPHandler \<Rightarrow> 'a http_request \<Rightarrow> (('b, 'w) gateway, rpc_error, me_response) eff" where
  "requireActor h c = call (Auth_Me (upstreams h) (Authorization c))"

definition requireAgentActor :: "('b, 'w) HTTPHandler \<Rightarrow> 'a http_request \<Rightarrow> (('b, 'w) gateway, rpc_error, me_response) eff" where
  "requireAgentActor h c =
     andThen (requireActor h c) (\<lambda>actor.
       if me_Role actor \<noteq> ''agent'' then fail (Some (PermissionDenied, ''agent role required'')) else ok actor)"

definition requireAdminActor :: "('b, 'w) HTTPHandler \<Rightarrow> 'a http_request \<Rightarrow> (('b, 'w) gateway, rpc_error, me_response) eff" where
  "requireAdminActor h c =
     andThen (requireActor h c) (\<lambda>actor.
       let role = ToLower (TrimSpace (me_Role actor)) in
       if role \<noteq> ''admin'' \<and> role \<noteq> ''super_admin''
       then fail (Some (PermissionDenied, ''admin role required'')) else ok actor)"

definition requireAgentSiteID :: "'a http_request \<Rightarrow> me_response \<Rightarrow> ('b, 'w, string) handler" where
  "requireAgentSiteID c actor =
     (let siteID = TrimSpace (me_SiteId actor) in
      if siteID = [] then fail (abortForbidden c ''agent site is unavailable'') else ok siteID)"

definition fetchConversation :: "('b, 'w) HTTPHandler \<Rightarrow> uint64 \<Rightarrow> (('b, 'w) gateway, rpc_error, conversation_pb) eff" where
  "fetchConversation h conversationID = call (Chat_GetConversation (upstreams h) conversationID)"

definition fetchSiteBySiteID :: "('b, 'w) HTTPHandler \<Rightarrow> string \<Rightarrow> (('b, 'w) gateway, rpc_error, site_pb) eff" where
  "fetchSiteBySiteID h siteID = call (Admin_GetSiteBySiteID (upstreams h) siteID)"

definition requireActiveConversationSite ::
  "('b, 'w) HTTPHandler \<Rightarrow> 'a http_request \<Rightarrow> conversation_pb \<Rightarrow> ('b, 'w, unit) handler" where
  "requireActiveConversationSite h c conversation =
     (let siteID = TrimSpace (pb_SiteId conversation) in
      if siteID = [] then fail (abortConflict c ''site is unavailable'')
      else attempt (fetchSiteBySiteID h siteID) (\<lambda>r. case r of
          Inl err \<Rightarrow> fail (if map_option fst err = Some NotFound then abortConflict c ''site is unavailable''
                          else handleGRPCError c err)
        | Inr site \<Rightarrow>
            if TrimSpace (ToLower (pbs_Status site)) \<noteq> ''active'' then fail (abortConflict c ''site is not active'')
            else ok ()))"

definition requireConversationForVisitor ::
  "('b, 'w) HTTPHandler \<Rightarrow> 'a http_request \<Rightarrow> uint64 \<Rightarrow> string \<Rightarrow> ('b, 'w, conversation_pb) handler" where
  "requireConversationForVisitor h c conversationID visitorToken =
     andThen (map_error (handleGRPCError c) (fetchConversation h conversationID)) (\<lambda>conversation.
       if pb_VisitorToken conversation \<noteq> visitorToken then fail (abortForbidden c ''forbidden'')
       else andThen (requireActiveConversationSite h c conversation) (\<lambda>_. ok conversation))"

definition requireConversationSiteForAgent ::
  "('b, 'w) HTTPHandler \<Rightarrow> 'a http_request \<Rightarrow> conversation_pb \<Rightarrow> me_response \<Rightarrow> ('b, 'w, unit) handler" where
  "requireConversationSiteForAgent h c conversation actor =
     andThen (requireAgentSiteID c actor) (\<lambda>actorSiteID.
       if TrimSpace (pb_SiteId conversation) \<noteq> actorSiteID then fail (abortForbidden c ''forbidden'')
       else requireActiveConversationSite h c conversation)"

definition fetchConversationForAgentSite ::
  "('b, 'w) HTTPHandler \<Rightarrow> 'a http_request \<Rightarrow> uint64 \<Rightarrow> me_response \<Rightarrow> ('b, 'w, conversation_pb) handler" where
  "fetchConversationForAgentSite h c conversationID actor =
     andThen (map_error (handleGRPCError c) (fetchConversation h conversationID)) (\<lambda>conversation.
       andThen (requireConversationSiteForAgent h c conversation actor) (\<lambda>_. ok conversation))"

definition requireConversationForAgent ::
  "('b, 'w) HTTPHandler \<Rightarrow> 'a http_request \<Rightarrow> uint64 \<Rightarrow> me_response \<Rightarrow> ('b, 'w, conversation_pb) handler" where
  "requireConversationForAgent h c conversationID actor =
     andThen (map_error (handleGRPCError c) (fetchConversation h conversationID)) (\<lambda>conversation.
       if pb_AssignedAgentId conversation \<noteq> 0 \<and> pb_AssignedAgentId conversation \<noteq> me_AgentId actor
          \<and> pb_PendingTransferToAgentId conversation \<noteq> me_AgentId actor
       then fail (abortForbidden c ''forbidden'')
       else andThen (requireConversationSiteForAgent h c conversation actor) (\<lambda>_. ok conversation))"

section \<open>Answers\<close>

definition conversationToJSON :: "conversation_pb \<Rightarrow> json" where
  "conversationToJSON item =
     JObject ([(''id'', JUint (pb_Id item)), (''site_id'', JString (pb_SiteId item)),
               (''status'', JString (pb_Status item)), (''created_at'', JTime (pb_CreatedAt item)),
               (''updated_at'', JTime (pb_UpdatedAt item))]
       @ (if pb_AssignedAgentId item > 0 then [(''assigned_agent_id'', JUint (pb_AssignedAgentId item))] else [])
       @ (case pb_ClosedAt item of None \<Rightarrow> [] | Some t \<Rightarrow> [(''closed_at'', JTime t)])
       @ (if pb_ClosedByAgentId item > 0 then [(''closed_by_agent_id'', JUint (pb_ClosedByAgentId item))] else [])
       @ (if pb_PendingTransferToAgentId item > 0
          then [(''pending_transfer_to_agent_id'', JUint (pb_PendingTransferToAgentId item))] else [])
       @ (if pb_PendingTransferFromAgentId item > 0
          then [(''pending_transfer_from_agent_id'', JUint (pb_PendingTransferFromAgentId item))] else [])
       @ (case pb_PendingTransferRequestedAt item of None \<Rightarrow> []
          | Some t \<Rightarrow> [(''pending_transfer_requested_at'', JTime t)]))"

definition conversationToPublicJSON :: "conversation_pb \<Rightarrow> json" where
  "conversationToPublicJSON item =
     JObject [(''id'', JUint (pb_Id item)), (''status'', JString (pb_Status item)),
              (''created_at'', JTime (pb_CreatedAt item)), (''updated_at'', JTime (pb_UpdatedAt item))]"

definition messageToJSON :: "message_pb \<Rightarrow> json" where
  "messageToJSON item =
     JObject ([(''id'', JUint (pbm_Id item)), (''conversation_id'', JUint (pbm_ConversationId item)),
               (''sender_type'', JString (pbm_SenderType item)), (''content'', JString (pbm_Content item)),
               (''client_msg_id'', JString (pbm_ClientMsgId item)), (''status'', JString (pbm_Status item)),
               (''created_at'', JTime (pbm_CreatedAt item)), (''updated_at'', JTime (pbm_UpdatedAt item))]
       @ (if pbm_SenderId item \<noteq> [] then [(''sender_id'', JString (pbm_SenderId item))] else []))"

definition adminAgentToJSON :: "agent_pb \<Rightarrow> json" where
  "adminAgentToJSON item =
     JObject [(''id'', JUint (pba_Id item)), (''email'', JString (pba_Email item)),
              (''display_name'', JString (pba_DisplayName item)), (''site_id'', JString (pba_SiteId item)),
              (''role'', JString (pba_Role item)), (''status'', JString (pba_Status item)),
              (''created_at'', JTime (pba_CreatedAt item)), (''updated_at'', JTime (pba_UpdatedAt item))]"

definition authResultToJSON :: "string \<times> agent_pb \<Rightarrow> json" where
  "authResultToJSON item =
     (case item of (token, a) \<Rightarrow>
        JObject [(''token'', JString token),
          (''agent'', JObject [(''id'', JUint (pba_Id a)), (''email'', JString (pba_Email a)),
              (''display_name'', JString (pba_DisplayName a)), (''site_id'', JString (pba_SiteId a)),
              (''role'', JString (pba_Role a)), (''status'', JString (pba_Status a)),
              (''created_at'', JTime (pba_CreatedAt a)), (''updated_at'', JTime (pba_UpdatedAt a))])])"

definition siteToJSON :: "site_pb \<Rightarrow> json" where
  "siteToJSON item =
     JObject [(''id'', JUint (pbs_Id item)), (''site_id'', JString (pbs_SiteId item)),
              (''name'', JString (pbs_Name item)), (''domains'', JArray (map JString (pbs_Domains item))),
              (''widget_key'', JString (pbs_WidgetKey item)), (''status'', JString (pbs_Status item)),
              (''created_at'', JTime (pbs_CreatedAt item)), (''updated_at'', JTime (pbs_UpdatedAt item))]"

text \<open>A configuration that was never saved has the empty text as its time.\<close>

definition ai_config_fields :: "ai_config_pb \<Rightarrow> (string \<times> json) list" where
  "ai_config_fields item =
     [(''site_id'', JString (pbc_SiteId item)), (''enabled'', JBool (pbc_Enabled item)),
      (''reply_mode'', JString (pbc_ReplyMode item)),
      (''updated_at'', case pbc_UpdatedAt item of None \<Rightarrow> JString [] | Some t \<Rightarrow> JTime t)]"

definition siteAIConfigToJSON :: "ai_config_pb \<Rightarrow> json" where
  "siteAIConfigToJSON item = JObject (ai_config_fields item)"

definition mergeSiteAIConfig :: "ai_config_pb \<Rightarrow> SiteStatus option \<Rightarrow> json" where
  "mergeSiteAIConfig item status =
     (case status of
        None \<Rightarrow> siteAIConfigToJSON item
      | Some s \<Rightarrow>
          JObject (ai_config_fields item @
            [(''knowledge_dir'', JString (ss_KnowledgeDir s)), (''index_status'', JString (ss_IndexStatus s)),
             (''indexed_chunks'', JNumber (ss_IndexedChunks s)), (''last_indexed_at'', JString (ss_LastIndexedAt s)),
             (''last_index_error'', JString (ss_LastIndexError s)), (''active_job_id'', JString (ss_ActiveJobID s))]))"

definition auditLogToJSON :: "audit_log \<Rightarrow> json" where
  "auditLogToJSON item =
     JObject [(''id'', JUint (al_ID item)), (''actor_agent_id'', JUint (al_ActorAgentID item)),
              (''actor_email'', JString (al_ActorEmail item)), (''actor_role'', JString (al_ActorRole item)),
              (''action'', JString (al_Action item)), (''resource_type'', JString (al_ResourceType item)),
              (''resource_id'', JString (al_ResourceID item)), (''summary'', JString (al_Summary item)),
              (''ip'', JString (al_IP item)), (''user_agent'', JString (al_UserAgent item)),
              (''created_at'', JTime (al_CreatedAt item))]"

end
