(* ===== verification/Gateway_Chat.thy ===== *)
theory Gateway_Chat
  imports Gateway_Core
begin

text \<open>
  The chat routes of the gateway (\<^verbatim>\<open>services/gateway-service/internal/handler/http_chat.go\<close>): who may
  create, see, write, read, claim, transfer and close a conversation.  The check of the widget session,
  which the creation of a conversation needs, is an argument here (\<open>Gateway_Widget\<close> defines it).  The
  binding rules of a body are predicates on the decoded body.
\<close>

section \<open>Parameters\<close>

definition ShouldBindJSON :: "('x \<Rightarrow> bool) \<Rightarrow> 'x http_request \<Rightarrow> string + 'x" where
  "ShouldBindJSON rules c =
     (case req_body c of Inl err \<Rightarrow> Inl err | Inr v \<Rightarrow> if rules v then Inr v else Inl (bind_text c v))"

definition bind_or_abort :: "('x \<Rightarrow> bool) \<Rightarrow> 'x http_request \<Rightarrow> ('b, 'w, 'x) handler" where
  "bind_or_abort rules c = map_error (abortBadRequest c) (lift_result (ShouldBindJSON rules c))"

definition need :: "http_response \<Rightarrow> 'x option \<Rightarrow> ('b, 'w, 'x) handler" where
  "need refusal x = (case x of None \<Rightarrow> fail refusal | Some v \<Rightarrow> ok v)"

definition limit_param :: "string \<Rightarrow> int option" where
  "limit_param raw =
     (if raw = [] then Some 50
      else case Atoi raw of None \<Rightarrow> None | Some v \<Rightarrow> if v \<le> 0 \<or> v > 200 then None else Some v)"

definition offset_param :: "string \<Rightarrow> int option" where
  "offset_param raw =
     (if raw = [] then Some 0
      else case Atoi raw of None \<Rightarrow> None | Some v \<Rightarrow> if v < 0 then None else Some v)"

text \<open>The id of the path, for the routes that refuse 0 and those that leave it to chat-service.\<close>

definition conversation_id :: "'a http_request \<Rightarrow> uint64 option" where
  "conversation_id c = ParseUint (Param c ''id'')"

definition positive_id :: "'a http_request \<Rightarrow> uint64 option" where
  "positive_id c = (case ParseUint (Param c ''id'') of None \<Rightarrow> None | Some n \<Rightarrow> if n = 0 then None else Some n)"

section \<open>Creating a conversation\<close>

record createConversationRequest =
  ccr_SiteID :: string
  ccr_VisitorToken :: string

definition createConversation ::
  "('b, 'w) HTTPHandler \<Rightarrow> (site_pb \<Rightarrow> ('b, 'w, unit) handler) \<Rightarrow> createConversationRequest http_request \<Rightarrow>
   ('b, 'w, http_response) handler" where
  "createConversation h requireWidgetSession c =
     andThen (bind_or_abort (\<lambda>q. ccr_SiteID q \<noteq> [] \<and> ccr_VisitorToken q \<noteq> []) c) (\<lambda>q.
       let siteID = TrimSpace (ccr_SiteID q); visitorToken = TrimSpace (ccr_VisitorToken q) in
       if siteID = [] \<or> visitorToken = []
       then fail (abortBadRequest c ''site_id and visitor_token are required'')
       else andThen (applyVisitorRateLimit h c ''create_conversation'' siteID 0 visitorToken) (\<lambda>_.
         attempt (call (Admin_GetSiteBySiteID (upstreams h) siteID)) (\<lambda>r. case r of
             Inl err \<Rightarrow> fail (if map_option fst err = Some NotFound then abortBadRequest c ''invalid site_id''
                             else handleGRPCError c err)
           | Inr site \<Rightarrow>
               if TrimSpace (ToLower (pbs_Status site)) \<noteq> ''active'' then fail (abortConflict c ''site is not active'')
               else andThen (requireWidgetSession site) (\<lambda>_.
                 andThen (call_or_abort c (Chat_CreateConversation (upstreams h)
                            \<lparr>cci_SiteID = siteID, cci_VisitorToken = visitorToken\<rparr>)) (\<lambda>resp.
                   ok (ok_JSON 201 (conversationToPublicJSON resp)))))))"

section \<open>Reading\<close>

text \<open>An agent by his token, or a visitor by his own.\<close>

definition agent_or_abort :: "('b, 'w) HTTPHandler \<Rightarrow> 'a http_request \<Rightarrow> string \<Rightarrow> ('b, 'w, me_response) handler" where
  "agent_or_abort h c action =
     andThen (map_error (handleGRPCError c) (requireAgentActor h c)) (\<lambda>actor.
       andThen (applyAgentRateLimit h c action (me_AgentId actor)) (\<lambda>_. ok actor))"

definition readable_conversation ::
  "('b, 'w) HTTPHandler \<Rightarrow> 'a http_request \<Rightarrow> string \<Rightarrow> uint64 \<Rightarrow> ('b, 'w, conversation_pb) handler" where
  "readable_conversation h c action conversationID =
     (if TrimSpace (Authorization c) \<noteq> [] then
        andThen (agent_or_abort h c action) (\<lambda>actor. requireConversationForAgent h c conversationID actor)
      else
        let visitorToken = TrimSpace (Query c ''visitor_token'') in
        if visitorToken = [] then fail (abortBadRequest c ''visitor_token is required when Authorization is missing'')
        else andThen (applyVisitorRateLimit h c action [] conversationID visitorToken) (\<lambda>_.
          requireConversationForVisitor h c conversationID visitorToken))"

definition getConversation :: "('b, 'w) HTTPHandler \<Rightarrow> unit http_request \<Rightarrow> ('b, 'w, http_response) handler" where
  "getConversation h c =
     andThen (need (abortBadRequest c ''invalid conversation id'') (conversation_id c)) (\<lambda>conversationID.
       andThen (readable_conversation h c ''get_conversation'' conversationID) (\<lambda>conversation.
         ok (ok_JSON 200 (conversationToJSON conversation))))"

definition shown_in_list :: "me_response \<Rightarrow> uint64 \<Rightarrow> bool \<Rightarrow> conversation_pb \<Rightarrow> bool" where
  "shown_in_list actor assignedAgentID unassignedOnly item \<longleftrightarrow>
     \<not> (me_Role actor = ''agent'' \<and> assignedAgentID = 0 \<and> \<not> unassignedOnly
        \<and> pb_AssignedAgentId item > 0 \<and> pb_AssignedAgentId item \<noteq> me_AgentId actor
        \<and> (\<not> pb_PendingTransferToAgentId item > 0 \<or> pb_PendingTransferToAgentId item \<noteq> me_AgentId actor))"

definition assigned_param :: "string \<Rightarrow> uint64 option" where
  "assigned_param query =
     (let raw = TrimSpace query in
      if raw = [] then Some 0
      else case ParseUint raw of None \<Rightarrow> None | Some v \<Rightarrow> if v = 0 then None else Some v)"

definition unassigned_param :: "string \<Rightarrow> bool option" where
  "unassigned_param query = (let raw = TrimSpace query in if raw = [] then Some False else ParseBool raw)"

definition listConversations :: "('b, 'w) HTTPHandler \<Rightarrow> unit http_request \<Rightarrow> ('b, 'w, http_response) handler" where
  "listConversations h c =
     andThen (agent_or_abort h c ''list_conversations'') (\<lambda>actor.
     andThen (need (abortBadRequest c ''invalid limit'') (limit_param (Query c ''limit''))) (\<lambda>limit.
     andThen (need (abortBadRequest c ''invalid offset'') (offset_param (Query c ''offset''))) (\<lambda>offset.
       let statusFilter = TrimSpace (Query c ''status''); siteID = TrimSpace (Query c ''site_id'') in
       if statusFilter \<noteq> [] \<and> statusFilter \<noteq> ''open'' \<and> statusFilter \<noteq> ''closed''
       then fail (abortBadRequest c ''invalid status'')
       else andThen (requireAgentSiteID c actor) (\<lambda>actorSiteID.
         if siteID \<noteq> [] \<and> siteID \<noteq> actorSiteID then fail (abortForbidden c ''forbidden'')
         else
         andThen (need (abortBadRequest c ''invalid assigned_agent_id'') (assigned_param (Query c ''assigned_agent_id''))) (\<lambda>assignedAgentID.
         andThen (need (abortBadRequest c ''invalid unassigned_only'') (unassigned_param (Query c ''unassigned_only''))) (\<lambda>unassignedOnly.
         andThen (call_or_abort c (Chat_ListConversations (upstreams h)
           \<lparr>lcr_Status = statusFilter, lcr_SiteId = (if siteID = [] then actorSiteID else siteID),
            lcr_AssignedAgentId = assignedAgentID, lcr_UnassignedOnly = unassignedOnly,
            lcr_Limit = int32 limit, lcr_Offset = int32 offset\<rparr>)) (\<lambda>items.
           ok (ok_JSON 200 (JObject [(''items'', JArray (map conversationToJSON
                (filter (shown_in_list actor assignedAgentID unassignedOnly) items)))])))))))))"

definition listMessages_gw :: "('b, 'w) HTTPHandler \<Rightarrow> unit http_request \<Rightarrow> ('b, 'w, http_response) handler" where
  "listMessages_gw h c =
     andThen (need (abortBadRequest c ''invalid conversation id'') (conversation_id c)) (\<lambda>conversationID.
     andThen (need (abortBadRequest c ''invalid limit'') (limit_param (Query c ''limit''))) (\<lambda>limit.
     andThen (need (abortBadRequest c ''invalid before_id'')
                (if Query c ''before_id'' = [] then Some 0 else ParseUint (Query c ''before_id''))) (\<lambda>beforeID.
     andThen (readable_conversation h c ''list_messages'' conversationID) (\<lambda>_.
     andThen (call_or_abort c (Chat_ListMessages (upstreams h) conversationID (int32 limit) beforeID)) (\<lambda>items.
       ok (ok_JSON 200 (JObject [(''items'', JArray (map messageToJSON items))])))))))"

section \<open>Writing\<close>

definition maxMessageContentChars_gw :: nat where "maxMessageContentChars_gw = 2000"

record createMessageRequest =
  cmr_SenderType :: string
  cmr_SenderID :: string
  cmr_Content :: string
  cmr_ClientMsgID :: string
  cmr_VisitorToken :: string

text \<open>The sender id to store, once the sender may write.\<close>

definition permitted_sender ::
  "('b, 'w) HTTPHandler \<Rightarrow> createMessageRequest http_request \<Rightarrow> uint64 \<Rightarrow> createMessageRequest \<Rightarrow> ('b, 'w, string) handler" where
  "permitted_sender h c conversationID q =
     (if cmr_SenderType q = ''agent'' then
        andThen (agent_or_abort h c ''create_message'') (\<lambda>actor.
          andThen (requireConversationForAgent h c conversationID actor) (\<lambda>conversation.
            if pb_AssignedAgentId conversation = 0
            then fail (abortConflict c ''conversation must be claimed before agent can send message'')
            else ok (FormatUint (me_AgentId actor))))
      else if cmr_SenderType q = ''visitor'' then
        (if cmr_VisitorToken q = [] then fail (abortBadRequest c ''visitor_token is required for visitor sender_type'')
         else andThen (applyVisitorRateLimit h c ''create_message'' [] conversationID (cmr_VisitorToken q)) (\<lambda>_.
           andThen (requireConversationForVisitor h c conversationID (cmr_VisitorToken q)) (\<lambda>_. ok (cmr_SenderID q))))
      else fail (abortBadRequest c ''invalid sender_type''))"

definition createMessage ::
  "('b, 'w) HTTPHandler \<Rightarrow> createMessageRequest http_request \<Rightarrow> ('b, 'w, http_response) handler" where
  "createMessage h c =
     andThen (need (abortBadRequest c ''invalid conversation id'') (conversation_id c)) (\<lambda>conversationID.
     andThen (bind_or_abort (\<lambda>q. cmr_SenderType q \<noteq> [] \<and> cmr_Content q \<noteq> [] \<and> cmr_ClientMsgID q \<noteq> []) c) (\<lambda>raw.
       let q = raw\<lparr>cmr_SenderType := ToLower (TrimSpace (cmr_SenderType raw)),
                   cmr_VisitorToken := TrimSpace (cmr_VisitorToken raw)\<rparr> in
       if TrimSpace (cmr_Content q) = [] then fail (abortBadRequest c ''content is required'')
       else if RuneCountInString (cmr_Content q) > maxMessageContentChars_gw
       then fail (abortBadRequest c (''content is too long (max '' @ FormatUint maxMessageContentChars_gw @ '' characters)''))
       else andThen (permitted_sender h c conversationID q) (\<lambda>senderID.
         andThen (call_or_abort c (Chat_CreateMessage (upstreams h)
           \<lparr>cmi_ConversationID = conversationID, cmi_SenderType = cmr_SenderType q, cmi_SenderID = senderID,
            cmi_Content = cmr_Content q, cmi_ClientMsgID = cmr_ClientMsgID q, cmi_VisitorToken = cmr_VisitorToken q\<rparr>)) (\<lambda>resp.
           ok (ok_JSON 201 (messageToJSON resp))))))"

record markMessagesReadRequest =
  mrr_LastReadMessageID :: uint64
  mrr_VisitorToken :: string

text \<open>The type and the id of the reader, once he may read.\<close>

definition permitted_reader ::
  "('b, 'w) HTTPHandler \<Rightarrow> 'a http_request \<Rightarrow> uint64 \<Rightarrow> string \<Rightarrow> ('b, 'w, string \<times> uint64) handler" where
  "permitted_reader h c conversationID visitorToken =
     (if TrimSpace (Authorization c) \<noteq> [] then
        andThen (agent_or_abort h c ''mark_read'') (\<lambda>actor.
          andThen (requireConversationForAgent h c conversationID actor) (\<lambda>conversation.
            if pb_AssignedAgentId conversation \<noteq> me_AgentId actor
            then fail (abortForbidden c ''conversation must be assigned before mark read'')
            else ok (''agent'', me_AgentId actor)))
      else if visitorToken = [] then fail (abortBadRequest c ''visitor_token is required when Authorization is missing'')
      else andThen (applyVisitorRateLimit h c ''mark_read'' [] conversationID visitorToken) (\<lambda>_.
        andThen (requireConversationForVisitor h c conversationID visitorToken) (\<lambda>_. ok (''visitor'', 0))))"

definition markMessagesRead_gw ::
  "('b, 'w) HTTPHandler \<Rightarrow> markMessagesReadRequest http_request \<Rightarrow> ('b, 'w, http_response) handler" where
  "markMessagesRead_gw h c =
     andThen (need (abortBadRequest c ''invalid conversation id'') (conversation_id c)) (\<lambda>conversationID.
     andThen (bind_or_abort (\<lambda>q. mrr_LastReadMessageID q \<noteq> 0) c) (\<lambda>q.
       if mrr_LastReadMessageID q = 0 then fail (abortBadRequest c ''last_read_message_id is required'')
       else
         let visitorToken = TrimSpace (mrr_VisitorToken q) in
         andThen (permitted_reader h c conversationID visitorToken) (\<lambda>(actorType, actorAgentID).
         andThen (call_or_abort c (Chat_MarkMessagesRead (upstreams h)
           \<lparr>mri_ConversationID = conversationID, mri_LastReadMessageID = mrr_LastReadMessageID q,
            mri_ActorType = actorType, mri_ActorAgentID = actorAgentID, mri_VisitorToken = visitorToken\<rparr>)) (\<lambda>updated.
           ok (ok_JSON 200 (JObject [(''updated_count'', JUint updated)]))))))"

section \<open>The life cycle\<close>

text \<open>The newest message is marked as read after a claim; a failure is forgotten.\<close>

definition tryMarkConversationReadAfterClaim ::
  "('b, 'w) HTTPHandler \<Rightarrow> uint64 \<Rightarrow> uint64 \<Rightarrow> ('b, 'w, unit) handler" where
  "tryMarkConversationReadAfterClaim h conversationID agentID =
     attempt (call (Chat_ListMessages (upstreams h) conversationID 1 0)) (\<lambda>r. case r of
         Inl err \<Rightarrow> ok ()
       | Inr [] \<Rightarrow> ok ()
       | Inr (m # ms) \<Rightarrow>
           if pbm_Id m = 0 then ok ()
           else ignore (call (Chat_MarkMessagesRead (upstreams h)
             \<lparr>mri_ConversationID = conversationID, mri_LastReadMessageID = pbm_Id m, mri_ActorType = ''agent'',
              mri_ActorAgentID = agentID, mri_VisitorToken = []\<rparr>)))"

definition claimConversation :: "('b, 'w) HTTPHandler \<Rightarrow> unit http_request \<Rightarrow> ('b, 'w, http_response) handler" where
  "claimConversation h c =
     andThen (agent_or_abort h c ''claim_conversation'') (\<lambda>actor.
     andThen (need (abortBadRequest c ''invalid conversation id'') (positive_id c)) (\<lambda>conversationID.
     andThen (fetchConversationForAgentSite h c conversationID actor) (\<lambda>_.
     andThen (call_or_abort c (Chat_ClaimConversation (upstreams h)
       \<lparr>cli_ConversationID = conversationID, cli_AgentID = me_AgentId actor\<rparr>)) (\<lambda>resp.
     andThen (tryMarkConversationReadAfterClaim h conversationID (me_AgentId actor)) (\<lambda>_.
       ok (ok_JSON 200 (conversationToJSON resp)))))))"

record transferConversationRequest =
  tcr_ToAgentID :: uint64

definition transferConversation ::
  "('b, 'w) HTTPHandler \<Rightarrow> transferConversationRequest http_request \<Rightarrow> ('b, 'w, http_response) handler" where
  "transferConversation h c =
     andThen (agent_or_abort h c ''transfer_conversation'') (\<lambda>actor.
     andThen (need (abortBadRequest c ''invalid conversation id'') (positive_id c)) (\<lambda>conversationID.
     andThen (map_error (\<lambda>_. abortBadRequest c ''to_agent_id is required'')
                (lift_result (ShouldBindJSON (\<lambda>q. tcr_ToAgentID q \<noteq> 0) c))) (\<lambda>q.
     andThen (fetchConversationForAgentSite h c conversationID actor) (\<lambda>conversation.
     andThen (call_or_abort c (Admin_GetAgentByID (upstreams h) (tcr_ToAgentID q))) (\<lambda>targetAgent.
       if TrimSpace (pba_SiteId targetAgent) \<noteq> TrimSpace (pb_SiteId conversation)
       then fail (abortForbidden c ''target agent is outside current site'')
       else if TrimSpace (ToLower (pba_Status targetAgent)) \<noteq> ''active''
       then fail (abortConflict c ''target agent is not active'')
       else andThen (call_or_abort c (Chat_TransferConversation (upstreams h)
         \<lparr>act_ConversationID = conversationID, act_ActorAgentID = me_AgentId actor,
          act_ActorRole = me_Role actor, tci_ToAgentID = tcr_ToAgentID q\<rparr>)) (\<lambda>resp.
         ok (ok_JSON 200 (conversationToJSON resp))))))))"

text \<open>The common part of the three operations of an agent on a conversation of his site.\<close>

definition agent_operation ::
  "('b, 'w) HTTPHandler \<Rightarrow> unit http_request \<Rightarrow> string \<Rightarrow> (ActorInput \<Rightarrow> ('w, conversation_pb) rpc) \<Rightarrow>
   (uint64 \<Rightarrow> me_response \<Rightarrow> ('b, 'w, unit) handler) \<Rightarrow> ('b, 'w, http_response) handler" where
  "agent_operation h c action operation after =
     andThen (agent_or_abort h c action) (\<lambda>actor.
     andThen (need (abortBadRequest c ''invalid conversation id'') (positive_id c)) (\<lambda>conversationID.
     andThen (fetchConversationForAgentSite h c conversationID actor) (\<lambda>_.
     andThen (call_or_abort c (operation
       \<lparr>act_ConversationID = conversationID, act_ActorAgentID = me_AgentId actor, act_ActorRole = me_Role actor\<rparr>)) (\<lambda>resp.
     andThen (after conversationID actor) (\<lambda>_. ok (ok_JSON 200 (conversationToJSON resp)))))))"

definition confirmTransferConversation :: "('b, 'w) HTTPHandler \<Rightarrow> unit http_request \<Rightarrow> ('b, 'w, http_response) handler" where
  "confirmTransferConversation h c =
     agent_operation h c ''confirm_transfer_conversation'' (Chat_ConfirmTransferConversation (upstreams h))
       (\<lambda>i actor. tryMarkConversationReadAfterClaim h i (me_AgentId actor))"

definition rejectTransferConversation :: "('b, 'w) HTTPHandler \<Rightarrow> unit http_request \<Rightarrow> ('b, 'w, http_response) handler" where
  "rejectTransferConversation h c =
     agent_operation h c ''reject_transfer_conversation'' (Chat_RejectTransferConversation (upstreams h)) (\<lambda>i actor. ok ())"

definition closeConversation_gw :: "('b, 'w) HTTPHandler \<Rightarrow> unit http_request \<Rightarrow> ('b, 'w, http_response) handler" where
  "closeConversation_gw h c =
     agent_operation h c ''close_conversation'' (Chat_CloseConversation (upstreams h)) (\<lambda>i actor. ok ())"

end
