(* ===== verification/Go_Url.thy ===== *)
theory Go_Url
  imports Text_Laws
begin

text \<open>
  \<^verbatim>\<open>net/url\<close> and \<^verbatim>\<open>encoding/base64\<close> as far as the services use them: the scheme and the host of
  \<^verbatim>\<open>url.Parse\<close> with \<^verbatim>\<open>Hostname\<close> and \<^verbatim>\<open>Port\<close>, and \<^verbatim>\<open>base64.RawURLEncoding\<close>.  A host in brackets (an IP
  literal) is read by a parameter, since its rules differ between releases of Go.
\<close>

section \<open>Splitting texts\<close>

text \<open>\<^verbatim>\<open>strings.Cut\<close> at a byte, and the cut at the last one.\<close>

definition Cut :: "char \<Rightarrow> string \<Rightarrow> string \<times> string" where
  "Cut c s = (takeWhile (\<lambda>d. d \<noteq> c) s, drop 1 (dropWhile (\<lambda>d. d \<noteq> c) s))"

definition last_cut :: "char \<Rightarrow> string \<Rightarrow> (string \<times> string) option" where
  "last_cut c s =
     (if c \<in> set s then
        Some (rev (drop 1 (dropWhile (\<lambda>d. d \<noteq> c) (rev s))), rev (takeWhile (\<lambda>d. d \<noteq> c) (rev s)))
      else None)"

fun Split :: "char \<Rightarrow> string \<Rightarrow> string list" where
  "Split c [] = [[]]"
| "Split c (d # s) = (if d = c then [] # Split c s else case Split c s of p # ps \<Rightarrow> (d # p) # ps | [] \<Rightarrow> [[d]])"

lemma Split_no_sep: "c \<notin> set s \<Longrightarrow> Split c s = [s]"
  by (induction s) auto

lemma Split_nonempty [simp]: "Split c s \<noteq> []"
  by (cases s) (auto split: list.splits)

lemma Split_append: "c \<notin> set s \<Longrightarrow> Split c (s @ c # t) = s # Split c t"
  by (induction s) auto

definition TrimPrefix :: "string \<Rightarrow> string \<Rightarrow> string" where
  "TrimPrefix s p = (if HasPrefix s p then drop (length p) s else s)"

definition HasSuffix :: "string \<Rightarrow> string \<Rightarrow> bool" where
  "HasSuffix s p \<longleftrightarrow> HasPrefix (rev s) (rev p)"

definition TrimSuffix :: "string \<Rightarrow> string \<Rightarrow> string" where
  "TrimSuffix s p = (if HasSuffix s p then take (length s - length p) s else s)"

section \<open>Characters\<close>

definition is_letter :: "char \<Rightarrow> bool" where
  "is_letter c \<longleftrightarrow> (65 \<le> (of_char c :: int) \<and> (of_char c :: int) \<le> 90)
     \<or> (97 \<le> (of_char c :: int) \<and> (of_char c :: int) \<le> 122)"

definition is_ctl :: "char \<Rightarrow> bool" where
  "is_ctl c \<longleftrightarrow> (of_char c :: int) < 32 \<or> (of_char c :: int) = 127"

definition hex_value :: "char \<Rightarrow> int option" where
  "hex_value c =
     (let n = (of_char c :: int) in
      if 48 \<le> n \<and> n \<le> 57 then Some (n - 48)
      else if 97 \<le> n \<and> n \<le> 102 then Some (n - 87)
      else if 65 \<le> n \<and> n \<le> 70 then Some (n - 55)
      else None)"

definition host_char :: "char \<Rightarrow> bool" where
  "host_char c \<longleftrightarrow> is_letter c \<or> is_digit c \<or> 128 \<le> (of_char c :: int)
     \<or> c \<in> set ''-_.~!$&()*+,;=:[]<>'' \<or> c = CHR 0x22 \<or> c = CHR 0x27"

definition userinfo_char :: "char \<Rightarrow> bool" where
  "userinfo_char c \<longleftrightarrow> is_letter c \<or> is_digit c \<or> c \<in> set ''-._:~!$&()*+,;=%@'' \<or> c = CHR 0x27"

section \<open>\<^verbatim>\<open>url.Parse\<close>\<close>

text \<open>Percent escapes that are complete, and the host behind them; \<open>None\<close> is an error.\<close>

fun valid_escapes :: "string \<Rightarrow> bool" where
  "valid_escapes (c # a # b # s) \<longleftrightarrow>
     (if c = CHR ''%'' then hex_value a \<noteq> None \<and> hex_value b \<noteq> None \<and> valid_escapes s else valid_escapes (a # b # s))"
| "valid_escapes s \<longleftrightarrow> CHR ''%'' \<notin> set s"

fun unescape_host :: "string \<Rightarrow> string option" where
  "unescape_host (c # a # b # s) =
     (if c = CHR ''%'' then
        (case (hex_value a, hex_value b) of
           (Some x, Some y) \<Rightarrow>
             if x < 8 \<and> \<not> (a = CHR ''2'' \<and> b = CHR ''5'') then None
             else map_option (\<lambda>t. char_of (16 * x + y) # t) (unescape_host s)
         | _ \<Rightarrow> None)
      else if host_char c then map_option (\<lambda>t. c # t) (unescape_host (a # b # s)) else None)"
| "unescape_host s = (if list_all host_char s then Some s else None)"

text \<open>The scheme before the first colon; \<open>None\<close> is a missing scheme.\<close>

fun scan_scheme :: "string \<Rightarrow> string \<Rightarrow> string \<Rightarrow> (string \<times> string) option" where
  "scan_scheme raw acc [] = Some ([], raw)"
| "scan_scheme raw acc (c # s) =
     (if is_letter c then scan_scheme raw (acc @ [c]) s
      else if is_digit c \<or> c \<in> set ''+-.'' then (if acc = [] then Some ([], raw) else scan_scheme raw (acc @ [c]) s)
      else if c = CHR '':'' then (if acc = [] then None else Some (acc, s))
      else Some ([], raw))"

definition getScheme :: "string \<Rightarrow> (string \<times> string) option" where
  "getScheme raw = scan_scheme raw [] raw"

definition validOptionalPort :: "string \<Rightarrow> bool" where
  "validOptionalPort port \<longleftrightarrow> (case port of [] \<Rightarrow> True | c # cs \<Rightarrow> c = CHR '':'' \<and> list_all is_digit cs)"

type_synonym ip_literal = "string \<Rightarrow> string option"

definition parseHost :: "ip_literal \<Rightarrow> string \<Rightarrow> string option" where
  "parseHost ip host =
     (if CHR ''['' \<in> set host then ip host
      else if (case last_cut (CHR '':'') host of None \<Rightarrow> True | Some (_, port) \<Rightarrow> list_all is_digit port)
      then unescape_host host else None)"

definition parseAuthority :: "ip_literal \<Rightarrow> string \<Rightarrow> string option" where
  "parseAuthority ip authority =
     (case last_cut (CHR ''@'') authority of
        None \<Rightarrow> parseHost ip authority
      | Some (userinfo, host) \<Rightarrow>
          if list_all userinfo_char userinfo \<and> valid_escapes (fst (Cut (CHR '':'') userinfo))
             \<and> valid_escapes (snd (Cut (CHR '':'') userinfo))
          then parseHost ip host else None)"

record url =
  url_Scheme :: string
  url_Host :: string

definition parse_rest :: "ip_literal \<Rightarrow> string \<Rightarrow> string \<Rightarrow> url option" where
  "parse_rest ip scheme rest0 =
     (let rest = fst (Cut (CHR ''?'') rest0) in
      if \<not> HasPrefix rest ''/'' \<and> scheme \<noteq> [] then Some \<lparr>url_Scheme = scheme, url_Host = []\<rparr>
      else if \<not> HasPrefix rest ''/'' \<and> CHR '':'' \<in> set (fst (Cut (CHR ''/'') rest)) then None
      else if (scheme \<noteq> [] \<or> \<not> HasPrefix rest ''///'') \<and> HasPrefix rest ''//'' then
        let authority = fst (Cut (CHR ''/'') (drop 2 rest));
            path = dropWhile (\<lambda>d. d \<noteq> CHR ''/'') (drop 2 rest)
        in (case parseAuthority ip authority of
              None \<Rightarrow> None
            | Some host \<Rightarrow> if valid_escapes path then Some \<lparr>url_Scheme = scheme, url_Host = host\<rparr> else None)
      else if valid_escapes rest then Some \<lparr>url_Scheme = scheme, url_Host = []\<rparr> else None)"

definition url_Parse :: "ip_literal \<Rightarrow> string \<Rightarrow> url option" where
  "url_Parse ip rawURL =
     (let (u, frag) = Cut (CHR ''#'') rawURL in
      if list_ex is_ctl u then None
      else if u = ''*'' then (if valid_escapes frag then Some \<lparr>url_Scheme = [], url_Host = []\<rparr> else None)
      else case getScheme u of
          None \<Rightarrow> None
        | Some (scheme, rest) \<Rightarrow>
            (case parse_rest ip (ToLower scheme) rest of
               None \<Rightarrow> None
             | Some p \<Rightarrow> if valid_escapes frag then Some p else None))"

definition splitHostPort :: "string \<Rightarrow> string \<times> string" where
  "splitHostPort hostPort =
     (let (host, port) =
        (case last_cut (CHR '':'') hostPort of
           Some (h, p) \<Rightarrow> if list_all is_digit p then (h, p) else (hostPort, [])
         | None \<Rightarrow> (hostPort, []))
      in (if HasPrefix host ''['' \<and> HasSuffix host '']'' then take (length host - 2) (drop 1 host) else host, port))"

definition Hostname :: "url \<Rightarrow> string" where "Hostname u = fst (splitHostPort (url_Host u))"
definition Port :: "url \<Rightarrow> string" where "Port u = snd (splitHostPort (url_Host u))"

section \<open>\<^verbatim>\<open>base64.RawURLEncoding\<close>\<close>

definition b64_alphabet :: string where
  "b64_alphabet = ''ABCDEFGHIJKLMNOPQRSTUVWXYZabcdefghijklmnopqrstuvwxyz0123456789-_''"

definition b64_char :: "nat \<Rightarrow> char" where
  "b64_char n = b64_alphabet ! n"

definition b64_value :: "char \<Rightarrow> nat option" where
  "b64_value c = (if c \<in> set b64_alphabet then Some (length (takeWhile (\<lambda>d. d \<noteq> c) b64_alphabet)) else None)"

fun b64_encode :: "nat list \<Rightarrow> nat list" where
  "b64_encode (a # b # c # s) =
     a div 4 # (a mod 4 * 16 + b div 16) # (b mod 16 * 4 + c div 64) # c mod 64 # b64_encode s"
| "b64_encode [a, b] = [a div 4, a mod 4 * 16 + b div 16, b mod 16 * 4]"
| "b64_encode [a] = [a div 4, a mod 4 * 16]"
| "b64_encode [] = []"

fun b64_decode :: "nat list \<Rightarrow> nat list option" where
  "b64_decode (p # q # r # t # s) =
     map_option (\<lambda>u. (p * 4 + q div 16) # (q mod 16 * 16 + r div 4) # (r mod 4 * 64 + t) # u) (b64_decode s)"
| "b64_decode [p, q, r] = Some [p * 4 + q div 16, q mod 16 * 16 + r div 4]"
| "b64_decode [p, q] = Some [p * 4 + q div 16]"
| "b64_decode [p] = None"
| "b64_decode [] = Some []"

definition EncodeToString :: "string \<Rightarrow> string" where
  "EncodeToString src = map b64_char (b64_encode (map of_char src))"

text \<open>Line breaks are skipped; every other byte outside the alphabet is an error.\<close>

definition DecodeString :: "string \<Rightarrow> string option" where
  "DecodeString s =
     (let t = filter (\<lambda>c. c \<noteq> CHR 0x0A \<and> c \<noteq> CHR 0x0D) s in
      if list_all (\<lambda>c. c \<in> set b64_alphabet) t
      then map_option (map char_of) (b64_decode (map (\<lambda>c. the (b64_value c)) t)) else None)"

lemma length_alphabet: "length b64_alphabet = 64"
  by (simp add: b64_alphabet_def)

lemma distinct_alphabet: "distinct b64_alphabet"
  by (simp add: b64_alphabet_def)

lemma b64_value_char: "n < 64 \<Longrightarrow> b64_value (b64_char n) = Some n"
proof -
  assume n: "n < 64"
  then have "b64_alphabet ! n \<in> set b64_alphabet" by (simp add: length_alphabet)
  moreover have "takeWhile (\<lambda>d. d \<noteq> b64_alphabet ! n) b64_alphabet = take n b64_alphabet"
    using n by (intro takeWhile_eq_take_P_nth) (auto simp: length_alphabet nth_eq_iff_index_eq distinct_alphabet)
  ultimately show ?thesis using n by (simp add: b64_value_def b64_char_def length_alphabet)
qed

lemma b64_encode_range: "\<forall>a \<in> set s. a < 256 \<Longrightarrow> \<forall>n \<in> set (b64_encode s). n < 64"
proof (induction s rule: b64_encode.induct)
  case (1 a b c s)
  then have "a < 256" "b < 256" "c < 256" by simp_all
  with 1 show ?case by auto
qed auto

lemma b64_decode_encode: "\<forall>a \<in> set s. a < 256 \<Longrightarrow> b64_decode (b64_encode s) = Some s"
proof (induction s rule: b64_encode.induct)
  case (1 a b c s)
  then have "a < 256" "b < 256" "c < 256" by simp_all
  with 1 show ?case by simp
qed auto

lemma b64_char_alphabet: "n < 64 \<Longrightarrow> b64_char n \<in> set b64_alphabet"
  by (simp add: b64_char_def length_alphabet)

lemma EncodeToString_alphabet: "set (EncodeToString s) \<subseteq> set b64_alphabet"
proof -
  have "\<forall>a \<in> set (map of_char s). a < (256::nat)" by (simp add: nat_of_char_less_256)
  from b64_encode_range [OF this] show ?thesis by (auto simp: EncodeToString_def b64_char_alphabet)
qed

lemma DecodeString_EncodeToString: "DecodeString (EncodeToString s) = Some s"
proof -
  let ?ns = "b64_encode (map of_char s)"
  have b: "\<forall>a \<in> set (map of_char s). a < (256::nat)" by (simp add: nat_of_char_less_256)
  have alpha: "\<forall>c \<in> set (EncodeToString s). c \<in> set b64_alphabet" using EncodeToString_alphabet by blast
  have "CHR 0x0A \<notin> set b64_alphabet" "CHR 0x0D \<notin> set b64_alphabet" by (simp_all add: b64_alphabet_def)
  with alpha have "filter (\<lambda>c. c \<noteq> CHR 0x0A \<and> c \<noteq> CHR 0x0D) (EncodeToString s) = EncodeToString s"
    by (auto intro!: filter_True)
  moreover have "map (\<lambda>c. the (b64_value c)) (EncodeToString s) = ?ns"
    unfolding EncodeToString_def using b64_encode_range [OF b] by (simp add: b64_value_char map_idI)
  ultimately show ?thesis
    using alpha b64_decode_encode [OF b] by (simp add: DecodeString_def list_all_iff Let_def)
qed

end
