(* ===== verification/Gateway_Widget.thy ===== *)
theory Gateway_Widget
  imports Gateway_Core Go_Url
begin

text \<open>
  The widget of a site (\<^verbatim>\<open>services/gateway-service/internal/handler/http_widget.go\<close>): which pages may
  embed it, the signed session that its page carries, and the check of the session when a conversation
  is created.  HMAC-SHA256 and the decoding of the JSON of a session are parameters; the encoding is
  defined.
\<close>

definition widgetSessionVersion :: string where "widgetSessionVersion = ''ws1''"
definition widgetSessionTTL :: time where "widgetSessionTTL = 12 * 3600 * lim_Second"

text \<open>The times are seconds since 1970.\<close>

record widgetSessionClaims =
  ws_SiteID :: string
  ws_SiteDomain :: string
  ws_ParentOrigin :: string
  ws_StorageScope :: string
  ws_IssuedAt :: int
  ws_ExpiresAt :: int

record widget_env =
  ip_literals :: ip_literal
  hmac_sha256 :: "string \<Rightarrow> string \<Rightarrow> string"
  claims_Unmarshal :: "string \<Rightarrow> widgetSessionClaims option"
  widget_clock :: "nat \<Rightarrow> time"

section \<open>Hosts and origins\<close>

definition parseURLLike :: "widget_env \<Rightarrow> string \<Rightarrow> url option" where
  "parseURLLike W raw =
     (let text = TrimSpace raw in
      if text = [] then None
      else case url_Parse (ip_literals W) text of
          None \<Rightarrow> None
        | Some p \<Rightarrow> if url_Host p \<noteq> [] then Some p else None)"

definition normalizeHostFromURL :: "url \<Rightarrow> string" where
  "normalizeHostFromURL p =
     (let host = ToLower (TrimSpace (Hostname p)); port = TrimSpace (Port p) in
      if host = [] then []
      else if port = [] then host
      else if EqualFold (url_Scheme p) ''http'' \<and> port = ''80'' then host
      else if EqualFold (url_Scheme p) ''https'' \<and> port = ''443'' then host
      else host @ '':'' @ port)"

definition normalizeOrigin :: "widget_env \<Rightarrow> string \<Rightarrow> string" where
  "normalizeOrigin W raw =
     (case parseURLLike W raw of
        None \<Rightarrow> []
      | Some p \<Rightarrow>
          let host = normalizeHostFromURL p; scheme = ToLower (TrimSpace (url_Scheme p)) in
          if host = [] then []
          else (if scheme = [] then ''https'' else scheme) @ ''://'' @ host)"

definition normalizeHostLike :: "widget_env \<Rightarrow> string \<Rightarrow> string" where
  "normalizeHostLike W raw =
     (case parseURLLike W raw of
        Some p \<Rightarrow> normalizeHostFromURL p
      | None \<Rightarrow>
          let text = TrimSuffix (TrimPrefix (TrimSpace (ToLower raw)) ''.'') ''.'' in
          if text = [] then []
          else case parseURLLike W (''https://'' @ text) of None \<Rightarrow> [] | Some p \<Rightarrow> normalizeHostFromURL p)"

definition isLocalhostHost :: "widget_env \<Rightarrow> string \<Rightarrow> bool" where
  "isLocalhostHost W raw =
     (case parseURLLike W (''https://'' @ TrimSpace raw) of
        None \<Rightarrow> False
      | Some p \<Rightarrow> EqualFold (TrimSpace (Hostname p)) ''localhost'')"

definition matchesSiteDomain :: "widget_env \<Rightarrow> string \<Rightarrow> string \<Rightarrow> bool" where
  "matchesSiteDomain W siteDomain raw =
     (let s = normalizeHostLike W siteDomain; h = normalizeHostLike W raw in
      if s = [] \<or> h = [] then False
      else if s = h then True
      else isLocalhostHost W s \<and> isLocalhostHost W h)"

definition matchesAnySiteDomain :: "widget_env \<Rightarrow> string list \<Rightarrow> string \<Rightarrow> bool" where
  "matchesAnySiteDomain W siteDomains raw = list_ex (\<lambda>item. matchesSiteDomain W item raw) siteDomains"

fun collect_domains :: "widget_env \<Rightarrow> string list \<Rightarrow> string list \<Rightarrow> string list" where
  "collect_domains W seen [] = []"
| "collect_domains W seen (item # items) =
     (let d = normalizeHostLike W item in
      if d = [] \<or> d \<in> set seen then collect_domains W seen items else d # collect_domains W (d # seen) items)"

definition allowedSiteDomains :: "widget_env \<Rightarrow> site_pb \<Rightarrow> string list" where
  "allowedSiteDomains W site =
     collect_domains W []
       (if pbs_Domains site = [] \<and> TrimSpace (pbs_Domain site) \<noteq> [] then [pbs_Domain site] else pbs_Domains site)"

definition validateWidgetRequestSource :: "widget_env \<Rightarrow> string list \<Rightarrow> string \<Rightarrow> string \<Rightarrow> string \<Rightarrow> string + string" where
  "validateWidgetRequestSource W siteDomains parentOrigin referer origin =
     (let p = normalizeOrigin W parentOrigin in
      if p = [] then Inl ''parent_origin is required''
      else if \<not> matchesAnySiteDomain W siteDomains p then Inl ''parent origin is not allowed''
      else case filter (\<lambda>candidate. TrimSpace candidate \<noteq> []) [referer, origin] of
          [] \<Rightarrow> Inl ''widget source is missing''
        | candidate # _ \<Rightarrow>
            if matchesSiteDomain W p candidate then Inr p else Inl ''widget source is not allowed'')"

section \<open>The session token\<close>

text \<open>
  The JSON of a text as \<^verbatim>\<open>json.Marshal\<close> writes it: quotes, backslashes, control characters and the
  characters HTML cares for are escaped.  A text from outside ASCII is taken to be valid UTF-8
  without the line separators U+2028 and U+2029.
\<close>

definition hex_digit :: "int \<Rightarrow> char" where
  "hex_digit n = (if n < 10 then char_of (48 + n) else char_of (87 + n))"

definition json_escape :: "char \<Rightarrow> string" where
  "json_escape c =
     (if c = CHR 0x22 then [CHR 0x5C, CHR 0x22] else if c = CHR 0x5C then [CHR 0x5C, CHR 0x5C]
      else if c = CHR 0x08 then [CHR 0x5C, CHR ''b''] else if c = CHR 0x0C then [CHR 0x5C, CHR ''f'']
      else if c = CHR 0x0A then [CHR 0x5C, CHR ''n''] else if c = CHR 0x0D then [CHR 0x5C, CHR ''r'']
      else if c = CHR 0x09 then [CHR 0x5C, CHR ''t'']
      else if (of_char c :: int) < 32 \<or> c = CHR ''<'' \<or> c = CHR ''>'' \<or> c = CHR ''&''
      then [CHR 0x5C] @ ''u00'' @ [hex_digit (of_char c div 16), hex_digit (of_char c mod 16)]
      else [c])"

definition json_text :: "string \<Rightarrow> string" where
  "json_text s = [CHR 0x22] @ concat (map json_escape s) @ [CHR 0x22]"

definition claims_Marshal :: "widgetSessionClaims \<Rightarrow> string" where
  "claims_Marshal c =
     ''{'' @ json_text ''site_id'' @ '':'' @ json_text (ws_SiteID c)
     @ '','' @ json_text ''site_domain'' @ '':'' @ json_text (ws_SiteDomain c)
     @ '','' @ json_text ''parent_origin'' @ '':'' @ json_text (ws_ParentOrigin c)
     @ '','' @ json_text ''storage_scope'' @ '':'' @ json_text (ws_StorageScope c)
     @ '','' @ json_text ''iat'' @ '':'' @ FormatInt (ws_IssuedAt c)
     @ '','' @ json_text ''exp'' @ '':'' @ FormatInt (ws_ExpiresAt c) @ ''}''"

definition signWidgetSessionMAC :: "widget_env \<Rightarrow> string \<Rightarrow> string \<Rightarrow> string" where
  "signWidgetSessionMAC W signed_part widgetKey = EncodeToString (hmac_sha256 W widgetKey signed_part)"

definition signWidgetSessionToken :: "widget_env \<Rightarrow> widgetSessionClaims \<Rightarrow> string \<Rightarrow> string + string" where
  "signWidgetSessionToken W claims widgetKey =
     (let key = TrimSpace widgetKey; signed_part = widgetSessionVersion @ ''.'' @ EncodeToString (claims_Marshal claims) in
      if key = [] then Inl ''widget_key is required''
      else Inr (signed_part @ ''.'' @ signWidgetSessionMAC W signed_part key))"

definition Unix :: "time \<Rightarrow> int" where
  "Unix t = t div lim_Second"

definition validateWidgetSessionToken :: "widget_env \<Rightarrow> string \<Rightarrow> string \<Rightarrow> time \<Rightarrow> string + widgetSessionClaims" where
  "validateWidgetSessionToken W raw widgetKey now =
     (let key = TrimSpace widgetKey in
      if key = [] then Inl ''widget_key is required''
      else case Split (CHR ''.'') (TrimSpace raw) of
          [version, payload, signature] \<Rightarrow>
            if version \<noteq> widgetSessionVersion then Inl ''invalid widget session''
            else if signWidgetSessionMAC W (version @ ''.'' @ payload) key \<noteq> signature then Inl ''invalid widget session''
            else (case DecodeString payload of
                None \<Rightarrow> Inl ''invalid widget session''
              | Some bytes \<Rightarrow>
                  (case claims_Unmarshal W bytes of
                     None \<Rightarrow> Inl ''invalid widget session''
                   | Some claims \<Rightarrow>
                       if TrimSpace (ws_SiteID claims) = [] \<or> TrimSpace (ws_SiteDomain claims) = []
                       then Inl ''invalid widget session''
                       else if ws_ExpiresAt claims \<le> 0 \<or> Unix now > ws_ExpiresAt claims
                       then Inl ''widget session expired''
                       else Inr claims))
        | _ \<Rightarrow> Inl ''invalid widget session'')"

definition buildWidgetStorageScope :: "widget_env \<Rightarrow> string \<Rightarrow> string \<Rightarrow> string" where
  "buildWidgetStorageScope W siteID siteDomain =
     (let s = TrimSpace siteID; d = normalizeHostLike W siteDomain in
      if d = [] then s else if s = [] then d else s @ ''@'' @ d)"

definition h_now :: "widget_env \<Rightarrow> ('b, 'w) gateway \<Rightarrow> time \<times> ('b, 'w) gateway" where
  "h_now W g = (widget_clock W (gw_tick g), g\<lparr>gw_tick := Suc (gw_tick g)\<rparr>)"

definition widget_claims :: "widget_env \<Rightarrow> site_pb \<Rightarrow> string \<Rightarrow> time \<Rightarrow> widgetSessionClaims" where
  "widget_claims W site parentOrigin now =
     (let sessionDomain = normalizeHostLike W parentOrigin; siteID = TrimSpace (pbs_SiteId site) in
      \<lparr>ws_SiteID = siteID, ws_SiteDomain = sessionDomain, ws_ParentOrigin = normalizeOrigin W parentOrigin,
       ws_StorageScope = buildWidgetStorageScope W siteID sessionDomain,
       ws_IssuedAt = Unix now, ws_ExpiresAt = Unix (now + widgetSessionTTL)\<rparr>)"

definition issueWidgetSession ::
  "widget_env \<Rightarrow> site_pb \<Rightarrow> string \<Rightarrow> (('b, 'w) gateway, string, string \<times> widgetSessionClaims) eff" where
  "issueWidgetSession W site parentOrigin g =
     (case h_now W g of
        (now, g1) \<Rightarrow>
          if normalizeHostLike W parentOrigin = [] then (Inl ''parent_origin is required'', g1)
          else case signWidgetSessionToken W (widget_claims W site parentOrigin now) (pbs_WidgetKey site) of
              Inl err \<Rightarrow> (Inl err, g1)
            | Inr token \<Rightarrow> (Inr (token, widget_claims W site parentOrigin now), g1))"

definition requireWidgetSession :: "widget_env \<Rightarrow> 'a http_request \<Rightarrow> site_pb \<Rightarrow> ('b, 'w, unit) handler" where
  "requireWidgetSession W c site g =
     (let token = TrimSpace (WidgetSession c) in
      if token = [] then (Inl (abortForbidden c ''widget session is required''), g)
      else case h_now W g of
          (now, g1) \<Rightarrow>
            (case validateWidgetSessionToken W token (pbs_WidgetKey site) now of
               Inl err \<Rightarrow> (Inl (abortForbidden c ''invalid widget session''), g1)
             | Inr claims \<Rightarrow>
                 if ws_SiteID claims \<noteq> TrimSpace (pbs_SiteId site)
                    \<or> \<not> matchesAnySiteDomain W (allowedSiteDomains W site) (ws_SiteDomain claims)
                 then (Inl (abortForbidden c ''invalid widget session''), g1)
                 else (Inr (), g1)))"

section \<open>The page\<close>

text \<open>\<^verbatim>\<open>strings.Replace(s, old, new, 1)\<close>.\<close>

fun replace_first :: "string \<Rightarrow> string \<Rightarrow> string \<Rightarrow> string" where
  "replace_first s old new =
     (if HasPrefix s old then new @ drop (length old) s
      else case s of [] \<Rightarrow> [] | c # cs \<Rightarrow> c # replace_first cs old new)"

declare replace_first.simps [simp del]

definition widget_bootstrap :: "string \<Rightarrow> string \<Rightarrow> string" where
  "widget_bootstrap sessionToken storageScope =
     ''<script>window.__INLINECHAT_WIDGET_SESSION__='' @ json_text (TrimSpace sessionToken)
     @ '';window.__INLINECHAT_WIDGET_SCOPE__='' @ json_text (TrimSpace storageScope) @ '';</script>''"

definition buildWidgetIndexHTML :: "string \<Rightarrow> string \<Rightarrow> string \<Rightarrow> string" where
  "buildWidgetIndexHTML page sessionToken storageScope =
     (let bootstrap = widget_bootstrap sessionToken storageScope; q = [CHR 0x22];
          target = ''<script src='' @ q @ ''/app/widget/app.js'' @ q @ '' defer></script>''
      in if Contains page target
         then replace_first page target (bootstrap @ [CHR 0x0A] @ ''    '' @ target)
         else if Contains page ''</body>''
         then replace_first page ''</body>'' (''    '' @ bootstrap @ [CHR 0x0A] @ ''  </body>'')
         else page @ bootstrap)"

definition text_answer :: "nat \<Rightarrow> string \<Rightarrow> http_response" where
  "text_answer status t = \<lparr>rsp_status = status, rsp_body = BodyText t\<rparr>"

definition ServeWidgetApp :: "('b, 'w) HTTPHandler \<Rightarrow> widget_env \<Rightarrow> unit http_request \<Rightarrow> ('b, 'w, http_response) handler" where
  "ServeWidgetApp h W c =
     (let siteID = TrimSpace (Query c ''site_id'') in
      if widgetIndexHTML h = [] then fail (text_answer 503 ''widget app unavailable'')
      else if siteID = [] then fail (text_answer 400 ''site_id is required'')
      else attempt (fetchSiteBySiteID h siteID) (\<lambda>r. case r of
          Inl err \<Rightarrow> fail (if map_option fst err = Some NotFound then text_answer 400 ''invalid site_id''
                          else handleGRPCError c err)
        | Inr site \<Rightarrow>
            if TrimSpace (ToLower (pbs_Status site)) \<noteq> ''active'' then fail (text_answer 409 ''site is not active'')
            else case validateWidgetRequestSource W (allowedSiteDomains W site) (Query c ''parent_origin'') (Referer c) (Origin c) of
                Inl err \<Rightarrow> fail (text_answer 403 err)
              | Inr parentOrigin \<Rightarrow>
                  attempt (issueWidgetSession W site parentOrigin) (\<lambda>s. case s of
                      Inl err \<Rightarrow> fail (text_answer 500 ''failed to initialize widget'')
                    | Inr (sessionToken, claims) \<Rightarrow>
                        ok \<lparr>rsp_status = 200, rsp_body = BodyHTML
                              (buildWidgetIndexHTML (widgetIndexHTML h) sessionToken (ws_StorageScope claims))\<rparr>)))"

end
