(* ===== verification/Gateway_Upstream.thy ===== *)
theory Gateway_Upstream
  imports Gateway_Core
begin

text \<open>
  What is behind the gateway: the gRPC servers of chat-service, auth-service and admin-service as the
  other theories model them, reached over a network that may lose a call or its answer, and the clients
  of the gateway (\<^verbatim>\<open>services/gateway-service/internal/grpcclient/dynamic_clients.go\<close>), which find the
  servers by a resolver, reconnect, and repeat a call once.
\<close>

section \<open>The services\<close>

record backend =
  be_chat :: world
  be_identity :: identity_world
  be_tick :: nat

text \<open>\<open>net_fault\<close> says whether a call fails, and then also whether the server ran it all the same.\<close>

record backend_env =
  chat_env :: env
  chat_server :: chat_service
  id_env :: identity_env
  auth_server :: auth_service
  adm_server :: admin_server
  net_fault :: "nat \<Rightarrow> (bool \<times> rpc_error) option"

definition on_chat :: "(world, 'e, 'a) eff \<Rightarrow> (backend, 'e, 'a) eff" where
  "on_chat m b = (case m (be_chat b) of (r, w) \<Rightarrow> (r, b\<lparr>be_chat := w\<rparr>))"

definition on_identity :: "(identity_world, 'e, 'a) eff \<Rightarrow> (backend, 'e, 'a) eff" where
  "on_identity m b = (case m (be_identity b) of (r, w) \<Rightarrow> (r, b\<lparr>be_identity := w\<rparr>))"

definition net_call :: "backend_env \<Rightarrow> (backend, grpc_error, 'a) eff \<Rightarrow> (backend, 'a) rpc" where
  "net_call B m b =
     (let b1 = b\<lparr>be_tick := Suc (be_tick b)\<rparr> in
      case net_fault B (be_tick b) of
        None \<Rightarrow> (case m b1 of (Inl err, b2) \<Rightarrow> (Inl (Some err), b2) | (Inr a, b2) \<Rightarrow> (Inr a, b2))
      | Some (executed, err) \<Rightarrow> (Inl err, if executed then snd (m b1) else b1))"

definition backend_clients :: "backend_env \<Rightarrow> backend clients" where
  "backend_clients B =
     (let e = chat_env B; s = chat_server B;
          ie = id_env B; srv = adm_server B
      in \<lparr>Auth_Login = (\<lambda>q. net_call B (on_identity (rpc_Login ie (auth_server B) q))),
          Auth_Me = (\<lambda>a. net_call B (on_identity (rpc_Me ie (auth_server B) a))),
          Admin_CreateSite = (\<lambda>a q. net_call B (on_identity (rpc_CreateSite ie srv a q))),
          Admin_UpdateSite = (\<lambda>a q. net_call B (on_identity (rpc_UpdateSite ie srv a q))),
          Admin_ListSites = (\<lambda>a l k. net_call B (on_identity (rpc_ListSites ie srv a l k))),
          Admin_UpdateSiteStatus = (\<lambda>a i st. net_call B (on_identity (rpc_UpdateSiteStatus ie srv a i st))),
          Admin_RotateSiteWidgetKey = (\<lambda>a i. net_call B (on_identity (rpc_RotateSiteWidgetKey ie srv a i))),
          Admin_GetSiteAIConfig = (\<lambda>i. net_call B (on_identity (rpc_GetSiteAIConfig ie i))),
          Admin_UpdateSiteAIConfig = (\<lambda>a i en m. net_call B (on_identity (rpc_UpdateSiteAIConfig ie srv a i en m))),
          Admin_GetSiteBySiteID = (\<lambda>i. net_call B (on_identity (rpc_GetSiteBySiteID ie i))),
          Admin_GetSiteByDomain = (\<lambda>d. net_call B (on_identity (rpc_GetSiteByDomain ie d))),
          Admin_CreateAgent = (\<lambda>a q. net_call B (on_identity (rpc_CreateAgent ie srv a q))),
          Admin_GetAgentByID = (\<lambda>i. net_call B (on_identity (rpc_GetAgentByID ie i))),
          Admin_ListAgents = (\<lambda>a l k. net_call B (on_identity (rpc_ListAgents ie srv a l k))),
          Admin_UpdateAgentStatus = (\<lambda>a i st. net_call B (on_identity (rpc_UpdateAgentStatus ie srv a i st))),
          Admin_ResetAgentPassword = (\<lambda>a i p. net_call B (on_identity (rpc_ResetAgentPassword ie srv a i p))),
          Admin_ForceAgentLogout = (\<lambda>a i. net_call B (on_identity (rpc_ForceAgentLogout ie srv a i))),
          Admin_ListAuditLogs = (\<lambda>a q. net_call B (on_identity (rpc_ListAuditLogs ie srv a q))),
          Chat_CreateConversation = (\<lambda>q. net_call B (on_chat (gw_CreateConversation e s q))),
          Chat_ListConversations = (\<lambda>q. net_call B (on_chat (gw_ListConversations e q))),
          Chat_GetConversation = (\<lambda>i. net_call B (on_chat (gw_GetConversation e i))),
          Chat_CreateMessage = (\<lambda>q. net_call B (on_chat (gw_CreateMessage e s q))),
          Chat_ListMessages = (\<lambda>i l k. net_call B (on_chat (gw_ListMessages e i l k))),
          Chat_MarkMessagesRead = (\<lambda>q. net_call B (on_chat (gw_MarkMessagesRead e s q))),
          Chat_ClaimConversation = (\<lambda>q. net_call B (on_chat (gw_ClaimConversation e q))),
          Chat_TransferConversation = (\<lambda>q. net_call B (on_chat (gw_TransferConversation e s q))),
          Chat_ConfirmTransferConversation = (\<lambda>q. net_call B (on_chat (gw_ConfirmTransferConversation e s q))),
          Chat_RejectTransferConversation = (\<lambda>q. net_call B (on_chat (gw_RejectTransferConversation e s q))),
          Chat_CloseConversation = (\<lambda>q. net_call B (on_chat (gw_CloseConversation e s q)))\<rparr>)"

section \<open>Connections\<close>

text \<open>A connection is the address it was dialled to; \<open>lastResolvedAt\<close> is \<open>None\<close> for the zero time.\<close>

record serviceConn =
  sc_serviceName :: string
  sc_protocol :: string
  sc_refreshInterval :: time
  sc_conn :: "string option"
  sc_target :: string
  sc_lastResolvedAt :: "time option"

datatype upstream_name = chat_upstream | auth_upstream | admin_upstream

record 'w dyn =
  conns :: "upstream_name \<Rightarrow> serviceConn"
  dyn_tick :: nat
  behind :: 'w

record dyn_env =
  dyn_clock :: "nat \<Rightarrow> time"
  Resolve :: "nat \<Rightarrow> string \<Rightarrow> string \<Rightarrow> rpc_error + string"
  dial_fault :: "nat \<Rightarrow> string \<Rightarrow> rpc_error option"

definition set_conn :: "upstream_name \<Rightarrow> serviceConn \<Rightarrow> 'w dyn \<Rightarrow> 'w dyn" where
  "set_conn u sc d = d\<lparr>conns := (conns d)(u := sc)\<rparr>"

definition dyn_now :: "dyn_env \<Rightarrow> 'w dyn \<Rightarrow> time \<times> 'w dyn" where
  "dyn_now D d = (dyn_clock D (dyn_tick d), d\<lparr>dyn_tick := Suc (dyn_tick d)\<rparr>)"

definition dial :: "dyn_env \<Rightarrow> string \<Rightarrow> ('w dyn, rpc_error, string) eff" where
  "dial D target d =
     (let d1 = d\<lparr>dyn_tick := Suc (dyn_tick d)\<rparr> in
      case dial_fault D (dyn_tick d) target of None \<Rightarrow> (Inr target, d1) | Some err \<Rightarrow> (Inl err, d1))"

definition resolve_target :: "dyn_env \<Rightarrow> upstream_name \<Rightarrow> ('w dyn, rpc_error, string) eff" where
  "resolve_target D u d =
     (let sc = conns d u; d1 = d\<lparr>dyn_tick := Suc (dyn_tick d)\<rparr> in
      case Resolve D (dyn_tick d) (sc_serviceName sc) (sc_protocol sc) of
        Inl err \<Rightarrow> (Inl err, d1)
      | Inr raw \<Rightarrow> if TrimSpace raw = [] then (Inl None, d1) else (Inr (TrimSpace raw), d1))"

definition touch_conn :: "dyn_env \<Rightarrow> upstream_name \<Rightarrow> (serviceConn \<Rightarrow> serviceConn) \<Rightarrow> ('w dyn, rpc_error, unit) eff" where
  "touch_conn D u f d =
     (case dyn_now D d of (now, d1) \<Rightarrow> (Inr (), set_conn u ((f (conns d1 u))\<lparr>sc_lastResolvedAt := Some now\<rparr>) d1))"

text \<open>Whether the last resolution is recent enough, by the clock.\<close>

definition still_fresh :: "dyn_env \<Rightarrow> upstream_name \<Rightarrow> bool \<Rightarrow> ('w dyn, rpc_error, bool) eff" where
  "still_fresh D u force d =
     (let sc = conns d u in
      if force \<or> sc_conn sc = None then (Inr False, d)
      else case dyn_now D d of
          (now, d1) \<Rightarrow>
            (Inr (case sc_lastResolvedAt sc of None \<Rightarrow> False | Some t \<Rightarrow> now - t < sc_refreshInterval sc), d1))"

definition current_conn :: "upstream_name \<Rightarrow> ('w dyn, rpc_error, string option) eff" where
  "current_conn u d = (Inr (sc_conn (conns d u)), d)"

definition refresh :: "dyn_env \<Rightarrow> upstream_name \<Rightarrow> bool \<Rightarrow> ('w dyn, rpc_error, unit) eff" where
  "refresh D u force =
     andThen (still_fresh D u force) (\<lambda>fresh.
       if fresh then ok ()
       else andThen (resolve_target D u) (\<lambda>target. \<lambda>d.
         if \<not> force \<and> sc_conn (conns d u) \<noteq> None \<and> sc_target (conns d u) = target
         then touch_conn D u id d
         else andThen (dial D target) (\<lambda>nextConn.
           touch_conn D u (\<lambda>sc. sc\<lparr>sc_conn := Some nextConn, sc_target := target\<rparr>)) d))"

definition connForCall :: "dyn_env \<Rightarrow> upstream_name \<Rightarrow> ('w dyn, rpc_error, string) eff" where
  "connForCall D u =
     andThen (current_conn u) (\<lambda>existing.
     attempt (refresh D u False) (\<lambda>r. case r of
         Inl err \<Rightarrow> (case existing of Some conn \<Rightarrow> ok conn | None \<Rightarrow> fail err)
       | Inr _ \<Rightarrow>
           andThen (current_conn u) (\<lambda>c. case c of None \<Rightarrow> fail None | Some conn \<Rightarrow> ok conn)))"

definition newServiceConn :: "dyn_env \<Rightarrow> upstream_name \<Rightarrow> string \<Rightarrow> string \<Rightarrow> ('w dyn, rpc_error, unit) eff" where
  "newServiceConn D u serviceName protocol d =
     refresh D u True (set_conn u
       \<lparr>sc_serviceName = serviceName, sc_protocol = protocol, sc_refreshInterval = 5 * lim_Second,
        sc_conn = None, sc_target = [], sc_lastResolvedAt = None\<rparr> d)"

definition Close_conn :: "upstream_name \<Rightarrow> ('w dyn, rpc_error, unit) eff" where
  "Close_conn u d =
     (Inr (), set_conn u ((conns d u)\<lparr>sc_conn := None, sc_target := [], sc_lastResolvedAt := None\<rparr>) d)"

text \<open>The three connections are made in turn; those made before a failure are closed.\<close>

definition NewDynamic :: "dyn_env \<Rightarrow> string \<Rightarrow> string \<Rightarrow> string \<Rightarrow> ('w dyn, rpc_error, unit) eff" where
  "NewDynamic D chatName authName adminName =
     (let chat = TrimSpace chatName; auth = TrimSpace authName; admin = TrimSpace adminName in
      if chat = [] \<or> auth = [] \<or> admin = [] then fail None
      else andThen (newServiceConn D chat_upstream chat ''grpc'') (\<lambda>_.
        attempt (newServiceConn D auth_upstream auth ''grpc'') (\<lambda>r1. case r1 of
            Inl err \<Rightarrow> andThen (Close_conn chat_upstream) (\<lambda>_. fail err)
          | Inr _ \<Rightarrow>
              attempt (newServiceConn D admin_upstream admin ''grpc'') (\<lambda>r2. case r2 of
                  Inl err \<Rightarrow> andThen (Close_conn chat_upstream) (\<lambda>_. andThen (Close_conn auth_upstream) (\<lambda>_. fail err))
                | Inr _ \<Rightarrow> ok ()))))"

definition isRetryableRPCError :: "rpc_error \<Rightarrow> bool" where
  "isRetryableRPCError err \<longleftrightarrow>
     (case err of None \<Rightarrow> False | Some (code, _) \<Rightarrow> code = Unavailable \<or> code = DeadlineExceeded)"

definition invoke :: "('w, 'a) rpc \<Rightarrow> ('w dyn, 'a) rpc" where
  "invoke m d = (case m (behind d) of (r, w) \<Rightarrow> (r, d\<lparr>behind := w\<rparr>))"

definition invokeWithRetry :: "dyn_env \<Rightarrow> upstream_name \<Rightarrow> ('w, 'a) rpc \<Rightarrow> ('w dyn, 'a) rpc" where
  "invokeWithRetry D u m =
     andThen (connForCall D u) (\<lambda>_.
     attempt (invoke m) (\<lambda>r. case r of
         Inr resp \<Rightarrow> ok resp
       | Inl err \<Rightarrow>
           if \<not> isRetryableRPCError err then fail err
           else attempt (refresh D u True) (\<lambda>s. case s of
               Inl refreshErr \<Rightarrow> fail err
             | Inr _ \<Rightarrow> andThen (current_conn u) (\<lambda>c. case c of None \<Rightarrow> fail err | Some _ \<Rightarrow> invoke m))))"

definition dynamicChatClient :: "dyn_env \<Rightarrow> ('w, 'a) rpc \<Rightarrow> ('w dyn, 'a) rpc" where
  "dynamicChatClient D m = invokeWithRetry D chat_upstream m"

definition dynamicAuthClient :: "dyn_env \<Rightarrow> ('w, 'a) rpc \<Rightarrow> ('w dyn, 'a) rpc" where
  "dynamicAuthClient D m = invokeWithRetry D auth_upstream m"

definition dynamicAdminClient :: "dyn_env \<Rightarrow> ('w, 'a) rpc \<Rightarrow> ('w dyn, 'a) rpc" where
  "dynamicAdminClient D m = invokeWithRetry D admin_upstream m"

definition dynamic_clients :: "dyn_env \<Rightarrow> 'w clients \<Rightarrow> 'w dyn clients" where
  "dynamic_clients D cs =
     \<lparr>Auth_Login = (\<lambda>q. dynamicAuthClient D (Auth_Login cs q)),
      Auth_Me = (\<lambda>a. dynamicAuthClient D (Auth_Me cs a)),
      Admin_CreateSite = (\<lambda>a q. dynamicAdminClient D (Admin_CreateSite cs a q)),
      Admin_UpdateSite = (\<lambda>a q. dynamicAdminClient D (Admin_UpdateSite cs a q)),
      Admin_ListSites = (\<lambda>a l k. dynamicAdminClient D (Admin_ListSites cs a l k)),
      Admin_UpdateSiteStatus = (\<lambda>a i st. dynamicAdminClient D (Admin_UpdateSiteStatus cs a i st)),
      Admin_RotateSiteWidgetKey = (\<lambda>a i. dynamicAdminClient D (Admin_RotateSiteWidgetKey cs a i)),
      Admin_GetSiteAIConfig = (\<lambda>i. dynamicAdminClient D (Admin_GetSiteAIConfig cs i)),
      Admin_UpdateSiteAIConfig = (\<lambda>a i en m. dynamicAdminClient D (Admin_UpdateSiteAIConfig cs a i en m)),
      Admin_GetSiteBySiteID = (\<lambda>i. dynamicAdminClient D (Admin_GetSiteBySiteID cs i)),
      Admin_GetSiteByDomain = (\<lambda>i. dynamicAdminClient D (Admin_GetSiteByDomain cs i)),
      Admin_CreateAgent = (\<lambda>a q. dynamicAdminClient D (Admin_CreateAgent cs a q)),
      Admin_GetAgentByID = (\<lambda>i. dynamicAdminClient D (Admin_GetAgentByID cs i)),
      Admin_ListAgents = (\<lambda>a l k. dynamicAdminClient D (Admin_ListAgents cs a l k)),
      Admin_UpdateAgentStatus = (\<lambda>a i st. dynamicAdminClient D (Admin_UpdateAgentStatus cs a i st)),
      Admin_ResetAgentPassword = (\<lambda>a i p. dynamicAdminClient D (Admin_ResetAgentPassword cs a i p)),
      Admin_ForceAgentLogout = (\<lambda>a i. dynamicAdminClient D (Admin_ForceAgentLogout cs a i)),
      Admin_ListAuditLogs = (\<lambda>a q. dynamicAdminClient D (Admin_ListAuditLogs cs a q)),
      Chat_CreateConversation = (\<lambda>q. dynamicChatClient D (Chat_CreateConversation cs q)),
      Chat_ListConversations = (\<lambda>q. dynamicChatClient D (Chat_ListConversations cs q)),
      Chat_GetConversation = (\<lambda>i. dynamicChatClient D (Chat_GetConversation cs i)),
      Chat_CreateMessage = (\<lambda>q. dynamicChatClient D (Chat_CreateMessage cs q)),
      Chat_ListMessages = (\<lambda>i l k. dynamicChatClient D (Chat_ListMessages cs i l k)),
      Chat_MarkMessagesRead = (\<lambda>q. dynamicChatClient D (Chat_MarkMessagesRead cs q)),
      Chat_ClaimConversation = (\<lambda>q. dynamicChatClient D (Chat_ClaimConversation cs q)),
      Chat_TransferConversation = (\<lambda>q. dynamicChatClient D (Chat_TransferConversation cs q)),
      Chat_ConfirmTransferConversation = (\<lambda>q. dynamicChatClient D (Chat_ConfirmTransferConversation cs q)),
      Chat_RejectTransferConversation = (\<lambda>q. dynamicChatClient D (Chat_RejectTransferConversation cs q)),
      Chat_CloseConversation = (\<lambda>q. dynamicChatClient D (Chat_CloseConversation cs q))\<rparr>"

end
