(* ===== verification/Chat_Frames.thy ===== *)
theory Chat_Frames
  imports Chat_Api
begin

text \<open>
  What an operation of chat-service leaves alone: with \<open>leaves S\<close>, every conversation with an id outside
  \<open>S\<close> keeps its row and its messages.  The operations on a conversation leave all others; the creation of
  a conversation and the reads leave all.
\<close>

definition leaves :: "uint64 set \<Rightarrow> world \<Rightarrow> world \<Rightarrow> bool" where
  "leaves S w w' \<longleftrightarrow>
     (\<forall>i c. i \<notin> S \<longrightarrow> by_id conv_ID i (conversations (db w)) = Some c \<longrightarrow>
        by_id conv_ID i (conversations (db w')) = Some c
        \<and> filter (\<lambda>m. msg_ConversationID m = i) (messages (db w')) = filter (\<lambda>m. msg_ConversationID m = i) (messages (db w)))"

lemma leaves_refl [simp]: "leaves S w w"
  by (simp add: leaves_def)

lemma leaves_trans: "leaves S w w1 \<Longrightarrow> leaves S w1 w2 \<Longrightarrow> leaves S w w2"
  by (simp add: leaves_def)

lemma leaves_trans3: "leaves S w w1 \<Longrightarrow> leaves S w1 w2 \<Longrightarrow> leaves S w2 w3 \<Longrightarrow> leaves S w w3"
  by (simp add: leaves_def)

lemma leaves_same: "conversations (db w') = conversations (db w) \<Longrightarrow> messages (db w') = messages (db w) \<Longrightarrow> leaves S w w'"
  by (simp add: leaves_def)

lemma leaves_mono: "leaves S w w' \<Longrightarrow> S \<subseteq> T \<Longrightarrow> leaves T w w'"
  unfolding leaves_def by blast

lemma leaves_db: "db v = db w \<Longrightarrow> leaves S v w' = leaves S w w'" "db v' = db w' \<Longrightarrow> leaves S w v' = leaves S w w'"
  by (simp_all add: leaves_def)

lemma leaves_ticks: "only_ticks w w' \<Longrightarrow> leaves S w w'"
  by (rule leaves_same) simp_all

section \<open>Messages\<close>

lemma Create_message_leaves:
  assumes "Create_message e m w = (r, w')"
  shows "leaves {msg_ConversationID m} w w'"
  using assms
proof (cases rule: Create_message_cases)
  case (stored row v c t)
  then show ?thesis by (simp add: leaves_def)
qed (simp add: leaves_ticks)

lemma emit_leaves:
  "emitMessageCreated e s m w = (r, w') \<Longrightarrow> leaves S w w'"
  "emitMessageStatusRange e s i t k st w = (r, w') \<Longrightarrow> leaves S w w'"
  "emitConversationClosed e s i w = (r, w') \<Longrightarrow> leaves S w w'"
  by (auto dest!: emit_tables intro: leaves_same)

lemma filter_update_rows:
  "(\<And>m. P m \<Longrightarrow> \<not> Q m) \<Longrightarrow> (\<And>m. P m \<Longrightarrow> \<not> Q (f m)) \<Longrightarrow> filter Q (update_rows P f ms) = filter Q ms"
  by (induction ms) (auto simp: update_rows_def)

lemma MarkRead_leaves:
  assumes "MarkReadByConversationAndSender e i t lastID w = (r, w')"
  shows "leaves {i} w w'"
proof (cases "db_fault e (tick w)")
  case None
  let ?P = "\<lambda>m. msg_ConversationID m = i \<and> sql_eq e (msg_SenderType m) t \<and> msg_ID m \<le> lastID \<and> msg_Status m \<noteq> ''read''"
  from assms None show ?thesis
    by (auto simp: MarkReadByConversationAndSender_def db_call_def Now_def Let_def leaves_def advance_def
        unread_by_def intro!: filter_update_rows split: if_splits)
next
  case (Some err)
  with assms show ?thesis
    by (auto simp: MarkReadByConversationAndSender_def db_call_def leaves_def advance_def)
qed

lemma withEventTransaction_leaves:
  assumes "withEventTransaction e s fn w = (r, w')" and "\<And>w r w'. fn w = (r, w') \<Longrightarrow> leaves S w w'"
  shows "leaves S w w'"
  using assms(1)
proof (rule withEventTransaction_db)
  assume "db w' = db w"
  then show ?thesis by (simp add: leaves_same)
next
  fix w1 w2 q assume "db w1 = db w" "fn w1 = (q, w2)" "db w' = db w2"
  with assms(2) [of w1 q w2] show ?thesis by (simp add: leaves_def)
qed

lemma insert_message_leaves:
  assumes "insert_message e s inp sid w = (r, w')"
  shows "leaves {cmi_ConversationID inp} w w'"
proof -
  obtain r1 w1 where 1: "Create_message e (new_message inp sid) w = (r1, w1)" by fastforce
  have l1: "leaves {cmi_ConversationID inp} w w1"
    using Create_message_leaves [OF 1] by (simp add: new_message_def)
  have read: "GetByClientMsgID e i k v = (q, v') \<Longrightarrow> leaves {cmi_ConversationID inp} v v'" for i k v q v'
    by (rule leaves_ticks) (rule repository_reads)
  have "leaves {cmi_ConversationID inp} w1 w'"
    using assms 1
    by (auto simp: insert_message_def split: sum.splits if_splits prod.splits
        dest: read emit_leaves(1) [where S = "{cmi_ConversationID inp}"])
  with l1 show ?thesis by (rule leaves_trans)
qed

lemma create_message_body_leaves:
  assumes "create_message_body e s inp w = (r, w')"
  shows "leaves {cmi_ConversationID inp} w w'"
  using assms
proof (cases rule: create_message_body_cases)
  case read_only
  then show ?thesis by (simp add: leaves_ticks)
next
  case (inserting c sid w2 err w1)
  from leaves_trans [OF leaves_ticks [OF inserting(4)] insert_message_leaves [OF inserting(7)]] show ?thesis .
qed

lemma CreateMessage_leaves:
  assumes "CreateMessage e s inp w = (r, w')"
  shows "leaves {cmi_ConversationID inp} w w'"
proof -
  obtain r1 w1 where 1: "withEventTransaction e s (create_message_body e s inp) w = (r1, w1)" by fastforce
  have "leaves {cmi_ConversationID inp} w w1" by (rule withEventTransaction_leaves [OF 1 create_message_body_leaves])
  with assms 1 show ?thesis
    by (auto simp: CreateMessage_def leaves_def split: if_splits sum.splits)
qed

lemma mark_targets_leaves: "mark_targets e s i lastID ts n w = (r, w') \<Longrightarrow> leaves {i} w w'"
proof (induction ts arbitrary: n w)
  case (Cons t ts)
  obtain r1 w1 where 1: "MarkReadByConversationAndSender e i t lastID w = (r1, w1)" by fastforce
  obtain r2 w2 where 2: "emitMessageStatusRange e s i t lastID ''read'' w1 = (r2, w2)" by fastforce
  have e1: "leaves {i} w w1" by (rule MarkRead_leaves [OF 1])
  have e2: "leaves {i} w w2" by (rule leaves_trans [OF e1 emit_leaves(2) [OF 2]])
  from Cons.prems 1 2 e1 e2 show ?case
    by (auto intro: leaves_trans dest!: Cons.IH split: sum.splits if_splits)
qed simp

lemma mark_read_body_leaves: "mark_read_body e s inp t w = (r, w') \<Longrightarrow> leaves {mri_ConversationID inp} w w'"
  by (auto simp: mark_read_body_def split: prod.splits sum.splits
      intro: leaves_ticks leaves_trans dest!: repository_reads(1) mark_targets_leaves)

lemma MarkMessagesRead_leaves: "MarkMessagesRead e s inp w = (r, w') \<Longrightarrow> leaves {mri_ConversationID inp} w w'"
  by (auto simp: MarkMessagesRead_def split: if_splits sum.splits
      intro: withEventTransaction_leaves mark_read_body_leaves)

section \<open>Rows\<close>

lemma by_id_replace_elsewhere: "i \<noteq> conv_ID c \<Longrightarrow> by_id conv_ID i (replace_row c cs) = by_id conv_ID i cs"
  by (induction cs) (auto simp: by_id_def)

lemma publishSystemMessage_leaves:
  assumes "publishSystemMessage e s i content w = (r, w')"
  shows "leaves {i} w w'"
proof -
  have now: "Now e w = (t, v) \<Longrightarrow> leaves {i} w v" for t v by (rule leaves_ticks) (rule only_ticks_Now)
  show ?thesis
    using assms
    by (auto simp: publishSystemMessage_def split: if_splits prod.splits sum.splits
        dest!: now Create_message_leaves emit_leaves(1) [where S = "{i}"] intro: leaves_trans leaves_trans3)
qed

context row_mutation
begin

lemma Mutate_leaves:
  assumes "Mutate e inTx i m w = (r, w')"
  shows "leaves {i} w w'"
  using assms
proof (cases rule: Mutate_db)
  case same
  then show ?thesis by (simp add: leaves_same)
next
  case (changed c c0 a t w1 w2)
  have "conv_ID c = i" using changed(1) by (auto dest: by_id_Some)
  moreover have "conv_ID c0 = conv_ID c" using identity [OF changed(3)] by (simp add: same_identity_def)
  ultimately show ?thesis using changed(5) by (simp add: leaves_def by_id_replace_elsewhere)
qed

lemma mutate_and_emit_leaves:
  assumes run: "mutate_and_emit e s i m after w = (r, w')"
    and after: "\<And>c a w r w'. conv_ID c = i \<Longrightarrow> after c a w = (r, w') \<Longrightarrow> leaves {i} w w'"
  shows "leaves {i} w w'"
proof -
  obtain r1 w1 where 1: "Mutate e (eventOutboxEnabled s) i m w = (r1, w1)" by fastforce
  then have e1: "leaves {i} w w1" by (rule Mutate_leaves)
  show ?thesis
  proof (cases "\<exists>c a. r1 = Inr (c, True, a)")
    case False
    with run 1 e1 show ?thesis by (auto simp: mutate_and_emit_def split: sum.splits if_splits)
  next
    case True
    then obtain c a where r1: "r1 = Inr (c, True, a)" by blast
    with 1 have c: "conv_ID c = i" by (auto elim!: Mutate_changed)
    obtain r2 w2 where 2: "after c a w1 = (r2, w2)" by fastforce
    have "w' = w2" using run 1 r1 2 by (auto simp: mutate_and_emit_def split: sum.splits)
    with leaves_trans [OF e1 after [OF c 2]] show ?thesis by simp
  qed
qed

end

lemma ClaimConversation_leaves: "ClaimConversation e inp w = (r, w') \<Longrightarrow> leaves {cli_ConversationID inp} w w'"
  by (auto simp: ClaimConversation_def split: if_splits sum.splits prod.splits dest: claim.Mutate_leaves)

lemma TransferConversation_leaves:
  "TransferConversation e s inp w = (r, w') \<Longrightarrow> leaves {act_ConversationID inp} w w'"
  by (auto simp: TransferConversation_def publishTransferSystemMessage_def split: if_splits sum.splits
      elim!: withEventTransaction_leaves transfer.mutate_and_emit_leaves dest: publishSystemMessage_leaves)

lemma ConfirmTransferConversation_leaves:
  "ConfirmTransferConversation e s inp w = (r, w') \<Longrightarrow> leaves {act_ConversationID inp} w w'"
  by (auto simp: ConfirmTransferConversation_def publishTransferSystemMessage_def split: if_splits sum.splits
      elim!: withEventTransaction_leaves confirm.mutate_and_emit_leaves dest: publishSystemMessage_leaves)

lemma RejectTransferConversation_leaves:
  "RejectTransferConversation e s inp w = (r, w') \<Longrightarrow> leaves {act_ConversationID inp} w w'"
  by (auto simp: RejectTransferConversation_def split: if_splits sum.splits
      elim!: withEventTransaction_leaves reject.mutate_and_emit_leaves dest: publishSystemMessage_leaves)

lemma Cancel_leaves [simp]: "leaves S w (Cancel i w') = leaves S w w'"
  by (simp add: leaves_def Cancel_def split: option.split)

lemma CloseConversation_leaves:
  assumes "CloseConversation e s inp w = (r, w')"
  shows "leaves {act_ConversationID inp} w w'"
proof -
  have "leaves {act_ConversationID inp} w v"
    if "withEventTransaction e s (mutate_and_emit e s (act_ConversationID inp)
       (timed e (close_mutation role (act_ActorAgentID inp))) (\<lambda>c _. emitConversationClosed e s (conv_ID c))) w = (q, v)"
    for role q v
    using that by (auto elim!: withEventTransaction_leaves close.mutate_and_emit_leaves dest: emit_leaves)
  with assms show ?thesis
    by (auto simp: CloseConversation_def split: if_splits sum.splits prod.splits)
qed

lemma by_id_append: "by_id key i (rs @ ts) = (case by_id key i rs of None \<Rightarrow> by_id key i ts | Some r \<Rightarrow> Some r)"
  by (induction rs) (auto simp: by_id_def)

lemma Create_conversation_leaves: "Create_conversation e c w = (r, w') \<Longrightarrow> leaves S w w'"
  by (auto simp: Create_conversation_def db_call_def Now_def Let_def leaves_def by_id_append advance_def split: option.splits)

lemma CreateConversation_leaves: "CreateConversation e s inp w = (r, w') \<Longrightarrow> leaves S w w'"
proof -
  assume run: "CreateConversation e s inp w = (r, w')"
  let ?site = "TrimSpace (cci_SiteID inp)" and ?tok = "TrimSpace (cci_VisitorToken inp)"
  obtain b w1 where 1: "acquire_create_lock s (buildConversationCreateLockKey ?site ?tok) w = (b, w1)" by fastforce
  then have t1: "leaves S w w1" by (auto simp: acquire_create_lock_def split: option.splits intro!: leaves_ticks)
  obtain r2 w2 where 2: "GetLatestOpenBySiteVisitor e ?site ?tok w1 = (r2, w2)" by fastforce
  then have t2: "leaves S w w2" using leaves_trans [OF t1] repository_reads(2) leaves_ticks by blast
  from run 1 2 t1 t2 show ?thesis
    by (auto simp: CreateConversation_def Let_def intro: leaves_trans [OF t2] leaves_ticks Create_conversation_leaves
        split: if_splits option.splits sum.splits)
qed

end
