(* ===== verification/Gateway_Access.thy ===== *)
theory Gateway_Access
  imports Gateway_Chat Gateway_Widget Gateway_Upstream Chat_Frames
begin

text \<open>
  The chat routes of the gateway as one function of the request, and who can change what through them.
  The clients are described by the locale \<open>chat_upstreams\<close>: reads leave the conversations alone, an
  operation on a conversation leaves all others, and a conversation that is read is the one stored.  The
  locale is interpreted on the models of the servers behind the network, and again on the clients that
  reconnect and repeat calls.
\<close>

section \<open>The routes\<close>

datatype chat_request =
    POST_conversations "createConversationRequest http_request"
  | GET_conversations "unit http_request"
  | GET_conversation "unit http_request"
  | POST_messages "createMessageRequest http_request"
  | GET_messages "unit http_request"
  | POST_read "markMessagesReadRequest http_request"
  | POST_claim "unit http_request"
  | POST_transfer "transferConversationRequest http_request"
  | POST_transfer_confirm "unit http_request"
  | POST_transfer_reject "unit http_request"
  | POST_close "unit http_request"

fun serve_chat :: "('b, 'w) HTTPHandler \<Rightarrow> widget_env \<Rightarrow> chat_request \<Rightarrow> ('b, 'w, http_response) handler" where
  "serve_chat h W (POST_conversations c) = createConversation h (requireWidgetSession W c) c"
| "serve_chat h W (GET_conversations c) = listConversations h c"
| "serve_chat h W (GET_conversation c) = getConversation h c"
| "serve_chat h W (POST_messages c) = createMessage h c"
| "serve_chat h W (GET_messages c) = listMessages_gw h c"
| "serve_chat h W (POST_read c) = markMessagesRead_gw h c"
| "serve_chat h W (POST_claim c) = claimConversation h c"
| "serve_chat h W (POST_transfer c) = transferConversation h c"
| "serve_chat h W (POST_transfer_confirm c) = confirmTransferConversation h c"
| "serve_chat h W (POST_transfer_reject c) = rejectTransferConversation h c"
| "serve_chat h W (POST_close c) = closeConversation_gw h c"

text \<open>The credentials of a request: its bearer token, and the token of a visitor who changes something.\<close>

fun bearer_of :: "chat_request \<Rightarrow> string" where
  "bearer_of (POST_conversations c) = Authorization c"
| "bearer_of (GET_conversations c) = Authorization c"
| "bearer_of (GET_conversation c) = Authorization c"
| "bearer_of (POST_messages c) = Authorization c"
| "bearer_of (GET_messages c) = Authorization c"
| "bearer_of (POST_read c) = Authorization c"
| "bearer_of (POST_claim c) = Authorization c"
| "bearer_of (POST_transfer c) = Authorization c"
| "bearer_of (POST_transfer_confirm c) = Authorization c"
| "bearer_of (POST_transfer_reject c) = Authorization c"
| "bearer_of (POST_close c) = Authorization c"

fun visitor_of :: "chat_request \<Rightarrow> string option" where
  "visitor_of (POST_messages c) = (case req_body c of Inl err \<Rightarrow> None | Inr q \<Rightarrow> Some (TrimSpace (cmr_VisitorToken q)))"
| "visitor_of (POST_read c) = (case req_body c of Inl err \<Rightarrow> None | Inr q \<Rightarrow> Some (TrimSpace (mrr_VisitorToken q)))"
| "visitor_of r = None"

text \<open>Whom the bearer token names, when the request arrives.\<close>

definition asking :: "'w clients \<Rightarrow> 'w \<Rightarrow> string \<Rightarrow> me_response \<Rightarrow> bool" where
  "asking cs w bearer actor \<longleftrightarrow> fst (Auth_Me cs bearer w) = Inr actor"

definition may_touch :: "'w clients \<Rightarrow> 'w \<Rightarrow> chat_request \<Rightarrow> conversation \<Rightarrow> bool" where
  "may_touch cs w req c \<longleftrightarrow>
     visitor_of req = Some (conv_VisitorToken c)
     \<or> (\<exists>actor. asking cs w (bearer_of req) actor \<and> me_Role actor = ''agent''
           \<and> TrimSpace (conv_SiteID c) = TrimSpace (me_SiteId actor))"

section \<open>The contract of the clients\<close>

definition quiet :: "('w \<Rightarrow> world) \<Rightarrow> uint64 set \<Rightarrow> ('w, 'e, 'a) eff \<Rightarrow> bool" where
  "quiet chat S m \<longleftrightarrow> keeps (\<lambda>w w'. leaves S (chat w) (chat w')) m"

lemma quietD: "quiet chat S m \<Longrightarrow> m w = (r, w') \<Longrightarrow> leaves S (chat w) (chat w')"
  by (auto simp: quiet_def keeps_def)

locale chat_upstreams =
  fixes cs :: "'w clients" and chat :: "'w \<Rightarrow> world"
  assumes quiet_reads:
      "quiet chat {} (Auth_Me cs bearer)" "quiet chat {} (Admin_GetSiteBySiteID cs site)"
      "quiet chat {} (Admin_GetAgentByID cs i)" "quiet chat {} (Chat_GetConversation cs i)"
      "quiet chat {} (Chat_ListConversations cs q)" "quiet chat {} (Chat_ListMessages cs i n k)"
      "quiet chat {} (Chat_CreateConversation cs new)"
    and quiet_operations:
      "quiet chat {cmi_ConversationID m} (Chat_CreateMessage cs m)"
      "quiet chat {mri_ConversationID rd} (Chat_MarkMessagesRead cs rd)"
      "quiet chat {cli_ConversationID cl} (Chat_ClaimConversation cs cl)"
      "quiet chat {act_ConversationID tr} (Chat_TransferConversation cs tr)"
      "quiet chat {act_ConversationID ac} (Chat_ConfirmTransferConversation cs ac)"
      "quiet chat {act_ConversationID ac} (Chat_RejectTransferConversation cs ac)"
      "quiet chat {act_ConversationID ac} (Chat_CloseConversation cs ac)"
    and stored:
      "Chat_GetConversation cs i w = (Inr p, w') \<Longrightarrow> by_id conv_ID i (conversations (db (chat w))) = Some c
        \<Longrightarrow> p = toConversationPB c"
begin

abbreviation store :: "('b, 'w) gateway \<Rightarrow> world" where
  "store g \<equiv> chat (upstream g)"

abbreviation calm :: "uint64 set \<Rightarrow> (('b, 'w) gateway, 'e, 'a) eff \<Rightarrow> bool" where
  "calm S m \<equiv> quiet store S m"

lemma calm_preorder [simp]:
  "reflp (\<lambda>g g'. leaves S (store g) (store g'))" "transp (\<lambda>g g'. leaves S (store g) (store g'))"
  by (auto intro!: reflpI transpI intro: leaves_trans)

lemma calm_call: "quiet chat S m \<Longrightarrow> calm S (call m)"
  by (auto simp: quiet_def keeps_def call_def split: prod.splits)

lemma calm_map_error: "calm S m \<Longrightarrow> calm S (map_error f m)"
  unfolding quiet_def by (rule keeps_map_error)

lemma calm_call_or_abort: "quiet chat S m \<Longrightarrow> calm S (call_or_abort c m)"
  unfolding call_or_abort_def by (rule calm_map_error) (rule calm_call)

lemma limiter_Allow_upstream: "limiter_Allow h scope key g = (b, g') \<Longrightarrow> upstream g' = upstream g"
  by (auto simp: limiter_Allow_def split: option.splits prod.splits)

lemma allow_keys_upstream: "allow_keys h scope ks g = (b, g') \<Longrightarrow> upstream g' = upstream g"
  by (induction ks arbitrary: g) (auto split: prod.splits bool.splits dest: limiter_Allow_upstream)

lemma limit_by_upstream: "limit_by h scope ks r g = (x, g') \<Longrightarrow> upstream g' = upstream g"
  by (auto simp: limit_by_def split: prod.splits bool.splits dest: allow_keys_upstream)

lemma calm_limits:
  "calm S (applyVisitorRateLimit h c action site i tok)" "calm S (applyAgentRateLimit h c action i)"
  by (auto simp: quiet_def keeps_def applyVisitorRateLimit_def applyAgentRateLimit_def applyActorRateLimit_def
      dest: limit_by_upstream)

lemma calm_pure [simp]: "calm S (ok a)" "calm S (fail err)" "calm S (lift_result x)" "calm S (need r y)"
  unfolding need_def quiet_def by (auto intro!: keeps_intros split: option.split)

text \<open>
  One step of a handler that leaves the conversations alone: what follows may assume that it
  succeeded, and starts from a state with the same conversations.
\<close>

lemma guard:
  assumes "andThen m k g = (r, g')" "calm {} m" "leaves {} w (store g)"
    and "\<And>a g1. m g = (Inr a, g1) \<Longrightarrow> leaves {} w (store g1) \<Longrightarrow> k a g1 = (r, g') \<Longrightarrow> leaves S w (store g')"
  shows "leaves S w (store g')"
proof -
  obtain x g1 where m: "m g = (x, g1)" by fastforce
  have l: "leaves {} w (store g1)" using assms(2,3) m by (auto simp: quiet_def keeps_def intro: leaves_trans)
  show ?thesis
  proof (cases x)
    case (Inl err)
    with assms(1) m l show ?thesis by (auto simp: andThen_def intro: leaves_mono)
  next
    case (Inr a)
    with assms(1) m have "k a g1 = (r, g')" by (simp add: andThen_def)
    with m Inr l assms(4) show ?thesis by blast
  qed
qed

text \<open>The last step, on a conversation the caller may touch.\<close>

lemma finish:
  assumes "m g = (r, g')" "calm {i} m" "leaves {} w (store g)" "i \<in> S"
  shows "leaves S w (store g')"
proof -
  have "leaves {i} (store g) (store g')" using assms(1,2) by (auto simp: quiet_def keeps_def)
  then have "leaves S (store g) (store g')" by (rule leaves_mono) (simp add: assms(4))
  moreover have "leaves S w (store g)" using assms(3) by (rule leaves_mono) simp
  ultimately show ?thesis by (rule leaves_trans [rotated])
qed

lemma calm_andThen: "calm S m \<Longrightarrow> (\<And>a. calm S (k a)) \<Longrightarrow> calm S (andThen m k)"
  unfolding quiet_def by (rule keeps_andThen) simp_all

lemma calm_attempt: "calm S m \<Longrightarrow> (\<And>x. calm S (k x)) \<Longrightarrow> calm S (attempt m k)"
  unfolding quiet_def by (rule keeps_attempt) simp_all

lemma calm_mono: "calm {} m \<Longrightarrow> calm S m"
  by (auto simp: quiet_def keeps_def intro: leaves_mono)

lemma calm_case_sum: "(\<And>a. calm S (f a)) \<Longrightarrow> (\<And>b. calm S (k b)) \<Longrightarrow> calm S (case x of Inl a \<Rightarrow> f a | Inr b \<Rightarrow> k b)"
  by (simp split: sum.split)

lemma calm_if: "(b \<Longrightarrow> calm S m) \<Longrightarrow> (\<not> b \<Longrightarrow> calm S n) \<Longrightarrow> calm S (if b then m else n)"
  by simp

lemmas calm_intros = calm_andThen calm_attempt calm_map_error calm_call calm_call_or_abort calm_limits calm_pure
  calm_case_sum calm_if quiet_reads

lemma calm_guards:
  assumes "upstreams h = cs"
  shows "calm {} (agent_or_abort h c action)"
    and "calm {} (requireActiveConversationSite h c conversation)"
    and "calm {} (requireConversationForVisitor h c i token)"
    and "calm {} (requireConversationSiteForAgent h c conversation actor)"
    and "calm {} (fetchConversationForAgentSite h c i actor)"
    and "calm {} (requireConversationForAgent h c i actor)"
proof -
  show "calm {} (agent_or_abort h c action)"
    unfolding agent_or_abort_def requireAgentActor_def requireActor_def assms by (intro calm_intros)
  show site: "calm {} (requireActiveConversationSite h c conversation)" for conversation
    unfolding requireActiveConversationSite_def fetchSiteBySiteID_def assms Let_def by (intro calm_intros)
  show "calm {} (requireConversationForVisitor h c i token)"
    unfolding requireConversationForVisitor_def fetchConversation_def assms by (intro calm_intros site)
  show agent: "calm {} (requireConversationSiteForAgent h c conversation actor)" for conversation
    unfolding requireConversationSiteForAgent_def requireAgentSiteID_def Let_def by (intro calm_intros site)
  show "calm {} (fetchConversationForAgentSite h c i actor)"
    unfolding fetchConversationForAgentSite_def fetchConversation_def assms by (intro calm_intros agent)
  show "calm {} (requireConversationForAgent h c i actor)"
    unfolding requireConversationForAgent_def fetchConversation_def assms by (intro calm_intros agent)
qed

lemma agent_or_abort_ok:
  assumes "agent_or_abort h c action g = (Inr actor, g1)" "upstreams h = cs"
  shows "asking cs (upstream g) (Authorization c) actor \<and> me_Role actor = ''agent''"
  using assms(1) unfolding agent_or_abort_def requireAgentActor_def requireActor_def assms(2)
  by (auto simp: run_andThen run_map_error call_def asking_def split: if_splits prod.splits)

lemma fetched_row:
  assumes "call (Chat_GetConversation cs i) g = (Inr p, g1)" "by_id conv_ID i (conversations (db (store g))) = Some row"
  shows "p = toConversationPB row"
  using assms(1) stored [OF _ assms(2)] by (auto simp: call_def split: prod.splits)

lemma site_of_agent:
  assumes "requireConversationSiteForAgent h c p actor g = (Inr u, g1)"
  shows "TrimSpace (pb_SiteId p) = TrimSpace (me_SiteId actor)"
  using assms by (auto simp: requireConversationSiteForAgent_def requireAgentSiteID_def run_andThen Let_def split: if_splits)

lemma fetched_for_site:
  assumes "fetchConversationForAgentSite h c i actor g = (Inr p, g1)" "upstreams h = cs"
    and "by_id conv_ID i (conversations (db (store g))) = Some row"
  shows "TrimSpace (conv_SiteID row) = TrimSpace (me_SiteId actor)"
  using assms(1) unfolding fetchConversationForAgentSite_def fetchConversation_def assms(2)
  by (auto simp: run_andThen run_map_error toConversationPB_def dest!: site_of_agent fetched_row [OF _ assms(3)])

lemma fetched_for_agent:
  assumes "requireConversationForAgent h c i actor g = (Inr p, g1)" "upstreams h = cs"
    and "by_id conv_ID i (conversations (db (store g))) = Some row"
  shows "TrimSpace (conv_SiteID row) = TrimSpace (me_SiteId actor)"
  using assms(1) unfolding requireConversationForAgent_def fetchConversation_def assms(2)
  by (auto simp: run_andThen run_map_error toConversationPB_def split: if_splits
      dest!: site_of_agent fetched_row [OF _ assms(3)])

lemma fetched_for_visitor:
  assumes "requireConversationForVisitor h c i token g = (Inr p, g1)" "upstreams h = cs"
    and "by_id conv_ID i (conversations (db (store g))) = Some row"
  shows "conv_VisitorToken row = token"
  using assms(1) unfolding requireConversationForVisitor_def fetchConversation_def assms(2)
  by (auto simp: run_andThen run_map_error toConversationPB_def split: if_splits dest!: fetched_row [OF _ assms(3)])

text \<open>The conversations a request may touch: those that do not exist, and those its credentials open.\<close>

definition touchable :: "'w \<Rightarrow> chat_request \<Rightarrow> uint64 set" where
  "touchable w req = {i. \<forall>row. by_id conv_ID i (conversations (db (chat w))) = Some row \<longrightarrow> may_touch cs w req row}"

lemma row_kept: "leaves {} w w' \<Longrightarrow> by_id conv_ID i (conversations (db w)) = Some row \<Longrightarrow>
    by_id conv_ID i (conversations (db w')) = Some row"
  by (simp add: leaves_def)

lemma touchable_agent:
  assumes "asking cs w (bearer_of req) actor \<and> me_Role actor = ''agent''" "leaves {} (chat w) (store g)"
    and "\<And>row. by_id conv_ID i (conversations (db (store g))) = Some row \<Longrightarrow> TrimSpace (conv_SiteID row) = TrimSpace (me_SiteId actor)"
  shows "i \<in> touchable w req"
  using assms(1) assms(3) [OF row_kept [OF assms(2)]] by (auto simp: touchable_def may_touch_def)

lemma touchable_visitor:
  assumes "visitor_of req = Some token" "leaves {} (chat w) (store g)"
    and "\<And>row. by_id conv_ID i (conversations (db (store g))) = Some row \<Longrightarrow> conv_VisitorToken row = token"
  shows "i \<in> touchable w req"
  using assms(1) assms(3) [OF row_kept [OF assms(2)]] by (auto simp: touchable_def may_touch_def)

section \<open>The handlers\<close>

lemma calm_tryMark: "upstreams h = cs \<Longrightarrow> calm {i} (tryMarkConversationReadAfterClaim h i agentID)"
proof -
  assume up: "upstreams h = cs"
  have mark: "calm {i} (ignore (call (Chat_MarkMessagesRead cs
      \<lparr>mri_ConversationID = i, mri_LastReadMessageID = n, mri_ActorType = ''agent'', mri_ActorAgentID = agentID,
       mri_VisitorToken = []\<rparr>)))" for n
    unfolding ignore_def
    by (intro calm_intros quiet_operations(2) [of "\<lparr>mri_ConversationID = i, mri_LastReadMessageID = n,
        mri_ActorType = ''agent'', mri_ActorAgentID = agentID, mri_VisitorToken = []\<rparr>", simplified])
  show ?thesis
    unfolding tryMarkConversationReadAfterClaim_def up
    by (intro calm_attempt calm_mono [OF calm_call] quiet_reads) (auto split: sum.split list.split intro: mark)
qed

lemma reads_are_calm:
  assumes up: "upstreams h = cs"
  shows "calm {} (getConversation h c)" "calm {} (listConversations h c)" "calm {} (listMessages_gw h c)"
    "calm {} (createConversation h (requireWidgetSession W d) d)"
proof -
  have session: "calm {} (requireWidgetSession W d site)" for site
    by (auto simp: quiet_def keeps_def requireWidgetSession_def h_now_def Let_def split: if_splits sum.splits)
  have bind: "calm {} (bind_or_abort rules d)" for rules
    unfolding bind_or_abort_def by (intro calm_intros)
  have site: "calm {} (requireAgentSiteID c actor)" for actor
    unfolding requireAgentSiteID_def Let_def by (intro calm_intros)
  have readable: "calm {} (readable_conversation h c action i)" for action i
    unfolding readable_conversation_def Let_def by (intro calm_intros calm_guards up)
  show "calm {} (getConversation h c)"
    unfolding getConversation_def by (intro calm_intros readable)
  show "calm {} (listMessages_gw h c)"
    unfolding listMessages_gw_def up by (intro calm_intros readable)
  show "calm {} (listConversations h c)"
    unfolding listConversations_def Let_def up by (intro calm_intros calm_guards up site)
  show "calm {} (createConversation h (requireWidgetSession W d) d)"
    unfolding createConversation_def Let_def up by (intro calm_intros session bind)
qed

lemma agent_operation_confined:
  assumes run: "agent_operation h c action operation after g = (r, g')" and up: "upstreams h = cs"
    and op: "\<And>ac. quiet chat {act_ConversationID ac} (operation ac)" and after: "\<And>i actor. calm {i} (after i actor)"
    and req: "bearer_of req = Authorization c"
  shows "leaves (touchable (upstream g) req) (store g) (store g')"
  using run unfolding agent_operation_def
proof (rule guard [OF _ calm_guards(1) [OF up] leaves_refl], goal_cases)
  case (1 actor g1)
  note actor = agent_or_abort_ok [OF 1(1) up]
  from 1(3) show ?case
  proof (rule guard [OF _ calm_pure(4) 1(2)], goal_cases)
    case (1 i g2)
    from 1(3) show ?case
    proof (rule guard [OF _ calm_guards(5) [OF up] 1(2)], goal_cases)
      case (1 p g3)
      have "i \<in> touchable (upstream g) req"
        by (rule touchable_agent [OF _ \<open>leaves {} (store g) (store g2)\<close>])
           (use actor req fetched_for_site [OF 1(1) up] in auto)
      have last: "quiet chat {i} (operation \<lparr>act_ConversationID = i, act_ActorAgentID = me_AgentId actor, act_ActorRole = me_Role actor\<rparr>)"
        using op [of "\<lparr>act_ConversationID = i, act_ActorAgentID = me_AgentId actor, act_ActorRole = me_Role actor\<rparr>"] by simp
      show ?case
        by (rule finish [where i = i], rule 1(3))
           (intro calm_andThen after calm_pure calm_call_or_abort last, rule 1(2), rule \<open>i \<in> _\<close>)
    qed
  qed
qed

lemma guard_pure:
  assumes "andThen m k g = (r, g')" "keeps (\<lambda>u v. v = u) m" "leaves {} w (store g)"
    and "\<And>a. m g = (Inr a, g) \<Longrightarrow> k a g = (r, g') \<Longrightarrow> leaves S w (store g')"
  shows "leaves S w (store g')"
proof -
  obtain x g1 where m: "m g = (x, g1)" by fastforce
  with assms(2) have "g1 = g" by (auto simp: keeps_def)
  with assms m show ?thesis by (cases x) (auto simp: andThen_def intro: leaves_mono)
qed

lemma guard_if:
  assumes "(if b then fail err else m) g = (r, g')" "leaves {} w (store g)"
    and "\<not> b \<Longrightarrow> m g = (r, g') \<Longrightarrow> leaves S w (store g')"
  shows "leaves S w (store g')"
  using assms by (cases b) (auto intro: leaves_mono)

lemma need_same: "keeps (\<lambda>u v. v = u) (need e x)"
  by (auto simp: keeps_def need_def split: option.splits)

lemma bind_same: "keeps (\<lambda>u v. v = u) (bind_or_abort rules c)"
  by (auto simp: keeps_def bind_or_abort_def map_error_def attempt_def lift_result_def split: sum.splits)

lemma bind_ok: "bind_or_abort rules c g = (Inr q, g1) \<Longrightarrow> req_body c = Inr q"
  by (auto simp: bind_or_abort_def run_map_error ShouldBindJSON_def split: sum.splits if_splits)

lemma limited_upstream: "applyVisitorRateLimit h c action site i tok g = (x, g1) \<Longrightarrow> upstream g1 = upstream g"
  by (auto simp: applyVisitorRateLimit_def dest: limit_by_upstream)

lemma calm_permitted:
  assumes up: "upstreams h = cs"
  shows "calm {} (permitted_sender h c i q)" "calm {} (permitted_reader h d i token)"
  unfolding permitted_sender_def permitted_reader_def by (intro calm_intros calm_guards up)+

lemma agent_then_conversation:
  assumes "andThen (agent_or_abort h c action) (\<lambda>actor. andThen (requireConversationForAgent h c i actor) (k actor)) g = (Inr b, g1)"
    and up: "upstreams h = cs"
  shows "\<exists>actor. asking cs (upstream g) (Authorization c) actor \<and> me_Role actor = ''agent''
    \<and> (\<forall>row. by_id conv_ID i (conversations (db (store g))) = Some row \<longrightarrow> TrimSpace (conv_SiteID row) = TrimSpace (me_SiteId actor))"
proof -
  from assms(1) obtain actor g2 p g3 where
    a: "agent_or_abort h c action g = (Inr actor, g2)" and p: "requireConversationForAgent h c i actor g2 = (Inr p, g3)"
    by (auto simp: run_andThen)
  have "leaves {} (store g) (store g2)" by (rule quietD [OF calm_guards(1) [OF up] a])
  from row_kept [OF this] fetched_for_agent [OF p up] agent_or_abort_ok [OF a up] show ?thesis by blast
qed

lemma permitted_sender_ok:
  assumes "permitted_sender h c i q g = (Inr sid, g1)" and up: "upstreams h = cs"
  shows "(\<exists>actor. asking cs (upstream g) (Authorization c) actor \<and> me_Role actor = ''agent''
      \<and> (\<forall>row. by_id conv_ID i (conversations (db (store g))) = Some row \<longrightarrow> TrimSpace (conv_SiteID row) = TrimSpace (me_SiteId actor)))
    \<or> (\<forall>row. by_id conv_ID i (conversations (db (store g))) = Some row \<longrightarrow> conv_VisitorToken row = cmr_VisitorToken q)"
proof (cases "cmr_SenderType q = ''agent''")
  case True
  from agent_then_conversation [OF assms(1) [unfolded permitted_sender_def if_P [OF True]] up] show ?thesis ..
next
  case False
  with assms(1) obtain p g2 g3 where "upstream g2 = upstream g"
    "requireConversationForVisitor h c i (cmr_VisitorToken q) g2 = (Inr p, g3)"
    by (auto simp: permitted_sender_def run_andThen split: if_splits dest: limited_upstream)
  with fetched_for_visitor [OF _ up] show ?thesis by metis
qed

lemma permitted_reader_ok:
  assumes "permitted_reader h c i token g = (Inr x, g1)" and up: "upstreams h = cs"
  shows "(\<exists>actor. asking cs (upstream g) (Authorization c) actor \<and> me_Role actor = ''agent''
      \<and> (\<forall>row. by_id conv_ID i (conversations (db (store g))) = Some row \<longrightarrow> TrimSpace (conv_SiteID row) = TrimSpace (me_SiteId actor)))
    \<or> (\<forall>row. by_id conv_ID i (conversations (db (store g))) = Some row \<longrightarrow> conv_VisitorToken row = token)"
proof (cases "TrimSpace (Authorization c) = []")
  case False
  from agent_then_conversation [OF assms(1) [unfolded permitted_reader_def if_P [OF False]] up] show ?thesis ..
next
  case True
  with assms(1) obtain p g2 g3 where "upstream g2 = upstream g"
    "requireConversationForVisitor h c i token g2 = (Inr p, g3)"
    by (auto simp: permitted_reader_def run_andThen split: if_splits dest: limited_upstream)
  with fetched_for_visitor [OF _ up] show ?thesis by metis
qed

lemma touchable_either:
  assumes "(\<exists>actor. asking cs w (bearer_of req) actor \<and> me_Role actor = ''agent''
      \<and> (\<forall>row. by_id conv_ID i (conversations (db (chat w))) = Some row \<longrightarrow> TrimSpace (conv_SiteID row) = TrimSpace (me_SiteId actor)))
    \<or> (\<forall>row. by_id conv_ID i (conversations (db (chat w))) = Some row \<longrightarrow> conv_VisitorToken row = token)"
    and "visitor_of req = Some token"
  shows "i \<in> touchable w req"
  using assms by (auto simp: touchable_def may_touch_def)

lemma createMessage_confined:
  assumes run: "createMessage h c g = (r, g')" and up: "upstreams h = cs"
  shows "leaves (touchable (upstream g) (POST_messages c)) (store g) (store g')"
  using run unfolding createMessage_def
proof (rule guard_pure [OF _ need_same leaves_refl], goal_cases)
  case (1 i)
  from 1(2) show ?case
  proof (rule guard_pure [OF _ bind_same leaves_refl], goal_cases)
    case (1 raw)
    let ?q = "raw\<lparr>cmr_SenderType := ToLower (TrimSpace (cmr_SenderType raw)), cmr_VisitorToken := TrimSpace (cmr_VisitorToken raw)\<rparr>"
    note body = bind_ok [OF 1(1)]
    from 1(2) show ?case unfolding Let_def
    proof (rule guard_if [OF _ leaves_refl], goal_cases)
      case 1
      from 1(2) show ?case
      proof (rule guard_if [OF _ leaves_refl], goal_cases)
        case 1
        from 1(2) show ?case
        proof (rule guard [OF _ calm_permitted(1) [OF up] leaves_refl], goal_cases)
          case (1 sid g1)
        have "i \<in> touchable (upstream g) (POST_messages c)"
          by (rule touchable_either [OF _ , where token = "TrimSpace (cmr_VisitorToken raw)"])
             (use permitted_sender_ok [OF 1(1) up] body in simp_all)
          have last: "quiet chat {i} (Chat_CreateMessage (upstreams h) m)" if "cmi_ConversationID m = i" for m
            using quiet_operations(1) [of m] that up by simp
          show ?case
            by (rule finish [where i = i], rule 1(3))
               (intro calm_andThen calm_pure calm_call_or_abort last, simp, rule 1(2), rule \<open>i \<in> _\<close>)
        qed
      qed
    qed
  qed
qed

lemma markMessagesRead_confined:
  assumes run: "markMessagesRead_gw h c g = (r, g')" and up: "upstreams h = cs"
  shows "leaves (touchable (upstream g) (POST_read c)) (store g) (store g')"
  using run unfolding markMessagesRead_gw_def
proof (rule guard_pure [OF _ need_same leaves_refl], goal_cases)
  case (1 i)
  from 1(2) show ?case
  proof (rule guard_pure [OF _ bind_same leaves_refl], goal_cases)
    case (1 q)
    note body = bind_ok [OF 1(1)]
    from 1(2) show ?case unfolding Let_def
    proof (rule guard_if [OF _ leaves_refl], goal_cases)
      case 1
      from 1(2) show ?case
      proof (rule guard [OF _ calm_permitted(2) [OF up] leaves_refl], goal_cases)
        case (1 x g1)
        have "i \<in> touchable (upstream g) (POST_read c)"
          by (rule touchable_either [OF _ , where token = "TrimSpace (mrr_VisitorToken q)"])
             (use permitted_reader_ok [OF 1(1) up] body in simp_all)
        have last: "quiet chat {i} (Chat_MarkMessagesRead (upstreams h) m)" if "mri_ConversationID m = i" for m
          using quiet_operations(2) [of m] that up by simp
        obtain t n where x: "x = (t, n)" by fastforce
        show ?case
          by (rule finish [where i = i], rule 1(3) [unfolded x prod.case])
             (intro calm_andThen calm_pure calm_call_or_abort last, simp, rule 1(2), rule \<open>i \<in> _\<close>)
      qed
    qed
  qed
qed

lemma claimConversation_confined:
  assumes run: "claimConversation h c g = (r, g')" and up: "upstreams h = cs"
  shows "leaves (touchable (upstream g) (POST_claim c)) (store g) (store g')"
  using run unfolding claimConversation_def
proof (rule guard [OF _ calm_guards(1) [OF up] leaves_refl], goal_cases)
  case (1 actor g1)
  note actor = agent_or_abort_ok [OF 1(1) up]
  from 1(3) show ?case
  proof (rule guard [OF _ calm_pure(4) 1(2)], goal_cases)
    case (1 i g2)
    from 1(3) show ?case
    proof (rule guard [OF _ calm_guards(5) [OF up] 1(2)], goal_cases)
      case (1 p g3)
      have "i \<in> touchable (upstream g) (POST_claim c)"
        by (rule touchable_agent [OF _ \<open>leaves {} (store g) (store g2)\<close>])
           (use actor fetched_for_site [OF 1(1) up] in auto)
      have last: "quiet chat {i} (Chat_ClaimConversation (upstreams h) m)" if "cli_ConversationID m = i" for m
        using quiet_operations(3) [of m] that up by simp
      show ?case
        by (rule finish [where i = i], rule 1(3))
           (intro calm_andThen calm_pure calm_tryMark [OF up] calm_call_or_abort last, simp, rule 1(2), rule \<open>i \<in> _\<close>)
    qed
  qed
qed

lemma transferConversation_confined:
  assumes run: "transferConversation h c g = (r, g')" and up: "upstreams h = cs"
  shows "leaves (touchable (upstream g) (POST_transfer c)) (store g) (store g')"
  using run unfolding transferConversation_def
proof (rule guard [OF _ calm_guards(1) [OF up] leaves_refl], goal_cases)
  case (1 actor g1)
  note actor = agent_or_abort_ok [OF 1(1) up]
  from 1(3) show ?case
  proof (rule guard [OF _ calm_pure(4) 1(2)], goal_cases)
    case (1 i g2)
    from 1(3) show ?case
    proof (rule guard [OF _ calm_map_error [OF calm_pure(3)] 1(2)], goal_cases)
      case (1 q g3)
      from 1(3) show ?case
      proof (rule guard [OF _ calm_guards(5) [OF up] 1(2)], goal_cases)
        case (1 p g4)
        have i: "i \<in> touchable (upstream g) (POST_transfer c)"
          by (rule touchable_agent [OF _ \<open>leaves {} (store g) (store g3)\<close>])
             (use actor fetched_for_site [OF 1(1) up] in auto)
        have target: "calm {} (call_or_abort c (Admin_GetAgentByID (upstreams h) (tcr_ToAgentID q)))"
          unfolding up by (intro calm_call_or_abort quiet_reads)
        from 1(3) show ?case
        proof (rule guard [OF _ target 1(2)], goal_cases)
          case (1 agent g5)
          have last: "quiet chat {i} (Chat_TransferConversation (upstreams h) m)" if "act_ConversationID m = i" for m
            using quiet_operations(4) [of m] that up by simp
          show ?case
            by (rule finish [where i = i], rule 1(3))
               (intro calm_andThen calm_if calm_pure calm_call_or_abort last, simp, rule 1(2), rule i)
        qed
      qed
    qed
  qed
qed

lemma quiet_leaves: "upstreams h = cs \<Longrightarrow> calm {} m \<Longrightarrow> m g = (r, g') \<Longrightarrow> leaves S (store g) (store g')"
  by (rule quietD [OF calm_mono])

text \<open>Every chat request leaves the conversations alone that its credentials do not open.\<close>

lemma serve_chat_confined:
  assumes "serve_chat h W req g = (r, g')" and up: "upstreams h = cs"
  shows "leaves (touchable (upstream g) req) (store g) (store g')"
proof (cases req)
  case (POST_conversations c)
  with assms quiet_leaves [OF up reads_are_calm(4) [OF up]] show ?thesis by simp
next
  case (GET_conversations c)
  with assms quiet_leaves [OF up reads_are_calm(2) [OF up]] show ?thesis by simp
next
  case (GET_conversation c)
  with assms quiet_leaves [OF up reads_are_calm(1) [OF up]] show ?thesis by simp
next
  case (GET_messages c)
  with assms quiet_leaves [OF up reads_are_calm(3) [OF up]] show ?thesis by simp
next
  case (POST_messages c)
  with assms createMessage_confined [OF _ up] show ?thesis by simp
next
  case (POST_read c)
  with assms markMessagesRead_confined [OF _ up] show ?thesis by simp
next
  case (POST_claim c)
  with assms claimConversation_confined [OF _ up] show ?thesis by simp
next
  case (POST_transfer c)
  with assms transferConversation_confined [OF _ up] show ?thesis by simp
next
  case (POST_transfer_confirm c)
  have "confirmTransferConversation h c g = (r, g')" using assms(1) POST_transfer_confirm by simp
  then show ?thesis unfolding confirmTransferConversation_def POST_transfer_confirm
    by (rule agent_operation_confined) (simp_all add: up quiet_operations calm_tryMark)
next
  case (POST_transfer_reject c)
  have "rejectTransferConversation h c g = (r, g')" using assms(1) POST_transfer_reject by simp
  then show ?thesis unfolding rejectTransferConversation_def POST_transfer_reject
    by (rule agent_operation_confined) (simp_all add: up quiet_operations)
next
  case (POST_close c)
  have "closeConversation_gw h c g = (r, g')" using assms(1) POST_close by simp
  then show ?thesis unfolding closeConversation_gw_def POST_close
    by (rule agent_operation_confined) (simp_all add: up quiet_operations)
qed

end

section \<open>The services keep the contract\<close>

lemma net_call_quiet:
  assumes "\<And>b r b'. m b = (r, b') \<Longrightarrow> leaves S (be_chat b) (be_chat b')"
  shows "quiet be_chat S (net_call B m)"
  unfolding quiet_def
proof (rule keepsI)
  fix b r b' assume run: "net_call B m b = (r, b')"
  let ?b1 = "b\<lparr>be_tick := Suc (be_tick b)\<rparr>"
  obtain x b2 where m: "m ?b1 = (x, b2)" by fastforce
  from run m have "b' = ?b1 \<or> b' = b2"
    by (auto simp: net_call_def Let_def split: option.splits sum.splits prod.splits if_splits)
  with assms [OF m] show "leaves S (be_chat b) (be_chat b')" by auto
qed

lemma on_identity_chat: "on_identity m b = (r, b') \<Longrightarrow> leaves S (be_chat b) (be_chat b')"
  by (auto simp: on_identity_def split: prod.splits)

lemma on_chat_quiet:
  assumes "\<And>w r w'. m w = (r, w') \<Longrightarrow> leaves S w w'"
  shows "quiet be_chat S (net_call B (on_chat m))"
  by (rule net_call_quiet) (auto simp: on_chat_def split: prod.splits dest: assms)

lemma reply_leaves: "reply f x = (r, w') \<Longrightarrow> (\<And>q v. x = (q, v) \<Longrightarrow> leaves S w v) \<Longrightarrow> leaves S w w'"
  by (cases x) (auto simp: reply_def split: sum.splits)

lemma servers_leave:
  "gw_GetConversation e i w = (r1, w') \<Longrightarrow> leaves {} w w'"
  "gw_ListConversations e q w = (r2, w') \<Longrightarrow> leaves {} w w'"
  "gw_ListMessages e i n k w = (r3, w') \<Longrightarrow> leaves {} w w'"
  "gw_CreateConversation e s new w = (r4, w') \<Longrightarrow> leaves {} w w'"
  "gw_CreateMessage e s m w = (r5, w') \<Longrightarrow> leaves {cmi_ConversationID m} w w'"
  "gw_MarkMessagesRead e s rd w = (r6, w') \<Longrightarrow> leaves {mri_ConversationID rd} w w'"
  "gw_ClaimConversation e cl w = (r7, w') \<Longrightarrow> leaves {cli_ConversationID cl} w w'"
  "gw_TransferConversation e s tr w = (r8, w') \<Longrightarrow> leaves {act_ConversationID tr} w w'"
  "gw_ConfirmTransferConversation e s ac w = (r9, w') \<Longrightarrow> leaves {act_ConversationID ac} w w'"
  "gw_RejectTransferConversation e s ac w = (r10, w') \<Longrightarrow> leaves {act_ConversationID ac} w w'"
  "gw_CloseConversation e s ac w = (r11, w') \<Longrightarrow> leaves {act_ConversationID ac} w w'"
  unfolding gw_GetConversation_def gw_ListConversations_def gw_ListMessages_def gw_CreateConversation_def
    gw_CreateMessage_def gw_MarkMessagesRead_def gw_ClaimConversation_def gw_TransferConversation_def
    gw_ConfirmTransferConversation_def gw_RejectTransferConversation_def gw_CloseConversation_def Let_def
  by (auto split: if_splits elim!: reply_leaves
      dest: CreateConversation_leaves CreateMessage_leaves MarkMessagesRead_leaves ClaimConversation_leaves
        TransferConversation_leaves ConfirmTransferConversation_leaves RejectTransferConversation_leaves
        CloseConversation_leaves read_operations_evolve intro: leaves_ticks)

lemma gw_GetConversation_stored:
  assumes "gw_GetConversation e i w = (Inr p, w')" "by_id conv_ID i (conversations (db w)) = Some c"
  shows "p = toConversationPB c"
  using assms
  by (auto simp: gw_GetConversation_def reply_def GetConversation_def split: if_splits prod.splits sum.splits
      dest!: GetByID_ok)

interpretation servers: chat_upstreams "backend_clients B" be_chat for B
proof
  fix i w p w' c
  assume "Chat_GetConversation (backend_clients B) i w = (Inr p, w')"
    and "by_id conv_ID i (conversations (db (be_chat w))) = Some c"
  then show "p = toConversationPB c"
    by (auto simp: backend_clients_def Let_def net_call_def on_chat_def split: option.splits prod.splits sum.splits
        dest: gw_GetConversation_stored)
qed (simp_all add: backend_clients_def Let_def net_call_quiet [OF on_identity_chat] on_chat_quiet [OF servers_leave(1)]
      on_chat_quiet [OF servers_leave(2)] on_chat_quiet [OF servers_leave(3)] on_chat_quiet [OF servers_leave(4)]
      on_chat_quiet [OF servers_leave(5)] on_chat_quiet [OF servers_leave(6)] on_chat_quiet [OF servers_leave(7)]
      on_chat_quiet [OF servers_leave(8)] on_chat_quiet [OF servers_leave(9)] on_chat_quiet [OF servers_leave(10)]
      on_chat_quiet [OF servers_leave(11)])

section \<open>Reconnecting and repeating keeps the contract\<close>

lemma refresh_behind: "refresh D u force d = (r, d') \<Longrightarrow> behind d' = behind d"
  by (auto simp: refresh_def still_fresh_def resolve_target_def touch_conn_def dial_def dyn_now_def set_conn_def
      andThen_def ok_def Let_def split: if_splits sum.splits option.splits prod.splits)

lemma connForCall_behind: "connForCall D u d = (r, d') \<Longrightarrow> behind d' = behind d"
  by (auto simp: connForCall_def current_conn_def attempt_def andThen_def ok_def fail_def
      split: sum.splits option.splits prod.splits dest: refresh_behind)

text \<open>A call reaches the service at most twice, the second time only after a retryable error.\<close>

lemma invokeWithRetry_cases:
  assumes "invokeWithRetry D u m d = (r, d')"
  obtains (unreached) err where "r = Inl err" "behind d' = behind d"
  | (once) w where "m (behind d) = (r, w)" "behind d' = w"
  | (failed) err w where "m (behind d) = (Inl err, w)" "r = Inl err" "behind d' = w"
  | (twice) err w w' where "m (behind d) = (Inl err, w)" "isRetryableRPCError err" "m w = (r, w')" "behind d' = w'"
proof -
  obtain r1 d1 where 1: "connForCall D u d = (r1, d1)" by fastforce
  note b1 = connForCall_behind [OF 1]
  show ?thesis
  proof (cases r1)
    case (Inl err)
    with assms 1 b1 unreached show ?thesis by (auto simp: invokeWithRetry_def andThen_def)
  next
    case (Inr conn)
    obtain x w where m: "m (behind d) = (x, w)" by fastforce
    have i: "invoke m d1 = (x, d1\<lparr>behind := w\<rparr>)" by (simp add: invoke_def b1 m)
    show ?thesis
    proof (cases "\<exists>err. x = Inl err \<and> isRetryableRPCError err")
      case False
      with assms 1 Inr i m show ?thesis
        by (intro once) (auto simp: invokeWithRetry_def andThen_def attempt_def ok_def fail_def split: sum.splits)
    next
      case True
      then obtain err where x: "x = Inl err" and re: "isRetryableRPCError err" by blast
      obtain r2 d2 where 2: "refresh D u True (d1\<lparr>behind := w\<rparr>) = (r2, d2)" by fastforce
      have b2: "behind d2 = w" using refresh_behind [OF 2] by simp
      show ?thesis
      proof (cases "\<exists>c. r2 = Inr () \<and> sc_conn (conns d2 u) = Some c")
        case True
        with assms 1 Inr i x re 2 m b2 show ?thesis
          by (intro twice [of err w]) (auto simp: invokeWithRetry_def andThen_def attempt_def current_conn_def invoke_def split: prod.splits)
      next
        case False
        with assms 1 Inr i x re 2 m b2 show ?thesis
          by (intro failed [of err w])
             (auto simp: invokeWithRetry_def andThen_def attempt_def current_conn_def fail_def split: prod.splits sum.splits option.splits)
      qed
    qed
  qed
qed

lemma retry_quiet:
  assumes "quiet chat S m"
  shows "quiet (\<lambda>d. chat (behind d)) S (invokeWithRetry D u m)"
  unfolding quiet_def
proof (rule keepsI)
  fix d r d' assume "invokeWithRetry D u m d = (r, d')"
  then show "leaves S (chat (behind d)) (chat (behind d'))"
  proof (cases rule: invokeWithRetry_cases)
    case (twice err w w')
    with quietD [OF assms twice(1)] quietD [OF assms twice(3)] show ?thesis by (auto intro: leaves_trans)
  qed (auto dest: quietD [OF assms])
qed

lemma retry_stored:
  assumes "chat_upstreams cs chat" "invokeWithRetry D u (Chat_GetConversation cs i) d = (Inr p, d')"
    and "by_id conv_ID i (conversations (db (chat (behind d)))) = Some c"
  shows "p = toConversationPB c"
  using assms(2)
proof (cases rule: invokeWithRetry_cases)
  case (once w)
  with chat_upstreams.stored [OF assms(1) _ assms(3)] show ?thesis by simp
next
  case (twice err w w')
  have "leaves {} (chat (behind d)) (chat w)"
    by (rule quietD [OF chat_upstreams.quiet_reads(4) [OF assms(1)] twice(1)])
  with assms(3) have "by_id conv_ID i (conversations (db (chat w))) = Some c" by (simp add: leaves_def)
  with chat_upstreams.stored [OF assms(1) twice(3)] show ?thesis by simp
qed simp_all

lemma dynamic_upstreams:
  assumes "chat_upstreams cs chat"
  shows "chat_upstreams (dynamic_clients D cs) (\<lambda>d. chat (behind d))"
proof
  fix i d p d' c
  assume "Chat_GetConversation (dynamic_clients D cs) i d = (Inr p, d')"
    and "by_id conv_ID i (conversations (db (chat (behind d)))) = Some c"
  then show "p = toConversationPB c"
    by (auto simp: dynamic_clients_def dynamicChatClient_def dest: retry_stored [OF assms])
qed (simp_all add: dynamic_clients_def dynamicChatClient_def dynamicAuthClient_def dynamicAdminClient_def retry_quiet
      chat_upstreams.quiet_reads [OF assms] chat_upstreams.quiet_operations [OF assms])

interpretation stack: chat_upstreams "dynamic_clients D (backend_clients B)" "\<lambda>d. be_chat (behind d)" for D B
  by (rule dynamic_upstreams) (rule servers.chat_upstreams_axioms)

end
