(* ===== verification/Gateway_Admin.thy ===== *)
theory Gateway_Admin
  imports Gateway_Chat
begin

text \<open>
  The routes of the gateway for signing in and for administrators
  (\<^verbatim>\<open>services/gateway-service/internal/handler/http_auth.go\<close> and \<^verbatim>\<open>http_admin.go\<close>).  The rule \<^verbatim>\<open>email\<close>
  of the validator is the argument \<open>is_email\<close>; the rules \<^verbatim>\<open>min\<close>, \<^verbatim>\<open>max\<close> and \<^verbatim>\<open>len\<close> count characters.
  The authorisation of the actor happens twice, here and in admin-service.
\<close>

section \<open>Signing in\<close>

definition login_rules :: "(string \<Rightarrow> bool) \<Rightarrow> login_input \<Rightarrow> bool" where
  "login_rules is_email q \<longleftrightarrow> li_Email q \<noteq> [] \<and> is_email (li_Email q) \<and> li_Password q \<noteq> []"

definition login_gw ::
  "('b, 'w) HTTPHandler \<Rightarrow> (string \<Rightarrow> bool) \<Rightarrow> login_input http_request \<Rightarrow> ('b, 'w, http_response) handler" where
  "login_gw h is_email c =
     andThen (bind_or_abort (login_rules is_email) c) (\<lambda>q.
     andThen (applyLoginRateLimit h c (li_Email q)) (\<lambda>_.
     andThen (call_or_abort c (Auth_Login (upstreams h) q)) (\<lambda>resp.
       ok (ok_JSON 200 (authResultToJSON resp)))))"

definition me_gw :: "('b, 'w) HTTPHandler \<Rightarrow> unit http_request \<Rightarrow> ('b, 'w, http_response) handler" where
  "me_gw h c =
     andThen (call_or_abort c (Auth_Me (upstreams h) (Authorization c))) (\<lambda>resp.
       ok (ok_JSON 200 (JObject [(''agent_id'', JUint (me_AgentId resp)), (''email'', JString (me_Email resp)),
         (''role'', JString (me_Role resp)), (''exp'', JNumber (me_Exp resp)), (''site_id'', JString (me_SiteId resp))])))"

section \<open>Bodies\<close>

definition runes_between :: "nat \<Rightarrow> nat \<Rightarrow> string \<Rightarrow> bool" where
  "runes_between lo hi s \<longleftrightarrow> s \<noteq> [] \<and> lo \<le> RuneCountInString s \<and> RuneCountInString s \<le> hi"

record createSiteRequest =
  csr_SiteID :: string
  csr_Name :: string
  csr_Domain :: string
  csr_Domains :: "string list"

definition createSite_rules :: "createSiteRequest \<Rightarrow> bool" where
  "createSite_rules q \<longleftrightarrow> runes_between 4 64 (csr_SiteID q) \<and> runes_between 1 128 (csr_Name q)"

record updateSiteRequest =
  usr_Name :: string
  usr_Domains :: "string list"

definition updateSite_rules :: "updateSiteRequest \<Rightarrow> bool" where
  "updateSite_rules q \<longleftrightarrow> runes_between 1 128 (usr_Name q)"

record createAgentRequest =
  car_AgentID :: string
  car_SiteID :: string
  car_Email :: string
  car_Password :: string
  car_DisplayName :: string
  car_Role :: string

text \<open>The rule \<^verbatim>\<open>numeric\<close>: an optional sign, digits and an optional fraction.\<close>

definition numeric_rule :: "string \<Rightarrow> bool" where
  "numeric_rule s =
     (let t = (case s of [] \<Rightarrow> [] | c # cs \<Rightarrow> if c = CHR ''+'' \<or> c = CHR ''-'' then cs else s);
          whole = takeWhile is_digit t; rest = dropWhile is_digit t
      in whole \<noteq> [] \<and> (case rest of [] \<Rightarrow> True | c # cs \<Rightarrow> c = CHR ''.'' \<and> cs \<noteq> [] \<and> list_all is_digit cs))"

definition createAgent_rules :: "(string \<Rightarrow> bool) \<Rightarrow> createAgentRequest \<Rightarrow> bool" where
  "createAgent_rules is_email q \<longleftrightarrow>
     runes_between 4 4 (car_AgentID q) \<and> numeric_rule (car_AgentID q)
     \<and> runes_between 4 64 (car_SiteID q) \<and> car_Email q \<noteq> [] \<and> is_email (car_Email q)
     \<and> runes_between 12 72 (car_Password q) \<and> runes_between 1 128 (car_DisplayName q)
     \<and> (car_Role q = [] \<or> car_Role q = ''agent'')"

record updateSiteAIConfigRequest =
  uar_Enabled :: bool
  uar_ReplyMode :: string

definition updateSiteAIConfig_rules :: "updateSiteAIConfigRequest \<Rightarrow> bool" where
  "updateSiteAIConfig_rules q \<longleftrightarrow> uar_ReplyMode q = [] \<or> uar_ReplyMode q = ''unassigned_auto_reply''"

text \<open>The bodies with one text are that text.\<close>

definition updateSiteStatus_rules :: "string \<Rightarrow> bool" where
  "updateSiteStatus_rules status \<longleftrightarrow> status = ''active'' \<or> status = ''disabled''"

definition updateAgentStatus_rules :: "string \<Rightarrow> bool" where
  "updateAgentStatus_rules status \<longleftrightarrow> status = ''active'' \<or> status = ''inactive''"

definition resetAgentPassword_rules :: "string \<Rightarrow> bool" where
  "resetAgentPassword_rules newPassword \<longleftrightarrow> runes_between 12 72 newPassword"

section \<open>Sites\<close>

definition admin_or_abort :: "('b, 'w) HTTPHandler \<Rightarrow> 'a http_request \<Rightarrow> string \<Rightarrow> ('b, 'w, me_response) handler" where
  "admin_or_abort h c action =
     andThen (map_error (handleGRPCError c) (requireAdminActor h c)) (\<lambda>actor.
     andThen (applyAdminRateLimit h c action (me_AgentId actor)) (\<lambda>_. ok actor))"

text \<open>An administrator calls admin-service and the answer is shown.\<close>

definition admin_call ::
  "('b, 'w) HTTPHandler \<Rightarrow> 'a http_request \<Rightarrow> string \<Rightarrow> ('w, 'x) rpc \<Rightarrow> nat \<Rightarrow> ('x \<Rightarrow> json) \<Rightarrow> ('b, 'w, http_response) handler" where
  "admin_call h c action m status f =
     andThen (admin_or_abort h c action) (\<lambda>_.
     andThen (call_or_abort c m) (\<lambda>resp. ok (ok_JSON status (f resp))))"

definition createSite_gw :: "('b, 'w) HTTPHandler \<Rightarrow> createSiteRequest http_request \<Rightarrow> ('b, 'w, http_response) handler" where
  "createSite_gw h c =
     andThen (bind_or_abort createSite_rules c) (\<lambda>q.
       admin_call h c ''create_site''
         (Admin_CreateSite (upstreams h) (Authorization c)
            \<lparr>csi_SiteID = csr_SiteID q, csi_Name = csr_Name q, csi_Domain = csr_Domain q, csi_Domains = csr_Domains q\<rparr>)
         201 siteToJSON)"

definition updateSite_gw :: "('b, 'w) HTTPHandler \<Rightarrow> updateSiteRequest http_request \<Rightarrow> ('b, 'w, http_response) handler" where
  "updateSite_gw h c =
     andThen (bind_or_abort updateSite_rules c) (\<lambda>q.
       admin_call h c ''update_site''
         (Admin_UpdateSite (upstreams h) (Authorization c)
            \<lparr>usi_SiteID = Param c ''site_id'', usi_Name = usr_Name q, usi_Domains = usr_Domains q\<rparr>)
         200 siteToJSON)"

definition window_or_abort :: "'a http_request \<Rightarrow> ('b, 'w, int \<times> int) handler" where
  "window_or_abort c =
     andThen (need (abortBadRequest c ''invalid limit'') (limit_param (Query c ''limit''))) (\<lambda>limit.
     andThen (need (abortBadRequest c ''invalid offset'') (offset_param (Query c ''offset''))) (\<lambda>offset.
       ok (limit, offset)))"

definition items_JSON :: "('x \<Rightarrow> json) \<Rightarrow> 'x list \<Rightarrow> json" where
  "items_JSON f items = JObject [(''items'', JArray (map f items))]"

definition listSites_gw :: "('b, 'w) HTTPHandler \<Rightarrow> unit http_request \<Rightarrow> ('b, 'w, http_response) handler" where
  "listSites_gw h c =
     andThen (window_or_abort c) (\<lambda>(limit, offset).
       admin_call h c ''list_sites''
         (Admin_ListSites (upstreams h) (Authorization c) (int32 limit) (int32 offset)) 200 (items_JSON siteToJSON))"

definition updateSiteStatus_gw :: "('b, 'w) HTTPHandler \<Rightarrow> string http_request \<Rightarrow> ('b, 'w, http_response) handler" where
  "updateSiteStatus_gw h c =
     andThen (bind_or_abort updateSiteStatus_rules c) (\<lambda>status.
       admin_call h c ''update_site_status''
         (Admin_UpdateSiteStatus (upstreams h) (Authorization c) (Param c ''site_id'') status) 200 siteToJSON)"

definition rotateSiteWidgetKey_gw :: "('b, 'w) HTTPHandler \<Rightarrow> unit http_request \<Rightarrow> ('b, 'w, http_response) handler" where
  "rotateSiteWidgetKey_gw h c =
     admin_call h c ''rotate_site_widget_key''
       (Admin_RotateSiteWidgetKey (upstreams h) (Authorization c) (Param c ''site_id'')) 200 siteToJSON"

text \<open>The state of the knowledge base is added when ai-service answers.\<close>

definition fetchSiteAIStatus :: "('b, 'w) HTTPHandler \<Rightarrow> string \<Rightarrow> ('b, 'w, SiteStatus option) handler" where
  "fetchSiteAIStatus h siteID =
     (case aiClient h of
        None \<Rightarrow> ok None
      | Some ai \<Rightarrow> attempt (call (GetSiteStatus ai siteID)) (\<lambda>r. case r of Inl err \<Rightarrow> ok None | Inr s \<Rightarrow> ok (Some s)))"

definition getSiteAIConfig_gw :: "('b, 'w) HTTPHandler \<Rightarrow> unit http_request \<Rightarrow> ('b, 'w, http_response) handler" where
  "getSiteAIConfig_gw h c =
     andThen (admin_or_abort h c ''get_site_ai_config'') (\<lambda>_.
     andThen (call_or_abort c (Admin_GetSiteAIConfig (upstreams h) (Param c ''site_id''))) (\<lambda>resp.
     andThen (fetchSiteAIStatus h (Param c ''site_id'')) (\<lambda>status.
       ok (ok_JSON 200 (mergeSiteAIConfig resp status)))))"

definition updateSiteAIConfig_gw ::
  "('b, 'w) HTTPHandler \<Rightarrow> updateSiteAIConfigRequest http_request \<Rightarrow> ('b, 'w, http_response) handler" where
  "updateSiteAIConfig_gw h c =
     andThen (bind_or_abort updateSiteAIConfig_rules c) (\<lambda>q.
     andThen (map_error (handleGRPCError c) (requireAdminActor h c)) (\<lambda>actor.
       if me_Role actor \<noteq> ''super_admin'' then fail (abortForbidden c ''super_admin role required'')
       else andThen (applyAdminRateLimit h c ''update_site_ai_config'' (me_AgentId actor)) (\<lambda>_.
         andThen (call_or_abort c (Admin_UpdateSiteAIConfig (upstreams h) (Authorization c) (Param c ''site_id'')
                    (uar_Enabled q) (uar_ReplyMode q))) (\<lambda>resp.
         andThen (fetchSiteAIStatus h (Param c ''site_id'')) (\<lambda>status.
           ok (ok_JSON 200 (mergeSiteAIConfig resp status)))))))"

definition reloadSiteAIKnowledge_gw :: "('b, 'w) HTTPHandler \<Rightarrow> unit http_request \<Rightarrow> ('b, 'w, http_response) handler" where
  "reloadSiteAIKnowledge_gw h c =
     andThen (admin_or_abort h c ''reload_site_ai_knowledge'') (\<lambda>_.
       case aiClient h of
         None \<Rightarrow> fail (AbortWithError c 503 ''service_unavailable'' ''ai reload service is unavailable'')
       | Some ai \<Rightarrow>
           andThen (map_error (AbortWithError c 502 ''upstream_error'') (call (StartReindex ai (Param c ''site_id'')))) (\<lambda>resp.
             ok (ok_JSON 202 (JObject [(''site_id'', JString (ri_SiteID resp)), (''job_id'', JString (ri_JobID resp)),
               (''status'', JString (ri_Status resp))]))))"

section \<open>Agents and the audit log\<close>

definition createAgent_gw ::
  "('b, 'w) HTTPHandler \<Rightarrow> (string \<Rightarrow> bool) \<Rightarrow> createAgentRequest http_request \<Rightarrow> ('b, 'w, http_response) handler" where
  "createAgent_gw h is_email c =
     andThen (bind_or_abort (createAgent_rules is_email) c) (\<lambda>q.
       admin_call h c ''create_agent''
         (Admin_CreateAgent (upstreams h) (Authorization c)
            \<lparr>cai_AgentID = car_AgentID q, cai_Email = car_Email q, cai_Password = car_Password q,
             cai_DisplayName = car_DisplayName q, cai_Role = car_Role q, cai_SiteID = car_SiteID q\<rparr>)
         201 adminAgentToJSON)"

definition listAgents_gw :: "('b, 'w) HTTPHandler \<Rightarrow> unit http_request \<Rightarrow> ('b, 'w, http_response) handler" where
  "listAgents_gw h c =
     andThen (window_or_abort c) (\<lambda>(limit, offset).
       admin_call h c ''list_agents''
         (Admin_ListAgents (upstreams h) (Authorization c) (int32 limit) (int32 offset)) 200 (items_JSON adminAgentToJSON))"

definition updateAgentStatus_gw :: "('b, 'w) HTTPHandler \<Rightarrow> string http_request \<Rightarrow> ('b, 'w, http_response) handler" where
  "updateAgentStatus_gw h c =
     andThen (need (abortBadRequest c ''invalid agent_id'') (positive_id c)) (\<lambda>agentID.
     andThen (bind_or_abort updateAgentStatus_rules c) (\<lambda>status.
       admin_call h c ''update_agent_status''
         (Admin_UpdateAgentStatus (upstreams h) (Authorization c) agentID status) 200 adminAgentToJSON))"

definition resetAgentPassword_gw :: "('b, 'w) HTTPHandler \<Rightarrow> string http_request \<Rightarrow> ('b, 'w, http_response) handler" where
  "resetAgentPassword_gw h c =
     andThen (need (abortBadRequest c ''invalid agent_id'') (positive_id c)) (\<lambda>agentID.
     andThen (bind_or_abort resetAgentPassword_rules c) (\<lambda>newPassword.
       admin_call h c ''reset_agent_password''
         (Admin_ResetAgentPassword (upstreams h) (Authorization c) agentID newPassword) 200 adminAgentToJSON))"

definition forceAgentLogout_gw :: "('b, 'w) HTTPHandler \<Rightarrow> unit http_request \<Rightarrow> ('b, 'w, http_response) handler" where
  "forceAgentLogout_gw h c =
     andThen (need (abortBadRequest c ''invalid agent_id'') (positive_id c)) (\<lambda>agentID.
       admin_call h c ''force_agent_logout''
         (Admin_ForceAgentLogout (upstreams h) (Authorization c) agentID) 200 adminAgentToJSON)"

definition actor_param :: "string \<Rightarrow> uint64 option" where
  "actor_param query = (let raw = TrimSpace query in if raw = [] then Some 0 else ParseUint raw)"

definition listAuditLogs_gw :: "('b, 'w) HTTPHandler \<Rightarrow> unit http_request \<Rightarrow> ('b, 'w, http_response) handler" where
  "listAuditLogs_gw h c =
     andThen (window_or_abort c) (\<lambda>(limit, offset).
     andThen (need (abortBadRequest c ''invalid actor_agent_id'') (actor_param (Query c ''actor_agent_id''))) (\<lambda>actorAgentID.
       admin_call h c ''list_audit_logs''
         (Admin_ListAuditLogs (upstreams h) (Authorization c)
            \<lparr>lai_Limit = int32 limit, lai_Offset = int32 offset, lai_ActorAgentID = actorAgentID,
             lai_Action = Query c ''action'', lai_ResourceType = Query c ''resource_type''\<rparr>)
         200 (items_JSON auditLogToJSON)))"

end
