(* ===== verification/Identity_Laws.thy ===== *)
theory Identity_Laws
  imports Admin_Api
begin

text \<open>
  The invariant of the database that auth-service and admin-service share, and how it evolves:
  \<open>identity_evolves e w w'\<close> is a preorder that says that the invariant is kept, that agents, sites and
  super administrators are never lost or renamed, that the token version of an agent only moves by
  \<open>nextTokenVersion\<close>, at most once per tick, and that the audit log only grows at its end.
\<close>

section \<open>The invariant\<close>

definition sites_inv :: "identity_env \<Rightarrow> identity_world \<Rightarrow> bool" where
  "sites_inv e w \<longleftrightarrow>
     keys_below st_ID (site_seq w) (sites (tables w))
     \<and> distinct (map (\<lambda>s. id_collate e (st_SiteID s)) (sites (tables w)))
     \<and> distinct (map (\<lambda>s. id_collate e (st_WidgetKey s)) (sites (tables w)))
     \<and> (\<forall>s \<in> set (sites (tables w)). st_Domains s = None)"

definition domains_inv :: "identity_env \<Rightarrow> identity_world \<Rightarrow> bool" where
  "domains_inv e w \<longleftrightarrow>
     distinct (map (\<lambda>d. id_collate e (sd_Domain d)) (site_domains (tables w)))
     \<and> (\<forall>d \<in> set (site_domains (tables w)). \<exists>s \<in> set (sites (tables w)). sd_SiteID d = st_SiteID s)"

definition agents_inv :: "identity_env \<Rightarrow> identity_world \<Rightarrow> bool" where
  "agents_inv e w \<longleftrightarrow>
     distinct (map ag_ID (agents (tables w)))
     \<and> distinct (map (\<lambda>a. id_collate e (ag_Email a)) (agents (tables w)))
     \<and> distinct (map (\<lambda>a. id_collate e (ag_DisplayName a)) (agents (tables w)))
     \<and> (\<forall>a \<in> set (agents (tables w)). ag_ID a \<noteq> 0 \<and> ag_Role a = ''agent''
          \<and> (\<exists>s \<in> set (sites (tables w)). id_eq e (st_SiteID s) (ag_SiteID a)))"

definition super_admins_inv :: "identity_env \<Rightarrow> identity_world \<Rightarrow> bool" where
  "super_admins_inv e w \<longleftrightarrow>
     keys_below sa_ID (super_admin_seq w) (super_admins (tables w))
     \<and> distinct (map (\<lambda>a. id_collate e (sa_Email a)) (super_admins (tables w)))"

definition emails_exclusive :: "identity_env \<Rightarrow> identity_world \<Rightarrow> bool" where
  "emails_exclusive e w \<longleftrightarrow>
     (\<forall>a \<in> set (agents (tables w)). \<forall>s \<in> set (super_admins (tables w)). \<not> id_eq e (ag_Email a) (sa_Email s))"

definition ai_inv :: "identity_env \<Rightarrow> identity_world \<Rightarrow> bool" where
  "ai_inv e w \<longleftrightarrow>
     distinct (map (\<lambda>c. id_collate e (ai_SiteID c)) (ai_configs (tables w)))
     \<and> (\<forall>c \<in> set (ai_configs (tables w)). ai_ReplyMode c = SiteAIReplyModeUnassignedAutoReply
          \<and> (\<exists>s \<in> set (sites (tables w)). id_eq e (st_SiteID s) (ai_SiteID c)))"

definition identity_inv :: "identity_env \<Rightarrow> identity_world \<Rightarrow> bool" where
  "identity_inv e w \<longleftrightarrow>
     sites_inv e w \<and> domains_inv e w \<and> agents_inv e w \<and> super_admins_inv e w \<and> emails_exclusive e w \<and> ai_inv e w
     \<and> keys_below al_ID (audit_seq w) (audit_logs (tables w))"

lemmas identity_inv_defs =
  identity_inv_def sites_inv_def domains_inv_def agents_inv_def super_admins_inv_def emails_exclusive_def ai_inv_def

lemma empty_identity_inv: "identity_inv e empty_identity"
  by (simp add: identity_inv_defs empty_identity_def keys_below_def)

section \<open>Evolution\<close>

text \<open>What becomes of an agent when its version has been bumped at most \<open>n\<close> times.\<close>

definition agent_follows :: "nat \<Rightarrow> agent \<Rightarrow> agent \<Rightarrow> bool" where
  "agent_follows n a b \<longleftrightarrow>
     ag_ID b = ag_ID a \<and> ag_Email b = ag_Email a \<and> ag_DisplayName b = ag_DisplayName a
     \<and> ag_SiteID b = ag_SiteID a \<and> ag_Role b = ag_Role a
     \<and> (\<exists>j \<le> n. ag_TokenVersion b = (nextTokenVersion ^^ j) (ag_TokenVersion a)
          \<and> (j = 0 \<longrightarrow> ag_PasswordHash b = ag_PasswordHash a \<and> (ag_Status b = ag_Status a \<or> ag_Status b = ''active'')))"

definition super_admin_follows :: "super_admin \<Rightarrow> super_admin \<Rightarrow> bool" where
  "super_admin_follows a b \<longleftrightarrow>
     sa_ID b = sa_ID a \<and> sa_Email b = sa_Email a
     \<and> normalizeTokenVersion (sa_TokenVersion b) = normalizeTokenVersion (sa_TokenVersion a)"

definition site_follows :: "site_model \<Rightarrow> site_model \<Rightarrow> bool" where
  "site_follows s t \<longleftrightarrow> st_ID t = st_ID s \<and> st_SiteID t = st_SiteID s"

definition identity_grows :: "identity_world \<Rightarrow> identity_world \<Rightarrow> bool" where
  "identity_grows w w' \<longleftrightarrow>
     (\<forall>a \<in> set (agents (tables w)). \<exists>b \<in> set (agents (tables w')). agent_follows (id_tick w' - id_tick w) a b)
     \<and> (\<forall>a \<in> set (super_admins (tables w)). \<exists>b \<in> set (super_admins (tables w')). super_admin_follows a b)
     \<and> (\<forall>s \<in> set (sites (tables w)). \<exists>t \<in> set (sites (tables w')). site_follows s t)
     \<and> (\<exists>ls. audit_logs (tables w') = audit_logs (tables w) @ ls)"

definition identity_evolves :: "identity_env \<Rightarrow> identity_world \<Rightarrow> identity_world \<Rightarrow> bool" where
  "identity_evolves e w w' \<longleftrightarrow>
     id_tick w \<le> id_tick w' \<and> (identity_inv e w \<longrightarrow> identity_inv e w' \<and> identity_grows w w')"

lemma agent_follows_refl: "agent_follows n a a"
  by (auto simp: agent_follows_def intro!: exI [of _ 0])

lemma agent_follows_trans:
  assumes "agent_follows m a b" "agent_follows n b c"
  shows "agent_follows (m + n) a c"
proof -
  from assms(1) obtain i where i: "i \<le> m" "ag_TokenVersion b = (nextTokenVersion ^^ i) (ag_TokenVersion a)"
    "i = 0 \<longrightarrow> ag_PasswordHash b = ag_PasswordHash a \<and> (ag_Status b = ag_Status a \<or> ag_Status b = ''active'')"
    unfolding agent_follows_def by blast
  from assms(2) obtain j where j: "j \<le> n" "ag_TokenVersion c = (nextTokenVersion ^^ j) (ag_TokenVersion b)"
    "j = 0 \<longrightarrow> ag_PasswordHash c = ag_PasswordHash b \<and> (ag_Status c = ag_Status b \<or> ag_Status c = ''active'')"
    unfolding agent_follows_def by blast
  have "ag_TokenVersion c = (nextTokenVersion ^^ (i + j)) (ag_TokenVersion a)"
    using i(2) j(2) by (simp add: funpow_add add.commute [of i])
  moreover have "i + j \<le> m + n" using i(1) j(1) by simp
  moreover have "i + j = 0 \<longrightarrow> ag_PasswordHash c = ag_PasswordHash a \<and> (ag_Status c = ag_Status a \<or> ag_Status c = ''active'')"
    using i(3) j(3) by auto
  ultimately show ?thesis using assms unfolding agent_follows_def by (metis (no_types, lifting))
qed

lemma agent_follows_mono: "agent_follows m a b \<Longrightarrow> m \<le> n \<Longrightarrow> agent_follows n a b"
  unfolding agent_follows_def by (meson order_trans)

lemma grows_refl: "identity_grows w w"
  by (auto simp: identity_grows_def super_admin_follows_def site_follows_def
      intro!: bexI agent_follows_refl)

lemma grows_trans:
  assumes "identity_grows u v" "identity_grows v w" "id_tick u \<le> id_tick v" "id_tick v \<le> id_tick w"
  shows "identity_grows u w"
proof -
  have "\<exists>c \<in> set (agents (tables w)). agent_follows (id_tick w - id_tick u) a c" if a: "a \<in> set (agents (tables u))" for a
  proof -
    from assms(1) a obtain b where b: "b \<in> set (agents (tables v))" "agent_follows (id_tick v - id_tick u) a b"
      unfolding identity_grows_def by blast
    from assms(2) b(1) obtain c where "c \<in> set (agents (tables w))" "agent_follows (id_tick w - id_tick v) b c"
      unfolding identity_grows_def by blast
    with agent_follows_trans [OF b(2) this(2)] assms(3,4) show ?thesis by auto
  qed
  moreover have "\<forall>a \<in> set (super_admins (tables u)). \<exists>b \<in> set (super_admins (tables w)). super_admin_follows a b"
    using assms(1,2) unfolding identity_grows_def super_admin_follows_def by metis
  moreover have "\<forall>s \<in> set (sites (tables u)). \<exists>t \<in> set (sites (tables w)). site_follows s t"
    using assms(1,2) unfolding identity_grows_def site_follows_def by metis
  moreover have "\<exists>ls. audit_logs (tables w) = audit_logs (tables u) @ ls"
    using assms(1,2) unfolding identity_grows_def by fastforce
  ultimately show ?thesis unfolding identity_grows_def by blast
qed

lemma reflp_identity_evolves [simp]: "reflp (identity_evolves e)"
  by (simp add: reflp_def identity_evolves_def grows_refl)

lemma transp_identity_evolves [simp]: "transp (identity_evolves e)"
  unfolding transp_def identity_evolves_def by (meson grows_trans order_trans)

lemmas identity_evolves_refl = reflpD [OF reflp_identity_evolves]
lemmas identity_evolves_trans = transpD [OF transp_identity_evolves]

section \<open>Operations that leave the tables alone\<close>

definition idle :: "identity_world \<Rightarrow> identity_world \<Rightarrow> bool" where
  "idle w w' \<longleftrightarrow> (\<exists>n. w' = w\<lparr>id_tick := id_tick w + n\<rparr>)"

lemma idle_same:
  "idle w w' \<Longrightarrow> tables w' = tables w" "idle w w' \<Longrightarrow> id_tick w \<le> id_tick w'"
  "idle w w' \<Longrightarrow> site_seq w' = site_seq w" "idle w w' \<Longrightarrow> audit_seq w' = audit_seq w"
  "idle w w' \<Longrightarrow> super_admin_seq w' = super_admin_seq w" "idle w w' \<Longrightarrow> site_domain_seq w' = site_domain_seq w"
  by (auto simp: idle_def)

lemma reflp_idle [simp]: "reflp idle"
  by (auto simp: reflp_def idle_def intro!: exI [of _ 0])

lemma transp_idle [simp]: "transp idle"
  by (auto simp: transp_def idle_def add.assoc)

lemma idle_inv: "idle w w' \<Longrightarrow> identity_inv e w' = identity_inv e w"
  by (simp add: identity_inv_defs idle_same)

lemma idle_evolves: "idle w w' \<Longrightarrow> identity_evolves e w w'"
  using grows_refl [of w]
  by (auto simp: identity_evolves_def identity_grows_def idle_inv idle_same intro!: bexI agent_follows_refl)

lemma keeps_idle_evolves: "keeps idle m \<Longrightarrow> keeps (identity_evolves e) m"
  by (auto simp: keeps_def idle_evolves)

lemma idle_advance: "idle w (id_advance w)"
  by (auto simp: idle_def id_advance_def intro!: exI [of _ 1])

lemma idle_calls [keeps_intros]:
  "keeps idle (id_call e)" "keeps idle (id_now e)" "keeps idle (HashPassword e raw cost)"
  "keeps idle (randomHex e prefix n)"
  by (auto simp: keeps_def id_call_def id_now_def HashPassword_def randomHex_def idle_advance)

lemma idle_query [keeps_intros]: "keeps idle (id_query e q)"
  unfolding id_query_def by (intro keeps_intros reflp_idle transp_idle) (simp add: keeps_def reflpD [OF reflp_idle])

lemma idle_reads [keeps_intros]:
  "keeps idle (GetAgentByEmail e m)" "keeps idle (GetAgentRow e i)" "keeps idle (List_agents e n k)"
  "keeps idle (GetSuperAdminByEmail e m)" "keeps idle (GetSuperAdminRow e i)"
  "keeps idle (List_sites e n k)" "keeps idle (GetBySiteID e m)" "keeps idle (GetByDomain e m)"
  "keeps idle (GetAIConfigRow e m)" "keeps idle (List_audit_logs e f n k)"
  unfolding GetAgentByEmail_def GetAgentRow_def List_agents_def GetSuperAdminByEmail_def GetSuperAdminRow_def
    List_sites_def GetBySiteID_def GetByDomain_def GetAIConfigRow_def List_audit_logs_def
  by (rule idle_query)+

lemma idle_parse_any: "keeps idle (parse_any e secrets issuer token lastErr)"
proof (induction e secrets issuer token lastErr rule: parse_any.induct)
  case (1 e issuer token lastErr)
  show ?case by (simp add: keeps_fail)
next
  case (2 e secret secrets issuer token lastErr)
  have "keeps idle (parseTokenWithSecret e secret issuer token)"
    unfolding parseTokenWithSecret_def by (intro keeps_intros reflp_idle transp_idle)
  with 2 show ?case by (auto intro!: keeps_attempt keeps_ok split: sum.splits)
qed

lemma idle_tokens [keeps_intros]:
  "keeps idle (IssueToken e secret issuer expire i email role v)" "keeps idle (ParseTokenAny e secrets issuer token)"
  "keeps idle (ParseToken e s token)" "keeps idle (session_check st c p)" "keeps idle (admin_session_check st c p)"
  unfolding IssueToken_def ParseTokenAny_def ParseToken_def session_check_def admin_session_check_def
  by (intro keeps_intros reflp_idle transp_idle idle_parse_any)+

lemma idle_missing_as [keeps_intros]: "keeps idle m \<Longrightarrow> keeps idle (missing_as err m)"
  unfolding missing_as_def by (rule keeps_map_error)

lemma idle_operations [keeps_intros]:
  "keeps idle (Login e s inp)" "keeps idle (ValidateToken e s token)" "keeps idle (GetAgentByID e i)"
  "keeps idle (GetSiteBySiteID e m)" "keeps idle (GetSiteByDomain e m)" "keeps idle (GetSiteAIConfig e m)"
  "keeps idle (admin_GetAgentByID e i)" "keeps idle (ListAuditLogs e i2)" "keeps idle (ValidateAdminSession e r i v)"
  unfolding Login_def login_agent_def ValidateToken_def GetAgentByID_def GetSiteBySiteID_def GetSiteByDomain_def
    GetSiteAIConfig_def admin_GetAgentByID_def ListAuditLogs_def ValidateAdminSession_def Let_def
  by (intro keeps_intros reflp_idle transp_idle)+

lemma idle_authorisation [keeps_intros]:
  "keeps idle (requireAdmin e srv h)" "keeps idle (validateSessionByRole e c)" "keeps idle (RequireAdmin e srv h)"
  "keeps idle (rpc_Me e s h)" "keeps idle (rpc_Login e s inp)"
  unfolding requireAdmin_def validateSessionByRole_def RequireAdmin_def rpc_Me_def rpc_Login_def Let_def
  by (intro keeps_intros reflp_idle transp_idle)+

end
