(* ===== verification/Identity_System.thy ===== *)
theory Identity_System
  imports Identity_Laws
begin

text \<open>
  The operations of auth-service and admin-service as steps on their database, and what holds along
  every sequence of steps whatever fails on the way.
\<close>

section \<open>Statements\<close>

lemma id_statement_cases:
  assumes "id_statement e s w = (r, w')"
  obtains (failed) err where "r = Inl (Text err)" "idle w w'"
  | (run) now w1 where "idle w w1" "id_tick w < id_tick w1" "s now w1 = (r, w')"
proof (cases "id_fault e (id_tick w)")
  case None
  with assms have "s (id_clock e (Suc (id_tick w))) (id_advance (id_advance w)) = (r, w')"
    by (simp add: id_statement_def andThen_def id_call_def id_now_def) (simp add: id_advance_def)
  moreover have "idle w (id_advance (id_advance w))" by (rule transpD [OF transp_idle idle_advance idle_advance])
  ultimately show ?thesis by (intro run) (simp_all add: id_advance_def)
next
  case (Some err)
  with assms show ?thesis by (intro failed [of err]) (auto simp: id_statement_def andThen_def id_call_def idle_advance)
qed

lemma id_query_cases:
  assumes "id_query e q w = (r, w')"
  obtains (failed) err where "r = Inl (Text err)" "idle w w'"
  | (run) "idle w w'" "r = q w'"
  using assms idle_advance [of w]
  by (cases "id_fault e (id_tick w)") (auto simp: id_query_def andThen_def id_call_def)

text \<open>The counters never go back, not even when a transaction does.\<close>

definition seq_grows :: "identity_world \<Rightarrow> identity_world \<Rightarrow> bool" where
  "seq_grows w w' \<longleftrightarrow> site_seq w \<le> site_seq w' \<and> super_admin_seq w \<le> super_admin_seq w'
     \<and> audit_seq w \<le> audit_seq w' \<and> id_tick w \<le> id_tick w'"

lemma seq_grows_preorder [simp]: "reflp seq_grows" "transp seq_grows"
  by (auto simp: reflp_def transp_def seq_grows_def)

lemma idle_seq_grows: "idle w w' \<Longrightarrow> seq_grows w w'"
  by (simp add: seq_grows_def idle_same)

lemma statement_seq_grows:
  assumes "\<And>now w r w'. s now w = (r, w') \<Longrightarrow> seq_grows w w'"
  shows "keeps seq_grows (id_statement e s)"
proof (rule keepsI)
  fix w r w' assume "id_statement e s w = (r, w')"
  then show "seq_grows w w'"
    by (cases rule: id_statement_cases) (auto intro: transpD [OF seq_grows_preorder(2)] dest: idle_seq_grows assms)
qed

lemma keys_below_seq: "keys_below key m rows \<Longrightarrow> m \<le> n \<Longrightarrow> keys_below key n rows"
  by (auto simp: keys_below_def)

lemma rolled_back_evolves: "tables w' = tables w \<Longrightarrow> seq_grows w w' \<Longrightarrow> identity_evolves e w w'"
  by (auto simp: identity_evolves_def identity_grows_def identity_inv_defs seq_grows_def super_admin_follows_def
      site_follows_def intro!: bexI agent_follows_refl elim: keys_below_seq)

text \<open>A transaction that fails leaves the tables alone; one that succeeds has the effect of its body.\<close>

lemma id_transaction_cases:
  assumes "id_transaction e body w = (r, w')" "keeps seq_grows body"
  obtains (failed) err where "r = Inl err" "tables w' = tables w" "seq_grows w w'"
  | (committed) a w1 w2 where "r = Inr a" "idle w w1" "body w1 = (Inr a, w2)" "idle w2 w'"
proof -
  have undo: "seq_grows v (u\<lparr>tables := t\<rparr>) \<longleftrightarrow> seq_grows v u" for v u t
    by (simp add: seq_grows_def)
  note trans = transpD [OF seq_grows_preorder(2)]
  obtain x1 w1 where 1: "id_call e w = (x1, w1)" by fastforce
  have i1: "idle w w1" using keepsD [OF idle_calls(1) 1] .
  note t1 = idle_same(1) [OF i1]
  obtain x2 w2 where 2: "body w1 = (x2, w2)" by fastforce
  have s2: "seq_grows w w2" by (rule trans [OF idle_seq_grows [OF i1] keepsD [OF assms(2) 2]])
  obtain x3 w3 where 3: "id_call e w2 = (x3, w3)" by fastforce
  have i3: "idle w2 w3" using keepsD [OF idle_calls(1) 3] .
  have s3: "seq_grows w w3" by (rule trans [OF s2 idle_seq_grows [OF i3]])
  show ?thesis
  proof (cases x1)
    case (Inl err)
    with assms(1) 1 i1 t1 show ?thesis
      by (intro failed [of err]) (auto simp: id_transaction_def idle_seq_grows)
  next
    case (Inr u)
    note x1 = this
    show ?thesis
    proof (cases x2)
      case (Inl err)
      with assms(1) 1 2 x1 t1 s2 show ?thesis
        by (intro failed [of err]) (auto simp: id_transaction_def undo)
    next
      case (Inr a)
      note x2 = this
      show ?thesis
      proof (cases x3)
        case (Inl err)
        with assms(1) 1 2 3 x1 x2 t1 s3 show ?thesis
          by (intro failed [of err]) (auto simp: id_transaction_def undo)
      next
        case (Inr v)
        with assms(1) 1 2 3 x1 x2 i1 i3 show ?thesis
          by (intro committed [of a w1 w2]) (auto simp: id_transaction_def)
      qed
    qed
  qed
qed

section \<open>Agents\<close>

lemma Create_agent_cases:
  assumes "Create_agent e a w = (r, w')" "ag_ID a \<noteq> 0" "ag_TokenVersion a \<noteq> 0"
  obtains (failed) err where "r = Inl (Text err)" "idle w w'"
  | (stored) row w1 where "r = Inr row" "idle w w1" "w' = set_agents (agents (tables w) @ [row]) w1"
      "row = a\<lparr>ag_CreatedAt := ag_CreatedAt row, ag_UpdatedAt := ag_UpdatedAt row\<rparr>"
      "\<forall>q \<in> set (agents (tables w)). ag_ID q \<noteq> ag_ID a \<and> \<not> agent_clash e a q"
  using assms(1) unfolding Create_agent_def
proof (cases rule: id_statement_cases)
  case (run now w1)
  with assms(2,3) failed stored [of _ w1] show ?thesis
    by (auto simp: Let_def idle_same split: if_splits)
qed (rule failed)

lemma Save_agent_cases:
  assumes "Save_agent e b w = (r, w')" "\<exists>q \<in> set (agents (tables w)). ag_ID q = ag_ID b"
  obtains (failed) err where "r = Inl (Text err)" "idle w w'"
  | (stored) row w1 where "r = Inr row" "idle w w1" "id_tick w < id_tick w1"
      "w' = set_agents (update_rows (\<lambda>q. ag_ID q = ag_ID b) (\<lambda>_. row) (agents (tables w))) w1"
      "row = b\<lparr>ag_UpdatedAt := ag_UpdatedAt row\<rparr>"
  using assms(1) unfolding Save_agent_def
proof (cases rule: id_statement_cases)
  case (run now w1)
  with assms(2) failed stored [of _ w1] show ?thesis
    by (auto simp: Let_def idle_same split: if_splits)
qed (rule failed)

lemma set_agents_simps [simp]:
  "agents (tables (set_agents rows w)) = rows" "sites (tables (set_agents rows w)) = sites (tables w)"
  "site_domains (tables (set_agents rows w)) = site_domains (tables w)"
  "ai_configs (tables (set_agents rows w)) = ai_configs (tables w)"
  "super_admins (tables (set_agents rows w)) = super_admins (tables w)"
  "audit_logs (tables (set_agents rows w)) = audit_logs (tables w)"
  "site_seq (set_agents rows w) = site_seq w" "super_admin_seq (set_agents rows w) = super_admin_seq w"
  "audit_seq (set_agents rows w) = audit_seq w" "id_tick (set_agents rows w) = id_tick w"
  by (simp_all add: set_agents_def)

lemma Create_agent_evolves:
  assumes "Create_agent e a w = (r, w')" "ag_ID a \<noteq> 0" "ag_TokenVersion a \<noteq> 0" "ag_Role a = ''agent''"
    and "\<forall>s \<in> set (super_admins (tables w)). \<not> id_eq e (ag_Email a) (sa_Email s)"
    and "\<exists>s \<in> set (sites (tables w)). id_eq e (st_SiteID s) (ag_SiteID a)"
  shows "identity_evolves e w w'"
  using assms(1-3)
proof (cases rule: Create_agent_cases)
  case (stored row w1)
  note same = idle_same [OF stored(2)]
  have row: "ag_ID row = ag_ID a" "ag_Role row = ag_Role a" "ag_Email row = ag_Email a"
    "ag_DisplayName row = ag_DisplayName a" "ag_SiteID row = ag_SiteID a"
    by (subst stored(4), simp)+
  have "identity_inv e w'" if "identity_inv e w"
    using that stored(5) assms(2,4-6) row
    by (auto simp: stored(3) identity_inv_defs same agent_clash_def id_eq_def)
  moreover have "identity_grows w w'"
    by (auto simp: stored(3) identity_grows_def same super_admin_follows_def site_follows_def
        intro!: bexI agent_follows_refl)
  ultimately show ?thesis using same(2) by (simp add: identity_evolves_def stored(3))
qed (rule idle_evolves)

lemma Save_agent_evolves:
  assumes "Save_agent e b w = (r, w')" "a \<in> set (agents (tables w))" "agent_follows 1 a b"
  shows "identity_evolves e w w'"
proof -
  have same_id: "ag_ID a = ag_ID b" using assms(3) by (simp add: agent_follows_def)
  with assms(2) have "\<exists>q \<in> set (agents (tables w)). ag_ID q = ag_ID b" by blast
  with assms(1) show ?thesis
  proof (cases rule: Save_agent_cases)
    case (stored row w1)
    note same = idle_same [OF stored(2)]
    let ?rows = "update_rows (\<lambda>q. ag_ID q = ag_ID b) (\<lambda>_. row) (agents (tables w))"
    have row: "agent_follows 1 a row"
      using assms(3) by (subst stored(5)) (auto simp: agent_follows_def)
    have keys: "map f ?rows = map f (agents (tables w))"
      if "distinct (map ag_ID (agents (tables w)))" "f row = f a" for f :: "agent \<Rightarrow> string"
    proof (rule map_update_rows)
      fix q assume "q \<in> set (agents (tables w))" "ag_ID q = ag_ID b"
      then have "q = a" using that(1) same_id assms(2) by (simp add: distinct_map inj_on_def)
      then show "f row = f q" using that(2) by simp
    qed
    have ids: "map ag_ID ?rows = map ag_ID (agents (tables w))"
      using row same_id by (intro map_update_rows) (auto simp: agent_follows_def)
    have mem: "q \<in> set ?rows \<Longrightarrow> q = row \<or> q \<in> set (agents (tables w))" for q
      by (auto simp: update_rows_def)
    have f: "ag_Email row = ag_Email a" "ag_DisplayName row = ag_DisplayName a" "ag_ID row = ag_ID a"
      "ag_Role row = ag_Role a" "ag_SiteID row = ag_SiteID a"
      using row by (simp_all add: agent_follows_def)
    have "identity_inv e w'" if inv: "identity_inv e w"
    proof -
      have d: "distinct (map ag_ID (agents (tables w)))" using inv by (simp add: identity_inv_defs)
      have "agents_inv e w'"
        using inv assms(2) f mem unfolding stored(4) identity_inv_def agents_inv_def
        by (simp add: same keys [OF d] ids) metis
      moreover have "emails_exclusive e w'"
        using inv assms(2) f mem unfolding stored(4) identity_inv_def emails_exclusive_def by (simp add: same) metis
      ultimately show ?thesis using inv by (simp add: stored(4) identity_inv_defs same)
    qed
    moreover have "identity_grows w w'" if inv: "identity_inv e w"
    proof -
      have d: "inj_on ag_ID (set (agents (tables w)))" using inv by (simp add: identity_inv_defs distinct_map)
      have step: "agent_follows (id_tick w1 - id_tick w) q (if ag_ID q = ag_ID b then row else q)"
        if "q \<in> set (agents (tables w))" for q
        using that row stored(3) same_id inj_onD [OF d _ that assms(2)]
        by (auto intro: agent_follows_refl agent_follows_mono [where m = 1])
      then show ?thesis
        by (auto simp: stored(4) identity_grows_def same super_admin_follows_def site_follows_def
            intro: bexI [OF _ update_rows_mem])
    qed
    ultimately show ?thesis using same(2) by (simp add: identity_evolves_def stored(4))
  qed (rule idle_evolves)
qed

section \<open>Super administrators\<close>

lemma set_super_admins_simps [simp]:
  "super_admins (tables (set_super_admins rows w)) = rows" "agents (tables (set_super_admins rows w)) = agents (tables w)"
  "sites (tables (set_super_admins rows w)) = sites (tables w)"
  "site_domains (tables (set_super_admins rows w)) = site_domains (tables w)"
  "ai_configs (tables (set_super_admins rows w)) = ai_configs (tables w)"
  "audit_logs (tables (set_super_admins rows w)) = audit_logs (tables w)"
  "site_seq (set_super_admins rows w) = site_seq w" "super_admin_seq (set_super_admins rows w) = super_admin_seq w"
  "audit_seq (set_super_admins rows w) = audit_seq w" "id_tick (set_super_admins rows w) = id_tick w"
  by (simp_all add: set_super_admins_def)

lemma Create_super_admin_cases:
  assumes "Create_super_admin e a w = (r, w')" "sa_ID a = 0" "sa_TokenVersion a \<noteq> 0"
  obtains (failed) err where "r = Inl (Text err)" "idle w w'"
  | (stored) row w1 where "r = Inr row" "idle w w1"
      "w' = (set_super_admins (super_admins (tables w) @ [row]) w1)
              \<lparr>super_admin_seq := max (super_admin_seq w) (Suc (super_admin_seq w))\<rparr>"
      "row = a\<lparr>sa_ID := super_admin_seq w, sa_CreatedAt := sa_CreatedAt row, sa_UpdatedAt := sa_UpdatedAt row\<rparr>"
      "\<forall>q \<in> set (super_admins (tables w)). \<not> id_eq e (sa_Email q) (sa_Email a)"
  using assms(1) unfolding Create_super_admin_def
proof (cases rule: id_statement_cases)
  case (run now w1)
  with assms(2,3) failed stored [of _ w1] show ?thesis
    by (auto simp: Let_def idle_same split: if_splits)
qed (rule failed)

lemma Create_super_admin_evolves:
  assumes "Create_super_admin e a w = (r, w')" "sa_ID a = 0" "sa_TokenVersion a \<noteq> 0"
    and "\<forall>q \<in> set (agents (tables w)). \<not> id_eq e (ag_Email q) (sa_Email a)"
  shows "identity_evolves e w w'"
  using assms(1-3)
proof (cases rule: Create_super_admin_cases)
  case (stored row w1)
  note same = idle_same [OF stored(2)]
  have row: "sa_ID row = super_admin_seq w" "sa_Email row = sa_Email a"
    by (subst stored(4), simp)+
  have "identity_inv e w'" if "identity_inv e w"
    using that stored(5) assms(4) row keys_below_append [of sa_ID "super_admin_seq w" _ row]
    by (auto simp: stored(3) identity_inv_defs same id_eq_def)
  moreover have "identity_grows w w'"
    by (auto simp: stored(3) identity_grows_def same super_admin_follows_def site_follows_def
        intro!: bexI agent_follows_refl)
  ultimately show ?thesis using same(2) by (simp add: identity_evolves_def stored(3))
qed (rule idle_evolves)

lemma Save_super_admin_cases:
  assumes "Save_super_admin e b w = (r, w')" "\<exists>q \<in> set (super_admins (tables w)). sa_ID q = sa_ID b"
  obtains (failed) err where "r = Inl (Text err)" "idle w w'"
  | (stored) row w1 where "r = Inr row" "idle w w1"
      "w' = set_super_admins (update_rows (\<lambda>q. sa_ID q = sa_ID b) (\<lambda>_. row) (super_admins (tables w))) w1"
      "row = b\<lparr>sa_UpdatedAt := sa_UpdatedAt row\<rparr>"
  using assms(1) unfolding Save_super_admin_def
proof (cases rule: id_statement_cases)
  case (run now w1)
  with assms(2) failed stored [of _ w1] show ?thesis
    by (auto simp: Let_def idle_same split: if_splits)
qed (rule failed)

lemma Save_super_admin_evolves:
  assumes "Save_super_admin e b w = (r, w')" "a \<in> set (super_admins (tables w))" "super_admin_follows a b"
  shows "identity_evolves e w w'"
proof -
  have same_id: "sa_ID a = sa_ID b" using assms(3) by (simp add: super_admin_follows_def)
  with assms(2) have "\<exists>q \<in> set (super_admins (tables w)). sa_ID q = sa_ID b" by blast
  with assms(1) show ?thesis
  proof (cases rule: Save_super_admin_cases)
    case (stored row w1)
    note same = idle_same [OF stored(2)]
    let ?rows = "update_rows (\<lambda>q. sa_ID q = sa_ID b) (\<lambda>_. row) (super_admins (tables w))"
    have row: "super_admin_follows a row"
      using assms(3) by (subst stored(4)) (simp add: super_admin_follows_def)
    have uniq: "q = a" if "q \<in> set (super_admins (tables w))" "sa_ID q = sa_ID b" "identity_inv e w" for q
      using that assms(2) same_id by (auto simp: identity_inv_defs dest: keys_below_inj)
    have "super_admins_inv e w'" if inv: "identity_inv e w"
    proof -
      have "map (\<lambda>q. id_collate e (sa_Email q)) ?rows = map (\<lambda>q. id_collate e (sa_Email q)) (super_admins (tables w))"
        using row uniq [OF _ _ inv] by (intro map_update_rows) (auto simp: super_admin_follows_def)
      moreover have "map sa_ID ?rows = map sa_ID (super_admins (tables w))"
        using row same_id by (intro map_update_rows) (auto simp: super_admin_follows_def)
      then have "keys_below sa_ID n ?rows = keys_below sa_ID n (super_admins (tables w))" for n
        by (rule keys_below_cong)
      ultimately show ?thesis using inv by (simp add: stored(3) identity_inv_def super_admins_inv_def same)
    qed
    moreover have "emails_exclusive e w'" if "identity_inv e w"
      using that assms(2) row unfolding stored(3) identity_inv_def emails_exclusive_def
      by (auto simp: same update_rows_def super_admin_follows_def)
    ultimately have "identity_inv e w'" if "identity_inv e w"
      using that by (simp add: stored(3) identity_inv_def sites_inv_def domains_inv_def agents_inv_def ai_inv_def same)
    moreover have "identity_grows w w'" if inv: "identity_inv e w"
    proof -
      have "super_admin_follows q (if sa_ID q = sa_ID b then row else q)" if "q \<in> set (super_admins (tables w))" for q
        using row uniq [OF that _ inv] by (auto simp: super_admin_follows_def)
      then show ?thesis
        by (auto simp: stored(3) identity_grows_def same site_follows_def
            intro: bexI [OF _ update_rows_mem] intro!: bexI [where P = "agent_follows _ _"] agent_follows_refl)
    qed
    ultimately show ?thesis using same(2) by (simp add: identity_evolves_def stored(3))
  qed (rule idle_evolves)
qed

section \<open>Sites\<close>

definition with_sites :: "site_model list \<Rightarrow> nat \<Rightarrow> identity_world \<Rightarrow> identity_world" where
  "with_sites rows n w = (set_sites rows w)\<lparr>site_seq := n\<rparr>"

lemma with_sites_simps [simp]:
  "sites (tables (with_sites rows n w)) = rows" "agents (tables (with_sites rows n w)) = agents (tables w)"
  "super_admins (tables (with_sites rows n w)) = super_admins (tables w)"
  "site_domains (tables (with_sites rows n w)) = site_domains (tables w)"
  "ai_configs (tables (with_sites rows n w)) = ai_configs (tables w)"
  "audit_logs (tables (with_sites rows n w)) = audit_logs (tables w)"
  "site_seq (with_sites rows n w) = n" "super_admin_seq (with_sites rows n w) = super_admin_seq w"
  "audit_seq (with_sites rows n w) = audit_seq w" "id_tick (with_sites rows n w) = id_tick w"
  by (simp_all add: with_sites_def set_sites_def)

lemma insert_site_cases:
  assumes "insert_site e s w = (r, w')"
  obtains (failed) err where "r = Inl (Text err)" "idle w w'"
  | (stored) s' w1 where "r = Inr s'" "idle w w1"
      "w' = with_sites (sites (tables w) @ [site_columns s']) (Suc (site_seq w)) w1"
      "s' = s\<lparr>st_ID := site_seq w, st_CreatedAt := st_CreatedAt s', st_UpdatedAt := st_UpdatedAt s'\<rparr>"
      "\<forall>q \<in> set (sites (tables w)). \<not> site_clash e s q"
  using assms unfolding insert_site_def
proof (cases rule: id_statement_cases)
  case (run now w1)
  with failed stored [of _ w1] show ?thesis
    by (auto simp: Let_def idle_same with_sites_def split: if_splits)
qed (rule failed)

lemma update_site_cases:
  assumes "update_site e s w = (r, w')" "\<exists>q \<in> set (sites (tables w)). st_ID q = st_ID s"
  obtains (failed) err where "r = Inl (Text err)" "idle w w'"
  | (stored) s' w1 where "r = Inr s'" "idle w w1"
      "w' = with_sites (update_rows (\<lambda>q. st_ID q = st_ID s) (\<lambda>_. site_columns s') (sites (tables w))) (site_seq w) w1"
      "s' = s\<lparr>st_UpdatedAt := st_UpdatedAt s'\<rparr>"
      "\<forall>q \<in> set (sites (tables w)). st_ID q \<noteq> st_ID s \<longrightarrow> \<not> site_clash e s q"
  using assms(1) unfolding update_site_def
proof (cases rule: id_statement_cases)
  case (run now w1)
  show ?thesis
  proof (cases r)
    case (Inl err)
    with run assms(2) show ?thesis by (auto simp: Let_def split: if_splits intro: failed)
  next
    case (Inr s')
    with run assms(2) show ?thesis
      by (intro stored [of s' w1]) (auto simp: Let_def idle_same with_sites_def set_sites_def split: if_splits)
  qed
qed (rule failed)

lemma stamped_domains:
  "map sd_Domain (map (\<lambda>(k, d). d\<lparr>sd_ID := n + k, sd_CreatedAt := t, sd_UpdatedAt := t\<rparr>) (zip [0..<length items] items))
   = map sd_Domain items"
proof -
  have "map sd_Domain (map (\<lambda>(k, d). d\<lparr>sd_ID := n + k, sd_CreatedAt := t, sd_UpdatedAt := t\<rparr>) (zip [0..<length items] items))
      = map sd_Domain (map snd (zip [0..<length items] items))"
    unfolding map_map by (rule map_cong) auto
  also have "map snd (zip [0..<length items] items) = items" by (rule map_snd_zip) simp
  finally show ?thesis .
qed

text \<open>What the synchronisation of the domains of a site does when it succeeds.\<close>

lemma sync_ok:
  assumes "syncSiteDomainsTx e i ds w = (Inr u, w')"
  obtains rows where
    "w' = w\<lparr>tables := (tables w)\<lparr>site_domains := filter (\<lambda>d. \<not> id_eq e (sd_SiteID d) i) (site_domains (tables w)) @ rows\<rparr>,
           site_domain_seq := site_domain_seq w', id_tick := id_tick w'\<rparr>"
    "id_tick w \<le> id_tick w'" "map sd_Domain rows = ds" "\<forall>d \<in> set rows. sd_SiteID d = i"
    "distinct (map (\<lambda>d. id_collate e (sd_Domain d)) (site_domains (tables w))) \<longrightarrow>
       distinct (map (\<lambda>d. id_collate e (sd_Domain d)) (site_domains (tables w')))"
proof -
  let ?old = "filter (\<lambda>d. \<not> id_eq e (sd_SiteID d) i) (site_domains (tables w))"
  let ?items = "buildSiteDomainModels i ds"
  from assms obtain v w1 where 1: "delete_domains e i w = (Inr v, w1)"
    and 2: "(if ?items = [] then ok () else insert_domains e ?items) w1 = (Inr u, w')"
    by (auto simp: syncSiteDomainsTx_def Let_def run_andThen)
  from 1 have "w1 = w\<lparr>tables := (tables w)\<lparr>site_domains := ?old\<rparr>, id_tick := id_tick w1\<rparr> \<and> id_tick w \<le> id_tick w1"
    unfolding delete_domains_def
    by (cases rule: id_statement_cases) (auto simp: idle_def set_domains_def)
  then obtain k where w1: "w1 = w\<lparr>tables := (tables w)\<lparr>site_domains := ?old\<rparr>, id_tick := k\<rparr>" "id_tick w \<le> k" by blast
  have len: "length ?items = length ds" by (simp add: buildSiteDomainModels_def)
  show ?thesis
  proof (cases "ds = []")
    case True
    with 2 have "w' = w1" by (simp add: buildSiteDomainModels_def)
    with w1 True show ?thesis by (intro that [of "[]"]) (simp_all add: distinct_map_filter)
  next
    case False
    with len have "?items \<noteq> []" by (cases ds) (auto simp: buildSiteDomainModels_def)
    with 2 have "insert_domains e ?items w1 = (Inr u, w')" by simp
    then show ?thesis
      unfolding insert_domains_def
    proof (cases rule: id_statement_cases)
      case (run now w2)
      have t: "tables w2 = tables w1" "site_domain_seq w2 = site_domain_seq w1" "id_tick w1 \<le> id_tick w2"
        using run(1) by (simp_all add: idle_same)
      let ?rows = "map (\<lambda>(k, d). d\<lparr>sd_ID := site_domain_seq w2 + k, sd_CreatedAt := now, sd_UpdatedAt := now\<rparr>)
          (zip [0..<length ?items] ?items)"
      from run(3) have d: "distinct (map (\<lambda>d. id_collate e (sd_Domain d)) (site_domains (tables w2) @ ?items))"
        and w': "w' = (set_domains (site_domains (tables w2) @ ?rows) w2)\<lparr>site_domain_seq := site_domain_seq w2 + length ?items\<rparr>"
        by (auto simp: Let_def split: if_splits)
      have dom: "map sd_Domain ?rows = map sd_Domain ?items"
        by (rule stamped_domains)
      have items: "map sd_Domain ?items = ds" by (simp add: buildSiteDomainModels_def comp_def)
      have site: "\<forall>d \<in> set ?rows. sd_SiteID d = i"
        by (auto simp: buildSiteDomainModels_def set_zip)
      have "map (\<lambda>d. id_collate e (sd_Domain d)) ?rows = map (id_collate e) (map sd_Domain ?rows)" by (simp add: comp_def)
      also have "\<dots> = map (\<lambda>d. id_collate e (sd_Domain d)) ?items" unfolding dom by (simp add: comp_def)
      finally have "distinct (map (\<lambda>d. id_collate e (sd_Domain d)) (site_domains (tables w')))"
        using d by (simp add: w' set_domains_def)
      moreover from run(1) w1 have
        "w' = w\<lparr>tables := (tables w)\<lparr>site_domains := ?old @ ?rows\<rparr>, site_domain_seq := site_domain_seq w', id_tick := id_tick w'\<rparr>"
        "id_tick w \<le> id_tick w'"
        unfolding w' by (auto simp: set_domains_def idle_def)
      ultimately show ?thesis using that [of ?rows] dom items site by simp
    qed auto
  qed
qed

lemma sync_evolves:
  assumes "syncSiteDomainsTx e i ds w = (Inr u, w')" "\<exists>s \<in> set (sites (tables w)). st_SiteID s = i"
  shows "identity_evolves e w w'"
proof -
  from assms(1) obtain rows k m where w': "w' = w\<lparr>tables := (tables w)\<lparr>site_domains :=
      filter (\<lambda>d. \<not> id_eq e (sd_SiteID d) i) (site_domains (tables w)) @ rows\<rparr>, site_domain_seq := m, id_tick := k\<rparr>"
    and rows: "id_tick w \<le> k" "\<forall>d \<in> set rows. sd_SiteID d = i"
    and d: "distinct (map (\<lambda>d. id_collate e (sd_Domain d)) (site_domains (tables w))) \<longrightarrow>
       distinct (map (\<lambda>d. id_collate e (sd_Domain d)) (site_domains (tables w')))"
    by (metis sync_ok)
  have "domains_inv e w'" if "identity_inv e w"
    using that d rows(2) assms(2) by (auto simp: identity_inv_def domains_inv_def w')
  then have "identity_inv e w'" if "identity_inv e w"
    using that by (simp add: identity_inv_def sites_inv_def agents_inv_def super_admins_inv_def emails_exclusive_def
        ai_inv_def w')
  moreover have "identity_grows w w'"
    by (auto simp: w' identity_grows_def super_admin_follows_def site_follows_def intro!: bexI agent_follows_refl)
  ultimately show ?thesis using rows(1) by (simp add: identity_evolves_def w')
qed

lemma site_columns_simps [simp]:
  "st_ID (site_columns s) = st_ID s" "st_SiteID (site_columns s) = st_SiteID s"
  "st_WidgetKey (site_columns s) = st_WidgetKey s" "st_Domains (site_columns s) = None"
  by (simp_all add: site_columns_def)

lemma insert_site_evolves:
  assumes "insert_site e s w = (r, w')"
  shows "identity_evolves e w w'"
  using assms
proof (cases rule: insert_site_cases)
  case (stored s' w1)
  note same = idle_same [OF stored(2)]
  have row: "st_ID s' = site_seq w" "st_SiteID s' = st_SiteID s" "st_WidgetKey s' = st_WidgetKey s"
    by (subst stored(4), simp)+
  have "identity_inv e w'" if "identity_inv e w"
    using that stored(5) row keys_below_append [of st_ID "site_seq w" _ "site_columns s'"]
    by (auto simp: stored(3) identity_inv_defs same id_eq_def site_clash_def)
  moreover have "identity_grows w w'"
    by (auto simp: stored(3) identity_grows_def same super_admin_follows_def site_follows_def
        intro!: bexI agent_follows_refl)
  ultimately show ?thesis using same(2) by (simp add: identity_evolves_def stored(3))
qed (rule idle_evolves)

lemma update_site_evolves:
  assumes "update_site e s w = (r, w')" "s0 \<in> set (sites (tables w))" "site_follows s0 s"
  shows "identity_evolves e w w'"
proof -
  have ids: "st_ID s0 = st_ID s" "st_SiteID s0 = st_SiteID s" using assms(3) by (simp_all add: site_follows_def)
  with assms(2) have "\<exists>q \<in> set (sites (tables w)). st_ID q = st_ID s" by blast
  with assms(1) show ?thesis
  proof (cases rule: update_site_cases)
    case (stored s' w1)
    note same = idle_same [OF stored(2)]
    let ?rows = "update_rows (\<lambda>q. st_ID q = st_ID s) (\<lambda>_. site_columns s') (sites (tables w))"
    have row: "st_ID s' = st_ID s" "st_SiteID s' = st_SiteID s" "st_WidgetKey s' = st_WidgetKey s"
      by (subst stored(4), simp)+
    have uniq: "q = s0" if "q \<in> set (sites (tables w))" "st_ID q = st_ID s" "identity_inv e w" for q
      using that assms(2) ids by (auto simp: identity_inv_defs dest: keys_below_inj)
    have keep: "map st_SiteID ?rows = map st_SiteID (sites (tables w))" if inv: "identity_inv e w"
      using row ids uniq [OF _ _ inv] by (intro map_update_rows) auto
    have "map st_ID ?rows = map st_ID (sites (tables w))"
      using row by (intro map_update_rows) auto
    then have keys: "keys_below st_ID n ?rows = keys_below st_ID n (sites (tables w))" for n
      by (rule keys_below_cong)
    have carry: "\<exists>q \<in> set ?rows. P (st_SiteID q)"
      if "\<exists>q \<in> set (sites (tables w)). P (st_SiteID q)" "identity_inv e w" for P
    proof -
      from that(1) obtain q where "q \<in> set (sites (tables w))" and q: "P (st_SiteID q)" by blast
      then have "st_SiteID q \<in> set (map st_SiteID (sites (tables w)))" by simp
      then show ?thesis unfolding keep [OF that(2), symmetric] using q by auto
    qed
    have "sites_inv e w'" if inv: "identity_inv e w"
    proof -
      have k: "keys_below st_ID (site_seq w) (sites (tables w))" using inv by (simp add: identity_inv_defs)
      have "distinct (map (\<lambda>q. id_collate e (st_WidgetKey q)) ?rows)"
        using keys_below_distinct [OF k] inv stored(5) row
        by (intro distinct_update_rows) (auto simp: identity_inv_defs site_clash_def id_eq_def)
      moreover have "distinct (map (\<lambda>q. id_collate e (st_SiteID q)) ?rows)"
        using keys_below_distinct [OF k] inv stored(5) row
        by (intro distinct_update_rows) (auto simp: identity_inv_defs site_clash_def id_eq_def)
      ultimately show ?thesis
        using inv keys by (auto simp: stored(3) identity_inv_def sites_inv_def same update_rows_def)
    qed
    moreover have "domains_inv e w'" if inv: "identity_inv e w"
      using inv by (simp add: stored(3) identity_inv_def domains_inv_def same)
        (intro ballI carry [OF _ inv, where P = "(=) _"]; simp)
    moreover have "agents_inv e w'" if inv: "identity_inv e w"
      using inv by (simp add: stored(3) identity_inv_def agents_inv_def same)
        (intro ballI carry [OF _ inv, where P = "\<lambda>x. id_eq e x _"]; simp)
    moreover have "ai_inv e w'" if inv: "identity_inv e w"
      using inv by (simp add: stored(3) identity_inv_def ai_inv_def same)
        (intro ballI carry [OF _ inv, where P = "\<lambda>x. id_eq e x _"]; simp)
    ultimately have "identity_inv e w'" if "identity_inv e w"
      using that by (simp add: stored(3) identity_inv_def super_admins_inv_def emails_exclusive_def same)
    moreover have "identity_grows w w'" if inv: "identity_inv e w"
    proof -
      have "site_follows q (if st_ID q = st_ID s then site_columns s' else q)" if "q \<in> set (sites (tables w))" for q
        using row ids uniq [OF that _ inv] by (auto simp: site_follows_def)
      then show ?thesis
        by (auto simp: stored(3) identity_grows_def same super_admin_follows_def
            intro: bexI [OF _ update_rows_mem] intro!: bexI [where P = "agent_follows _ _"] agent_follows_refl)
    qed
    ultimately show ?thesis using same(2) by (simp add: identity_evolves_def stored(3))
  qed (rule idle_evolves)
qed

lemma site_seq_grows:
  "keeps seq_grows (insert_site e s)" "keeps seq_grows (update_site e s)" "keeps seq_grows (syncSiteDomainsTx e i ds)"
proof -
  show "keeps seq_grows (insert_site e s)" "keeps seq_grows (update_site e s)"
    unfolding insert_site_def update_site_def
    by (intro statement_seq_grows, auto simp: seq_grows_def set_sites_def Let_def split: if_splits)+
  have "keeps seq_grows (delete_domains e i)" "keeps seq_grows (insert_domains e items)" for items
    unfolding delete_domains_def insert_domains_def
    by (intro statement_seq_grows, auto simp: seq_grows_def set_domains_def Let_def split: if_splits)+
  then show "keeps seq_grows (syncSiteDomainsTx e i ds)"
    unfolding syncSiteDomainsTx_def Let_def by (intro keeps_intros seq_grows_preorder)
qed

lemma Create_site_evolves:
  assumes "Create_site e s w = (r, w')"
  shows "identity_evolves e w w'"
proof -
  have "keeps seq_grows (andThen (insert_site e s) (\<lambda>s'. andThen (syncSiteDomainsTx e (st_SiteID s') (domains_of s')) (\<lambda>_. ok s')))"
    by (intro keeps_intros seq_grows_preorder site_seq_grows)
  with assms show ?thesis unfolding Create_site_def
  proof (cases rule: id_transaction_cases)
    case (committed a w1 w2)
    then obtain u w3 where 1: "insert_site e s w1 = (Inr a, w3)" and
      2: "syncSiteDomainsTx e (st_SiteID a) (domains_of a) w3 = (Inr u, w2)" by (auto simp: runs)
    from 1 have "\<exists>q \<in> set (sites (tables w3)). st_SiteID q = st_SiteID a" by (cases rule: insert_site_cases) auto
    from sync_evolves [OF 2 this] insert_site_evolves [OF 1] committed(2,4) show ?thesis
      by (meson identity_evolves_trans idle_evolves)
  qed (rule rolled_back_evolves)
qed

lemma Save_site_evolves:
  assumes "Save_site e s w = (r, w')" "s0 \<in> set (sites (tables w))" "site_follows s0 s"
  shows "identity_evolves e w w'"
proof (cases "st_Domains s")
  case None
  with assms show ?thesis by (simp add: Save_site_def update_site_evolves)
next
  case (Some ds)
  have seq: "keeps seq_grows (andThen (update_site e s) (\<lambda>s'. andThen (syncSiteDomainsTx e (st_SiteID s') ds) (\<lambda>_. ok s')))"
    by (intro keeps_intros seq_grows_preorder site_seq_grows)
  have "id_transaction e (andThen (update_site e s) (\<lambda>s'. andThen (syncSiteDomainsTx e (st_SiteID s') ds) (\<lambda>_. ok s'))) w = (r, w')"
    using assms(1) Some by (simp add: Save_site_def)
  from this seq show ?thesis
  proof (cases rule: id_transaction_cases)
    case (committed a w1 w2)
    then obtain u w3 where 1: "update_site e s w1 = (Inr a, w3)" and
      2: "syncSiteDomainsTx e (st_SiteID a) ds w3 = (Inr u, w2)" by (auto simp: runs)
    have s0: "s0 \<in> set (sites (tables w1))" using assms(2) committed(2) by (simp add: idle_same)
    moreover have "st_ID s0 = st_ID s" using assms(3) by (simp add: site_follows_def)
    ultimately have ex: "\<exists>q \<in> set (sites (tables w1)). st_ID q = st_ID s" by blast
    from 1 ex have "\<exists>q \<in> set (sites (tables w3)). st_SiteID q = st_SiteID a"
    proof (cases rule: update_site_cases)
      case (stored s' v)
      from ex obtain q where "q \<in> set (sites (tables w1))" "st_ID q = st_ID s" by blast
      then have "site_columns s' \<in> set (sites (tables w3))"
        using update_rows_mem [of q "sites (tables w1)" "\<lambda>q. st_ID q = st_ID s" "\<lambda>_. site_columns s'"] stored(3) by simp
      with stored(1) show ?thesis by (intro bexI [of _ "site_columns s'"]) simp_all
    qed simp
    from sync_evolves [OF 2 this] update_site_evolves [OF 1 s0 assms(3)] committed(2,4) show ?thesis
      by (meson identity_evolves_trans idle_evolves)
  qed (rule rolled_back_evolves)
qed

section \<open>AI configurations and the audit log\<close>

lemma Upsert_evolves:
  assumes "Upsert e c w = (r, w')" "ai_ReplyMode c = SiteAIReplyModeUnassignedAutoReply"
  shows "identity_evolves e w w'"
  using assms(1) unfolding Upsert_def
proof (cases rule: id_statement_cases)
  case (run now w1)
  note same = idle_same [OF run(1)]
  show ?thesis
  proof (cases r)
    case (Inl err)
    with run show ?thesis by (auto simp: Let_def split: if_splits intro: idle_evolves)
  next
    case (Inr u)
    with run(3) obtain rows where w': "w' = set_ai_configs rows w1" and
      rows: "rows = update_rows (\<lambda>q. id_eq e (ai_SiteID q) (ai_SiteID c)) (ai_upsert_row now c) (ai_configs (tables w))
        \<or> (\<exists>row. rows = ai_configs (tables w) @ [row] \<and> ai_SiteID row = ai_SiteID c \<and> ai_ReplyMode row = ai_ReplyMode c
            \<and> (\<forall>q \<in> set (ai_configs (tables w)). \<not> id_eq e (ai_SiteID q) (ai_SiteID c))
            \<and> (\<exists>q \<in> set (sites (tables w)). id_eq e (st_SiteID q) (ai_SiteID c)))"
      by (auto simp: Let_def same split: if_splits)
    have up: "ai_SiteID (ai_upsert_row now c q) = ai_SiteID q" for q by (simp add: ai_upsert_row_def)
    have "map ai_SiteID (update_rows P (ai_upsert_row now c) qs) = map ai_SiteID qs" for P qs
      by (rule map_update_rows) (rule up)
    then have "map (id_collate e) (map ai_SiteID (update_rows P (ai_upsert_row now c) qs))
        = map (id_collate e) (map ai_SiteID qs)" for P qs by simp
    then have keys: "map (\<lambda>q. id_collate e (ai_SiteID q)) (update_rows P (ai_upsert_row now c) qs)
        = map (\<lambda>q. id_collate e (ai_SiteID q)) qs" for P qs
      by (simp add: comp_def)
    have "ai_inv e w'" if "identity_inv e w"
      using that rows
    proof (elim disjE exE conjE)
      assume u: "rows = update_rows (\<lambda>q. id_eq e (ai_SiteID q) (ai_SiteID c)) (ai_upsert_row now c) (ai_configs (tables w))"
      with that assms(2) show ?thesis
        by (auto simp: w' identity_inv_def ai_inv_def set_ai_configs_def same keys set_update_rows ai_upsert_row_def)
    next
      fix row assume "rows = ai_configs (tables w) @ [row]" "ai_SiteID row = ai_SiteID c" "ai_ReplyMode row = ai_ReplyMode c"
        "\<forall>q \<in> set (ai_configs (tables w)). \<not> id_eq e (ai_SiteID q) (ai_SiteID c)"
        "\<exists>q \<in> set (sites (tables w)). id_eq e (st_SiteID q) (ai_SiteID c)"
      with that assms(2) show ?thesis
        by (auto simp: w' identity_inv_def ai_inv_def set_ai_configs_def same id_eq_def)
    qed
    then have "identity_inv e w'" if "identity_inv e w"
      using that by (simp add: w' identity_inv_def sites_inv_def domains_inv_def agents_inv_def super_admins_inv_def
          emails_exclusive_def set_ai_configs_def same)
    moreover have "identity_grows w w'"
      by (auto simp: w' set_ai_configs_def identity_grows_def same super_admin_follows_def site_follows_def
          intro!: bexI agent_follows_refl)
    ultimately show ?thesis using same(2) by (simp add: identity_evolves_def w' set_ai_configs_def)
  qed
qed (rule idle_evolves)

lemma Create_audit_log_evolves: "keeps (identity_evolves e) (Create_audit_log e l)"
proof (rule keepsI)
  fix w r w' assume "Create_audit_log e l w = (r, w')"
  then show "identity_evolves e w w'" unfolding Create_audit_log_def
  proof (cases rule: id_statement_cases)
    case (run now w1)
    note same = idle_same [OF run(1)]
    have w': "w' = (set_audit_logs (audit_logs (tables w) @ [l\<lparr>al_ID := audit_seq w, al_CreatedAt := now\<rparr>]) w1)
        \<lparr>audit_seq := Suc (audit_seq w)\<rparr>" using run(3) same by simp
    have "identity_inv e w'" if "identity_inv e w"
      using that keys_below_append [of al_ID "audit_seq w" "audit_logs (tables w)" "l\<lparr>al_ID := audit_seq w, al_CreatedAt := now\<rparr>"]
      by (simp add: w' set_audit_logs_def identity_inv_defs same)
    moreover have "identity_grows w w'"
      by (auto simp: w' set_audit_logs_def identity_grows_def same super_admin_follows_def site_follows_def
          intro!: bexI agent_follows_refl)
    ultimately show ?thesis using same(2) by (simp add: identity_evolves_def w' set_audit_logs_def)
  qed (rule idle_evolves)
qed

lemma writeAuditLog_evolves: "keeps (identity_evolves e) (writeAuditLog e actor action t i summary)"
  unfolding writeAuditLog_def
  by (intro keeps_intros Create_audit_log_evolves reflp_identity_evolves)

end
