(* ===== verification/Identity_Steps.thy ===== *)
theory Identity_Steps
  imports Identity_System
begin

text \<open>
  The operations of auth-service and admin-service as steps, and the promises that hold along every
  sequence of them: the invariant of the database, the lasting revocation of sessions, the exclusive
  ownership of domains and the authorisation of every change.
\<close>

section \<open>Operations\<close>

text \<open>A run of \<open>m\<close> from \<open>w\<close>, failed or not, evolves the database.\<close>

definition advances :: "identity_env \<Rightarrow> 'a ieff \<Rightarrow> identity_world \<Rightarrow> bool" where
  "advances e m w \<longleftrightarrow> (\<forall>r w'. m w = (r, w') \<longrightarrow> identity_evolves e w w')"

named_theorems advances_intros \<open>rules for runs that evolve the database\<close>

lemma advancesD: "advances e m w \<Longrightarrow> m w = (r, w') \<Longrightarrow> identity_evolves e w w'"
  by (simp add: advances_def)

lemma advances_keeps: "keeps (identity_evolves e) m \<Longrightarrow> advances e m w"
  by (simp add: advances_def keeps_def)

lemma advances_idle: "keeps idle m \<Longrightarrow> advances e m w"
  by (simp add: advances_keeps keeps_idle_evolves)

lemma advances_then:
  assumes "keeps idle m" "\<And>a w1. m w = (Inr a, w1) \<Longrightarrow> idle w w1 \<Longrightarrow> advances e (k a) w1"
  shows "advances e (andThen m k) w"
  unfolding advances_def
proof (intro allI impI)
  fix r w' assume run: "andThen m k w = (r, w')"
  obtain x w1 where 1: "m w = (x, w1)" by fastforce
  have i: "idle w w1" by (rule keepsD [OF assms(1) 1])
  show "identity_evolves e w w'"
  proof (cases x)
    case (Inl err)
    with run 1 i show ?thesis by (simp add: andThen_def idle_evolves)
  next
    case (Inr a)
    with run 1 have "k a w1 = (r, w')" by (simp add: andThen_def)
    with assms(2) [OF _ i] 1 Inr i show ?thesis by (auto simp: advances_def intro: identity_evolves_trans idle_evolves)
  qed
qed

lemma advances_attempt:
  assumes "keeps idle m" "\<And>x w1. m w = (x, w1) \<Longrightarrow> idle w w1 \<Longrightarrow> advances e (k x) w1"
  shows "advances e (attempt m k) w"
  unfolding advances_def
proof (intro allI impI)
  fix r w' assume "attempt m k w = (r, w')"
  then obtain x w1 where 1: "m w = (x, w1)" "k x w1 = (r, w')" by (auto simp: runs)
  have i: "idle w w1" by (rule keepsD [OF assms(1) 1(1)])
  from assms(2) [OF 1(1) i] 1(2) idle_evolves [OF i] show "identity_evolves e w w'"
    by (auto simp: advances_def intro: identity_evolves_trans)
qed

lemma advances_end:
  assumes "advances e m w" "\<And>a. keeps (identity_evolves e) (k a)"
  shows "advances e (andThen m k) w"
  unfolding advances_def
proof (intro allI impI)
  fix r w' assume run: "andThen m k w = (r, w')"
  obtain x w1 where 1: "m w = (x, w1)" by fastforce
  have i: "identity_evolves e w w1" using assms(1) 1 by (simp add: advances_def)
  show "identity_evolves e w w'"
    using run 1 i assms(2) by (cases x) (auto simp: andThen_def dest: keepsD intro: identity_evolves_trans)
qed

lemma advances_map_error: "advances e m w \<Longrightarrow> advances e (map_error f m) w"
  by (auto simp: advances_def map_error_def attempt_def split: prod.splits sum.splits)

lemma advances_conflict_as: "advances e m w \<Longrightarrow> advances e (conflict_as m) w"
  unfolding conflict_as_def by (rule advances_map_error)

lemma advances_if: "(b \<Longrightarrow> advances e m w) \<Longrightarrow> (\<not> b \<Longrightarrow> advances e n w) \<Longrightarrow> advances e (if b then m else n) w"
  by simp

lemma advances_result: "advances e (ok a) w" "advances e (fail err) w"
  by (simp_all add: advances_idle keeps_intros)

text \<open>The audit entry that follows a change.\<close>

lemma advances_audited:
  "advances e m w \<Longrightarrow> advances e (andThen m (\<lambda>a. andThen (ignore (writeAuditLog e actor action t (f a) (g a))) (\<lambda>_. ok (h a)))) w"
  by (erule advances_end) (intro keeps_intros writeAuditLog_evolves reflp_identity_evolves transp_identity_evolves)

lemma found_agent:
  assumes "missing_as err (GetAgentRow e i) w = (Inr a, w')"
  shows "a \<in> set (agents (tables w')) \<and> ag_ID a = i"
proof -
  from assms have "GetAgentRow e i w = (Inr a, w')" by (simp add: missing_as_def runs)
  then show ?thesis unfolding GetAgentRow_def
    by (cases rule: id_query_cases) (auto simp: found_def split: option.splits dest: by_id_Some)
qed

lemma found_site:
  assumes "missing_as err (GetBySiteID e i) w = (Inr s, w')"
  shows "\<exists>s0 \<in> set (sites (tables w')). id_eq e (st_SiteID s0) i \<and> s = populateSingleSiteDomains e w' s0"
proof -
  from assms have "GetBySiteID e i w = (Inr s, w')" by (simp add: missing_as_def runs)
  then show ?thesis unfolding GetBySiteID_def
    by (cases rule: id_query_cases)
       (auto simp: found_def order_asc_def split: option.splits dest!: first_row_Some)
qed

lemma missing_super_admin:
  assumes "GetSuperAdminByEmail e m w = (Inl err, w')" "not_found err"
  shows "\<forall>s \<in> set (super_admins (tables w')). \<not> id_eq e (sa_Email s) m"
  using assms unfolding GetSuperAdminByEmail_def
  by (cases rule: id_query_cases)
     (auto simp: found_def not_found_def filter_empty_conv split: option.splits)

lemma missing_agent:
  assumes "GetAgentByEmail e m w = (Inl err, w')" "not_found err"
  shows "\<forall>a \<in> set (agents (tables w')). \<not> id_eq e (ag_Email a) m"
  using assms unfolding GetAgentByEmail_def
  by (cases rule: id_query_cases)
     (auto simp: found_def not_found_def filter_empty_conv split: option.splits)

lemma found_super_admin:
  assumes "GetSuperAdminByEmail e m w = (Inr a, w')"
  shows "a \<in> set (super_admins (tables w')) \<and> id_eq e (sa_Email a) m"
  using assms unfolding GetSuperAdminByEmail_def
  by (cases rule: id_query_cases)
     (auto simp: found_def order_asc_def split: option.splits dest!: first_row_Some)

lemma id_eq_sym: "id_eq e a b = id_eq e b a"
  by (auto simp: id_eq_def)

lemma Save_agent_advances:
  "a \<in> set (agents (tables w)) \<Longrightarrow> agent_follows 1 a b \<Longrightarrow> advances e (Save_agent e b) w"
  using Save_agent_evolves unfolding advances_def by blast

text \<open>The three changes the operations make to an agent.\<close>

lemma agent_changes:
  "agent_follows 1 a (a\<lparr>ag_TokenVersion := nextTokenVersion (ag_TokenVersion a)\<rparr>)"
  "agent_follows 1 a (a\<lparr>ag_PasswordHash := h, ag_TokenVersion := nextTokenVersion (ag_TokenVersion a)\<rparr>)"
  "agent_follows 1 a (a\<lparr>ag_Status := st, ag_TokenVersion :=
     (if st \<noteq> ''active'' then nextTokenVersion (ag_TokenVersion a) else ag_TokenVersion a)\<rparr>)"
  by (auto simp: agent_follows_def intro: exI [of _ 1] exI [of _ 0])

text \<open>The reads at the start of an operation, with what they tell about the tables.\<close>

lemma advances_get_agent:
  "(\<And>a w1. a \<in> set (agents (tables w1)) \<Longrightarrow> advances e (k a) w1) \<Longrightarrow>
   advances e (andThen (missing_as err (GetAgentRow e i)) k) w"
  by (intro advances_then keeps_intros) (auto dest: found_agent)

lemma advances_get_site:
  "(\<And>s0 s w1. s0 \<in> set (sites (tables w1)) \<Longrightarrow> id_eq e (st_SiteID s0) i \<Longrightarrow> s = populateSingleSiteDomains e w1 s0 \<Longrightarrow>
      advances e (k s) w1) \<Longrightarrow>
   advances e (andThen (missing_as err (GetBySiteID e i)) k) w"
  by (intro advances_then keeps_intros) (auto dest!: found_site)

lemma advances_checked:
  "(\<And>a. x = Inr a \<Longrightarrow> advances e (k a) w) \<Longrightarrow> advances e (case x of Inl err \<Rightarrow> fail err | Inr a \<Rightarrow> k a) w"
  by (cases x) (simp_all add: advances_result)

lemma advances_hash:
  "(\<And>h w1. tables w1 = tables w \<Longrightarrow> advances e (k h) w1) \<Longrightarrow> advances e (andThen (HashPassword e p cost) k) w"
  by (intro advances_then keeps_intros) (auto simp: idle_same)

lemma advances_random:
  "(\<And>h w1. tables w1 = tables w \<Longrightarrow> advances e (k h) w1) \<Longrightarrow> advances e (andThen (randomHex e p n) k) w"
  by (intro advances_then keeps_intros) (auto simp: idle_same)

lemmas advances_reads = advances_get_agent advances_get_site advances_checked advances_hash advances_random

lemma ForceAgentLogout_advances: "advances e (ForceAgentLogout e i actor) w"
  unfolding ForceAgentLogout_def
  by (intro advances_if advances_result advances_reads advances_audited)
     (auto intro: Save_agent_advances agent_changes)

lemma ResetAgentPassword_advances: "advances e (ResetAgentPassword e cost i p actor) w"
  unfolding ResetAgentPassword_def
  by (intro advances_if advances_result advances_reads advances_audited)
     (auto intro: Save_agent_advances agent_changes)

lemma UpdateAgentStatus_advances: "advances e (UpdateAgentStatus e i status actor) w"
  unfolding UpdateAgentStatus_def
  by (intro advances_if advances_result advances_reads advances_audited)
     (erule Save_agent_advances, rule agent_changes(3))

lemma Save_site_advances:
  "s0 \<in> set (sites (tables w)) \<Longrightarrow> site_follows s0 s \<Longrightarrow> advances e (Save_site e s) w"
  using Save_site_evolves unfolding advances_def by blast

lemma site_changes:
  "site_follows s0 ((populateSingleSiteDomains e w s0)\<lparr>st_Name := n, st_Domains := d\<rparr>)"
  "site_follows s0 ((populateSingleSiteDomains e w s0)\<lparr>st_Status := n\<rparr>)"
  "site_follows s0 ((populateSingleSiteDomains e w s0)\<lparr>st_WidgetKey := n\<rparr>)"
  by (simp_all add: site_follows_def populateSingleSiteDomains_def)

lemma CreateSite_advances: "advances e (CreateSite e inp actor) w"
proof -
  have "advances e (conflict_as (Create_site e s)) v" for s v
    by (rule advances_conflict_as) (simp add: advances_def Create_site_evolves)
  then show ?thesis unfolding CreateSite_def Let_def
    by (intro advances_if advances_result advances_reads advances_audited)
qed

lemma UpdateSite_advances: "advances e (UpdateSite e inp actor) w"
  unfolding UpdateSite_def Let_def
  by (intro advances_if advances_result advances_reads advances_audited advances_conflict_as)
     (auto intro: Save_site_advances site_changes)

lemma UpdateSiteStatus_advances: "advances e (UpdateSiteStatus e i st actor) w"
  unfolding UpdateSiteStatus_def Let_def
  by (intro advances_if advances_result advances_reads advances_audited)
     (auto intro: Save_site_advances site_changes)

lemma RotateSiteWidgetKey_advances: "advances e (RotateSiteWidgetKey e i actor) w"
  unfolding RotateSiteWidgetKey_def Let_def
  by (intro advances_if advances_result advances_reads advances_audited)
     (auto intro: Save_site_advances site_changes)

lemma UpdateSiteAIConfig_advances: "advances e (UpdateSiteAIConfig e i enabled mode actor) w"
proof -
  have mode: "normalizeSiteAIReplyMode mode = Inr m \<Longrightarrow> m = SiteAIReplyModeUnassignedAutoReply" for m
    by (auto simp: normalizeSiteAIReplyMode_def Let_def split: if_splits)
  have up: "advances e (Upsert e c) v" if "ai_ReplyMode c = SiteAIReplyModeUnassignedAutoReply" for c v
    using Upsert_evolves that by (auto simp: advances_def)
  have tail: "keeps (identity_evolves e) (andThen (ignore (writeAuditLog e actor a b c d)) (\<lambda>_. GetSiteAIConfig e j))" for a b c d j
    by (intro keeps_intros writeAuditLog_evolves keeps_idle_evolves reflp_identity_evolves transp_identity_evolves idle_operations)
  show ?thesis unfolding UpdateSiteAIConfig_def Let_def
    by (intro advances_if advances_result advances_reads advances_attempt keeps_intros advances_end tail up)
       (auto dest: mode)
qed

lemma CreateAgent_advances: "advances e (CreateAgent e cost inp actor) w"
proof -
  have new: "advances e (conflict_as (Create_agent e a)) v"
    if "ag_ID a \<noteq> 0" "ag_TokenVersion a \<noteq> 0" "ag_Role a = ''agent''"
      "\<forall>s \<in> set (super_admins (tables v)). \<not> id_eq e (ag_Email a) (sa_Email s)"
      "\<exists>s \<in> set (sites (tables v)). id_eq e (st_SiteID s) (ag_SiteID a)" for a v
    using Create_agent_evolves [OF _ that] by (intro advances_conflict_as) (simp add: advances_def)
  have id: "normalizeAgentID x = Inr i \<Longrightarrow> i \<noteq> 0" for x i
    by (auto simp: normalizeAgentID_def Let_def split: if_splits option.splits)
  have email: "advances e (attempt (GetSuperAdminByEmail e m)
      (\<lambda>x. case x of Inl err \<Rightarrow> if \<not> not_found err then fail err else f err | Inr a \<Rightarrow> g a)) v"
    if "\<And>a u. advances e (g a) u"
      "\<And>err u. tables u = tables v \<Longrightarrow> \<forall>s \<in> set (super_admins (tables u)). \<not> id_eq e m (sa_Email s) \<Longrightarrow>
         advances e (f err) u" for m f g v
  proof (rule advances_attempt)
    fix x u assume run: "GetSuperAdminByEmail e m v = (x, u)" "idle v u"
    show "advances e (case x of Inl err \<Rightarrow> if \<not> not_found err then fail err else f err | Inr a \<Rightarrow> g a) u"
    proof (cases x)
      case (Inl err)
      with run that(2) [of u err] missing_super_admin [of e m v err u] show ?thesis
        by (cases "not_found err") (auto simp: idle_same(1) id_eq_sym [of e m] advances_result)
    qed (simp add: that(1))
  qed (intro keeps_intros)
  show ?thesis unfolding CreateAgent_def Let_def
    by (intro advances_if advances_result advances_reads email advances_audited)
       (auto intro!: new dest: id)
qed

lemma create_super_admin_advances: "advances e (create_super_admin e s) w"
  unfolding create_super_admin_def
proof (rule advances_attempt)
  fix x w1 assume run: "GetAgentByEmail e (superAdminEmail s) w = (x, w1)" "idle w w1"
  have new: "advances e (Create_super_admin e \<lparr>sa_ID = 0, sa_Email = superAdminEmail s, sa_PasswordHash = h,
      sa_DisplayName = d, sa_Status = st, sa_TokenVersion = 1, sa_CreatedAt = 0, sa_UpdatedAt = 0\<rparr>) v"
    if "\<forall>a \<in> set (agents (tables v)). \<not> id_eq e (ag_Email a) (superAdminEmail s)" for h d st v
    using Create_super_admin_evolves that unfolding advances_def by fastforce
  show "advances e (case x of
         Inl err \<Rightarrow>
           if \<not> not_found err then fail err
           else andThen (HashPassword e (superAdminPassword s) (bcryptCost s)) (\<lambda>hash.
             andThen (Create_super_admin e
               \<lparr>sa_ID = 0, sa_Email = superAdminEmail s, sa_PasswordHash = hash,
                sa_DisplayName = superAdminDisplayName s, sa_Status = ''active'', sa_TokenVersion = 1,
                sa_CreatedAt = 0, sa_UpdatedAt = 0\<rparr>) (\<lambda>_. ok ()))
       | Inr _ \<Rightarrow> fail (Text ''SUPER_ADMIN_EMAIL already exists in agents'')) w1"
  proof (cases x)
    case (Inl err)
    with run missing_agent [of e "superAdminEmail s" w err w1] show ?thesis
      by (auto simp: advances_result intro!: advances_hash advances_end new keeps_intros)
  qed (simp add: advances_result)
qed (intro keeps_intros)

lemma ensured_follows:
  "super_admin_follows a (ensured_profile s a)" "super_admin_follows a ((ensured_profile s a)\<lparr>sa_PasswordHash := h\<rparr>)"
  by (simp_all add: super_admin_follows_def ensured_profile_def normalizeTokenVersion_def)

lemma EnsureSuperAdmin_advances: "advances e (EnsureSuperAdmin e s) w"
proof -
  have save: "advances e (andThen (Save_super_admin e b) (\<lambda>_. ok ())) v"
    if "a \<in> set (super_admins (tables v))" "super_admin_follows a b" for a b v
  proof (rule advances_end)
    show "advances e (Save_super_admin e b) v" using Save_super_admin_evolves that unfolding advances_def by blast
  qed (simp add: keeps_ok)
  have "advances e (correct_super_admin e s a) v" if "a \<in> set (super_admins (tables v))" for a v
    unfolding correct_super_admin_def Let_def
    using that by (intro advances_if advances_result advances_hash save [of a] ensured_follows) simp_all
  then have "advances e (attempt (GetSuperAdminByEmail e (superAdminEmail s)) (\<lambda>r. case r of
                Inl err \<Rightarrow> if not_found err then create_super_admin e s else fail err
              | Inr a \<Rightarrow> correct_super_admin e s a)) v" for v
    by (intro advances_attempt keeps_intros)
       (auto simp: advances_result create_super_admin_advances split: sum.split dest: found_super_admin)
  then show ?thesis
    unfolding EnsureSuperAdmin_def by (auto simp: advances_result split: sum.split)
qed

section \<open>Steps\<close>

inductive identity_step :: "identity_env \<Rightarrow> identity_world \<Rightarrow> identity_world \<Rightarrow> bool" for e where
  login: "Login e s i1 w = (r1, w') \<Longrightarrow> identity_step e w w'"
| validate: "ValidateToken e s token w = (r2, w') \<Longrightarrow> identity_step e w w'"
| ensure: "EnsureSuperAdmin e s w = (r3, w') \<Longrightarrow> identity_step e w w'"
| create_site: "CreateSite e i4 actor w = (r4, w') \<Longrightarrow> identity_step e w w'"
| update_site: "UpdateSite e i5 actor w = (r4, w') \<Longrightarrow> identity_step e w w'"
| site_status: "UpdateSiteStatus e i st actor w = (r4, w') \<Longrightarrow> identity_step e w w'"
| rotate_key: "RotateSiteWidgetKey e i actor w = (r4, w') \<Longrightarrow> identity_step e w w'"
| ai_config: "UpdateSiteAIConfig e i enabled mode actor w = (r5, w') \<Longrightarrow> identity_step e w w'"
| create_agent: "CreateAgent e cost i6 actor w = (r6, w') \<Longrightarrow> identity_step e w w'"
| agent_status: "UpdateAgentStatus e n st actor w = (r6, w') \<Longrightarrow> identity_step e w w'"
| reset_password: "ResetAgentPassword e cost n p actor w = (r6, w') \<Longrightarrow> identity_step e w w'"
| force_logout: "ForceAgentLogout e n actor w = (r6, w') \<Longrightarrow> identity_step e w w'"
| session: "ValidateAdminSession e role n v w = (r7, w') \<Longrightarrow> identity_step e w w'"
| read: "idle w w' \<Longrightarrow> identity_step e w w'"

lemma identity_step_evolves: "identity_step e w w' \<Longrightarrow> identity_evolves e w w'"
proof (induction rule: identity_step.induct)
  case (login s i1 w r1 w') then show ?case by (intro idle_evolves keepsD [OF idle_operations(1)])
next
  case (validate s token w r2 w') then show ?case by (intro idle_evolves keepsD [OF idle_operations(2)])
next
  case (ensure s w r3 w') then show ?case by (rule advancesD [OF EnsureSuperAdmin_advances])
next
  case (create_site i4 actor w r4 w') then show ?case by (rule advancesD [OF CreateSite_advances])
next
  case (update_site i5 actor w r4 w') then show ?case by (rule advancesD [OF UpdateSite_advances])
next
  case (site_status i st actor w r4 w') then show ?case by (rule advancesD [OF UpdateSiteStatus_advances])
next
  case (rotate_key i actor w r4 w') then show ?case by (rule advancesD [OF RotateSiteWidgetKey_advances])
next
  case (ai_config i enabled mode actor w r5 w') then show ?case by (rule advancesD [OF UpdateSiteAIConfig_advances])
next
  case (create_agent cost i6 actor w r6 w') then show ?case by (rule advancesD [OF CreateAgent_advances])
next
  case (agent_status n st actor w r6 w') then show ?case by (rule advancesD [OF UpdateAgentStatus_advances])
next
  case (reset_password cost n p actor w r6 w') then show ?case by (rule advancesD [OF ResetAgentPassword_advances])
next
  case (force_logout n actor w r6 w') then show ?case by (rule advancesD [OF ForceAgentLogout_advances])
next
  case (session role n v w r7 w') then show ?case by (intro idle_evolves keepsD [OF idle_operations(9)])
next
  case (read w w') then show ?case by (rule idle_evolves)
qed

lemma identity_steps_evolve: "(identity_step e)\<^sup>*\<^sup>* w w' \<Longrightarrow> identity_evolves e w w'"
  by (induction rule: rtranclp_induct) (auto intro: identity_evolves_refl identity_evolves_trans identity_step_evolves)

lemma identity_steps_inv: "identity_inv e w \<Longrightarrow> (identity_step e)\<^sup>*\<^sup>* w w' \<Longrightarrow> identity_inv e w'"
  using identity_steps_evolve [of e w w'] by (simp add: identity_evolves_def)

end
