(* ===== verification/Identity_Demo.thy ===== *)
theory Identity_Demo
  imports Identity_Steps
begin

text \<open>
  What the services rely on of the cryptographic libraries, and a concrete environment and small
  installations on which the theorems about auth-service and admin-service are exercised.
\<close>

section \<open>A concrete environment\<close>

text \<open>
  Libraries to run the services on: passwords are stored with a prefix, a token is the secret and the
  claims in a prefix code with unary numbers.
\<close>

definition put_nat :: "nat \<Rightarrow> string" where
  "put_nat n = replicate n (CHR ''1'') @ ''0''"

definition take_nat :: "string \<Rightarrow> nat \<times> string" where
  "take_nat s = (length (takeWhile (\<lambda>c. c = CHR ''1'') s), tl (dropWhile (\<lambda>c. c = CHR ''1'') s))"

definition put_int :: "int \<Rightarrow> string" where
  "put_int i = (if i < 0 then ''-'' else ''+'') @ put_nat (nat \<bar>i\<bar>)"

definition take_int :: "string \<Rightarrow> int \<times> string" where
  "take_int s = (let (n, r) = take_nat (tl s) in (if hd s = CHR ''-'' then - int n else int n, r))"

definition put_text :: "string \<Rightarrow> string" where
  "put_text t = put_nat (length t) @ t"

definition take_text :: "string \<Rightarrow> string \<times> string" where
  "take_text s = (let (n, r) = take_nat s in (take n r, drop n r))"

definition demo_sign :: "string \<Rightarrow> claims \<Rightarrow> string + string" where
  "demo_sign secret c =
     Inr (put_text secret @ put_nat (cl_AgentID c) @ put_text (cl_Email c) @ put_text (cl_Role c)
          @ put_nat (unat (cl_TokenVersion c)) @ put_text (cl_Issuer c) @ put_text (cl_Subject c)
          @ put_int (cl_IssuedAt c) @ put_int (cl_NotBefore c)
          @ (case cl_ExpiresAt c of None \<Rightarrow> ''n'' | Some x \<Rightarrow> ''s'' @ put_int x))"

definition demo_claims :: "string \<Rightarrow> string \<times> claims" where
  "demo_claims s =
     (let (secret, s) = take_text s; (i, s) = take_nat s; (email, s) = take_text s; (role, s) = take_text s;
          (v, s) = take_nat s; (issuer, s) = take_text s; (subject, s) = take_text s;
          (iat, s) = take_int s; (nbf, s) = take_int s
      in (secret, \<lparr>cl_AgentID = i, cl_Email = email, cl_Role = role, cl_TokenVersion = of_nat v, cl_Issuer = issuer,
                   cl_Subject = subject, cl_IssuedAt = iat, cl_NotBefore = nbf,
                   cl_ExpiresAt = (if hd s = CHR ''n'' then None else Some (fst (take_int (tl s))))\<rparr>))"

definition demo_parse ::
  "(signing_method \<Rightarrow> string + string) \<Rightarrow> string \<Rightarrow> time \<Rightarrow> string \<Rightarrow> string + claims \<times> bool" where
  "demo_parse key issuer now token =
     (case key HMAC of
        Inl err \<Rightarrow> Inl err
      | Inr k \<Rightarrow>
          let (secret, c) = demo_claims token in
          if secret \<noteq> k then Inl ''token signature is invalid''
          else if cl_Issuer c \<noteq> issuer then Inl ''token has invalid issuer''
          else if seconds now < cl_NotBefore c then Inl ''token is not valid yet''
          else case cl_ExpiresAt c of
              None \<Rightarrow> Inr (c, True)
            | Some x \<Rightarrow> if seconds now < x then Inr (c, True) else Inl ''token is expired'')"

lemma take_put [simp]:
  "take_nat (put_nat n @ r) = (n, r)" "take_int (put_int i @ r) = (i, r)" "take_text (put_text t @ r) = (t, r)"
proof -
  have "takeWhile (\<lambda>c. c = CHR ''1'') (replicate n (CHR ''1'') @ CHR ''0'' # r) = replicate n (CHR ''1'')"
    "dropWhile (\<lambda>c. c = CHR ''1'') (replicate n (CHR ''1'') @ CHR ''0'' # r) = CHR ''0'' # r" for n and r :: string
    by (induction n) auto
  then show nat: "take_nat (put_nat n @ r) = (n, r)" for n r
    by (simp add: take_nat_def put_nat_def)
  show "take_int (put_int i @ r) = (i, r)" by (simp add: take_int_def put_int_def nat)
  show "take_text (put_text t @ r) = (t, r)" by (simp add: take_text_def put_text_def nat)
qed

text \<open>What the services rely on of the token library: a signed token is read back while it is valid.\<close>

definition jwt_sound :: "identity_env \<Rightarrow> bool" where
  "jwt_sound e \<longleftrightarrow>
     (\<forall>secret key c token now. jwt_sign e secret c = Inr token \<longrightarrow> key HMAC = Inr secret \<longrightarrow>
        cl_NotBefore c \<le> seconds now \<longrightarrow> (\<forall>x. cl_ExpiresAt c = Some x \<longrightarrow> seconds now < x) \<longrightarrow>
        jwt_parse e key (cl_Issuer c) now token = Inr (c, True))"

text \<open>And of the password library: a hash accepts the password it was made from.\<close>

definition bcrypt_sound :: "identity_env \<Rightarrow> bool" where
  "bcrypt_sound e \<longleftrightarrow> (\<forall>t p cost h. bcrypt_hash e t p cost = Inr h \<longrightarrow> bcrypt_compare e h p)"

definition no_id_fault :: "identity_env \<Rightarrow> bool" where
  "no_id_fault e \<longleftrightarrow> (\<forall>t. id_fault e t = None)"

definition demo_id_env :: identity_env where
  "demo_id_env =
     \<lparr>id_clock = (\<lambda>_. 5000000000), id_fault = (\<lambda>_. None), id_collate = ToLower,
      rand_read = (\<lambda>t n. Inr (replicate n (char_of (t mod 256)))),
      bcrypt_hash = (\<lambda>_ p _. Inr (CHR ''$'' # p)), bcrypt_compare = (\<lambda>h p. h = CHR ''$'' # p),
      jwt_sign = demo_sign, jwt_parse = demo_parse,
      rune_upper = (\<lambda>_. False), rune_lower = (\<lambda>_. False), rune_digit = (\<lambda>_. False)\<rparr>"

lemma demo_id_sound: "jwt_sound demo_id_env" "bcrypt_sound demo_id_env" "no_id_fault demo_id_env"
proof -
  have "demo_claims token = (secret, c)" if "demo_sign secret c = Inr token" for secret c token
  proof -
    have "token = put_text secret @ put_nat (cl_AgentID c) @ put_text (cl_Email c) @ put_text (cl_Role c)
        @ put_nat (unat (cl_TokenVersion c)) @ put_text (cl_Issuer c) @ put_text (cl_Subject c)
        @ put_int (cl_IssuedAt c) @ put_int (cl_NotBefore c)
        @ (case cl_ExpiresAt c of None \<Rightarrow> ''n'' | Some x \<Rightarrow> ''s'' @ put_int x)"
      using that by (simp add: demo_sign_def)
    then show ?thesis
      using take_put(2) [of _ "[]"] by (cases c) (auto simp: demo_claims_def split: option.split)
  qed
  then show "jwt_sound demo_id_env"
    by (auto simp: jwt_sound_def demo_id_env_def demo_parse_def split: option.split)
  show "bcrypt_sound demo_id_env" "no_id_fault demo_id_env"
    by (auto simp: bcrypt_sound_def no_id_fault_def demo_id_env_def)
qed

definition demo_auth :: auth_service where
  "demo_auth = New_auth ''secret'' [] ''inlinechat'' 60000000000 10 '' Root@Example.com '' ''Sup3r-Secret-Pw'' ''Root''"

definition demo_root :: ActorContext where
  "demo_root = \<lparr>actor_AgentID = 1, actor_Email = ''root@example.com'', actor_Role = ''super_admin'', actor_IP = [], actor_UserAgent = []\<rparr>"

definition demo_site :: CreateSiteInput where
  "demo_site = \<lparr>csi_SiteID = '' Shop-1 '', csi_Name = ''Shop'', csi_Domain = ''shop.example'', csi_Domains = []\<rparr>"

definition demo_agent :: CreateAgentInput where
  "demo_agent = \<lparr>cai_AgentID = ''0007'', cai_Email = ''Ann@Example.com'', cai_Password = ''Ann-Passw0rd!'',
     cai_DisplayName = ''Ann'', cai_Role = [], cai_SiteID = ''shop-1''\<rparr>"

definition demo_i1 :: identity_world where "demo_i1 = snd (EnsureSuperAdmin demo_id_env demo_auth empty_identity)"
definition demo_i2 :: identity_world where "demo_i2 = snd (CreateSite demo_id_env demo_site demo_root demo_i1)"
definition demo_i3 :: identity_world where "demo_i3 = snd (CreateAgent demo_id_env 10 demo_agent demo_root demo_i2)"

lemma demo_id_steps:
  "identity_step demo_id_env empty_identity demo_i1" "identity_step demo_id_env demo_i1 demo_i2"
  "identity_step demo_id_env demo_i2 demo_i3"
  unfolding demo_i1_def demo_i2_def demo_i3_def
  by (metis prod.collapse identity_step.ensure, metis prod.collapse identity_step.create_site,
      metis prod.collapse identity_step.create_agent)

lemma demo_id_inv: "identity_inv demo_id_env demo_i1" "identity_inv demo_id_env demo_i2" "identity_inv demo_id_env demo_i3"
proof -
  have keep: "identity_inv e w \<Longrightarrow> identity_step e w w' \<Longrightarrow> identity_inv e w'" for e w w'
    by (rule identity_steps_inv [OF _ r_into_rtranclp])
  show 1: "identity_inv demo_id_env demo_i1" by (rule keep [OF empty_identity_inv demo_id_steps(1)])
  show 2: "identity_inv demo_id_env demo_i2" by (rule keep [OF 1 demo_id_steps(2)])
  show "identity_inv demo_id_env demo_i3" by (rule keep [OF 2 demo_id_steps(3)])
qed

text \<open>A small installation: one super administrator, one site with a domain, one agent.\<close>

definition demo_ann :: agent where
  "demo_ann = \<lparr>ag_ID = 7, ag_Email = ''ann@example.com'', ag_PasswordHash = ''$Ann-Passw0rd!'', ag_DisplayName = ''Ann'',
     ag_SiteID = ''shop-1'', ag_Role = ''agent'', ag_Status = ''active'', ag_TokenVersion = 1, ag_CreatedAt = 5, ag_UpdatedAt = 5\<rparr>"

definition demo_live :: identity_world where
  "demo_live =
     \<lparr>tables = \<lparr>sites = [\<lparr>st_ID = 1, st_SiteID = ''shop-1'', st_Name = ''Shop'', st_WidgetKey = ''wk_1'', st_Status = ''active'',
                 st_CreatedAt = 3, st_UpdatedAt = 3, st_Domains = None\<rparr>],
        site_domains = [\<lparr>sd_ID = 1, sd_SiteID = ''shop-1'', sd_Domain = ''shop.example'', sd_CreatedAt = 3, sd_UpdatedAt = 3\<rparr>],
        ai_configs = [], agents = [demo_ann],
        super_admins = [\<lparr>sa_ID = 1, sa_Email = ''root@example.com'', sa_PasswordHash = ''$Sup3r-Secret-Pw'', sa_DisplayName = ''Root'',
                 sa_Status = ''active'', sa_TokenVersion = 1, sa_CreatedAt = 1, sa_UpdatedAt = 1\<rparr>],
        audit_logs = []\<rparr>,
      site_seq = 2, site_domain_seq = 2, super_admin_seq = 2, audit_seq = 1, id_tick = 10\<rparr>"

lemma demo_live_inv: "identity_inv demo_id_env demo_live"
  by code_simp

end
