(* ===== verification/Identity_Behaviour.thy ===== *)
theory Identity_Behaviour
  imports Identity_Demo
begin

text \<open>
  The promises of auth-service and admin-service: sessions, accounts, sites and the authorisation of
  changes.
\<close>

section \<open>The database\<close>

text \<open>
  C21.  Every state of the shared database that auth-service and admin-service can reach from the
  empty one, whatever fails on the way, satisfies its invariant: accounts, sites and domains are
  unique, a domain belongs to exactly one existing site, an agent has the role \<open>agent\<close> and an existing
  site, an AI configuration belongs to a site, and no mail address is used by both a super
  administrator and an agent.
\<close>

theorem identity_reachable_inv:
  "(identity_step e)\<^sup>*\<^sup>* empty_identity w \<Longrightarrow> identity_inv e w"
  by (rule identity_steps_inv [OF empty_identity_inv])

theorem identity_reachable_inv_witness:
  "identity_inv demo_id_env demo_i3 \<and> length (agents (tables demo_i3)) = 1 \<and> length (super_admins (tables demo_i3)) = 1"
proof -
  have "(identity_step demo_id_env)\<^sup>*\<^sup>* empty_identity demo_i3"
    using demo_id_steps by (meson rtranclp.rtrancl_into_rtrancl rtranclp.rtrancl_refl)
  moreover have "(length (agents (tables demo_i3)), length (super_admins (tables demo_i3))) = (1, 1)" by code_simp
  ultimately show ?thesis using identity_reachable_inv [of demo_id_env demo_i3] by simp
qed

section \<open>Sessions\<close>

lemma nextTokenVersion_unat:
  assumes "unat (normalizeTokenVersion v) + 1 < 2 ^ 64"
  shows "unat (normalizeTokenVersion (nextTokenVersion v)) = unat (normalizeTokenVersion v) + 1"
proof (cases "v = 0")
  case False
  with assms have small: "unat v + 1 < 2 ^ LENGTH(64)" by (simp add: normalizeTokenVersion_def)
  then have "unat (v + 1) = unat v + 1"
    by (metis unat_1 unat_add_lem len_num1 len_bit0 unsigned_1)
  moreover from this have "v + 1 \<noteq> 0" by (metis add_is_0 unat_0 zero_neq_one)
  ultimately show ?thesis using False by (simp add: nextTokenVersion_def normalizeTokenVersion_def)
qed (simp add: nextTokenVersion_def normalizeTokenVersion_def)

lemma bumped_unat:
  "unat (normalizeTokenVersion v) + j < 2 ^ 64 \<Longrightarrow>
   unat (normalizeTokenVersion ((nextTokenVersion ^^ j) v)) = unat (normalizeTokenVersion v) + j"
proof (induction j)
  case (Suc j)
  then show ?case using nextTokenVersion_unat [of "(nextTokenVersion ^^ j) v"] by simp
qed simp

lemma audit_keeps_accounts:
  "keeps (\<lambda>w w'. agents (tables w') = agents (tables w) \<and> super_admins (tables w') = super_admins (tables w)
     \<and> sites (tables w') = sites (tables w) \<and> site_domains (tables w') = site_domains (tables w)
     \<and> ai_configs (tables w') = ai_configs (tables w)) (writeAuditLog e actor action t i summary)"
proof (rule keepsI)
  fix w r w' assume run: "writeAuditLog e actor action t i summary w = (r, w')"
  show "agents (tables w') = agents (tables w) \<and> super_admins (tables w') = super_admins (tables w)
     \<and> sites (tables w') = sites (tables w) \<and> site_domains (tables w') = site_domains (tables w)
     \<and> ai_configs (tables w') = ai_configs (tables w)"
  proof (cases "TrimSpace action = [] \<or> actor_AgentID actor = 0")
    case True
    with run show ?thesis by (auto simp: writeAuditLog_def split: if_splits)
  next
    case False
    with run obtain l where "Create_audit_log e l w = (r, w')" by (auto simp: writeAuditLog_def)
    then show ?thesis unfolding Create_audit_log_def
      by (cases rule: id_statement_cases) (auto simp: set_audit_logs_def idle_same)
  qed
qed

text \<open>The row of an agent after it was saved and the change was recorded.\<close>

lemma saved_agent:
  assumes "andThen (Save_agent e b) (\<lambda>saved. andThen (ignore (writeAuditLog e actor action t (f saved) (g saved))) (\<lambda>_. ok saved)) w = (Inr row, w')"
    and "\<exists>q \<in> set (agents (tables w)). ag_ID q = ag_ID b"
  shows "row \<in> set (agents (tables w')) \<and> ag_ID row = ag_ID b \<and> ag_Status row = ag_Status b
    \<and> ag_TokenVersion row = ag_TokenVersion b"
proof -
  from assms(1) obtain w1 x where 1: "Save_agent e b w = (Inr row, w1)"
    and 2: "writeAuditLog e actor action t (f row) (g row) w1 = (x, w')"
    by (auto simp: runs)
  have w': "agents (tables w') = agents (tables w1)" using keepsD [OF audit_keeps_accounts 2] by simp
  from 1 assms(2) show ?thesis
  proof (cases rule: Save_agent_cases)
    case (stored row' v)
    from assms(2) obtain q where q: "q \<in> set (agents (tables w))" "ag_ID q = ag_ID b" by blast
    have "row \<in> set (agents (tables w'))"
      using update_rows_mem [OF q(1), of "\<lambda>q. ag_ID q = ag_ID b" "\<lambda>_. row"] q(2) stored w' by simp
    moreover have "ag_ID row = ag_ID b" "ag_Status row = ag_Status b" "ag_TokenVersion row = ag_TokenVersion b"
      using stored(1) by (simp, subst stored(5), simp)+
    ultimately show ?thesis by simp
  qed simp
qed

text \<open>
  The operations that end the sessions of an agent: forced logout, a new password, and disabling.
\<close>

definition ends_sessions :: "identity_env \<Rightarrow> uint64 \<Rightarrow> identity_world \<Rightarrow> identity_world \<Rightarrow> bool" where
  "ends_sessions e i w w' \<longleftrightarrow>
     (\<exists>actor a. ForceAgentLogout e i actor w = (Inr a, w'))
     \<or> (\<exists>cost p actor a. ResetAgentPassword e cost i p actor w = (Inr a, w'))
     \<or> (\<exists>st actor a. UpdateAgentStatus e i st actor w = (Inr a, w') \<and> ag_Status a \<noteq> ''active'')"

lemma ends_sessions_bumps:
  assumes "ends_sessions e i w w'" "by_id ag_ID i (agents (tables w)) = Some a"
  shows "\<exists>b \<in> set (agents (tables w')). ag_ID b = i \<and> ag_TokenVersion b = nextTokenVersion (ag_TokenVersion a)"
proof -
  have row: "a' = a" "a' \<in> set (agents (tables v))" "ag_ID a' = i" if "missing_as err (GetAgentRow e i) u = (Inr a', v)" "tables u = tables w"
    for err u v a'
  proof -
    from that(1) have run: "GetAgentRow e i u = (Inr a', v)" by (simp add: missing_as_def runs)
    then show "a' = a" unfolding GetAgentRow_def using assms(2) that(2)
      by (cases rule: id_query_cases) (auto simp: found_def idle_same)
    show "a' \<in> set (agents (tables v))" "ag_ID a' = i" using found_agent [OF that(1)] by simp_all
  qed
  from assms(1) consider
    (force) actor x where "ForceAgentLogout e i actor w = (Inr x, w')"
    | (reset) cost p actor x where "ResetAgentPassword e cost i p actor w = (Inr x, w')"
    | (status) st actor x where "UpdateAgentStatus e i st actor w = (Inr x, w')" "ag_Status x \<noteq> ''active''"
    unfolding ends_sessions_def by blast
  then show ?thesis
  proof cases
    case force
    then obtain a' v where g: "missing_as (Sentinel Admin_ErrNotFound) (GetAgentRow e i) w = (Inr a', v)"
      and s: "andThen (Save_agent e (a'\<lparr>ag_TokenVersion := nextTokenVersion (ag_TokenVersion a')\<rparr>)) (\<lambda>saved.
          andThen (ignore (writeAuditLog e actor ''agent.force_logout'' ''agent'' (formatAgentID (ag_ID saved))
                     zh_force_logout)) (\<lambda>_. ok saved)) v = (Inr x, w')"
      by (auto simp: ForceAgentLogout_def run_andThen [of "missing_as _ _"] split: if_splits)
    from saved_agent [OF s] row [OF g refl] show ?thesis by auto
  next
    case reset
    then obtain a' h v u where g: "missing_as (Sentinel Admin_ErrNotFound) (GetAgentRow e i) w = (Inr a', v)"
      and h: "HashPassword e p cost v = (Inr h, u)"
      and s: "andThen (Save_agent e (a'\<lparr>ag_PasswordHash := h, ag_TokenVersion := nextTokenVersion (ag_TokenVersion a')\<rparr>)) (\<lambda>saved.
          andThen (ignore (writeAuditLog e actor ''agent.reset_password'' ''agent'' (formatAgentID (ag_ID saved))
                     zh_reset_password)) (\<lambda>_. ok saved)) u = (Inr x, w')"
      by (auto simp: ResetAgentPassword_def run_andThen [of "missing_as _ _"] run_andThen [of "HashPassword _ _ _"]
          split: if_splits sum.splits)
    have "tables u = tables v" using keepsD [OF idle_calls(3) h] by (simp add: idle_same)
    with saved_agent [OF s] row [OF g refl] show ?thesis by auto
  next
    case status
    define M where "M = (\<lambda>t a'. andThen (Save_agent e (a'\<lparr>ag_Status := t, ag_TokenVersion :=
           (if t \<noteq> ''active'' then nextTokenVersion (ag_TokenVersion a') else ag_TokenVersion a')\<rparr>)) (\<lambda>saved.
          andThen (ignore (writeAuditLog e actor ''agent.update_status'' ''agent'' (formatAgentID (ag_ID saved))
                     (zh_agent_status @ ag_Status a' @ '' -> '' @ t))) (\<lambda>_. ok saved)))"
    from status(1) obtain t where "andThen (missing_as (Sentinel Admin_ErrNotFound) (GetAgentRow e i)) (\<lambda>a'.
        if ag_Role a' = ''super_admin'' \<and> t \<noteq> ''active'' then fail (Text ''invalid status transition for super_admin'')
        else M t a') w = (Inr x, w')"
      unfolding UpdateAgentStatus_def M_def by (cases "normalizeAgentStatus st") (auto simp only: sum.case run_fail split: if_splits)
    then obtain a' v where g: "missing_as (Sentinel Admin_ErrNotFound) (GetAgentRow e i) w = (Inr a', v)"
      and "M t a' v = (Inr x, w')"
      by (auto simp: run_andThen split: if_splits)
    note s = this(2) [unfolded M_def]
    have "\<exists>q \<in> set (agents (tables v)). ag_ID q = ag_ID a'" using row [OF g refl] by blast
    with saved_agent [OF s] row [OF g refl] have "x \<in> set (agents (tables w'))" "ag_ID x = i" "ag_Status x = t"
      "ag_TokenVersion x = (if t \<noteq> ''active'' then nextTokenVersion (ag_TokenVersion a) else ag_TokenVersion a)" by simp_all
    with status(2) show ?thesis by auto
  qed
qed

lemma ValidateToken_parsed:
  assumes "ParseToken e s token w = (Inr c, w1)" "ValidateToken e s token w = (Inr c', w')"
    and "ToLower (TrimSpace (cl_Role c)) \<in> {''agent'', ''admin''}"
  shows "c' = c \<and> (\<exists>b \<in> set (agents (tables w)). ag_ID b = cl_AgentID c \<and> isActiveStatus (ag_Status b)
      \<and> normalizeTokenVersion (cl_TokenVersion c) = normalizeTokenVersion (ag_TokenVersion b))"
proof -
  have t: "tables w1 = tables w" using keepsD [OF idle_tokens(3) assms(1)] by (rule idle_same)
  let ?missing = "\<lambda>err. if not_found err then Sentinel Auth_ErrUnauthorized else err"
  from assms have "andThen (map_error ?missing (GetAgentRow e (cl_AgentID c))) (\<lambda>a.
      andThen (session_check (ag_Status a) (ag_TokenVersion a) (cl_TokenVersion c)) (\<lambda>_. ok c)) w1 = (Inr c', w')"
    by (auto simp: ValidateToken_def attempt_def Let_def)
  then obtain a w2 w3 u where a: "GetAgentRow e (cl_AgentID c) w1 = (Inr a, w2)"
    and "session_check (ag_Status a) (ag_TokenVersion a) (cl_TokenVersion c) w2 = (Inr u, w3)" and c': "c' = c"
    by (auto simp: runs)
  then have "isActiveStatus (ag_Status a)" "normalizeTokenVersion (cl_TokenVersion c) = normalizeTokenVersion (ag_TokenVersion a)"
    by (auto simp: session_check_def split: if_splits)
  moreover from a have "a \<in> set (agents (tables w)) \<and> ag_ID a = cl_AgentID c"
    unfolding GetAgentRow_def by (cases rule: id_query_cases) (auto simp: found_def idle_same t split: option.splits dest: by_id_Some)
  ultimately show ?thesis using c' by blast
qed

text \<open>
  C20.  Ended sessions stay ended.  After a forced logout, a new password or the disabling of an
  agent, a token that carries the version the agent had before (or an older one) is refused by
  \<open>ValidateToken\<close> in every later state, whatever the services do in between, also when the agent is
  enabled again; the token version is a 64-bit word, so the bound says that it cannot have been
  counted through.
\<close>

theorem ended_sessions_stay_ended:
  assumes "identity_inv e w" "by_id ag_ID i (agents (tables w)) = Some a"
    and "ends_sessions e i w w1" "(identity_step e)\<^sup>*\<^sup>* w1 w2"
    and "ParseToken e s token w2 = (Inr c, w3)" "cl_AgentID c = i" "ToLower (TrimSpace (cl_Role c)) \<in> {''agent'', ''admin''}"
    and "unat (normalizeTokenVersion (cl_TokenVersion c)) \<le> unat (normalizeTokenVersion (ag_TokenVersion a))"
    and "unat (normalizeTokenVersion (ag_TokenVersion a)) + 1 + (id_tick w2 - id_tick w1) < 2 ^ 64"
  shows "isl (fst (ValidateToken e s token w2))"
proof (rule ccontr)
  assume "\<not> isl (fst (ValidateToken e s token w2))"
  then obtain c' w' where val: "ValidateToken e s token w2 = (Inr c', w')"
    by (cases "ValidateToken e s token w2"; cases "fst (ValidateToken e s token w2)") auto
  from ValidateToken_parsed [OF assms(5) val assms(7)] assms(6) obtain b where
    b: "b \<in> set (agents (tables w2))" "ag_ID b = i"
      "normalizeTokenVersion (cl_TokenVersion c) = normalizeTokenVersion (ag_TokenVersion b)" by auto
  from ends_sessions_bumps [OF assms(3,2)] obtain d where
    d: "d \<in> set (agents (tables w1))" "ag_ID d = i" "ag_TokenVersion d = nextTokenVersion (ag_TokenVersion a)" by blast
  have "identity_step e w w1"
    using assms(3) unfolding ends_sessions_def
    by (blast intro: identity_step.force_logout identity_step.reset_password identity_step.agent_status)
  then have inv: "identity_inv e w1" "identity_inv e w2"
    using assms(1,4) by (auto intro: identity_steps_inv identity_steps_inv [OF _ r_into_rtranclp])
  have "identity_grows w1 w2" using identity_steps_evolve [OF assms(4)] inv by (simp add: identity_evolves_def)
  with d obtain b' j where "b' \<in> set (agents (tables w2))" "ag_ID b' = i" and
    j: "j \<le> id_tick w2 - id_tick w1" "ag_TokenVersion b' = (nextTokenVersion ^^ j) (ag_TokenVersion d)"
    unfolding identity_grows_def agent_follows_def by metis
  with b(1,2) inv(2) have b': "b' = b" by (auto simp: identity_inv_defs distinct_map inj_on_def)
  have "unat (normalizeTokenVersion (ag_TokenVersion d)) = unat (normalizeTokenVersion (ag_TokenVersion a)) + 1"
    unfolding d(3) using assms(9) by (intro nextTokenVersion_unat) simp
  then have "unat (normalizeTokenVersion (ag_TokenVersion b)) = unat (normalizeTokenVersion (ag_TokenVersion a)) + 1 + j"
    using j assms(9) bumped_unat [of "ag_TokenVersion d" j] unfolding b' by simp
  with b(3) assms(8) show False by simp
qed

lemma parse_signed:
  assumes "jwt_sound e" "jwt_sign e secret c = Inr token" "secret \<noteq> []"
    and "cl_NotBefore c \<le> seconds (id_clock e (id_tick w))"
    and "\<forall>x. cl_ExpiresAt c = Some x \<longrightarrow> seconds (id_clock e (id_tick w)) < x"
  shows "ParseTokenAny e (secret # rest) (cl_Issuer c) token w = (Inr c, id_advance w)"
proof -
  have "jwt_parse e (\<lambda>m. case m of HMAC \<Rightarrow> Inr secret | other_method \<Rightarrow> Inl ''unexpected signing method'')
      (cl_Issuer c) (id_clock e (id_tick w)) token = Inr (c, True)"
    using assms unfolding jwt_sound_def by (metis signing_method.case(1))
  with assms(3) show ?thesis
    by (simp add: ParseTokenAny_def attempt_def parseTokenWithSecret_def andThen_def id_now_def lift_result_def ok_def)
qed

text \<open>Without faults of the database the reads and the saving of an account succeed.\<close>

lemma GetAgentRow_succeeds:
  "no_id_fault e \<Longrightarrow> by_id ag_ID i (agents (tables w)) = Some a \<Longrightarrow> GetAgentRow e i w = (Inr a, id_advance w)"
  by (simp add: GetAgentRow_def id_query_def andThen_def id_call_def no_id_fault_def found_def id_advance_def)

lemma Save_agent_succeeds:
  assumes "no_id_fault e" "identity_inv e w" "a \<in> set (agents (tables w))" "agent_follows 1 a b"
  shows "\<exists>row w'. Save_agent e b w = (Inr row, w')"
proof -
  have b: "ag_ID b = ag_ID a" "ag_Email b = ag_Email a" "ag_DisplayName b = ag_DisplayName a"
    using assms(4) by (simp_all add: agent_follows_def)
  have "\<not> (\<exists>r \<in> set (agents (tables w)). ag_ID r \<noteq> ag_ID b \<and> agent_clash e b r)"
    using assms(2,3) b by (auto simp: identity_inv_defs agent_clash_def id_eq_def distinct_map inj_on_def)
  with assms(1) show ?thesis
    by (auto simp: Save_agent_def id_statement_def andThen_def id_call_def id_now_def no_id_fault_def id_advance_def Let_def)
qed

lemma ForceAgentLogout_succeeds:
  assumes "no_id_fault e" "identity_inv e w" "by_id ag_ID i (agents (tables w)) = Some a"
  shows "\<exists>row w'. ForceAgentLogout e i actor w = (Inr row, w')"
proof -
  have a: "a \<in> set (agents (tables w))" "ag_ID a = i" using by_id_Some [OF assms(3)] by simp_all
  then have i: "i \<noteq> 0" using assms(2) by (auto simp: identity_inv_defs)
  have inv: "identity_inv e (id_advance w)" using assms(2) idle_inv [OF idle_advance] by simp
  have mem: "a \<in> set (agents (tables (id_advance w)))" using a(1) by (simp add: id_advance_def)
  obtain row w1 where s: "Save_agent e (a\<lparr>ag_TokenVersion := nextTokenVersion (ag_TokenVersion a)\<rparr>) (id_advance w) = (Inr row, w1)"
    using Save_agent_succeeds [OF assms(1) inv mem agent_changes(1)] by blast
  have "missing_as (Sentinel Admin_ErrNotFound) (GetAgentRow e i) w = (Inr a, id_advance w)"
    using GetAgentRow_succeeds [OF assms(1,3)] by (simp add: missing_as_def runs)
  with i s show ?thesis
    by (auto simp: ForceAgentLogout_def andThen_def ignore_def attempt_def ok_def split: prod.split)
qed

definition demo_ann_claims :: claims where
  "demo_ann_claims = \<lparr>cl_AgentID = 7, cl_Email = ''ann@example.com'', cl_Role = ''agent'', cl_TokenVersion = 1,
     cl_Issuer = ''inlinechat'', cl_Subject = ''agent:7'', cl_IssuedAt = 0, cl_NotBefore = 0, cl_ExpiresAt = Some 60\<rparr>"

definition demo_ann_token :: string where
  "demo_ann_token = projr (demo_sign ''secret'' demo_ann_claims)"

definition demo_out :: identity_world where
  "demo_out = snd (ForceAgentLogout demo_id_env 7 demo_root demo_live)"

lemma demo_ann_parsed:
  "ParseToken demo_id_env demo_auth demo_ann_token w = (Inr demo_ann_claims, id_advance w)"
proof -
  have auth: "jwtVerifySecrets demo_auth = [''secret'']" "jwtIssuer demo_auth = ''inlinechat''" by code_simp+
  have signed: "jwt_sign demo_id_env ''secret'' demo_ann_claims = Inr demo_ann_token"
    by (simp add: demo_id_env_def demo_ann_token_def demo_sign_def)
  have c: "cl_Issuer demo_ann_claims = ''inlinechat''" "cl_NotBefore demo_ann_claims = 0" "cl_ExpiresAt demo_ann_claims = Some 60"
    "seconds (id_clock demo_id_env t) = 5" for t by (simp_all add: demo_ann_claims_def demo_id_env_def seconds_def)
  show ?thesis
    using parse_signed [OF demo_id_sound(1) signed, of w "[]"] by (simp add: ParseToken_def auth c)
qed

theorem ended_sessions_stay_ended_witness:
  "\<not> isl (fst (ValidateToken demo_id_env demo_auth demo_ann_token demo_live))
   \<and> isl (fst (ValidateToken demo_id_env demo_auth demo_ann_token demo_out))"
proof -
  have row: "by_id ag_ID 7 (agents (tables demo_live)) = Some demo_ann" by (simp add: demo_live_def by_id_def demo_ann_def)
  have run: "ends_sessions demo_id_env 7 demo_live demo_out"
    using ForceAgentLogout_succeeds [OF demo_id_sound(3) demo_live_inv row, of demo_root]
    unfolding ends_sessions_def demo_out_def by auto
  note p = demo_ann_parsed
  have role: "ToLower (TrimSpace (cl_Role demo_ann_claims)) \<in> {''agent'', ''admin''}" by code_simp
  have bound: "unat (normalizeTokenVersion (ag_TokenVersion demo_ann)) + 1 + (id_tick demo_out - id_tick demo_out) < 2 ^ 64"
    by (simp add: demo_ann_def normalizeTokenVersion_def)
  have "isl (fst (ValidateToken demo_id_env demo_auth demo_ann_token demo_out))"
    by (rule ended_sessions_stay_ended [OF demo_live_inv row run rtranclp.rtrancl_refl p _ role _ bound])
       (simp_all add: demo_ann_claims_def demo_ann_def)
  moreover have "\<not> isl (fst (ValidateToken demo_id_env demo_auth demo_ann_token demo_live))" by code_simp
  ultimately show ?thesis by blast
qed

end
