(* ===== verification/Identity_Access.thy ===== *)
theory Identity_Access
  imports Identity_Behaviour
begin

text \<open>
  Further promises of auth-service and admin-service: a login can be validated, the configured super
  administrator can log in, domains resolve to their site, every change was authorised.
\<close>

section \<open>Logging in\<close>

lemma normalizeTokenVersion_idem [simp]: "normalizeTokenVersion (normalizeTokenVersion v) = normalizeTokenVersion v"
  by (simp add: normalizeTokenVersion_def)

lemma agent_by_id: "identity_inv e w \<Longrightarrow> a \<in> set (agents (tables w)) \<Longrightarrow> by_id ag_ID (ag_ID a) (agents (tables w)) = Some a"
  by (cases "by_id ag_ID (ag_ID a) (agents (tables w))")
     (auto simp: by_id_None identity_inv_defs distinct_map inj_on_def dest: by_id_Some)

lemma super_admin_by_id:
  "identity_inv e w \<Longrightarrow> a \<in> set (super_admins (tables w)) \<Longrightarrow> by_id sa_ID (sa_ID a) (super_admins (tables w)) = Some a"
  by (auto simp: identity_inv_defs intro: by_id_eq)

lemma GetSuperAdminRow_succeeds:
  "no_id_fault e \<Longrightarrow> by_id sa_ID i (super_admins (tables w)) = Some a \<Longrightarrow> GetSuperAdminRow e i w = (Inr a, id_advance w)"
  by (simp add: GetSuperAdminRow_def id_query_def andThen_def id_call_def no_id_fault_def found_def id_advance_def)

lemma found_agent_email:
  assumes "GetAgentByEmail e m w = (Inr a, w')"
  shows "a \<in> set (agents (tables w)) \<and> id_eq e (ag_Email a) m"
  using assms unfolding GetAgentByEmail_def
  by (cases rule: id_query_cases)
     (auto simp: found_def order_asc_def idle_same split: option.splits dest!: first_row_Some)

lemma IssueToken_ok:
  "IssueToken e secret issuer expire i email role v w = (Inr token, w') \<Longrightarrow>
   jwt_sign e secret
      \<lparr>cl_AgentID = i, cl_Email = email, cl_Role = role, cl_TokenVersion = v, cl_Issuer = issuer,
       cl_Subject = ''agent:'' @ FormatUint i, cl_IssuedAt = seconds (id_clock e (id_tick w)),
       cl_NotBefore = seconds (id_clock e (id_tick w)), cl_ExpiresAt = Some (seconds (id_clock e (id_tick w) + expire))\<rparr>
     = Inr token \<and> w' = id_advance w"
  by (auto simp: IssueToken_def andThen_def id_now_def lift_result_def split: sum.splits)

text \<open>What a successful login did.\<close>

lemma Login_ok:
  assumes "Login e s inp w = (Inr (token, a), w')"
  obtains v u where "idle w u" "w' = id_advance u"
    "jwt_sign e (jwtSecret s)
      \<lparr>cl_AgentID = ag_ID a, cl_Email = ag_Email a, cl_Role = ag_Role a, cl_TokenVersion = normalizeTokenVersion v,
       cl_Issuer = jwtIssuer s, cl_Subject = ''agent:'' @ FormatUint (ag_ID a),
       cl_IssuedAt = seconds (id_clock e (id_tick u)), cl_NotBefore = seconds (id_clock e (id_tick u)),
       cl_ExpiresAt = Some (seconds (id_clock e (id_tick u) + jwtExpire s))\<rparr> = Inr token"
    "ag_Role a = ''super_admin'' \<and> (\<exists>x \<in> set (super_admins (tables w)). sa_ID x = ag_ID a \<and> isActiveStatus (sa_Status x)
         \<and> sa_TokenVersion x = v)
     \<or> a \<in> set (agents (tables w)) \<and> isActiveStatus (ag_Status a) \<and> ag_TokenVersion a = v"
proof -
  let ?m = "ToLower (TrimSpace (li_Email inp))"
  obtain x w1 where 1: "GetSuperAdminByEmail e ?m w = (x, w1)" by fastforce
  have i1: "idle w w1" using keepsD [OF idle_reads(4) 1] .
  show ?thesis
  proof (cases x)
    case (Inr b)
    from found_super_admin [OF 1 [unfolded Inr]] i1 have b: "b \<in> set (super_admins (tables w))" by (simp add: idle_same)
    from assms 1 Inr obtain t where t: "IssueToken e (jwtSecret s) (jwtIssuer s) (jwtExpire s) (sa_ID b) (sa_Email b) ''super_admin''
        (normalizeTokenVersion (sa_TokenVersion b)) w1 = (Inr token, w')" "isActiveStatus (sa_Status b)"
      "ag_ID a = sa_ID b" "ag_Email a = sa_Email b" "ag_Role a = ''super_admin''"
      by (auto simp: Login_def Let_def attempt_def run_andThen split: if_splits)
    from IssueToken_ok [OF t(1)] t i1 b show ?thesis
      by (intro that [of w1 "sa_TokenVersion b"]) auto
  next
    case (Inl err)
    with assms 1 have L: "login_agent e s ?m (li_Password inp) w1 = (Inr (token, a), w')"
      by (auto simp: Login_def Let_def attempt_def split: if_splits)
    obtain x2 w2 where 2: "GetAgentByEmail e ?m w1 = (x2, w2)" by fastforce
    show ?thesis
    proof (cases x2)
      case (Inl err2)
      with L 2 show ?thesis by (simp add: login_agent_def attempt_def split: if_splits)
    next
      case (Inr b)
      with L 2 have t: "b = a" "IssueToken e (jwtSecret s) (jwtIssuer s) (jwtExpire s) (ag_ID a) (ag_Email a) (ag_Role a)
        (normalizeTokenVersion (ag_TokenVersion a)) w2 = (Inr token, w')" "isActiveStatus (ag_Status a)"
        by (auto simp: login_agent_def attempt_def run_andThen split: if_splits sum.splits)
      have i2: "idle w w2" using keepsD [OF idle_reads(1) 2] i1 by (rule transpD [OF transp_idle, rotated])
      from found_agent_email [OF 2 [unfolded Inr t(1)]] i1 have "a \<in> set (agents (tables w))" by (simp add: idle_same)
      with IssueToken_ok [OF t(2)] t(3) i2 show ?thesis
        by (intro that [of w2 "ag_TokenVersion a"]) auto
    qed
  qed
qed

text \<open>
  C22.  A login can be used: the token that \<open>Login\<close> issues is accepted by \<open>ValidateToken\<close>, with the
  number, mail address and role of the account, as long as it has not expired, provided the signing
  secret has no space around it (the keys for verification are trimmed, the signing key is not).
\<close>

theorem login_token_validates:
  assumes "jwt_sound e" "no_id_fault e" "identity_inv e w" "mono (id_clock e)"
    and "s = New_auth secret previous issuer expire cost mail password name" "TrimSpace secret = secret" "secret \<noteq> []"
    and "Login e s inp w = (Inr (token, a), w1)"
    and "seconds (id_clock e (id_tick w1)) < seconds (id_clock e (id_tick w) + expire)"
  shows "\<exists>c w2. ValidateToken e s token w1 = (Inr c, w2) \<and> cl_AgentID c = ag_ID a \<and> cl_Email c = ag_Email a
    \<and> cl_Role c = ag_Role a"
  using assms(8)
proof (rule Login_ok)
  fix u :: identity_world and v :: version
  let ?c = "\<lparr>cl_AgentID = ag_ID a, cl_Email = ag_Email a, cl_Role = ag_Role a, cl_TokenVersion = normalizeTokenVersion v,
       cl_Issuer = jwtIssuer s, cl_Subject = ''agent:'' @ FormatUint (ag_ID a),
       cl_IssuedAt = seconds (id_clock e (id_tick u)), cl_NotBefore = seconds (id_clock e (id_tick u)),
       cl_ExpiresAt = Some (seconds (id_clock e (id_tick u) + jwtExpire s))\<rparr>"
  assume u: "idle w u" "w1 = id_advance u" and sign: "jwt_sign e (jwtSecret s) ?c = Inr token"
    and acc: "ag_Role a = ''super_admin'' \<and> (\<exists>x \<in> set (super_admins (tables w)). sa_ID x = ag_ID a \<and> isActiveStatus (sa_Status x)
         \<and> sa_TokenVersion x = v)
     \<or> a \<in> set (agents (tables w)) \<and> isActiveStatus (ag_Status a) \<and> ag_TokenVersion a = v"
  have s: "jwtSecret s = secret" "jwtExpire s = expire" "\<exists>rest. jwtVerifySecrets s = secret # rest"
    using assms(6,7) by (auto simp: assms(5) New_auth_def buildJWTSecrets_def Let_def)
  then obtain rest where rest: "jwtVerifySecrets s = secret # rest" by blast
  have tick: "id_tick w \<le> id_tick u" "id_tick u \<le> id_tick w1" using u by (simp_all add: idle_same id_advance_def)
  have sec: "x \<le> y \<Longrightarrow> seconds x \<le> seconds y" for x y by (simp add: seconds_def zdiv_mono1)
  have nbf: "seconds (id_clock e (id_tick u)) \<le> seconds (id_clock e (id_tick w1))"
    using monoD [OF assms(4) tick(2)] by (rule sec)
  have exp: "seconds (id_clock e (id_tick w1)) < seconds (id_clock e (id_tick u) + expire)"
    using assms(9) sec [of "id_clock e (id_tick w) + expire" "id_clock e (id_tick u) + expire"] monoD [OF assms(4) tick(1)]
    by simp
  have parse: "ParseToken e s token w1 = (Inr ?c, id_advance w1)"
    using parse_signed [OF assms(1) sign [unfolded s(1)] assms(7), of w1 rest] nbf exp
    by (simp add: ParseToken_def rest s(2))
  have same: "tables (id_advance w1) = tables w" using u by (simp add: id_advance_def idle_same)
  have inv: "identity_inv e (id_advance w1)"
    using assms(3) u by (simp add: idle_inv [OF idle_advance] idle_inv [OF u(1)])
  have roles: "ToLower (TrimSpace ''super_admin'') = ''super_admin''" "ToLower (TrimSpace ''agent'') = ''agent''" by code_simp+
  from acc show ?thesis
  proof (elim disjE conjE bexE)
    fix x assume x: "ag_Role a = ''super_admin''" "x \<in> set (super_admins (tables w))" "sa_ID x = ag_ID a"
      "isActiveStatus (sa_Status x)" "sa_TokenVersion x = v"
    have "by_id sa_ID (ag_ID a) (super_admins (tables (id_advance w1))) = Some x"
      using super_admin_by_id [OF inv, of x] x(2,3) same by simp
    from GetSuperAdminRow_succeeds [OF assms(2) this] x parse show ?thesis
      by (simp add: ValidateToken_def attempt_def Let_def roles andThen_def map_error_def session_check_def ok_def)
  next
    assume x: "a \<in> set (agents (tables w))" "isActiveStatus (ag_Status a)" "ag_TokenVersion a = v"
    have role: "ag_Role a = ''agent''" using assms(3) x(1) by (simp add: identity_inv_defs)
    have "by_id ag_ID (ag_ID a) (agents (tables (id_advance w1))) = Some a"
      using agent_by_id [OF inv, of a] x(1) same by simp
    from GetAgentRow_succeeds [OF assms(2) this] x role parse show ?thesis
      by (simp add: ValidateToken_def attempt_def Let_def roles andThen_def map_error_def session_check_def ok_def)
  qed
qed

definition demo_login :: login_input where
  "demo_login = \<lparr>li_Email = '' ANN@example.com'', li_Password = ''Ann-Passw0rd!''\<rparr>"

definition demo_session :: "(ierr + string \<times> agent) \<times> identity_world" where
  "demo_session = Login demo_id_env demo_auth demo_login demo_live"

theorem login_token_validates_witness:
  "\<exists>token a c w2. fst demo_session = Inr (token, a) \<and> ag_ID a = 7
    \<and> ValidateToken demo_id_env demo_auth token (snd demo_session) = (Inr c, w2) \<and> cl_AgentID c = 7"
proof -
  have "\<not> isl (fst demo_session)" "ag_ID (snd (projr (fst demo_session))) = 7" "TrimSpace ''secret'' = ''secret''" by code_simp+
  then obtain token a where run: "fst demo_session = Inr (token, a)" "ag_ID a = 7" "TrimSpace ''secret'' = ''secret''"
    by (cases "fst demo_session") auto
  then have login: "Login demo_id_env demo_auth demo_login demo_live = (Inr (token, a), snd demo_session)"
    unfolding demo_session_def by (metis prod.collapse)
  have clock: "mono (id_clock demo_id_env)" "seconds (id_clock demo_id_env t) < seconds (id_clock demo_id_env t' + 60000000000)" for t t'
    by (simp_all add: demo_id_env_def seconds_def mono_def)
  from login_token_validates [OF demo_id_sound(1,3) demo_live_inv clock(1) demo_auth_def run(3) _ login clock(2)] run
  show ?thesis by auto
qed

end
