(* ===== verification/Identity_Rules.thy ===== *)
theory Identity_Rules
  imports Identity_Access Text_Laws
begin

text \<open>
  Rules that the identity services keep: the numbers of agents, the agreement of the three session
  checks, and who may change what through the gRPC server of admin-service.
\<close>

section \<open>The number of an agent\<close>

lemma decimal_value_le: "list_all is_digit s \<Longrightarrow> decimal_value s < 10 ^ length s"
proof (induction s rule: rev_induct)
  case (snoc c s)
  have "digit_value c < 10" using snoc.prems by (auto simp: digit_value_def is_digit_def)
  with snoc show ?case by simp
qed (simp add: decimal_value_def)

lemma digits_unique:
  "list_all is_digit s \<Longrightarrow> list_all is_digit t \<Longrightarrow> length s = length t \<Longrightarrow> decimal_value s = decimal_value t \<Longrightarrow> s = t"
proof (induction s arbitrary: t rule: rev_induct)
  case (snoc c s)
  then obtain d u where t: "t = u @ [d]" by (cases t rule: rev_cases) auto
  have small: "digit_value c < 10" "digit_value d < 10"
    using snoc.prems(1,2) t by (auto simp: digit_value_def is_digit_def)
  have "10 * decimal_value s + digit_value c = 10 * decimal_value u + digit_value d" using snoc.prems(4) t by simp
  then have v: "decimal_value s = decimal_value u" "digit_value c = digit_value d" using small by presburger+
  have "48 \<le> (of_char c :: nat)" "48 \<le> (of_char d :: nat)" using snoc.prems(1,2) t by (auto simp: is_digit_def)
  with v(2) have "(of_char c :: nat) = of_char d" unfolding digit_value_def by linarith
  then have "c = d" by (simp only: of_char_eq_iff)
  with snoc.IH [of u] snoc.prems v(1) t show ?case by simp
qed simp

text \<open>
  C30.  The text form of an agent's number is exact: formatting a number from 1 to 9999 and reading it
  back gives the number, and a text is accepted exactly when, without the space around it, it is the
  four-digit form of such a number.
\<close>

theorem agent_id_round_trip:
  "(0 < n \<and> n < 10000 \<longrightarrow> normalizeAgentID (formatAgentID n) = Inr n)
   \<and> (normalizeAgentID raw = Inr n \<longleftrightarrow> 0 < n \<and> n < 10000 \<and> TrimSpace raw = formatAgentID n)"
proof -
  let ?four = "\<lambda>s. length s = 4 \<and> list_all is_digit s"
  have "normalizeAgentID raw = Inr n \<longleftrightarrow> ?four (TrimSpace raw) \<and> decimal_value (TrimSpace raw) = n \<and> 0 < n" for raw
    using decimal_value_le [of "TrimSpace raw"]
    by (auto simp: normalizeAgentID_def Let_def ParseUint_def split: if_splits)
  moreover have "?four s \<and> decimal_value s = n \<longleftrightarrow> n < 10000 \<and> s = format_04d n" for s
    using decimal_value_le [of s] digits_unique [of s "format_04d n"]
    by (auto simp: format_04d_digits format_04d_length)
  ultimately have *: "normalizeAgentID raw = Inr n \<longleftrightarrow> 0 < n \<and> n < 10000 \<and> TrimSpace raw = formatAgentID n" for raw
    unfolding formatAgentID_def by metis
  then show ?thesis by (simp add: formatAgentID_def format_04d_digits)
qed

theorem agent_id_round_trip_witness: "normalizeAgentID (formatAgentID 42) = Inr 42 \<and> TrimSpace '' 0042 '' = formatAgentID 42"
proof -
  have "normalizeAgentID '' 0042 '' = Inr 42" by code_simp
  with agent_id_round_trip [of 42 "'' 0042 ''"] show ?thesis by simp
qed

section \<open>The three session checks\<close>

text \<open>The status columns hold the texts that the services write.\<close>

definition plain_statuses :: "identity_world \<Rightarrow> bool" where
  "plain_statuses w \<longleftrightarrow>
     (\<forall>a \<in> set (agents (tables w)). ag_Status a \<in> {''active'', ''inactive''})
     \<and> (\<forall>a \<in> set (super_admins (tables w)). sa_Status a \<in> {''active'', ''inactive''})"

lemma plain_status_checks:
  "st \<in> {''active'', ''inactive''} \<Longrightarrow> isActiveStatus st \<longleftrightarrow> ToLower (TrimSpace st) = ''active''"
proof -
  have "isActiveStatus ''active''" "\<not> isActiveStatus ''inactive''"
    "ToLower (TrimSpace ''active'') = ''active''" "ToLower (TrimSpace ''inactive'') = ''inactive''" by code_simp+
  then show "st \<in> {''active'', ''inactive''} \<Longrightarrow> ?thesis" by auto
qed

lemma normalizeTokenVersion_pos [simp]: "normalizeTokenVersion v \<noteq> 0"
  by (simp add: normalizeTokenVersion_def)

lemma row_checks:
  "no_id_fault e \<Longrightarrow> GetSuperAdminRow e i w = (found (by_id sa_ID i (super_admins (tables w))), id_advance w)"
  "no_id_fault e \<Longrightarrow> GetAgentRow e i w = (found (by_id ag_ID i (agents (tables w))), id_advance w)"
  by (simp_all add: GetSuperAdminRow_def GetAgentRow_def id_query_def andThen_def id_call_def no_id_fault_def id_advance_def)

text \<open>
  C27.  The three places that decide whether a session is still good agree: for a token that auth-service
  can parse, \<open>ValidateToken\<close> of auth-service, \<open>ValidateAdminSession\<close> behind the gRPC server of
  admin-service and \<open>validateSessionByRole\<close> behind its HTTP routes give the same verdict, when the
  database answers and the status columns hold what the services write.
\<close>

theorem session_checks_agree:
  assumes "no_id_fault e" "identity_inv e w1" "plain_statuses w1" "cl_AgentID c \<noteq> 0"
    and "ParseToken e s token w = (Inr c, w1)"
  shows "((\<exists>w2. ValidateToken e s token w = (Inr c, w2)) \<longleftrightarrow>
      (\<exists>w2. ValidateAdminSession e (cl_Role c) (cl_AgentID c) (cl_TokenVersion c) w1 = (Inr (), w2)))
    \<and> ((\<exists>w2. ValidateToken e s token w = (Inr c, w2)) \<longleftrightarrow> (\<exists>w2. validateSessionByRole e c w1 = (Inr True, w2)))"
proof -
  let ?role = "ToLower (TrimSpace (cl_Role c))"
  consider "?role = ''super_admin''" | "?role = ''agent'' \<or> ?role = ''admin''"
    | "?role \<notin> {''super_admin'', ''agent'', ''admin''}" by blast
  then show ?thesis
  proof cases
    case 1
    then have ne: "TrimSpace (cl_Role c) \<noteq> []" by auto
    show ?thesis
    proof (cases "by_id sa_ID (cl_AgentID c) (super_admins (tables w1))")
      case None
      with 1 ne assms(1,4,5) show ?thesis
        by (simp add: ValidateToken_def ValidateAdminSession_def validateSessionByRole_def Let_def eff_defs missing_as_def
            row_checks found_def)
    next
      case (Some a)
      then have st: "sa_Status a \<in> {''active'', ''inactive''}"
        using assms(3) by (auto simp: plain_statuses_def dest: by_id_Some)
      from 1 ne assms(1,4,5) Some show ?thesis
        by (auto simp: ValidateToken_def ValidateAdminSession_def validateSessionByRole_def Let_def eff_defs missing_as_def
            row_checks found_def session_check_def admin_session_check_def session_valid_def plain_status_checks [OF st])
    qed
  next
    case 2
    then have ne: "TrimSpace (cl_Role c) \<noteq> []" by auto
    from 2 have sa: "?role \<noteq> ''super_admin''" by auto
    show ?thesis
    proof (cases "by_id ag_ID (cl_AgentID c) (agents (tables w1))")
      case None
      with 2 sa ne assms(1,4,5) show ?thesis
        by (auto simp: ValidateToken_def ValidateAdminSession_def validateSessionByRole_def Let_def eff_defs missing_as_def
            row_checks found_def)
    next
      case (Some a)
      then have st: "ag_Status a \<in> {''active'', ''inactive''}"
        using assms(3) by (auto simp: plain_statuses_def dest: by_id_Some)
      from 2 sa ne assms(1,4,5) Some show ?thesis
        by (auto simp: ValidateToken_def ValidateAdminSession_def validateSessionByRole_def Let_def eff_defs missing_as_def
            row_checks found_def session_check_def admin_session_check_def session_valid_def plain_status_checks [OF st])
    qed
  next
    case 3
    with assms(5) show ?thesis
      by (auto simp: ValidateToken_def ValidateAdminSession_def validateSessionByRole_def Let_def eff_defs)
  qed
qed

theorem session_checks_agree_witness:
  "(\<exists>w2. ValidateToken demo_id_env demo_auth demo_ann_token demo_live = (Inr demo_ann_claims, w2))
   \<and> (\<exists>w2. ValidateAdminSession demo_id_env (cl_Role demo_ann_claims) 7 1 (id_advance demo_live) = (Inr (), w2))
   \<and> (\<exists>w2. validateSessionByRole demo_id_env demo_ann_claims (id_advance demo_live) = (Inr True, w2))"
proof -
  have c: "cl_AgentID demo_ann_claims = 7" "cl_TokenVersion demo_ann_claims = 1" by (simp_all add: demo_ann_claims_def)
  have plain: "plain_statuses (id_advance demo_live)"
    by (simp add: plain_statuses_def id_advance_def demo_live_def demo_ann_def)
  have inv: "identity_inv demo_id_env (id_advance demo_live)" using demo_live_inv idle_inv [OF idle_advance] by simp
  have p: "ParseToken demo_id_env demo_auth demo_ann_token demo_live = (Inr demo_ann_claims, id_advance demo_live)"
    by (rule demo_ann_parsed)
  have "\<not> isl (fst (ValidateToken demo_id_env demo_auth demo_ann_token demo_live))" by code_simp
  then obtain c' w' where v: "ValidateToken demo_id_env demo_auth demo_ann_token demo_live = (Inr c', w')"
    by (cases "ValidateToken demo_id_env demo_auth demo_ann_token demo_live"; cases "fst (ValidateToken demo_id_env demo_auth demo_ann_token demo_live)") auto
  have "ToLower (TrimSpace (cl_Role demo_ann_claims)) \<in> {''agent'', ''admin''}" by code_simp
  from ValidateToken_parsed [OF p v this] v
  have "\<exists>w2. ValidateToken demo_id_env demo_auth demo_ann_token demo_live = (Inr demo_ann_claims, w2)" by blast
  with session_checks_agree [OF demo_id_sound(3) inv plain _ p] show ?thesis unfolding c by simp
qed

section \<open>Who may change what\<close>

text \<open>The calls of the gRPC server of admin-service, with the authorization header they carry.\<close>

inductive admin_call :: "identity_env \<Rightarrow> admin_server \<Rightarrow> string \<Rightarrow> identity_world \<Rightarrow> identity_world \<Rightarrow> bool"
  for e srv auth where
  create_site: "rpc_CreateSite e srv auth req1 w = (r1, w') \<Longrightarrow> admin_call e srv auth w w'"
| update_site: "rpc_UpdateSite e srv auth req2 w = (r2, w') \<Longrightarrow> admin_call e srv auth w w'"
| update_site_status: "rpc_UpdateSiteStatus e srv auth i3 st3 w = (r3, w') \<Longrightarrow> admin_call e srv auth w w'"
| rotate_key: "rpc_RotateSiteWidgetKey e srv auth i4 w = (r4, w') \<Longrightarrow> admin_call e srv auth w w'"
| get_ai: "rpc_GetSiteAIConfig e i5 w = (r5, w') \<Longrightarrow> admin_call e srv auth w w'"
| update_ai: "rpc_UpdateSiteAIConfig e srv auth i6 b6 m6 w = (r6, w') \<Longrightarrow> admin_call e srv auth w w'"
| list_sites: "rpc_ListSites e srv auth n7 k7 w = (r7, w') \<Longrightarrow> admin_call e srv auth w w'"
| get_site: "rpc_GetSiteBySiteID e i8 w = (r8, w') \<Longrightarrow> admin_call e srv auth w w'"
| get_site_by_domain: "rpc_GetSiteByDomain e d9 w = (r9, w') \<Longrightarrow> admin_call e srv auth w w'"
| create_agent: "rpc_CreateAgent e srv auth req10 w = (r10, w') \<Longrightarrow> admin_call e srv auth w w'"
| get_agent: "rpc_GetAgentByID e i11 w = (r11, w') \<Longrightarrow> admin_call e srv auth w w'"
| list_agents: "rpc_ListAgents e srv auth n12 k12 w = (r12, w') \<Longrightarrow> admin_call e srv auth w w'"
| update_agent_status: "rpc_UpdateAgentStatus e srv auth i13 st13 w = (r13, w') \<Longrightarrow> admin_call e srv auth w w'"
| reset_password: "rpc_ResetAgentPassword e srv auth i14 p14 w = (r14, w') \<Longrightarrow> admin_call e srv auth w w'"
| force_logout: "rpc_ForceAgentLogout e srv auth i15 w = (r15, w') \<Longrightarrow> admin_call e srv auth w w'"
| list_audit_logs: "rpc_ListAuditLogs e srv auth req16 w = (r16, w') \<Longrightarrow> admin_call e srv auth w w'"

definition same_accounts :: "identity_world \<Rightarrow> identity_world \<Rightarrow> bool" where
  "same_accounts w w' \<longleftrightarrow> agents (tables w') = agents (tables w) \<and> super_admins (tables w') = super_admins (tables w)
     \<and> ai_configs (tables w') = ai_configs (tables w)"

lemma same_accounts_preorder [simp]: "reflp same_accounts" "transp same_accounts"
  by (auto simp: reflp_def transp_def same_accounts_def)

lemma idle_same_accounts: "keeps idle m \<Longrightarrow> keeps same_accounts m"
  by (rule keepsI) (drule (1) keepsD, simp add: same_accounts_def idle_same)

lemma statement_same_accounts:
  assumes "\<And>now w r w'. s now w = (r, w') \<Longrightarrow> same_accounts w w'"
  shows "keeps same_accounts (id_statement e s)"
proof (rule keepsI)
  fix w r w' assume "id_statement e s w = (r, w')"
  then show "same_accounts w w'"
  proof (cases rule: id_statement_cases)
    case (run now w1)
    from assms [OF run(3)] run(1) show ?thesis by (simp add: same_accounts_def idle_same)
  qed (simp add: same_accounts_def idle_same)
qed

lemma transaction_same_accounts:
  assumes "keeps same_accounts body"
  shows "keeps same_accounts (id_transaction e body)"
proof (rule keepsI)
  fix w r w' assume run: "id_transaction e body w = (r, w')"
  have call: "id_call e v = (x, v') \<Longrightarrow> same_accounts v v'" for v x v'
    by (rule keepsD [OF idle_same_accounts [OF idle_calls(1)]])
  have undo: "same_accounts v (u\<lparr>tables := tables v'\<rparr>) \<longleftrightarrow> same_accounts v v'" for v u v' by (simp add: same_accounts_def)
  note trans = transpD [OF same_accounts_preorder(2)]
  show "same_accounts w w'"
    using run assms by (auto simp: id_transaction_def undo split: prod.splits sum.splits dest!: call keepsD intro: trans)
qed

lemma site_writes_same_accounts:
  "keeps same_accounts (insert_site e s)" "keeps same_accounts (update_site e s)" "keeps same_accounts (syncSiteDomainsTx e i ds)"
  "keeps same_accounts (Create_audit_log e l)"
proof -
  have "keeps same_accounts (delete_domains e i)" "keeps same_accounts (insert_domains e items)" for items
    unfolding delete_domains_def insert_domains_def
    by (intro statement_same_accounts, auto simp: same_accounts_def set_domains_def Let_def split: if_splits)+
  then show "keeps same_accounts (syncSiteDomainsTx e i ds)"
    unfolding syncSiteDomainsTx_def Let_def by (intro keeps_intros same_accounts_preorder)
  show "keeps same_accounts (insert_site e s)" "keeps same_accounts (update_site e s)" "keeps same_accounts (Create_audit_log e l)"
    unfolding insert_site_def update_site_def Create_audit_log_def
    by (intro statement_same_accounts, auto simp: same_accounts_def set_sites_def set_audit_logs_def Let_def split: if_splits)+
qed

lemma site_operations_same_accounts:
  "keeps same_accounts (CreateSite e inp actor)" "keeps same_accounts (UpdateSite e inp2 actor)"
proof -
  have w: "keeps same_accounts (Create_site e st)" "keeps same_accounts (Save_site e st)"
    "keeps same_accounts (writeAuditLog e actor a t i sm)" for st a t i sm
    unfolding Create_site_def Save_site_def writeAuditLog_def
    by (intro keeps_intros transaction_same_accounts site_writes_same_accounts same_accounts_preorder)+
  have r: "keeps same_accounts (randomHex e p n)" "keeps same_accounts (missing_as err (GetBySiteID e m))" for p n err m
    by (intro idle_same_accounts keeps_intros)+
  have c: "keeps same_accounts m \<Longrightarrow> keeps same_accounts (conflict_as m)" for m :: "'a ieff"
    unfolding conflict_as_def by (rule keeps_map_error)
  show "keeps same_accounts (CreateSite e inp actor)" "keeps same_accounts (UpdateSite e inp2 actor)"
    unfolding CreateSite_def UpdateSite_def Let_def by (intro keeps_intros same_accounts_preorder w r c)+
qed

text \<open>The account behind the claims is one of the administrators, active and of the same version.\<close>

definition live_admin :: "claims \<Rightarrow> identity_world \<Rightarrow> bool" where
  "live_admin c w \<longleftrightarrow>
     (cl_Role c = ''super_admin'' \<and> (\<exists>a \<in> set (super_admins (tables w)). sa_ID a = cl_AgentID c
        \<and> session_valid (sa_Status a) (sa_TokenVersion a) (cl_TokenVersion c)))
     \<or> (cl_Role c = ''admin'' \<and> (\<exists>a \<in> set (agents (tables w)). ag_ID a = cl_AgentID c
        \<and> session_valid (ag_Status a) (ag_TokenVersion a) (cl_TokenVersion c)))"

lemma found_row:
  "GetSuperAdminRow e i w = (Inr sa, w') \<Longrightarrow> sa \<in> set (super_admins (tables w)) \<and> sa_ID sa = i"
  "GetAgentRow e i w = (Inr a, w') \<Longrightarrow> a \<in> set (agents (tables w)) \<and> ag_ID a = i"
  unfolding GetSuperAdminRow_def GetAgentRow_def
  by (auto elim!: id_query_cases simp: found_def idle_same split: option.splits dest!: by_id_Some)

lemma requireAdmin_ok:
  assumes "requireAdmin e srv auth w = (Inr c, w1)"
  shows "live_admin c w \<and> (\<exists>w0. ParseTokenAny e (jwtSecrets srv) (adm_jwtIssuer srv) (parseBearerToken auth) w = (Inr c, w0))"
proof -
  from assms obtain w0 w2 where p: "ParseTokenAny e (jwtSecrets srv) (adm_jwtIssuer srv) (parseBearerToken auth) w = (Inr c, w0)"
    and v: "ValidateAdminSession e (cl_Role c) (cl_AgentID c) (cl_TokenVersion c) w0 = (Inr (), w2)"
    and role: "cl_Role c = ''admin'' \<or> cl_Role c = ''super_admin''"
    by (auto simp: requireAdmin_def Let_def runs split: if_splits)
  have same: "tables w0 = tables w" using keepsD [OF idle_tokens(2) p] by (simp add: idle_same)
  have t: "ToLower (TrimSpace ''super_admin'') = ''super_admin''" "ToLower (TrimSpace ''admin'') = ''admin''" by code_simp+
  from role have "live_admin c w0"
  proof
    assume r: "cl_Role c = ''admin''"
    with v t obtain a w3 where "GetAgentRow e (cl_AgentID c) w0 = (Inr a, w3)"
      "admin_session_check (ag_Status a) (ag_TokenVersion a) (cl_TokenVersion c) w3 = (Inr (), w2)"
      by (auto simp: ValidateAdminSession_def Let_def missing_as_def runs split: if_splits)
    with r found_row(2) [of e "cl_AgentID c" w0 a w3] show ?thesis
      by (auto simp: live_admin_def session_valid_def admin_session_check_def split: if_splits)
  next
    assume r: "cl_Role c = ''super_admin''"
    with v t obtain a w3 where "GetSuperAdminRow e (cl_AgentID c) w0 = (Inr a, w3)"
      "admin_session_check (sa_Status a) (sa_TokenVersion a) (cl_TokenVersion c) w3 = (Inr (), w2)"
      by (auto simp: ValidateAdminSession_def Let_def missing_as_def runs split: if_splits)
    with r found_row(1) [of e "cl_AgentID c" w0 a w3] show ?thesis
      by (auto simp: live_admin_def session_valid_def admin_session_check_def split: if_splits)
  qed
  with p same show ?thesis by (auto simp: live_admin_def)
qed

lemma guarded_call:
  assumes "andThen (requireAdmin e srv auth) k w = (r, w')" "tables w' \<noteq> tables w"
  obtains c w1 where "requireAdmin e srv auth w = (Inr c, w1)" "k c w1 = (r, w')" "tables w1 = tables w"
proof -
  obtain x w1 where 1: "requireAdmin e srv auth w = (x, w1)" by fastforce
  have "tables w1 = tables w" using keepsD [OF idle_authorisation(1) 1] by (simp add: idle_same)
  with assms 1 show ?thesis by (cases x) (auto simp: andThen_def intro: that)
qed

lemma idle_rpc_reply [keeps_intros]: "keeps idle m \<Longrightarrow> keeps idle (rpc_reply f m)"
  unfolding rpc_reply_def by (intro keeps_intros reflp_idle transp_idle)

lemma idle_handlers:
  "keeps idle (rpc_GetSiteAIConfig e i)" "keeps idle (rpc_ListSites e srv auth n k)" "keeps idle (rpc_GetSiteBySiteID e i)"
  "keeps idle (rpc_GetSiteByDomain e i)" "keeps idle (rpc_GetAgentByID e j)" "keeps idle (rpc_ListAgents e srv auth n k)"
  "keeps idle (rpc_ListAuditLogs e srv auth req)"
  unfolding rpc_GetSiteAIConfig_def rpc_ListSites_def rpc_GetSiteBySiteID_def rpc_GetSiteByDomain_def rpc_GetAgentByID_def
    rpc_ListAgents_def rpc_ListAuditLogs_def rpc_window_def Let_def
  by (intro keeps_intros reflp_idle transp_idle)+

lemma super_admin_call:
  assumes "andThen (requireAdmin e srv auth) (\<lambda>c. super_admin_only c (m c)) w = (r, w')" "tables w' \<noteq> tables w"
  shows "\<exists>c w1. requireAdmin e srv auth w = (Inr c, w1) \<and> cl_Role c = ''super_admin''"
  using assms
proof (rule guarded_call)
  fix c w1 assume "requireAdmin e srv auth w = (Inr c, w1)" "super_admin_only c (m c) w1 = (r, w')" "tables w1 = tables w"
  with assms(2) show ?thesis by (auto simp: super_admin_only_def split: if_splits)
qed

lemma site_call:
  assumes "andThen (requireAdmin e srv auth) (\<lambda>c. if b then fail err else rpc_reply f (m c)) w = (r, w')"
    and "tables w' \<noteq> tables w" "\<And>c. keeps same_accounts (m c)"
  shows "\<exists>c w1. requireAdmin e srv auth w = (Inr c, w1) \<and> same_accounts w w'"
  using assms(1,2)
proof (rule guarded_call)
  fix c w1 assume 1: "requireAdmin e srv auth w = (Inr c, w1)" and same: "tables w1 = tables w"
    and run: "(if b then fail err else rpc_reply f (m c)) w1 = (r, w')"
  have "keeps same_accounts (if b then fail err else rpc_reply f (m c))"
    unfolding rpc_reply_def by (intro keeps_intros same_accounts_preorder assms(3))
  from keepsD [OF this run] have "same_accounts w1 w'" .
  with 1 same show ?thesis by (auto simp: same_accounts_def)
qed

text \<open>What each handler that changes a table has checked.\<close>

lemma site_handlers:
  assumes "tables w' \<noteq> tables w"
  shows "rpc_CreateSite e srv auth req1 w = (r1, w') \<Longrightarrow>
      \<exists>c w1. requireAdmin e srv auth w = (Inr c, w1) \<and> same_accounts w w'"
    and "rpc_UpdateSite e srv auth req2 w = (r1, w') \<Longrightarrow>
      \<exists>c w1. requireAdmin e srv auth w = (Inr c, w1) \<and> same_accounts w w'"
  unfolding rpc_CreateSite_def rpc_UpdateSite_def
  by (erule site_call [OF _ assms site_operations_same_accounts(1)],
      erule site_call [OF _ assms site_operations_same_accounts(2)])

lemma super_admin_handlers:
  fixes e :: identity_env and srv :: admin_server and auth :: string
  assumes "tables w' \<noteq> tables w"
  defines "authorized \<equiv> \<exists>c w1. requireAdmin e srv auth w = (Inr c, w1) \<and> cl_Role c = ''super_admin''"
  shows "rpc_UpdateSiteStatus e srv auth i3 st3 w = (r3, w') \<Longrightarrow> authorized"
    and "rpc_RotateSiteWidgetKey e srv auth i3 w = (r3, w') \<Longrightarrow> authorized"
    and "rpc_UpdateSiteAIConfig e srv auth i3 b6 m6 w = (r6, w') \<Longrightarrow> authorized"
    and "rpc_CreateAgent e srv auth req10 w = (r10, w') \<Longrightarrow> authorized"
    and "rpc_UpdateAgentStatus e srv auth j st3 w = (r10, w') \<Longrightarrow> authorized"
    and "rpc_ResetAgentPassword e srv auth j p14 w = (r10, w') \<Longrightarrow> authorized"
    and "rpc_ForceAgentLogout e srv auth j w = (r10, w') \<Longrightarrow> authorized"
  unfolding rpc_UpdateSiteStatus_def rpc_RotateSiteWidgetKey_def rpc_UpdateSiteAIConfig_def rpc_CreateAgent_def
    rpc_UpdateAgentStatus_def rpc_ResetAgentPassword_def rpc_ForceAgentLogout_def authorized_def
  by (erule super_admin_call [OF _ assms(1)])+

text \<open>The calls of the gRPC server.\<close>

lemma admin_changes_authorized:
  assumes "admin_call e srv auth w w'" "tables w' \<noteq> tables w"
  shows "\<exists>c w0. ParseTokenAny e (jwtSecrets srv) (adm_jwtIssuer srv) (parseBearerToken auth) w = (Inr c, w0)
    \<and> live_admin c w \<and> (same_accounts w w' \<or> cl_Role c = ''super_admin'')"
proof -
  have "\<exists>c w1. requireAdmin e srv auth w = (Inr c, w1) \<and> (same_accounts w w' \<or> cl_Role c = ''super_admin'')"
    using assms
    by (induction rule: admin_call.induct)
       (auto simp: idle_same dest: site_handlers super_admin_handlers idle_handlers [THEN keepsD])
  with requireAdmin_ok show ?thesis by blast
qed

definition demo_root_claims :: claims where
  "demo_root_claims = \<lparr>cl_AgentID = 1, cl_Email = ''root@example.com'', cl_Role = ''super_admin'', cl_TokenVersion = 1,
     cl_Issuer = ''inlinechat'', cl_Subject = ''agent:1'', cl_IssuedAt = 0, cl_NotBefore = 0, cl_ExpiresAt = Some 60\<rparr>"

definition demo_bearer :: string where
  "demo_bearer = ''bearer '' @ projr (demo_sign ''secret'' demo_root_claims)"

definition demo_admin :: admin_server where
  "demo_admin = New_admin_server ''secret'' [] ''inlinechat'' 10"

end
