(* ===== verification/Identity_Setup.thy ===== *)
theory Identity_Setup
  imports Identity_Rules
begin

text \<open>
  How an installation is set up: the super administrator follows the configuration, and the domains of a
  site resolve to it.
\<close>

section \<open>The configured super administrator\<close>

definition settled :: "identity_env \<Rightarrow> auth_service \<Rightarrow> super_admin \<Rightarrow> bool" where
  "settled e s a \<longleftrightarrow>
     id_eq e (sa_Email a) (superAdminEmail s) \<and> isActiveStatus (sa_Status a)
     \<and> sa_DisplayName a = superAdminDisplayName s \<and> sa_TokenVersion a \<noteq> 0
     \<and> ComparePassword e (sa_PasswordHash a) (superAdminPassword s)"

lemma active_is_active [simp]: "isActiveStatus ''active''"
  by code_simp

lemma ensured_profile_settled:
  "settled e s a \<Longrightarrow> ensured_profile s a = a"
  "id_eq e (sa_Email a) (superAdminEmail s) \<Longrightarrow> ComparePassword e h (superAdminPassword s) \<Longrightarrow>
   settled e s ((ensured_profile s a)\<lparr>sa_PasswordHash := h\<rparr>)"
  by (simp_all add: settled_def ensured_profile_def)

lemma settled_stamp: "settled e s b \<Longrightarrow> settled e s (b\<lparr>sa_UpdatedAt := t\<rparr>)"
  by (simp add: settled_def)

lemma HashPassword_ok: "bcrypt_sound e \<Longrightarrow> HashPassword e p cost w = (Inr h, w') \<Longrightarrow> ComparePassword e h p \<and> idle w w'"
  using keepsD [OF idle_calls(3), of e p cost w "Inr h" w']
  by (auto simp: HashPassword_def ComparePassword_def bcrypt_sound_def split: sum.splits)

lemma saved_settled:
  assumes "Save_super_admin e b w = (Inr row, w')" "settled e s b" "\<exists>q \<in> set (super_admins (tables w)). sa_ID q = sa_ID b"
  shows "\<exists>a \<in> set (super_admins (tables w')). settled e s a"
  using assms(1,3)
proof (cases rule: Save_super_admin_cases)
  case (stored row' w1)
  from assms(3) obtain q where "q \<in> set (super_admins (tables w))" "sa_ID q = sa_ID b" by blast
  then have "row' \<in> set (super_admins (tables w'))"
    using update_rows_mem [of q "super_admins (tables w)" "\<lambda>q. sa_ID q = sa_ID b" "\<lambda>_. row'"] stored(3) by simp
  moreover have "settled e s row'" by (subst stored(4)) (rule settled_stamp [OF assms(2)])
  ultimately show ?thesis by blast
qed simp

lemma correct_super_admin_settles:
  assumes "bcrypt_sound e" "correct_super_admin e s a w = (Inr (), w')" "a \<in> set (super_admins (tables w))"
    and "id_eq e (sa_Email a) (superAdminEmail s)"
  shows "\<exists>b \<in> set (super_admins (tables w')). settled e s b"
proof (cases "ComparePassword e (sa_PasswordHash a) (superAdminPassword s)")
  case True
  from ensured_profile_settled(2) [OF assms(4) True] have b: "settled e s (ensured_profile s a)"
    by (simp add: ensured_profile_def)
  show ?thesis
  proof (cases "ensured_profile s a = a")
    case True
    with assms(2,3) \<open>ComparePassword _ _ _\<close> b show ?thesis by (auto simp: correct_super_admin_def Let_def)
  next
    case False
    with assms(2) \<open>ComparePassword _ _ _\<close> obtain row where "Save_super_admin e (ensured_profile s a) w = (Inr row, w')"
      by (auto simp: correct_super_admin_def Let_def runs)
    from saved_settled [OF this b] assms(3) show ?thesis by (auto simp: ensured_profile_def)
  qed
next
  case False
  with assms(2) obtain h w1 row where h: "HashPassword e (superAdminPassword s) (bcryptCost s) w = (Inr h, w1)"
    and sv: "Save_super_admin e ((ensured_profile s a)\<lparr>sa_PasswordHash := h\<rparr>) w1 = (Inr row, w')"
    by (auto simp: correct_super_admin_def Let_def runs)
  note h = HashPassword_ok [OF assms(1) h]
  have b: "settled e s ((ensured_profile s a)\<lparr>sa_PasswordHash := h\<rparr>)" using ensured_profile_settled(2) [OF assms(4)] h by blast
  have "\<exists>q \<in> set (super_admins (tables w1)). sa_ID q = sa_ID ((ensured_profile s a)\<lparr>sa_PasswordHash := h\<rparr>)"
    using assms(3) h by (auto simp: ensured_profile_def idle_same)
  from saved_settled [OF sv b this] show ?thesis .
qed

lemma create_super_admin_settles:
  assumes "bcrypt_sound e" "create_super_admin e s w = (Inr (), w')"
  shows "\<exists>b \<in> set (super_admins (tables w')). settled e s b"
proof -
  let ?new = "\<lambda>h. \<lparr>sa_ID = 0, sa_Email = superAdminEmail s, sa_PasswordHash = h, sa_DisplayName = superAdminDisplayName s,
    sa_Status = ''active'', sa_TokenVersion = 1, sa_CreatedAt = 0, sa_UpdatedAt = 0\<rparr>"
  obtain x u where x: "GetAgentByEmail e (superAdminEmail s) w = (x, u)" by fastforce
  with assms(2) obtain err where "x = Inl err" by (cases x) (auto simp: create_super_admin_def attempt_def)
  with assms(2) x obtain h v w1 row where h: "HashPassword e (superAdminPassword s) (bcryptCost s) v = (Inr h, w1)"
    and cr: "Create_super_admin e (?new h) w1 = (Inr row, w')"
    by (auto simp: create_super_admin_def attempt_def run_andThen split: if_splits)
  note h = HashPassword_ok [OF assms(1) h]
  have "sa_ID (?new h) = 0" "sa_TokenVersion (?new h) \<noteq> 0" by simp_all
  with cr show ?thesis
  proof (cases rule: Create_super_admin_cases)
    case (stored row' w2)
    have "settled e s row'"
      by (subst stored(4)) (use h in \<open>simp add: settled_def id_eq_def\<close>)
    then show ?thesis using stored(3) by auto
  qed simp_all
qed

text \<open>
  C28.  \<open>EnsureSuperAdmin\<close> makes the configuration true and is idempotent: after it succeeded, an active
  super administrator with the configured mail address and display name accepts the configured password,
  and running it again succeeds and changes no table.
\<close>

theorem EnsureSuperAdmin_settles:
  assumes "bcrypt_sound e" "identity_inv e w" "EnsureSuperAdmin e s w = (Inr (), w1)"
  shows "(\<exists>a \<in> set (super_admins (tables w1)). settled e s a)
    \<and> (no_id_fault e \<longrightarrow> (\<exists>w2. EnsureSuperAdmin e s w1 = (Inr (), w2) \<and> tables w2 = tables w1))"
proof -
  obtain x v where x: "GetSuperAdminByEmail e (superAdminEmail s) w = (x, v)" by fastforce
  have v: "idle w v" using keepsD [OF idle_reads(4) x] .
  have pre: "superAdminEmail s \<noteq> []" "superAdminPassword s \<noteq> []" "superAdminDisplayName s \<noteq> []"
    "ValidatePasswordPolicy e (superAdminPassword s) = Inr ()"
    using assms(3) by (auto simp: EnsureSuperAdmin_def split: if_splits sum.splits)
  have 1: "\<exists>a \<in> set (super_admins (tables w1)). settled e s a"
  proof (cases x)
    case (Inl err)
    with assms(3) x pre have "create_super_admin e s v = (Inr (), w1)"
      by (auto simp: EnsureSuperAdmin_def attempt_def split: if_splits)
    with assms(1) show ?thesis by (rule create_super_admin_settles)
  next
    case (Inr a)
    with assms(3) x pre have "correct_super_admin e s a v = (Inr (), w1)" by (simp add: EnsureSuperAdmin_def attempt_def)
    with found_super_admin [OF x [unfolded Inr]] assms(1) show ?thesis by (blast intro: correct_super_admin_settles)
  qed
  have inv: "identity_inv e w1"
    using advancesD [OF EnsureSuperAdmin_advances assms(3)] assms(2) by (simp add: identity_evolves_def)
  have "\<exists>w2. EnsureSuperAdmin e s w1 = (Inr (), w2) \<and> tables w2 = tables w1" if nf: "no_id_fault e"
  proof -
    from 1 obtain a where a: "a \<in> set (super_admins (tables w1))" "settled e s a" by blast
    then have mail: "id_eq e (sa_Email a) (superAdminEmail s)" by (simp add: settled_def)
    have uniq: "r = a" if "r \<in> set (super_admins (tables w1))" "id_eq e (sa_Email r) (superAdminEmail s)" for r
    proof -
      have "inj_on (\<lambda>a. id_collate e (sa_Email a)) (set (super_admins (tables w1)))"
        using inv by (simp add: identity_inv_defs distinct_map)
      from inj_onD [OF this _ that(1) a(1)] show ?thesis using that(2) mail by (simp add: id_eq_def)
    qed
    obtain b u where g: "GetSuperAdminByEmail e (superAdminEmail s) w1 = (b, u)" by fastforce
    have u: "tables u = tables w1" using keepsD [OF idle_reads(4) g] by (rule idle_same)
    have "\<not> isl b"
      using g nf a(1) mail
      by (auto simp: GetSuperAdminByEmail_def id_query_def andThen_def id_call_def no_id_fault_def found_def id_advance_def
          filter_empty_conv split: option.splits)
    then obtain r where r: "b = Inr r" by (cases b) auto
    from found_super_admin [OF g [unfolded r]] u uniq have "r = a" by auto
    with a g r have "EnsureSuperAdmin e s w1 = (Inr (), u)"
      by (simp add: EnsureSuperAdmin_def pre attempt_def correct_super_admin_def ensured_profile_settled(1) [OF a(2)])
         (simp add: settled_def ok_def)
    with u show ?thesis by blast
  qed
  with 1 show ?thesis by blast
qed

theorem EnsureSuperAdmin_settles_witness:
  "(\<exists>a \<in> set (super_admins (tables demo_i1)). settled demo_id_env demo_auth a)
   \<and> (\<exists>w2. EnsureSuperAdmin demo_id_env demo_auth demo_i1 = (Inr (), w2) \<and> tables w2 = tables demo_i1)"
proof -
  have "\<not> isl (fst (EnsureSuperAdmin demo_id_env demo_auth empty_identity))" by code_simp
  then have "EnsureSuperAdmin demo_id_env demo_auth empty_identity = (Inr (), demo_i1)"
    unfolding demo_i1_def by (cases "EnsureSuperAdmin demo_id_env demo_auth empty_identity";
        cases "fst (EnsureSuperAdmin demo_id_env demo_auth empty_identity)") auto
  from EnsureSuperAdmin_settles [OF demo_id_sound(2) empty_identity_inv this] demo_id_sound(3) show ?thesis by blast
qed

section \<open>The domains of a site\<close>

definition domain_list :: "identity_env \<Rightarrow> identity_world \<Rightarrow> string \<Rightarrow> string set" where
  "domain_list e w siteID = sd_Domain ` {d \<in> set (site_domains (tables w)). id_eq e (sd_SiteID d) siteID}"

text \<open>A successful write of a site leaves its row and exactly the given domains.\<close>

definition holds_site :: "identity_env \<Rightarrow> site_model \<Rightarrow> string list \<Rightarrow> identity_world \<Rightarrow> bool" where
  "holds_site e site ds w \<longleftrightarrow>
     (\<exists>s0 \<in> set (sites (tables w)). st_ID s0 = st_ID site \<and> st_SiteID s0 = st_SiteID site)
     \<and> domain_list e w (st_SiteID site) = set ds"

lemma sync_holds:
  assumes "syncSiteDomainsTx e (st_SiteID site) ds w = (Inr u, w')"
    and "\<exists>s0 \<in> set (sites (tables w)). st_ID s0 = st_ID site \<and> st_SiteID s0 = st_SiteID site"
  shows "holds_site e site ds w'"
  using assms(1)
proof (rule sync_ok)
  fix rows
  assume w': "w' = w\<lparr>tables := (tables w)\<lparr>site_domains := filter (\<lambda>d. \<not> id_eq e (sd_SiteID d) (st_SiteID site)) (site_domains (tables w)) @ rows\<rparr>,
           site_domain_seq := site_domain_seq w', id_tick := id_tick w'\<rparr>"
    and ds: "map sd_Domain rows = ds" and own: "\<forall>d \<in> set rows. sd_SiteID d = st_SiteID site"
  have "tables w' = (tables w)\<lparr>site_domains := filter (\<lambda>d. \<not> id_eq e (sd_SiteID d) (st_SiteID site)) (site_domains (tables w)) @ rows\<rparr>"
    by (subst w') simp
  moreover from this have "{d \<in> set (site_domains (tables w')). id_eq e (sd_SiteID d) (st_SiteID site)} = set rows"
    using own by (auto simp: id_eq_def)
  ultimately show ?thesis using assms(2) ds by (auto simp: holds_site_def domain_list_def)
qed

lemma holds_site_cong:
  "sites (tables w') = sites (tables w) \<Longrightarrow> site_domains (tables w') = site_domains (tables w) \<Longrightarrow>
   holds_site e site ds w \<Longrightarrow> holds_site e site ds w'"
  by (simp add: holds_site_def domain_list_def)

lemma holds_site_same: "tables w' = tables w \<Longrightarrow> holds_site e site ds w' = holds_site e site ds w"
  by (simp add: holds_site_def domain_list_def)

lemma Create_site_holds:
  assumes "Create_site e s w = (Inr site, w')"
  shows "holds_site e site (domains_of s) w'"
proof -
  have "keeps seq_grows (andThen (insert_site e s) (\<lambda>s'. andThen (syncSiteDomainsTx e (st_SiteID s') (domains_of s')) (\<lambda>_. ok s')))"
    by (intro keeps_intros seq_grows_preorder site_seq_grows)
  with assms show ?thesis unfolding Create_site_def
  proof (cases rule: id_transaction_cases)
    case (committed a w1 w2)
    then obtain u w3 where 1: "insert_site e s w1 = (Inr site, w3)" and
      2: "syncSiteDomainsTx e (st_SiteID site) (domains_of site) w3 = (Inr u, w2)" by (auto simp: runs)
    from 1 have "(\<exists>q \<in> set (sites (tables w3)). st_ID q = st_ID site \<and> st_SiteID q = st_SiteID site) \<and> domains_of site = domains_of s"
    proof (cases rule: insert_site_cases)
      case (stored s' v)
      then show ?thesis by (auto simp: domains_of_def dest: arg_cong [of _ _ st_Domains])
    qed simp
    with sync_holds [OF 2] show ?thesis by (simp add: holds_site_same [OF idle_same(1) [OF committed(4)]])
  qed simp
qed

lemma Save_site_holds:
  assumes "Save_site e s w = (Inr site, w')" "st_Domains s = Some ds" "\<exists>q \<in> set (sites (tables w)). st_ID q = st_ID s"
  shows "holds_site e site ds w'"
proof -
  have seq: "keeps seq_grows (andThen (update_site e s) (\<lambda>s'. andThen (syncSiteDomainsTx e (st_SiteID s') ds) (\<lambda>_. ok s')))"
    by (intro keeps_intros seq_grows_preorder site_seq_grows)
  have "id_transaction e (andThen (update_site e s) (\<lambda>s'. andThen (syncSiteDomainsTx e (st_SiteID s') ds) (\<lambda>_. ok s'))) w = (Inr site, w')"
    using assms(1,2) by (simp add: Save_site_def)
  from this seq show ?thesis
  proof (cases rule: id_transaction_cases)
    case (committed a w1 w2)
    then obtain u w3 where 1: "update_site e s w1 = (Inr site, w3)" and
      2: "syncSiteDomainsTx e (st_SiteID site) ds w3 = (Inr u, w2)" by (auto simp: runs)
    have ex: "\<exists>q \<in> set (sites (tables w1)). st_ID q = st_ID s" using assms(3) committed(2) by (simp add: idle_same)
    from 1 ex have "\<exists>q \<in> set (sites (tables w3)). st_ID q = st_ID site \<and> st_SiteID q = st_SiteID site"
    proof (cases rule: update_site_cases)
      case (stored s' v)
      from ex obtain q where "q \<in> set (sites (tables w1))" "st_ID q = st_ID s" by blast
      then have "site_columns s' \<in> set (sites (tables w3))"
        using update_rows_mem [of q "sites (tables w1)" "\<lambda>q. st_ID q = st_ID s" "\<lambda>_. site_columns s'"] stored(3) by simp
      with stored(1) show ?thesis by (intro bexI [of _ "site_columns s'"]) simp_all
    qed simp
    with sync_holds [OF 2] show ?thesis by (simp add: holds_site_same [OF idle_same(1) [OF committed(4)]])
  qed simp
qed

lemma audited_holds:
  assumes "ignore (writeAuditLog e actor a t i sm) w = (r, w')" "holds_site e site ds w"
  shows "holds_site e site ds w'"
proof -
  from assms(1) obtain x where "writeAuditLog e actor a t i sm w = (x, w')" by (auto simp: runs)
  from keepsD [OF audit_keeps_accounts this] assms(2) show ?thesis by (blast intro: holds_site_cong)
qed

lemma conflict_as_ok: "conflict_as m w = (Inr a, w') \<Longrightarrow> m w = (Inr a, w')"
  by (simp add: conflict_as_def run_map_error)

lemma site_write_holds:
  assumes "CreateSite e ci actor w = (Inr site, w') \<and> normalizeSiteDomains (csi_Domains ci) (csi_Domain ci) = Inr ds
    \<or> UpdateSite e ui actor w = (Inr site, w') \<and> normalizeSiteDomains (usi_Domains ui) [] = Inr ds"
  shows "holds_site e site ds w'"
  using assms
proof (elim disjE conjE)
  assume run: "CreateSite e ci actor w = (Inr site, w')" and ds: "normalizeSiteDomains (csi_Domains ci) (csi_Domain ci) = Inr ds"
  then obtain x key a w1 where "conflict_as (Create_site e
      \<lparr>st_ID = 0, st_SiteID = x, st_Name = TrimSpace (csi_Name ci), st_WidgetKey = key, st_Status = ''active'',
       st_CreatedAt = 0, st_UpdatedAt = 0, st_Domains = Some ds\<rparr>) a = (Inr site, w1)" and
    au: "ignore (writeAuditLog e actor ''site.create'' ''site'' (st_SiteID site) (zh_create_site @ st_SiteID site)) w1 = (Inr () :: ierr + unit, w')"
    by (auto simp: CreateSite_def Let_def run_andThen split: sum.splits if_splits)
  from audited_holds [OF au Create_site_holds [OF conflict_as_ok [OF this(1)]]] show ?thesis by (simp add: domains_of_def)
next
  assume run: "UpdateSite e ui actor w = (Inr site, w')" and ds: "normalizeSiteDomains (usi_Domains ui) [] = Inr ds"
  then obtain s0 a w1 where g: "missing_as (Sentinel Admin_ErrNotFound) (GetBySiteID e (TrimSpace (usi_SiteID ui))) w = (Inr s0, a)"
    and sv: "conflict_as (Save_site e (s0\<lparr>st_Name := TrimSpace (usi_Name ui), st_Domains := Some ds\<rparr>)) a = (Inr site, w1)"
    and au: "ignore (writeAuditLog e actor ''site.update'' ''site'' (st_SiteID site) (zh_update_site @ st_SiteID site)) w1 = (Inr () :: ierr + unit, w')"
    by (auto simp: UpdateSite_def Let_def run_andThen split: sum.splits if_splits)
  from found_site [OF g] have "\<exists>q \<in> set (sites (tables a)). st_ID q = st_ID (s0\<lparr>st_Name := TrimSpace (usi_Name ui), st_Domains := Some ds\<rparr>)"
    by (auto simp: populateSingleSiteDomains_def)
  from audited_holds [OF au Save_site_holds [OF conflict_as_ok [OF sv] _ this]] show ?thesis by simp
qed

lemma domain_owner:
  assumes "identity_inv e w" "d \<in> set (site_domains (tables w))" "s \<in> set (sites (tables w))"
    and "d' \<in> set (site_domains (tables w))" "s' \<in> set (sites (tables w))"
    and "id_eq e (sd_SiteID d) (st_SiteID s)" "id_eq e (sd_SiteID d') (st_SiteID s')" "id_eq e (sd_Domain d) (sd_Domain d')"
  shows "d = d' \<and> s = s'"
proof -
  have "d = d'" using assms by (auto simp: identity_inv_defs id_eq_def distinct_map dest: inj_onD)
  moreover from this have "s = s'" using assms by (auto simp: identity_inv_defs id_eq_def distinct_map dest: inj_onD)
  ultimately show ?thesis ..
qed

text \<open>
  C26.  Domains route to their site and to no other: after a site was created or updated with a list of
  domains, a lookup by domain finds this site exactly for the domains of the list, as the collation of
  the database compares them; a domain taken off the list finds it no more.
\<close>

theorem site_domains_resolve:
  assumes "no_id_fault e" "identity_inv e w"
    and "CreateSite e ci actor w = (Inr site, w') \<and> normalizeSiteDomains (csi_Domains ci) (csi_Domain ci) = Inr ds
      \<or> UpdateSite e ui actor w = (Inr site, w') \<and> normalizeSiteDomains (usi_Domains ui) [] = Inr ds"
  shows "(\<exists>t w2. GetSiteByDomain e d w' = (Inr t, w2) \<and> st_ID t = st_ID site)
    \<longleftrightarrow> (\<exists>n. normalizeSiteDomain d = Inr n \<and> (\<exists>x \<in> set ds. id_eq e x n))"
proof (cases "normalizeSiteDomain d")
  case (Inl err)
  then show ?thesis by (simp add: GetSiteByDomain_def)
next
  case (Inr n)
  have inv: "identity_inv e w'"
    using assms(2,3) advancesD [OF CreateSite_advances] advancesD [OF UpdateSite_advances] by (auto simp: identity_evolves_def)
  from site_write_holds [OF assms(3)] obtain s0 where s0: "s0 \<in> set (sites (tables w'))" "st_ID s0 = st_ID site"
    "st_SiteID s0 = st_SiteID site" and dl: "domain_list e w' (st_SiteID site) = set ds"
    by (auto simp: holds_site_def)
  have only: "t0 = s0" if "t0 \<in> set (sites (tables w'))" "st_ID t0 = st_ID site" for t0
    using inv that s0 by (auto simp: identity_inv_defs dest: keys_below_inj)
  let ?match = "\<lambda>s. \<exists>d \<in> set (site_domains (tables w')). id_eq e (sd_SiteID d) (st_SiteID s) \<and> id_eq e (sd_Domain d) n"
  let ?hits = "order_asc st_ID (filter ?match (sites (tables w')))"
  have run: "GetSiteByDomain e d w' = (r, w2) \<longleftrightarrow>
     r = (case first_row ?hits of None \<Rightarrow> Inl (Sentinel Admin_ErrNotFound) | Some t0 \<Rightarrow> Inr (populateSingleSiteDomains e w' t0))
     \<and> w2 = id_advance w'" for r w2
    using Inr assms(1)
    by (auto simp: GetSiteByDomain_def missing_as_def map_error_def attempt_def GetByDomain_def id_query_def andThen_def
        id_call_def no_id_fault_def found_def not_found_def ok_def fail_def id_advance_def populateSingleSiteDomains_def
        simp del: first_row_None split: option.split)
  have hits: "set ?hits = {s \<in> set (sites (tables w')). ?match s}" by (simp add: order_asc_def)
  have "(\<exists>t w2. GetSiteByDomain e d w' = (Inr t, w2) \<and> st_ID t = st_ID site) \<longleftrightarrow> first_row ?hits = Some s0"
  proof (cases "first_row ?hits")
    case None
    show ?thesis unfolding run None by simp
  next
    case (Some t0)
    then have "t0 \<in> set (sites (tables w'))" using hits by (auto dest: first_row_Some)
    with only s0(2) have "st_ID t0 = st_ID site \<longleftrightarrow> t0 = s0" by auto
    with Some show ?thesis unfolding run by (simp add: populateSingleSiteDomains_def)
  qed
  also have "\<dots> \<longleftrightarrow> ?match s0"
  proof
    assume "first_row ?hits = Some s0"
    then show "?match s0" using hits by (auto dest: first_row_Some)
  next
    assume m: "?match s0"
    with s0(1) have "s0 \<in> set ?hits" unfolding hits by blast
    then have "first_row ?hits \<noteq> None" by (auto simp del: order_empty)
    then obtain t0 where t0: "first_row ?hits = Some t0" by blast
    then have t: "t0 \<in> set (sites (tables w'))" "?match t0" using hits by (auto dest: first_row_Some)
    from m t(2) have "t0 = s0"
      using domain_owner [OF inv _ t(1) _ s0(1)] by (metis id_eq_def)
    with t0 show "first_row ?hits = Some s0" by simp
  qed
  also have "\<dots> \<longleftrightarrow> (\<exists>x \<in> set ds. id_eq e x n)" unfolding dl [symmetric] domain_list_def s0(3) by blast
  finally show ?thesis using Inr by simp
qed

theorem site_domains_resolve_witness:
  "\<exists>site t w2. CreateSite demo_id_env demo_site demo_root demo_i1 = (Inr site, demo_i2)
    \<and> GetSiteByDomain demo_id_env ''SHOP.example '' demo_i2 = (Inr t, w2) \<and> st_ID t = st_ID site"
proof -
  have "\<not> isl (fst (CreateSite demo_id_env demo_site demo_root demo_i1))"
    "normalizeSiteDomains (csi_Domains demo_site) (csi_Domain demo_site) = Inr [''shop.example'']"
    "normalizeSiteDomain ''SHOP.example '' = Inr ''shop.example''" by code_simp+
  moreover from this(1) obtain site where run: "CreateSite demo_id_env demo_site demo_root demo_i1 = (Inr site, demo_i2)"
    unfolding demo_i2_def by (cases "CreateSite demo_id_env demo_site demo_root demo_i1";
        cases "fst (CreateSite demo_id_env demo_site demo_root demo_i1)") auto
  ultimately have "\<exists>t w2. GetSiteByDomain demo_id_env ''SHOP.example '' demo_i2 = (Inr t, w2) \<and> st_ID t = st_ID site"
    by (subst site_domains_resolve [OF demo_id_sound(3) demo_id_inv(1)]) (auto simp: id_eq_def)
  with run show ?thesis by blast
qed

end
