(* ===== verification/Gateway_Behaviour.thy ===== *)
theory Gateway_Behaviour
  imports Gateway_Access Gateway_Admin Identity_Setup
begin

text \<open>
  What the gateway as a whole guarantees, on the stack of its handlers, its clients and the services
  behind them, with a run on the demonstration data of chat-service and of the identity services.
\<close>

section \<open>Confinement\<close>

text \<open>
  C6.  No request to the chat routes changes a conversation its credentials do not open.  Through the
  whole stack, with its reconnections, repeated calls, lost calls and lost answers: a conversation that
  exists keeps its row and all of its messages unless the request carries the token of its visitor, or
  its bearer token names, when the request arrives, an agent of the site of the conversation.
\<close>

theorem chat_requests_confined:
  assumes "serve_chat h W req g = (r, g')" "upstreams h = dynamic_clients D (backend_clients B)"
    and "by_id conv_ID i (conversations (db (be_chat (behind (upstream g))))) = Some c"
    and "\<not> may_touch (upstreams h) (upstream g) req c"
  shows "by_id conv_ID i (conversations (db (be_chat (behind (upstream g'))))) = Some c
    \<and> filter (\<lambda>m. msg_ConversationID m = i) (messages (db (be_chat (behind (upstream g')))))
        = filter (\<lambda>m. msg_ConversationID m = i) (messages (db (be_chat (behind (upstream g)))))"
  using stack.serve_chat_confined [OF assms(1,2)] assms(2-4) by (auto simp: leaves_def stack.touchable_def)


section \<open>A stack to run\<close>

definition demo_backend_env :: backend_env where
  "demo_backend_env =
     \<lparr>chat_env = demo_env, chat_server = demo_service, id_env = demo_id_env, auth_server = demo_auth,
      adm_server = New_admin_server ''secret'' [] ''inlinechat'' 10, net_fault = (\<lambda>n. None)\<rparr>"

definition demo_dyn_env :: dyn_env where
  "demo_dyn_env = \<lparr>dyn_clock = (\<lambda>n. int n), Resolve = (\<lambda>n s p. Inr ''host:1''), dial_fault = (\<lambda>n t. None)\<rparr>"

definition demo_conn :: serviceConn where
  "demo_conn = \<lparr>sc_serviceName = ''svc'', sc_protocol = ''grpc'', sc_refreshInterval = 5, sc_conn = Some ''host:1'',
     sc_target = ''host:1'', sc_lastResolvedAt = Some 0\<rparr>"

definition demo_gateway :: "world \<Rightarrow> identity_world \<Rightarrow> (nat, backend dyn) gateway" where
  "demo_gateway w v =
     \<lparr>limiters = (\<lambda>s. None), gw_redis = Map.empty, gw_tick = 0,
      upstream = \<lparr>conns = (\<lambda>u. demo_conn), dyn_tick = 0,
                  behind = \<lparr>be_chat = w, be_identity = v, be_tick = 0\<rparr>\<rparr>\<rparr>"

definition demo_handler :: "(nat, backend dyn) HTTPHandler" where
  "demo_handler = NewHTTPHandler (dynamic_clients demo_dyn_env (backend_clients demo_backend_env)) 0 demo_limit_env"

definition demo_request :: "string \<Rightarrow> 'a \<Rightarrow> 'a http_request" where
  "demo_request bearer q =
     \<lparr>Authorization = bearer, WidgetSession = [], Referer = [], Origin = [], Param = (\<lambda>k. ''1''), Query = (\<lambda>k. []),
      ClientIP = ''10.0.0.1'', req_body = Inr q, bind_text = (\<lambda>q. ''bad''), ContextRequestID = None\<rparr>"

text \<open>A bearer token names only whom auth-service names.\<close>

lemma asking_auth:
  assumes "asking (dynamic_clients D (backend_clients B)) d bearer actor"
  shows "\<exists>v v'. rpc_Me (id_env B) (auth_server B) bearer v = (Inr actor, v')"
proof -
  have call: "\<exists>v v'. rpc_Me (id_env B) (auth_server B) bearer v = (Inr actor, v')"
    if "Auth_Me (backend_clients B) bearer b = (Inr actor, b')" for b b'
    using that by (auto simp: backend_clients_def Let_def net_call_def on_identity_def split: option.splits sum.splits prod.splits)
  from assms obtain d' where "invokeWithRetry D auth_upstream (Auth_Me (backend_clients B) bearer) d = (Inr actor, d')"
    by (cases "invokeWithRetry D auth_upstream (Auth_Me (backend_clients B) bearer) d")
       (auto simp: asking_def dynamic_clients_def dynamicAuthClient_def)
  then show ?thesis by (cases rule: invokeWithRetry_cases) (auto intro: call)
qed

lemma nobody_asking: "\<not> asking (dynamic_clients D (backend_clients B)) d [] actor"
proof
  assume "asking (dynamic_clients D (backend_clients B)) d [] actor"
  from asking_auth [OF this] obtain v v' where "rpc_Me (id_env B) (auth_server B) [] v = (Inr actor, v')" by blast
  then show False by (simp add: rpc_Me_def parseBearerToken_def)
qed

lemma demo_w3_row:
  "map_option conv_VisitorToken (by_id conv_ID 1 (conversations (db demo_w3))) = Some ''tok''"
  "length (filter (\<lambda>m. msg_ConversationID m = 1) (messages (db demo_w3))) = 1"
  by code_simp+

lemma TrimSpace_guess: "TrimSpace ''guess'' = ''guess''"
  by code_simp

definition demo_forged :: chat_request where
  "demo_forged = POST_messages (demo_request []
     \<lparr>cmr_SenderType = ''visitor'', cmr_SenderID = [], cmr_Content = ''hi'', cmr_ClientMsgID = ''x'', cmr_VisitorToken = ''guess''\<rparr>)"

theorem chat_requests_confined_witness:
  "\<forall>W. \<exists>r g'. serve_chat demo_handler W demo_forged (demo_gateway demo_w3 demo_live) = (r, g')
    \<and> by_id conv_ID 1 (conversations (db (be_chat (behind (upstream g'))))) = by_id conv_ID 1 (conversations (db demo_w3))
    \<and> length (filter (\<lambda>m. msg_ConversationID m = 1) (messages (db (be_chat (behind (upstream g')))))) = 1"
proof
  fix W
  obtain r g' where run: "serve_chat demo_handler W demo_forged (demo_gateway demo_w3 demo_live) = (r, g')" by fastforce
  have up: "upstreams demo_handler = dynamic_clients demo_dyn_env (backend_clients demo_backend_env)"
    by (simp add: demo_handler_def NewHTTPHandler_def)
  obtain c where c: "by_id conv_ID 1 (conversations (db demo_w3)) = Some c"
    by (cases "by_id conv_ID 1 (conversations (db demo_w3))") (use demo_w3_row in auto)
  have "conv_VisitorToken c = ''tok''"
    using c demo_w3_row by simp
  then have "\<not> may_touch (upstreams demo_handler) (upstream (demo_gateway demo_w3 demo_live)) demo_forged c"
    unfolding up by (simp add: may_touch_def demo_forged_def demo_request_def nobody_asking TrimSpace_guess)
  with chat_requests_confined [OF run up, of 1 c] c demo_w3_row run
  show "\<exists>r g'. serve_chat demo_handler W demo_forged (demo_gateway demo_w3 demo_live) = (r, g')
    \<and> by_id conv_ID 1 (conversations (db (be_chat (behind (upstream g'))))) = by_id conv_ID 1 (conversations (db demo_w3))
    \<and> length (filter (\<lambda>m. msg_ConversationID m = 1) (messages (db (be_chat (behind (upstream g')))))) = 1"
    by (simp add: demo_gateway_def)
qed

end
