(* ===== verification/Realtime_Handshake.thy ===== *)
theory Realtime_Handshake
  imports Realtime_Behaviour Gateway_Behaviour Gateway_Widget
begin

text \<open>
  The handshake of a websocket (\<^verbatim>\<open>services/realtime-service/internal/ws/handler.go\<close>): who may open a session
  for a conversation, and from which pages.  The functions on hosts are those of \<open>Gateway_Widget\<close>, which
  the handler repeats word for word; the key list and the shape of the tokens those of \<open>Auth_Service\<close>.
\<close>

section \<open>The handler\<close>





section \<open>Tokens\<close>



section \<open>Who connects\<close>







section \<open>Origins\<close>



section \<open>The request\<close>





section \<open>On top of the services\<close>















end
