(* ===== verification/Widget_Session.thy ===== *)
theory Widget_Session
  imports Gateway_Widget
begin

text \<open>
  What a widget session guarantees: the session of a served page opens the creation of a conversation of
  its site until it expires, the page is only served to an embedding page of the site, and the script
  that carries the session cannot be broken out of.
\<close>

section \<open>Plain host names\<close>

definition plain_char :: "char \<Rightarrow> bool" where
  "plain_char c \<longleftrightarrow> c \<in> set ''abcdefghijklmnopqrstuvwxyz0123456789-.''"

text \<open>Lower-case letters, digits, hyphens and inner dots.\<close>

definition plain_host :: "string \<Rightarrow> bool" where
  "plain_host d \<longleftrightarrow> d \<noteq> [] \<and> list_all plain_char d \<and> hd d \<noteq> CHR ''.'' \<and> last d \<noteq> CHR ''.''"

lemma plain_char_simps:
  assumes "plain_char c"
  shows "c \<notin> edge_bytes" "lower_byte c = c" "host_char c" "\<not> is_ctl c" "c \<noteq> CHR ''%''" "c \<noteq> CHR '':''" "c \<noteq> CHR ''/''"
    "c \<noteq> CHR ''?''" "c \<noteq> CHR ''#''" "c \<noteq> CHR ''@''" "c \<noteq> CHR ''[''" "c \<noteq> CHR ''*''" "c \<noteq> CHR 0xE2" "c \<noteq> CHR 0xC4"
    "is_letter c \<or> is_digit c \<or> c \<in> set ''+-.''"
proof -
  have "\<forall>c \<in> set ''abcdefghijklmnopqrstuvwxyz0123456789-.''.
      c \<notin> edge_bytes \<and> lower_byte c = c \<and> host_char c \<and> \<not> is_ctl c \<and> c \<noteq> CHR ''%'' \<and> c \<noteq> CHR '':'' \<and> c \<noteq> CHR ''/''
      \<and> c \<noteq> CHR ''?'' \<and> c \<noteq> CHR ''#'' \<and> c \<noteq> CHR ''@'' \<and> c \<noteq> CHR ''['' \<and> c \<noteq> CHR ''*'' \<and> c \<noteq> CHR 0xE2 \<and> c \<noteq> CHR 0xC4
      \<and> (is_letter c \<or> is_digit c \<or> c \<in> set ''+-.'')"
    unfolding edge_bytes_code by code_simp
  with assms show "c \<notin> edge_bytes" "lower_byte c = c" "host_char c" "\<not> is_ctl c" "c \<noteq> CHR ''%''" "c \<noteq> CHR '':''" "c \<noteq> CHR ''/''"
    "c \<noteq> CHR ''?''" "c \<noteq> CHR ''#''" "c \<noteq> CHR ''@''" "c \<noteq> CHR ''[''" "c \<noteq> CHR ''*''" "c \<noteq> CHR 0xE2" "c \<noteq> CHR 0xC4"
    "is_letter c \<or> is_digit c \<or> c \<in> set ''+-.''"
    unfolding plain_char_def by blast+
qed

lemma plain_notin: "list_all plain_char s \<Longrightarrow> \<not> plain_char c \<Longrightarrow> c \<notin> set s"
  by (auto simp: list_all_iff)

lemma plain_ToLower: "list_all plain_char s \<Longrightarrow> ToLower s = s"
  by (induction s rule: ToLower.induct) (auto simp: plain_char_simps)

lemma TrimSpace_Nil [simp]: "TrimSpace [] = []"
  by code_simp

lemma plain_TrimSpace: "list_all plain_char s \<Longrightarrow> TrimSpace s = s"
  by (cases "s = []") (auto simp: list_all_iff plain_char_simps(1) TrimSpace_Nil intro!: TrimSpace_id)

lemma dropWhile_none: "c \<notin> set s \<Longrightarrow> dropWhile (\<lambda>d. d \<noteq> c) s = []"
  by (induction s) auto

lemma Cut_none: "c \<notin> set s \<Longrightarrow> Cut c s = (s, [])"
  unfolding Cut_def by (subst dropWhile_none, assumption, subst takeWhile_eq_all_conv [THEN iffD2]) auto

lemma plain_scan: "list_all plain_char s \<Longrightarrow> scan_scheme raw acc s = Some ([], raw)"
  by (induction s arbitrary: acc) (auto dest: plain_char_simps(6,15))

lemma plain_escapes: "CHR ''%'' \<notin> set s \<Longrightarrow> valid_escapes s"
  by (induction s rule: valid_escapes.induct) auto

lemma plain_unescape: "list_all plain_char s \<Longrightarrow> unescape_host s = Some s"
  by (induction s rule: unescape_host.induct) (auto simp: plain_char_simps list_all_iff)

lemma plain_sets:
  assumes "list_all plain_char s"
  shows "CHR ''%'' \<notin> set s" "CHR '':'' \<notin> set s" "CHR ''/'' \<notin> set s" "CHR ''?'' \<notin> set s" "CHR ''#'' \<notin> set s"
    "CHR ''@'' \<notin> set s" "CHR ''['' \<notin> set s" "CHR ''*'' \<notin> set s" "\<not> list_ex is_ctl s"
  using assms by (auto simp: list_all_iff list_ex_iff dest: plain_char_simps(4) plain_char_simps(5-12))

lemma plain_host_simps:
  assumes "plain_host d"
  shows "list_all plain_char d" "d \<noteq> []"
  using assms by (simp_all add: plain_host_def)

lemma HasPrefix_head: "HasPrefix s (c # p) \<longleftrightarrow> (case s of [] \<Rightarrow> False | a # as \<Rightarrow> a = c \<and> HasPrefix as p)"
  by (cases s) (auto simp: HasPrefix_def)

lemma HasPrefix_Nil [simp]: "HasPrefix s []"
  by (simp add: HasPrefix_def)

lemma plain_not_url: "plain_host d \<Longrightarrow> parseURLLike W d = None"
proof -
  assume d: "plain_host d"
  note s = plain_host_simps [OF d] and sets = plain_sets [OF plain_host_simps(1) [OF d]]
  have "d \<noteq> ''*''" using sets by auto
  have "\<not> HasPrefix d ''/''" using sets(3) s(2) by (auto simp: HasPrefix_head split: list.split)
  moreover have "fst (Cut (CHR ''/'') d) = d" using sets(3) by (simp add: Cut_none)
  ultimately have "parse_rest (ip_literals W) [] d = Some \<lparr>url_Scheme = [], url_Host = []\<rparr>"
    using sets by (auto simp: parse_rest_def Cut_none Let_def plain_escapes HasPrefix_head split: list.split)
  then have "url_Parse (ip_literals W) d = Some \<lparr>url_Scheme = [], url_Host = []\<rparr>"
    using sets \<open>d \<noteq> ''*''\<close> by (simp add: url_Parse_def Cut_none getScheme_def plain_scan [OF s(1)])
  then show ?thesis by (simp add: parseURLLike_def plain_TrimSpace [OF s(1)] Let_def)
qed

lemma plain_https:
  assumes "plain_host d"
  shows "parseURLLike W (''https://'' @ d) = Some \<lparr>url_Scheme = ''https'', url_Host = d\<rparr>"
proof -
  note s = plain_host_simps [OF assms] and sets = plain_sets [OF plain_host_simps(1) [OF assms]]
  let ?u = "''https://'' @ d"
  have trim: "TrimSpace ?u = ?u"
  proof (rule TrimSpace_id)
    show "hd ?u \<notin> edge_bytes" by (simp add: edge_bytes_code space_seqs_def)
    have "plain_char (last d)" using s by (simp add: list_all_iff)
    then show "last ?u \<notin> edge_bytes" using s(2) by (simp add: plain_char_simps(1))
  qed simp
  have sch: "getScheme ?u = Some (''https'', ''//'' @ d)"
    by (simp add: getScheme_def is_letter_def is_digit_code)
  have rest: "parse_rest (ip_literals W) ''https'' (''//'' @ d) = Some \<lparr>url_Scheme = ''https'', url_Host = d\<rparr>"
    using sets by (simp add: parse_rest_def Let_def Cut_none HasPrefix_head parseAuthority_def parseHost_def last_cut_def
        plain_unescape [OF s(1)] dropWhile_none)
  have "Cut (CHR ''#'') ?u = (?u, [])" using sets by (simp add: Cut_none)
  moreover have "\<not> list_ex is_ctl ?u" using sets by (simp add: is_ctl_def)
  moreover have "ToLower ''https'' = ''https''" by code_simp
  ultimately have "url_Parse (ip_literals W) ?u = Some \<lparr>url_Scheme = ''https'', url_Host = d\<rparr>"
    by (simp add: url_Parse_def sch [simplified] rest [simplified])
  then show ?thesis using s(2) by (simp add: parseURLLike_def trim [simplified] Let_def)
qed

lemma plain_host_of_url: "plain_host d \<Longrightarrow> normalizeHostFromURL \<lparr>url_Scheme = ''https'', url_Host = d\<rparr> = d"
proof -
  assume d: "plain_host d"
  note s = plain_host_simps [OF d] and sets = plain_sets [OF plain_host_simps(1) [OF d]]
  have "\<not> HasPrefix d ''[''" using sets(7) by (auto simp: HasPrefix_head split: list.splits)
  with sets s show ?thesis by (simp add: normalizeHostFromURL_def Hostname_def Port_def splitHostPort_def last_cut_def
        plain_TrimSpace plain_ToLower Let_def)
qed

lemma plain_normalize: "plain_host d \<Longrightarrow> normalizeHostLike W d = d"
proof -
  assume d: "plain_host d"
  note s = plain_host_simps [OF d]
  have "TrimPrefix d ''.'' = d" "TrimSuffix d ''.'' = d"
    using d by (auto simp: plain_host_def TrimPrefix_def TrimSuffix_def HasSuffix_def HasPrefix_head hd_rev [symmetric]
        split: list.splits)
  then show ?thesis
    using s(2) by (simp add: normalizeHostLike_def plain_not_url [OF d] plain_https [OF d, simplified] plain_ToLower [OF s(1)]
        plain_TrimSpace [OF s(1)] plain_host_of_url [OF d] Let_def)
qed

lemma plain_origin:
  assumes "plain_host d"
  shows "normalizeHostLike W (''https://'' @ d) = d" "normalizeOrigin W (''https://'' @ d) = ''https://'' @ d"
proof -
  note u = plain_https [OF assms, simplified] and h = plain_host_of_url [OF assms]
  have "ToLower (TrimSpace ''https'') = ''https''" by code_simp
  with plain_host_simps(2) [OF assms] show "normalizeHostLike W (''https://'' @ d) = d"
    "normalizeOrigin W (''https://'' @ d) = ''https://'' @ d"
    by (simp_all add: normalizeHostLike_def normalizeOrigin_def u h Let_def)
qed

section \<open>Signing and checking\<close>

lemma signed_token_checked:
  assumes "signWidgetSessionToken W claims key = Inr token"
    and "claims_Unmarshal W (claims_Marshal claims) = Some claims"
    and "TrimSpace (ws_SiteID claims) \<noteq> []" "TrimSpace (ws_SiteDomain claims) \<noteq> []"
  shows "TrimSpace token = token" "token \<noteq> []"
    and "validateWidgetSessionToken W token key now =
      (if ws_ExpiresAt claims \<le> 0 \<or> Unix now > ws_ExpiresAt claims then Inl ''widget session expired'' else Inr claims)"
proof -
  let ?p = "EncodeToString (claims_Marshal claims)"
  let ?u = "widgetSessionVersion @ ''.'' @ ?p"
  let ?s = "signWidgetSessionMAC W ?u (TrimSpace key)"
  from assms(1) have key: "TrimSpace key \<noteq> []" and token: "token = ''ws1'' @ CHR ''.'' # ?p @ CHR ''.'' # ?s"
    by (auto simp: signWidgetSessionToken_def widgetSessionVersion_def Let_def split: if_splits)
  have alpha: "set ?p \<subseteq> set b64_alphabet" "set ?s \<subseteq> set b64_alphabet"
    by (simp_all add: signWidgetSessionMAC_def EncodeToString_alphabet)
  have clean: "\<forall>c \<in> set b64_alphabet. c \<notin> edge_bytes \<and> c \<noteq> CHR ''.''" unfolding edge_bytes_code by code_simp
  have "last (CHR ''.'' # ?s) \<notin> edge_bytes"
  proof (cases "?s = []")
    case True
    then show ?thesis by (simp add: edge_bytes_code space_seqs_def)
  next
    case False
    then have "last ?s \<in> set b64_alphabet" using alpha(2) last_in_set by blast
    with clean False show ?thesis by simp
  qed
  then show trim: "TrimSpace token = token" unfolding token
    by (intro TrimSpace_id) (simp_all add: edge_bytes_code space_seqs_def)
  show "token \<noteq> []" by (simp add: token)
  have dots: "CHR ''.'' \<notin> set ?p" "CHR ''.'' \<notin> set ?s" "CHR ''.'' \<notin> set ''ws1''" using alpha clean by auto
  have parts: "Split (CHR ''.'') token = [''ws1'', ?p, ?s]"
    unfolding token by (simp only: Split_append [OF dots(3)] Split_append [OF dots(1)] Split_no_sep [OF dots(2)])
  show "validateWidgetSessionToken W token key now =
      (if ws_ExpiresAt claims \<le> 0 \<or> Unix now > ws_ExpiresAt claims then Inl ''widget session expired'' else Inr claims)"
    using key assms(2-4)
    by (simp add: validateWidgetSessionToken_def trim parts DecodeString_EncodeToString widgetSessionVersion_def Let_def)
qed

lemma matches_normalized:
  assumes "plain_host (normalizeHostLike W raw)"
  shows "matchesAnySiteDomain W ds (normalizeHostLike W raw) = matchesAnySiteDomain W ds raw"
  by (simp add: matchesAnySiteDomain_def matchesSiteDomain_def plain_normalize [OF assms] Let_def)

lemma Unix_later: "Unix (t + widgetSessionTTL) = Unix t + 43200"
  by (simp add: Unix_def widgetSessionTTL_def lim_Second_def)

text \<open>
  C34.  A widget session works exactly as long as it should.  The session that the page of a site carries
  is accepted when a conversation is created on that site, by any gateway with the same key and whatever
  else happened in between, up to and including the second twelve hours after it was issued, and refused
  afterwards.  The hypotheses: the JSON library decodes what it encoded, and the embedding page has a
  plain host name.
\<close>

theorem widget_session_round_trip:
  assumes "claims_Unmarshal W (claims_Marshal claims) = Some claims"
    and "validateWidgetRequestSource W (allowedSiteDomains W site) p referer orig = Inr parentOrigin"
    and "issueWidgetSession W site parentOrigin g = (Inr (token, claims), g1)"
    and "plain_host (normalizeHostLike W parentOrigin)" "TrimSpace (pbs_SiteId site) \<noteq> []"
    and "0 \<le> widget_clock W (gw_tick g)" "WidgetSession c = token"
  shows "fst (requireWidgetSession W c site g2) = Inr () \<longleftrightarrow>
    Unix (widget_clock W (gw_tick g2)) \<le> Unix (widget_clock W (gw_tick g)) + 12 * 3600"
proof -
  let ?now = "widget_clock W (gw_tick g)" and ?d = "normalizeHostLike W parentOrigin"
  from assms(3) have claims: "claims = widget_claims W site parentOrigin ?now"
    and sign: "signWidgetSessionToken W claims (pbs_WidgetKey site) = Inr token"
    by (auto simp: issueWidgetSession_def h_now_def split: if_splits sum.splits)
  have d: "TrimSpace ?d \<noteq> []"
    using plain_host_simps [OF assms(4)] by (simp add: plain_TrimSpace)
  have f: "ws_SiteID claims = TrimSpace (pbs_SiteId site)" "ws_SiteDomain claims = ?d"
    "ws_ExpiresAt claims = Unix ?now + 43200"
    by (simp_all add: claims widget_claims_def Let_def Unix_later)
  have id: "TrimSpace (ws_SiteID claims) \<noteq> []" using assms(5) f(1) TrimSpace_idem by simp
  have "0 \<le> Unix ?now" using assms(6) by (simp add: Unix_def lim_Second_def)
  note checked = signed_token_checked [OF sign assms(1) id d [folded f(2)]]
  have "matchesAnySiteDomain W (allowedSiteDomains W site) parentOrigin"
    using assms(2) by (auto simp: validateWidgetRequestSource_def Let_def split: if_splits list.splits)
  then have "matchesAnySiteDomain W (allowedSiteDomains W site) ?d" by (simp add: matches_normalized [OF assms(4)])
  then show ?thesis
    using checked \<open>0 \<le> Unix ?now\<close>
    by (simp add: requireWidgetSession_def assms(7) h_now_def f split: if_splits)
qed

section \<open>The page\<close>

lemma replace_first_found:
  "Contains s old \<Longrightarrow> \<exists>a b. s = a @ old @ b \<and> replace_first s old new = a @ new @ b"
proof (induction s)
  case Nil
  then show ?case by (simp add: replace_first.simps)
next
  case (Cons c s)
  show ?case
  proof (cases "HasPrefix (c # s) old")
    case True
    then have "c # s = old @ drop (length old) (c # s)" by (metis HasPrefix_def append_take_drop_id)
    with True show ?thesis by (intro exI [of _ "[]"] exI [of _ "drop (length old) (c # s)"]) (simp add: replace_first.simps)
  next
    case False
    with Cons.prems have "Contains s old" by simp
    from Cons.IH [OF this] obtain a b where "s = a @ old @ b" "replace_first s old new = a @ new @ b" by blast
    with False show ?thesis by (intro exI [of _ "c # a"] exI [of _ b]) (simp add: replace_first.simps)
  qed
qed

lemma json_escape_sealed: "CHR ''<'' \<notin> set (json_escape c)"
proof -
  have hex: "hex_digit n \<noteq> CHR ''<''" if "0 \<le> n" "n < 16" for n
  proof -
    have "\<forall>k \<in> {0..<16::nat}. hex_digit (int k) \<noteq> CHR ''<''" by code_simp
    from bspec [OF this, of "nat n"] that show ?thesis by simp
  qed
  have "0 \<le> (of_char c :: int)" "(of_char c :: int) < 256"
    using nat_of_char_less_256 [of c] of_nat_of_char [of c, where ?'a = int] by linarith+
  then have "0 \<le> of_char c div (16::int)" "of_char c div (16::int) < 16" "0 \<le> of_char c mod (16::int)" "of_char c mod (16::int) < 16"
    by presburger+
  then have "hex_digit (of_char c div 16) \<noteq> CHR ''<''" "hex_digit (of_char c mod 16) \<noteq> CHR ''<''"
    by (simp_all add: hex)
  then show ?thesis by (auto simp: json_escape_def)
qed

lemma json_text_sealed: "CHR ''<'' \<notin> set (json_text s)"
  by (simp add: json_text_def json_escape_sealed)

text \<open>
  C35.  The page of the widget is the configured page with one script put in between, and the session it
  carries, whatever site id or domain went into it, cannot end that script or start another: between the
  opening and the closing tag there is no \<^verbatim>\<open><\<close>.
\<close>

theorem widget_page_sealed:
  "\<exists>before rest lead trail script. page = before @ rest
     \<and> buildWidgetIndexHTML page token scope = before @ lead @ ''<script>'' @ script @ ''</script>'' @ trail @ rest
     \<and> TrimSpace lead = [] \<and> TrimSpace trail = [] \<and> CHR ''<'' \<notin> set script"
proof -
  let ?script = "''window.__INLINECHAT_WIDGET_SESSION__='' @ json_text (TrimSpace token)
     @ '';window.__INLINECHAT_WIDGET_SCOPE__='' @ json_text (TrimSpace scope) @ '';''"
  let ?q = "[CHR 0x22]"
  let ?target = "''<script src='' @ ?q @ ''/app/widget/app.js'' @ ?q @ '' defer></script>''"
  have boot: "widget_bootstrap token scope = ''<script>'' @ ?script @ ''</script>''"
    by (simp add: widget_bootstrap_def)
  have sealed: "CHR ''<'' \<notin> set ?script" by (simp add: json_text_sealed)
  consider (target) "Contains page ?target" | (body) "\<not> Contains page ?target" "Contains page ''</body>''"
    | (neither) "\<not> Contains page ?target" "\<not> Contains page ''</body>''" by blast
  then show ?thesis
  proof cases
    case target
    obtain a b where "page = a @ ?target @ b"
      "replace_first page ?target (widget_bootstrap token scope @ [CHR 0x0A] @ ''    '' @ ?target)
        = a @ (widget_bootstrap token scope @ [CHR 0x0A] @ ''    '' @ ?target) @ b"
      using replace_first_found [OF target] by blast
    with target have "page = a @ (?target @ b) \<and> buildWidgetIndexHTML page token scope =
        a @ [] @ ''<script>'' @ ?script @ ''</script>'' @ ([CHR 0x0A] @ ''    '') @ (?target @ b)"
      by (simp only: buildWidgetIndexHTML_def Let_def if_True boot append_assoc append_Nil)
    moreover have "TrimSpace ([CHR 0x0A] @ ''    '') = []" by code_simp
    ultimately show ?thesis using sealed TrimSpace_Nil by blast
  next
    case body
    obtain a b where "page = a @ ''</body>'' @ b"
      "replace_first page ''</body>'' (''    '' @ widget_bootstrap token scope @ [CHR 0x0A] @ ''  </body>'')
        = a @ (''    '' @ widget_bootstrap token scope @ [CHR 0x0A] @ ''  </body>'') @ b"
      using replace_first_found [OF body(2)] by blast
    moreover have "''  </body>'' = ''  '' @ ''</body>''" by simp
    ultimately have "page = a @ (''</body>'' @ b) \<and> buildWidgetIndexHTML page token scope =
        a @ ''    '' @ ''<script>'' @ ?script @ ''</script>'' @ ([CHR 0x0A] @ ''  '') @ (''</body>'' @ b)"
      using body by (simp only: buildWidgetIndexHTML_def Let_def if_True if_False boot append_assoc append_Nil)
    moreover have "TrimSpace ([CHR 0x0A] @ ''  '') = []" "TrimSpace ''    '' = []" by code_simp+
    ultimately show ?thesis using sealed by blast
  next
    case neither
    then have "page = page @ [] \<and> buildWidgetIndexHTML page token scope =
        page @ [] @ ''<script>'' @ ?script @ ''</script>'' @ [] @ []"
      by (simp only: buildWidgetIndexHTML_def Let_def if_False boot append_Nil2 append_Nil)
    then show ?thesis using sealed TrimSpace_Nil by blast
  qed
qed

section \<open>A session\<close>

definition demo_widget_site :: site_pb where
  "demo_widget_site =
     \<lparr>pbs_Id = 1, pbs_SiteId = ''shop-1'', pbs_Name = ''Shop'', pbs_Domain = ''shop.example'', pbs_Domains = [''shop.example''],
      pbs_WidgetKey = ''wk_1'', pbs_Status = ''active'', pbs_CreatedAt = 0, pbs_UpdatedAt = 0\<rparr>"

definition demo_widget_claims :: widgetSessionClaims where
  "demo_widget_claims =
     \<lparr>ws_SiteID = ''shop-1'', ws_SiteDomain = ''shop.example'', ws_ParentOrigin = ''https://shop.example'',
      ws_StorageScope = ''shop-1@shop.example'', ws_IssuedAt = 100, ws_ExpiresAt = 43300\<rparr>"

text \<open>A toy MAC, a decoder that knows one text, and a clock that jumps past the end of the session.\<close>

definition demo_widget_env :: widget_env where
  "demo_widget_env =
     \<lparr>ip_literals = (\<lambda>s. None), hmac_sha256 = (\<lambda>k s. take 3 (rev s) @ k),
      claims_Unmarshal = (\<lambda>s. if s = claims_Marshal demo_widget_claims then Some demo_widget_claims else None),
      widget_clock = (\<lambda>n. if n = 0 then 100 * lim_Second else if n = 1 then 43300 * lim_Second else 43301 * lim_Second)\<rparr>"

definition demo_widget_gateway :: "nat \<Rightarrow> (nat, unit) gateway" where
  "demo_widget_gateway n = \<lparr>limiters = (\<lambda>s. None), gw_redis = Map.empty, gw_tick = n, upstream = ()\<rparr>"

definition demo_session_request :: "string \<Rightarrow> unit http_request" where
  "demo_session_request token =
     \<lparr>Authorization = [], WidgetSession = token, Referer = [], Origin = [], Param = (\<lambda>k. []), Query = (\<lambda>k. []),
      ClientIP = [], req_body = Inr (), bind_text = (\<lambda>q. []), ContextRequestID = None\<rparr>"

lemma demo_host: "plain_host ''shop.example''"
  by code_simp

lemmas demo_origin = plain_origin [OF demo_host, simplified]

lemma demo_clock: "widget_clock demo_widget_env 0 = 100 * lim_Second" "widget_clock demo_widget_env 1 = 43300 * lim_Second"
    "widget_clock demo_widget_env 2 = 43301 * lim_Second"
  by (simp_all add: demo_widget_env_def)

lemma demo_allowed: "allowedSiteDomains demo_widget_env demo_widget_site = [''shop.example'']"
  by (simp add: allowedSiteDomains_def demo_widget_site_def plain_normalize [OF demo_host] Let_def)

lemma demo_widget_issue:
  "\<exists>token g1. issueWidgetSession demo_widget_env demo_widget_site ''https://shop.example'' (demo_widget_gateway 0)
      = (Inr (token, demo_widget_claims), g1)"
proof -
  have t: "TrimSpace ''shop-1'' = ''shop-1''" "TrimSpace ''wk_1'' = ''wk_1''" by code_simp+
  have "buildWidgetStorageScope demo_widget_env ''shop-1'' ''shop.example'' = ''shop-1@shop.example''"
    by (simp add: buildWidgetStorageScope_def Let_def t plain_normalize [OF demo_host])
  with t have c: "widget_claims demo_widget_env demo_widget_site ''https://shop.example'' (100 * lim_Second) = demo_widget_claims"
    by (simp add: widget_claims_def demo_widget_site_def demo_widget_claims_def demo_origin Let_def Unix_def
        widgetSessionTTL_def lim_Second_def)
  then show ?thesis
    using \<open>TrimSpace ''wk_1'' = ''wk_1''\<close>
    by (simp add: issueWidgetSession_def h_now_def demo_widget_gateway_def demo_origin signWidgetSessionToken_def
        demo_widget_site_def Let_def demo_clock)
qed

theorem widget_session_round_trip_witness:
  "\<exists>token. fst (issueWidgetSession demo_widget_env demo_widget_site ''https://shop.example'' (demo_widget_gateway 0))
        = Inr (token, demo_widget_claims)
    \<and> fst (requireWidgetSession demo_widget_env (demo_session_request token) demo_widget_site (demo_widget_gateway 1)) = Inr ()
    \<and> fst (requireWidgetSession demo_widget_env (demo_session_request token) demo_widget_site (demo_widget_gateway 2)) \<noteq> Inr ()"
proof -
  obtain token g1 where issue: "issueWidgetSession demo_widget_env demo_widget_site ''https://shop.example'' (demo_widget_gateway 0)
      = (Inr (token, demo_widget_claims), g1)"
    using demo_widget_issue by blast
  have "matchesSiteDomain demo_widget_env ''https://shop.example'' ''https://shop.example''"
    "matchesSiteDomain demo_widget_env ''shop.example'' ''https://shop.example''"
    by (simp_all add: matchesSiteDomain_def demo_origin plain_normalize [OF demo_host] Let_def)
  moreover have "TrimSpace ''https://shop.example'' \<noteq> []" by code_simp
  ultimately have allowed: "validateWidgetRequestSource demo_widget_env (allowedSiteDomains demo_widget_env demo_widget_site)
      ''https://shop.example'' ''https://shop.example'' [] = Inr ''https://shop.example''"
    by (simp add: validateWidgetRequestSource_def demo_origin demo_allowed matchesAnySiteDomain_def Let_def)
  have plain: "plain_host (normalizeHostLike demo_widget_env ''https://shop.example'')" by (simp add: demo_origin demo_host)
  have codec: "claims_Unmarshal demo_widget_env (claims_Marshal demo_widget_claims) = Some demo_widget_claims"
    by (simp add: demo_widget_env_def)
  have site: "TrimSpace (pbs_SiteId demo_widget_site) \<noteq> []" by code_simp
  have clock: "0 \<le> widget_clock demo_widget_env (gw_tick (demo_widget_gateway 0))"
    by (simp add: demo_widget_gateway_def demo_clock lim_Second_def)
  have iff: "fst (requireWidgetSession demo_widget_env (demo_session_request token) demo_widget_site (demo_widget_gateway n)) = Inr () \<longleftrightarrow>
      Unix (widget_clock demo_widget_env n) \<le> Unix (100 * lim_Second) + 12 * 3600" for n
    using widget_session_round_trip [OF codec allowed issue plain site clock, of "demo_session_request token" "demo_widget_gateway n"]
    by (simp add: demo_session_request_def demo_widget_gateway_def demo_clock)
  have times: "Unix (k * lim_Second) = k" for k by (simp add: Unix_def lim_Second_def)
  from issue iff [of 1] iff [of 2] show ?thesis by (simp only: demo_clock times) simp
qed

end
