(* ===== verification/Ai_Text.thy ===== *)
theory Ai_Text
  imports Complex_Main Text_Laws Go_Url
begin

text \<open>
  The texts of the automatic reply: \<^verbatim>\<open>services/ai-service/internal/service/auto_reply_service.go\<close>,
  the functions that normalise a question, recognise small talk, sum up the conversation, build the query
  and the prompt, and answer from the retrieved pieces.  Chinese literals are lists of runes.
\<close>

section \<open>Runes and the functions of strings\<close>

definition utf8 :: "int \<Rightarrow> string" where
  "utf8 n =
     (if n < 0x80 then [char_of n]
      else if n < 0x800 then [char_of (0xC0 + n div 64), char_of (0x80 + n mod 64)]
      else if n < 0x10000 then [char_of (0xE0 + n div 4096), char_of (0x80 + n div 64 mod 64), char_of (0x80 + n mod 64)]
      else [char_of (0xF0 + n div 262144), char_of (0x80 + n div 4096 mod 64), char_of (0x80 + n div 64 mod 64),
            char_of (0x80 + n mod 64)])"

definition zh :: "int list \<Rightarrow> string" where
  "zh ns = concat (map utf8 ns)"

text \<open>The conversion of a slice of runes to a string writes an invalid byte as U+FFFD.\<close>

definition rune_text :: "string \<Rightarrow> string" where
  "rune_text r = (if rune_value r = 0xFFFD then utf8 0xFFFD else r)"

definition first_runes :: "nat \<Rightarrow> string \<Rightarrow> string" where
  "first_runes n s = concat (map rune_text (take n (runes s)))"

fun words :: "string \<Rightarrow> string list \<Rightarrow> string list" where
  "words acc [] = (if acc = [] then [] else [acc])"
| "words acc (r # rs) =
     (if r \<in> set space_seqs then (if acc = [] then words [] rs else acc # words [] rs) else words (acc @ r) rs)"

definition Fields :: "string \<Rightarrow> string list" where
  "Fields s = words [] (runes s)"

fun Join :: "string \<Rightarrow> string list \<Rightarrow> string" where
  "Join sep [] = []"
| "Join sep [s] = s"
| "Join sep (s # t # ss) = s @ sep @ Join sep (t # ss)"

fun Index :: "string \<Rightarrow> string \<Rightarrow> nat option" where
  "Index [] p = (if p = [] then Some 0 else None)"
| "Index (c # cs) p = (if HasPrefix (c # cs) p then Some 0 else map_option Suc (Index cs p))"

lemma HasPrefix_length: "HasPrefix s p \<Longrightarrow> length p \<le> length s"
  unfolding HasPrefix_def by (metis length_take min.cobounded1 take_all_iff nle_le)

lemma Index_bound: "Index s p = Some i \<Longrightarrow> i + length p \<le> length s"
  by (induction s p arbitrary: i rule: Index.induct) (auto dest: HasPrefix_length split: if_splits)

text \<open>\<^verbatim>\<open>strings.Split\<close> with a separator that is not empty.\<close>

function SplitBy :: "string \<Rightarrow> string \<Rightarrow> string list" where
  "SplitBy sep s =
     (case Index s sep of
        None \<Rightarrow> [s]
      | Some i \<Rightarrow> if sep = [] then [s] else take i s # SplitBy sep (drop (i + length sep) s))"
  by auto
termination
proof (relation "measure (\<lambda>(sep, s). length s)")
  fix sep s i
  assume "Index s sep = Some i" "sep \<noteq> []"
  with Index_bound [of s sep i] show "((sep, drop (i + length sep) s), sep, s) \<in> measure (\<lambda>(sep, s). length s)"
    by (cases sep) auto
qed simp

declare SplitBy.simps [simp del]

definition Lines :: "string \<Rightarrow> string list" where
  "Lines s = Split (CHR 0x0A) s"

definition delete_all :: "string \<Rightarrow> string \<Rightarrow> string" where
  "delete_all s old = concat (SplitBy old s)"

definition trim_runes :: "string list \<Rightarrow> string \<Rightarrow> string" where
  "trim_runes ps s = rev (strip_seqs (map rev ps) (rev (strip_seqs ps s)))"

definition trim_right_runes :: "string list \<Rightarrow> string \<Rightarrow> string" where
  "trim_right_runes ps s = rev (strip_seqs (map rev ps) (rev s))"

definition contains_one :: "string \<Rightarrow> string list \<Rightarrow> bool" where
  "contains_one s ps \<longleftrightarrow> list_ex (Contains s) ps"

text \<open>The runes of the Unicode categories P, S and Z (version 15.0).\<close>

definition unicode_PSZ :: "(int \<times> int) list" where
  "unicode_PSZ =
     [(0x20, 0x2F), (0x3A, 0x40), (0x5B, 0x60), (0x7B, 0x7E), (0xA0, 0xA9), (0xAB, 0xAC), (0xAE, 0xB1), (0xB4,
      0xB4), (0xB6, 0xB8), (0xBB, 0xBB), (0xBF, 0xBF), (0xD7, 0xD7), (0xF7, 0xF7), (0x2C2, 0x2C5), (0x2D2, 0x2DF),
      (0x2E5, 0x2EB), (0x2ED, 0x2ED), (0x2EF, 0x2FF), (0x375, 0x375), (0x37E, 0x37E), (0x384, 0x385), (0x387,
      0x387), (0x3F6, 0x3F6), (0x482, 0x482), (0x55A, 0x55F), (0x589, 0x58A), (0x58D, 0x58F), (0x5BE, 0x5BE),
      (0x5C0, 0x5C0), (0x5C3, 0x5C3), (0x5C6, 0x5C6), (0x5F3, 0x5F4), (0x606, 0x60F), (0x61B, 0x61B), (0x61D,
      0x61F), (0x66A, 0x66D), (0x6D4, 0x6D4), (0x6DE, 0x6DE), (0x6E9, 0x6E9), (0x6FD, 0x6FE), (0x700, 0x70D),
      (0x7F6, 0x7F9), (0x7FE, 0x7FF), (0x830, 0x83E), (0x85E, 0x85E), (0x888, 0x888), (0x964, 0x965), (0x970,
      0x970), (0x9F2, 0x9F3), (0x9FA, 0x9FB), (0x9FD, 0x9FD), (0xA76, 0xA76), (0xAF0, 0xAF1), (0xB70, 0xB70),
      (0xBF3, 0xBFA), (0xC77, 0xC77), (0xC7F, 0xC7F), (0xC84, 0xC84), (0xD4F, 0xD4F), (0xD79, 0xD79), (0xDF4,
      0xDF4), (0xE3F, 0xE3F), (0xE4F, 0xE4F), (0xE5A, 0xE5B), (0xF01, 0xF17), (0xF1A, 0xF1F), (0xF34, 0xF34),
      (0xF36, 0xF36), (0xF38, 0xF38), (0xF3A, 0xF3D), (0xF85, 0xF85), (0xFBE, 0xFC5), (0xFC7, 0xFCC), (0xFCE,
      0xFDA), (0x104A, 0x104F), (0x109E, 0x109F), (0x10FB, 0x10FB), (0x1360, 0x1368), (0x1390, 0x1399), (0x1400,
      0x1400), (0x166D, 0x166E), (0x1680, 0x1680), (0x169B, 0x169C), (0x16EB, 0x16ED), (0x1735, 0x1736), (0x17D4,
      0x17D6), (0x17D8, 0x17DB), (0x1800, 0x180A), (0x1940, 0x1940), (0x1944, 0x1945), (0x19DE, 0x19FF), (0x1A1E,
      0x1A1F), (0x1AA0, 0x1AA6), (0x1AA8, 0x1AAD), (0x1B5A, 0x1B6A), (0x1B74, 0x1B7E), (0x1BFC, 0x1BFF), (0x1C3B,
      0x1C3F), (0x1C7E, 0x1C7F), (0x1CC0, 0x1CC7), (0x1CD3, 0x1CD3), (0x1FBD, 0x1FBD), (0x1FBF, 0x1FC1), (0x1FCD,
      0x1FCF), (0x1FDD, 0x1FDF), (0x1FED, 0x1FEF), (0x1FFD, 0x1FFE), (0x2000, 0x200A), (0x2010, 0x2029), (0x202F,
      0x205F), (0x207A, 0x207E), (0x208A, 0x208E), (0x20A0, 0x20C0), (0x2100, 0x2101), (0x2103, 0x2106), (0x2108,
      0x2109), (0x2114, 0x2114), (0x2116, 0x2118), (0x211E, 0x2123), (0x2125, 0x2125), (0x2127, 0x2127), (0x2129,
      0x2129), (0x212E, 0x212E), (0x213A, 0x213B), (0x2140, 0x2144), (0x214A, 0x214D), (0x214F, 0x214F), (0x218A,
      0x218B), (0x2190, 0x2426), (0x2440, 0x244A), (0x249C, 0x24E9), (0x2500, 0x2775), (0x2794, 0x2B73), (0x2B76,
      0x2B95), (0x2B97, 0x2BFF), (0x2CE5, 0x2CEA), (0x2CF9, 0x2CFC), (0x2CFE, 0x2CFF), (0x2D70, 0x2D70), (0x2E00,
      0x2E2E), (0x2E30, 0x2E5D), (0x2E80, 0x2E99), (0x2E9B, 0x2EF3), (0x2F00, 0x2FD5), (0x2FF0, 0x2FFB), (0x3000,
      0x3004), (0x3008, 0x3020), (0x3030, 0x3030), (0x3036, 0x3037), (0x303D, 0x303F), (0x309B, 0x309C), (0x30A0,
      0x30A0), (0x30FB, 0x30FB), (0x3190, 0x3191), (0x3196, 0x319F), (0x31C0, 0x31E3), (0x3200, 0x321E), (0x322A,
      0x3247), (0x3250, 0x3250), (0x3260, 0x327F), (0x328A, 0x32B0), (0x32C0, 0x33FF), (0x4DC0, 0x4DFF), (0xA490,
      0xA4C6), (0xA4FE, 0xA4FF), (0xA60D, 0xA60F), (0xA673, 0xA673), (0xA67E, 0xA67E), (0xA6F2, 0xA6F7), (0xA700,
      0xA716), (0xA720, 0xA721), (0xA789, 0xA78A), (0xA828, 0xA82B), (0xA836, 0xA839), (0xA874, 0xA877), (0xA8CE,
      0xA8CF), (0xA8F8, 0xA8FA), (0xA8FC, 0xA8FC), (0xA92E, 0xA92F), (0xA95F, 0xA95F), (0xA9C1, 0xA9CD), (0xA9DE,
      0xA9DF), (0xAA5C, 0xAA5F), (0xAA77, 0xAA79), (0xAADE, 0xAADF), (0xAAF0, 0xAAF1), (0xAB5B, 0xAB5B), (0xAB6A,
      0xAB6B), (0xABEB, 0xABEB), (0xFB29, 0xFB29), (0xFBB2, 0xFBC2), (0xFD3E, 0xFD4F), (0xFDCF, 0xFDCF), (0xFDFC,
      0xFDFF), (0xFE10, 0xFE19), (0xFE30, 0xFE52), (0xFE54, 0xFE66), (0xFE68, 0xFE6B), (0xFF01, 0xFF0F), (0xFF1A,
      0xFF20), (0xFF3B, 0xFF40), (0xFF5B, 0xFF65), (0xFFE0, 0xFFE6), (0xFFE8, 0xFFEE), (0xFFFC, 0xFFFD), (0x10100,
      0x10102), (0x10137, 0x1013F), (0x10179, 0x10189), (0x1018C, 0x1018E), (0x10190, 0x1019C), (0x101A0, 0x101A0),
      (0x101D0, 0x101FC), (0x1039F, 0x1039F), (0x103D0, 0x103D0), (0x1056F, 0x1056F), (0x10857, 0x10857), (0x10877,
      0x10878), (0x1091F, 0x1091F), (0x1093F, 0x1093F), (0x10A50, 0x10A58), (0x10A7F, 0x10A7F), (0x10AC8, 0x10AC8),
      (0x10AF0, 0x10AF6), (0x10B39, 0x10B3F), (0x10B99, 0x10B9C), (0x10EAD, 0x10EAD), (0x10F55, 0x10F59), (0x10F86,
      0x10F89), (0x11047, 0x1104D), (0x110BB, 0x110BC), (0x110BE, 0x110C1), (0x11140, 0x11143), (0x11174, 0x11175),
      (0x111C5, 0x111C8), (0x111CD, 0x111CD), (0x111DB, 0x111DB), (0x111DD, 0x111DF), (0x11238, 0x1123D), (0x112A9,
      0x112A9), (0x1144B, 0x1144F), (0x1145A, 0x1145B), (0x1145D, 0x1145D), (0x114C6, 0x114C6), (0x115C1, 0x115D7),
      (0x11641, 0x11643), (0x11660, 0x1166C), (0x116B9, 0x116B9), (0x1173C, 0x1173F), (0x1183B, 0x1183B), (0x11944,
      0x11946), (0x119E2, 0x119E2), (0x11A3F, 0x11A46), (0x11A9A, 0x11A9C), (0x11A9E, 0x11AA2), (0x11B00, 0x11B09),
      (0x11C41, 0x11C45), (0x11C70, 0x11C71), (0x11EF7, 0x11EF8), (0x11F43, 0x11F4F), (0x11FD5, 0x11FF1), (0x11FFF,
      0x11FFF), (0x12470, 0x12474), (0x12FF1, 0x12FF2), (0x16A6E, 0x16A6F), (0x16AF5, 0x16AF5), (0x16B37, 0x16B3F),
      (0x16B44, 0x16B45), (0x16E97, 0x16E9A), (0x16FE2, 0x16FE2), (0x1BC9C, 0x1BC9C), (0x1BC9F, 0x1BC9F), (0x1CF50,
      0x1CFC3), (0x1D000, 0x1D0F5), (0x1D100, 0x1D126), (0x1D129, 0x1D164), (0x1D16A, 0x1D16C), (0x1D183, 0x1D184),
      (0x1D18C, 0x1D1A9), (0x1D1AE, 0x1D1EA), (0x1D200, 0x1D241), (0x1D245, 0x1D245), (0x1D300, 0x1D356), (0x1D6C1,
      0x1D6C1), (0x1D6DB, 0x1D6DB), (0x1D6FB, 0x1D6FB), (0x1D715, 0x1D715), (0x1D735, 0x1D735), (0x1D74F, 0x1D74F),
      (0x1D76F, 0x1D76F), (0x1D789, 0x1D789), (0x1D7A9, 0x1D7A9), (0x1D7C3, 0x1D7C3), (0x1D800, 0x1D9FF), (0x1DA37,
      0x1DA3A), (0x1DA6D, 0x1DA74), (0x1DA76, 0x1DA83), (0x1DA85, 0x1DA8B), (0x1E14F, 0x1E14F), (0x1E2FF, 0x1E2FF),
      (0x1E95E, 0x1E95F), (0x1ECAC, 0x1ECAC), (0x1ECB0, 0x1ECB0), (0x1ED2E, 0x1ED2E), (0x1EEF0, 0x1EEF1), (0x1F000,
      0x1F02B), (0x1F030, 0x1F093), (0x1F0A0, 0x1F0AE), (0x1F0B1, 0x1F0BF), (0x1F0C1, 0x1F0CF), (0x1F0D1, 0x1F0F5),
      (0x1F10D, 0x1F1AD), (0x1F1E6, 0x1F202), (0x1F210, 0x1F23B), (0x1F240, 0x1F248), (0x1F250, 0x1F251), (0x1F260,
      0x1F265), (0x1F300, 0x1F6D7), (0x1F6DC, 0x1F6EC), (0x1F6F0, 0x1F6FC), (0x1F700, 0x1F776), (0x1F77B, 0x1F7D9),
      (0x1F7E0, 0x1F7EB), (0x1F7F0, 0x1F7F0), (0x1F800, 0x1F80B), (0x1F810, 0x1F847), (0x1F850, 0x1F859), (0x1F860,
      0x1F887), (0x1F890, 0x1F8AD), (0x1F8B0, 0x1F8B1), (0x1F900, 0x1FA53), (0x1FA60, 0x1FA6D), (0x1FA70, 0x1FA7C),
      (0x1FA80, 0x1FA88), (0x1FA90, 0x1FABD), (0x1FABF, 0x1FAC5), (0x1FACE, 0x1FADB), (0x1FAE0, 0x1FAE8), (0x1FAF0,
      0x1FAF8), (0x1FB00, 0x1FB92), (0x1FB94, 0x1FBCA)]"

fun in_ranges :: "int \<Rightarrow> (int \<times> int) list \<Rightarrow> bool" where
  "in_ranges n [] \<longleftrightarrow> False"
| "in_ranges n ((lo, hi) # rs) \<longleftrightarrow> lo \<le> n \<and> (n \<le> hi \<or> in_ranges n rs)"

definition strip_PSZ :: "string \<Rightarrow> string" where
  "strip_PSZ s = concat (filter (\<lambda>r. \<not> in_ranges (rune_value r) unicode_PSZ) (runes s))"

section \<open>Floating-point numbers\<close>

text \<open>
  The value of a \<^verbatim>\<open>float64\<close> operation: the exact result rounded to 53 significant bits, ties to even.
  Scores are neither negative nor large, so that nothing overflows.
\<close>

definition half_even :: "rat \<Rightarrow> int" where
  "half_even x =
     (let f = floor x; d = x - of_int f in
      if d < 1 / 2 then f else if d > 1 / 2 then f + 1 else if even f then f else f + 1)"

function bits :: "int \<Rightarrow> int" where
  "bits n = (if n \<le> 0 then 0 else 1 + bits (n div 2))"
  by auto
termination by (relation "measure nat") auto

declare bits.simps [simp del]

definition two_to :: "int \<Rightarrow> rat" where
  "two_to e = (if 0 \<le> e then 2 ^ nat e else 1 / 2 ^ nat (- e))"

definition fl :: "rat \<Rightarrow> rat" where
  "fl x =
     (if x \<le> 0 then 0
      else let (n, d) = quotient_of x;
               e0 = bits n - bits d;
               e = (if two_to e0 > x then e0 - 1 else e0);
               q = two_to (e - 52)
           in of_int (half_even (x / q)) * q)"

definition fl_add :: "rat \<Rightarrow> rat \<Rightarrow> rat" where "fl_add x y = fl (x + y)"
definition fl_mul :: "rat \<Rightarrow> rat \<Rightarrow> rat" where "fl_mul x y = fl (x * y)"

section \<open>Questions\<close>

definition normalizeQuery :: "string \<Rightarrow> string" where
  "normalizeQuery input = Join '' '' (Fields (TrimSpace input))"

definition compactQuery :: "string \<Rightarrow> string" where
  "compactQuery query = ToLower (strip_PSZ (normalizeQuery query))"

definition truncateRunes :: "string \<Rightarrow> nat \<Rightarrow> string" where
  "truncateRunes s limit =
     (if limit = 0 \<or> s = [] then []
      else if RuneCountInString s \<le> limit then s
      else TrimSpace (first_runes limit s))"

definition fallback :: "string \<Rightarrow> string \<Rightarrow> string" where
  "fallback v default_value = (let t = TrimSpace v in if t = [] then default_value else t)"

definition mapSenderType :: "string \<Rightarrow> string" where
  "mapSenderType senderType =
     (let t = ToLower (TrimSpace senderType) in
      if t = ''visitor'' then (zh [0x8BBF, 0x5BA2])
      else if t = ''agent'' then (zh [0x5BA2, 0x670D])
      else if t = ''ai'' then ''AI''
      else [])"

definition matchSmallTalkReply :: "string \<Rightarrow> string option" where
  "matchSmallTalkReply query =
     (let normalized = ToLower (strip_PSZ (normalizeQuery query)) in
      if normalized = [] then None
      else if normalized \<in> set [zh [0x4F60, 0x597D], zh [0x60A8, 0x597D], zh [0x55E8], zh [0x54C8, 0x55BD], ''hello'', ''hi'', zh [0x5728,
        0x5417], zh [0x6709, 0x4EBA, 0x5417]]
      then Some (zh [0x60A8, 0x597D, 0xFF0C, 0x6211, 0x662F, 0x20, 0x41, 0x49, 0x20, 0x5BA2, 0x670D, 0xFF0C, 0x5F88, 0x9AD8, 0x5174, 0x4E3A,
        0x60A8, 0x670D, 0x52A1, 0x3002, 0x60A8, 0x53EF, 0x4EE5, 0x76F4, 0x63A5, 0x95EE, 0x6211, 0x4EA7, 0x54C1, 0x3001, 0x4EF7, 0x683C, 0x3001,
        0x53D1, 0x8D27, 0x3001, 0x552E, 0x540E, 0x7B49, 0x95EE, 0x9898, 0x3002])
      else if normalized \<in> set [zh [0x8C22, 0x8C22], zh [0x611F, 0x8C22], zh [0x591A, 0x8C22], zh [0x8C22, 0x4E86], ''thanks'', ''thankyou'']
      then Some (zh [0x4E0D, 0x5BA2, 0x6C14, 0xFF0C, 0x60A8, 0x6709, 0x5176, 0x4ED6, 0x95EE, 0x9898, 0x53EF, 0x4EE5, 0x7EE7, 0x7EED, 0x95EE,
        0x6211, 0x3002])
      else if normalized \<in> set [zh [0x518D, 0x89C1], zh [0x62DC, 0x62DC], ''bye'', ''byebye'', zh [0x56DE, 0x5934, 0x804A]]
      then Some (zh [0x597D, 0x7684, 0xFF0C, 0x60A8, 0x6709, 0x9700, 0x8981, 0x968F, 0x65F6, 0x518D, 0x6765, 0x54A8, 0x8BE2, 0x3002])
      else if normalized \<in> set [zh [0x4F60, 0x662F, 0x8C01], zh [0x4F60, 0x80FD, 0x505A, 0x4EC0, 0x4E48], zh [0x4F60, 0x53EF, 0x4EE5, 0x505A,
        0x4EC0, 0x4E48], zh [0x4ECB, 0x7ECD, 0x4E0B, 0x4F60, 0x81EA, 0x5DF1]]
      then Some (zh [0x6211, 0x662F, 0x7F51, 0x7AD9, 0x20, 0x41, 0x49, 0x20, 0x5BA2, 0x670D, 0xFF0C, 0x53EF, 0x4EE5, 0x6839, 0x636E, 0x5F53,
        0x524D, 0x7AD9, 0x70B9, 0x8D44, 0x6599, 0x56DE, 0x7B54, 0x4EA7, 0x54C1, 0x3001, 0x4EF7, 0x683C, 0x3001, 0x53D1, 0x8D27, 0x548C, 0x552E,
        0x540E, 0x76F8, 0x5173, 0x95EE, 0x9898, 0x3002])
      else None)"

definition isLowSignalContext :: "string \<Rightarrow> bool" where
  "isLowSignalContext content \<longleftrightarrow>
     TrimSpace content = [] \<or> RuneCountInString (TrimSpace (strip_PSZ (TrimSpace content))) < 2"

definition looksLikeQuestion :: "string \<Rightarrow> bool" where
  "looksLikeQuestion s =
     (let t = normalizeQuery s in
      t \<noteq> [] \<and> (contains_one t [zh [0xFF1F], ''?''] \<or> list_ex (HasSuffix t) [zh [0x5417], zh [0x4E48], zh [0x5462]]))"

text \<open>The patterns of the contextual and of the detailed questions are alternatives of literals.\<close>

definition contextualQuestionPattern :: "string \<Rightarrow> bool" where
  "contextualQuestionPattern s = contains_one s
     [zh [0x5B83], zh [0x8FD9, 0x4E2A], zh [0x90A3, 0x4E2A], zh [0x8FD9, 0x6B3E], zh [0x90A3, 0x6B3E], zh [0x8FD9, 0x5957], zh [0x90A3, 0x5957],
       zh [0x8FD9, 0x4EF6], zh [0x90A3, 0x4EF6], zh [0x8BE5, 0x4EA7, 0x54C1], zh [0x8FD9, 0x4E2A, 0x4EA7, 0x54C1], zh [0x8FD9, 0x4E2A, 0x578B,
       0x53F7], zh [0x8FD9, 0x4E2A, 0x5C3A, 0x5BF8],
      zh [0x652F, 0x6301, 0x5417], zh [0x53EF, 0x4EE5, 0x5417], zh [0x80FD, 0x5417], zh [0x591A, 0x5C11, 0x94B1], zh [0x4EF7, 0x683C], zh [0x591A,
        0x4E45], zh [0x591A, 0x5927], zh [0x591A, 0x957F], zh [0x591A, 0x5BBD], zh [0x591A, 0x9AD8], zh [0x6750, 0x8D28], zh [0x5C3A, 0x5BF8], zh
        [0x552E, 0x540E],
      zh [0x4FDD, 0x4FEE], zh [0x9000, 0x8D27], zh [0x9000, 0x6362], zh [0x53D1, 0x8D27], zh [0x600E, 0x4E48], zh [0x5982, 0x4F55], zh [0x54EA,
        0x4E2A, 0x597D], zh [0x6709, 0x5565, 0x533A, 0x522B]]"

definition detailedQuestionPattern :: "string \<Rightarrow> bool" where
  "detailedQuestionPattern s = contains_one s
     [zh [0x8FD9, 0x6B3E], zh [0x90A3, 0x6B3E], zh [0x8FD9, 0x4EF6], zh [0x90A3, 0x4EF6], zh [0x578B, 0x53F7], zh [0x5C3A, 0x5BF8], zh [0x6750,
       0x8D28], zh [0x4EF7, 0x683C], zh [0x591A, 0x5C11, 0x94B1], zh [0x53D1, 0x8D27], zh [0x552E, 0x540E], zh [0x4FDD, 0x4FEE], zh [0x9000,
       0x8D27], zh [0x9000, 0x6362],
      zh [0x5B89, 0x88C5], zh [0x989C, 0x8272], zh [0x53C2, 0x6570], zh [0x533A, 0x522B]]"

definition isListSeekingQuestion :: "string \<Rightarrow> bool" where
  "isListSeekingQuestion question \<longleftrightarrow> question \<noteq> [] \<and> contains_one question
     [zh [0x6709, 0x54EA, 0x4E9B], zh [0x54EA, 0x4E9B], zh [0x6709, 0x4EC0, 0x4E48], zh [0x6709, 0x5565], zh [0x54EA, 0x51E0, 0x4E2A], zh
       [0x54EA, 0x51E0, 0x6B3E], zh [0x4E3B, 0x63A8, 0x4EA7, 0x54C1], zh [0x660E, 0x661F, 0x5355, 0x54C1], zh [0x63A8, 0x8350, 0x4EA7, 0x54C1]]"

text \<open>The first time each text occurs; \<^verbatim>\<open>appendUniqueStrings\<close> trims first.\<close>

fun appendUniqueStrings :: "string list \<Rightarrow> string list \<Rightarrow> string list" where
  "appendUniqueStrings dst [] = dst"
| "appendUniqueStrings dst (v # vs) =
     (let t = TrimSpace v in
      if t = [] \<or> t \<in> set dst then appendUniqueStrings dst vs else appendUniqueStrings (dst @ [t]) vs)"

definition question_concepts :: "(string \<times> string list) list" where
  "question_concepts =
     [(''price'', [zh [0x591A, 0x5C11, 0x94B1], zh [0x591A, 0x5C11, 0x5143], zh [0x4EF7, 0x683C], zh [0x4EF7, 0x94B1], zh [0x552E, 0x4EF7], zh
       [0x62A5, 0x4EF7], zh [0x8D39, 0x7528]]),
      (''invoice'', [zh [0x53D1, 0x7968], zh [0x5F00, 0x7968], zh [0x4E13, 0x7968], zh [0x666E, 0x7968], zh [0x7A0E, 0x7968]]),
      (''size'', [zh [0x5C3A, 0x5BF8], zh [0x89C4, 0x683C], zh [0x591A, 0x5927], zh [0x591A, 0x957F], zh [0x591A, 0x5BBD], zh [0x591A, 0x9AD8], zh
        [0x5927, 0x5C0F]]),
      (''material'', [zh [0x6750, 0x8D28], zh [0x6750, 0x6599], zh [0x9762, 0x6599], zh [0x4EC0, 0x4E48, 0x505A, 0x7684]]),
      (''shipping'', [zh [0x53D1, 0x8D27], zh [0x7269, 0x6D41], zh [0x914D, 0x9001], zh [0x65F6, 0x6548], zh [0x591A, 0x4E45, 0x5230], zh [0x591A,
        0x4E45, 0x53D1]]),
      (''aftersale'', [zh [0x552E, 0x540E], zh [0x9000, 0x6362], zh [0x9000, 0x8D27], zh [0x9000, 0x6B3E], zh [0x4FDD, 0x4FEE], zh [0x65E0,
        0x7406, 0x7531]]),
      (''location'', [zh [0x5730, 0x5740], zh [0x5728, 0x54EA, 0x91CC], zh [0x5728, 0x54EA, 0x513F], zh [0x5728, 0x54EA], zh [0x4F4D, 0x7F6E], zh
        [0x6240, 0x5728, 0x5730]]),
      (''scenario'', [zh [0x9002, 0x7528, 0x573A, 0x666F], zh [0x4F7F, 0x7528, 0x573A, 0x666F], zh [0x9002, 0x5408, 0x573A, 0x666F], zh [0x9002,
        0x5408, 0x4EC0, 0x4E48, 0x573A, 0x666F], zh [0x7528, 0x9014]])]"

definition containsAnyCompact :: "string \<Rightarrow> string list \<Rightarrow> bool" where
  "containsAnyCompact s needles \<longleftrightarrow> list_ex (\<lambda>n. Contains s (compactQuery n)) needles"

definition inferQuestionFieldConcepts :: "string \<Rightarrow> string list" where
  "inferQuestionFieldConcepts cquery =
     (if cquery = [] then [] else map fst (filter (\<lambda>r. containsAnyCompact cquery (snd r)) question_concepts))"

definition looksLikeDirectAnswerQuestion :: "string \<Rightarrow> bool" where
  "looksLikeDirectAnswerQuestion question0 =
     (let question = normalizeQuery question0; cquery = compactQuery question in
      question \<noteq> [] \<and> \<not> isListSeekingQuestion question
      \<and> (contains_one question [zh [0xFF1F], ''?'']
         \<or> inferQuestionFieldConcepts cquery \<noteq> []
         \<or> contains_one cquery [zh [0x5417], zh [0x4E48], zh [0x5462], zh [0x51E0], zh [0x591A, 0x5C11], zh [0x4EC0, 0x4E48], zh [0x600E,
           0x4E48], zh [0x5982, 0x4F55], zh [0x54EA], zh [0x53EF, 0x5426], zh [0x80FD, 0x5426], zh [0x662F, 0x5426], zh [0x53EF, 0x4EE5], zh [0x652F,
           0x6301]]))"

definition looksGenericTopic :: "string \<Rightarrow> bool" where
  "looksGenericTopic topic \<longleftrightarrow>
     topic \<in> set [zh [0x4EA7, 0x54C1], zh [0x54C1, 0x724C], zh [0x4EA7, 0x54C1, 0x7EBF], zh [0x4ECB, 0x7ECD], zh [0x5BA2, 0x670D], zh
       [0x552E, 0x540E], zh [0x53D1, 0x8D27], zh [0x4EF7, 0x683C], zh [0x5C3A, 0x5BF8], zh [0x6750, 0x8D28],
       zh [0x652F, 0x6301], zh [0x9000, 0x6362], zh [0x9000, 0x8D27], zh [0x4FDD, 0x4FEE], zh [0x5B89, 0x88C5], zh [0x989C, 0x8272], zh [0x5BF9,
         0x6BD4], zh [0x62A5, 0x4EF7], zh [0x53D1, 0x7968], zh [0x5F00, 0x7968], zh [0x4E13, 0x7968]]
     \<or> RuneCountInString topic < 2"

definition extractConversationTopic :: "string \<Rightarrow> string" where
  "extractConversationTopic content =
     (let topic0 = normalizeQuery content;
          topic1 = foldl TrimPrefix topic0
            [zh [0x6211, 0x60F3, 0x4E86, 0x89E3], zh [0x60F3, 0x4E86, 0x89E3], zh [0x6211, 0x60F3, 0x54A8, 0x8BE2], zh [0x60F3, 0x54A8, 0x8BE2], zh
              [0x6211, 0x60F3, 0x95EE], zh [0x60F3, 0x95EE], zh [0x9EBB, 0x70E6, 0x95EE, 0x4E0B], zh [0x9EBB, 0x70E6, 0x95EE, 0x95EE],
             zh [0x8BF7, 0x95EE], zh [0x6211, 0x60F3, 0x770B, 0x770B], zh [0x60F3, 0x770B, 0x770B], zh [0x770B, 0x770B], zh [0x4ECB, 0x7ECD, 0x4E00,
               0x4E0B], zh [0x4ECB, 0x7ECD, 0x4E0B], zh [0x4ECB, 0x7ECD], zh [0x5173, 0x4E8E], zh [0x804A, 0x804A], zh [0x8BF4, 0x8BF4], zh [0x8BB2,
               0x8BB2],
             zh [0x6211, 0x60F3, 0x4E70], zh [0x60F3, 0x4E70], zh [0x5E2E, 0x6211, 0x770B, 0x770B], zh [0x5E2E, 0x6211, 0x4ECB, 0x7ECD, 0x4E0B], zh
               [0x53EF, 0x4EE5], zh [0x53EF, 0x5426], zh [0x662F, 0x5426], zh [0x80FD, 0x5426], zh [0x80FD, 0x4E0D, 0x80FD], zh [0x80FD]];
          topic2 = foldl TrimPrefix topic1
            [zh [0x4F60, 0x4EEC, 0x7684], zh [0x4F60, 0x4EEC, 0x5BB6], zh [0x4F60, 0x4EEC], zh [0x8FD9, 0x4E2A], zh [0x90A3, 0x4E2A], zh [0x8FD9,
              0x6B3E], zh [0x90A3, 0x6B3E], zh [0x8FD9, 0x4EF6], zh [0x90A3, 0x4EF6], zh [0x8FD9, 0x5957], zh [0x90A3, 0x5957], zh [0x5B83]];
          topic3 = foldl TrimSuffix topic2
            [zh [0x591A, 0x5C11, 0x94B1], zh [0x4EF7, 0x683C, 0x662F, 0x591A, 0x5C11], zh [0x4EF7, 0x683C], zh [0x62A5, 0x4EF7], zh [0x591A, 0x5927], zh
              [0x591A, 0x957F], zh [0x591A, 0x5BBD], zh [0x591A, 0x9AD8], zh [0x5927, 0x5C0F], zh [0x5C3A, 0x5BF8], zh [0x89C4, 0x683C],
             zh [0x6750, 0x8D28], zh [0x6750, 0x6599], zh [0x662F, 0x4EC0, 0x4E48, 0x6750, 0x8D28], zh [0x652F, 0x6301, 0x51E0, 0x5929, 0x9000, 0x6362],
               zh [0x652F, 0x6301, 0x37, 0x5929, 0x65E0, 0x7406, 0x7531, 0x5417], zh [0x652F, 0x6301, 0x9000, 0x6362, 0x5417], zh [0x80FD, 0x9000, 0x5417],
               zh [0x9000, 0x6362, 0x8D27], zh [0x9000, 0x8D27],
             zh [0x4FDD, 0x4FEE], zh [0x552E, 0x540E], zh [0x53D1, 0x8D27], zh [0x591A, 0x4E45, 0x5230], zh [0x591A, 0x4E45], zh [0x5B89, 0x88C5], zh
               [0x989C, 0x8272], zh [0x9002, 0x5408, 0x8C01], zh [0x9002, 0x5408, 0x4EC0, 0x4E48, 0x4EBA], zh [0x600E, 0x4E48, 0x6837], zh [0x597D, 0x7528,
               0x5417],
             zh [0x5728, 0x54EA, 0x91CC], zh [0x5728, 0x54EA, 0x513F], zh [0x5728, 0x54EA], zh [0x54EA, 0x91CC], zh [0x54EA, 0x513F], zh [0x5730,
               0x5740], zh [0x5730, 0x70B9],
             zh [0x5417], zh [0x4E48], zh [0x5462], zh [0x5440], zh [0x554A], zh [0x533A, 0x522B], zh [0x54EA, 0x4E2A, 0x597D]];
          topic = trim_runes [zh [0xFF0C], zh [0x3002], zh [0xFF01], zh [0xFF1F], ''?'', '';'', zh [0xFF1B], '':'', zh [0xFF1A], zh [0x3001], '' '']
            topic3
      in if topic0 = [] \<or> topic = [] \<or> looksGenericTopic topic \<or> looksLikeQuestion topic then []
         else if RuneCountInString topic > 20 then truncateRunes topic 20 else topic)"

definition conversation_focuses :: "(string \<times> string list) list" where
  "conversation_focuses =
     [(zh [0x4EF7, 0x683C], [zh [0x591A, 0x5C11, 0x94B1], zh [0x4EF7, 0x683C], zh [0x552E, 0x4EF7], zh [0x62A5, 0x4EF7], zh [0x8D39, 0x7528], zh
       [0x8D35, 0x5417]]),
      (zh [0x5C3A, 0x5BF8], [zh [0x5C3A, 0x5BF8], zh [0x89C4, 0x683C], zh [0x591A, 0x5927], zh [0x591A, 0x957F], zh [0x591A, 0x5BBD], zh [0x591A,
        0x9AD8], zh [0x5927, 0x5C0F]]),
      (zh [0x6750, 0x8D28], [zh [0x6750, 0x8D28], zh [0x6750, 0x6599], zh [0x9762, 0x6599], zh [0x4EC0, 0x4E48, 0x505A, 0x7684]]),
      (zh [0x552E, 0x540E], [zh [0x552E, 0x540E], zh [0x9000, 0x6362], zh [0x9000, 0x8D27], zh [0x9000, 0x6B3E], zh [0x4FDD, 0x4FEE], zh [0x65E0,
        0x7406, 0x7531]]),
      (zh [0x53D1, 0x8D27], [zh [0x53D1, 0x8D27], zh [0x591A, 0x4E45, 0x5230], zh [0x591A, 0x4E45], zh [0x7269, 0x6D41], zh [0x914D, 0x9001], zh
        [0x65F6, 0x6548]]),
      (zh [0x5730, 0x5740], [zh [0x5728, 0x54EA, 0x91CC], zh [0x5728, 0x54EA, 0x513F], zh [0x5728, 0x54EA], zh [0x54EA, 0x91CC], zh [0x54EA,
        0x513F], zh [0x5730, 0x5740], zh [0x5730, 0x70B9]]),
      (zh [0x5B89, 0x88C5], [zh [0x5B89, 0x88C5], zh [0x7EC4, 0x88C5]]),
      (zh [0x989C, 0x8272], [zh [0x989C, 0x8272], zh [0x914D, 0x8272]]),
      (zh [0x9002, 0x7528, 0x4EBA, 0x7FA4], [zh [0x9002, 0x5408], zh [0x9002, 0x7528], zh [0x4EBA, 0x7FA4]]),
      (zh [0x5BF9, 0x6BD4], [zh [0x533A, 0x522B], zh [0x5DEE, 0x5F02], zh [0x54EA, 0x4E2A, 0x597D], zh [0x54EA, 0x4E2A, 0x66F4, 0x597D], zh
        [0x5BF9, 0x6BD4]])]"

definition extractConversationFocuses :: "string \<Rightarrow> string list" where
  "extractConversationFocuses content =
     (let cquery = compactQuery content in
      if cquery = [] then []
      else appendUniqueStrings [] (map fst (filter (\<lambda>r. containsAnyCompact cquery (snd r)) conversation_focuses)))"

definition isShortTopicLookupQuestion :: "string \<Rightarrow> bool" where
  "isShortTopicLookupQuestion question0 =
     (let question = normalizeQuery question0; topic = extractConversationTopic question in
      question \<noteq> [] \<and> RuneCountInString question \<le> 8
      \<and> \<not> isListSeekingQuestion question \<and> \<not> looksLikeDirectAnswerQuestion question
      \<and> \<not> contextualQuestionPattern question
      \<and> topic \<noteq> [] \<and> RuneCountInString topic \<le> 8)"

definition hasIntroIntent :: "string \<Rightarrow> bool" where
  "hasIntroIntent cquery = containsAnyCompact cquery [zh [0x4ECB, 0x7ECD], zh [0x8BB2, 0x8BB2], zh [0x8BF4, 0x8BF4], zh [0x804A, 0x804A], zh
    [0x8BF4, 0x660E]]"

definition isBroadIntroIntent :: "string \<Rightarrow> bool" where
  "isBroadIntroIntent cquery =
     (let r1 = foldl TrimPrefix cquery [zh [0x8BF7, 0x95EE], zh [0x8BF7], zh [0x60F3, 0x4E86, 0x89E3], zh [0x6211, 0x60F3, 0x4E86, 0x89E3], zh
       [0x4ECB, 0x7ECD, 0x4E00, 0x4E0B], zh [0x4ECB, 0x7ECD, 0x4E0B], zh [0x4ECB, 0x7ECD], zh [0x8BF4, 0x8BF4], zh [0x8BB2, 0x8BB2], zh [0x804A,
       0x804A]];
          r2 = foldl delete_all r1 [zh [0x4F60, 0x4EEC, 0x7684], zh [0x4F60, 0x4EEC, 0x5BB6], zh [0x4F60, 0x4EEC], zh [0x4E00, 0x4E0B], zh [0x4E0B]]
      in TrimSpace r2 \<in> set [[], zh [0x4EA7, 0x54C1], zh [0x54C1, 0x724C], zh [0x4EA7, 0x54C1, 0x4ECB, 0x7ECD], zh [0x54C1, 0x724C, 0x4ECB,
        0x7ECD], zh [0x505A, 0x4EC0, 0x4E48], zh [0x5356, 0x4EC0, 0x4E48], zh [0x4E3B, 0x8425, 0x4EC0, 0x4E48], zh [0x4E3B, 0x8425],
           zh [0x4E3B, 0x8981, 0x505A, 0x4EC0, 0x4E48], zh [0x6709, 0x54EA, 0x4E9B, 0x4EA7, 0x54C1], zh [0x4EA7, 0x54C1, 0x7EBF], zh [0x4EA7, 0x54C1,
             0x77E9, 0x9635]])"

definition isOverviewSeekingQuestion :: "string \<Rightarrow> bool" where
  "isOverviewSeekingQuestion question0 =
     (let question = normalizeQuery question0; cquery = compactQuery question in
      question \<noteq> [] \<and> \<not> isListSeekingQuestion question \<and> \<not> looksLikeDirectAnswerQuestion question
      \<and> (containsAnyCompact cquery [zh [0x4ECB, 0x7ECD], zh [0x8BB2, 0x8BB2], zh [0x8BF4, 0x8BF4], zh [0x804A, 0x804A], zh [0x8BF4, 0x660E],
        zh [0x662F, 0x4EC0, 0x4E48], zh [0x6709, 0x4EC0, 0x4E48, 0x6743, 0x76CA], zh [0x6709, 0x54EA, 0x4E9B, 0x6743, 0x76CA]]
         \<or> isShortTopicLookupQuestion question))"

section \<open>What the model answers\<close>

text \<open>The tags are matched without regard to case; the Kelvin sign folds to \<^verbatim>\<open>k\<close>.\<close>

fun match_fold :: "string \<Rightarrow> string \<Rightarrow> string option" where
  "match_fold s [] = Some s"
| "match_fold s (p # ps) =
     (if p = CHR ''k'' \<and> HasPrefix s (utf8 0x212A) then match_fold (drop 3 s) ps
      else case s of [] \<Rightarrow> None | c # cs \<Rightarrow> if lower_byte c = p then match_fold cs ps else None)"

fun after_tag :: "string \<Rightarrow> string \<Rightarrow> string option" where
  "after_tag tag [] = match_fold [] tag"
| "after_tag tag (c # cs) = (case match_fold (c # cs) tag of Some t \<Rightarrow> Some t | None \<Rightarrow> after_tag tag cs)"

lemma match_fold_shorter: "match_fold s ps = Some t \<Longrightarrow> length t + length ps \<le> length s"
proof (induction s ps arbitrary: t rule: match_fold.induct)
  case (2 s p ps)
  show ?case
  proof (cases "p = CHR ''k'' \<and> HasPrefix s (utf8 0x212A)")
    case True
    then have "3 \<le> length s" by (auto simp: HasPrefix_def utf8_def dest!: arg_cong [of _ _ length])
    with 2 True show ?thesis by fastforce
  next
    case False
    with 2 show ?thesis by (auto split: list.splits if_splits)
  qed
qed simp

lemma after_tag_shorter: "after_tag tag s = Some t \<Longrightarrow> length t \<le> length s"
  by (induction tag s arbitrary: t rule: after_tag.induct)
     (auto split: option.splits dest!: match_fold_shorter intro: le_SucI)

lemma think_shorter:
  "Option.bind (match_fold s ''<think>'') (after_tag ''</think>'') = Some t \<Longrightarrow> length t < length s"
  by (auto simp: bind_eq_Some_conv simp del: match_fold.simps dest!: match_fold_shorter after_tag_shorter)

function strip_think :: "string \<Rightarrow> string" where
  "strip_think [] = []"
| "strip_think (c # cs) =
     (case Option.bind (match_fold (c # cs) ''<think>'') (after_tag ''</think>'') of
        Some t \<Rightarrow> strip_think t
      | None \<Rightarrow> c # strip_think cs)"
  by pat_completeness auto
termination
  by (relation "measure length") (auto simp del: match_fold.simps dest: think_shorter)

definition sanitizeModelReply :: "string \<Rightarrow> string \<Rightarrow> string" where
  "sanitizeModelReply reply0 fallbackText =
     (let reply = TrimSpace (strip_think reply0); joined = Join '' '' (Fields reply) in
      if reply = [] then fallbackText else if joined = [] then fallbackText else joined)"

end
