(* ===== verification/Ai_Answer.thy ===== *)
theory Ai_Answer
  imports Ai_Text
begin

text \<open>
  The second half of the texts of \<^verbatim>\<open>auto_reply_service.go\<close>: the state of the conversation, the search
  query, the prompt and the answers taken from the retrieved pieces without the model.
\<close>

section \<open>The conversation so far\<close>

text \<open>A message as \<^verbatim>\<open>internal/chatclient\<close> hands it on.\<close>

record ai_message =
  aim_ID :: nat
  aim_ConversationID :: nat
  aim_SenderType :: string
  aim_SenderID :: string
  aim_Content :: string
  aim_ClientMsgID :: string

definition colon :: string where "colon = (zh [0xFF1A])"

definition formatConversationHistoryLine :: "ai_message \<Rightarrow> nat \<Rightarrow> string" where
  "formatConversationHistoryLine item currentMessageID =
     (let role = mapSenderType (aim_SenderType item); content = TrimSpace (aim_Content item) in
      if aim_ID item = currentMessageID \<or> role = [] \<or> content = [] then []
      else role @ colon @ (if RuneCountInString content > 180 then first_runes 180 content else content))"

text \<open>The loop over the lines: empty ones are skipped, the first that does not fit ends it.\<close>

fun history_lines :: "nat \<Rightarrow> nat \<Rightarrow> nat \<Rightarrow> nat \<Rightarrow> string list \<Rightarrow> string list" where
  "history_lines maxMessages maxChars n used [] = []"
| "history_lines maxMessages maxChars n used (line # rest) =
     (if line = [] then history_lines maxMessages maxChars n used rest
      else if used + length line + 1 > maxChars then []
      else line # (if Suc n \<ge> maxMessages then []
                   else history_lines maxMessages maxChars (Suc n) (used + length line + 1) rest))"

definition buildConversationHistory :: "ai_message list \<Rightarrow> nat \<Rightarrow> nat \<Rightarrow> nat \<Rightarrow> string" where
  "buildConversationHistory messages currentMessageID maxMessages maxChars =
     (if maxMessages = 0 \<or> maxChars = 0 then []
      else Join [CHR 0x0A] (rev (history_lines maxMessages maxChars 0 0
             (map (\<lambda>m. formatConversationHistoryLine m currentMessageID) messages))))"

definition formatStateContextLine :: "ai_message \<Rightarrow> nat \<Rightarrow> string" where
  "formatStateContextLine item currentMessageID =
     (let role = mapSenderType (aim_SenderType item); content = normalizeQuery (aim_Content item);
          shown = truncateRunes content 96
      in if aim_ID item = currentMessageID \<or> role = [] \<or> content = [] \<or> isLowSignalContext content
            \<or> matchSmallTalkReply content \<noteq> None \<or> shown = [] then []
         else role @ colon @ shown)"

fun context_lines :: "nat \<Rightarrow> nat \<Rightarrow> nat \<Rightarrow> nat \<Rightarrow> string list \<Rightarrow> string list" where
  "context_lines maxMessages maxChars n used [] = []"
| "context_lines maxMessages maxChars n used (line # rest) =
     (if used + length line + 1 > maxChars \<and> n > 0 then []
      else line # (if Suc n \<ge> maxMessages then []
                   else context_lines maxMessages maxChars (Suc n) (used + length line + 1) rest))"

definition collectRelevantContextLines :: "ai_message list \<Rightarrow> nat \<Rightarrow> nat \<Rightarrow> nat \<Rightarrow> string list" where
  "collectRelevantContextLines messages currentMessageID maxMessages maxChars =
     (if maxMessages = 0 \<or> maxChars = 0 then []
      else rev (context_lines maxMessages maxChars 0 0
             (filter (\<lambda>l. l \<noteq> []) (map (\<lambda>m. formatStateContextLine m currentMessageID) messages))))"

record conversationState =
  cs_ActiveTopic :: string
  cs_Focuses :: "string list"
  cs_ContextLines :: "string list"
  cs_Summary :: string

definition buildConversationStateSummary :: "conversationState \<Rightarrow> string" where
  "buildConversationStateSummary st =
     truncateRunes (Join [CHR 0x0A]
       ((if cs_ActiveTopic st \<noteq> [] then [(zh [0x5F53, 0x524D, 0x4E3B, 0x9898, 0xFF1A]) @ cs_ActiveTopic st] else [])
        @ (if cs_Focuses st \<noteq> [] then [(zh [0x5173, 0x6CE8, 0x70B9, 0xFF1A]) @ Join (zh [0x3001]) (cs_Focuses st)] else [])
        @ (if cs_ContextLines st \<noteq> [] then (zh [0x6700, 0x8FD1, 0x6709, 0x6548, 0x4E0A, 0x4E0B, 0x6587, 0xFF1A]) # cs_ContextLines st else
          []))) 320"

text \<open>One earlier message: it may give the topic and adds its focuses.\<close>

definition state_step :: "nat \<Rightarrow> string \<times> string list \<Rightarrow> ai_message \<Rightarrow> string \<times> string list" where
  "state_step currentMessageID = (\<lambda>(topic, focuses) item.
     let content = normalizeQuery (aim_Content item) in
     if aim_ID item = currentMessageID \<or> ToLower (TrimSpace (aim_SenderType item)) \<noteq> ''visitor''
        \<or> content = [] \<or> isLowSignalContext content \<or> matchSmallTalkReply content \<noteq> None
     then (topic, focuses)
     else (if topic = [] then extractConversationTopic content else topic,
           appendUniqueStrings focuses (extractConversationFocuses content)))"

definition buildConversationState :: "string \<Rightarrow> ai_message list \<Rightarrow> nat \<Rightarrow> conversationState" where
  "buildConversationState query messages currentMessageID =
     (let (topic, focuses) = foldl (state_step currentMessageID)
            (extractConversationTopic query, extractConversationFocuses query) (rev messages);
          st = \<lparr>cs_ActiveTopic = topic, cs_Focuses = focuses,
                cs_ContextLines = collectRelevantContextLines messages currentMessageID 4 240, cs_Summary = []\<rparr>
      in st\<lparr>cs_Summary := buildConversationStateSummary st\<rparr>)"

section \<open>The search query\<close>

definition introSearchTemplate :: string where
  "introSearchTemplate = (zh [0x54C1, 0x724C, 0x4ECB, 0x7ECD, 0x20, 0x4EA7, 0x54C1, 0x4ECB, 0x7ECD, 0x20, 0x5BB6, 0x5C45, 0x751F, 0x6D3B,
    0x54C1, 0x724C, 0x20, 0x56DB, 0x5927, 0x4EA7, 0x54C1, 0x7EBF, 0x20, 0x4EA7, 0x54C1, 0x77E9, 0x9635, 0x20, 0x4E3B, 0x63A8, 0x4EA7, 0x54C1])"

definition featuredSearchTemplate :: string where
  "featuredSearchTemplate = (zh [0x9752, 0x79BE, 0x5BB6, 0x5C45, 0x7684, 0x4E3B, 0x63A8, 0x4EA7, 0x54C1, 0x6709, 0x54EA, 0x4E9B, 0x20, 0x5F53,
    0x524D, 0x91CD, 0x70B9, 0x5C55, 0x793A, 0x4EA7, 0x54C1, 0x5305, 0x62EC, 0x54EA, 0x4E9B, 0x20, 0x660E, 0x661F, 0x5355, 0x54C1, 0x20, 0x91CD,
    0x70B9, 0x5C55, 0x793A, 0x4EA7, 0x54C1])"

definition rewriteBroadSearchQuery :: "string \<Rightarrow> conversationState \<Rightarrow> string" where
  "rewriteBroadSearchQuery query0 st =
     (let query = normalizeQuery query0; cquery = compactQuery query; topic = extractConversationTopic query in
      if query = [] then []
      else if detailedQuestionPattern query \<or> contextualQuestionPattern query \<or> looksLikeDirectAnswerQuestion query then query
      else if cquery = [] then query
      else if contains_one cquery [zh [0x6700, 0x597D, 0x4EA7, 0x54C1], zh [0x6700, 0x4F73, 0x4EA7, 0x54C1], zh [0x4E3B, 0x63A8, 0x4EA7, 0x54C1],
        zh [0x4E3B, 0x6253, 0x4EA7, 0x54C1], zh [0x660E, 0x661F, 0x5355, 0x54C1], zh [0x7206, 0x6B3E], zh [0x62DB, 0x724C, 0x4EA7, 0x54C1], zh
        [0x63A8, 0x8350, 0x4EA7, 0x54C1]]
      then featuredSearchTemplate
      else if topic \<noteq> [] \<and> hasIntroIntent cquery \<and> RuneCountInString query \<le> 10
      then topic @ (zh [0x20, 0x4ECB, 0x7ECD, 0x20, 0x8BF4, 0x660E, 0x20, 0x6838, 0x5FC3, 0x5185, 0x5BB9, 0x20, 0x6838, 0x5FC3, 0x6743, 0x76CA,
        0x20, 0x89C4, 0x5219])
      else if topic \<noteq> [] \<and> isShortTopicLookupQuestion query
      then topic @ (zh [0x20, 0x4ECB, 0x7ECD, 0x20, 0x8BF4, 0x660E, 0x20, 0x6838, 0x5FC3, 0x5185, 0x5BB9, 0x20, 0x80CC, 0x666F, 0x20, 0x5386, 0x7A0B])
      else if cs_ActiveTopic st \<noteq> [] \<and> isBroadIntroIntent cquery
      then cs_ActiveTopic st @ (zh [0x20, 0x4EA7, 0x54C1, 0x4ECB, 0x7ECD, 0x20, 0x89C4, 0x683C, 0x20, 0x53C2, 0x6570, 0x20, 0x5356, 0x70B9, 0x20,
        0x9002, 0x7528, 0x573A, 0x666F])
      else if cquery = (zh [0x4ECB, 0x7ECD]) \<or> isBroadIntroIntent cquery then introSearchTemplate
      else query)"

definition shouldAugmentSearchQuery :: "string \<Rightarrow> conversationState \<Rightarrow> bool" where
  "shouldAugmentSearchQuery query0 st =
     (let query = normalizeQuery query0 in
      query \<noteq> [] \<and> cs_ContextLines st \<noteq> [] \<and> cs_ActiveTopic st \<noteq> []
      \<and> (isBroadIntroIntent (compactQuery query)
         \<or> contextualQuestionPattern query \<and> extractConversationTopic query = []))"

definition buildSearchQuery :: "string \<Rightarrow> conversationState \<Rightarrow> string" where
  "buildSearchQuery query0 st =
     (let query = normalizeQuery query0; rewritten = rewriteBroadSearchQuery query st in
      if query = [] then []
      else if rewritten \<noteq> [] \<and> rewritten \<noteq> query then rewritten
      else if \<not> shouldAugmentSearchQuery query st then query
      else
        let out = TrimSpace ((zh [0x5F53, 0x524D, 0x95EE, 0x9898, 0xFF1A]) @ query
              @ (if cs_ActiveTopic st \<noteq> [] then (zh [0xA, 0x5F53, 0x524D, 0x4E3B, 0x9898, 0xFF1A]) @ cs_ActiveTopic st else [])
              @ (if cs_Focuses st \<noteq> [] then (zh [0xA, 0x5173, 0x6CE8, 0x70B9, 0xFF1A]) @ Join (zh [0x3001]) (cs_Focuses st) else [])
              @ (if cs_ContextLines st \<noteq> [] then (zh [0xA, 0x6700, 0x8FD1, 0x4E0A, 0x4E0B, 0x6587, 0xFF1A, 0xA]) @ concat (map (\<lambda>l. l @
                [CHR 0x0A]) (cs_ContextLines st)) else []))
        in if RuneCountInString out > 480 then first_runes 480 out else out)"

section \<open>The prompt\<close>

record SearchResult =
  sr_Section :: string
  sr_Text :: string
  sr_SourcePath :: string
  sr_Kind :: string
  sr_Keywords :: "string list"

definition context_part :: "nat \<Rightarrow> SearchResult \<Rightarrow> string" where
  "context_part i item =
     ''['' @ FormatUint (Suc i) @ ''] '' @ fallback (sr_SourcePath item) ''unknown'' @ (zh [0x20, 0xB7, 0x20])
     @ fallback (sr_Section item) (zh [0x77E5, 0x8BC6, 0x7247, 0x6BB5]) @ [CHR 0x0A] @ TrimSpace (sr_Text item) @ [CHR 0x0A, CHR 0x0A]"

fun context_parts :: "nat \<Rightarrow> nat \<Rightarrow> nat \<Rightarrow> SearchResult list \<Rightarrow> string" where
  "context_parts maxChars i used [] = []"
| "context_parts maxChars i used (item # items) =
     (let part = context_part i item in
      if used + length part > maxChars then []
      else part @ context_parts maxChars (Suc i) (used + length part) items)"

definition buildContext :: "SearchResult list \<Rightarrow> nat \<Rightarrow> string" where
  "buildContext results maxChars =
     (if results = [] then []
      else TrimSpace (context_parts (if maxChars = 0 then 3600 else maxChars) 0 0 results))"

definition prompt_head :: "string \<Rightarrow> string \<Rightarrow> string" where
  "prompt_head stateSummary conversationHistory =
     (if TrimSpace stateSummary \<noteq> [] then (zh [0x5F53, 0x524D, 0x4F1A, 0x8BDD, 0x72B6, 0x6001, 0xFF1A, 0xA]) @ TrimSpace stateSummary @
       [CHR 0x0A, CHR 0x0A] else [])
     @ (if TrimSpace conversationHistory \<noteq> [] then (zh [0x6700, 0x8FD1, 0x5BF9, 0x8BDD, 0xFF1A, 0xA]) @ TrimSpace conversationHistory @
       [CHR 0x0A, CHR 0x0A] else [])"

definition buildPromptBody :: "string \<Rightarrow> string \<Rightarrow> string \<Rightarrow> string \<Rightarrow> string" where
  "buildPromptBody stateSummary conversationHistory contextText question =
     prompt_head stateSummary conversationHistory
     @ (zh [0x77E5, 0x8BC6, 0x7247, 0x6BB5, 0xFF1A, 0xA]) @ TrimSpace contextText @ (zh [0xA, 0xA, 0x7528, 0x6237, 0x95EE, 0x9898, 0xFF1A, 0xA])
       @ TrimSpace question"

definition buildKnowledgeDocumentPromptBody :: "string \<Rightarrow> string \<Rightarrow> string \<Rightarrow> string \<Rightarrow> string" where
  "buildKnowledgeDocumentPromptBody stateSummary conversationHistory primaryDocument question =
     prompt_head stateSummary conversationHistory
     @ (zh [0x7AD9, 0x70B9, 0x77E5, 0x8BC6, 0x5168, 0x6587, 0xFF08, 0x6B, 0x6E, 0x6F, 0x77, 0x6C, 0x65, 0x64, 0x67, 0x65, 0x2E, 0x6D, 0x64,
       0xFF0C, 0x8BF7, 0x76F4, 0x63A5, 0x5728, 0x5168, 0x6587, 0x4E2D, 0x67E5, 0x627E, 0x7B54, 0x6848, 0xFF09, 0xFF1A, 0xA]) @ TrimSpace
       primaryDocument
     @ (zh [0xA, 0xA, 0x7528, 0x6237, 0x95EE, 0x9898, 0xFF1A, 0xA]) @ TrimSpace question"

definition buildKnowledgePromptBody :: "string \<Rightarrow> string \<Rightarrow> string \<Rightarrow> SearchResult list \<Rightarrow> string \<Rightarrow> string" where
  "buildKnowledgePromptBody stateSummary conversationHistory primaryDocument0 results question =
     (let primaryDocument = truncateRunes (TrimSpace primaryDocument0) 64000; contextText = buildContext results 3600 in
      if primaryDocument \<noteq> [] then buildKnowledgeDocumentPromptBody stateSummary conversationHistory primaryDocument question
      else if contextText = [] then []
      else buildPromptBody stateSummary conversationHistory contextText question)"

section \<open>Answers without the model\<close>

definition extractFAQAnswerText :: "string \<Rightarrow> string option" where
  "extractFAQAnswerText s =
     (let t = TrimSpace s; marker = (zh [0x7B54, 0x6848, 0xFF1A]) in
      case Index t marker of
        None \<Rightarrow> None
      | Some idx \<Rightarrow> (let answer = TrimSpace (drop (idx + length marker) t) in if answer = [] then None else Some answer))"

definition extractProductName :: "string \<Rightarrow> string" where
  "extractProductName s =
     (let label = (zh [0x4EA7, 0x54C1, 0x540D, 0x79F0, 0xFF1A]) in
      case find (\<lambda>n. n \<noteq> []) (map (\<lambda>l. TrimSpace (TrimPrefix l label))
             (filter (\<lambda>l. HasPrefix l label) (map TrimSpace (Lines (TrimSpace s))))) of
        None \<Rightarrow> [] | Some n \<Rightarrow> n)"

definition formatListReply :: "SearchResult list \<Rightarrow> string \<Rightarrow> string option" where
  "formatListReply results fallbackText =
     (let names = appendUniqueStrings [] (map (\<lambda>r. extractProductName (sr_Text r)) results) in
      if names = [] then None
      else Some (sanitizeModelReply ((zh [0x5F53, 0x524D, 0x8D44, 0x6599, 0x4E2D, 0x53EF, 0x786E, 0x8BA4, 0x7684, 0x660E, 0x661F, 0x5355, 0x54C1,
        0x5305, 0x62EC, 0xFF1A]) @ Join (zh [0x3001]) names @ (zh [0x3002])) fallbackText))"

subsection \<open>Facts\<close>

fun index_colon :: "string \<Rightarrow> nat option" where
  "index_colon [] = None"
| "index_colon (c # cs) =
     (if c = CHR '':'' \<or> HasPrefix (c # cs) colon then Some 0 else map_option Suc (index_colon cs))"

definition fact_pair :: "string \<Rightarrow> (string \<times> string) option" where
  "fact_pair raw =
     (let line = TrimSpace raw in
      case index_colon line of
        None \<Rightarrow> None
      | Some sep \<Rightarrow>
          let sepWidth = (if HasPrefix (drop sep line) colon then length colon else 1);
              key = TrimSpace (take sep line); val = TrimSpace (drop (sep + sepWidth) line)
          in if sep = 0 \<or> sep + 1 \<ge> length line \<or> key = [] \<or> val = [] then None else Some (key, val))"

definition extractFactPairs :: "string \<Rightarrow> (string \<times> string) list" where
  "extractFactPairs s = List.map_filter fact_pair (Lines (TrimSpace s))"

definition isGenericQuestionToken :: "string \<Rightarrow> bool" where
  "isGenericQuestionToken token \<longleftrightarrow> token \<in> set [zh [0x8BF7, 0x95EE], zh [0x53EF, 0x4EE5], zh [0x662F, 0x5426], zh
    [0x80FD, 0x5426], zh [0x53EF, 0x5426], zh [0x600E, 0x4E48], zh [0x5982, 0x4F55], zh [0x4EC0, 0x4E48], zh [0x591A, 0x5C11], zh [0x652F,
    0x6301], zh [0x4E00, 0x4E0B], zh [0x591A, 0x5C11, 0x94B1]]"

definition concept_aliases :: "(string \<times> string list) list" where
  "concept_aliases =
     [(''price'', [zh [0x4EF7, 0x683C], zh [0x4EF7, 0x94B1], zh [0x552E, 0x4EF7], zh [0x96F6, 0x552E, 0x4EF7], zh [0x5EFA, 0x8BAE, 0x96F6,
       0x552E, 0x4EF7], zh [0x62A5, 0x4EF7]]),
      (''invoice'', [zh [0x53D1, 0x7968], zh [0x5F00, 0x7968], zh [0x4E13, 0x7968], zh [0x666E, 0x7968], zh [0x589E, 0x503C, 0x7A0E, 0x4E13,
        0x7528, 0x53D1, 0x7968], zh [0x666E, 0x901A, 0x53D1, 0x7968]]),
      (''size'', [zh [0x5C3A, 0x5BF8], zh [0x89C4, 0x683C], zh [0x5927, 0x5C0F], zh [0x957F, 0x5BBD, 0x9AD8]]),
      (''material'', [zh [0x6750, 0x8D28], zh [0x6750, 0x6599], zh [0x9762, 0x6599]]),
      (''shipping'', [zh [0x53D1, 0x8D27], zh [0x7269, 0x6D41], zh [0x914D, 0x9001], zh [0x65F6, 0x6548]]),
      (''aftersale'', [zh [0x552E, 0x540E], zh [0x9000, 0x6362], zh [0x9000, 0x8D27], zh [0x4FDD, 0x4FEE], zh [0x65E0, 0x7406, 0x7531]]),
      (''location'', [zh [0x5730, 0x5740], zh [0x4F4D, 0x7F6E], zh [0x6240, 0x5728, 0x5730]]),
      (''scenario'', [zh [0x9002, 0x7528, 0x573A, 0x666F], zh [0x4F7F, 0x7528, 0x573A, 0x666F], zh [0x9002, 0x5408, 0x573A, 0x666F]])]"

definition expandQuestionAliases :: "string \<Rightarrow> string list" where
  "expandQuestionAliases cquery =
     concat (map (\<lambda>c. case map_of concept_aliases c of None \<Rightarrow> [] | Some l \<Rightarrow> l) (inferQuestionFieldConcepts cquery))"

definition append_token :: "string list \<Rightarrow> string \<Rightarrow> string list" where
  "append_token out raw =
     (let token = TrimSpace raw in
      if RuneCountInString token < 2 \<or> isGenericQuestionToken token \<or> token \<in> set out then out else out @ [token])"

fun append_windows :: "string list \<Rightarrow> string list \<Rightarrow> string list" where
  "append_windows out [] = out"
| "append_windows out (w # ws) =
     (let out1 = append_token out w in if length out1 \<ge> 64 then out1 else append_windows out1 ws)"

definition rune_windows :: "string list \<Rightarrow> string list" where
  "rune_windows rs =
     concat (map (\<lambda>size. map (\<lambda>start. concat (map rune_text (take size (drop start rs)))) [0..<Suc (length rs) - size])
                 (rev [2..<Suc (min (length rs) 6)]))"

definition extractCompactMatchTokens :: "string \<Rightarrow> string list" where
  "extractCompactMatchTokens s =
     (let cquery = compactQuery s in
      if cquery = [] then []
      else append_windows (foldl append_token [] (cquery # expandQuestionAliases cquery)) (rune_windows (runes cquery)))"

fun token_scores :: "string \<Rightarrow> rat \<Rightarrow> rat \<Rightarrow> rat \<Rightarrow> nat \<Rightarrow> string list \<Rightarrow> rat" where
  "token_scores s base scale score matches [] = score"
| "token_scores s base scale score matches (token # tokens) =
     (if token = [] \<or> \<not> Contains s token then token_scores s base scale score matches tokens
      else let score1 = fl_add score (fl_add base (fl_mul (of_nat (min (RuneCountInString token) 6)) scale))
           in if Suc matches \<ge> 8 then score1 else token_scores s base scale score1 (Suc matches) tokens)"

definition scoreCompactTokenMatches :: "string \<Rightarrow> string list \<Rightarrow> rat \<Rightarrow> rat \<Rightarrow> rat" where
  "scoreCompactTokenMatches s tokens base scale =
     (if s = [] \<or> tokens = [] then 0 else token_scores s (fl base) (fl scale) 0 0 tokens)"

definition fact_concepts :: "(string \<times> string list) list" where
  "fact_concepts =
     [(''price'', [zh [0x4EF7], zh [0x552E, 0x4EF7], zh [0x96F6, 0x552E, 0x4EF7], zh [0x62A5, 0x4EF7], zh [0x91D1, 0x989D], zh [0x8D39, 0x7528]]),
      (''invoice'', [zh [0x53D1, 0x7968], zh [0x5F00, 0x7968], zh [0x4E13, 0x7968], zh [0x666E, 0x7968], zh [0x7A0E, 0x7968]]),
      (''size'', [zh [0x5C3A, 0x5BF8], zh [0x89C4, 0x683C], zh [0x957F], zh [0x5BBD], zh [0x9AD8], zh [0x5927, 0x5C0F], zh [0x53E3, 0x5F84], zh
        [0x5BB9, 0x91CF]]),
      (''material'', [zh [0x6750, 0x8D28], zh [0x6750, 0x6599], zh [0x9762, 0x6599]]),
      (''shipping'', [zh [0x53D1, 0x8D27], zh [0x7269, 0x6D41], zh [0x914D, 0x9001], zh [0x65F6, 0x6548], zh [0x5230, 0x8D27]]),
      (''aftersale'', [zh [0x552E, 0x540E], zh [0x9000, 0x6362], zh [0x9000, 0x8D27], zh [0x9000, 0x6B3E], zh [0x4FDD, 0x4FEE], zh [0x65E0,
        0x7406, 0x7531]]),
      (''location'', [zh [0x5730, 0x5740], zh [0x4F4D, 0x7F6E], zh [0x6240, 0x5728, 0x5730], zh [0x5730, 0x70B9]]),
      (''scenario'', [zh [0x573A, 0x666F], zh [0x7528, 0x9014], zh [0x9002, 0x7528], zh [0x4F7F, 0x7528]])]"

definition inferFactFieldConcepts :: "string \<Rightarrow> string \<Rightarrow> string list" where
  "inferFactFieldConcepts key val =
     (if compactQuery key = [] \<and> compactQuery val = [] then []
      else map fst (filter (\<lambda>(c, l). containsAnyCompact (compactQuery key) l \<or> c = ''price'' \<and> contains_one val [zh [0xA5], zh
        [0xFFE5]]) fact_concepts))"

definition scoreFieldConceptOverlap :: "string list \<Rightarrow> string list \<Rightarrow> rat" where
  "scoreFieldConceptOverlap questionConcepts fieldConcepts =
     foldl (\<lambda>score c. if c \<in> set fieldConcepts then fl_add score (fl (24 / 10)) else score) 0 questionConcepts"

definition scoreFactPairReply :: "SearchResult \<Rightarrow> string \<Rightarrow> string list \<Rightarrow> string list \<Rightarrow> string \<times> string \<Rightarrow> rat \<times> rat" where
  "scoreFactPairReply item compactQuestion queryTokens questionConcepts pair =
     (let (key, val) = pair; compactKey = compactQuery key in
      if compactKey = [] then (0, 0)
      else
        let f0 = scoreCompactTokenMatches compactKey queryTokens (38 / 100) (8 / 100);
            f1 = (if Contains compactQuestion compactKey \<or> Contains compactKey compactQuestion then fl_add f0 (fl (28 / 10)) else f0);
            fieldScore = fl_add f1 (scoreFieldConceptOverlap questionConcepts (inferFactFieldConcepts key val));
            metadata = sr_Section item @ [CHR 0x0A] @ Join [CHR 0x0A] (sr_Keywords item) @ [CHR 0x0A] @ val;
            m0 = scoreCompactTokenMatches (compactQuery metadata) queryTokens (14 / 100) (4 / 100);
            product = extractProductName (sr_Text item);
            metadataScore = (if product \<noteq> [] \<and> Contains compactQuestion (compactQuery product) then fl_add m0 (fl (6 / 10)) else m0)
        in (fl_add fieldScore metadataScore, fieldScore))"

text \<open>The best fact so far: its text, its score and the score of its key.\<close>

definition better_fact :: "string \<times> rat \<times> rat \<Rightarrow> string \<Rightarrow> rat \<times> rat \<Rightarrow> string \<times> rat \<times> rat" where
  "better_fact best reply scores =
     (let (bestReply, bestScore, bestFieldScore) = best; (totalScore, fieldScore) = scores in
      if totalScore \<le> 0 then best
      else if totalScore > bestScore \<or> (totalScore = bestScore \<and> fieldScore > bestFieldScore)
      then (reply, totalScore, fieldScore) else best)"

definition formatBestFactReply :: "string \<Rightarrow> SearchResult list \<Rightarrow> string \<Rightarrow> string option" where
  "formatBestFactReply question results fallbackText =
     (let compactQuestion = compactQuery question; queryTokens = extractCompactMatchTokens question;
          questionConcepts = inferQuestionFieldConcepts compactQuestion;
          candidates = concat (map (\<lambda>item. map (\<lambda>p. (item, p)) (extractFactPairs (sr_Text item)))
                                   (filter (\<lambda>item. sr_Kind item = ''fact'') results));
          (bestReply, bestScore, bestFieldScore) = foldl (\<lambda>best (item, p).
             better_fact best (fst p @ colon @ snd p) (scoreFactPairReply item compactQuestion queryTokens questionConcepts p)) ([], 0, 0) candidates
      in if compactQuestion = [] \<or> queryTokens = [] \<or> bestReply = [] then None
         else if bestFieldScore \<ge> fl (12 / 10) \<or> bestScore \<ge> fl (32 / 10)
            \<or> (looksLikeDirectAnswerQuestion question \<and> bestFieldScore > 0 \<and> bestScore \<ge> 1)
         then Some (sanitizeModelReply bestReply fallbackText) else None)"

subsection \<open>Overviews\<close>

definition trimBulletPrefix :: "string \<Rightarrow> string" where
  "trimBulletPrefix raw =
     (let line = TrimSpace raw in
      case find (HasPrefix line) [''- '', ''* '', zh [0x2022, 0x20], zh [0xB7, 0x20]] of
        None \<Rightarrow> [] | Some p \<Rightarrow> TrimSpace (TrimPrefix line p))"

text \<open>The parts so far, the bullets that wait and the label they belong to.\<close>

type_synonym overview = "string list \<times> string list \<times> string"

definition flushBullets :: "overview \<Rightarrow> overview" where
  "flushBullets = (\<lambda>(parts, bullets, pendingLabel).
     if bullets = [] then (parts, bullets, pendingLabel)
     else (parts @ [pendingLabel @ Join (zh [0x3001]) bullets], [], []))"

definition overview_line :: "overview \<Rightarrow> string \<Rightarrow> overview" where
  "overview_line st line =
     (let (parts0, bullets0, label0) = st; bullet = trimBulletPrefix line in
      if bullet \<noteq> [] then (parts0, bullets0 @ [bullet], label0)
      else let (parts, bullets, pendingLabel) = flushBullets st in
        if HasSuffix line colon \<or> HasSuffix line '':''
        then (parts, bullets, trim_right_runes [colon, '':''] line @ colon)
        else if pendingLabel \<noteq> [] then (parts @ [pendingLabel @ line], bullets, [])
        else (parts @ [line], bullets, pendingLabel))"

definition compactKnowledgeText :: "string \<Rightarrow> string" where
  "compactKnowledgeText s =
     (let lines = filter (\<lambda>l. l \<noteq> []) (map TrimSpace (Lines (TrimSpace s)));
          (parts, bullets, pendingLabel) = flushBullets (foldl overview_line ([], [], []) lines)
      in Join (zh [0xFF1B]) (if pendingLabel \<noteq> [] then parts @ [TrimSuffix pendingLabel colon] else parts))"

text \<open>The pattern for the number of a section: digits, groups of a dot and digits, a dot, white space.\<close>

fun number_groups :: "string \<Rightarrow> string" where
  "number_groups (d # c # cs) =
     (if is_digit d then number_groups (c # cs)
      else if d = CHR ''.'' \<and> is_digit c then number_groups (c # cs)
      else d # c # cs)"
| "number_groups [d] = (if is_digit d then [] else [d])"
| "number_groups [] = []"

definition strip_section_number :: "string \<Rightarrow> string" where
  "strip_section_number s =
     (case s of
        [] \<Rightarrow> []
      | c # _ \<Rightarrow>
          if \<not> is_digit c then s
          else dropWhile (\<lambda>x. x \<in> set [CHR 0x09, CHR 0x0A, CHR 0x0C, CHR 0x0D, CHR '' '']) (TrimPrefix (number_groups s) ''.''))"

definition extractSectionLeafLabel :: "string \<Rightarrow> string" where
  "extractSectionLeafLabel section_path =
     (let s = TrimSpace section_path; label = TrimSpace (last (SplitBy '' / '' s)) in
      if s = [] \<or> label = [] then [] else TrimSpace (strip_section_number label))"

definition buildNarrativeOverviewPart :: "SearchResult \<Rightarrow> string" where
  "buildNarrativeOverviewPart item =
     (let body = compactKnowledgeText (sr_Text item); label = extractSectionLeafLabel (sr_Section item) in
      if body = [] then []
      else if label = [] \<or> Contains body (label @ colon) \<or> HasPrefix body label then body
      else label @ colon @ body)"

fun distinct_parts :: "nat \<Rightarrow> string list \<Rightarrow> string list \<Rightarrow> string list" where
  "distinct_parts n out [] = out"
| "distinct_parts n out (p # ps) =
     (if p = [] \<or> p \<in> set out then distinct_parts n out ps
      else if Suc (length out) \<ge> n then out @ [p] else distinct_parts n (out @ [p]) ps)"

definition formatNarrativeOverviewReply :: "string \<Rightarrow> SearchResult list \<Rightarrow> string \<Rightarrow> string option" where
  "formatNarrativeOverviewReply question results fallbackText =
     (let parts = distinct_parts 3 [] (map buildNarrativeOverviewPart (filter (\<lambda>r. sr_Kind r = ''narrative'') results));
          reply = TrimSpace (TrimSuffix (Join (zh [0xFF1B]) parts) (zh [0xFF1B]))
      in if \<not> isOverviewSeekingQuestion question \<or> parts = [] \<or> reply = [] then None
         else Some (sanitizeModelReply
           (if HasSuffix reply (zh [0x3002]) \<or> HasSuffix reply (zh [0xFF01]) \<or> HasSuffix reply (zh [0xFF1F]) then reply else reply @ (zh
             [0x3002])) fallbackText))"

text \<open>A text of the form key, colon, value, as one line; no route uses it any more.\<close>

definition formatFactReply :: "string \<Rightarrow> string \<Rightarrow> string option" where
  "formatFactReply s fallbackText =
     (let t = TrimSpace s in
      case Index t colon of
        None \<Rightarrow> None
      | Some sep \<Rightarrow>
          let key = TrimSpace (take sep t); val = TrimSpace (drop (sep + length colon) t)
          in if sep = 0 \<or> sep + length colon \<ge> length t \<or> key = [] \<or> val = [] then None
             else Some (sanitizeModelReply (key @ colon @ val) fallbackText))"

fun first_some :: "('a \<Rightarrow> 'b option) \<Rightarrow> 'a list \<Rightarrow> 'b option" where
  "first_some f [] = None"
| "first_some f (x # xs) = (case f x of None \<Rightarrow> first_some f xs | Some y \<Rightarrow> Some y)"

definition buildDirectKnowledgeReply :: "string \<Rightarrow> SearchResult list \<Rightarrow> string \<Rightarrow> string option" where
  "buildDirectKnowledgeReply question0 results fallbackText =
     (if results = [] then None
      else
        let question = normalizeQuery question0 in
        case first_some (\<lambda>r. if sr_Kind r = ''faq'' then extractFAQAnswerText (sr_Text r) else None) results of
          Some answer \<Rightarrow> Some (sanitizeModelReply answer fallbackText)
        | None \<Rightarrow>
            (case (if isListSeekingQuestion question then formatListReply results fallbackText else None) of
               Some reply \<Rightarrow> Some reply
             | None \<Rightarrow>
                 (case formatBestFactReply question results fallbackText of
                    Some reply \<Rightarrow> Some reply
                  | None \<Rightarrow> formatNarrativeOverviewReply question results fallbackText)))"

end
