(* ===== verification/Ai_Service.thy ===== *)
theory Ai_Service
  imports Ai_Answer Gateway_Upstream
begin

text \<open>
  The automatic reply of ai-service: its reconnecting clients of chat-service and admin-service
  (\<^verbatim>\<open>internal/chatclient\<close>, \<^verbatim>\<open>internal/adminclient\<close>) and the handling of an event
  (\<^verbatim>\<open>internal/service/auto_reply_service.go\<close>).  The knowledge base and the language model answer as
  the environment says.  \<open>others\<close> is what the rest of the world does between two calls of one handler.
\<close>

section \<open>Clients\<close>

text \<open>
  The connections have the shape of those of the gateway; here a forced refresh, too, keeps the connection
  as long as the address is the same.
\<close>

definition ai_refresh :: "dyn_env \<Rightarrow> upstream_name \<Rightarrow> bool \<Rightarrow> ('w dyn, rpc_error, unit) eff" where
  "ai_refresh D u force =
     andThen (still_fresh D u force) (\<lambda>fresh.
       if fresh then ok ()
       else andThen (resolve_target D u) (\<lambda>target. \<lambda>d.
         if sc_conn (conns d u) \<noteq> None \<and> sc_target (conns d u) = target
         then touch_conn D u id d
         else andThen (dial D target) (\<lambda>nextConn.
           touch_conn D u (\<lambda>sc. sc\<lparr>sc_conn := Some nextConn, sc_target := target\<rparr>)) d))"

definition clientForCall :: "dyn_env \<Rightarrow> upstream_name \<Rightarrow> ('w dyn, rpc_error, string) eff" where
  "clientForCall D u =
     andThen (current_conn u) (\<lambda>existing.
     attempt (ai_refresh D u False) (\<lambda>r. case r of
         Inl err \<Rightarrow> (case existing of Some conn \<Rightarrow> ok conn | None \<Rightarrow> fail err)
       | Inr _ \<Rightarrow>
           andThen (current_conn u) (\<lambda>c. case c of None \<Rightarrow> fail None | Some conn \<Rightarrow> ok conn)))"

text \<open>The body of every method: the call, and once more after a retryable error and a refresh.\<close>

definition dynamic_call :: "dyn_env \<Rightarrow> upstream_name \<Rightarrow> ('w, 'a) rpc \<Rightarrow> ('w dyn, 'a) rpc" where
  "dynamic_call D u m =
     andThen (clientForCall D u) (\<lambda>_.
     attempt (invoke m) (\<lambda>r. case r of
         Inr resp \<Rightarrow> ok resp
       | Inl err \<Rightarrow>
           if \<not> isRetryableRPCError err then fail err
           else attempt (ai_refresh D u True) (\<lambda>s. case s of
               Inl reconnectErr \<Rightarrow> fail err
             | Inr _ \<Rightarrow> andThen (current_conn u) (\<lambda>c. case c of None \<Rightarrow> fail err | Some _ \<Rightarrow> invoke m))))"

definition NewDynamicClient :: "dyn_env \<Rightarrow> upstream_name \<Rightarrow> string \<Rightarrow> string \<Rightarrow> ('w dyn, rpc_error, unit) eff" where
  "NewDynamicClient D u serviceName0 protocol0 d =
     (let serviceName = TrimSpace serviceName0;
          protocol = (if TrimSpace protocol0 = [] then ''grpc'' else TrimSpace protocol0)
      in if serviceName = [] then (Inl None, d)
         else ai_refresh D u True (set_conn u
           \<lparr>sc_serviceName = serviceName, sc_protocol = protocol, sc_refreshInterval = 5 * lim_Second,
            sc_conn = None, sc_target = [], sc_lastResolvedAt = None\<rparr> d))"

text \<open>What the clients make of the answers.\<close>

record ai_conversation =
  aic_ID :: nat
  aic_SiteID :: string
  aic_VisitorToken :: string
  aic_AssignedAgentID :: nat
  aic_Status :: string

record site_ai_answer =
  sac_SiteID :: string
  sac_Enabled :: bool
  sac_ReplyMode :: string

definition ai_GetConversation :: "'w clients \<Rightarrow> uint64 \<Rightarrow> ('w, ai_conversation) rpc" where
  "ai_GetConversation cs i =
     andThen (Chat_GetConversation cs i) (\<lambda>resp. ok
       \<lparr>aic_ID = pb_Id resp, aic_SiteID = pb_SiteId resp, aic_VisitorToken = pb_VisitorToken resp,
        aic_AssignedAgentID = pb_AssignedAgentId resp, aic_Status = pb_Status resp\<rparr>)"

definition to_ai_message :: "message_pb \<Rightarrow> ai_message" where
  "to_ai_message m =
     \<lparr>aim_ID = pbm_Id m, aim_ConversationID = pbm_ConversationId m, aim_SenderType = pbm_SenderType m,
      aim_SenderID = pbm_SenderId m, aim_Content = pbm_Content m, aim_ClientMsgID = pbm_ClientMsgId m\<rparr>"

definition ai_ListMessages :: "'w clients \<Rightarrow> uint64 \<Rightarrow> int \<Rightarrow> uint64 \<Rightarrow> ('w, ai_message list) rpc" where
  "ai_ListMessages cs conversationID limit beforeID =
     andThen (Chat_ListMessages cs conversationID limit beforeID) (\<lambda>items. ok (map to_ai_message items))"

definition ai_CreateMessage :: "'w clients \<Rightarrow> CreateMessageInput \<Rightarrow> ('w, ai_message) rpc" where
  "ai_CreateMessage cs q = andThen (Chat_CreateMessage cs q) (\<lambda>m. ok (to_ai_message m))"

definition ai_GetSiteAIConfig :: "'w clients \<Rightarrow> string \<Rightarrow> ('w, site_ai_answer) rpc" where
  "ai_GetSiteAIConfig cs siteID =
     andThen (Admin_GetSiteAIConfig cs siteID) (\<lambda>resp. ok
       \<lparr>sac_SiteID = pbc_SiteId resp, sac_Enabled = pbc_Enabled resp, sac_ReplyMode = pbc_ReplyMode resp\<rparr>)"

section \<open>The service\<close>

record raw_event =
  rev_Type :: string
  rev_ConversationID :: nat
  rev_MessageID :: nat
  rev_SenderType :: string
  rev_Content :: string

record messageCreatedEvent =
  mce_ConversationID :: nat
  mce_MessageID :: nat
  mce_SenderType :: string
  mce_Content :: string

text \<open>
  \<open>lock_fault\<close> says whether a Redis command fails, and then also whether it was carried out;
  \<open>event_Unmarshal\<close> is the JSON decoder at the type of the events.
\<close>

record 'w ai_env =
  ai_clock :: "nat \<Rightarrow> time"
  lock_fault :: "nat \<Rightarrow> bool option"
  ai_dyn :: dyn_env
  others :: "nat \<Rightarrow> 'w \<Rightarrow> 'w"
  event_Unmarshal :: "string \<Rightarrow> raw_event option"
  kb_Search :: "nat \<Rightarrow> string \<Rightarrow> string \<Rightarrow> string + SearchResult list"
  kb_LoadPrimaryDocument :: "nat \<Rightarrow> string \<Rightarrow> string"
  ChatCompletion :: "nat \<Rightarrow> (string \<times> string) list \<Rightarrow> string + string"

record 'w AutoReplyService =
  ars_clients :: "'w clients"
  unknownReply :: string

record 'w ai_world =
  reply_locks :: "string \<rightharpoonup> time"
  ai_tick :: nat
  ai_up :: "'w dyn"

type_synonym ('w, 'a) ai_eff = "('w ai_world, rpc_error, 'a) eff"

definition NewAutoReplyService :: "'w clients \<Rightarrow> string \<Rightarrow> 'w AutoReplyService" where
  "NewAutoReplyService cs txt = \<lparr>ars_clients = cs, unknownReply = TrimSpace txt\<rparr>"

definition replyLockTTL :: time where "replyLockTTL = 10 * 60 * lim_Second"
definition replySenderType :: string where "replySenderType = ''ai''"
definition replySenderID :: string where "replySenderID = ''ai-service''"
definition replyModeAutoOnly :: string where "replyModeAutoOnly = ''unassigned_auto_reply''"

text \<open>Time passes, the others act, and the call is made.\<close>

definition ask :: "'w ai_env \<Rightarrow> upstream_name \<Rightarrow> ('w, 'a) rpc \<Rightarrow> ('w, 'a) ai_eff" where
  "ask A u m g =
     (let d = ai_up g in
      case dynamic_call (ai_dyn A) u m (d\<lparr>behind := others A (ai_tick g) (behind d)\<rparr>) of
        (r, d1) \<Rightarrow> (r, g\<lparr>ai_up := d1, ai_tick := Suc (ai_tick g)\<rparr>))"

definition consult :: "(nat \<Rightarrow> 'x) \<Rightarrow> ('w, 'x) ai_eff" where
  "consult f g = (Inr (f (ai_tick g)), g\<lparr>ai_tick := Suc (ai_tick g)\<rparr>)"

definition parseMessageCreatedEvent :: "'w ai_env \<Rightarrow> string \<Rightarrow> messageCreatedEvent option" where
  "parseMessageCreatedEvent A payload =
     (case event_Unmarshal A payload of
        None \<Rightarrow> None
      | Some raw \<Rightarrow>
          if rev_Type raw \<noteq> ''message.new'' \<or> rev_ConversationID raw = 0 \<or> rev_MessageID raw = 0 then None
          else Some \<lparr>mce_ConversationID = rev_ConversationID raw, mce_MessageID = rev_MessageID raw,
                     mce_SenderType = ToLower (TrimSpace (rev_SenderType raw)), mce_Content = rev_Content raw\<rparr>)"

definition buildReplyLockKey :: "nat \<Rightarrow> nat \<Rightarrow> string" where
  "buildReplyLockKey conversationID messageID = ''ai:reply:'' @ FormatUint conversationID @ '':'' @ FormatUint messageID"

definition buildAIClientMsgID :: "nat \<Rightarrow> nat \<Rightarrow> string" where
  "buildAIClientMsgID conversationID messageID = ''ai_'' @ FormatUint conversationID @ ''_'' @ FormatUint messageID"

definition rpc_not_found :: "rpc_error \<Rightarrow> bool" where
  "rpc_not_found err \<longleftrightarrow> (case err of Some (NotFound, _) \<Rightarrow> True | _ \<Rightarrow> False)"

text \<open>The answer to the question, or the end of the handling: a missing row is no error.\<close>

definition unless_missing :: "('w, 'a) ai_eff \<Rightarrow> ('a \<Rightarrow> ('w, unit) ai_eff) \<Rightarrow> ('w, unit) ai_eff" where
  "unless_missing m k =
     attempt m (\<lambda>r. case r of Inl err \<Rightarrow> if rpc_not_found err then ok () else fail err | Inr a \<Rightarrow> k a)"

definition isLatestVisitorMessage :: "'w ai_env \<Rightarrow> 'w AutoReplyService \<Rightarrow> nat \<Rightarrow> nat \<Rightarrow> ('w, bool) ai_eff" where
  "isLatestVisitorMessage A s conversationID messageID =
     attempt (ask A chat_upstream (ai_ListMessages (ars_clients s) conversationID 1 0)) (\<lambda>r. ok
       (case r of
          Inr (latest # _) \<Rightarrow> aim_ID latest = messageID \<and> aim_SenderType latest = ''visitor''
        | _ \<Rightarrow> False))"

definition reply_input :: "messageCreatedEvent \<Rightarrow> string \<Rightarrow> CreateMessageInput" where
  "reply_input event txt =
     \<lparr>cmi_ConversationID = mce_ConversationID event, cmi_SenderType = replySenderType, cmi_SenderID = replySenderID,
      cmi_Content = txt, cmi_ClientMsgID = buildAIClientMsgID (mce_ConversationID event) (mce_MessageID event),
      cmi_VisitorToken = []\<rparr>"

definition createReply :: "'w ai_env \<Rightarrow> 'w AutoReplyService \<Rightarrow> messageCreatedEvent \<Rightarrow> string \<Rightarrow> ('w, unit) ai_eff" where
  "createReply A s event txt =
     unless_missing (ask A chat_upstream (ai_GetConversation (ars_clients s) (mce_ConversationID event))) (\<lambda>conversation.
       if aic_Status conversation \<noteq> ''open'' \<or> aic_AssignedAgentID conversation \<noteq> 0 then ok ()
       else andThen (isLatestVisitorMessage A s (mce_ConversationID event) (mce_MessageID event)) (\<lambda>latest.
         if \<not> latest then ok ()
         else attempt (ask A chat_upstream (ai_CreateMessage (ars_clients s) (reply_input event txt))) (\<lambda>r. case r of
             Inl err \<Rightarrow> (case err of Some (AlreadyExists, _) \<Rightarrow> ok () | _ \<Rightarrow> fail err)
           | Inr _ \<Rightarrow> ok ())))"

definition system_prompt :: "string \<Rightarrow> string" where
  "system_prompt unknown =
     (zh [0x4F60, 0x662F, 0x7F51, 0x7AD9, 0x5728, 0x7EBF, 0x5BA2, 0x670D, 0x3002, 0x4F60, 0x53EA, 0x80FD, 0x4F9D, 0x636E, 0x63D0, 0x4F9B, 0x7684,
       0x7AD9, 0x70B9, 0x77E5, 0x8BC6, 0x5185, 0x5BB9, 0x56DE, 0x7B54, 0x95EE, 0x9898, 0xFF0C, 0x4E0D, 0x5F97, 0x7F16, 0x9020, 0x3001, 0x8865,
       0x5168, 0x6216, 0x731C, 0x6D4B, 0x672A, 0x63D0, 0x4F9B, 0x7684, 0x4FE1, 0x606F, 0x3002])
     @ (zh [0x5982, 0x679C, 0x63D0, 0x4F9B, 0x4E86, 0x77E5, 0x8BC6, 0x5168, 0x6587, 0xFF0C, 0x4F60, 0x5FC5, 0x987B, 0x5148, 0x5728, 0x77E5,
       0x8BC6, 0x5168, 0x6587, 0x4E2D, 0x67E5, 0x627E, 0x7B54, 0x6848, 0xFF1B, 0x5982, 0x679C, 0x5168, 0x6587, 0x4ECD, 0x4E0D, 0x8DB3, 0xFF0C,
       0x518D, 0x53C2, 0x8003, 0x77E5, 0x8BC6, 0x7247, 0x6BB5, 0x3002])
     @ (zh [0x5982, 0x679C, 0x63D0, 0x4F9B, 0x7684, 0x77E5, 0x8BC6, 0x5185, 0x5BB9, 0x4ECD, 0x4E0D, 0x8DB3, 0x4EE5, 0x76F4, 0x63A5, 0x56DE,
       0x7B54, 0xFF0C, 0x5FC5, 0x987B, 0x53EA, 0x56DE, 0x590D, 0xFF1A]) @ unknown @ '' ''
     @ (zh [0x56DE, 0x590D, 0x4F7F, 0x7528, 0x81EA, 0x7136, 0x3001, 0x7B80, 0x6D01, 0x3001, 0x793C, 0x8C8C, 0x7684, 0x4E2D, 0x6587, 0xFF0C,
       0x4E0D, 0x8981, 0x8F93, 0x51FA, 0x5206, 0x6790, 0x8FC7, 0x7A0B, 0xFF0C, 0x4E0D, 0x8981, 0x8F93, 0x51FA, 0x3C, 0x74, 0x68, 0x69, 0x6E, 0x6B,
       0x3E, 0x6807, 0x7B7E, 0xFF0C, 0x4E0D, 0x8981, 0x63D0, 0x53CA, 0x6A21, 0x578B, 0x3001, 0x63D0, 0x793A, 0x8BCD, 0x6216, 0x77E5, 0x8BC6,
       0x5E93, 0x3002])"

definition generateReply :: "'w ai_env \<Rightarrow> 'w AutoReplyService \<Rightarrow> string \<Rightarrow> string \<Rightarrow> string \<Rightarrow> SearchResult list \<Rightarrow> string \<Rightarrow> ('w, string + string) ai_eff" where
  "generateReply A s question stateSummary conversationHistory results primaryDocument =
     (let promptBody = buildKnowledgePromptBody stateSummary conversationHistory primaryDocument results question in
      if promptBody = [] then ok (Inr (unknownReply s))
      else consult (\<lambda>n. ChatCompletion A n [(''system'', system_prompt (unknownReply s)), (''user'', promptBody)]))"

text \<open>From the query on: small talk, a direct answer, or the model; the unknown reply when all else fails.\<close>

definition answer :: "'w ai_env \<Rightarrow> 'w AutoReplyService \<Rightarrow> messageCreatedEvent \<Rightarrow> string \<Rightarrow> string \<Rightarrow> ('w, unit) ai_eff" where
  "answer A s event siteID query =
     (case matchSmallTalkReply query of
        Some txt \<Rightarrow> createReply A s event txt
      | None \<Rightarrow>
          attempt (ask A chat_upstream (ai_ListMessages (ars_clients s) (mce_ConversationID event) 10 0)) (\<lambda>r.
            let recentMessages = (case r of Inl _ \<Rightarrow> [] | Inr ms \<Rightarrow> ms);
                st = buildConversationState query recentMessages (mce_MessageID event)
            in andThen (consult (\<lambda>n. kb_Search A n siteID (buildSearchQuery query st))) (\<lambda>found.
              case found of
                Inl err \<Rightarrow> createReply A s event (unknownReply s)
              | Inr results \<Rightarrow>
                  if results = [] then createReply A s event (unknownReply s)
                  else (case buildDirectKnowledgeReply query results (unknownReply s) of
                      Some txt \<Rightarrow> createReply A s event txt
                    | None \<Rightarrow>
                        andThen (consult (\<lambda>n. kb_LoadPrimaryDocument A n siteID)) (\<lambda>primaryDocument.
                        andThen (generateReply A s query (cs_Summary st)
                                   (buildConversationHistory recentMessages (mce_MessageID event) 6 1200) results primaryDocument) (\<lambda>generated.
                          createReply A s event (sanitizeModelReply
                            (case generated of Inl _ \<Rightarrow> unknownReply s | Inr txt \<Rightarrow> txt) (unknownReply s))))))))"

definition processVisitorMessage :: "'w ai_env \<Rightarrow> 'w AutoReplyService \<Rightarrow> messageCreatedEvent \<Rightarrow> ('w, unit) ai_eff" where
  "processVisitorMessage A s event =
     unless_missing (ask A chat_upstream (ai_GetConversation (ars_clients s) (mce_ConversationID event))) (\<lambda>conversation.
       if aic_Status conversation \<noteq> ''open'' \<or> aic_AssignedAgentID conversation \<noteq> 0 then ok ()
       else unless_missing (ask A admin_upstream (ai_GetSiteAIConfig (ars_clients s) (aic_SiteID conversation))) (\<lambda>aiConfig.
         if \<not> sac_Enabled aiConfig \<or> TrimSpace (sac_ReplyMode aiConfig) \<noteq> replyModeAutoOnly then ok ()
         else andThen (isLatestVisitorMessage A s (mce_ConversationID event) (mce_MessageID event)) (\<lambda>latest.
           if \<not> latest then ok ()
           else let query = normalizeQuery (mce_Content event) in
             if query = [] then ok () else answer A s event (aic_SiteID conversation) query)))"

text \<open>\<open>SetNX\<close> with its time to live, and \<open>Del\<close>, whose failure is only logged.\<close>

definition SetNX :: "'w ai_env \<Rightarrow> string \<Rightarrow> ('w, bool) ai_eff" where
  "SetNX A key g =
     (let n = ai_tick g; now = ai_clock A n;
          free = (case reply_locks g key of None \<Rightarrow> True | Some t \<Rightarrow> t \<le> now);
          g1 = g\<lparr>ai_tick := Suc n\<rparr>;
          g2 = (if free then g1\<lparr>reply_locks := (reply_locks g)(key \<mapsto> now + replyLockTTL)\<rparr> else g1)
      in case lock_fault A n of
           None \<Rightarrow> (Inr free, g2)
         | Some executed \<Rightarrow> (Inl None, if executed then g2 else g1))"

definition Del :: "'w ai_env \<Rightarrow> string \<Rightarrow> ('w, unit) ai_eff" where
  "Del A key g =
     (let n = ai_tick g; g1 = g\<lparr>ai_tick := Suc n\<rparr> in
      (Inr (), if lock_fault A n = Some False then g1 else g1\<lparr>reply_locks := (reply_locks g)(key := None)\<rparr>))"

definition HandleEvent :: "'w ai_env \<Rightarrow> 'w AutoReplyService \<Rightarrow> string \<Rightarrow> ('w, unit) ai_eff" where
  "HandleEvent A s payload =
     (case parseMessageCreatedEvent A payload of
        None \<Rightarrow> ok ()
      | Some event \<Rightarrow>
          if mce_SenderType event \<noteq> ''visitor'' \<or> TrimSpace (mce_Content event) = [] then ok ()
          else
            let lockKey = buildReplyLockKey (mce_ConversationID event) (mce_MessageID event) in
            andThen (SetNX A lockKey) (\<lambda>acquired.
              if \<not> acquired then ok ()
              else attempt (processVisitorMessage A s event) (\<lambda>r. case r of
                  Inr _ \<Rightarrow> ok ()
                | Inl err \<Rightarrow> andThen (Del A lockKey) (\<lambda>_. fail err))))"

end
