(* ===== verification/Ai_Behaviour.thy ===== *)
theory Ai_Behaviour
  imports Ai_Service Gateway_Access
begin

text \<open>
  What the automatic reply does to the conversations, in a world in which the others act between its
  calls, calls are lost and repeated, locks expire and events arrive twice.
\<close>

section \<open>Calls\<close>

lemma ai_refresh_behind: "ai_refresh D u force d = (r, d') \<Longrightarrow> behind d' = behind d"
  by (auto simp: ai_refresh_def andThen_def still_fresh_def resolve_target_def touch_conn_def dial_def dyn_now_def
      set_conn_def ok_def Let_def split: prod.splits sum.splits if_splits option.splits)

lemma clientForCall_behind: "clientForCall D u d = (r, d') \<Longrightarrow> behind d' = behind d"
  by (auto simp: clientForCall_def andThen_def attempt_def current_conn_def ok_def fail_def
      split: prod.splits sum.splits option.splits dest: ai_refresh_behind)

lemma dynamic_call_cases:
  assumes "dynamic_call D u m d = (r, d')"
  obtains (unreached) err where "r = Inl err" "behind d' = behind d"
  | (once) w where "m (behind d) = (r, w)" "behind d' = w"
  | (twice) err w w' where "m (behind d) = (Inl err, w)" "m w = (r, w')" "behind d' = w'"
proof -
  obtain r1 d1 where 1: "clientForCall D u d = (r1, d1)" by fastforce
  note b1 = clientForCall_behind [OF 1]
  show ?thesis
  proof (cases r1)
    case (Inl err)
    with assms 1 b1 unreached show ?thesis by (auto simp: dynamic_call_def andThen_def)
  next
    case (Inr conn)
    obtain x w where m: "m (behind d) = (x, w)" by fastforce
    have i: "invoke m d1 = (x, d1\<lparr>behind := w\<rparr>)" by (simp add: invoke_def b1 m)
    show ?thesis
    proof (cases "\<exists>err. x = Inl err \<and> isRetryableRPCError err")
      case False
      with assms 1 Inr i m show ?thesis
        by (intro once) (auto simp: dynamic_call_def andThen_def attempt_def ok_def fail_def split: sum.splits)
    next
      case True
      then obtain err where x: "x = Inl err" and re: "isRetryableRPCError err" by blast
      obtain r2 d2 where 2: "ai_refresh D u True (d1\<lparr>behind := w\<rparr>) = (r2, d2)" by fastforce
      have b2: "behind d2 = w" using ai_refresh_behind [OF 2] by simp
      show ?thesis
      proof (cases "\<exists>c. r2 = Inr () \<and> sc_conn (conns d2 u) = Some c")
        case True
        with assms 1 Inr i x re 2 m b2 show ?thesis
          by (intro twice [of err w]) (auto simp: dynamic_call_def andThen_def attempt_def current_conn_def invoke_def split: prod.splits)
      next
        case False
        with assms 1 Inr i x re 2 m b2 show ?thesis
          by (intro once)
             (auto simp: dynamic_call_def andThen_def attempt_def current_conn_def fail_def split: prod.splits sum.splits option.splits)
      qed
    qed
  qed
qed

lemma dynamic_call_keeps:
  assumes "keeps R m" "reflp R" "transp R"
  shows "keeps (\<lambda>d d'. R (behind d) (behind d')) (dynamic_call D u m)"
proof (rule keepsI)
  fix d r d' assume "dynamic_call D u m d = (r, d')"
  then show "R (behind d) (behind d')"
  proof (cases rule: dynamic_call_cases)
    case (twice err w w')
    from keepsD [OF assms(1) twice(1)] keepsD [OF assms(1) twice(2)] twice(3) show ?thesis
      using transpD [OF assms(3)] by simp
  qed (use assms in \<open>auto dest: keepsD reflpD\<close>)
qed

section \<open>What a message adds\<close>

definition adds :: "env \<Rightarrow> CreateMessageInput \<Rightarrow> world \<Rightarrow> world \<Rightarrow> bool" where
  "adds e inp w w' \<longleftrightarrow>
     messages (db w') = messages (db w)
     \<or> (\<exists>m. messages (db w') = messages (db w) @ [m] \<and> client_key e m \<notin> client_key e ` set (messages (db w))
          \<and> msg_ConversationID m = cmi_ConversationID inp \<and> msg_SenderType m = cmi_SenderType inp
          \<and> msg_Content m = cmi_Content inp \<and> msg_ClientMsgID m = cmi_ClientMsgID inp)"

lemma adds_same [simp]: "messages (db w') = messages (db w) \<Longrightarrow> adds e inp w w'"
  by (simp add: adds_def)

lemma adds_ticks: "only_ticks w w' \<Longrightarrow> adds e inp w w'"
  by (rule adds_same) simp

lemma adds_cong: "adds e inp v v' \<Longrightarrow> db v = db w \<Longrightarrow> db w' = db v' \<Longrightarrow> adds e inp w w'"
  by (simp add: adds_def)

lemma insert_message_adds:
  assumes "insert_message e s inp sid w = (r, w')"
  shows "adds e inp w w'"
proof -
  obtain r1 w1 where 1: "Create_message e (new_message inp sid) w = (r1, w1)" by fastforce
  have a1: "adds e inp w w1"
    using 1
  proof (cases rule: Create_message_cases)
    case failed
    then show ?thesis by (simp add: adds_ticks)
  next
    case (stored row v c t)
    have "messages (db w1) = messages (db w) @ [row]" using stored(6) by simp
    moreover have "msg_ConversationID row = cmi_ConversationID inp \<and> msg_SenderType row = cmi_SenderType inp
      \<and> msg_Content row = cmi_Content inp \<and> msg_ClientMsgID row = cmi_ClientMsgID inp"
      by (simp add: stored(4) new_message_def)
    ultimately show ?thesis unfolding adds_def using stored(5) by blast
  qed
  have read: "messages (db v') = messages (db v)" if "GetByClientMsgID e i k v = (q, v')" for i k v q v'
    using repository_reads(4) [OF that] by simp
  have "messages (db w') = messages (db w1)"
    using assms 1
    by (auto simp: insert_message_def split: sum.splits if_splits prod.splits dest: read emit_tables(1))
  with a1 show ?thesis by (simp add: adds_def)
qed

lemma CreateMessage_adds:
  assumes "CreateMessage e s inp w = (r, w')"
  shows "adds e inp w w'"
proof -
  obtain r1 w1 where 1: "withEventTransaction e s (create_message_body e s inp) w = (r1, w1)" by fastforce
  then have "adds e inp w w1"
  proof (rule withEventTransaction_db)
    assume "db w1 = db w"
    then show ?thesis by simp
  next
    fix v v' q assume v: "db v = db w" "create_message_body e s inp v = (q, v')" "db w1 = db v'"
    from v(2) have "adds e inp v v'"
    proof (cases rule: create_message_body_cases)
      case read_only
      then show ?thesis by (simp add: adds_ticks)
    next
      case (inserting c sid w2 err w1)
      have "db w2 = db v" using inserting(4) by simp
      from adds_cong [OF insert_message_adds [OF inserting(7)] this refl] show ?thesis .
    qed
    from adds_cong [OF this v(1,3)] show ?thesis .
  qed
  moreover have "db w' = db w1 \<or> db w' = db w"
    using assms 1 by (simp add: CreateMessage_def split: if_splits sum.splits prod.splits) auto
  ultimately show ?thesis by (auto simp: adds_def)
qed

lemma gw_CreateMessage_adds:
  assumes "gw_CreateMessage e s inp w = (r, w')"
  shows "adds e inp w w'" "evolves e w w'"
proof -
  have "w' = w \<or> (\<exists>x. CreateMessage e s inp w = (x, w'))"
    using assms by (auto simp: gw_CreateMessage_def reply_def split: if_splits prod.splits sum.splits)
  then consider "w' = w" | x where "CreateMessage e s inp w = (x, w')" by blast
  then have "adds e inp w w' \<and> evolves e w w'"
    by cases (simp_all add: CreateMessage_adds CreateMessage_evolves)
  then show "adds e inp w w'" "evolves e w w'" by simp_all
qed

section \<open>What is said in the name of the AI\<close>

text \<open>\<open>answers ms (c, i) m\<close>: the message is the reply to the visitor's message \<open>i\<close> of conversation \<open>c\<close>.\<close>

definition answers :: "message list \<Rightarrow> nat \<times> nat \<Rightarrow> message \<Rightarrow> bool" where
  "answers ms ci m \<longleftrightarrow>
     msg_ConversationID m = fst ci \<and> msg_SenderType m = ''ai''
     \<and> msg_ClientMsgID m = buildAIClientMsgID (fst ci) (snd ci)
     \<and> (\<exists>v \<in> set ms. msg_ID v = snd ci \<and> msg_ConversationID v = fst ci \<and> msg_SenderType v = ''visitor'')"

definition has_question :: "world \<Rightarrow> nat \<times> nat \<Rightarrow> bool" where
  "has_question w ci \<longleftrightarrow>
     (\<exists>v \<in> set (messages (db w)). msg_ID v = snd ci \<and> msg_ConversationID v = fst ci \<and> msg_SenderType v = ''visitor'')"

text \<open>The store evolves, and new messages of the AI are replies to the given messages.\<close>

definition speaks :: "env \<Rightarrow> (nat \<times> nat) set \<Rightarrow> world \<Rightarrow> world \<Rightarrow> bool" where
  "speaks e S w w' \<longleftrightarrow>
     evolves e w w' \<and> (store_inv e w \<longrightarrow>
       (\<forall>m' \<in> set (messages (db w')). msg_SenderType m' = ''ai'' \<longrightarrow>
          (\<exists>m \<in> set (messages (db w)). same_message m m') \<or> (\<exists>ci \<in> S. answers (messages (db w')) ci m')))"

lemma same_message_refl [simp]: "same_message m m"
  by (simp add: same_message_def)

lemma same_row [intro]: "m \<in> set ms \<Longrightarrow> \<exists>x \<in> set ms. same_message x m"
  by (rule bexI [of _ m]) simp_all

lemma same_message_trans: "same_message a b \<Longrightarrow> same_message b c \<Longrightarrow> same_message a c"
  by (simp add: same_message_def)

lemma answers_grow: "answers ms ci m \<Longrightarrow> same_message m m' \<Longrightarrow> msg_grows ms ms' \<Longrightarrow> answers ms' ci m'"
  unfolding answers_def msg_grows_def same_message_def by metis

lemma has_question_grows: "has_question w ci \<Longrightarrow> evolves e w w' \<Longrightarrow> store_inv e w \<Longrightarrow> has_question w' ci"
  unfolding has_question_def evolves_def db_grows_def msg_grows_def same_message_def by metis

lemma speaks_refl: "reflp (speaks e S)"
  by (rule reflpI) (auto simp: speaks_def)

lemma speaks_trans: "transp (speaks e S)"
proof (rule transpI)
  fix w w1 w2 assume a: "speaks e S w w1" "speaks e S w1 w2"
  then have ev: "evolves e w w1" "evolves e w1 w2" by (simp_all add: speaks_def)
  show "speaks e S w w2"
    unfolding speaks_def
  proof (intro conjI impI ballI)
    show "evolves e w w2" using ev by (rule evolves_trans)
    fix m assume inv: "store_inv e w" and m: "m \<in> set (messages (db w2))" "msg_SenderType m = ''ai''"
    from ev(1) inv have inv1: "store_inv e w1" by (simp add: evolves_def)
    with ev(2) have grows: "msg_grows (messages (db w1)) (messages (db w2))" by (simp add: evolves_def db_grows_def)
    from a(2) inv1 m consider m1 where "m1 \<in> set (messages (db w1))" "same_message m1 m"
      | "\<exists>ci \<in> S. answers (messages (db w2)) ci m" unfolding speaks_def by blast
    then show "(\<exists>x \<in> set (messages (db w)). same_message x m) \<or> (\<exists>ci \<in> S. answers (messages (db w2)) ci m)"
    proof cases
      case 1
      then have "msg_SenderType m1 = ''ai''" using m(2) by (simp add: same_message_def)
      with a(1) inv 1(1) have "(\<exists>x \<in> set (messages (db w)). same_message x m1) \<or> (\<exists>ci \<in> S. answers (messages (db w1)) ci m1)"
        by (simp add: speaks_def)
      with 1(2) grows show ?thesis by (meson answers_grow same_message_trans)
    qed blast
  qed
qed

lemma speaks_mono: "speaks e S w w' \<Longrightarrow> S \<subseteq> T \<Longrightarrow> speaks e T w w'"
  unfolding speaks_def by blast

lemma speaks_ticks: "only_ticks w w' \<Longrightarrow> speaks e S w w'"
  unfolding speaks_def using evolves_only_ticks [of w w' e] by auto

text \<open>The reply itself.\<close>

lemma reply_speaks:
  assumes "gw_CreateMessage e s (reply_input ev txt) w = (r, w')"
    and "has_question w (mce_ConversationID ev, mce_MessageID ev)"
  shows "speaks e {(mce_ConversationID ev, mce_MessageID ev)} w w'"
  unfolding speaks_def
proof (intro conjI impI ballI)
  let ?ci = "(mce_ConversationID ev, mce_MessageID ev)"
  note ev = gw_CreateMessage_adds(2) [OF assms(1)]
  show "evolves e w w'" by (rule ev)
  fix m' assume inv: "store_inv e w" and m': "m' \<in> set (messages (db w'))" "msg_SenderType m' = ''ai''"
  have q: "has_question w' ?ci" by (rule has_question_grows [OF assms(2) ev inv])
  from gw_CreateMessage_adds(1) [OF assms(1)]
  consider "messages (db w') = messages (db w)"
    | m where "messages (db w') = messages (db w) @ [m]" "msg_ConversationID m = mce_ConversationID ev"
        "msg_SenderType m = ''ai''" "msg_ClientMsgID m = buildAIClientMsgID (mce_ConversationID ev) (mce_MessageID ev)"
    by (auto simp: adds_def reply_input_def replySenderType_def)
  then show "(\<exists>m \<in> set (messages (db w)). same_message m m') \<or> (\<exists>ci \<in> {?ci}. answers (messages (db w')) ci m')"
  proof cases
    case 1
    with m' show ?thesis by auto
  next
    case (2 m)
    show ?thesis
    proof (cases "m' = m")
      case True
      with 2 q show ?thesis by (simp add: answers_def has_question_def)
    next
      case False
      with 2(1) m' show ?thesis by auto
    qed
  qed
qed

section \<open>The calls of the handler\<close>

lemma net_call_chat:
  assumes "net_call B (on_chat m) b = (r, b')"
  obtains x w where "m (be_chat b) = (x, w)" "be_chat b' = w \<or> be_chat b' = be_chat b"
    "\<And>a. r = Inr a \<Longrightarrow> x = Inr a \<and> be_chat b' = w"
  using assms by (cases "m (be_chat b)") (auto simp: net_call_def on_chat_def Let_def split: option.splits sum.splits)

lemma net_call_identity: "net_call B (on_identity m) b = (r, b') \<Longrightarrow> be_chat b' = be_chat b"
  by (auto simp: net_call_def on_identity_def Let_def split: option.splits sum.splits prod.splits if_splits)

lemma gw_reads_tick:
  "gw_GetConversation e i w = (r, w') \<Longrightarrow> only_ticks w w'"
  "gw_ListMessages e i n k w = (r2, w') \<Longrightarrow> only_ticks w w'"
  by (auto simp: gw_GetConversation_def gw_ListMessages_def reply_def Let_def
      split: if_splits prod.splits sum.splits dest: read_operations_evolve)

lemma gw_ListMessages_rows:
  assumes "gw_ListMessages e c n k w = (Inr items, w')" "it \<in> set items"
  shows "\<exists>v \<in> set (messages (db w)). it = toMessagePB v \<and> msg_ConversationID v = c"
proof -
  from assms(1) obtain l rows where "ListMessages e c l k w = (Inr rows, w')" "items = map toMessagePB rows"
    by (auto simp: gw_ListMessages_def reply_def Let_def split: if_splits prod.splits sum.splits)
  then have "\<forall>v \<in> set rows. v \<in> set (messages (db w)) \<and> msg_ConversationID v = c"
    by (auto simp: ListMessages_def ListByConversation_def split: prod.splits sum.splits option.splits
        dest!: in_set_takeD read_operations_evolve(1) dest: only_ticks_db_call)
  with \<open>items = _\<close> assms(2) show ?thesis by auto
qed

abbreviation said :: "backend ai_world \<Rightarrow> world" where
  "said g \<equiv> be_chat (behind (ai_up g))"

text \<open>What a call or a handler says.\<close>

definition utters :: "env \<Rightarrow> (nat \<times> nat) set \<Rightarrow> (backend, 'a) ai_eff \<Rightarrow> bool" where
  "utters e S m \<longleftrightarrow> keeps (\<lambda>g g'. speaks e S (said g) (said g')) m"

lemma said_preorder: "reflp (\<lambda>g g'. speaks e S (said g) (said g'))" "transp (\<lambda>g g'. speaks e S (said g) (said g'))"
  using reflpD [OF speaks_refl] transpD [OF speaks_trans] by (auto intro!: reflpI transpI)

named_theorems utters_intros

lemma utters_ok [utters_intros]: "utters e S (ok a)" "utters e S (fail err)"
  unfolding utters_def by (rule keeps_ok keeps_fail, rule said_preorder)+

lemma utters_andThen [utters_intros]: "utters e S m \<Longrightarrow> (\<And>a. utters e S (k a)) \<Longrightarrow> utters e S (andThen m k)"
  unfolding utters_def by (rule keeps_andThen [OF said_preorder(2)])

lemma utters_attempt [utters_intros]: "utters e S m \<Longrightarrow> (\<And>x. utters e S (k x)) \<Longrightarrow> utters e S (attempt m k)"
  unfolding utters_def by (rule keeps_attempt [OF said_preorder(2)])

lemma utters_unless_missing [utters_intros]:
  "utters e S m \<Longrightarrow> (\<And>a. utters e S (k a)) \<Longrightarrow> utters e S (unless_missing m k)"
  unfolding unless_missing_def by (rule utters_attempt) (auto intro: utters_ok split: sum.split)

lemma utters_consult [utters_intros]: "utters e S (consult f)"
  by (auto simp: utters_def consult_def keeps_def intro: reflpD [OF speaks_refl])

lemma utters_lock [utters_intros]: "utters e S (SetNX A k)" "utters e S (Del A k)"
  by (auto simp: utters_def SetNX_def Del_def keeps_def Let_def reflpD [OF speaks_refl] split: option.splits if_splits)

lemma utters_mono: "utters e S m \<Longrightarrow> S \<subseteq> T \<Longrightarrow> utters e T m"
  unfolding utters_def keeps_def by (blast intro: speaks_mono)

section \<open>One handler\<close>

text \<open>The others do not speak in the name of the AI.\<close>

definition polite :: "env \<Rightarrow> backend ai_env \<Rightarrow> bool" where
  "polite e A \<longleftrightarrow> (\<forall>n b. speaks e {} (be_chat b) (be_chat (others A n b)))"

lemma ask_cases:
  assumes "ask A u m g = (r, g')"
  obtains (unreached) err where "r = Inl err" "said g' = be_chat (others A (ai_tick g) (behind (ai_up g)))"
  | (once) b where "m (others A (ai_tick g) (behind (ai_up g))) = (r, b)" "said g' = be_chat b"
  | (twice) err b b' where "m (others A (ai_tick g) (behind (ai_up g))) = (Inl err, b)" "m b = (r, b')" "said g' = be_chat b'"
proof -
  let ?d = "(ai_up g)\<lparr>behind := others A (ai_tick g) (behind (ai_up g))\<rparr>"
  obtain d where d: "dynamic_call (ai_dyn A) u m ?d = (r, d)" "said g' = be_chat (behind d)"
    using assms by (auto simp: ask_def Let_def split: prod.splits)
  from d(1) show ?thesis
  proof (cases rule: dynamic_call_cases)
    case (unreached err)
    with d(2) that(1) show ?thesis by simp
  next
    case (once w)
    with d(2) that(2) show ?thesis by simp
  next
    case (twice err w w')
    with d(2) that(3) show ?thesis by simp
  qed
qed

lemma utters_ask:
  assumes "polite e A" "keeps (\<lambda>b b'. speaks e S (be_chat b) (be_chat b')) m"
  shows "utters e S (ask A u m)"
  unfolding utters_def
proof (rule keepsI)
  fix g r g' assume run: "ask A u m g = (r, g')"
  let ?b = "others A (ai_tick g) (behind (ai_up g))"
  note trans = transpD [OF speaks_trans]
  have o: "speaks e S (said g) (be_chat ?b)"
    using assms(1) by (auto simp: polite_def intro: speaks_mono)
  from run show "speaks e S (said g) (said g')"
  proof (cases rule: ask_cases)
    case (unreached err)
    with o show ?thesis by simp
  next
    case (once b)
    from keepsD [OF assms(2) once(1)] once(2) o show ?thesis by (auto intro: trans)
  next
    case (twice err b b')
    from trans [OF keepsD [OF assms(2) twice(1)] keepsD [OF assms(2) twice(2)]] twice(3) o
    show ?thesis by (auto intro: trans)
  qed
qed

lemma reads_keep:
  "keeps (\<lambda>b b'. speaks e S (be_chat b) (be_chat b')) (ai_GetConversation (backend_clients B) i)"
  "keeps (\<lambda>b b'. speaks e S (be_chat b) (be_chat b')) (ai_ListMessages (backend_clients B) i n k)"
  "keeps (\<lambda>b b'. speaks e S (be_chat b) (be_chat b')) (ai_GetSiteAIConfig (backend_clients B) site)"
proof -
  have chat: "speaks e S (be_chat b) (be_chat b')"
    if "net_call B (on_chat m) b = (r, b')" "\<And>w r w'. m w = (r, w') \<Longrightarrow> only_ticks w w'" for m b r b'
    using that(1)
  proof (rule net_call_chat)
    fix x w assume x: "m (be_chat b) = (x, w)" "be_chat b' = w \<or> be_chat b' = be_chat b"
    from that(2) [OF x(1)] have "speaks e S (be_chat b) w" by (rule speaks_ticks)
    with x(2) show ?thesis using reflpD [OF speaks_refl] by auto
  qed
  show "keeps (\<lambda>b b'. speaks e S (be_chat b) (be_chat b')) (ai_GetConversation (backend_clients B) i)"
    by (rule keepsI) (auto simp: ai_GetConversation_def backend_clients_def Let_def andThen_def
        split: prod.splits sum.splits intro: chat gw_reads_tick)
  show "keeps (\<lambda>b b'. speaks e S (be_chat b) (be_chat b')) (ai_ListMessages (backend_clients B) i n k)"
    by (rule keepsI) (auto simp: ai_ListMessages_def backend_clients_def Let_def andThen_def
        split: prod.splits sum.splits intro: chat gw_reads_tick)
  show "keeps (\<lambda>b b'. speaks e S (be_chat b) (be_chat b')) (ai_GetSiteAIConfig (backend_clients B) site)"
    by (rule keepsI) (auto simp: ai_GetSiteAIConfig_def backend_clients_def Let_def andThen_def reflpD [OF speaks_refl]
        split: prod.splits sum.splits dest!: net_call_identity)
qed

text \<open>The question is in the store when the handler finds it to be the latest message.\<close>

lemma ai_ListMessages_rows:
  assumes "ai_ListMessages (backend_clients B) c n k b = (Inr items, b')" "it \<in> set items"
  shows "\<exists>v \<in> set (messages (db (be_chat b'))).
    aim_ID it = msg_ID v \<and> aim_SenderType it = msg_SenderType v \<and> msg_ConversationID v = c"
proof -
  obtain pbs where l: "net_call B (on_chat (gw_ListMessages (chat_env B) c n k)) b = (Inr pbs, b')" "items = map to_ai_message pbs"
    using assms(1) by (auto simp: ai_ListMessages_def backend_clients_def Let_def run_andThen)
  from l(1) obtain w where w: "gw_ListMessages (chat_env B) c n k (be_chat b) = (Inr pbs, w)" "be_chat b' = w"
    by (rule net_call_chat) auto
  from assms(2) l(2) obtain pb where pb: "pb \<in> set pbs" "it = to_ai_message pb" by auto
  from gw_ListMessages_rows [OF w(1) pb(1)] obtain v where
    "v \<in> set (messages (db (be_chat b)))" "pb = toMessagePB v" "msg_ConversationID v = c" by blast
  with pb(2) w gw_reads_tick(2) [OF w(1)] show ?thesis by (auto simp: to_ai_message_def toMessagePB_def)
qed

lemma latest_is_there:
  assumes "isLatestVisitorMessage A s c i g = (Inr True, g')" "ars_clients s = backend_clients B"
  shows "has_question (said g') (c, i)"
proof -
  obtain r where r: "ask A chat_upstream (ai_ListMessages (backend_clients B) c 1 0) g = (r, g')"
    "case r of Inr (latest # _) \<Rightarrow> aim_ID latest = i \<and> aim_SenderType latest = ''visitor'' | _ \<Rightarrow> False"
    using assms by (auto simp: isLatestVisitorMessage_def attempt_def ok_def split: prod.splits)
  from r(2) obtain latest rest where l: "r = Inr (latest # rest)" "aim_ID latest = i" "aim_SenderType latest = ''visitor''"
    by (auto split: sum.splits list.splits)
  have "\<exists>b b'. ai_ListMessages (backend_clients B) c 1 0 b = (Inr (latest # rest), b') \<and> said g' = be_chat b'"
    using r(1) unfolding l(1) by (cases rule: ask_cases) auto
  then obtain b b' where b: "ai_ListMessages (backend_clients B) c 1 0 b = (Inr (latest # rest), b')" "said g' = be_chat b'"
    by blast
  from ai_ListMessages_rows [OF b(1), of latest] l b(2) show ?thesis by (auto simp: has_question_def)
qed

lemma create_keeps:
  assumes "ai_CreateMessage (backend_clients B) (reply_input ev txt) b = (r, b')" "e = chat_env B"
    and "store_inv e (be_chat b) \<Longrightarrow> has_question (be_chat b) (mce_ConversationID ev, mce_MessageID ev)"
  shows "speaks e {(mce_ConversationID ev, mce_MessageID ev)} (be_chat b) (be_chat b')"
proof (cases "store_inv e (be_chat b)")
  case True
  obtain r1 where "net_call B (on_chat (gw_CreateMessage e (chat_server B) (reply_input ev txt))) b = (r1, b')"
    using assms(1,2) by (auto simp: ai_CreateMessage_def backend_clients_def Let_def andThen_def ok_def split: prod.splits sum.splits)
  then show ?thesis
  proof (rule net_call_chat)
    fix x w assume "gw_CreateMessage e (chat_server B) (reply_input ev txt) (be_chat b) = (x, w)"
      "be_chat b' = w \<or> be_chat b' = be_chat b"
    with reply_speaks [OF _ assms(3) [OF True]] show ?thesis using reflpD [OF speaks_refl] by auto
  qed
qed (simp add: speaks_def evolves_def)

lemma reply_utters:
  assumes "ask A u (ai_CreateMessage (backend_clients B) (reply_input ev txt)) g = (r, g')" "e = chat_env B" "polite e A"
    and "store_inv e (said g) \<Longrightarrow> has_question (said g) (mce_ConversationID ev, mce_MessageID ev)"
  shows "speaks e {(mce_ConversationID ev, mce_MessageID ev)} (said g) (said g')"
proof (cases "store_inv e (said g)")
  case True
  let ?ci = "(mce_ConversationID ev, mce_MessageID ev)" and ?b = "others A (ai_tick g) (behind (ai_up g))"
  note trans = transpD [OF speaks_trans]
  have o: "speaks e {?ci} (said g) (be_chat ?b)"
    using assms(3) by (auto simp: polite_def intro: speaks_mono)
  have q: "has_question (be_chat ?b) ?ci"
    using has_question_grows [OF assms(4) [OF True] _ True] o by (simp add: speaks_def)
  from assms(1) show ?thesis
  proof (cases rule: ask_cases)
    case (once b)
    from create_keeps [OF once(1) assms(2)] q once(2) o show ?thesis by (auto intro: trans)
  next
    case (twice err b b')
    have 1: "speaks e {?ci} (said g) (be_chat b)"
      using create_keeps [OF twice(1) assms(2)] q o by (auto intro: trans)
    have "has_question (be_chat b) ?ci"
      using has_question_grows [OF assms(4) [OF True] _ True] 1 by (simp add: speaks_def)
    from trans [OF 1 create_keeps [OF twice(2) assms(2) this]] twice(3) show ?thesis by simp
  qed (use o in simp)
qed (simp add: speaks_def evolves_def)

lemma latest_utters:
  assumes "polite e A" "ars_clients s = backend_clients B"
  shows "utters e S (isLatestVisitorMessage A s c i)"
  unfolding isLatestVisitorMessage_def assms(2)
  by (rule utters_attempt [OF utters_ask [OF assms(1) reads_keep(2)] utters_ok(1)])

lemma createReply_utters:
  assumes "polite e A" "ars_clients s = backend_clients B" "e = chat_env B"
  shows "utters e {(mce_ConversationID ev, mce_MessageID ev)} (createReply A s ev txt)"
    (is "utters e ?S _")
  unfolding createReply_def
proof (rule utters_unless_missing)
  show "utters e ?S (ask A chat_upstream (ai_GetConversation (ars_clients s) (mce_ConversationID ev)))"
    unfolding assms(2) by (rule utters_ask [OF assms(1) reads_keep(1)])
  fix conversation :: ai_conversation
  let ?create = "attempt (ask A chat_upstream (ai_CreateMessage (ars_clients s) (reply_input ev txt)))
    (\<lambda>r. case r of Inl err \<Rightarrow> (case err of Some (AlreadyExists, _) \<Rightarrow> ok () | _ \<Rightarrow> fail err) | Inr _ \<Rightarrow> ok ())"
  have "utters e ?S (andThen (isLatestVisitorMessage A s (mce_ConversationID ev) (mce_MessageID ev))
      (\<lambda>latest. if \<not> latest then ok () else ?create))"
    unfolding utters_def
  proof (rule keepsI)
    fix g r g' assume run: "andThen (isLatestVisitorMessage A s (mce_ConversationID ev) (mce_MessageID ev))
      (\<lambda>latest. if \<not> latest then ok () else ?create) g = (r, g')"
    obtain q g1 where 1: "isLatestVisitorMessage A s (mce_ConversationID ev) (mce_MessageID ev) g = (q, g1)" by fastforce
    have s1: "speaks e ?S (said g) (said g1)"
      using latest_utters [OF assms(1,2)] 1 unfolding utters_def keeps_def by blast
    show "speaks e ?S (said g) (said g')"
    proof (cases "q = Inr True")
      case True
      with run 1 obtain x where x: "ask A chat_upstream (ai_CreateMessage (backend_clients B) (reply_input ev txt)) g1 = (x, g')"
        by (auto simp: andThen_def attempt_def ok_def fail_def assms(2) split: prod.splits sum.splits option.splits grpc_code.splits)
      from reply_utters [OF x assms(3,1)] latest_is_there [OF 1 [unfolded True] assms(2)]
      have "speaks e ?S (said g1) (said g')" by simp
      with s1 show ?thesis by (rule transpD [OF speaks_trans])
    next
      case False
      with run 1 s1 show ?thesis by (auto simp: andThen_def ok_def split: sum.splits)
    qed
  qed
  then show "utters e ?S (if aic_Status conversation \<noteq> ''open'' \<or> aic_AssignedAgentID conversation \<noteq> 0 then ok ()
      else andThen (isLatestVisitorMessage A s (mce_ConversationID ev) (mce_MessageID ev)) (\<lambda>latest. if \<not> latest then ok () else ?create))"
    by (simp add: utters_ok)
qed

lemma answer_utters:
  assumes "polite e A" "ars_clients s = backend_clients B" "e = chat_env B"
  shows "utters e {(mce_ConversationID ev, mce_MessageID ev)} (answer A s ev site query)"
  unfolding answer_def generateReply_def Let_def
  using createReply_utters [OF assms, of ev] utters_ask [OF assms(1) reads_keep(2)]
  by (auto intro!: utters_intros simp: assms(2) split: option.split sum.split)

lemma process_utters:
  assumes "polite e A" "ars_clients s = backend_clients B" "e = chat_env B"
  shows "utters e {(mce_ConversationID ev, mce_MessageID ev)} (processVisitorMessage A s ev)"
  unfolding processVisitorMessage_def Let_def
  using answer_utters [OF assms, of ev] latest_utters [OF assms(1,2)]
    utters_ask [OF assms(1) reads_keep(1) [of _ _ B]] utters_ask [OF assms(1) reads_keep(3) [of _ _ B]]
  by (auto intro!: utters_intros simp: assms(2))

lemma filter_single:
  assumes "m \<in> set ms" "distinct (map f ms)" "P m" "\<And>x. x \<in> set ms \<Longrightarrow> P x \<Longrightarrow> f x = f m"
  shows "filter P ms = [m]"
  using assms
proof (induction ms)
  case (Cons a ms)
  show ?case
  proof (cases "a = m")
    case True
    have "\<not> P x" if "x \<in> set ms" for x
    proof
      assume "P x"
      with Cons.prems(4) [of x] that True have "f a = f x" by simp
      with Cons.prems(2) that show False by auto
    qed
    with True Cons.prems(3) show ?thesis by (simp add: filter_empty_conv)
  next
    case False
    with Cons.prems have m: "m \<in> set ms" by simp
    have "\<not> P a"
    proof
      assume "P a"
      with Cons.prems(4) [of a] have "f a = f m" by simp
      with Cons.prems(2) m show False by auto
    qed
    moreover have "filter P ms = [m]"
    proof (rule Cons.IH [OF m _ Cons.prems(3)])
      show "distinct (map f ms)" using Cons.prems(2) by simp
      show "f x = f m" if "x \<in> set ms" "P x" for x using Cons.prems(4) [of x] that by (simp only: list.set_intros)
    qed
    ultimately show ?thesis by simp
  qed
qed simp

definition questions :: "backend ai_env \<Rightarrow> string list \<Rightarrow> (nat \<times> nat) set" where
  "questions A payloads =
     {(mce_ConversationID ev, mce_MessageID ev) | ev p. p \<in> set payloads \<and> parseMessageCreatedEvent A p = Some ev}"

lemma HandleEvent_utters:
  assumes "polite e A" "ars_clients s = backend_clients B" "e = chat_env B"
  shows "utters e (questions A [p]) (HandleEvent A s p)"
proof (cases "parseMessageCreatedEvent A p")
  case (Some ev)
  then have "questions A [p] = {(mce_ConversationID ev, mce_MessageID ev)}" by (auto simp: questions_def)
  with Some process_utters [OF assms, of ev] show ?thesis
    by (auto simp: HandleEvent_def Let_def intro!: utters_intros split: sum.split)
qed (simp add: HandleEvent_def utters_ok)

text \<open>Any number of events, also the same one again; the result of each is only logged.\<close>

fun handle_all :: "'w ai_env \<Rightarrow> 'w AutoReplyService \<Rightarrow> string list \<Rightarrow> 'w ai_world \<Rightarrow> 'w ai_world" where
  "handle_all A s [] g = g"
| "handle_all A s (p # ps) g = handle_all A s ps (snd (HandleEvent A s p g))"

lemma handle_all_speaks:
  assumes "polite e A" "ars_clients s = backend_clients B" "e = chat_env B"
  shows "speaks e (questions A ps) (said g) (said (handle_all A s ps g))"
proof (induction ps arbitrary: g)
  case (Cons p ps)
  have "speaks e (questions A [p]) (said g) (said (snd (HandleEvent A s p g)))"
    using HandleEvent_utters [OF assms, of p] unfolding utters_def keeps_def by (metis prod.collapse)
  then have "speaks e (questions A (p # ps)) (said g) (said (snd (HandleEvent A s p g)))"
    by (rule speaks_mono) (auto simp: questions_def)
  moreover have "speaks e (questions A (p # ps)) (said (snd (HandleEvent A s p g))) (said (handle_all A s (p # ps) g))"
    using Cons.IH by (auto simp: questions_def intro: speaks_mono)
  ultimately show ?case by (rule transpD [OF speaks_trans])
qed (simp add: reflpD [OF speaks_refl])

text \<open>
  C7.  The AI answers each message at most once and says nothing else.  Handle any sequence of events,
  with repetitions, lost calls, repeated calls, expired locks, and with other requests acting between any
  two calls: every message in the name of the AI was there before or is the one reply to a message that
  one of the events names, which a visitor did write in that conversation, and no second message in the
  conversation carries the same client id.
\<close>

theorem ai_answers_once:
  assumes "store_inv e (said g)" "polite e A" "ars_clients s = backend_clients B" "e = chat_env B"
    and "m \<in> set (messages (db (said (handle_all A s ps g))))" "msg_SenderType m = ''ai''"
  shows "(\<exists>m0 \<in> set (messages (db (said g))). same_message m0 m)
    \<or> (\<exists>ci \<in> questions A ps. answers (messages (db (said (handle_all A s ps g)))) ci m
        \<and> filter (\<lambda>x. msg_ConversationID x = fst ci \<and> msg_ClientMsgID x = msg_ClientMsgID m)
            (messages (db (said (handle_all A s ps g)))) = [m])"
proof -
  let ?ms = "messages (db (said (handle_all A s ps g)))"
  note sp = handle_all_speaks [OF assms(2-4), of ps g]
  then have "store_inv e (said (handle_all A s ps g))" using assms(1) by (simp add: speaks_def evolves_def)
  then have d: "distinct (map (client_key e) ?ms)" by (simp add: store_inv_def messages_inv_def)
  have one: "filter (\<lambda>x. msg_ConversationID x = fst ci \<and> msg_ClientMsgID x = msg_ClientMsgID m) ?ms = [m]"
    if "answers ?ms ci m" for ci
    using that assms(5) d by (intro filter_single [where f = "client_key e"]) (auto simp: answers_def client_key_def)
  from sp assms(1,5,6) one show ?thesis unfolding speaks_def by blast
qed

end
