(* ===== verification/Ai_Replies.thy ===== *)
theory Ai_Replies
  imports Ai_Behaviour Gateway_Behaviour
begin

text \<open>
  The automatic reply when nothing fails: which messages are answered, and a run.
\<close>

section \<open>Calls that succeed\<close>

definition smooth :: "backend ai_env \<Rightarrow> backend_env \<Rightarrow> bool" where
  "smooth A B \<longleftrightarrow>
     (\<forall>n. lock_fault A n = None) \<and> (\<forall>n b. others A n b = b)
     \<and> (\<forall>n sv p. \<exists>t. Resolve (ai_dyn A) n sv p = Inr t \<and> TrimSpace t \<noteq> [])
     \<and> (\<forall>n t. dial_fault (ai_dyn A) n t = None)
     \<and> (\<forall>n. net_fault B n = None) \<and> no_db_fault (chat_env B)"

lemma ai_refresh_smooth:
  assumes "smooth A B"
  shows "\<exists>d'. ai_refresh (ai_dyn A) u force d = (Inr (), d') \<and> sc_conn (conns d' u) \<noteq> None"
proof -
  obtain t where "\<And>n sv p. \<exists>t. Resolve (ai_dyn A) n sv p = Inr t \<and> TrimSpace t \<noteq> []" "\<And>n t. dial_fault (ai_dyn A) n t = None"
    using assms by (auto simp: smooth_def)
  note hyps = this
  obtain fresh d1 where 1: "still_fresh (ai_dyn A) u force d = (Inr fresh, d1)" "conns d1 = conns d"
      "fresh \<Longrightarrow> sc_conn (conns d u) \<noteq> None"
    by (cases "force \<or> sc_conn (conns d u) = None") (auto simp: still_fresh_def dyn_now_def Let_def)
  show ?thesis
  proof (cases fresh)
    case True
    with 1 show ?thesis by (auto simp: ai_refresh_def andThen_def ok_def)
  next
    case False
    obtain raw where raw: "Resolve (ai_dyn A) (dyn_tick d1) (sc_serviceName (conns d1 u)) (sc_protocol (conns d1 u)) = Inr raw"
      "TrimSpace raw \<noteq> []" using hyps(1) by blast
    with 1 False hyps(2) show ?thesis
      by (auto simp: ai_refresh_def andThen_def resolve_target_def touch_conn_def dial_def dyn_now_def set_conn_def Let_def)
  qed
qed

lemma clientForCall_smooth:
  assumes "smooth A B"
  shows "\<exists>c d'. clientForCall (ai_dyn A) u d = (Inr c, d') \<and> behind d' = behind d"
proof -
  obtain d1 c where 1: "ai_refresh (ai_dyn A) u False d = (Inr (), d1)" "sc_conn (conns d1 u) = Some c"
    using ai_refresh_smooth [OF assms, of u False d] by blast
  then have "clientForCall (ai_dyn A) u d = (Inr c, d1)"
    by (simp add: clientForCall_def andThen_def attempt_def current_conn_def ok_def)
  with ai_refresh_behind [OF 1(1)] show ?thesis by blast
qed

lemma ask_smooth:
  assumes "smooth A B" "m (behind (ai_up g)) = (r, b)" "\<And>err. r = Inl err \<Longrightarrow> \<not> isRetryableRPCError err"
  shows "\<exists>g'. ask A u m g = (r, g') \<and> behind (ai_up g') = b \<and> reply_locks g' = reply_locks g"
proof -
  have o: "others A n b = b" for n b using assms(1) by (simp add: smooth_def)
  obtain c d1 where 1: "clientForCall (ai_dyn A) u (ai_up g) = (Inr c, d1)" "behind d1 = behind (ai_up g)"
    using clientForCall_smooth [OF assms(1)] by blast
  have "dynamic_call (ai_dyn A) u m (ai_up g) = (r, d1\<lparr>behind := b\<rparr>)"
    using 1 assms(2,3)
    by (cases r) (auto simp: dynamic_call_def andThen_def attempt_def invoke_def ok_def fail_def)
  then show ?thesis by (auto simp: ask_def o)
qed

text \<open>A step of the handler that leaves the tables of chat-service alone.\<close>

definition passes :: "backend ai_world \<Rightarrow> backend ai_world \<Rightarrow> bool" where
  "passes g g' \<longleftrightarrow> db (said g') = db (said g) \<and> reply_locks g' = reply_locks g"

lemma passes_trans: "passes g g1 \<Longrightarrow> passes g1 g2 \<Longrightarrow> passes g g2"
  by (simp add: passes_def)

lemma net_smooth:
  assumes "smooth A B"
  shows "net_call B m b = (case m (b\<lparr>be_tick := Suc (be_tick b)\<rparr>) of (Inl err, b2) \<Rightarrow> (Inl (Some err), b2) | (Inr a, b2) \<Rightarrow> (Inr a, b2))"
  using assms by (simp add: net_call_def smooth_def Let_def)

lemma smooth_get:
  assumes "smooth A B" "by_id conv_ID c (conversations (db (said g))) = Some row" "0 < c"
  shows "\<exists>g' x. ask A chat_upstream (ai_GetConversation (backend_clients B) c) g = (Inr x, g') \<and> passes g g'
    \<and> be_identity (behind (ai_up g')) = be_identity (behind (ai_up g))
    \<and> aic_Status x = conv_Status row \<and> aic_SiteID x = conv_SiteID row \<and> aic_AssignedAgentID x = or_zero (conv_AssignedAgentID row)"
proof -
  let ?b = "behind (ai_up g)" and ?e = "chat_env B"
  have nf: "no_db_fault ?e" using assms(1) by (simp add: smooth_def)
  have "GetConversation ?e c (be_chat ?b) = (Inr row, advance (be_chat ?b))"
    using assms(2) nf by (simp add: GetConversation_def GetByID_def)
  then have "ai_GetConversation (backend_clients B) c ?b =
     (Inr \<lparr>aic_ID = conv_ID row, aic_SiteID = conv_SiteID row, aic_VisitorToken = conv_VisitorToken row,
           aic_AssignedAgentID = or_zero (conv_AssignedAgentID row), aic_Status = conv_Status row\<rparr>,
      ?b\<lparr>be_tick := Suc (be_tick ?b), be_chat := advance (be_chat ?b)\<rparr>)"
    using assms(3) by (simp add: ai_GetConversation_def backend_clients_def Let_def andThen_def net_smooth [OF assms(1)]
        on_chat_def gw_GetConversation_def reply_def ok_def toConversationPB_def)
  from ask_smooth [where u = chat_upstream and m = "ai_GetConversation (backend_clients B) c" and g = g, OF assms(1) this] show ?thesis by (auto simp: passes_def advance_def)
qed

lemma smooth_list:
  assumes "smooth A B" "by_id conv_ID c (conversations (db (said g))) = Some row" "0 < c" "0 < n" "n \<le> 200"
  shows "\<exists>g'. ask A chat_upstream (ai_ListMessages (backend_clients B) c n 0) g
      = (Inr (map (to_ai_message \<circ> toMessagePB) (take (nat n) (order_desc msg_ID
           (filter (\<lambda>m. msg_ConversationID m = c) (messages (db (said g))))))), g') \<and> passes g g'
      \<and> be_identity (behind (ai_up g')) = be_identity (behind (ai_up g))"
proof -
  let ?b = "behind (ai_up g)" and ?e = "chat_env B"
  have nf: "no_db_fault ?e" using assms(1) by (simp add: smooth_def)
  have "ListMessages ?e c (nat n) 0 (be_chat ?b) = (Inr (take (nat n) (order_desc msg_ID
        (filter (\<lambda>m. msg_ConversationID m = c) (messages (db (be_chat ?b)))))), advance (advance (be_chat ?b)))"
    using assms(2) nf by (simp add: ListMessages_def ListByConversation_def GetConversation_def GetByID_def advance_def)
  then have "ai_ListMessages (backend_clients B) c n 0 ?b =
     (Inr (map (to_ai_message \<circ> toMessagePB) (take (nat n) (order_desc msg_ID
           (filter (\<lambda>m. msg_ConversationID m = c) (messages (db (be_chat ?b))))))),
      ?b\<lparr>be_tick := Suc (be_tick ?b), be_chat := advance (advance (be_chat ?b))\<rparr>)"
    using assms(3-5) by (simp add: ai_ListMessages_def backend_clients_def Let_def andThen_def net_smooth [OF assms(1)]
        on_chat_def gw_ListMessages_def reply_def ok_def)
  from ask_smooth [where u = chat_upstream and m = "ai_ListMessages (backend_clients B) c n 0" and g = g, OF assms(1) this] show ?thesis by (auto simp: passes_def advance_def)
qed

text \<open>The latest message of a conversation, if the visitor wrote it.\<close>

definition awaits_reply :: "database \<Rightarrow> nat \<Rightarrow> nat \<Rightarrow> bool" where
  "awaits_reply d c i \<longleftrightarrow>
     (\<exists>m rest. order_desc msg_ID (filter (\<lambda>m. msg_ConversationID m = c) (messages d)) = m # rest
        \<and> msg_ID m = i \<and> msg_SenderType m = ''visitor'')"

lemma smooth_latest:
  assumes "smooth A B" "by_id conv_ID c (conversations (db (said g))) = Some row" "0 < c"
    and "awaits_reply (db (said g)) c i" "ars_clients s = backend_clients B"
  shows "\<exists>g'. isLatestVisitorMessage A s c i g = (Inr True, g') \<and> passes g g'
    \<and> be_identity (behind (ai_up g')) = be_identity (behind (ai_up g))"
proof -
  from smooth_list [OF assms(1-3), of 1] assms(4) obtain g' x where
    "ask A chat_upstream (ai_ListMessages (backend_clients B) c 1 0) g = (Inr [x], g')" "passes g g'"
    "be_identity (behind (ai_up g')) = be_identity (behind (ai_up g))" "aim_ID x = i" "aim_SenderType x = ''visitor''"
    by (auto simp: awaits_reply_def to_ai_message_def toMessagePB_def)
  then show ?thesis by (auto simp: isLatestVisitorMessage_def attempt_def ok_def assms(5))
qed

lemma smooth_config:
  assumes "smooth A B" "rpc_GetSiteAIConfig (id_env B) site (be_identity (behind (ai_up g))) = (Inr conf, v)"
  shows "\<exists>g'. ask A admin_upstream (ai_GetSiteAIConfig (backend_clients B) site) g
      = (Inr \<lparr>sac_SiteID = pbc_SiteId conf, sac_Enabled = pbc_Enabled conf, sac_ReplyMode = pbc_ReplyMode conf\<rparr>, g') \<and> passes g g'"
proof -
  let ?b = "behind (ai_up g)"
  have "ai_GetSiteAIConfig (backend_clients B) site ?b =
     (Inr \<lparr>sac_SiteID = pbc_SiteId conf, sac_Enabled = pbc_Enabled conf, sac_ReplyMode = pbc_ReplyMode conf\<rparr>,
      ?b\<lparr>be_tick := Suc (be_tick ?b), be_identity := v\<rparr>)"
    using assms(2) by (simp add: ai_GetSiteAIConfig_def backend_clients_def Let_def andThen_def net_smooth [OF assms(1)]
        on_identity_def ok_def)
  from ask_smooth [where u = admin_upstream and m = "ai_GetSiteAIConfig (backend_clients B) site" and g = g, OF assms(1) this] show ?thesis by (auto simp: passes_def)
qed

section \<open>Posting\<close>

text \<open>What chat-service accepts as the content of a message.\<close>

definition postable :: "string \<Rightarrow> bool" where
  "postable txt \<longleftrightarrow> TrimSpace txt \<noteq> [] \<and> RuneCountInString txt \<le> MaxMessageContentChars"

definition unanswered :: "env \<Rightarrow> database \<Rightarrow> nat \<Rightarrow> nat \<Rightarrow> bool" where
  "unanswered e d c i \<longleftrightarrow>
     (\<forall>m \<in> set (messages d). msg_ConversationID m = c \<longrightarrow> \<not> sql_eq e (msg_ClientMsgID m) (buildAIClientMsgID c i))"

lemma emit_no_fault:
  assumes "no_db_fault e" "by_id conv_ID (msg_ConversationID m) (conversations (db w)) \<noteq> None"
  shows "\<exists>w'. emitMessageCreated e s m w = (Inr (), w') \<and> messages (db w') = messages (db w)"
proof -
  obtain r w' where 1: "emitMessageCreated e s m w = (r, w')" by fastforce
  have "r = Inr ()"
    using assms 1 by (auto simp: emitMessageCreated_def publish_logged_def enqueueOutboxEvent_def Create_event_def
        Now_def Let_def advance_def split: if_splits)
  with 1 emit_tables(1) [OF 1] show ?thesis by blast
qed

lemma client_id_trimmed: "TrimSpace (buildAIClientMsgID c i) = buildAIClientMsgID c i"
proof (rule TrimSpace_id)
  show "buildAIClientMsgID c i \<noteq> []" by (simp add: buildAIClientMsgID_def)
  show "hd (buildAIClientMsgID c i) \<notin> edge_bytes"
    by (simp add: buildAIClientMsgID_def edge_bytes_code) code_simp
  have "is_digit (last (FormatUint i))"
    using FormatUint_digits [of i] by (metis FormatUint_nonempty last_in_set list_all_iff)
  then show "last (buildAIClientMsgID c i) \<notin> edge_bytes"
    by (simp add: buildAIClientMsgID_def digit_not_edge)
qed

lemma client_id_nonempty: "buildAIClientMsgID c i \<noteq> []"
  by (simp add: buildAIClientMsgID_def)

lemma ai_trimmed: "TrimSpace ''ai'' \<noteq> []" by code_simp

lemma CreateMessage_reply:
  assumes "no_db_fault e" "by_id conv_ID (mce_ConversationID ev) (conversations (db w)) = Some row"
    and "conv_Status row \<noteq> ''closed''" "unanswered e (db w) (mce_ConversationID ev) (mce_MessageID ev)" "postable txt"
  shows "\<exists>m w'. CreateMessage e s (reply_input ev txt) w = (Inr m, w') \<and> messages (db w') = messages (db w) @ [m]
    \<and> msg_Content m = txt \<and> msg_SenderType m = replySenderType"
proof -
  let ?inp = "reply_input ev txt"
  have body: "\<exists>m v'. create_message_body e s ?inp v = (Inr (m, True), v') \<and> messages (db v') = messages (db v) @ [m]
      \<and> msg_Content m = txt \<and> msg_SenderType m = replySenderType" if v: "db v = db w" for v
  proof -
    let ?v2 = "advance (advance v)" and ?m = "(new_message ?inp replySenderID)\<lparr>msg_ID := message_seq v,
      msg_CreatedAt := clock e (tick v + 3), msg_UpdatedAt := clock e (tick v + 3)\<rparr>"
    let ?v3 = "(advance (advance ?v2))\<lparr>db := (db w)\<lparr>messages := messages (db w) @ [?m]\<rparr>, message_seq := Suc (message_seq v)\<rparr>"
    have none: "filter (\<lambda>m. msg_ConversationID m = mce_ConversationID ev \<and> sql_eq e (msg_ClientMsgID m)
        (buildAIClientMsgID (mce_ConversationID ev) (mce_MessageID ev))) (messages (db w)) = []"
      using assms(4) by (auto simp: unanswered_def filter_empty_conv)
    have get: "GetByID e (mce_ConversationID ev) v = (Inr row, advance v)"
      using assms(1,2) v by (simp add: GetByID_def)
    have find: "GetByClientMsgID e (cmi_ConversationID ?inp) (cmi_ClientMsgID ?inp) (advance v) = (Inl (Sentinel RepoNotFound), ?v2)"
      using assms(1) v none by (simp add: GetByClientMsgID_def reply_input_def first_row_def order_asc_def)
    have create: "\<exists>m v3. Create_message e (new_message ?inp replySenderID) ?v2 = (Inr m, v3) \<and> messages (db v3) = messages (db w) @ [m]
        \<and> msg_Content m = txt \<and> msg_SenderType m = replySenderType \<and> msg_ConversationID m = mce_ConversationID ev \<and> conversations (db v3) = conversations (db w)"
      using assms(1,2,4) v
      by (auto simp: Create_message_def new_message_def reply_input_def unanswered_def Now_def Let_def advance_def)
    then obtain m v3 where c: "Create_message e (new_message ?inp replySenderID) ?v2 = (Inr m, v3)" "messages (db v3) = messages (db w) @ [m]"
        "msg_Content m = txt \<and> msg_SenderType m = replySenderType" "msg_ConversationID m = mce_ConversationID ev" "conversations (db v3) = conversations (db w)" by blast
    from emit_no_fault [OF assms(1), of m v3 s] c(4,5) assms(2) obtain v4 where
      "emitMessageCreated e s m v3 = (Inr (), v4)" "messages (db v4) = messages (db v3)" by auto
    with c have "insert_message e s ?inp replySenderID ?v2 = (Inr (m, True), v4)" "messages (db v4) = messages (db v) @ [m]"
      using v by (simp_all add: insert_message_def)
    moreover have "authorize_sender ?inp row = Inr replySenderID"
      using assms(3) by (simp add: authorize_sender_def reply_input_def replySenderType_def)
    ultimately show ?thesis
      using c(3) get find by (simp add: create_message_body_def reply_input_def)
  qed
  have "\<exists>m v. withEventTransaction e s (create_message_body e s ?inp) w = (Inr (m, True), v)
      \<and> messages (db v) = messages (db w) @ [m] \<and> msg_Content m = txt \<and> msg_SenderType m = replySenderType"
  proof (cases "eventOutboxEnabled s")
    case True
    let ?v = "advance (w\<lparr>shouldNotify := False\<rparr>)"
    from body [of ?v] obtain m v' where b: "create_message_body e s ?inp ?v = (Inr (m, True), v')"
      "messages (db v') = messages (db w) @ [m]" "msg_Content m = txt \<and> msg_SenderType m = replySenderType" by (auto simp: advance_def)
    then have t: "in_transaction e (create_message_body e s ?inp) (w\<lparr>shouldNotify := False\<rparr>) = (Inr (m, True), advance v')"
      using assms(1) by (simp add: in_transaction_def)
    have n: "db (snd (NotifyOutbox e u)) = db u" for u
      by (simp add: NotifyOutbox_def bus_call_def advance_def split: option.split)
    from t b(2,3) True show ?thesis by (simp add: withEventTransaction_def n)
  next
    case False
    with body [of w] show ?thesis by (auto simp: withEventTransaction_def)
  qed
  then obtain m v where t: "withEventTransaction e s (create_message_body e s ?inp) w = (Inr (m, True), v)"
    "messages (db v) = messages (db w) @ [m]" "msg_Content m = txt \<and> msg_SenderType m = replySenderType" by blast
  have "db (onMessageCreatedForAutoClose s m v) = db v"
    by (simp add: onMessageCreatedForAutoClose_def Schedule_def Cancel_def split: option.split)
  with t assms(5) show ?thesis
    by (auto simp: CreateMessage_def reply_input_def replySenderType_def valid_sender_type_def postable_def)
qed

section \<open>Answering\<close>

definition due :: "backend ai_env \<Rightarrow> backend_env \<Rightarrow> messageCreatedEvent \<Rightarrow> database \<Rightarrow> bool" where
  "due A B ev d \<longleftrightarrow>
     (\<exists>row. by_id conv_ID (mce_ConversationID ev) (conversations d) = Some row
        \<and> conv_Status row = ''open'' \<and> or_zero (conv_AssignedAgentID row) = 0)
     \<and> 0 < mce_ConversationID ev \<and> awaits_reply d (mce_ConversationID ev) (mce_MessageID ev)
     \<and> unanswered (chat_env B) d (mce_ConversationID ev) (mce_MessageID ev)"

text \<open>What the handling of a due message comes to, for a text.\<close>

definition posts :: "string \<Rightarrow> backend ai_world \<Rightarrow> (rpc_error + unit) \<times> backend ai_world \<Rightarrow> bool" where
  "posts txt g out \<longleftrightarrow>
     (if postable txt
      then fst out = Inr () \<and> (\<exists>m. messages (db (said (snd out))) = messages (db (said g)) @ [m] \<and> msg_Content m = txt \<and> msg_SenderType m = replySenderType)
      else (\<exists>err. fst out = Inl err) \<and> messages (db (said (snd out))) = messages (db (said g)))"

lemma unpostable_refused:
  assumes "\<not> postable txt"
  shows "gw_CreateMessage e s (reply_input ev txt) w = (Inl (InvalidArgument, snd (projl (fst (gw_CreateMessage e s (reply_input ev txt) w)))), w)"
proof (cases "cmi_ConversationID (reply_input ev txt) = 0 \<or> TrimSpace txt = []")
  case False
  have "fst (mapError (Text ''invalid content: too long (max 2000 characters)'')) = InvalidArgument" by code_simp
  then show ?thesis using False assms client_id_trimmed
    by (auto simp: gw_CreateMessage_def reply_def CreateMessage_def postable_def reply_input_def replySenderType_def
        valid_sender_type_def prod_eq_iff)
qed (auto simp: gw_CreateMessage_def reply_input_def replySenderType_def)

lemma smooth_create:
  assumes "smooth A B" "due A B ev (db (said g))"
  shows "\<exists>out. ask A chat_upstream (ai_CreateMessage (backend_clients B) (reply_input ev txt)) g = out
    \<and> reply_locks (snd out) = reply_locks g
    \<and> (if postable txt
      then (\<exists>a. fst out = Inr a) \<and> (\<exists>m. messages (db (said (snd out))) = messages (db (said g)) @ [m] \<and> msg_Content m = txt \<and> msg_SenderType m = replySenderType)
      else (\<exists>msg. fst out = Inl (Some (InvalidArgument, msg))) \<and> messages (db (said (snd out))) = messages (db (said g)))"
proof -
  let ?b = "behind (ai_up g)" and ?e = "chat_env B" and ?inp = "reply_input ev txt"
  have call: "ai_CreateMessage (backend_clients B) ?inp ?b =
     (case gw_CreateMessage ?e (chat_server B) ?inp (be_chat ?b) of
        (Inl err, w) \<Rightarrow> (Inl (Some err), ?b\<lparr>be_tick := Suc (be_tick ?b), be_chat := w\<rparr>)
      | (Inr m, w) \<Rightarrow> (Inr (to_ai_message m), ?b\<lparr>be_tick := Suc (be_tick ?b), be_chat := w\<rparr>))"
    by (simp add: ai_CreateMessage_def backend_clients_def Let_def andThen_def net_smooth [OF assms(1)] on_chat_def ok_def
        split: prod.split sum.split)
  obtain row where row: "by_id conv_ID (mce_ConversationID ev) (conversations (db (be_chat ?b))) = Some row" "conv_Status row \<noteq> ''closed''"
    using assms(2) by (auto simp: due_def)
  show ?thesis
  proof (cases "postable txt")
    case True
    from CreateMessage_reply [OF _ row _ True, of ?e "chat_server B"] assms obtain m w' where
      "CreateMessage ?e (chat_server B) ?inp (be_chat ?b) = (Inr m, w')" "messages (db w') = messages (db (said g)) @ [m]"
      "msg_Content m = txt \<and> msg_SenderType m = replySenderType" by (auto simp: due_def smooth_def)
    moreover have "gw_CreateMessage ?e (chat_server B) ?inp (be_chat ?b) = reply toMessagePB (CreateMessage ?e (chat_server B) ?inp (be_chat ?b))"
      using True assms(2) client_id_nonempty [of "mce_ConversationID ev" "mce_MessageID ev"] ai_trimmed
      by (simp add: gw_CreateMessage_def postable_def due_def reply_input_def replySenderType_def client_id_trimmed)
    ultimately have "ai_CreateMessage (backend_clients B) ?inp ?b
        = (Inr (to_ai_message (toMessagePB m)), ?b\<lparr>be_tick := Suc (be_tick ?b), be_chat := w'\<rparr>)"
      by (simp add: call reply_def)
    from ask_smooth [where u = chat_upstream and m = "ai_CreateMessage (backend_clients B) ?inp" and g = g, OF assms(1) this]
      True \<open>messages (db w') = _\<close> \<open>msg_Content m = txt \<and> msg_SenderType m = replySenderType\<close>
    show ?thesis by auto
  next
    case False
    obtain msg where "gw_CreateMessage ?e (chat_server B) ?inp (be_chat ?b) = (Inl (InvalidArgument, msg), be_chat ?b)"
      using unpostable_refused [OF False] by blast
    then have "ai_CreateMessage (backend_clients B) ?inp ?b
        = (Inl (Some (InvalidArgument, msg)), ?b\<lparr>be_tick := Suc (be_tick ?b)\<rparr>)"
      by (simp add: call)
    from ask_smooth [where u = chat_upstream and m = "ai_CreateMessage (backend_clients B) ?inp" and g = g, OF assms(1) this] False
    show ?thesis by (auto simp: isRetryableRPCError_def)
  qed
qed

lemma smooth_createReply:
  assumes "smooth A B" "due A B ev (db (said g))" "ars_clients s = backend_clients B"
  shows "posts txt g (createReply A s ev txt g) \<and> reply_locks (snd (createReply A s ev txt g)) = reply_locks g"
proof -
  obtain row where row: "by_id conv_ID (mce_ConversationID ev) (conversations (db (said g))) = Some row"
      "conv_Status row = ''open''" "or_zero (conv_AssignedAgentID row) = 0" "0 < mce_ConversationID ev"
      "awaits_reply (db (said g)) (mce_ConversationID ev) (mce_MessageID ev)"
    using assms(2) by (auto simp: due_def)
  from smooth_get [OF assms(1) row(1,4)] row obtain g1 x where 1:
    "ask A chat_upstream (ai_GetConversation (backend_clients B) (mce_ConversationID ev)) g = (Inr x, g1)" "passes g g1"
    "aic_Status x = ''open''" "aic_AssignedAgentID x = 0" by auto
  from smooth_latest [OF assms(1) _ row(4) _ assms(3), of g1] row 1(2) obtain g2 where 2:
    "isLatestVisitorMessage A s (mce_ConversationID ev) (mce_MessageID ev) g1 = (Inr True, g2)" "passes g1 g2"
    by (auto simp: passes_def)
  have p: "passes g g2" using 1(2) 2(2) by (rule passes_trans)
  obtain r g3 where 3: "ask A chat_upstream (ai_CreateMessage (backend_clients B) (reply_input ev txt)) g2 = (r, g3)" by fastforce
  have due2: "due A B ev (db (said g2))" using assms(2) p by (simp add: passes_def)
  from smooth_create [OF assms(1) due2, of "txt"] 3
  have c: "reply_locks g3 = reply_locks g2"
    and d: "if postable txt then (\<exists>a. r = Inr a) \<and> (\<exists>m. messages (db (said g3)) = messages (db (said g2)) @ [m] \<and> msg_Content m = txt \<and> msg_SenderType m = replySenderType)
       else (\<exists>msg. r = Inl (Some (InvalidArgument, msg))) \<and> messages (db (said g3)) = messages (db (said g2))"
    by auto
  have run: "createReply A s ev txt g = (case r of Inl err \<Rightarrow> (case err of Some (InvalidArgument, msg) \<Rightarrow> (Inl err, g3) | _ \<Rightarrow> createReply A s ev txt g)
      | Inr a \<Rightarrow> (Inr (), g3))"
    using 1 2 3 by (auto simp: createReply_def unless_missing_def attempt_def andThen_def ok_def fail_def assms(3) rpc_not_found_def
        split: sum.split option.split grpc_code.split)
  show ?thesis
  proof (cases "postable txt")
    case True
    with d run c p show ?thesis by (auto simp: posts_def passes_def)
  next
    case False
    with d run c p show ?thesis by (auto simp: posts_def passes_def)
  qed
qed

text \<open>Which text is posted.\<close>

definition reply_text :: "'w ai_env \<Rightarrow> 'w AutoReplyService \<Rightarrow> string \<Rightarrow> string \<Rightarrow> bool" where
  "reply_text A s query txt \<longleftrightarrow>
     (case matchSmallTalkReply query of
        Some t \<Rightarrow> txt = t
      | None \<Rightarrow> txt = unknownReply s
          \<or> (\<exists>n site q results. kb_Search A n site q = Inr results \<and> results \<noteq> []
              \<and> (buildDirectKnowledgeReply query results (unknownReply s) = Some txt
                 \<or> (\<exists>raw. txt = sanitizeModelReply raw (unknownReply s)))))"

lemma smooth_answer:
  assumes "smooth A B" "due A B ev (db (said g))" "ars_clients s = backend_clients B"
  shows "\<exists>txt g1. answer A s ev site query g = createReply A s ev txt g1 \<and> passes g g1 \<and> reply_text A s query txt"
proof (cases "matchSmallTalkReply query")
  case (Some t)
  then show ?thesis by (auto simp: answer_def reply_text_def passes_def)
next
  case None
  obtain row where row: "by_id conv_ID (mce_ConversationID ev) (conversations (db (said g))) = Some row" "0 < mce_ConversationID ev"
    using assms(2) by (auto simp: due_def)
  from smooth_list [OF assms(1) row, of 10] obtain ms g1 where 1:
    "ask A chat_upstream (ai_ListMessages (backend_clients B) (mce_ConversationID ev) 10 0) g = (Inr ms, g1)" "passes g g1" by auto
  let ?st = "buildConversationState query ms (mce_MessageID ev)"
  let ?found = "kb_Search A (ai_tick g1) site (buildSearchQuery query ?st)"
  let ?g2 = "g1\<lparr>ai_tick := Suc (ai_tick g1)\<rparr>"
  have p2: "passes g ?g2" using 1(2) by (simp add: passes_def)
  consider err where "?found = Inl err" | "?found = Inr []"
    | results t where "?found = Inr results" "results \<noteq> []" "buildDirectKnowledgeReply query results (unknownReply s) = Some t"
    | results where "?found = Inr results" "results \<noteq> []" "buildDirectKnowledgeReply query results (unknownReply s) = None"
    by (metis not_None_eq sum.exhaust)
  then show ?thesis
  proof cases
    case 4
    let ?g3 = "?g2\<lparr>ai_tick := Suc (ai_tick ?g2)\<rparr>"
    let ?doc = "kb_LoadPrimaryDocument A (ai_tick ?g2) site"
    obtain gen g4 where 4: "generateReply A s query (cs_Summary ?st)
        (buildConversationHistory ms (mce_MessageID ev) 6 1200) results ?doc ?g3 = (Inr gen, g4)" "passes ?g3 g4"
      by (cases "buildKnowledgePromptBody (cs_Summary ?st) (buildConversationHistory ms (mce_MessageID ev) 6 1200) ?doc results query = []")
        (auto simp: generateReply_def consult_def ok_def Let_def passes_def)
    have "answer A s ev site query g = createReply A s ev (sanitizeModelReply
        (case gen of Inl _ \<Rightarrow> unknownReply s | Inr t \<Rightarrow> t) (unknownReply s)) g4"
      using None 1(1) \<open>?found = _\<close> \<open>results \<noteq> []\<close> \<open>buildDirectKnowledgeReply _ _ _ = None\<close> 4(1)
      by (simp add: answer_def assms(3) attempt_def andThen_def consult_def Let_def)
    moreover have "passes g g4" using p2 4(2) by (simp add: passes_def)
    ultimately show ?thesis using None \<open>?found = _\<close> \<open>results \<noteq> []\<close> by (fastforce simp: reply_text_def)
  qed (use None 1(1) p2 in \<open>fastforce simp: answer_def assms(3) attempt_def andThen_def consult_def Let_def reply_text_def\<close>)+
qed

section \<open>The reply comes\<close>

definition wants_answer :: "backend_env \<Rightarrow> messageCreatedEvent \<Rightarrow> backend \<Rightarrow> bool" where
  "wants_answer B ev b \<longleftrightarrow>
     (\<exists>row conf v. by_id conv_ID (mce_ConversationID ev) (conversations (db (be_chat b))) = Some row
        \<and> rpc_GetSiteAIConfig (id_env B) (conv_SiteID row) (be_identity b) = (Inr conf, v)
        \<and> pbc_Enabled conf \<and> TrimSpace (pbc_ReplyMode conf) = replyModeAutoOnly)"

lemma posts_passes: "passes g g1 \<Longrightarrow> posts txt g1 out \<Longrightarrow> posts txt g out"
  by (auto simp: posts_def passes_def split: if_splits)

lemma smooth_process:
  assumes "smooth A B" "due A B ev (db (said g))" "ars_clients s = backend_clients B"
    and "wants_answer B ev (behind (ai_up g))" "normalizeQuery (mce_Content ev) \<noteq> []"
  shows "\<exists>txt. reply_text A s (normalizeQuery (mce_Content ev)) txt \<and> posts txt g (processVisitorMessage A s ev g)"
proof -
  obtain row conf v where row: "by_id conv_ID (mce_ConversationID ev) (conversations (db (said g))) = Some row"
      "conv_Status row = ''open''" "or_zero (conv_AssignedAgentID row) = 0" "0 < mce_ConversationID ev"
      "awaits_reply (db (said g)) (mce_ConversationID ev) (mce_MessageID ev)"
    and conf: "rpc_GetSiteAIConfig (id_env B) (conv_SiteID row) (be_identity (behind (ai_up g))) = (Inr conf, v)"
      "pbc_Enabled conf" "TrimSpace (pbc_ReplyMode conf) = replyModeAutoOnly"
    using assms(2,4) by (auto simp: due_def wants_answer_def)
  from smooth_get [OF assms(1) row(1,4)] row obtain g1 x where 1:
    "ask A chat_upstream (ai_GetConversation (backend_clients B) (mce_ConversationID ev)) g = (Inr x, g1)" "passes g g1"
    "be_identity (behind (ai_up g1)) = be_identity (behind (ai_up g))"
    "aic_Status x = ''open''" "aic_SiteID x = conv_SiteID row" "aic_AssignedAgentID x = 0" by auto
  from smooth_config [OF assms(1), where g = g1] conf(1) 1(3) obtain g2 where 2:
    "ask A admin_upstream (ai_GetSiteAIConfig (backend_clients B) (conv_SiteID row)) g1
       = (Inr \<lparr>sac_SiteID = pbc_SiteId conf, sac_Enabled = pbc_Enabled conf, sac_ReplyMode = pbc_ReplyMode conf\<rparr>, g2)" "passes g1 g2"
    by metis
  from smooth_latest [OF assms(1) _ row(4) _ assms(3), of g2] row 1(2) 2(2) obtain g3 where 3:
    "isLatestVisitorMessage A s (mce_ConversationID ev) (mce_MessageID ev) g2 = (Inr True, g3)" "passes g2 g3"
    by (auto simp: passes_def)
  have p: "passes g g3" using 1(2) 2(2) 3(2) by (blast intro: passes_trans)
  then have due3: "due A B ev (db (said g3))" using assms(2) by (simp add: passes_def)
  from smooth_answer [OF assms(1) this assms(3), of "conv_SiteID row" "normalizeQuery (mce_Content ev)"] obtain t g4 where 4:
    "answer A s ev (conv_SiteID row) (normalizeQuery (mce_Content ev)) g3 = createReply A s ev t g4" "passes g3 g4"
    "reply_text A s (normalizeQuery (mce_Content ev)) t" by blast
  have p4: "passes g g4" using p 4(2) by (rule passes_trans)
  then have "due A B ev (db (said g4))" using assms(2) by (simp add: passes_def)
  with smooth_createReply [OF assms(1) _ assms(3)] have c: "posts t g4 (createReply A s ev t g4)" by blast
  have "processVisitorMessage A s ev g = createReply A s ev t g4"
    using 1 2(1) 3(1) 4(1) conf(2,3) assms(5)
    by (simp add: processVisitorMessage_def unless_missing_def attempt_def andThen_def assms(3) Let_def)
  with 4(3) posts_passes [OF p4 c] show ?thesis by auto
qed

lemma due_event_posts:
  assumes "smooth A B" "ars_clients s = backend_clients B" "parseMessageCreatedEvent A p = Some ev"
    and "mce_SenderType ev = ''visitor''" "TrimSpace (mce_Content ev) \<noteq> []" "normalizeQuery (mce_Content ev) \<noteq> []"
    and "reply_locks g (buildReplyLockKey (mce_ConversationID ev) (mce_MessageID ev)) = None"
    and "due A B ev (db (said g))" "wants_answer B ev (behind (ai_up g))"
  shows "\<exists>txt. reply_text A s (normalizeQuery (mce_Content ev)) txt \<and> posts txt g (HandleEvent A s p g)"
proof -
  let ?key = "buildReplyLockKey (mce_ConversationID ev) (mce_MessageID ev)"
  obtain g1 where 1: "SetNX A ?key g = (Inr True, g1)" "ai_up g1 = ai_up g"
    using assms(1,7) by (auto simp: SetNX_def smooth_def Let_def)
  with smooth_process [OF assms(1) _ assms(2), of ev g1] assms(6,8,9) obtain t where t:
    "reply_text A s (normalizeQuery (mce_Content ev)) t" "posts t g1 (processVisitorMessage A s ev g1)" by auto
  obtain r b where b: "processVisitorMessage A s ev g1 = (r, b)" by fastforce
  obtain b2 where "Del A ?key b = (Inr (), b2)" "said b2 = said b" by (auto simp: Del_def Let_def)
  with 1 t(2) b assms(3-5) have "posts t g (HandleEvent A s p g)"
    by (cases r) (auto simp: HandleEvent_def Let_def andThen_def attempt_def ok_def fail_def posts_def split: if_splits)
  with t(1) show ?thesis by blast
qed


text \<open>A shop that wants automatic replies, a visitor who greets, and services that do not fail.\<close>

definition demo_shop_chat :: world where
  "demo_shop_chat = snd (CreateMessage demo_env demo_service demo_visitor_says
     (snd (CreateConversation demo_env demo_service \<lparr>cci_SiteID = ''shop-1'', cci_VisitorToken = ''tok''\<rparr> empty_world)))"

definition demo_ai_live :: identity_world where
  "demo_ai_live = demo_live\<lparr>tables := (tables demo_live)\<lparr>ai_configs := [\<lparr>ai_SiteID = ''shop-1'', ai_Enabled = True,
     ai_ReplyMode = SiteAIReplyModeUnassignedAutoReply, ai_CreatedAt = Some 4, ai_UpdatedAt = Some 4\<rparr>]\<rparr>\<rparr>"

definition demo_ai_env :: "backend ai_env" where
  "demo_ai_env =
     \<lparr>ai_clock = (\<lambda>n. int n), lock_fault = (\<lambda>n. None), ai_dyn = demo_dyn_env, others = (\<lambda>n b. b),
      event_Unmarshal = (\<lambda>p. Some \<lparr>rev_Type = ''message.new'', rev_ConversationID = 1, rev_MessageID = 1,
        rev_SenderType = ''visitor'', rev_Content = ''hi!''\<rparr>),
      kb_Search = (\<lambda>n s q. Inl ''down''), kb_LoadPrimaryDocument = (\<lambda>n s. []), ChatCompletion = (\<lambda>n m. Inl ''down'')\<rparr>"

definition demo_ai :: "backend AutoReplyService" where
  "demo_ai = NewAutoReplyService (backend_clients demo_backend_env) ''unknown''"

definition demo_ai_world :: "backend ai_world" where
  "demo_ai_world = \<lparr>reply_locks = Map.empty, ai_tick = 0, ai_up = \<lparr>conns = (\<lambda>u. demo_conn), dyn_tick = 0,
     behind = \<lparr>be_chat = demo_shop_chat, be_identity = demo_ai_live, be_tick = 0\<rparr>\<rparr>\<rparr>"

lemma demo_smooth: "smooth demo_ai_env demo_backend_env"
proof -
  have "TrimSpace ''host:1'' \<noteq> []" by code_simp
  then show ?thesis
    by (simp add: smooth_def demo_ai_env_def demo_backend_env_def demo_dyn_env_def demo_env_def no_db_fault_def)
qed

lemma demo_event:
  "\<exists>ev. parseMessageCreatedEvent demo_ai_env ''e'' = Some ev \<and> mce_ConversationID ev = 1 \<and> mce_MessageID ev = 1
     \<and> mce_SenderType ev = ''visitor'' \<and> TrimSpace (mce_Content ev) \<noteq> [] \<and> normalizeQuery (mce_Content ev) \<noteq> []
     \<and> mce_Content ev = ''hi!''"
proof -
  have "map_option (\<lambda>ev. (mce_ConversationID ev, mce_MessageID ev, mce_SenderType ev, mce_Content ev))
      (parseMessageCreatedEvent demo_ai_env ''e'') = Some (1, 1, ''visitor'', ''hi!'')" by code_simp
  moreover have "TrimSpace ''hi!'' \<noteq> []" "normalizeQuery ''hi!'' \<noteq> []" by code_simp+
  ultimately show ?thesis by (auto simp del: TrimSpace_def)
qed

lemma demo_shop_row:
  "map_option (\<lambda>r. (conv_SiteID r, conv_Status r, or_zero (conv_AssignedAgentID r)))
     (by_id conv_ID 1 (conversations (db demo_shop_chat))) = Some (''shop-1'', ''open'', 0)" by code_simp

lemma demo_shop_messages:
  "map (\<lambda>m. (msg_ID m, msg_SenderType m, msg_ClientMsgID m, msg_ConversationID m)) (messages (db demo_shop_chat))
     = [(1, ''visitor'', ''c1'', 1)]" by code_simp

lemma demo_config:
  "case rpc_GetSiteAIConfig demo_id_env ''shop-1'' demo_ai_live of
     (Inr conf, _) \<Rightarrow> pbc_Enabled conf \<and> TrimSpace (pbc_ReplyMode conf) = replyModeAutoOnly | _ \<Rightarrow> False" by code_simp

lemma demo_ai_due:
  "\<exists>ev. parseMessageCreatedEvent demo_ai_env ''e'' = Some ev \<and> mce_ConversationID ev = 1 \<and> mce_MessageID ev = 1
     \<and> mce_SenderType ev = ''visitor'' \<and> TrimSpace (mce_Content ev) \<noteq> [] \<and> normalizeQuery (mce_Content ev) \<noteq> []
     \<and> mce_Content ev = ''hi!''
     \<and> due demo_ai_env demo_backend_env ev (db (said demo_ai_world)) \<and> wants_answer demo_backend_env ev (behind (ai_up demo_ai_world))"
proof -
  obtain ev where ev: "parseMessageCreatedEvent demo_ai_env ''e'' = Some ev" "mce_ConversationID ev = 1" "mce_MessageID ev = 1"
     "mce_SenderType ev = ''visitor''" "TrimSpace (mce_Content ev) \<noteq> []" "normalizeQuery (mce_Content ev) \<noteq> []" "mce_Content ev = ''hi!''"
    using demo_event by blast
  obtain row where row: "by_id conv_ID 1 (conversations (db demo_shop_chat)) = Some row" "conv_SiteID row = ''shop-1''"
     "conv_Status row = ''open''" "or_zero (conv_AssignedAgentID row) = 0"
    using demo_shop_row by auto
  obtain m where m: "messages (db demo_shop_chat) = [m]" "msg_ID m = 1" "msg_SenderType m = ''visitor''"
     "msg_ClientMsgID m = ''c1''" "msg_ConversationID m = 1"
    using demo_shop_messages by auto
  have "\<not> sql_eq demo_env ''c1'' (buildAIClientMsgID 1 1)" by code_simp
  with row m ev have "due demo_ai_env demo_backend_env ev (db (said demo_ai_world))"
    by (simp add: due_def awaits_reply_def unanswered_def demo_ai_world_def demo_backend_env_def order_desc_def order_asc_def)
  moreover obtain conf v where "rpc_GetSiteAIConfig demo_id_env ''shop-1'' demo_ai_live = (Inr conf, v)" "pbc_Enabled conf"
     "TrimSpace (pbc_ReplyMode conf) = replyModeAutoOnly"
    using demo_config by (auto split: prod.splits sum.splits)
  with row ev have "wants_answer demo_backend_env ev (behind (ai_up demo_ai_world))"
    by (auto simp: wants_answer_def demo_ai_world_def demo_backend_env_def)
  ultimately show ?thesis using ev by blast
qed

lemma demo_ai_clients: "ars_clients demo_ai = backend_clients demo_backend_env"
  by (simp add: demo_ai_def NewAutoReplyService_def)

lemma demo_ai_locks: "reply_locks demo_ai_world k = None"
  by (simp add: demo_ai_world_def)


lemma demo_polite: "polite demo_env demo_ai_env"
  by (simp add: polite_def demo_ai_env_def reflpD [OF speaks_refl])

lemma demo_ai_inv: "store_inv demo_env (said demo_ai_world)"
proof -
  let ?w = "snd (CreateConversation demo_env demo_service \<lparr>cci_SiteID = ''shop-1'', cci_VisitorToken = ''tok''\<rparr> empty_world)"
  have "store_inv demo_env ?w"
    using CreateConversation_evolves [OF prod.collapse [symmetric]] empty_world_inv by (auto simp: evolves_def)
  then have "store_inv demo_env demo_shop_chat"
    using CreateMessage_evolves [OF prod.collapse [symmetric]] by (auto simp: evolves_def demo_shop_chat_def)
  then show ?thesis by (simp add: demo_ai_world_def)
qed

lemma demo_ai_posted:
  "\<exists>m. messages (db (said (handle_all demo_ai_env demo_ai [''e''] demo_ai_world))) = messages (db (said demo_ai_world)) @ [m]
     \<and> msg_SenderType m = ''ai''"
proof -
  obtain ev where ev: "parseMessageCreatedEvent demo_ai_env ''e'' = Some ev" "mce_Content ev = ''hi!''"
    and p: "\<exists>txt. reply_text demo_ai_env demo_ai (normalizeQuery (mce_Content ev)) txt
     \<and> posts txt demo_ai_world (HandleEvent demo_ai_env demo_ai ''e'' demo_ai_world)"
    using demo_ai_due due_event_posts [OF demo_smooth demo_ai_clients _ _ _ _ demo_ai_locks, of "''e''"] by blast
  have "case matchSmallTalkReply (normalizeQuery ''hi!'') of None \<Rightarrow> False | Some t \<Rightarrow> postable t"
    unfolding postable_def by code_simp
  with p ev(2) show ?thesis
    by (auto simp: reply_text_def posts_def replySenderType_def split: option.splits)
qed

theorem ai_answers_once_witness:
  "\<exists>m ms. messages (db (said (handle_all demo_ai_env demo_ai [''e''] demo_ai_world))) = ms @ [m] \<and> msg_SenderType m = ''ai''
    \<and> ((\<exists>m0 \<in> set (messages (db (said demo_ai_world))). same_message m0 m)
     \<or> (\<exists>ci \<in> questions demo_ai_env [''e''].
          answers (messages (db (said (handle_all demo_ai_env demo_ai [''e''] demo_ai_world)))) ci m
        \<and> filter (\<lambda>x. msg_ConversationID x = fst ci \<and> msg_ClientMsgID x = msg_ClientMsgID m)
            (messages (db (said (handle_all demo_ai_env demo_ai [''e''] demo_ai_world)))) = [m]))"
proof -
  obtain m where m: "messages (db (said (handle_all demo_ai_env demo_ai [''e''] demo_ai_world))) = messages (db (said demo_ai_world)) @ [m]"
    "msg_SenderType m = ''ai''" using demo_ai_posted by blast
  have "demo_env = chat_env demo_backend_env" by (simp add: demo_backend_env_def)
  from ai_answers_once [OF demo_ai_inv demo_polite demo_ai_clients this, of m "[''e'']"] m show ?thesis by auto
qed

end
