(* ===== verification/Kb_Documents.thy ===== *)
theory Kb_Documents
  imports Kb_Text "HOL-Library.List_Lexorder" "HOL-Library.Char_ord"
begin

text \<open>
  The knowledge base of ai-service, the documents: from the files of a site to paragraphs and chunks
  (\<^verbatim>\<open>services/ai-service/internal/knowledgebase/document_loader.go\<close>).
\<close>

section \<open>Paragraphs\<close>

definition ChunkKindNarrative :: string where "ChunkKindNarrative = ''narrative''"
definition ChunkKindFact :: string where "ChunkKindFact = ''fact''"
definition ChunkKindFAQ :: string where "ChunkKindFAQ = ''faq''"

record kb_paragraph =
  par_Section :: string
  par_Text :: string
  par_Kind :: string
  par_Keywords :: "string list"

record Chunk =
  ck_ID :: string
  ck_Section :: string
  ck_Text :: string
  ck_SourcePath :: string
  ck_Kind :: string
  ck_Keywords :: "string list"

definition fact :: "string \<Rightarrow> string \<Rightarrow> string \<Rightarrow> kb_paragraph" where
  "fact s key val =
     \<lparr>par_Section = s, par_Text = key @ colon @ val, par_Kind = ChunkKindFact,
      par_Keywords = normalizeKeywords [s, key, val]\<rparr>"

subsection \<open>Headings and tables of Markdown\<close>

definition parseMarkdownHeading :: "string \<Rightarrow> (nat \<times> string) option" where
  "parseMarkdownHeading line =
     (let trimmed = TrimSpace line;
          level = length (takeWhile (\<lambda>c. c = CHR ''#'') trimmed);
          title = TrimSpace (drop level trimmed)
      in if \<not> HasPrefix trimmed ''#'' \<or> level = 0 \<or> title = [] then None else Some (level, title))"

definition buildSectionPath :: "string \<Rightarrow> string list \<Rightarrow> string" where
  "buildSectionPath relativePath stack = (if stack = [] then relativePath else Join '' / '' stack)"

definition isMarkdownTableLine :: "string \<Rightarrow> bool" where
  "isMarkdownTableLine line0 \<longleftrightarrow>
     (let line = TrimSpace line0 in
      HasPrefix line ''|'' \<and> HasSuffix line ''|'' \<and> 2 \<le> length (filter (\<lambda>c. c = CHR ''|'') line))"

definition splitMarkdownTableRow :: "string \<Rightarrow> string list" where
  "splitMarkdownTableRow line =
     map normalizeInlineText (Split (CHR ''|'') (TrimSuffix (TrimPrefix (TrimSpace line) ''|'') ''|''))"

definition isMarkdownTableSeparator :: "string \<Rightarrow> bool" where
  "isMarkdownTableSeparator line \<longleftrightarrow>
     isMarkdownTableLine line
     \<and> list_all (\<lambda>cell. trim_runes [''-'', '':''] (TrimSpace cell) = []) (splitMarkdownTableRow line)"

definition isGenericFactKeyColumn :: "string \<Rightarrow> bool" where
  "isGenericFactKeyColumn header \<longleftrightarrow> header \<in> set [zh [0x9879, 0x76EE], zh [0x5B57, 0x6BB5], zh [0x53C2, 0x6570], zh
    [0x6307, 0x6807], zh [0x540D, 0x79F0], zh [0x54C1, 0x7C7B]]"

definition isGenericFactValueColumn :: "string \<Rightarrow> bool" where
  "isGenericFactValueColumn header \<longleftrightarrow> header \<in> set [zh [0x5185, 0x5BB9], zh [0x503C], zh [0x8BF4, 0x660E], zh [0x4FE1,
    0x606F], zh [0x53C2, 0x6570], zh [0x89C4, 0x683C]]"

text \<open>The pairs of a row whose header and cell are not empty.\<close>

definition row_pairs :: "string list \<Rightarrow> string list \<Rightarrow> (string \<times> string) list" where
  "row_pairs headers cells =
     filter (\<lambda>(h, c). h \<noteq> [] \<and> c \<noteq> []) (map (\<lambda>(h, c). (normalizeInlineText h, normalizeInlineText c)) (zip headers cells))"

definition buildTableParagraph :: "string \<Rightarrow> string list \<Rightarrow> string list \<Rightarrow> kb_paragraph" where
  "buildTableParagraph s headers0 cells0 =
     (let size = min (length headers0) (length cells0);
          headers = take size headers0; cells = take size cells0;
          pairs = row_pairs headers cells
      in if size = 0 then \<lparr>par_Section = s, par_Text = [], par_Kind = [], par_Keywords = []\<rparr>
         else if 2 \<le> size \<and> isGenericFactKeyColumn (compactStructuredToken (headers ! 0))
           \<and> isGenericFactValueColumn (compactStructuredToken (headers ! 1))
         then fact s (normalizeInlineText (cells ! 0)) (normalizeInlineText (cells ! 1))
         else \<lparr>par_Section = s, par_Text = Join [CHR 0x0A] (map (\<lambda>(h, c). h @ colon @ c) pairs),
               par_Kind = ChunkKindFact,
               par_Keywords = normalizeKeywords (s # concat (map (\<lambda>(h, c). [h, c]) pairs))\<rparr>)"

text \<open>A table at the start of the lines: its rows, and how many lines it takes; 0 when there is none.\<close>

definition parseMarkdownTable :: "string \<Rightarrow> string list \<Rightarrow> kb_paragraph list \<times> nat" where
  "parseMarkdownTable s lines =
     (case lines of
        header # separator # rest \<Rightarrow>
          let headerLine = TrimSpace header; headers = splitMarkdownTableRow headerLine;
              rows = takeWhile (\<lambda>l. isMarkdownTableLine (TrimSpace l)) rest
          in if \<not> isMarkdownTableLine headerLine \<or> \<not> isMarkdownTableSeparator (TrimSpace separator) \<or> headers = []
             then ([], 0)
             else (map (buildTableParagraph s headers)
                     (filter (\<lambda>cells. cells \<noteq> []) (map (\<lambda>l. splitMarkdownTableRow (TrimSpace l)) rows)), 2 + length rows)
      | _ \<Rightarrow> ([], 0))"

lemma table_rest: "snd (parseMarkdownTable s lines) \<le> length lines"
  by (auto simp: parseMarkdownTable_def Let_def length_takeWhile_le split: list.split)

subsection \<open>Facts\<close>

text \<open>
  \<^verbatim>\<open>strings.IndexAny\<close> gives the position of the first byte of a colon; one byte is skipped, also when
  the colon is the wide one of three bytes.
\<close>

definition parseFactParagraph :: "string \<Rightarrow> string \<Rightarrow> kb_paragraph option" where
  "parseFactParagraph s line =
     (let t = trimListPrefix line in
      case index_colon t of
        None \<Rightarrow> None
      | Some sep \<Rightarrow>
          if sep = 0 \<or> length t - 1 \<le> sep then None
          else let key = normalizeInlineText (take sep t); val = normalizeInlineText (drop (sep + 1) t) in
            if \<not> isLikelyFactKey key \<or> val = [] \<or> kb_looksLikeQuestion key then None
            else Some (fact s key val))"

subsection \<open>The pass over the lines\<close>

record scanner =
  scn_Section :: string
  scn_Stack :: "string list"
  scn_Buffer :: "string list"
  scn_Out :: "kb_paragraph list"
  scn_FAQSection :: string
  scn_FAQQuestion :: string
  scn_FAQAnswers :: "string list"

definition scan_flush :: "scanner \<Rightarrow> scanner" where
  "scan_flush st =
     (let t = normalizeText (Join '' '' (scn_Buffer st)); st1 = st\<lparr>scn_Buffer := []\<rparr> in
      if t = [] then st1
      else st1\<lparr>scn_Out := scn_Out st @ [\<lparr>par_Section = scn_Section st, par_Text = t, par_Kind = ChunkKindNarrative,
             par_Keywords = narrativeSectionKeywords (scn_Section st)\<rparr>]\<rparr>)"

definition flushFAQ :: "scanner \<Rightarrow> scanner" where
  "flushFAQ st =
     (if scn_FAQQuestion st = [] then st\<lparr>scn_FAQAnswers := []\<rparr>
      else
        let ans = normalizeText (Join [CHR 0x0A] (scn_FAQAnswers st));
            t = TrimSpace (scn_FAQSection st);
            s = (if t = [] then scn_Section st else t);
            par = \<lparr>par_Section = s,
                   par_Text = (zh [0x95EE, 0x9898, 0xFF1A]) @ normalizeText (scn_FAQQuestion st) @ [CHR 0x0A] @ (zh [0x7B54, 0x6848, 0xFF1A]) @ ans,
                   par_Kind = ChunkKindFAQ, par_Keywords = normalizeKeywords [s, scn_FAQQuestion st, ans]\<rparr>
        in st\<lparr>scn_Out := (if ans = [] then scn_Out st else scn_Out st @ [par]),
              scn_FAQSection := [], scn_FAQQuestion := [], scn_FAQAnswers := []\<rparr>)"

definition end_question :: "scanner \<Rightarrow> scanner" where
  "end_question st = (if scn_FAQQuestion st = [] then st else flushFAQ st)"

definition ask_question :: "string \<Rightarrow> scanner \<Rightarrow> scanner" where
  "ask_question question st =
     st\<lparr>scn_FAQSection := scn_Section st, scn_FAQQuestion := question, scn_FAQAnswers := []\<rparr>"

definition scan_heading :: "string \<Rightarrow> string \<Rightarrow> scanner \<Rightarrow> scanner" where
  "scan_heading relativePath trimmed st0 =
     (let st = end_question (scan_flush st0) in
      case parseMarkdownHeading trimmed of
        None \<Rightarrow> st\<lparr>scn_Section := buildSectionPath relativePath (scn_Stack st)\<rparr>
      | Some (level0, heading) \<Rightarrow>
          (case extractFAQQuestion heading of
            Some question \<Rightarrow> ask_question question st
          | None \<Rightarrow>
              if kb_looksLikeQuestion heading then ask_question heading st
              else let level = min (max level0 1) (length (scn_Stack st) + 1);
                       stack = take (level - 1) (scn_Stack st) @ [heading]
                   in st\<lparr>scn_Stack := stack, scn_Section := buildSectionPath relativePath stack\<rparr>))"

definition scan_text :: "string \<Rightarrow> scanner \<Rightarrow> scanner" where
  "scan_text trimmed st =
     (case extractFAQQuestion trimmed of
        Some question \<Rightarrow> ask_question question (end_question (scan_flush st))
      | None \<Rightarrow>
          if scn_FAQQuestion st \<noteq> [] then
            st\<lparr>scn_FAQAnswers := scn_FAQAnswers st @
                 [case extractFAQAnswer trimmed of Some ans \<Rightarrow> ans | None \<Rightarrow> trimListPrefix trimmed]\<rparr>
          else (case parseFactParagraph (scn_Section st) trimmed of
            Some par \<Rightarrow> let st1 = scan_flush st in st1\<lparr>scn_Out := scn_Out st1 @ [par]\<rparr>
          | None \<Rightarrow> st\<lparr>scn_Buffer := scn_Buffer st @ [trimmed]\<rparr>))"

definition scan_blank :: "scanner \<Rightarrow> scanner" where
  "scan_blank st0 =
     (let st = scan_flush st0 in
      if scn_FAQQuestion st \<noteq> [] \<and> scn_FAQAnswers st \<noteq> [] then flushFAQ st else st)"

function scan_lines :: "string \<Rightarrow> bool \<Rightarrow> string list \<Rightarrow> scanner \<Rightarrow> scanner" where
  "scan_lines relativePath isMarkdown [] st = st"
| "scan_lines relativePath isMarkdown (line # rest) st =
     (let trimmed = TrimSpace line in
      if trimmed = [] then scan_lines relativePath isMarkdown rest (scan_blank st)
      else
        let table = isMarkdown \<and> isMarkdownTableLine trimmed;
            st1 = (if table then end_question (scan_flush st) else st);
            (pars, consumed) = (if table then parseMarkdownTable (scn_Section st1) (line # rest) else ([], 0))
        in if 0 < consumed
           then scan_lines relativePath isMarkdown (drop consumed (line # rest)) (st1\<lparr>scn_Out := scn_Out st1 @ pars\<rparr>)
           else if isMarkdown \<and> HasPrefix trimmed ''#''
           then scan_lines relativePath isMarkdown rest (scan_heading relativePath trimmed st1)
           else scan_lines relativePath isMarkdown rest (scan_text trimmed st1))"
  by pat_completeness auto
termination
  by (relation "measure (\<lambda>(p, m, lines, st). length lines)") auto

declare scan_lines.simps(2) [simp del]

definition extractParagraphs :: "string \<Rightarrow> string \<Rightarrow> string \<Rightarrow> kb_paragraph list" where
  "extractParagraphs relativePath ext raw =
     scn_Out (flushFAQ (scan_flush (scan_lines relativePath (EqualFold ext ''.md'') (Lines raw)
       \<lparr>scn_Section = relativePath, scn_Stack = [], scn_Buffer = [], scn_Out = [],
        scn_FAQSection = [], scn_FAQQuestion = [], scn_FAQAnswers = []\<rparr>)))"

section \<open>Chunks\<close>

text \<open>
  The parts of the loader that are not code of the repository: the UUID of the package \<^verbatim>\<open>uuid\<close> (SHA-1 over
  the text, in the name space of URLs) and the table of HTML entities.
\<close>

record loader =
  uuid_NewSHA1 :: "string \<Rightarrow> string"
  html_Unescape :: "string \<Rightarrow> string"

definition chunk_key :: "string \<Rightarrow> string \<Rightarrow> string \<Rightarrow> string \<Rightarrow> string list \<Rightarrow> string \<Rightarrow> string" where
  "chunk_key siteID relativePath s kind keywords t = Join [CHR 0x0A] [siteID, relativePath, s, kind, Join [CHR 0x0A] keywords, t]"

definition newChunk :: "loader \<Rightarrow> string \<Rightarrow> string \<Rightarrow> string \<Rightarrow> string \<Rightarrow> string \<Rightarrow> string list \<Rightarrow> Chunk" where
  "newChunk L siteID relativePath section0 text0 kind0 keywords0 =
     (let s1 = TrimSpace section0; s = (if s1 = [] then relativePath else s1);
          t = normalizeText text0;
          k1 = TrimSpace kind0; kind = (if k1 = [] then ChunkKindNarrative else k1);
          keywords = normalizeKeywords keywords0
      in \<lparr>ck_ID = uuid_NewSHA1 L (chunk_key siteID relativePath s kind keywords t),
          ck_Section = s, ck_Text = t, ck_SourcePath = relativePath, ck_Kind = kind, ck_Keywords = keywords\<rparr>)"

fun dedupe_from :: "string list \<Rightarrow> Chunk list \<Rightarrow> Chunk list" where
  "dedupe_from seen [] = []"
| "dedupe_from seen (item # items) =
     (if TrimSpace (ck_Text item) = [] \<or> ck_ID item \<in> set seen then dedupe_from seen items
      else item # dedupe_from (ck_ID item # seen) items)"

definition dedupeChunks :: "Chunk list \<Rightarrow> Chunk list" where
  "dedupeChunks items = dedupe_from [] items"

text \<open>The text under construction, its section and keywords, and the chunks so far.\<close>

record chunker =
  chn_Builder :: string
  chn_Section :: string
  chn_Keywords :: "string list"
  chn_Chunks :: "Chunk list"

definition flushBuilder :: "loader \<Rightarrow> string \<Rightarrow> string \<Rightarrow> chunker \<Rightarrow> chunker" where
  "flushBuilder L siteID relativePath st =
     (let t = TrimSpace (chn_Builder st);
          st1 = st\<lparr>chn_Builder := [], chn_Keywords := []\<rparr>
      in if t = [] then st1
         else st1\<lparr>chn_Chunks := chn_Chunks st
                @ [newChunk L siteID relativePath (chn_Section st) t ChunkKindNarrative (chn_Keywords st)]\<rparr>)"

definition flush_if :: "bool \<Rightarrow> loader \<Rightarrow> string \<Rightarrow> string \<Rightarrow> chunker \<Rightarrow> chunker" where
  "flush_if b L siteID relativePath st = (if b \<and> chn_Builder st \<noteq> [] then flushBuilder L siteID relativePath st else st)"

definition append_part :: "string \<Rightarrow> string list \<Rightarrow> chunker \<Rightarrow> chunker" where
  "append_part part keywords st =
     st\<lparr>chn_Builder := (if chn_Builder st = [] then part else chn_Builder st @ [CHR 0x0A, CHR 0x0A] @ part),
        chn_Keywords := mergeKeywords (chn_Keywords st) keywords\<rparr>"

definition chunk_paragraph :: "loader \<Rightarrow> string \<Rightarrow> string \<Rightarrow> nat \<Rightarrow> nat \<Rightarrow> kb_paragraph \<Rightarrow> chunker \<Rightarrow> chunker" where
  "chunk_paragraph L siteID relativePath chunkSize overlap item st =
     (let part = TrimSpace (par_Text item);
          nextSection = (if par_Section item = [] then chn_Section st else par_Section item)
      in if part = [] then st
         else if par_Kind item = ChunkKindFact \<or> par_Kind item = ChunkKindFAQ then
           let st1 = flush_if True L siteID relativePath st in
           st1\<lparr>chn_Chunks := chn_Chunks st1 @ [newChunk L siteID relativePath nextSection part (par_Kind item) (par_Keywords item)],
               chn_Section := nextSection\<rparr>
         else
           let st1 = (flush_if (nextSection \<noteq> chn_Section st) L siteID relativePath st)\<lparr>chn_Section := nextSection\<rparr>;
               candidate = (if chn_Builder st1 = [] then part else chn_Builder st1 @ [CHR 0x0A, CHR 0x0A] @ part);
               full = chunkSize < RuneCountInString candidate \<and> chn_Builder st1 \<noteq> [];
               tail = (if full \<and> 0 < overlap then trimToLastRunes (TrimSpace (chn_Builder st1)) overlap else []);
               st2 = (if full then (flushBuilder L siteID relativePath st1)\<lparr>chn_Builder := tail\<rparr> else st1)
           in append_part part (par_Keywords item) st2)"

definition chunkDocument :: "loader \<Rightarrow> string \<Rightarrow> string \<Rightarrow> string \<Rightarrow> string \<Rightarrow> int \<Rightarrow> int \<Rightarrow> Chunk list" where
  "chunkDocument L siteID relativePath ext raw chunkSize overlap =
     (let size = (if chunkSize \<le> 0 then 900 else nat chunkSize) in
      dedupeChunks (chn_Chunks (flush_if True L siteID relativePath
        (fold (chunk_paragraph L siteID relativePath size (nat overlap)) (extractParagraphs relativePath ext raw)
          \<lparr>chn_Builder = [], chn_Section = relativePath, chn_Keywords = [], chn_Chunks = []\<rparr>))))"

section \<open>The files of a site\<close>

text \<open>
  A directory as \<^verbatim>\<open>filepath.WalkDir\<close> finds it: names in lexical order, the content of a file unless reading
  fails, the entries of a directory unless listing fails.
\<close>

datatype fs_entry = fs_File string "string option" | fs_Dir string "fs_entry list option"

fun knowledge_files :: "string \<Rightarrow> fs_entry list \<Rightarrow> (string \<times> string option) list option" where
  "knowledge_files prefix [] = Some []"
| "knowledge_files prefix (fs_File name content # es) =
     map_option (\<lambda>fs. if isKnowledgeFile (prefix @ name) then (prefix @ name, content) # fs else fs) (knowledge_files prefix es)"
| "knowledge_files prefix (fs_Dir name entries # es) =
     (if HasPrefix name ''.'' then knowledge_files prefix es
      else case entries of
        None \<Rightarrow> None
      | Some inner \<Rightarrow>
          (case knowledge_files (prefix @ name @ ''/'') inner of
            None \<Rightarrow> None
          | Some found \<Rightarrow> map_option (\<lambda>fs. found @ fs) (knowledge_files prefix es)))"

text \<open>What \<^verbatim>\<open>os.Stat\<close> says of the directory of the site.\<close>

datatype site_dir = dir_Missing | dir_StatFails string | dir_NoDirectory | dir_Entries "fs_entry list option"

fun load_files :: "loader \<Rightarrow> string \<Rightarrow> (string \<times> string option) list \<Rightarrow> string + (Chunk list)" where
  "load_files L siteID [] = Inr []"
| "load_files L siteID ((relPath, content) # fs) =
     (case content of
        None \<Rightarrow> Inl ''read knowledge file failed''
      | Some raw \<Rightarrow>
          let t = normalizeSourceText (html_Unescape L) relPath raw;
              fileChunks = (if TrimSpace t = [] then [] else chunkDocument L siteID relPath (Ext relPath) t 900 120)
          in (case load_files L siteID fs of Inl err \<Rightarrow> Inl err | Inr later \<Rightarrow> Inr (fileChunks @ later)))"

definition loadSiteChunks :: "loader \<Rightarrow> string \<Rightarrow> site_dir \<Rightarrow> string + (Chunk list)" where
  "loadSiteChunks L siteID d =
     (case d of
        dir_Missing \<Rightarrow> Inl ''knowledge directory does not exist''
      | dir_StatFails err \<Rightarrow> Inl ''stat knowledge directory failed''
      | dir_NoDirectory \<Rightarrow> Inl ''knowledge directory is not a directory''
      | dir_Entries None \<Rightarrow> Inl ''scan knowledge directory failed''
      | dir_Entries (Some es) \<Rightarrow>
          (case knowledge_files [] es of
            None \<Rightarrow> Inl ''scan knowledge directory failed''
          | Some fs \<Rightarrow> load_files L siteID (sort_key fst fs)))"

end
