(* ===== verification/Kb_Chunks.thy ===== *)
theory Kb_Chunks
  imports Kb_Documents
begin

text \<open>
  What the loader of the knowledge base keeps of a document, and how it reads a line with a fact.
\<close>

section \<open>Texts inside texts\<close>




lemma Contains_Nil [simp]: "Contains s []"
  by (cases s) (auto simp: HasPrefix_def)


subsection \<open>Trimmed pieces around an empty line\<close>







section \<open>Nothing is lost\<close>

text \<open>A piece of text that waits in the builder or went into a chunk.\<close>

definition kept :: "loader \<Rightarrow> string \<Rightarrow> string \<Rightarrow> string \<Rightarrow> chunker \<Rightarrow> bool" where
  "kept L siteID relativePath part st \<longleftrightarrow>
     Contains (chn_Builder st) part
     \<or> (\<exists>s t kind kw. Contains t part \<and> newChunk L siteID relativePath s t kind kw \<in> set (chn_Chunks st))"





lemma kept_section [simp]: "kept L site rel part (st\<lparr>chn_Section := s\<rparr>) = kept L site rel part st"
  by (simp add: kept_def)










section \<open>Facts\<close>

lemma colon_bytes: "colon = [CHR 0xEF, CHR 0xBC, CHR 0x9A]"
  by code_simp

lemma index_colon_append:
  assumes "index_colon key = None" "sep = '':'' \<or> sep = colon"
  shows "index_colon (key @ sep @ val) = Some (length key)"
  using assms(1)
proof (induction key)
  case Nil
  then show ?case using assms(2) by (auto simp: colon_bytes HasPrefix_def)
next
  case (Cons c cs)
  have "\<not> HasPrefix (c # cs @ sep @ val) colon"
  proof
    assume h: "HasPrefix (c # cs @ sep @ val) colon"
    consider "cs = []" | d where "cs = [d]" | d e ds where "cs = d # e # ds" by (metis list.exhaust)
    then show False
      using h Cons.prems assms(2) by cases (auto simp: HasPrefix_def colon_bytes split: if_splits)
  qed
  with Cons show ?case by (auto split: if_splits)
qed

lemma words_acc:
  "acc \<noteq> [] \<Longrightarrow> \<exists>w ws. words acc rs = w # ws \<and> words (p @ acc) rs = (p @ w) # ws"
proof (induction rs arbitrary: acc)
  case (Cons r rs)
  show ?case
  proof (cases "r \<in> set space_seqs")
    case False
    with Cons.IH [of "acc @ r"] Cons.prems show ?thesis by simp
  qed (use Cons.prems in simp)
qed simp

lemma Join_first: "Join sep ((p @ w) # ws) = p @ Join sep (w # ws)"
  by (cases ws) simp_all

lemma space_heads: "list_all (\<lambda>p. p \<noteq> [] \<and> hd p \<in> edge_bytes) space_seqs"
  by (simp add: list_all_iff edge_bytes_def space_seqs_nonempty)

lemma normalize_after_stray_bytes:
  assumes "normalizeInlineText val = val" "val \<noteq> []" "hd val \<notin> edge_bytes" "last val \<notin> edge_bytes"
  shows "normalizeInlineText ([CHR 0xBC, CHR 0x9A] @ val) = [CHR 0xBC, CHR 0x9A] @ val"
proof -
  let ?p = "[CHR 0xBC, CHR 0x9A]"
  have "TrimSpace val = val" using assms(2-4) by (rule TrimSpace_id)
  moreover have "CHR 0xBC \<notin> edge_bytes" by (simp add: edge_bytes_code) code_simp
  then have "TrimSpace (?p @ val) = ?p @ val" using assms(2,4) by (intro TrimSpace_id) auto
  moreover obtain r rs where r: "runes val = r # rs" "r \<notin> set space_seqs" "r \<noteq> []"
  proof -
    obtain c cs where c: "val = c # cs" using assms(2) by (cases val) auto
    then have "hd (take (rune_width val) val) = hd val" "take (rune_width val) val \<noteq> []"
      using gr0_implies_Suc [OF rune_width_pos [of val]] by auto
    with space_heads assms(3) have "take (rune_width val) val \<notin> set space_seqs" by (auto simp: list_all_iff)
    with c that [of "take (rune_width val) val"] \<open>take (rune_width val) val \<noteq> []\<close> show thesis by simp
  qed
  moreover have "runes (?p @ val) = [CHR 0xBC] # [CHR 0x9A] # runes val"
    by (simp add: rune_width_def byte_in_def)
  moreover have "[CHR 0xBC] \<notin> set space_seqs" "[CHR 0x9A] \<notin> set space_seqs" by code_simp+
  moreover obtain w ws where "words r rs = w # ws" "words (?p @ r) rs = (?p @ w) # ws"
    using words_acc [OF r(3)] by blast
  ultimately show ?thesis
    using assms(1) Join_first [of "'' ''" ?p w ws] by (simp add: normalizeInlineText_def Fields_def)
qed

text \<open>
  How a line with a fact is read: behind a key comes a colon and a value.  With the colon of one byte the
  fact has exactly this key and this value.  With the wide colon only the first of its three bytes is
  skipped, and the two others are left in front of the value.
\<close>

theorem fact_line_colon:
  assumes "isLikelyFactKey key" "normalizeInlineText key = key" "\<not> kb_looksLikeQuestion key" "index_colon key = None"
    and "sep = '':'' \<or> sep = colon" "trimListPrefix (key @ sep @ val) = key @ sep @ val"
    and "normalizeInlineText val = val" "val \<noteq> []" "hd val \<notin> edge_bytes" "last val \<notin> edge_bytes"
  shows "parseFactParagraph s (key @ sep @ val) = Some (fact s key (drop 1 sep @ val))"
proof -
  have "key \<noteq> []" using assms(1,2) by (auto simp: isLikelyFactKey_def)
  moreover have "normalizeInlineText (drop 1 sep @ val) = drop 1 sep @ val"
    using assms(5,7) normalize_after_stray_bytes [OF assms(7-10)] by (auto simp: colon_bytes)
  moreover have "sep \<noteq> []" using assms(5) by (auto simp: colon_bytes)
  ultimately show ?thesis
    using assms(1-3,6,8) index_colon_append [OF assms(4,5), of val]
    by (cases sep) (auto simp: parseFactParagraph_def Let_def)
qed

text \<open>The price with the wide colon: the value begins with two bytes that are no character.\<close>

theorem fact_line_colon_witness:
  "parseFactParagraph ''a.txt'' (zh [0x4EF7, 0x683C] @ colon @ ''99'') = Some (fact ''a.txt'' (zh [0x4EF7, 0x683C]) (drop 1 colon @ ''99''))"
proof -
  have "isLikelyFactKey (zh [0x4EF7, 0x683C])" "normalizeInlineText (zh [0x4EF7, 0x683C]) = (zh [0x4EF7, 0x683C])" "\<not>
    kb_looksLikeQuestion (zh [0x4EF7, 0x683C])" "index_colon (zh [0x4EF7, 0x683C]) = None"
    "trimListPrefix (zh [0x4EF7, 0x683C] @ colon @ ''99'') = (zh [0x4EF7, 0x683C]) @ colon @ ''99''" "normalizeInlineText ''99'' = ''99''"
    "CHR ''9'' \<notin> set (map hd space_seqs @ map last space_seqs)" by code_simp+
  then show ?thesis by (intro fact_line_colon) (simp_all add: edge_bytes_code)
qed

end
