(* ===== verification/Kb_Search.thy ===== *)
theory Kb_Search
  imports Kb_Documents "HOL-Library.Product_Lexorder"
begin

text \<open>
  The knowledge base of ai-service, the search: which chunks of a site a question finds, and in which order
  (\<^verbatim>\<open>services/ai-service/internal/knowledgebase/manager.go\<close>).  Scores are \<^verbatim>\<open>float64\<close> values.
\<close>

section \<open>Signed scores and texts without regard to case\<close>

text \<open>Scores of the vector search may be negative.\<close>

definition sfl :: "rat \<Rightarrow> rat" where "sfl x = (if x < 0 then - fl (- x) else fl x)"
definition sfl_add :: "rat \<Rightarrow> rat \<Rightarrow> rat" where "sfl_add x y = sfl (x + y)"

text \<open>The simple case folding of Unicode (version 15.0): first and last rune, the step, and the distance.\<close>

definition unicode_fold :: "(int \<times> int \<times> int \<times> int) list" where
  "unicode_fold =
     [(0x41, 0x5A, 1, 32), (0xB5, 0xB5, 1, 775), (0xC0, 0xD6, 1, 32), (0xD8, 0xDE, 1, 32), (0x100, 0x12E, 2, 1),
      (0x132, 0x136, 2, 1), (0x139, 0x147, 2, 1), (0x14A, 0x176, 2, 1), (0x178, 0x178, 1, - 121), (0x179, 0x17D, 2,
      1), (0x17F, 0x17F, 1, - 268), (0x181, 0x181, 1, 210), (0x182, 0x184, 2, 1), (0x186, 0x186, 1, 206), (0x187,
      0x187, 1, 1), (0x189, 0x18A, 1, 205), (0x18B, 0x18B, 1, 1), (0x18E, 0x18E, 1, 79), (0x18F, 0x18F, 1, 202),
      (0x190, 0x190, 1, 203), (0x191, 0x191, 1, 1), (0x193, 0x193, 1, 205), (0x194, 0x194, 1, 207), (0x196, 0x196, 1,
      211), (0x197, 0x197, 1, 209), (0x198, 0x198, 1, 1), (0x19C, 0x19C, 1, 211), (0x19D, 0x19D, 1, 213), (0x19F,
      0x19F, 1, 214), (0x1A0, 0x1A4, 2, 1), (0x1A6, 0x1A6, 1, 218), (0x1A7, 0x1A7, 1, 1), (0x1A9, 0x1A9, 1, 218),
      (0x1AC, 0x1AC, 1, 1), (0x1AE, 0x1AE, 1, 218), (0x1AF, 0x1AF, 1, 1), (0x1B1, 0x1B2, 1, 217), (0x1B3, 0x1B5, 2,
      1), (0x1B7, 0x1B7, 1, 219), (0x1B8, 0x1B8, 1, 1), (0x1BC, 0x1BC, 1, 1), (0x1C4, 0x1C4, 1, 2), (0x1C5, 0x1C5, 1,
      1), (0x1C7, 0x1C7, 1, 2), (0x1C8, 0x1C8, 1, 1), (0x1CA, 0x1CA, 1, 2), (0x1CB, 0x1DB, 2, 1), (0x1DE, 0x1EE, 2,
      1), (0x1F1, 0x1F1, 1, 2), (0x1F2, 0x1F4, 2, 1), (0x1F6, 0x1F6, 1, - 97), (0x1F7, 0x1F7, 1, - 56), (0x1F8, 0x21E,
      2, 1), (0x220, 0x220, 1, - 130), (0x222, 0x232, 2, 1), (0x23A, 0x23A, 1, 10795), (0x23B, 0x23B, 1, 1), (0x23D,
      0x23D, 1, - 163), (0x23E, 0x23E, 1, 10792), (0x241, 0x241, 1, 1), (0x243, 0x243, 1, - 195), (0x244, 0x244, 1,
      69), (0x245, 0x245, 1, 71), (0x246, 0x24E, 2, 1), (0x345, 0x345, 1, 116), (0x370, 0x372, 2, 1), (0x376, 0x376,
      1, 1), (0x37F, 0x37F, 1, 116), (0x386, 0x386, 1, 38), (0x388, 0x38A, 1, 37), (0x38C, 0x38C, 1, 64), (0x38E,
      0x38F, 1, 63), (0x391, 0x3A1, 1, 32), (0x3A3, 0x3AB, 1, 32), (0x3C2, 0x3C2, 1, 1), (0x3CF, 0x3CF, 1, 8), (0x3D0,
      0x3D0, 1, - 30), (0x3D1, 0x3D1, 1, - 25), (0x3D5, 0x3D5, 1, - 15), (0x3D6, 0x3D6, 1, - 22), (0x3D8, 0x3EE, 2,
      1), (0x3F0, 0x3F0, 1, - 54), (0x3F1, 0x3F1, 1, - 48), (0x3F4, 0x3F4, 1, - 60), (0x3F5, 0x3F5, 1, - 64), (0x3F7,
      0x3F7, 1, 1), (0x3F9, 0x3F9, 1, - 7), (0x3FA, 0x3FA, 1, 1), (0x3FD, 0x3FF, 1, - 130), (0x400, 0x40F, 1, 80),
      (0x410, 0x42F, 1, 32), (0x460, 0x480, 2, 1), (0x48A, 0x4BE, 2, 1), (0x4C0, 0x4C0, 1, 15), (0x4C1, 0x4CD, 2, 1),
      (0x4D0, 0x52E, 2, 1), (0x531, 0x556, 1, 48), (0x10A0, 0x10C5, 1, 7264), (0x10C7, 0x10C7, 1, 7264), (0x10CD,
      0x10CD, 1, 7264), (0x13F8, 0x13FD, 1, - 8), (0x1C80, 0x1C80, 1, - 6222), (0x1C81, 0x1C81, 1, - 6221), (0x1C82,
      0x1C82, 1, - 6212), (0x1C83, 0x1C84, 1, - 6210), (0x1C85, 0x1C85, 1, - 6211), (0x1C86, 0x1C86, 1, - 6204),
      (0x1C87, 0x1C87, 1, - 6180), (0x1C88, 0x1C88, 1, 35267), (0x1C90, 0x1CBA, 1, - 3008), (0x1CBD, 0x1CBF, 1, -
      3008), (0x1E00, 0x1E94, 2, 1), (0x1E9B, 0x1E9B, 1, - 58), (0x1E9E, 0x1E9E, 1, - 7615), (0x1EA0, 0x1EFE, 2, 1),
      (0x1F08, 0x1F0F, 1, - 8), (0x1F18, 0x1F1D, 1, - 8), (0x1F28, 0x1F2F, 1, - 8), (0x1F38, 0x1F3F, 1, - 8), (0x1F48,
      0x1F4D, 1, - 8), (0x1F59, 0x1F5F, 2, - 8), (0x1F68, 0x1F6F, 1, - 8), (0x1F88, 0x1F8F, 1, - 8), (0x1F98, 0x1F9F,
      1, - 8), (0x1FA8, 0x1FAF, 1, - 8), (0x1FB8, 0x1FB9, 1, - 8), (0x1FBA, 0x1FBB, 1, - 74), (0x1FBC, 0x1FBC, 1, -
      9), (0x1FBE, 0x1FBE, 1, - 7173), (0x1FC8, 0x1FCB, 1, - 86), (0x1FCC, 0x1FCC, 1, - 9), (0x1FD8, 0x1FD9, 1, - 8),
      (0x1FDA, 0x1FDB, 1, - 100), (0x1FE8, 0x1FE9, 1, - 8), (0x1FEA, 0x1FEB, 1, - 112), (0x1FEC, 0x1FEC, 1, - 7),
      (0x1FF8, 0x1FF9, 1, - 128), (0x1FFA, 0x1FFB, 1, - 126), (0x1FFC, 0x1FFC, 1, - 9), (0x2126, 0x2126, 1, - 7517),
      (0x212A, 0x212A, 1, - 8383), (0x212B, 0x212B, 1, - 8262), (0x2132, 0x2132, 1, 28), (0x2160, 0x216F, 1, 16),
      (0x2183, 0x2183, 1, 1), (0x24B6, 0x24CF, 1, 26), (0x2C00, 0x2C2F, 1, 48), (0x2C60, 0x2C60, 1, 1), (0x2C62,
      0x2C62, 1, - 10743), (0x2C63, 0x2C63, 1, - 3814), (0x2C64, 0x2C64, 1, - 10727), (0x2C67, 0x2C6B, 2, 1), (0x2C6D,
      0x2C6D, 1, - 10780), (0x2C6E, 0x2C6E, 1, - 10749), (0x2C6F, 0x2C6F, 1, - 10783), (0x2C70, 0x2C70, 1, - 10782),
      (0x2C72, 0x2C72, 1, 1), (0x2C75, 0x2C75, 1, 1), (0x2C7E, 0x2C7F, 1, - 10815), (0x2C80, 0x2CE2, 2, 1), (0x2CEB,
      0x2CED, 2, 1), (0x2CF2, 0x2CF2, 1, 1), (0xA640, 0xA66C, 2, 1), (0xA680, 0xA69A, 2, 1), (0xA722, 0xA72E, 2, 1),
      (0xA732, 0xA76E, 2, 1), (0xA779, 0xA77B, 2, 1), (0xA77D, 0xA77D, 1, - 35332), (0xA77E, 0xA786, 2, 1), (0xA78B,
      0xA78B, 1, 1), (0xA78D, 0xA78D, 1, - 42280), (0xA790, 0xA792, 2, 1), (0xA796, 0xA7A8, 2, 1), (0xA7AA, 0xA7AA, 1,
      - 42308), (0xA7AB, 0xA7AB, 1, - 42319), (0xA7AC, 0xA7AC, 1, - 42315), (0xA7AD, 0xA7AD, 1, - 42305), (0xA7AE,
      0xA7AE, 1, - 42308), (0xA7B0, 0xA7B0, 1, - 42258), (0xA7B1, 0xA7B1, 1, - 42282), (0xA7B2, 0xA7B2, 1, - 42261),
      (0xA7B3, 0xA7B3, 1, 928), (0xA7B4, 0xA7C2, 2, 1), (0xA7C4, 0xA7C4, 1, - 48), (0xA7C5, 0xA7C5, 1, - 42307),
      (0xA7C6, 0xA7C6, 1, - 35384), (0xA7C7, 0xA7C9, 2, 1), (0xA7D0, 0xA7D0, 1, 1), (0xA7D6, 0xA7D8, 2, 1), (0xA7F5,
      0xA7F5, 1, 1), (0xAB70, 0xABBF, 1, - 38864), (0xFF21, 0xFF3A, 1, 32), (0x10400, 0x10427, 1, 40), (0x104B0,
      0x104D3, 1, 40), (0x10570, 0x1057A, 1, 39), (0x1057C, 0x1058A, 1, 39), (0x1058C, 0x10592, 1, 39), (0x10594,
      0x10595, 1, 39), (0x10C80, 0x10CB2, 1, 64), (0x118A0, 0x118BF, 1, 32), (0x16E40, 0x16E5F, 1, 32), (0x1E900,
      0x1E921, 1, 34)]"

definition fold_rune :: "string \<Rightarrow> int" where
  "fold_rune r = (let n = rune_value r in n + lower_distance n unicode_fold)"

definition EqualFoldRunes :: "string \<Rightarrow> string \<Rightarrow> bool" where
  "EqualFoldRunes s t \<longleftrightarrow> map fold_rune (runes s) = map fold_rune (runes t)"

section \<open>Results\<close>

text \<open>The two structures of the results of the vector index and of the search have the same fields.\<close>

record qdrantSearchResult =
  qr_ID :: string
  qr_Section :: string
  qr_Text :: string
  qr_SourcePath :: string
  qr_Kind :: string
  qr_Keywords :: "string list"
  qr_Score :: rat

definition chunkKindLabel :: "string \<Rightarrow> string" where
  "chunkKindLabel kind =
     (let k = TrimSpace kind in
      if k = ChunkKindFact then (zh [0x4E8B, 0x5B9E, 0x5B57, 0x6BB5]) else if k = ChunkKindFAQ then (zh [0x5E38, 0x89C1, 0x95EE, 0x9898]) else [])"

definition limitKeywords :: "string list \<Rightarrow> nat \<Rightarrow> string list" where
  "limitKeywords keywords limit =
     (let ks = normalizeKeywords keywords in if 0 < limit \<and> limit < length ks then take limit ks else ks)"

definition buildChunkIndexText :: "string \<Rightarrow> string \<Rightarrow> string \<Rightarrow> string list \<Rightarrow> string" where
  "buildChunkIndexText kind section0 text0 keywords =
     (let s = TrimSpace section0; t = TrimSpace text0;
          label = chunkKindLabel kind; limited = limitKeywords keywords 6
      in TrimSpace (Join [CHR 0x0A]
           ((if label = [] then [] else [zh [0x7C7B, 0x578B, 0xFF1A] @ label])
            @ (if s = [] then [] else [zh [0x7AE0, 0x8282, 0xFF1A] @ s])
            @ (if limited = [] then [] else [zh [0x5173, 0x952E, 0x8BCD, 0xFF1A] @ Join (zh [0x3001]) limited])
            @ (if t = [] then [] else [t]))))"

definition buildRerankText :: "qdrantSearchResult \<Rightarrow> string" where
  "buildRerankText item = buildChunkIndexText (qr_Kind item) (qr_Section item) (qr_Text item) (qr_Keywords item)"

definition maxRerankCandidates :: nat where "maxRerankCandidates = 8"
definition maxRerankTextRunes :: nat where "maxRerankTextRunes = 120"
definition maxRerankTotalRunes :: nat where "maxRerankTotalRunes = 420"

text \<open>The loop: the position, the number of runes and the texts chosen so far, with their positions.\<close>

fun rerank_inputs :: "nat \<Rightarrow> nat \<Rightarrow> (string \<times> nat) list \<Rightarrow> qdrantSearchResult list \<Rightarrow> (string \<times> nat) list" where
  "rerank_inputs idx totalRunes chosen [] = chosen"
| "rerank_inputs idx totalRunes chosen (item # items) =
     (if maxRerankCandidates \<le> length chosen then chosen
      else
        let t = trimLeadingRunes (buildRerankText item) maxRerankTextRunes; textRunes = RuneCountInString t
        in if t = [] then rerank_inputs (Suc idx) totalRunes chosen items
           else if maxRerankTotalRunes < totalRunes + textRunes \<and> chosen \<noteq> [] then chosen
           else rerank_inputs (Suc idx) (totalRunes + textRunes) (chosen @ [(t, idx)]) items)"

definition buildRerankInputs :: "qdrantSearchResult list \<Rightarrow> (string \<times> nat) list" where
  "buildRerankInputs candidates =
     (let chosen = rerank_inputs 0 0 [] candidates in
      if candidates = [] then []
      else if chosen = [] then
        let t = trimLeadingRunes (buildRerankText (hd candidates)) maxRerankTextRunes in
        if t = [] then [] else [(t, 0)]
      else chosen)"

definition fallbackSearchResults :: "qdrantSearchResult list \<Rightarrow> int \<Rightarrow> qdrantSearchResult list" where
  "fallbackSearchResults candidates limit =
     (if limit \<le> 0 \<or> int (length candidates) < limit then candidates else take (nat limit) candidates)"

text \<open>The highest score first, then by section and identifier.\<close>

definition result_key :: "qdrantSearchResult \<Rightarrow> rat \<times> string \<times> string" where
  "result_key item = (- qr_Score item, qr_Section item, qr_ID item)"

definition sortSearchCandidates :: "qdrantSearchResult list \<Rightarrow> qdrantSearchResult list" where
  "sortSearchCandidates items = sort_key result_key items"

definition mergeSearchCandidate :: "qdrantSearchResult \<Rightarrow> qdrantSearchResult \<Rightarrow> qdrantSearchResult" where
  "mergeSearchCandidate left right =
     \<lparr>qr_ID = qr_ID left,
      qr_Section = (if TrimSpace (qr_Section left) = [] then qr_Section right else qr_Section left),
      qr_Text = (if TrimSpace (qr_Text left) = [] then qr_Text right else qr_Text left),
      qr_SourcePath = (if TrimSpace (qr_SourcePath left) = [] then qr_SourcePath right else qr_SourcePath left),
      qr_Kind = (if TrimSpace (qr_Kind left) = [] then qr_Kind right else qr_Kind left),
      qr_Keywords = mergeKeywords (qr_Keywords left) (qr_Keywords right),
      qr_Score = (if qr_Score right > qr_Score left then qr_Score right else qr_Score left)\<rparr>"

text \<open>
  The map of \<^verbatim>\<open>mergeSearchCandidates\<close> from identifiers to results, as a list with one entry for every
  identifier: a primary result replaces the earlier one, a secondary one is merged into it.  The order of
  the entries does not matter, they are sorted by keys that are all different.
\<close>

fun put_result :: "qdrantSearchResult list \<Rightarrow> qdrantSearchResult \<Rightarrow> qdrantSearchResult list" where
  "put_result [] item = [item]"
| "put_result (x # xs) item = (if qr_ID x = qr_ID item then item # xs else x # put_result xs item)"

fun merge_result :: "qdrantSearchResult list \<Rightarrow> qdrantSearchResult \<Rightarrow> qdrantSearchResult list" where
  "merge_result [] item = [item]"
| "merge_result (x # xs) item =
     (if qr_ID x = qr_ID item then mergeSearchCandidate x item # xs else x # merge_result xs item)"

definition mergeSearchCandidates :: "qdrantSearchResult list \<Rightarrow> qdrantSearchResult list \<Rightarrow> int \<Rightarrow> qdrantSearchResult list" where
  "mergeSearchCandidates primary secondary limit0 =
     (let limit = (if limit0 \<le> 0 then int (length primary + length secondary) else limit0);
          merged = foldl merge_result (foldl put_result [] primary) secondary
      in take (nat limit) (sortSearchCandidates merged))"

section \<open>What a question asks for\<close>

definition kb_containsAny :: "string \<Rightarrow> string list \<Rightarrow> bool" where
  "kb_containsAny s needles \<longleftrightarrow> list_ex (\<lambda>n. Contains s (compactKeywordQuery n)) needles"

text \<open>The rules are the tables that the automatic reply has, too; only the normal form of a text differs.\<close>

definition inferKnowledgeQuestionFieldConcepts :: "string \<Rightarrow> string list" where
  "inferKnowledgeQuestionFieldConcepts s =
     (if s = [] then [] else map fst (filter (\<lambda>r. kb_containsAny s (snd r)) question_concepts))"

definition inferKnowledgeFactFieldConcepts :: "string \<Rightarrow> string \<Rightarrow> string list" where
  "inferKnowledgeFactFieldConcepts key val =
     (let compactKey = compactKeywordQuery key in
      if compactKey = [] \<and> TrimSpace val = [] then []
      else map fst (filter (\<lambda>(c, l). kb_containsAny compactKey l \<or> c = ''price'' \<and> contains_one val [zh [0xA5], zh [0xFFE5]])
        fact_concepts))"

definition scoreKnowledgeFieldConceptOverlap :: "string list \<Rightarrow> string list \<Rightarrow> rat" where
  "scoreKnowledgeFieldConceptOverlap questionConcepts fieldConcepts =
     foldl (\<lambda>score c. if c \<in> set fieldConcepts then fl_add score 2 else score) 0 questionConcepts"

definition expandKnowledgeAliasTokens :: "string \<Rightarrow> string list" where
  "expandKnowledgeAliasTokens s =
     concat (map (\<lambda>c. case map_of concept_aliases c of None \<Rightarrow> [] | Some l \<Rightarrow> l) (inferKnowledgeQuestionFieldConcepts s))"

definition hasLocationIntent :: "string \<Rightarrow> bool" where
  "hasLocationIntent s = contains_one s
     [zh [0x5728, 0x54EA, 0x91CC], zh [0x5728, 0x54EA, 0x513F], zh [0x5728, 0x54EA], zh [0x54EA, 0x91CC], zh [0x54EA, 0x513F], zh [0x5730,
       0x5740], zh [0x6240, 0x5728, 0x5730], zh [0x4F4D, 0x7F6E]]"

definition extractQuestionSubject :: "string \<Rightarrow> string" where
  "extractQuestionSubject s =
     (let s1 = foldl TrimPrefix s
            [zh [0x8BF7, 0x95EE], zh [0x8BF7], zh [0x4F60, 0x4EEC, 0x5BB6], zh [0x4F60, 0x4EEC], zh [0x4F60, 0x5BB6], zh [0x6211, 0x60F3, 0x95EE], zh
              [0x60F3, 0x95EE], zh [0x6211, 0x60F3, 0x4E86, 0x89E3], zh [0x60F3, 0x4E86, 0x89E3]];
          s2 = foldl TrimSuffix s1
            [zh [0x5728, 0x54EA, 0x91CC], zh [0x5728, 0x54EA, 0x513F], zh [0x5728, 0x54EA], zh [0x54EA, 0x91CC], zh [0x54EA, 0x513F], zh [0x5730,
              0x5740], zh [0x6240, 0x5728, 0x5730], zh [0x4F4D, 0x7F6E], zh [0x662F, 0x4EC0, 0x4E48], zh [0x662F, 0x5565], zh [0x5417], zh [0x5440], zh
              [0x554A], zh [0x5462]];
          subject = TrimSpace (foldl delete_all s2 [zh [0x7684], zh [0x662F], zh [0x4E00, 0x4E0B]])
      in if RuneCountInString subject < 2 then []
         else if RuneCountInString subject > 8 then first_runes 8 subject else subject)"

definition expandQuestionIntentTokens :: "string \<Rightarrow> string list" where
  "expandQuestionIntentTokens s =
     (let subject = (if s = [] then [] else extractQuestionSubject s) in
      if subject = [] then []
      else if hasLocationIntent s then [subject @ (zh [0x5730, 0x5740]), subject @ (zh [0x6240, 0x5728, 0x5730]), subject @ (zh [0x4F4D, 0x7F6E])]
        else [])"

definition kb_append_token :: "string list \<Rightarrow> string \<Rightarrow> string list" where
  "kb_append_token out raw =
     (let token = TrimSpace raw in
      if token = [] \<or> RuneCountInString token < 2 \<or> token \<in> set out then out else out @ [token])"

fun kb_append_windows :: "string list \<Rightarrow> string list \<Rightarrow> string list" where
  "kb_append_windows out [] = out"
| "kb_append_windows out (w # ws) =
     (let out1 = kb_append_token out w in if length out1 \<ge> 64 then out1 else kb_append_windows out1 ws)"

definition extractKeywordFallbackTokens :: "string \<Rightarrow> string list" where
  "extractKeywordFallbackTokens query =
     (let normalized = normalizeText query; s = compactKeywordQuery normalized in
      if normalized = [] then []
      else kb_append_windows (foldl kb_append_token []
             ((if list_ex (\<lambda>c. c \<in> set [CHR '' '', CHR 0x0A, CHR 0x09]) normalized then [] else [normalized])
              @ Fields normalized @ s # expandQuestionIntentTokens s @ expandKnowledgeAliasTokens s))
            (rune_windows (runes s)))"

definition isListSeekingKnowledgeQuestion :: "string \<Rightarrow> bool" where
  "isListSeekingKnowledgeQuestion s \<longleftrightarrow> s \<noteq> [] \<and> kb_containsAny s
     [zh [0x6709, 0x54EA, 0x4E9B], zh [0x54EA, 0x4E9B], zh [0x6709, 0x4EC0, 0x4E48], zh [0x6709, 0x5565], zh [0x54EA, 0x51E0, 0x4E2A], zh
       [0x54EA, 0x51E0, 0x6B3E], zh [0x4E3B, 0x63A8, 0x4EA7, 0x54C1], zh [0x660E, 0x661F, 0x5355, 0x54C1], zh [0x63A8, 0x8350, 0x4EA7, 0x54C1]]"

definition looksLikeSingleAnswerKnowledgeQuestion :: "string \<Rightarrow> bool" where
  "looksLikeSingleAnswerKnowledgeQuestion s \<longleftrightarrow>
     s \<noteq> [] \<and> \<not> isListSeekingKnowledgeQuestion s
     \<and> (inferKnowledgeQuestionFieldConcepts s \<noteq> []
        \<or> contains_one s [zh [0x5417], zh [0x4E48], zh [0x5462], zh [0x51E0], zh [0x591A, 0x5C11], zh [0x4EC0, 0x4E48], zh [0x600E, 0x4E48], zh
          [0x5982, 0x4F55], zh [0x54EA], zh [0x53EF, 0x5426], zh [0x80FD, 0x5426], zh [0x662F, 0x5426], zh [0x53EF, 0x4EE5], zh [0x652F, 0x6301]])"

definition isShortTopicKnowledgeLookup :: "string \<Rightarrow> bool" where
  "isShortTopicKnowledgeLookup s \<longleftrightarrow>
     s \<noteq> [] \<and> RuneCountInString s \<le> 8 \<and> \<not> looksLikeSingleAnswerKnowledgeQuestion s
     \<and> \<not> kb_containsAny s [zh [0x5B83], zh [0x8FD9, 0x4E2A], zh [0x90A3, 0x4E2A], zh [0x8FD9, 0x6B3E], zh [0x90A3, 0x6B3E], zh [0x8FD9,
       0x5957], zh [0x90A3, 0x5957]]"

definition isOverviewSeekingKnowledgeQuestion :: "string \<Rightarrow> bool" where
  "isOverviewSeekingKnowledgeQuestion s \<longleftrightarrow>
     s \<noteq> [] \<and> \<not> isListSeekingKnowledgeQuestion s \<and> \<not> looksLikeSingleAnswerKnowledgeQuestion s
     \<and> (kb_containsAny s [zh [0x4ECB, 0x7ECD], zh [0x8BB2, 0x8BB2], zh [0x8BF4, 0x8BF4], zh [0x804A, 0x804A], zh [0x8BF4, 0x660E]] \<or>
       isShortTopicKnowledgeLookup s)"

section \<open>Scores\<close>

definition extractFAQQuestionFromChunkText :: "string \<Rightarrow> string option" where
  "extractFAQQuestionFromChunkText s =
     (let label = (zh [0x95EE, 0x9898, 0xFF1A]) in
      find (\<lambda>q. q \<noteq> []) (map (\<lambda>l. TrimSpace (TrimPrefix l label))
        (filter (\<lambda>l. HasPrefix l label) (map TrimSpace (Lines (TrimSpace s))))))"

definition hasProductNameFact :: "string \<Rightarrow> bool" where
  "hasProductNameFact s = list_ex (\<lambda>l. HasPrefix (TrimSpace l) (zh [0x4EA7, 0x54C1, 0x540D, 0x79F0, 0xFF1A])) (Lines (TrimSpace s))"

definition extractFactFields :: "string \<Rightarrow> (string \<times> string) list" where
  "extractFactFields s = List.map_filter fact_pair (Lines (TrimSpace s))"

definition scoreCompactKeywordMatches :: "string \<Rightarrow> string list \<Rightarrow> rat \<Rightarrow> rat \<Rightarrow> rat" where
  "scoreCompactKeywordMatches s tokens base scale =
     (if s = [] \<or> tokens = [] then 0 else token_scores s (fl base) (fl scale) 0 0 tokens)"

definition scoreKeywordOverlap :: "string \<Rightarrow> string \<Rightarrow> nat" where
  "scoreKeywordOverlap left right =
     (if left = [] \<or> right = [] then 0
      else length (filter (\<lambda>token. let t = compactKeywordQuery token in
        t \<noteq> [] \<and> (Contains right t \<or> Contains t right)) (extractKeywordFallbackTokens left)))"

definition scoreFactFieldMatch :: "string \<Rightarrow> string list \<Rightarrow> string \<Rightarrow> string list \<Rightarrow> string \<times> string \<Rightarrow> rat" where
  "scoreFactFieldMatch s keywords cquery queryTokens field =
     (let (key, val) = field; compactKey = compactKeywordQuery key in
      if compactKey = [] then 0
      else
        let f0 = scoreCompactKeywordMatches compactKey queryTokens (26 / 100) (5 / 100);
            f1 = (if Contains cquery compactKey \<or> Contains compactKey cquery then fl_add f0 (fl (22 / 10)) else f0);
            fieldScore = fl_add f1 (scoreKnowledgeFieldConceptOverlap (inferKnowledgeQuestionFieldConcepts cquery)
              (inferKnowledgeFactFieldConcepts key val));
            metadata = compactKeywordQuery (s @ [CHR 0x0A] @ Join [CHR 0x0A] keywords @ [CHR 0x0A] @ val)
        in fl_add fieldScore (scoreCompactKeywordMatches metadata queryTokens (8 / 100) (2 / 100)))"

definition scoreFactChunkStructureMatch :: "string \<Rightarrow> string \<Rightarrow> string list \<Rightarrow> string \<Rightarrow> rat" where
  "scoreFactChunkStructureMatch s t keywords cquery =
     (let queryTokens = extractKeywordFallbackTokens cquery in
      if cquery = [] \<or> queryTokens = [] then 0
      else
        let best = foldl (\<lambda>best field. let score = scoreFactFieldMatch s keywords cquery queryTokens field in
                            if score > best then score else best) 0 (extractFactFields t);
            metadata = compactKeywordQuery (s @ [CHR 0x0A] @ Join [CHR 0x0A] keywords @ [CHR 0x0A] @ t)
        in if best > 0 then best else scoreCompactKeywordMatches metadata queryTokens (8 / 100) (2 / 100))"

definition scoreFactSearchResultMatch :: "qdrantSearchResult \<Rightarrow> string \<Rightarrow> rat" where
  "scoreFactSearchResultMatch item cquery =
     scoreFactChunkStructureMatch (qr_Section item) (qr_Text item) (qr_Keywords item) cquery"

definition hasStrongFactCandidateMatch :: "qdrantSearchResult list \<Rightarrow> string \<Rightarrow> bool" where
  "hasStrongFactCandidateMatch candidates cquery \<longleftrightarrow>
     foldl (\<lambda>best item. let score = scoreFactSearchResultMatch item cquery in if score > best then score else best) 0
       (filter (\<lambda>item. qr_Kind item = ChunkKindFact) candidates) \<ge> fl (26 / 10)"

definition narrative_token :: "qdrantSearchResult \<Rightarrow> rat \<Rightarrow> string \<Rightarrow> rat" where
  "narrative_token item score0 token =
     (let t = compactKeywordQuery token;
          score1 = (if Contains (compactKeywordQuery (qr_Section item)) t then fl_add score0 (fl (12 / 10)) else score0);
          score2 = (if list_ex (\<lambda>k. Contains (compactKeywordQuery k) t) (qr_Keywords item)
                    then fl_add score1 (fl (14 / 10)) else score1);
          score3 = (if Contains (compactKeywordQuery (qr_Text item)) t then fl_add score2 (fl (4 / 10)) else score2)
      in if t = [] then score0 else score3)"

definition scoreNarrativeOverviewMatch :: "qdrantSearchResult \<Rightarrow> string \<Rightarrow> rat" where
  "scoreNarrativeOverviewMatch item cquery =
     (let score = foldl (narrative_token item) 0 (extractKeywordFallbackTokens cquery) in
      if cquery = [] then 0
      else if EqualFoldRunes (TrimSpace (qr_Section item)) (TrimSpace (qr_SourcePath item)) then sfl_add score (- 1)
      else score)"

definition faq_boost :: "qdrantSearchResult \<Rightarrow> string \<Rightarrow> bool \<Rightarrow> rat" where
  "faq_boost item cquery seeking =
     (case extractFAQQuestionFromChunkText (qr_Text item) of
        None \<Rightarrow> 10
      | Some question \<Rightarrow>
          let compactQuestion = compactKeywordQuery question in
          if compactQuestion = [] then 10
          else if Contains compactQuestion cquery \<or> Contains cquery compactQuestion then 18
          else if scoreKeywordOverlap compactQuestion cquery \<ge> 2 then 14
          else if seeking then 10 else 0)"

definition authoritativeCandidateBoost :: "qdrantSearchResult \<Rightarrow> string \<Rightarrow> bool \<Rightarrow> bool \<Rightarrow> bool \<Rightarrow> rat" where
  "authoritativeCandidateBoost item cquery listSeeking factSeeking overviewSeeking =
     (if cquery = [] then 0
      else if qr_Kind item = ChunkKindFAQ then faq_boost item cquery (listSeeking \<or> factSeeking)
      else if qr_Kind item = ChunkKindFact then
        if listSeeking \<and> hasProductNameFact (qr_Text item) then 12
        else
          let score = scoreFactSearchResultMatch item cquery; boost = fl_add 4 score in
          if score > 0 then (if factSeeking then fl_add boost (15 / 10) else boost) else 0
      else if qr_Kind item = ChunkKindNarrative \<and> overviewSeeking then
        if scoreNarrativeOverviewMatch item cquery > 0 then 10 else 6
      else 0)"

text \<open>Whether a question asks for a list, for a fact or for an overview.\<close>

definition seekings :: "qdrantSearchResult list \<Rightarrow> string \<Rightarrow> bool \<times> bool \<times> bool" where
  "seekings candidates cquery =
     (let listSeeking = isListSeekingKnowledgeQuestion cquery;
          factSeeking = (\<not> listSeeking \<and> hasStrongFactCandidateMatch candidates cquery)
      in (listSeeking, factSeeking, \<not> listSeeking \<and> \<not> factSeeking \<and> isOverviewSeekingKnowledgeQuestion cquery))"

definition candidate_boost :: "qdrantSearchResult list \<Rightarrow> string \<Rightarrow> qdrantSearchResult \<Rightarrow> rat" where
  "candidate_boost candidates query item =
     (let cquery = compactKeywordQuery query; (l, f, v) = seekings candidates cquery in authoritativeCandidateBoost item cquery l f v)"

definition boosted :: "qdrantSearchResult list \<Rightarrow> string \<Rightarrow> qdrantSearchResult \<Rightarrow> qdrantSearchResult" where
  "boosted candidates query item = item\<lparr>qr_Score := sfl_add (qr_Score item) (candidate_boost candidates query item)\<rparr>"

definition selectAuthoritativeCandidates :: "string \<Rightarrow> qdrantSearchResult list \<Rightarrow> int \<Rightarrow> qdrantSearchResult list" where
  "selectAuthoritativeCandidates query candidates limit =
     (let (l, f, v) = seekings candidates (compactKeywordQuery query);
          structured = sortSearchCandidates (map (boosted candidates query)
            (filter (\<lambda>item. candidate_boost candidates query item > 0) candidates))
      in if candidates = [] \<or> \<not> l \<and> \<not> f \<and> \<not> v then []
         else if 0 < limit then take (nat limit) structured else structured)"

definition prioritizeSearchCandidates :: "string \<Rightarrow> qdrantSearchResult list \<Rightarrow> qdrantSearchResult list" where
  "prioritizeSearchCandidates query candidates = sortSearchCandidates (map (boosted candidates query) candidates)"

section \<open>The search by keywords\<close>

definition add_if :: "bool \<Rightarrow> rat \<Rightarrow> rat \<Rightarrow> rat" where
  "add_if b x score = (if b then fl_add score x else score)"

definition scoreStructuredFieldIntent :: "Chunk \<Rightarrow> string \<Rightarrow> rat" where
  "scoreStructuredFieldIntent item cquery =
     (if cquery = [] \<or> ck_Kind item \<noteq> ChunkKindFact then 0
      else scoreFactChunkStructureMatch (ck_Section item) (ck_Text item) (ck_Keywords item) cquery)"

text \<open>What a keyword of the question and a keyword of the chunk add to the score.\<close>

definition keyword_score :: "string \<Rightarrow> string \<Rightarrow> string \<Rightarrow> string \<Rightarrow> rat \<Rightarrow> string \<Rightarrow> rat" where
  "keyword_score s t fullQuery cquery score keyword =
     (let w = fl_mul (of_nat (min (RuneCountInString keyword) 6)) (fl (8 / 100)) in
      if keyword = fullQuery \<or> keyword = cquery then score
      else add_if (Contains (compactKeywordQuery t) keyword \<or> Contains t keyword) (fl_add (fl (12 / 100)) (fl_mul w (fl (7 / 10))))
            (add_if (Contains (compactKeywordQuery s) keyword \<or> Contains s keyword) (fl_add (fl (28 / 100)) w) score))"

definition chunk_keyword_score :: "string \<Rightarrow> string \<Rightarrow> rat \<Rightarrow> string \<Rightarrow> rat" where
  "chunk_keyword_score fullQuery cquery score keyword =
     (let n = normalizeInlineText keyword; k = compactKeywordQuery n;
          score1 = add_if (fullQuery \<noteq> [] \<and> Contains fullQuery n) (fl (42 / 100)) score
      in if n = [] then score
         else add_if (k \<noteq> [] \<and> cquery \<noteq> [] \<and> (Contains cquery k \<or> Contains k cquery))
                (fl_add (fl (34 / 100)) (fl_mul (of_nat (min (RuneCountInString n) 6)) (fl (5 / 100)))) score1)"

definition scoreChunkByKeywords :: "Chunk \<Rightarrow> string \<Rightarrow> string \<Rightarrow> string list \<Rightarrow> rat" where
  "scoreChunkByKeywords item fullQuery cquery keywords =
     (let s = normalizeText (ck_Section item); t = normalizeText (ck_Text item);
          score1 = add_if (fullQuery \<noteq> [] \<and> Contains t fullQuery) (fl (12 / 10))
                     (add_if (fullQuery \<noteq> [] \<and> Contains s fullQuery) (fl (16 / 10)) 0);
          differ = (cquery \<noteq> [] \<and> cquery \<noteq> fullQuery);
          score2 = add_if (differ \<and> Contains (compactKeywordQuery t) cquery) 1
                     (add_if (differ \<and> Contains (compactKeywordQuery s) cquery) (fl (14 / 10)) score1);
          score3 = foldl (keyword_score s t fullQuery cquery) score2 keywords;
          score4 = fl_add score3 (scoreStructuredFieldIntent item cquery);
          score = foldl (chunk_keyword_score fullQuery cquery) score4 (ck_Keywords item)
      in if ck_Kind item = ChunkKindFact \<and> score > 0 then fl_mul score (fl (12 / 10))
         else if ck_Kind item = ChunkKindFAQ \<and> score > 0 then fl_mul score (fl (112 / 100))
         else score)"

definition chunk_result :: "Chunk \<Rightarrow> rat \<Rightarrow> qdrantSearchResult" where
  "chunk_result item score =
     \<lparr>qr_ID = ck_ID item, qr_Section = ck_Section item, qr_Text = ck_Text item, qr_SourcePath = ck_SourcePath item,
      qr_Kind = ck_Kind item, qr_Keywords = ck_Keywords item, qr_Score = score\<rparr>"

definition keywordSearchCandidates :: "Chunk list \<Rightarrow> string \<Rightarrow> int \<Rightarrow> qdrantSearchResult list" where
  "keywordSearchCandidates chunks query limit =
     (let keywords = extractKeywordFallbackTokens query;
          scored = map (\<lambda>item. chunk_result item (scoreChunkByKeywords item (normalizeText query) (compactKeywordQuery query) keywords)) chunks;
          found = sortSearchCandidates (filter (\<lambda>r. qr_Score r > 0) scored)
      in if keywords = [] then [] else if 0 < limit then take (nat limit) found else found)"

end
