(* ===== verification/Kb_Index.thy ===== *)
theory Kb_Index
  imports Kb_Search Effects
begin

text \<open>
  The knowledge base of ai-service, the index: the status files (\<^verbatim>\<open>internal/knowledgebase/status_store.go\<close>), the
  client of the vector database (\<^verbatim>\<open>qdrant_client.go\<close>), and the manager that indexes a site and searches it
  (\<^verbatim>\<open>manager.go\<close>).  The texts of the errors are shortened.
\<close>

section \<open>Paths\<close>

text \<open>\<^verbatim>\<open>filepath.Clean\<close> and \<^verbatim>\<open>filepath.Join\<close>.\<close>

definition clean_step :: "bool \<Rightarrow> string list \<Rightarrow> string \<Rightarrow> string list" where
  "clean_step rooted out p =
     (if p = [] \<or> p = ''.'' then out
      else if p = ''..'' then
        (if out \<noteq> [] \<and> last out \<noteq> ''..'' then butlast out else if rooted then out else out @ [p])
      else out @ [p])"

definition filepath_Clean :: "string \<Rightarrow> string" where
  "filepath_Clean path =
     (let rooted = HasPrefix path ''/'';
          parts = foldl (clean_step rooted) [] (Split (CHR ''/'') path);
          s = Join ''/'' parts
      in if rooted then ''/'' @ s else if parts = [] then ''.'' else s)"

definition filepath_Join :: "string list \<Rightarrow> string" where
  "filepath_Join elems =
     (let ne = dropWhile (\<lambda>s. s = []) elems in if ne = [] then [] else filepath_Clean (Join ''/'' ne))"

definition knowledgeDirForSite :: "string \<Rightarrow> string \<Rightarrow> string" where
  "knowledgeDirForSite rootDir siteID = filepath_Join [TrimSpace rootDir, TrimSpace siteID]"

section \<open>Data and environment\<close>

definition StatusIdle :: string where "StatusIdle = ''idle''"
definition StatusIndexing :: string where "StatusIndexing = ''indexing''"
definition StatusReady :: string where "StatusReady = ''ready''"
definition StatusError :: string where "StatusError = ''error''"

record SiteStatus =
  st_SiteID :: string
  st_KnowledgeDir :: string
  st_IndexStatus :: string
  st_IndexedChunks :: int
  st_LastIndexedAt :: "time option"
  st_LastIndexError :: string
  st_ActiveJobID :: string

record ReindexJob =
  job_SiteID :: string
  job_JobID :: string
  job_Status :: string

record vectorPoint =
  vp_ID :: string
  vp_Vector :: "rat list"
  vp_Section :: string
  vp_Text :: string
  vp_SourcePath :: string
  vp_Kind :: string
  vp_Keywords :: "string list"
  vp_SiteID :: string

text \<open>The requests to the vector database with their bodies, and the parts of a response that are used.\<close>

datatype qd_body =
    NoBody
  | VectorsBody int
  | SiteBody string
  | PointsBody "vectorPoint list"
  | SearchBody "rat list" int string

record qd_request =
  qd_method :: string
  qd_url :: string
  qd_apiKey :: string
  qd_body :: qd_body

record qd_response =
  qd_StatusCode :: int
  qd_Body :: "string option"
  qd_Hits :: "qdrantSearchResult list option"

text \<open>An error, or the panic of a call through a nil interface.\<close>

datatype kb_error = Failed string | Panicked

text \<open>
  \<open>disk_read\<close> and \<open>disk_write\<close> say whether reading and writing a status file fails; \<open>status_Marshal\<close> and
  \<open>status_Unmarshal\<close> are the JSON codec at the type of the status (decoding fills in a given status);
  \<open>qdrant_Do\<close> is the vector database with the network in front of it.  The three services are
  optional, as the interfaces of the manager may be nil.
\<close>

record 'q kb_env =
  kb_clock :: "nat \<Rightarrow> nat"
  kb_loader :: loader
  kb_site_dir :: "nat \<Rightarrow> string \<Rightarrow> site_dir"
  kb_ReadFile :: "nat \<Rightarrow> string \<Rightarrow> string + string option"
  disk_read :: "nat \<Rightarrow> bool"
  disk_write :: "nat \<Rightarrow> bool"
  status_Marshal :: "SiteStatus \<Rightarrow> string"
  status_Unmarshal :: "string \<Rightarrow> SiteStatus \<Rightarrow> SiteStatus option"
  kb_embedder :: "(nat \<Rightarrow> string list \<Rightarrow> string + rat list list) option"
  kb_reranker :: "(nat \<Rightarrow> string \<Rightarrow> string list \<Rightarrow> string + (int \<times> rat) list) option"
  qdrant_Do :: "nat \<Rightarrow> qd_request \<Rightarrow> 'q \<Rightarrow> (string + qd_response) \<times> 'q"

record 'q kb_world =
  kw_tick :: nat
  status_files :: "string \<rightharpoonup> string"
  activeJobs :: "string \<rightharpoonup> string"
  started_jobs :: "(string \<times> string) list"
  kw_qdrant :: 'q

type_synonym ('q, 'a) kb_eff = "('q kb_world, kb_error, 'a) eff"

definition kb_consult :: "(nat \<Rightarrow> 'x) \<Rightarrow> ('q, 'x) kb_eff" where
  "kb_consult f w = (Inr (f (kw_tick w)), w\<lparr>kw_tick := Suc (kw_tick w)\<rparr>)"

definition failed :: "string \<Rightarrow> ('q, 'a) kb_eff" where
  "failed err = fail (Failed err)"

text \<open>The code looks at an error; a panic goes through.\<close>

definition on_result :: "('q, 'a) kb_eff \<Rightarrow> (string + 'a \<Rightarrow> ('q, 'b) kb_eff) \<Rightarrow> ('q, 'b) kb_eff" where
  "on_result m k = attempt m (\<lambda>r. case r of
     Inl (Failed err) \<Rightarrow> k (Inl err) | Inl Panicked \<Rightarrow> fail Panicked | Inr a \<Rightarrow> k (Inr a))"

section \<open>The status files\<close>

definition statusDirName :: string where "statusDirName = ''.inlinechat-state''"

definition pathFor :: "string \<Rightarrow> string \<Rightarrow> string" where
  "pathFor rootDir siteID = filepath_Join [rootDir, statusDirName, TrimSpace siteID @ ''.json'']"

definition status_defaults :: "string \<Rightarrow> string \<Rightarrow> SiteStatus \<Rightarrow> SiteStatus" where
  "status_defaults rootDir siteID st =
     st\<lparr>st_SiteID := (if TrimSpace (st_SiteID st) = [] then siteID else st_SiteID st),
        st_KnowledgeDir := (if TrimSpace (st_KnowledgeDir st) = [] then knowledgeDirForSite rootDir siteID else st_KnowledgeDir st),
        st_IndexStatus := (if TrimSpace (st_IndexStatus st) = [] then StatusIdle else st_IndexStatus st)\<rparr>"

definition fresh_status :: "string \<Rightarrow> string \<Rightarrow> SiteStatus" where
  "fresh_status rootDir siteID =
     \<lparr>st_SiteID = siteID, st_KnowledgeDir = knowledgeDirForSite rootDir siteID, st_IndexStatus = StatusIdle,
      st_IndexedChunks = 0, st_LastIndexedAt = None, st_LastIndexError = [], st_ActiveJobID = []\<rparr>"

definition status_Load :: "'q kb_env \<Rightarrow> string \<Rightarrow> string \<Rightarrow> ('q, SiteStatus) kb_eff" where
  "status_Load E rootDir siteID =
     andThen (\<lambda>w. kb_consult (\<lambda>n. if disk_read E n then None else Some (status_files w (pathFor rootDir siteID))) w) (\<lambda>found.
       case found of
         None \<Rightarrow> failed ''read status file failed''
       | Some None \<Rightarrow> ok (fresh_status rootDir siteID)
       | Some (Some raw) \<Rightarrow>
           if TrimSpace raw = [] then ok (fresh_status rootDir siteID)
           else (case status_Unmarshal E raw (fresh_status rootDir siteID) of
               None \<Rightarrow> failed ''decode status file failed''
             | Some st \<Rightarrow> ok (status_defaults rootDir siteID st)))"

text \<open>The file is written beside its place and renamed, so that a failure leaves the old one.\<close>

definition status_Save :: "'q kb_env \<Rightarrow> string \<Rightarrow> SiteStatus \<Rightarrow> ('q, unit) kb_eff" where
  "status_Save E rootDir st w =
     (let w1 = w\<lparr>kw_tick := Suc (kw_tick w)\<rparr>; path = pathFor rootDir (st_SiteID st) in
      if TrimSpace (st_SiteID st) = [] then (Inl (Failed ''site_id is required''), w)
      else if disk_write E (kw_tick w) then (Inl (Failed ''replace status file failed''), w1)
      else (Inr (), w1\<lparr>status_files := (status_files w)(path \<mapsto> status_Marshal E (status_defaults rootDir (st_SiteID st) st))\<rparr>))"

section \<open>The client of the vector database\<close>

record qdrantClient =
  qc_baseURL :: string
  qc_apiKey :: string
  qc_collection :: string

definition newQdrantClient :: "string \<Rightarrow> string \<Rightarrow> string \<Rightarrow> qdrantClient" where
  "newQdrantClient baseURL apiKey collection =
     \<lparr>qc_baseURL = trim_right_runes [''/''] (TrimSpace baseURL), qc_apiKey = TrimSpace apiKey, qc_collection = TrimSpace collection\<rparr>"

definition doJSON :: "'q kb_env \<Rightarrow> qdrantClient \<Rightarrow> string \<Rightarrow> string \<Rightarrow> qd_body \<Rightarrow> ('q, qd_response) kb_eff" where
  "doJSON E c meth path body w =
     (case qdrant_Do E (kw_tick w)
         \<lparr>qd_method = meth, qd_url = qc_baseURL c @ path, qd_apiKey = qc_apiKey c, qd_body = body\<rparr> (kw_qdrant w) of
        (r, q) \<Rightarrow> (case r of Inl err \<Rightarrow> Inl (Failed err) | Inr resp \<Rightarrow> Inr resp,
                   w\<lparr>kw_tick := Suc (kw_tick w), kw_qdrant := q\<rparr>))"

definition collectionPath :: "qdrantClient \<Rightarrow> string \<Rightarrow> string" where
  "collectionPath c suffix = ''/collections/'' @ qc_collection c @ suffix"

definition qd_ok :: "qd_response \<Rightarrow> bool" where
  "qd_ok resp \<longleftrightarrow> 200 \<le> qd_StatusCode resp \<and> qd_StatusCode resp < 300"

definition qdrant_Ready :: "'q kb_env \<Rightarrow> qdrantClient \<Rightarrow> ('q, unit) kb_eff" where
  "qdrant_Ready E c =
     andThen (doJSON E c ''GET'' ''/collections'' NoBody) (\<lambda>resp.
       if qd_ok resp then ok () else failed ''qdrant collections unavailable'')"

definition ensureCollection :: "'q kb_env \<Rightarrow> qdrantClient \<Rightarrow> int \<Rightarrow> ('q, unit) kb_eff" where
  "ensureCollection E c vectorSize =
     andThen (doJSON E c ''GET'' (collectionPath c []) NoBody) (\<lambda>resp.
       if qd_StatusCode resp = 404 then
         andThen (doJSON E c ''PUT'' (collectionPath c []) (VectorsBody vectorSize)) (\<lambda>createResp.
           if qd_ok createResp then ok () else failed ''create qdrant collection failed'')
       else if qd_ok resp then ok () else failed ''get qdrant collection failed'')"

definition deleteSite :: "'q kb_env \<Rightarrow> qdrantClient \<Rightarrow> string \<Rightarrow> ('q, unit) kb_eff" where
  "deleteSite E c siteID =
     andThen (doJSON E c ''POST'' (collectionPath c ''/points/delete?wait=true'') (SiteBody siteID)) (\<lambda>resp.
       if qd_StatusCode resp = 404 \<or> qd_ok resp then ok () else failed ''delete site vectors failed'')"

text \<open>A list in pieces of at most \<open>n\<close> elements.\<close>

function batches :: "nat \<Rightarrow> 'x list \<Rightarrow> 'x list list" where
  "batches n xs = (if xs = [] \<or> n = 0 then [] else take n xs # batches n (drop n xs))"
  by auto
termination by (relation "measure (\<lambda>(n, xs). length xs)") auto

declare batches.simps [simp del]

definition upsert :: "'q kb_env \<Rightarrow> qdrantClient \<Rightarrow> vectorPoint list \<Rightarrow> ('q, unit) kb_eff" where
  "upsert E c points =
     andThen (doJSON E c ''PUT'' (collectionPath c ''/points?wait=true'') (PointsBody points)) (\<lambda>resp.
       if qd_Body resp = None then failed ''read qdrant upsert response failed''
       else if qd_ok resp then ok () else failed ''qdrant upsert failed'')"

fun upsert_all :: "'q kb_env \<Rightarrow> qdrantClient \<Rightarrow> vectorPoint list list \<Rightarrow> ('q, unit) kb_eff" where
  "upsert_all E c [] = ok ()"
| "upsert_all E c (points # rest) = andThen (upsert E c points) (\<lambda>_. upsert_all E c rest)"

definition ReplaceSite :: "'q kb_env \<Rightarrow> qdrantClient \<Rightarrow> string \<Rightarrow> vectorPoint list \<Rightarrow> ('q, unit) kb_eff" where
  "ReplaceSite E c siteID points =
     (if TrimSpace siteID = [] then failed ''site_id is required''
      else if points = [] then deleteSite E c siteID
      else andThen (ensureCollection E c (int (length (vp_Vector (hd points))))) (\<lambda>_.
           andThen (deleteSite E c siteID) (\<lambda>_. upsert_all E c (batches 64 points))))"

definition qdrant_Search :: "'q kb_env \<Rightarrow> qdrantClient \<Rightarrow> string \<Rightarrow> rat list \<Rightarrow> int \<Rightarrow> ('q, qdrantSearchResult list) kb_eff" where
  "qdrant_Search E c siteID vector limit =
     (if TrimSpace siteID = [] then failed ''site_id is required''
      else if vector = [] then failed ''vector is required''
      else andThen (doJSON E c ''POST'' (collectionPath c ''/points/search'')
             (SearchBody vector (if limit \<le> 0 then 10 else limit) siteID)) (\<lambda>resp.
        case qd_Hits resp of
          None \<Rightarrow> failed ''decode qdrant search response failed''
        | Some hits \<Rightarrow>
            if qd_StatusCode resp = 404 then ok []
            else if \<not> qd_ok resp then failed ''qdrant search failed''
            else ok (map (\<lambda>h. h\<lparr>qr_Keywords := normalizeKeywords (qr_Keywords h)\<rparr>) hits)))"

section \<open>The manager\<close>

record kb_Manager =
  mgr_rootDir :: string
  mgr_qdrant :: "qdrantClient option"
  indexEmbedBatch :: int
  retrievalCandidate :: int
  rerankTopK :: int
  rerankMinScore :: rat

definition NewManager :: "string \<Rightarrow> qdrantClient option \<Rightarrow> int \<Rightarrow> int \<Rightarrow> int \<Rightarrow> rat \<Rightarrow> kb_Manager" where
  "NewManager rootDir qd embedBatch candidates topK minScore =
     \<lparr>mgr_rootDir = TrimSpace rootDir, mgr_qdrant = qd,
      indexEmbedBatch = (if embedBatch \<le> 0 then 4 else embedBatch),
      retrievalCandidate = (if candidates \<le> 0 then 12 else candidates),
      rerankTopK = (if topK \<le> 0 then 4 else topK), rerankMinScore = minScore\<rparr>"

definition kb_Ready :: "kb_Manager \<Rightarrow> ('q, unit) kb_eff" where
  "kb_Ready M = (if TrimSpace (mgr_rootDir M) = [] then failed ''knowledge base root dir is required'' else ok ())"

definition active_job :: "'q kb_world \<Rightarrow> string \<Rightarrow> string" where
  "active_job w siteID = (case activeJobs w siteID of None \<Rightarrow> [] | Some j \<Rightarrow> TrimSpace j)"

definition GetStatus :: "'q kb_env \<Rightarrow> kb_Manager \<Rightarrow> string \<Rightarrow> ('q, SiteStatus) kb_eff" where
  "GetStatus E M siteID0 =
     (let siteID = TrimSpace siteID0 in
      if siteID = [] then failed ''site_id is required''
      else andThen (status_Load E (mgr_rootDir M) siteID) (\<lambda>st w.
        let j = active_job w siteID in
        ok (if j = [] then st else st\<lparr>st_ActiveJobID := j, st_IndexStatus := StatusIndexing\<rparr>) w))"

definition LoadPrimaryDocument :: "'q kb_env \<Rightarrow> kb_Manager \<Rightarrow> string \<Rightarrow> ('q, string) kb_eff" where
  "LoadPrimaryDocument E M siteID0 =
     (let siteID = TrimSpace siteID0;
          path = filepath_Join [knowledgeDirForSite (mgr_rootDir M) siteID, ''knowledge.md'']
      in if siteID = [] then failed ''site_id is required''
         else andThen (kb_consult (\<lambda>n. kb_ReadFile E n path)) (\<lambda>r. case r of
           Inl err \<Rightarrow> failed ''read primary document failed''
         | Inr None \<Rightarrow> ok []
         | Inr (Some raw) \<Rightarrow> ok (normalizeSourceText (html_Unescape (kb_loader E)) path raw)))"

definition forget_job :: "string \<Rightarrow> ('q, unit) kb_eff" where
  "forget_job siteID w = (Inr (), w\<lparr>activeJobs := (activeJobs w)(siteID := None)\<rparr>)"

text \<open>A job that is started is put on a list; \<open>runReindex\<close> is what its goroutine does.\<close>

definition TriggerReindex :: "'q kb_env \<Rightarrow> kb_Manager \<Rightarrow> string \<Rightarrow> ('q, ReindexJob) kb_eff" where
  "TriggerReindex E M siteID0 w =
     (let siteID = TrimSpace siteID0; running = active_job w siteID;
          jobID = FormatUint (kb_clock E (kw_tick w));
          w1 = w\<lparr>kw_tick := Suc (kw_tick w), activeJobs := (activeJobs w)(siteID \<mapsto> jobID)\<rparr>
      in if siteID = [] then (Inl (Failed ''site_id is required''), w)
         else if running \<noteq> [] then (Inr \<lparr>job_SiteID = siteID, job_JobID = running, job_Status = StatusIndexing\<rparr>, w)
         else on_result (andThen (status_Load E (mgr_rootDir M) siteID) (\<lambda>st.
                status_Save E (mgr_rootDir M) (st\<lparr>st_ActiveJobID := jobID, st_IndexStatus := StatusIndexing, st_LastIndexError := []\<rparr>))) (\<lambda>r.
           case r of
             Inl err \<Rightarrow> andThen (forget_job siteID) (\<lambda>_. failed err)
           | Inr _ \<Rightarrow> (\<lambda>w2. (Inr \<lparr>job_SiteID = siteID, job_JobID = jobID, job_Status = StatusIndexing\<rparr>,
                                 w2\<lparr>started_jobs := started_jobs w2 @ [(siteID, jobID)]\<rparr>))) w1)"

definition point_of :: "string \<Rightarrow> Chunk \<times> rat list \<Rightarrow> vectorPoint" where
  "point_of siteID cv = (case cv of (item, vec) \<Rightarrow>
     \<lparr>vp_ID = ck_ID item, vp_Vector = vec, vp_Section = ck_Section item, vp_Text = ck_Text item,
      vp_SourcePath = ck_SourcePath item, vp_Kind = ck_Kind item, vp_Keywords = ck_Keywords item, vp_SiteID = siteID\<rparr>)"

definition index_text :: "Chunk \<Rightarrow> string" where
  "index_text item = buildChunkIndexText (ck_Kind item) (ck_Section item) (ck_Text item) (ck_Keywords item)"

text \<open>The embeddings of the batches, one call each; a chunk without a vector is left out.\<close>

fun embed_batches :: "'q kb_env \<Rightarrow> string \<Rightarrow> Chunk list list \<Rightarrow> ('q, vectorPoint list) kb_eff" where
  "embed_batches E siteID [] = ok []"
| "embed_batches E siteID (batch # rest) =
     (case kb_embedder E of
        None \<Rightarrow> fail Panicked
      | Some emb \<Rightarrow>
          andThen (kb_consult (\<lambda>n. emb n (map index_text batch))) (\<lambda>r. case r of
            Inl err \<Rightarrow> failed err
          | Inr vectors \<Rightarrow>
              andThen (embed_batches E siteID rest) (\<lambda>later. ok (map (point_of siteID) (zip batch vectors) @ later))))"

definition reindex_fails :: "'q kb_env \<Rightarrow> kb_Manager \<Rightarrow> SiteStatus \<Rightarrow> string \<Rightarrow> ('q, unit) kb_eff" where
  "reindex_fails E M st err =
     on_result (status_Save E (mgr_rootDir M) (st\<lparr>st_IndexStatus := StatusError, st_LastIndexError := err, st_ActiveJobID := []\<rparr>)) (\<lambda>_. ok ())"

definition replace_index :: "'q kb_env \<Rightarrow> kb_Manager \<Rightarrow> string \<Rightarrow> vectorPoint list \<Rightarrow> ('q, unit) kb_eff" where
  "replace_index E M siteID points =
     (case mgr_qdrant M of None \<Rightarrow> fail Panicked | Some c \<Rightarrow> ReplaceSite E c siteID points)"

definition reindex_ready :: "'q kb_env \<Rightarrow> kb_Manager \<Rightarrow> SiteStatus \<Rightarrow> nat \<Rightarrow> ('q, unit) kb_eff" where
  "reindex_ready E M st n =
     andThen (kb_consult (\<lambda>k. kb_clock E k)) (\<lambda>now.
       on_result (status_Save E (mgr_rootDir M)
         (st\<lparr>st_IndexStatus := StatusReady, st_IndexedChunks := int n, st_LastIndexedAt := Some (int now),
             st_LastIndexError := [], st_ActiveJobID := []\<rparr>)) (\<lambda>_. ok ()))"

definition reindex_body :: "'q kb_env \<Rightarrow> kb_Manager \<Rightarrow> string \<Rightarrow> string \<Rightarrow> ('q, unit) kb_eff" where
  "reindex_body E M siteID jobID =
     on_result (status_Load E (mgr_rootDir M) siteID) (\<lambda>loaded. case loaded of
         Inl _ \<Rightarrow> ok ()
       | Inr st0 \<Rightarrow>
           let st = st0\<lparr>st_IndexStatus := StatusIndexing, st_ActiveJobID := jobID,
                        st_KnowledgeDir := knowledgeDirForSite (mgr_rootDir M) siteID\<rparr>
           in on_result (status_Save E (mgr_rootDir M) st) (\<lambda>_.
              andThen (kb_consult (\<lambda>n. loadSiteChunks (kb_loader E) siteID (kb_site_dir E n siteID))) (\<lambda>found.
                case found of
                  Inl err \<Rightarrow> reindex_fails E M st err
                | Inr chunks \<Rightarrow>
                    on_result (embed_batches E siteID (batches (nat (indexEmbedBatch M)) chunks)) (\<lambda>embedded. case embedded of
                        Inl err \<Rightarrow> reindex_fails E M st err
                      | Inr points \<Rightarrow>
                          on_result (replace_index E M siteID points) (\<lambda>replaced. case replaced of
                              Inl err \<Rightarrow> reindex_fails E M st err
                            | Inr _ \<Rightarrow> reindex_ready E M st (length points))))))"

text \<open>The deferred function forgets the job, however the body ends.\<close>

definition runReindex :: "'q kb_env \<Rightarrow> kb_Manager \<Rightarrow> string \<Rightarrow> string \<Rightarrow> ('q, unit) kb_eff" where
  "runReindex E M siteID jobID =
     attempt (reindex_body E M siteID jobID) (\<lambda>r. andThen (forget_job siteID) (\<lambda>_. lift_result r))"

section \<open>The search\<close>

definition semanticSearch :: "'q kb_env \<Rightarrow> kb_Manager \<Rightarrow> string \<Rightarrow> string \<Rightarrow> ('q, qdrantSearchResult list) kb_eff" where
  "semanticSearch E M siteID query =
     (case (kb_embedder E, mgr_qdrant M) of
        (Some emb, Some c) \<Rightarrow>
          andThen (kb_consult (\<lambda>n. emb n [query])) (\<lambda>r. case r of
            Inl err \<Rightarrow> failed err
          | Inr vectors \<Rightarrow>
              if vectors = [] \<or> hd vectors = [] then failed ''query embedding is empty''
              else qdrant_Search E c siteID (hd vectors) (retrievalCandidate M))
      | _ \<Rightarrow> fail Panicked)"

definition site_keyword_candidates :: "'q kb_env \<Rightarrow> string \<Rightarrow> string \<Rightarrow> int \<Rightarrow> ('q, qdrantSearchResult list) kb_eff" where
  "site_keyword_candidates E siteID query limit =
     andThen (kb_consult (\<lambda>n. loadSiteChunks (kb_loader E) siteID (kb_site_dir E n siteID))) (\<lambda>found.
       ok (case found of Inl _ \<Rightarrow> [] | Inr chunks \<Rightarrow> keywordSearchCandidates chunks query limit))"

text \<open>The results of the vector search, and the error that an empty search reports.\<close>

definition vector_candidates :: "'q kb_env \<Rightarrow> kb_Manager \<Rightarrow> string \<Rightarrow> string \<Rightarrow> ('q, qdrantSearchResult list \<times> string option) kb_eff" where
  "vector_candidates E M siteID query =
     on_result (GetStatus E M siteID) (\<lambda>r. case r of
         Inl err \<Rightarrow> ok ([], Some err)
       | Inr st \<Rightarrow>
           if st_IndexStatus st = StatusReady \<and> st_IndexedChunks st > 0 \<and> kb_embedder E \<noteq> None \<and> mgr_qdrant M \<noteq> None
           then on_result (semanticSearch E M siteID query) (\<lambda>found. case found of
               Inl err \<Rightarrow> ok ([], Some err) | Inr rs \<Rightarrow> ok (rs, None))
           else ok ([], None))"

definition reranked :: "kb_Manager \<Rightarrow> qdrantSearchResult list \<Rightarrow> nat list \<Rightarrow> (int \<times> rat) list \<Rightarrow> qdrantSearchResult list" where
  "reranked M candidates candidateIndexes rerankResults =
     (let scored = map (\<lambda>(i, score). (candidates ! (candidateIndexes ! nat i))\<lparr>qr_Score := score\<rparr>)
            (filter (\<lambda>(i, score). 0 \<le> i \<and> i < int (length candidateIndexes) \<and> rerankMinScore M \<le> score) rerankResults);
          sorted = sort_key (\<lambda>item. (- qr_Score item, qr_ID item)) scored
      in if scored = [] then fallbackSearchResults candidates (rerankTopK M) else take (nat (rerankTopK M)) sorted)"

definition kb_Search_run :: "'q kb_env \<Rightarrow> kb_Manager \<Rightarrow> string \<Rightarrow> string \<Rightarrow> ('q, qdrantSearchResult list) kb_eff" where
  "kb_Search_run E M siteID0 query0 =
     (let siteID = TrimSpace siteID0; query = TrimSpace query0 in
      if siteID = [] then failed ''site_id is required''
      else if query = [] then failed ''query is required''
      else andThen (site_keyword_candidates E siteID query (max (retrievalCandidate M * 2) 24)) (\<lambda>keywordCandidates.
        let direct = selectAuthoritativeCandidates query keywordCandidates (rerankTopK M) in
        if direct \<noteq> [] then ok (fallbackSearchResults direct (rerankTopK M))
        else andThen (vector_candidates E M siteID query) (\<lambda>(vectorCandidates, err).
          let candidates = prioritizeSearchCandidates query
                (mergeSearchCandidates vectorCandidates keywordCandidates (retrievalCandidate M))
          in if candidates = [] then (case err of Some e \<Rightarrow> failed e | None \<Rightarrow> ok [])
             else (case kb_reranker E of
               None \<Rightarrow> ok (fallbackSearchResults candidates (rerankTopK M))
             | Some rerank \<Rightarrow>
                 let inputs = buildRerankInputs candidates in
                 andThen (kb_consult (\<lambda>n. rerank n query (map fst inputs))) (\<lambda>r. case r of
                     Inl _ \<Rightarrow> ok (fallbackSearchResults candidates (rerankTopK M))
                   | Inr results \<Rightarrow> ok (reranked M candidates (map snd inputs) results))))))"

end
