(* ===== verification/Ai_Clients.thy ===== *)
theory Ai_Clients
  imports Kb_Index
begin

text \<open>
  The clients of the language models of ai-service: chat and embeddings (\<^verbatim>\<open>internal/openai/client.go\<close>) and the
  reranker (\<^verbatim>\<open>internal/reranker/client.go\<close>).  The network and the JSON decoder are parameters; the texts of
  some errors are shortened.
\<close>

section \<open>Chat and embeddings\<close>

record llm_client =
  llm_baseURL :: string
  llm_model :: string
  llm_apiKey :: string

definition trim_url :: "string \<Rightarrow> string" where
  "trim_url u = trim_right_runes [''/''] (TrimSpace u)"

definition llm_New :: "string \<Rightarrow> string \<Rightarrow> string \<Rightarrow> llm_client" where
  "llm_New baseURL model apiKey = \<lparr>llm_baseURL = trim_url baseURL, llm_model = TrimSpace model, llm_apiKey = TrimSpace apiKey\<rparr>"

datatype llm_body =
    NoLLMBody
  | EmbeddingsBody string "string list"
  | CompletionBody string "(string \<times> string) list" rat int

record llm_request =
  llm_method :: string
  llm_url :: string
  llm_headers :: "(string \<times> string) list"
  llm_body :: llm_body

text \<open>A response with the decoded fields that are used; \<open>None\<close> when decoding fails.\<close>

record llm_payload =
  pl_ErrorMessage :: string
  pl_Data :: "(int \<times> rat list) list"
  pl_Choices :: "string list"

record llm_response =
  lr_StatusCode :: int
  lr_Payload :: "llm_payload option"

type_synonym llm_network = "llm_request \<Rightarrow> string + llm_response"

definition llm_doJSON :: "llm_network \<Rightarrow> llm_client \<Rightarrow> string \<Rightarrow> string \<Rightarrow> llm_body \<Rightarrow> string + llm_response" where
  "llm_doJSON Do c meth path body =
     Do \<lparr>llm_method = meth, llm_url = llm_baseURL c @ path,
         llm_headers = (''Content-Type'', ''application/json'')
           # (if llm_apiKey c = [] then [] else [(''Authorization'', ''Bearer '' @ llm_apiKey c)]),
         llm_body = body\<rparr>"

definition http_success :: "int \<Rightarrow> bool" where
  "http_success code \<longleftrightarrow> 200 \<le> code \<and> code < 300"

definition llm_Ready :: "llm_network \<Rightarrow> llm_client \<Rightarrow> string + unit" where
  "llm_Ready Do c =
     (case llm_doJSON Do c ''GET'' ''/models'' NoLLMBody of
        Inl err \<Rightarrow> Inl err
      | Inr resp \<Rightarrow> if http_success (lr_StatusCode resp) then Inr () else Inl ''models endpoint unavailable'')"

definition llm_payload_of :: "string \<Rightarrow> llm_response \<Rightarrow> string + llm_payload" where
  "llm_payload_of what resp =
     (case lr_Payload resp of
        None \<Rightarrow> Inl (''decode '' @ what @ '' response failed'')
      | Some p \<Rightarrow>
          if http_success (lr_StatusCode resp) then Inr p
          else if TrimSpace (pl_ErrorMessage p) \<noteq> [] then Inl (pl_ErrorMessage p)
          else Inl (what @ '' request failed''))"

text \<open>The vectors in the order of their numbers; a later one with the same number wins.\<close>

definition place_vector :: "rat list list \<Rightarrow> int \<times> rat list \<Rightarrow> rat list list" where
  "place_vector out item = (if fst item < 0 \<or> int (length out) \<le> fst item then out else out[nat (fst item) := snd item])"

definition CreateEmbeddings :: "llm_network \<Rightarrow> llm_client \<Rightarrow> string list \<Rightarrow> string + rat list list" where
  "CreateEmbeddings Do c inputs =
     (if inputs = [] then Inr []
      else case llm_doJSON Do c ''POST'' ''/embeddings'' (EmbeddingsBody (llm_model c) inputs) of
        Inl err \<Rightarrow> Inl err
      | Inr resp \<Rightarrow>
          (case llm_payload_of ''embeddings'' resp of
            Inl err \<Rightarrow> Inl err
          | Inr p \<Rightarrow>
              let out = foldl place_vector (replicate (length inputs) []) (pl_Data p) in
              if [] \<in> set out then Inl ''missing embedding for input index'' else Inr out))"

definition ChatCompletion_call :: "llm_network \<Rightarrow> llm_client \<Rightarrow> (string \<times> string) list \<Rightarrow> rat \<Rightarrow> int \<Rightarrow> string + string" where
  "ChatCompletion_call Do c messages temperature maxTokens =
     (case llm_doJSON Do c ''POST'' ''/chat/completions'' (CompletionBody (llm_model c) messages temperature maxTokens) of
        Inl err \<Rightarrow> Inl err
      | Inr resp \<Rightarrow>
          (case llm_payload_of ''chat completion'' resp of
            Inl err \<Rightarrow> Inl err
          | Inr p \<Rightarrow> (case pl_Choices p of [] \<Rightarrow> Inl ''chat completion returned no choices'' | content # _ \<Rightarrow> Inr (TrimSpace content))))"

lemma place_vectors_length [simp]: "length (foldl place_vector out items) = length out"
  by (induction items arbitrary: out) (simp_all add: place_vector_def)

text \<open>One vector for every text, and none is empty.\<close>

lemma CreateEmbeddings_complete:
  "CreateEmbeddings Do c inputs = Inr out \<Longrightarrow> length out = length inputs \<and> [] \<notin> set out"
  by (auto simp: CreateEmbeddings_def Let_def split: if_splits sum.splits)

section \<open>The reranker\<close>

record rerank_request =
  rq_url :: string
  rq_query :: string
  rq_texts :: "string list"

text \<open>A response: the body, unless reading it fails, and what decoding it as a list or as an object gives.\<close>

record rerank_response =
  rr_StatusCode :: int
  rr_Body :: "string option"
  rr_List :: "(int \<times> rat) list option"
  rr_Wrapped :: "((int \<times> rat) list \<times> (int \<times> rat) list) option"

definition Rerank :: "(rerank_request \<Rightarrow> string + rerank_response) \<Rightarrow> string \<Rightarrow> string \<Rightarrow> string list \<Rightarrow> string + (int \<times> rat) list" where
  "Rerank Do baseURL query0 texts =
     (let query = TrimSpace query0 in
      if query = [] then Inl ''query is required''
      else if texts = [] then Inr []
      else case Do \<lparr>rq_url = baseURL @ ''/rerank'', rq_query = query, rq_texts = texts\<rparr> of
        Inl err \<Rightarrow> Inl err
      | Inr resp \<Rightarrow>
          (case rr_Body resp of
            None \<Rightarrow> Inl ''read rerank response failed''
          | Some body \<Rightarrow>
              if \<not> http_success (rr_StatusCode resp) then
                Inl (if TrimSpace body = [] then ''rerank request failed'' else ''rerank request failed: '' @ TrimSpace body)
              else (case rr_List resp of
                Some results \<Rightarrow> Inr results
              | None \<Rightarrow>
                  (case rr_Wrapped resp of
                    None \<Rightarrow> Inl ''decode rerank response failed''
                  | Some (results, items) \<Rightarrow> Inr (if results \<noteq> [] then results else items)))))"

definition rerank_Ready :: "(string \<Rightarrow> string + int) \<Rightarrow> (rerank_request \<Rightarrow> string + rerank_response) \<Rightarrow> string \<Rightarrow> string + unit" where
  "rerank_Ready health Do baseURL =
     (if baseURL = [] then Inl ''reranker base_url is required''
      else case health (baseURL @ ''/health'') of
        Inr code \<Rightarrow> if http_success code then Inr ()
          else (case Rerank Do baseURL ''health'' [''health'', ''check''] of Inl err \<Rightarrow> Inl ''reranker health check failed'' | Inr _ \<Rightarrow> Inr ())
      | Inl _ \<Rightarrow>
          (case Rerank Do baseURL ''health'' [''health'', ''check''] of Inl err \<Rightarrow> Inl ''reranker health check failed'' | Inr _ \<Rightarrow> Inr ()))"

end
