(* ===== verification/Kb_Reindex.thy ===== *)
theory Kb_Reindex
  imports Ai_Clients
begin

text \<open>
  How a site is indexed: one job at a time, every chunk with a vector of its own, the points of the site
  replaced and those of other sites untouched, and what becomes of the status of a job that is interrupted.
\<close>

section \<open>One job at a time\<close>

text \<open>While a job runs, another request joins it and changes nothing.\<close>

lemma running_job_is_joined:
  assumes "TrimSpace siteID \<noteq> []" "active_job w (TrimSpace siteID) \<noteq> []"
  shows "TriggerReindex E M siteID w =
    (Inr \<lparr>job_SiteID = TrimSpace siteID, job_JobID = active_job w (TrimSpace siteID), job_Status = StatusIndexing\<rparr>, w)"
  using assms by (simp add: TriggerReindex_def Let_def)

text \<open>However a job ends, it is forgotten and the jobs of other sites go on.\<close>

lemma run_forgets_job:
  assumes "runReindex E M siteID jobID w = (r, w')"
  shows "activeJobs w' siteID = None"
  using assms by (auto simp: runReindex_def attempt_def andThen_def forget_job_def lift_result_def split: prod.splits)

definition jobs_kept :: "'q kb_world \<Rightarrow> 'q kb_world \<Rightarrow> bool" where
  "jobs_kept w w' \<longleftrightarrow> activeJobs w' = activeJobs w \<and> started_jobs w' = started_jobs w"

lemma jobs_kept_preorder: "reflp jobs_kept" "transp jobs_kept"
  by (simp_all add: jobs_kept_def reflp_def transp_def)

lemma on_result_keeps [keeps_intros]:
  assumes "transp R" "reflp R" "keeps R m" "\<And>x. keeps R (k x)"
  shows "keeps R (on_result m k)"
  unfolding on_result_def
proof (rule keeps_attempt [OF assms(1,3)])
  show "keeps R (case x of Inl (Failed err) \<Rightarrow> k (Inl err) | Inl Panicked \<Rightarrow> fail Panicked | Inr a \<Rightarrow> k (Inr a))" for x
    by (simp add: assms(4) keeps_fail [OF assms(2)] split: sum.split kb_error.split)
qed

lemma consult_keeps_jobs [keeps_intros]: "keeps jobs_kept (kb_consult f)"
  by (auto simp: keeps_def kb_consult_def jobs_kept_def)

lemma failed_keeps_jobs [keeps_intros]: "keeps jobs_kept (failed err)"
  by (simp add: failed_def keeps_intros jobs_kept_preorder)

lemma doJSON_keeps_jobs [keeps_intros]: "keeps jobs_kept (doJSON E c meth path body)"
  by (auto simp: keeps_def doJSON_def jobs_kept_def split: prod.splits)

lemma Save_keeps_jobs [keeps_intros]: "keeps jobs_kept (status_Save E rootDir st)"
  by (auto simp: keeps_def status_Save_def jobs_kept_def Let_def split: if_splits)

lemma Load_keeps_jobs [keeps_intros]: "keeps jobs_kept (status_Load E rootDir siteID)"
proof -
  have "keeps jobs_kept (\<lambda>w. kb_consult (\<lambda>n. if disk_read E n then None else Some (status_files w (pathFor rootDir siteID))) w)"
    by (auto simp: keeps_def kb_consult_def jobs_kept_def)
  then show ?thesis unfolding status_Load_def by (intro keeps_intros jobs_kept_preorder)
qed

lemma upsert_all_keeps_jobs [keeps_intros]: "keeps jobs_kept (upsert_all E c pss)"
  by (induction pss) (auto simp: upsert_def intro!: keeps_intros jobs_kept_preorder)

lemma replace_keeps_jobs [keeps_intros]: "keeps jobs_kept (replace_index E M siteID points)"
  unfolding replace_index_def ReplaceSite_def deleteSite_def ensureCollection_def
  by (intro keeps_intros jobs_kept_preorder)

lemma embed_keeps_jobs [keeps_intros]: "keeps jobs_kept (embed_batches E siteID bs)"
  by (induction bs) (auto intro!: keeps_intros jobs_kept_preorder split: option.split)

lemma body_keeps_jobs: "keeps jobs_kept (reindex_body E M siteID jobID)"
  unfolding reindex_body_def reindex_fails_def reindex_ready_def Let_def
  by (intro keeps_intros jobs_kept_preorder)

lemma run_keeps_other_jobs:
  assumes "runReindex E M siteID jobID w = (r, w')"
  shows "activeJobs w' = (activeJobs w)(siteID := None)"
  using assms by (auto simp: runReindex_def attempt_def andThen_def forget_job_def lift_result_def jobs_kept_def
      split: prod.splits dest!: keepsD [OF body_keeps_jobs])

section \<open>Every chunk gets its vector\<close>

lemma batches_all: "0 < n \<Longrightarrow> concat (batches n xs) = xs"
  by (induction n xs rule: batches.induct) (subst batches.simps, auto)

lemma batches_small: "b \<in> set (batches n xs) \<Longrightarrow> b \<noteq> [] \<and> length b \<le> n"
proof (induction n xs rule: batches.induct)
  case (1 n xs)
  then show ?case by (subst (asm) (2) batches.simps) (auto split: if_splits)
qed

text \<open>With the client of the embeddings no chunk is left out: the points are the chunks in their order.\<close>

lemma points_are_chunks:
  assumes "kb_embedder E = Some (\<lambda>n. CreateEmbeddings (net n) c)"
  shows "embed_batches E siteID bs w = (Inr points, w') \<Longrightarrow> map vp_ID points = map ck_ID (concat bs)
    \<and> list_all (\<lambda>p. vp_SiteID p = siteID \<and> vp_Vector p \<noteq> []) points"
proof (induction bs arbitrary: w points)
  case (Cons b bs)
  let ?r = "CreateEmbeddings (net (kw_tick w)) c (map index_text b)"
  from Cons.prems assms obtain vectors later w1 where r: "?r = Inr vectors" "embed_batches E siteID bs w1 = (Inr later, w')"
    and points: "points = map (point_of siteID) (zip b vectors) @ later"
    by (auto simp: andThen_def kb_consult_def failed_def split: sum.splits prod.splits)
  have l: "length vectors = length b" "[] \<notin> set vectors" using CreateEmbeddings_complete [OF r(1)] by simp_all
  have "map vp_ID (map (point_of siteID) (zip b vectors)) = map ck_ID b"
    using l(1) by (auto simp: point_of_def list_eq_iff_nth_eq)
  moreover have "list_all (\<lambda>p. vp_SiteID p = siteID \<and> vp_Vector p \<noteq> []) (map (point_of siteID) (zip b vectors))"
    using l(2) by (auto simp: list_all_iff point_of_def dest: set_zip_rightD)
  ultimately show ?case using Cons.IH [OF r(2)] points by simp
qed simp

section \<open>The points of the site are replaced\<close>

text \<open>
  What the vector database documents of the requests it acknowledges: a deletion removes the points of the
  site, an upsert puts the points in the place of those with the same identifier, looking at the
  collection and creating it change no point; \<open>stored\<close> are the points of the collection.
\<close>

definition upserted :: "vectorPoint list \<Rightarrow> vectorPoint list \<Rightarrow> vectorPoint list" where
  "upserted old points = filter (\<lambda>p. vp_ID p \<notin> vp_ID ` set points) old @ points"

fun acknowledged :: "qd_body \<Rightarrow> qd_response \<Rightarrow> vectorPoint list \<Rightarrow> vectorPoint list \<Rightarrow> bool" where
  "acknowledged (SiteBody siteID) resp old new \<longleftrightarrow>
     (qd_ok resp \<longrightarrow> new = filter (\<lambda>p. vp_SiteID p \<noteq> siteID) old) \<and> (qd_StatusCode resp = 404 \<longrightarrow> new = old \<and> old = [])"
| "acknowledged (PointsBody points) resp old new \<longleftrightarrow> (qd_ok resp \<and> distinct (map vp_ID points) \<longrightarrow> new = upserted old points)"
| "acknowledged _ resp old new \<longleftrightarrow> new = old"

definition vector_store :: "'q kb_env \<Rightarrow> ('q \<Rightarrow> vectorPoint list) \<Rightarrow> bool" where
  "vector_store E stored \<longleftrightarrow> (\<forall>n rq q resp q'. qdrant_Do E n rq q = (Inr resp, q') \<longrightarrow>
     acknowledged (qd_body rq) resp (stored q) (stored q'))"

lemma doJSON_run:
  assumes "vector_store E stored" "doJSON E c meth path body w = (Inr resp, w')"
  shows "acknowledged body resp (stored (kw_qdrant w)) (stored (kw_qdrant w'))"
  using assms by (auto simp: doJSON_def vector_store_def split: prod.splits sum.splits) (metis qd_request.select_convs(4))

lemma ensureCollection_run:
  "vector_store E stored \<Longrightarrow> ensureCollection E c n w = (Inr u, w') \<Longrightarrow> stored (kw_qdrant w') = stored (kw_qdrant w)"
  by (auto simp: ensureCollection_def run_andThen failed_def split: if_splits) (metis doJSON_run acknowledged.simps(3,4))+

lemma deleteSite_run:
  "vector_store E stored \<Longrightarrow> deleteSite E c siteID w = (Inr u, w') \<Longrightarrow>
   stored (kw_qdrant w') = filter (\<lambda>p. vp_SiteID p \<noteq> siteID) (stored (kw_qdrant w))"
  by (auto simp: deleteSite_def run_andThen failed_def split: if_splits dest!: doJSON_run)

lemma upserted_twice:
  assumes "vp_ID ` set ps \<inter> vp_ID ` set qs = {}"
  shows "upserted (upserted old ps) qs = upserted old (ps @ qs)"
proof -
  have "filter (\<lambda>p. vp_ID p \<notin> vp_ID ` set qs) ps = ps" using assms by (auto simp: filter_id_conv)
  then show ?thesis by (simp add: upserted_def image_Un conj_commute)
qed

lemma upsert_all_run:
  assumes "vector_store E stored"
  shows "upsert_all E c pss w = (Inr u, w') \<Longrightarrow> distinct (map vp_ID (concat pss)) \<Longrightarrow>
    stored (kw_qdrant w') = upserted (stored (kw_qdrant w)) (concat pss)"
proof (induction pss arbitrary: w)
  case (Cons ps pss)
  then obtain w1 where w1: "upsert E c ps w = (Inr (), w1)" "upsert_all E c pss w1 = (Inr u, w')"
    by (auto simp: run_andThen)
  have "stored (kw_qdrant w1) = upserted (stored (kw_qdrant w)) ps"
    using w1(1) Cons.prems(2) by (auto simp: upsert_def run_andThen failed_def split: if_splits dest!: doJSON_run [OF assms])
  moreover have "vp_ID ` set ps \<inter> vp_ID ` set (concat pss) = {}" "distinct (map vp_ID (concat pss))"
    using Cons.prems(2) by auto
  ultimately show ?case using Cons.IH [OF w1(2)] by (simp add: upserted_twice)
qed (simp add: upserted_def)

text \<open>The points of a site after an acknowledged replacement are the given ones, those of other sites are the same.\<close>

lemma ReplaceSite_exact:
  assumes "vector_store E stored" "ReplaceSite E c siteID points w = (Inr u, w')"
    and "distinct (map vp_ID points)" "list_all (\<lambda>p. vp_SiteID p = siteID) points"
    and "\<forall>p \<in> set (stored (kw_qdrant w)). vp_SiteID p \<noteq> siteID \<longrightarrow> vp_ID p \<notin> vp_ID ` set points"
  shows "stored (kw_qdrant w') = filter (\<lambda>p. vp_SiteID p \<noteq> siteID) (stored (kw_qdrant w)) @ points"
proof (cases "points = []")
  case True
  with assms(2) deleteSite_run [OF assms(1)] show ?thesis by (auto simp: ReplaceSite_def failed_def split: if_splits)
next
  case False
  with assms(2) obtain w1 w2 n where w: "ensureCollection E c n w = (Inr (), w1)" "deleteSite E c siteID w1 = (Inr (), w2)"
      "upsert_all E c (batches 64 points) w2 = (Inr u, w')"
    by (auto simp: ReplaceSite_def failed_def run_andThen split: if_splits)
  have "stored (kw_qdrant w2) = filter (\<lambda>p. vp_SiteID p \<noteq> siteID) (stored (kw_qdrant w))"
    using ensureCollection_run [OF assms(1) w(1)] deleteSite_run [OF assms(1) w(2)] by simp
  moreover have "stored (kw_qdrant w') = upserted (stored (kw_qdrant w2)) points"
    using upsert_all_run [OF assms(1) w(3)] assms(3) by (simp add: batches_all)
  ultimately show ?thesis using assms(5) by (auto simp: upserted_def filter_id_conv simp del: filter_filter)
qed

section \<open>The status of an interrupted job\<close>

text \<open>
  A status file that says \<open>indexing\<close> is answered as it is when no job of the site runs: nothing puts it
  right when the process was stopped, or when the last write of a job failed.
\<close>

lemma stale_indexing_status:
  assumes "TrimSpace siteID \<noteq> []" "active_job w (TrimSpace siteID) = []" "\<not> disk_read E (kw_tick w)"
    and "status_files w (pathFor (mgr_rootDir M) (TrimSpace siteID)) = Some raw" "TrimSpace raw \<noteq> []"
    and "status_Unmarshal E raw (fresh_status (mgr_rootDir M) (TrimSpace siteID)) = Some st"
    and "st_IndexStatus st = StatusIndexing"
  shows "\<exists>st'. fst (GetStatus E M siteID w) = Inr st' \<and> st_IndexStatus st' = StatusIndexing"
proof -
  have "TrimSpace StatusIndexing \<noteq> []" by code_simp
  with assms show ?thesis
    by (simp add: GetStatus_def Let_def status_Load_def andThen_def kb_consult_def ok_def status_defaults_def active_job_def)
qed

end
