(* ===== verification/Service_Http.thy ===== *)
theory Service_Http
  imports Gateway_Admin Identity_Rules
begin

text \<open>
  The HTTP interfaces of the services themselves, beside their gRPC servers: auth-service
  (\<^verbatim>\<open>services/auth-service/internal/handler/http.go\<close>), chat-service (\<^verbatim>\<open>services/chat-service/internal/handler/http.go\<close>)
  and admin-service (\<^verbatim>\<open>services/admin-service/internal/handler/http.go\<close>).  The binding rules are those of the
  gateway.  A handler fails with an answer when it stops early.
\<close>

section \<open>Answers\<close>

definition svc_error :: "nat \<Rightarrow> string \<Rightarrow> http_response" where
  "svc_error status message = \<lparr>rsp_status = status, rsp_body = BodyJSON (JObject [(''error'', JString message)])\<rparr>"

definition svc_bind :: "('a \<Rightarrow> bool) \<Rightarrow> ('a, 'm) http_request_scheme \<Rightarrow> ('w, http_response, 'a) eff" where
  "svc_bind rules c =
     (case req_body c of
        Inl err \<Rightarrow> fail (svc_error 400 err)
      | Inr q \<Rightarrow> if rules q then ok q else fail (svc_error 400 (bind_text c q)))"

text \<open>The status of an answer to an error of the service: the first sentinel that it is, or the default.\<close>

definition error_status :: "nat \<Rightarrow> ('s \<times> nat) list \<Rightarrow> 's goerr \<Rightarrow> nat" where
  "error_status default_status statuses err =
     (case find (\<lambda>p. errors_Is err (fst p)) statuses of None \<Rightarrow> default_status | Some p \<Rightarrow> snd p)"

definition svc_answer ::
  "('s \<Rightarrow> string) \<Rightarrow> nat \<Rightarrow> ('s \<times> nat) list \<Rightarrow> ('w, 's goerr, 'x) eff \<Rightarrow> nat \<Rightarrow> ('x \<Rightarrow> json) \<Rightarrow> ('w, http_response, http_response) eff" where
  "svc_answer text_of default_status statuses m status f =
     andThen (map_error (\<lambda>err. svc_error (error_status default_status statuses err) (Error text_of err)) m)
       (\<lambda>x. ok (ok_JSON status (f x)))"

section \<open>auth-service\<close>

definition agent_model_json :: "agent \<Rightarrow> json" where
  "agent_model_json a = JObject
     [(''id'', JUint (ag_ID a)), (''email'', JString (ag_Email a)), (''display_name'', JString (ag_DisplayName a)),
      (''site_id'', JString (ag_SiteID a)), (''role'', JString (ag_Role a)), (''status'', JString (ag_Status a)),
      (''token_version'', JNumber (uint (ag_TokenVersion a))), (''created_at'', JTime (ag_CreatedAt a)),
      (''updated_at'', JTime (ag_UpdatedAt a))]"

definition auth_login_http ::
  "identity_env \<Rightarrow> auth_service \<Rightarrow> (string \<Rightarrow> bool) \<Rightarrow> login_input http_request \<Rightarrow> (identity_world, http_response, http_response) eff" where
  "auth_login_http e s is_email c =
     andThen (svc_bind (login_rules is_email) c) (\<lambda>q.
       svc_answer identity_text 400 [(Auth_ErrInvalidCredential, 401), (Auth_ErrUnauthorized, 403)] (Login e s q) 200
         (\<lambda>r. JObject [(''token'', JString (fst r)), (''agent'', agent_model_json (snd r))]))"

definition auth_me_http ::
  "identity_env \<Rightarrow> auth_service \<Rightarrow> unit http_request \<Rightarrow> (identity_world, http_response, http_response) eff" where
  "auth_me_http e s c =
     (let token = parseBearerToken (Authorization c); invalid = (\<lambda>_. svc_error 401 ''invalid token'') in
      if token = [] then fail (svc_error 401 ''missing bearer token'')
      else andThen (map_error invalid (ValidateToken e s token)) (\<lambda>cl.
        andThen (if cl_Role cl = ''agent'' \<or> cl_Role cl = ''admin''
                 then andThen (map_error invalid (GetAgentByID e (cl_AgentID cl))) (\<lambda>a. ok (ag_SiteID a))
                 else ok []) (\<lambda>siteID.
          ok (ok_JSON 200 (JObject
            [(''agent_id'', JUint (cl_AgentID cl)), (''email'', JString (cl_Email cl)), (''role'', JString (cl_Role cl)),
             (''exp'', case cl_ExpiresAt cl of None \<Rightarrow> JNull | Some t \<Rightarrow> JNumber t), (''site_id'', JString siteID)])))))"

section \<open>chat-service\<close>

definition omit :: "string \<Rightarrow> ('x \<Rightarrow> json) \<Rightarrow> 'x option \<Rightarrow> (string \<times> json) list" where
  "omit key f x = (case x of None \<Rightarrow> [] | Some v \<Rightarrow> [(key, f v)])"

definition conversation_model_json :: "conversation \<Rightarrow> json" where
  "conversation_model_json c = JObject
     ([(''id'', JUint (conv_ID c)), (''site_id'', JString (conv_SiteID c)), (''visitor_token'', JString (conv_VisitorToken c)),
       (''status'', JString (conv_Status c))]
      @ omit ''assigned_agent_id'' JUint (conv_AssignedAgentID c)
      @ omit ''pending_transfer_to_agent_id'' JUint (conv_PendingTransferToAgentID c)
      @ omit ''pending_transfer_from_agent_id'' JUint (conv_PendingTransferFromAgentID c)
      @ omit ''pending_transfer_requested_at'' JTime (conv_PendingTransferRequestedAt c)
      @ [(''created_at'', JTime (conv_CreatedAt c)), (''updated_at'', JTime (conv_UpdatedAt c))]
      @ omit ''closed_at'' JTime (conv_ClosedAt c) @ omit ''closed_by_agent_id'' JUint (conv_ClosedByAgentID c))"

definition message_model_json :: "message \<Rightarrow> json" where
  "message_model_json m = JObject
     ([(''id'', JUint (msg_ID m)), (''conversation_id'', JUint (msg_ConversationID m)), (''sender_type'', JString (msg_SenderType m))]
      @ (if msg_SenderID m = [] then [] else [(''sender_id'', JString (msg_SenderID m))])
      @ [(''content'', JString (msg_Content m)), (''client_msg_id'', JString (msg_ClientMsgID m)), (''status'', JString (msg_Status m)),
         (''created_at'', JTime (msg_CreatedAt m)), (''updated_at'', JTime (msg_UpdatedAt m))])"

type_synonym chat_handler = "(world, http_response, http_response) eff"

definition parseConversationID_http :: "('a, 'm) http_request_scheme \<Rightarrow> (world, http_response, uint64) eff" where
  "parseConversationID_http c =
     (case ParseUint (Param c ''id'') of None \<Rightarrow> fail (svc_error 400 ''invalid conversation id'') | Some i \<Rightarrow> ok i)"

definition createConversation_http :: "env \<Rightarrow> chat_service \<Rightarrow> CreateConversationInput http_request \<Rightarrow> chat_handler" where
  "createConversation_http e s c =
     andThen (svc_bind (\<lambda>q. cci_SiteID q \<noteq> [] \<and> cci_VisitorToken q \<noteq> []) c) (\<lambda>q.
       svc_answer sentinel_text 500 [] (CreateConversation e s q) 201 conversation_model_json)"

definition getConversation_http :: "env \<Rightarrow> unit http_request \<Rightarrow> chat_handler" where
  "getConversation_http e c =
     andThen (parseConversationID_http c) (\<lambda>i.
       svc_answer sentinel_text 500 [(ErrConversationNotFound, 404)] (GetConversation e i) 200 conversation_model_json)"

text \<open>The body of a message; the conversation is the one of the path.\<close>

definition createMessage_http :: "env \<Rightarrow> chat_service \<Rightarrow> CreateMessageInput http_request \<Rightarrow> chat_handler" where
  "createMessage_http e s c =
     andThen (parseConversationID_http c) (\<lambda>i.
     andThen (svc_bind (\<lambda>q. cmi_SenderType q \<noteq> [] \<and> cmi_Content q \<noteq> [] \<and> cmi_ClientMsgID q \<noteq> []) c) (\<lambda>q.
       svc_answer sentinel_text 400 [(ErrConversationNotFound, 404)] (CreateMessage e s (q\<lparr>cmi_ConversationID := i\<rparr>)) 201
         message_model_json))"

definition listMessages_http :: "env \<Rightarrow> unit http_request \<Rightarrow> chat_handler" where
  "listMessages_http e c =
     andThen (parseConversationID_http c) (\<lambda>i.
       let rawLimit = Query c ''limit''; rawBefore = Query c ''before_id'';
           limit = (if rawLimit = [] then Some 50
                    else case Atoi rawLimit of None \<Rightarrow> None | Some v \<Rightarrow> if v \<le> 0 \<or> v > 200 then None else Some (nat v));
           before = (if rawBefore = [] then Some 0 else ParseUint rawBefore)
       in case limit of
            None \<Rightarrow> fail (svc_error 400 ''invalid limit'')
          | Some n \<Rightarrow>
              (case before of
                 None \<Rightarrow> fail (svc_error 400 ''invalid before_id'')
               | Some b \<Rightarrow>
                   svc_answer sentinel_text 500 [(ErrConversationNotFound, 404)] (ListMessages e i n b) 200
                     (items_JSON message_model_json)))"

section \<open>admin-service\<close>

record 'a admin_request = "'a http_request" +
  UserAgent :: string

type_synonym admin_handler = "(identity_world, http_response, http_response) eff"

text \<open>The zero value of \<^verbatim>\<open>time.Time\<close> in nanoseconds.\<close>

definition go_zero_time :: time where
  "go_zero_time = - (62135596800 * 1000000000)"

definition site_model_json :: "site_model \<Rightarrow> json" where
  "site_model_json s = JObject
     [(''id'', JUint (st_ID s)), (''site_id'', JString (st_SiteID s)), (''name'', JString (st_Name s)),
      (''widget_key'', JString (st_WidgetKey s)), (''status'', JString (st_Status s)),
      (''created_at'', JTime (st_CreatedAt s)), (''updated_at'', JTime (st_UpdatedAt s)),
      (''domains'', case st_Domains s of None \<Rightarrow> JNull | Some ds \<Rightarrow> JArray (map JString ds))]"

definition ai_config_model_json :: "site_ai_config \<Rightarrow> json" where
  "ai_config_model_json a = JObject
     [(''site_id'', JString (ai_SiteID a)), (''enabled'', JBool (ai_Enabled a)), (''reply_mode'', JString (ai_ReplyMode a)),
      (''created_at'', JTime (case ai_CreatedAt a of None \<Rightarrow> go_zero_time | Some t \<Rightarrow> t)),
      (''updated_at'', JTime (case ai_UpdatedAt a of None \<Rightarrow> go_zero_time | Some t \<Rightarrow> t))]"

definition auditLogToJSON :: "audit_log \<Rightarrow> json" where
  "auditLogToJSON l = JObject
     [(''id'', JUint (al_ID l)), (''actor_agent_id'', JUint (al_ActorAgentID l)), (''actor_email'', JString (al_ActorEmail l)),
      (''actor_role'', JString (al_ActorRole l)), (''action'', JString (al_Action l)), (''resource_type'', JString (al_ResourceType l)),
      (''resource_id'', JString (al_ResourceID l)), (''summary'', JString (al_Summary l)), (''ip'', JString (al_IP l)),
      (''user_agent'', JString (al_UserAgent l)), (''created_at'', JTime (al_CreatedAt l))]"

definition extractActor :: "('a, 'm) admin_request_scheme \<Rightarrow> claims option \<Rightarrow> ActorContext" where
  "extractActor c cl =
     (case cl of
        None \<Rightarrow> \<lparr>actor_AgentID = 0, actor_Email = [], actor_Role = [], actor_IP = ClientIP c, actor_UserAgent = UserAgent c\<rparr>
      | Some k \<Rightarrow> \<lparr>actor_AgentID = cl_AgentID k, actor_Email = cl_Email k, actor_Role = cl_Role k,
                   actor_IP = ClientIP c, actor_UserAgent = UserAgent c\<rparr>)"

definition requireSuperAdminClaims :: "claims option \<Rightarrow> (identity_world, http_response, claims) eff" where
  "requireSuperAdminClaims cl =
     (case cl of
        None \<Rightarrow> fail (svc_error 403 ''missing auth claims'')
      | Some k \<Rightarrow> if cl_Role k \<noteq> ''super_admin'' then fail (svc_error 403 ''super_admin role required'') else ok k)"

definition parsePaging :: "('a, 'm) http_request_scheme \<Rightarrow> (identity_world, http_response, nat \<times> nat) eff" where
  "parsePaging c =
     (let rawLimit = Query c ''limit''; rawOffset = Query c ''offset'';
          limit = (if rawLimit = [] then Some 50
                   else case Atoi rawLimit of None \<Rightarrow> None | Some v \<Rightarrow> if v \<le> 0 \<or> v > 200 then None else Some (nat v));
          offset = (if rawOffset = [] then Some 0
                    else case Atoi rawOffset of None \<Rightarrow> None | Some v \<Rightarrow> if v < 0 then None else Some (nat v))
      in case limit of
           None \<Rightarrow> fail (svc_error 400 ''invalid limit'')
         | Some n \<Rightarrow> (case offset of None \<Rightarrow> fail (svc_error 400 ''invalid offset'') | Some k \<Rightarrow> ok (n, k)))"

definition admin_answer :: "nat \<Rightarrow> (identity_sentinel \<times> nat) list \<Rightarrow> 'x ieff \<Rightarrow> nat \<Rightarrow> ('x \<Rightarrow> json) \<Rightarrow> admin_handler" where
  "admin_answer = svc_answer identity_text"

definition missing_404 :: "(identity_sentinel \<times> nat) list" where
  "missing_404 = [(Admin_ErrNotFound, 404)]"

definition http_createSite :: "identity_env \<Rightarrow> createSiteRequest admin_request \<Rightarrow> claims option \<Rightarrow> admin_handler" where
  "http_createSite e c cl =
     andThen (svc_bind createSite_rules c) (\<lambda>q.
       admin_answer 400 [(Admin_ErrConflict, 409)]
         (CreateSite e \<lparr>csi_SiteID = csr_SiteID q, csi_Name = csr_Name q, csi_Domain = csr_Domain q, csi_Domains = csr_Domains q\<rparr>
            (extractActor c cl)) 201 site_model_json)"

definition http_updateSite :: "identity_env \<Rightarrow> updateSiteRequest admin_request \<Rightarrow> claims option \<Rightarrow> admin_handler" where
  "http_updateSite e c cl =
     andThen (svc_bind updateSite_rules c) (\<lambda>q.
       admin_answer 400 [(Admin_ErrNotFound, 404), (Admin_ErrConflict, 409)]
         (UpdateSite e \<lparr>usi_SiteID = Param c ''site_id'', usi_Name = usr_Name q, usi_Domains = usr_Domains q\<rparr>
            (extractActor c cl)) 200 site_model_json)"

definition http_updateSiteStatus :: "identity_env \<Rightarrow> string admin_request \<Rightarrow> claims option \<Rightarrow> admin_handler" where
  "http_updateSiteStatus e c cl =
     andThen (requireSuperAdminClaims cl) (\<lambda>k.
     andThen (svc_bind updateSiteStatus_rules c) (\<lambda>status.
       admin_answer 400 missing_404 (UpdateSiteStatus e (Param c ''site_id'') status (extractActor c (Some k))) 200 site_model_json))"

definition http_rotateSiteWidgetKey :: "identity_env \<Rightarrow> unit admin_request \<Rightarrow> claims option \<Rightarrow> admin_handler" where
  "http_rotateSiteWidgetKey e c cl =
     andThen (requireSuperAdminClaims cl) (\<lambda>k.
       admin_answer 400 missing_404 (RotateSiteWidgetKey e (Param c ''site_id'') (extractActor c (Some k))) 200 site_model_json)"

definition http_getSiteAIConfig :: "identity_env \<Rightarrow> unit admin_request \<Rightarrow> admin_handler" where
  "http_getSiteAIConfig e c =
     admin_answer 400 missing_404 (GetSiteAIConfig e (Param c ''site_id'')) 200 ai_config_model_json"

definition http_updateSiteAIConfig :: "identity_env \<Rightarrow> updateSiteAIConfigRequest admin_request \<Rightarrow> claims option \<Rightarrow> admin_handler" where
  "http_updateSiteAIConfig e c cl =
     andThen (requireSuperAdminClaims cl) (\<lambda>k.
     andThen (svc_bind updateSiteAIConfig_rules c) (\<lambda>q.
       admin_answer 400 missing_404
         (UpdateSiteAIConfig e (Param c ''site_id'') (uar_Enabled q) (uar_ReplyMode q) (extractActor c (Some k))) 200 ai_config_model_json))"

definition http_listSites :: "identity_env \<Rightarrow> unit admin_request \<Rightarrow> admin_handler" where
  "http_listSites e c =
     andThen (parsePaging c) (\<lambda>(n, k). admin_answer 500 [] (List_sites e n k) 200 (items_JSON site_model_json))"

definition http_createAgent ::
  "identity_env \<Rightarrow> admin_server \<Rightarrow> (string \<Rightarrow> bool) \<Rightarrow> createAgentRequest admin_request \<Rightarrow> claims option \<Rightarrow> admin_handler" where
  "http_createAgent e srv is_email c cl =
     andThen (svc_bind (createAgent_rules is_email) c) (\<lambda>q.
     andThen (requireSuperAdminClaims cl) (\<lambda>k.
       admin_answer 400 [(Admin_ErrConflict, 409)]
         (CreateAgent e (adm_bcryptCost srv)
            \<lparr>cai_AgentID = car_AgentID q, cai_Email = car_Email q, cai_Password = car_Password q,
             cai_DisplayName = car_DisplayName q, cai_Role = car_Role q, cai_SiteID = car_SiteID q\<rparr>
            (extractActor c (Some k))) 201 agent_model_json))"

definition http_listAgents :: "identity_env \<Rightarrow> unit admin_request \<Rightarrow> admin_handler" where
  "http_listAgents e c =
     andThen (parsePaging c) (\<lambda>(n, k). admin_answer 500 [] (List_agents e n k) 200 (items_JSON agent_model_json))"

definition agent_param :: "('a, 'm) http_request_scheme \<Rightarrow> (identity_world, http_response, uint64) eff" where
  "agent_param c =
     (case ParseUint (TrimSpace (Param c ''id'')) of
        None \<Rightarrow> fail (svc_error 400 ''invalid agent_id'')
      | Some i \<Rightarrow> if i = 0 then fail (svc_error 400 ''invalid agent_id'') else ok i)"

definition http_updateAgentStatus :: "identity_env \<Rightarrow> string admin_request \<Rightarrow> claims option \<Rightarrow> admin_handler" where
  "http_updateAgentStatus e c cl =
     andThen (requireSuperAdminClaims cl) (\<lambda>k.
     andThen (agent_param c) (\<lambda>i.
     andThen (svc_bind updateAgentStatus_rules c) (\<lambda>status.
       admin_answer 400 missing_404 (UpdateAgentStatus e i status (extractActor c (Some k))) 200 agent_model_json)))"

definition http_resetAgentPassword :: "identity_env \<Rightarrow> admin_server \<Rightarrow> string admin_request \<Rightarrow> claims option \<Rightarrow> admin_handler" where
  "http_resetAgentPassword e srv c cl =
     andThen (requireSuperAdminClaims cl) (\<lambda>k.
     andThen (agent_param c) (\<lambda>i.
     andThen (svc_bind resetAgentPassword_rules c) (\<lambda>p.
       admin_answer 400 missing_404 (ResetAgentPassword e (adm_bcryptCost srv) i p (extractActor c (Some k))) 200 agent_model_json)))"

definition http_forceAgentLogout :: "identity_env \<Rightarrow> unit admin_request \<Rightarrow> claims option \<Rightarrow> admin_handler" where
  "http_forceAgentLogout e c cl =
     andThen (requireSuperAdminClaims cl) (\<lambda>k.
     andThen (agent_param c) (\<lambda>i.
       admin_answer 400 missing_404 (ForceAgentLogout e i (extractActor c (Some k))) 200 agent_model_json))"

definition http_listAuditLogs :: "identity_env \<Rightarrow> unit admin_request \<Rightarrow> admin_handler" where
  "http_listAuditLogs e c =
     andThen (parsePaging c) (\<lambda>(n, k).
       let raw = TrimSpace (Query c ''actor_agent_id''); actor = (if raw = [] then Some 0 else ParseUint raw) in
       case actor of
         None \<Rightarrow> fail (svc_error 400 ''invalid actor_agent_id'')
       | Some i \<Rightarrow>
           admin_answer 400 [] (ListAuditLogs e
             \<lparr>lai_Limit = int n, lai_Offset = int k, lai_ActorAgentID = i, lai_Action = Query c ''action'',
              lai_ResourceType = Query c ''resource_type''\<rparr>) 200 (items_JSON auditLogToJSON))"

text \<open>The routes stand behind the middleware, which puts the claims into the context of the request.\<close>

definition admin_route ::
  "identity_env \<Rightarrow> admin_server \<Rightarrow> ('a, 'm) http_request_scheme \<Rightarrow> (claims option \<Rightarrow> admin_handler) \<Rightarrow> admin_handler" where
  "admin_route e srv c k =
     andThen (map_error (\<lambda>r. svc_error (fst r) (snd r)) (RequireAdmin e srv (Authorization c))) (\<lambda>cl. k (Some cl))"

end
