(* ===== verification/Service_Access.thy ===== *)
theory Service_Access
  imports Service_Http
begin

text \<open>
  Who may change what through admin-service, over gRPC and over HTTP.
\<close>

inductive admin_http_call :: "identity_env \<Rightarrow> admin_server \<Rightarrow> string \<Rightarrow> identity_world \<Rightarrow> identity_world \<Rightarrow> bool"
  for e srv auth where
  http_create_site: "admin_route e srv c1 (http_createSite e c1) w = (r1, w') \<Longrightarrow> Authorization c1 = auth \<Longrightarrow> admin_http_call e srv auth w w'"
| http_update_site: "admin_route e srv c2 (http_updateSite e c2) w = (r2, w') \<Longrightarrow> Authorization c2 = auth \<Longrightarrow> admin_http_call e srv auth w w'"
| http_site_status: "admin_route e srv c3 (http_updateSiteStatus e c3) w = (r3, w') \<Longrightarrow> Authorization c3 = auth \<Longrightarrow> admin_http_call e srv auth w w'"
| http_rotate_key: "admin_route e srv c4 (http_rotateSiteWidgetKey e c4) w = (r4, w') \<Longrightarrow> Authorization c4 = auth \<Longrightarrow> admin_http_call e srv auth w w'"
| http_get_ai: "admin_route e srv c5 (\<lambda>_. http_getSiteAIConfig e c5) w = (r5, w') \<Longrightarrow> Authorization c5 = auth \<Longrightarrow> admin_http_call e srv auth w w'"
| http_update_ai: "admin_route e srv c6 (http_updateSiteAIConfig e c6) w = (r6, w') \<Longrightarrow> Authorization c6 = auth \<Longrightarrow> admin_http_call e srv auth w w'"
| http_list_sites: "admin_route e srv c7 (\<lambda>_. http_listSites e c7) w = (r7, w') \<Longrightarrow> Authorization c7 = auth \<Longrightarrow> admin_http_call e srv auth w w'"
| http_create_agent: "admin_route e srv c8 (http_createAgent e srv is_email c8) w = (r8, w') \<Longrightarrow> Authorization c8 = auth \<Longrightarrow> admin_http_call e srv auth w w'"
| http_list_agents: "admin_route e srv c9 (\<lambda>_. http_listAgents e c9) w = (r9, w') \<Longrightarrow> Authorization c9 = auth \<Longrightarrow> admin_http_call e srv auth w w'"
| http_agent_status: "admin_route e srv c10 (http_updateAgentStatus e c10) w = (r10, w') \<Longrightarrow> Authorization c10 = auth \<Longrightarrow> admin_http_call e srv auth w w'"
| http_reset_password: "admin_route e srv c11 (http_resetAgentPassword e srv c11) w = (r11, w') \<Longrightarrow> Authorization c11 = auth \<Longrightarrow> admin_http_call e srv auth w w'"
| http_force_logout: "admin_route e srv c12 (http_forceAgentLogout e c12) w = (r12, w') \<Longrightarrow> Authorization c12 = auth \<Longrightarrow> admin_http_call e srv auth w w'"
| http_audit_logs: "admin_route e srv c13 (\<lambda>_. http_listAuditLogs e c13) w = (r13, w') \<Longrightarrow> Authorization c13 = auth \<Longrightarrow> admin_http_call e srv auth w w'"

section \<open>The parts of a handler\<close>

lemma idle_parts [keeps_intros]:
  "keeps idle (svc_bind rules c)" "keeps idle (requireSuperAdminClaims cl)" "keeps idle (parsePaging c')" "keeps idle (agent_param c'')"
  by (auto simp: svc_bind_def requireSuperAdminClaims_def parsePaging_def agent_param_def Let_def
      intro!: keeps_ok keeps_fail reflp_idle split: sum.split option.split)

lemma keeps_answer [keeps_intros]: "transp R \<Longrightarrow> reflp R \<Longrightarrow> keeps R m \<Longrightarrow> keeps R (admin_answer n ss m st f)"
  unfolding admin_answer_def svc_answer_def by (intro keeps_intros)

lemma idle_http:
  "keeps idle (http_getSiteAIConfig e c5)" "keeps idle (http_listSites e c7)" "keeps idle (http_listAgents e c9)"
  "keeps idle (http_listAuditLogs e c13)"
  unfolding http_getSiteAIConfig_def http_listSites_def http_listAgents_def http_listAuditLogs_def Let_def
  by (intro keeps_intros reflp_idle transp_idle)+

lemma site_http_same_accounts: "keeps same_accounts (http_createSite e c1 cl)" "keeps same_accounts (http_updateSite e c2 cl)"
  unfolding http_createSite_def http_updateSite_def
  by (intro keeps_intros same_accounts_preorder idle_same_accounts site_operations_same_accounts)+

text \<open>Whoever is not a super administrator is sent away before anything happens.\<close>

lemma refused:
  assumes "cl_Role cl \<noteq> ''super_admin''"
  shows "andThen (requireSuperAdminClaims (Some cl)) k = fail (svc_error 403 ''super_admin role required'')"
  using assms by (simp add: fun_eq_iff andThen_def requireSuperAdminClaims_def fail_def)

lemma idle_keeps_accounts: "keeps idle m \<Longrightarrow> m w = (r, w') \<Longrightarrow> same_accounts w w'"
  by (drule idle_same_accounts) (rule keepsD)

lemma ordinary_admin_keeps_accounts:
  assumes "cl_Role cl \<noteq> ''super_admin''"
  shows "keeps idle (http_updateSiteStatus e c3 (Some cl))" "keeps idle (http_rotateSiteWidgetKey e c4 (Some cl))"
    "keeps idle (http_updateSiteAIConfig e c6 (Some cl))" "keeps idle (http_createAgent e srv is_email c8 (Some cl))"
    "keeps idle (http_updateAgentStatus e c10 (Some cl))"
    "keeps idle (http_resetAgentPassword e srv c11 (Some cl))" "keeps idle (http_forceAgentLogout e c12 (Some cl))"
  unfolding http_updateSiteStatus_def http_rotateSiteWidgetKey_def http_updateSiteAIConfig_def http_updateAgentStatus_def
    http_resetAgentPassword_def http_forceAgentLogout_def http_createAgent_def refused [OF assms]
  by (intro keeps_intros reflp_idle transp_idle)+

section \<open>The routes\<close>

lemma RequireAdmin_ok:
  assumes "RequireAdmin e srv auth w = (Inr c, w1)"
  shows "live_admin c w \<and> (\<exists>w0. ParseTokenAny e (jwtSecrets srv) (adm_jwtIssuer srv) (parseBearerToken auth) w = (Inr c, w0))"
proof -
  from assms obtain w0 w2 where p: "ParseTokenAny e (jwtSecrets srv) (adm_jwtIssuer srv) (parseBearerToken auth) w = (Inr c, w0)"
    and v: "validateSessionByRole e c w0 = (Inr True, w2)"
    and role: "cl_Role c = ''admin'' \<or> cl_Role c = ''super_admin''"
    by (auto simp: RequireAdmin_def Let_def runs split: if_splits)
  have same: "tables w0 = tables w" using keepsD [OF idle_tokens(2) p] by (simp add: idle_same)
  have t: "ToLower (TrimSpace ''super_admin'') = ''super_admin''" "ToLower (TrimSpace ''admin'') = ''admin''" by code_simp+
  from role have "live_admin c w0"
  proof
    assume r: "cl_Role c = ''admin''"
    obtain x w3 where g: "GetAgentRow e (cl_AgentID c) w0 = (x, w3)" by fastforce
    with v t r have "\<exists>a. x = Inr a \<and> session_valid (ag_Status a) (ag_TokenVersion a) (cl_TokenVersion c)"
      by (cases x) (simp_all add: validateSessionByRole_def Let_def attempt_def ok_def)
    then obtain a where "GetAgentRow e (cl_AgentID c) w0 = (Inr a, w3)" "session_valid (ag_Status a) (ag_TokenVersion a) (cl_TokenVersion c)"
      using g by blast
    with r found_row(2) [of e "cl_AgentID c" w0 a w3] show ?thesis by (auto simp: live_admin_def)
  next
    assume r: "cl_Role c = ''super_admin''"
    obtain x w3 where g: "GetSuperAdminRow e (cl_AgentID c) w0 = (x, w3)" by fastforce
    with v t r have "\<exists>a. x = Inr a \<and> session_valid (sa_Status a) (sa_TokenVersion a) (cl_TokenVersion c)"
      by (cases x) (simp_all add: validateSessionByRole_def Let_def attempt_def ok_def)
    then obtain a where "GetSuperAdminRow e (cl_AgentID c) w0 = (Inr a, w3)" "session_valid (sa_Status a) (sa_TokenVersion a) (cl_TokenVersion c)"
      using g by blast
    with r found_row(1) [of e "cl_AgentID c" w0 a w3] show ?thesis by (auto simp: live_admin_def)
  qed
  with p same show ?thesis by (auto simp: live_admin_def)
qed

definition cleared :: "identity_env \<Rightarrow> admin_server \<Rightarrow> string \<Rightarrow> identity_world \<Rightarrow> identity_world \<Rightarrow> bool" where
  "cleared e srv auth w w' \<longleftrightarrow>
     (\<exists>c w0. ParseTokenAny e (jwtSecrets srv) (adm_jwtIssuer srv) (parseBearerToken auth) w = (Inr c, w0)
        \<and> live_admin c w \<and> (same_accounts w w' \<or> cl_Role c = ''super_admin''))"

lemma route_cleared:
  assumes "admin_route e srv c k w = (r, w')" "Authorization c = auth"
    and "\<And>cl. cl_Role cl \<noteq> ''super_admin'' \<Longrightarrow> keeps same_accounts (k (Some cl))" "tables w' \<noteq> tables w"
  shows "cleared e srv auth w w'"
proof -
  obtain x w1 where run: "RequireAdmin e srv auth w = (x, w1)" by fastforce
  have same: "tables w1 = tables w" using keepsD [OF idle_authorisation(3) run] by (simp add: idle_same)
  with run assms(1,2,4) obtain cl where cl: "x = Inr cl" "k (Some cl) w1 = (r, w')"
    by (cases x) (auto simp: admin_route_def andThen_def map_error_def attempt_def fail_def ok_def)
  have "same_accounts w1 w' \<or> cl_Role cl = ''super_admin''" using keepsD [OF assms(3) cl(2)] by blast
  with same have "same_accounts w w' \<or> cl_Role cl = ''super_admin''" by (simp add: same_accounts_def)
  with RequireAdmin_ok run cl(1) show ?thesis unfolding cleared_def by blast
qed

lemmas handlers_keep_accounts =
  site_http_same_accounts idle_http [THEN idle_same_accounts] ordinary_admin_keeps_accounts [THEN idle_same_accounts]

lemma http_call_cleared: "admin_http_call e srv auth w w' \<Longrightarrow> tables w' \<noteq> tables w \<Longrightarrow> cleared e srv auth w w'"
  by (induction rule: admin_http_call.induct) (erule (1) route_cleared, (rule handlers_keep_accounts; assumption), assumption)+

text \<open>
  C25.  Nothing changes without authority: a call of admin-service, over gRPC or over HTTP, that changes any
  table carries a token that parses and whose account is, at that moment, an active administrator of the
  same token version; and one that changes the agents, the super administrators or an AI configuration
  carries the token of a super administrator.
\<close>

theorem admin_changes_need_authority:
  assumes "admin_call e srv auth w w' \<or> admin_http_call e srv auth w w'" "tables w' \<noteq> tables w"
  shows "\<exists>c w0. ParseTokenAny e (jwtSecrets srv) (adm_jwtIssuer srv) (parseBearerToken auth) w = (Inr c, w0)
    \<and> live_admin c w \<and> (same_accounts w w' \<or> cl_Role c = ''super_admin'')"
  using assms admin_changes_authorized http_call_cleared [unfolded cleared_def] by blast

definition demo_logout_request :: "unit admin_request" where
  "demo_logout_request =
     \<lparr>Authorization = demo_bearer, WidgetSession = [], Referer = [], Origin = [], Param = (\<lambda>_. ''7''), Query = (\<lambda>_. []),
      ClientIP = ''10.0.0.1'', req_body = Inr (), bind_text = (\<lambda>_. []), ContextRequestID = None, UserAgent = ''curl''\<rparr>"

definition demo_logged_out :: identity_world where
  "demo_logged_out = snd (admin_route demo_id_env demo_admin demo_logout_request (http_forceAgentLogout demo_id_env demo_logout_request) demo_live)"

theorem admin_changes_need_authority_witness:
  "tables demo_logged_out \<noteq> tables demo_live
   \<and> (\<exists>c w0. ParseTokenAny demo_id_env [''secret''] ''inlinechat'' (parseBearerToken demo_bearer) demo_live = (Inr c, w0)
        \<and> live_admin c demo_live)"
proof -
  have "Authorization demo_logout_request = demo_bearer" by (simp add: demo_logout_request_def)
  then have call: "admin_http_call demo_id_env demo_admin demo_bearer demo_live demo_logged_out"
    unfolding demo_logged_out_def by (intro http_force_logout [OF prod.collapse [symmetric]])
  have "length (audit_logs (tables demo_logged_out)) \<noteq> length (audit_logs (tables demo_live))"
    "jwtSecrets demo_admin = [''secret'']" "adm_jwtIssuer demo_admin = ''inlinechat''" by code_simp+
  moreover from this have changed: "tables demo_logged_out \<noteq> tables demo_live" by auto
  ultimately show ?thesis using admin_changes_need_authority [OF disjI2 [OF call] changed] by auto
qed

end
