(* ===== verification/Watchdog.thy ===== *)
theory Watchdog
  imports Gateway_Core Ai_Text "HOL-Library.AList" "HOL-Library.List_Lexorder" "HOL-Library.Char_ord"
begin

text \<open>
  \<^verbatim>\<open>infra/cloudflared-watchdog/main.go\<close>: a process beside the tunnel of the site.  Every round it asks the
  metrics of the tunnel and the public address, counts the rounds in a row in which the tunnel is broken, and
  restarts the container of the tunnel through the API of Docker, but not twice within a cooldown.

  Floating-point numbers are a type \<open>'f\<close> with a comparison.  Everything that answers from outside, and the
  texts that the library reads as numbers and durations, are functions of the environment; each is asked at
  most once in a round, so it is a function of the number of the round.  The messages of the log are left out.
\<close>

section \<open>The environment\<close>

record dockerContainer =
  dc_ID :: string
  dc_State :: string
  dc_Labels :: "(string \<times> string) list"

record 'f wd_env =
  wd_Getenv :: "string \<Rightarrow> string"
  wd_ParseFloat :: "string \<Rightarrow> 'f option"
  wd_less :: "'f \<Rightarrow> 'f \<Rightarrow> bool"
  wd_ParseDuration :: "string \<Rightarrow> time option"
  metrics_reply :: "nat \<Rightarrow> string + (int \<times> string list \<times> string option)"
  public_reply :: "nat \<Rightarrow> string + (int \<times> string)"
  list_reply :: "nat \<Rightarrow> string + (int \<times> dockerContainer list option)"
  restart_reply :: "nat \<Rightarrow> string \<Rightarrow> string + int"
  wd_checked_at :: "nat \<Rightarrow> time"
  wd_done_at :: "nat \<Rightarrow> time"

section \<open>The configuration\<close>

record 'f wd_config =
  dockerSocket :: string
  metricsURL :: string
  publicHealthURL :: string
  expectStatus :: int
  checkInterval :: time
  failThreshold :: int
  restartCooldown :: time
  metricsTimeout :: time
  publicTimeout :: time
  minHAConnections :: 'f
  targetContainerName :: string
  targetContainerLabels :: "(string \<times> string) list"

definition wd_getenv :: "'f wd_env \<Rightarrow> string \<Rightarrow> string \<Rightarrow> string" where
  "wd_getenv E name default_value = (let v = TrimSpace (wd_Getenv E name) in if v = [] then default_value else v)"

definition parse_env :: "(string \<Rightarrow> 'a option) \<Rightarrow> string \<Rightarrow> 'f wd_env \<Rightarrow> string \<Rightarrow> 'a \<Rightarrow> string + 'a" where
  "parse_env parse kind E name default_value =
     (let raw = TrimSpace (wd_Getenv E name) in
      if raw = [] then Inr default_value
      else case parse raw of None \<Rightarrow> Inl (name @ kind) | Some v \<Rightarrow> Inr v)"

definition parseIntEnv :: "'f wd_env \<Rightarrow> string \<Rightarrow> int \<Rightarrow> string + int" where
  "parseIntEnv = parse_env Atoi (zh [0x20, 0x4E0D, 0x662F, 0x6709, 0x6548, 0x6574, 0x6570])"

definition parseFloatEnv :: "'f wd_env \<Rightarrow> string \<Rightarrow> 'f \<Rightarrow> string + 'f" where
  "parseFloatEnv E = parse_env (wd_ParseFloat E) (zh [0x20, 0x4E0D, 0x662F, 0x6709, 0x6548, 0x6570, 0x5B57]) E"

definition parseDurationEnv :: "'f wd_env \<Rightarrow> string \<Rightarrow> time \<Rightarrow> string + time" where
  "parseDurationEnv E = parse_env (wd_ParseDuration E) (zh [0x20, 0x4E0D, 0x662F, 0x6709, 0x6548, 0x65F6, 0x957F]) E"

text \<open>A map of labels is a list of pairs with the last one for a key in front.\<close>

definition label_pair :: "string \<Rightarrow> (string \<times> string) option" where
  "label_pair raw =
     (let pair = TrimSpace raw; (k, v) = Cut (CHR ''='') pair; key = TrimSpace k; val = TrimSpace v in
      if CHR ''='' \<notin> set pair \<or> key = [] \<or> val = [] then None else Some (key, val))"

definition parseLabelFilters :: "string \<Rightarrow> (string \<times> string) list" where
  "parseLabelFilters raw0 =
     (let raw = TrimSpace raw0 in
      if raw = [] then [] else fold (\<lambda>(k, v). AList.update k v) (List.map_filter label_pair (Split (CHR '','') raw)) [])"

definition loadConfig :: "'f wd_env \<Rightarrow> 'f \<Rightarrow> string + 'f wd_config" where
  "loadConfig E one =
     (let name = TrimSpace (wd_Getenv E ''WATCHDOG_TARGET_CONTAINER_NAME'');
          labels = parseLabelFilters (wd_Getenv E ''WATCHDOG_TARGET_CONTAINER_LABELS'') in
      case parseIntEnv E ''WATCHDOG_EXPECT_STATUS'' 200 of Inl err \<Rightarrow> Inl err | Inr status \<Rightarrow>
      (case parseIntEnv E ''WATCHDOG_FAIL_THRESHOLD'' 3 of Inl err \<Rightarrow> Inl err | Inr threshold \<Rightarrow>
      (if threshold < 1 then Inl (zh [0x57, 0x41, 0x54, 0x43, 0x48, 0x44, 0x4F, 0x47, 0x5F, 0x46, 0x41, 0x49, 0x4C, 0x5F, 0x54, 0x48, 0x52, 0x45,
        0x53, 0x48, 0x4F, 0x4C, 0x44, 0x20, 0x5FC5, 0x987B, 0x20, 0x3E, 0x3D, 0x20, 0x31])
      else case parseDurationEnv E ''WATCHDOG_CHECK_INTERVAL'' (30 * lim_Second) of Inl err \<Rightarrow> Inl err | Inr interval \<Rightarrow>
      (case parseDurationEnv E ''WATCHDOG_RESTART_COOLDOWN'' (120 * lim_Second) of Inl err \<Rightarrow> Inl err | Inr cooldown \<Rightarrow>
      (case parseDurationEnv E ''WATCHDOG_METRICS_TIMEOUT'' (5 * lim_Second) of Inl err \<Rightarrow> Inl err | Inr mt \<Rightarrow>
      (case parseDurationEnv E ''WATCHDOG_PUBLIC_TIMEOUT'' (8 * lim_Second) of Inl err \<Rightarrow> Inl err | Inr pt \<Rightarrow>
      (case parseFloatEnv E ''WATCHDOG_MIN_HA_CONNECTIONS'' one of Inl err \<Rightarrow> Inl err | Inr least \<Rightarrow>
       if name = [] \<and> labels = []
       then Inl (zh [0x57, 0x41, 0x54, 0x43, 0x48, 0x44, 0x4F, 0x47, 0x5F, 0x54, 0x41, 0x52, 0x47, 0x45, 0x54, 0x5F, 0x43, 0x4F, 0x4E, 0x54, 0x41,
         0x49, 0x4E, 0x45, 0x52, 0x5F, 0x4E, 0x41, 0x4D, 0x45, 0x20, 0x6216, 0x20, 0x57, 0x41, 0x54, 0x43, 0x48, 0x44, 0x4F, 0x47, 0x5F, 0x54, 0x41,
         0x52, 0x47, 0x45, 0x54, 0x5F, 0x43, 0x4F, 0x4E, 0x54, 0x41, 0x49, 0x4E, 0x45, 0x52, 0x5F, 0x4C, 0x41, 0x42, 0x45, 0x4C, 0x53, 0x20, 0x81F3,
         0x5C11, 0x914D, 0x7F6E, 0x4E00, 0x4E2A])
       else Inr \<lparr>dockerSocket = wd_getenv E ''WATCHDOG_DOCKER_SOCKET'' ''/var/run/docker.sock'',
                 metricsURL = wd_getenv E ''WATCHDOG_METRICS_URL'' ''http://cloudflared:20241/metrics'',
                 publicHealthURL = TrimSpace (wd_Getenv E ''WATCHDOG_PUBLIC_HEALTH_URL''),
                 expectStatus = status, checkInterval = interval, failThreshold = threshold,
                 restartCooldown = cooldown, metricsTimeout = mt, publicTimeout = pt, minHAConnections = least,
                 targetContainerName = name, targetContainerLabels = labels\<rparr>)))))))"

section \<open>The probes\<close>

record 'f probeResult =
  haConnections :: "'f option"
  metricsErr :: "string option"
  publicConfigured :: bool
  publicHealthy :: bool
  publicStatus :: int
  publicErr :: "string option"
  publicBody :: string
  publicIs1033 :: bool

text \<open>The lines of the metrics; the scanner may end in an error.\<close>

fun parseHAConnections :: "'f wd_env \<Rightarrow> string list \<Rightarrow> string option \<Rightarrow> string + 'f" where
  "parseHAConnections E [] scan_err =
     (case scan_err of Some err \<Rightarrow> Inl err | None \<Rightarrow> Inl (zh [0x6D, 0x65, 0x74, 0x72, 0x69, 0x63, 0x73, 0x20, 0x4E2D,
       0x7F3A, 0x5C11, 0x20, 0x63, 0x6C, 0x6F, 0x75, 0x64, 0x66, 0x6C, 0x61, 0x72, 0x65, 0x64, 0x5F, 0x74, 0x75, 0x6E, 0x6E, 0x65, 0x6C, 0x5F,
       0x68, 0x61, 0x5F, 0x63, 0x6F, 0x6E, 0x6E, 0x65, 0x63, 0x74, 0x69, 0x6F, 0x6E, 0x73]))"
| "parseHAConnections E (raw # rest) scan_err =
     (let line = TrimSpace raw; fields = Fields line in
      if line = [] \<or> HasPrefix line ''#'' \<or> length fields \<noteq> 2
         \<or> hd fields \<noteq> ''cloudflared_tunnel_ha_connections''
      then parseHAConnections E rest scan_err
      else case wd_ParseFloat E (fields ! 1) of
             None \<Rightarrow> Inl (zh [0x89E3, 0x6790, 0x20, 0x68, 0x61, 0x20, 0x63, 0x6F, 0x6E, 0x6E, 0x65, 0x63, 0x74, 0x69, 0x6F, 0x6E, 0x73, 0x20,
               0x5931, 0x8D25])
           | Some v \<Rightarrow> Inr v)"

definition fetchHAConnections :: "'f wd_env \<Rightarrow> nat \<Rightarrow> string + 'f" where
  "fetchHAConnections E n =
     (case metrics_reply E n of
        Inl err \<Rightarrow> Inl err
      | Inr (status, lines, scan_err) \<Rightarrow>
          if status \<noteq> 200 then Inl ''metrics HTTP'' else parseHAConnections E lines scan_err)"

definition compactSnippet :: "string \<Rightarrow> string" where
  "compactSnippet s =
     (let v = Join '' '' (Fields (map (\<lambda>c. if c \<in> {CHR 0x0A, CHR 0x0D, CHR 0x09} then CHR '' '' else c) s)) in
      if 240 < length v then take 240 v @ ''...'' else v)"

text \<open>Status, body, whether the body shows error 1033, and the error.\<close>

definition fetchPublicHealth :: "'f wd_env \<Rightarrow> int \<Rightarrow> nat \<Rightarrow> int \<times> string \<times> bool \<times> string option" where
  "fetchPublicHealth E expected n =
     (case public_reply E n of
        Inl err \<Rightarrow> (0, [], False, Some err)
      | Inr (status, bytes) \<Rightarrow>
          let body = compactSnippet bytes;
              is1033 = contains_one (ToLower body) [''error 1033'', ''cloudflare tunnel error'']
          in (status, body, is1033, if status \<noteq> expected then Some ''health HTTP'' else None))"

definition probe :: "'f wd_env \<Rightarrow> 'f wd_config \<Rightarrow> nat \<Rightarrow> 'f probeResult" where
  "probe E conf n =
     (let ha = fetchHAConnections E n;
          base = \<lparr>haConnections = (case ha of Inl err \<Rightarrow> None | Inr v \<Rightarrow> Some v),
                  metricsErr = (case ha of Inl err \<Rightarrow> Some err | Inr v \<Rightarrow> None),
                  publicConfigured = publicHealthURL conf \<noteq> [], publicHealthy = False, publicStatus = 0,
                  publicErr = None, publicBody = [], publicIs1033 = False\<rparr>
      in if publicHealthURL conf = [] then base
         else let (status, body, is1033, err) = fetchPublicHealth E (expectStatus conf) n in
           base\<lparr>publicHealthy := err = None, publicStatus := status, publicErr := err, publicBody := body,
                publicIs1033 := is1033\<rparr>)"

text \<open>The verdict, with the kind of the reason that is logged.\<close>

datatype wd_reason = MetricsDown | TooFewConnections | Hit1033 | BothDown | PublicDown | PublicOdd

definition metrics_bad :: "'f wd_env \<Rightarrow> 'f wd_config \<Rightarrow> 'f probeResult \<Rightarrow> bool" where
  "metrics_bad E conf r \<longleftrightarrow> (case haConnections r of None \<Rightarrow> True | Some v \<Rightarrow> wd_less E v (minHAConnections conf))"

definition shouldRestart :: "'f wd_env \<Rightarrow> 'f wd_config \<Rightarrow> 'f probeResult \<Rightarrow> wd_reason option" where
  "shouldRestart E conf r =
     (if \<not> metrics_bad E conf r then None
      else if \<not> publicConfigured r then Some (if metricsErr r \<noteq> None then MetricsDown else TooFewConnections)
      else if publicHealthy r then None
      else if publicIs1033 r then Some Hit1033
      else if publicErr r \<noteq> None \<and> metricsErr r \<noteq> None then Some BothDown
      else if publicErr r \<noteq> None then Some PublicDown
      else Some PublicOdd)"

section \<open>The container\<close>

definition matchesLabels :: "(string \<times> string) list \<Rightarrow> (string \<times> string) list \<Rightarrow> bool" where
  "matchesLabels actual expected \<longleftrightarrow>
     list_all (\<lambda>(k, v). (case map_of actual k of None \<Rightarrow> [] | Some a \<Rightarrow> a) = v) expected"

definition container_less :: "dockerContainer \<Rightarrow> dockerContainer \<Rightarrow> bool" where
  "container_less a b \<longleftrightarrow>
     (if dc_State a = dc_State b then dc_ID a < dc_ID b else dc_State a = ''running'')"

text \<open>\<^verbatim>\<open>sort.SliceStable\<close> on at most twenty elements: each moves left as long as it is less; the sorted part in reverse.\<close>

fun move_left :: "dockerContainer \<Rightarrow> dockerContainer list \<Rightarrow> dockerContainer list" where
  "move_left x [] = [x]"
| "move_left x (y # ys) = (if container_less x y then y # move_left x ys else x # y # ys)"

definition sort_containers :: "dockerContainer list \<Rightarrow> dockerContainer list" where
  "sort_containers cs = rev (fold move_left cs [])"

definition resolveContainerTarget :: "'f wd_env \<Rightarrow> 'f wd_config \<Rightarrow> nat \<Rightarrow> string + string" where
  "resolveContainerTarget E conf n =
     (if targetContainerName conf \<noteq> [] then Inr (targetContainerName conf)
      else case list_reply E n of
        Inl err \<Rightarrow> Inl err
      | Inr (status, decoded) \<Rightarrow>
          if status \<noteq> 200 then Inl (zh [0x44, 0x6F, 0x63, 0x6B, 0x65, 0x72, 0x20, 0x41, 0x50, 0x49, 0x20, 0x2F, 0x63, 0x6F, 0x6E, 0x74, 0x61,
            0x69, 0x6E, 0x65, 0x72, 0x73, 0x2F, 0x6A, 0x73, 0x6F, 0x6E, 0x20, 0x8FD4, 0x56DE])
          else (case decoded of
              None \<Rightarrow> Inl ''decode''
            | Some cs \<Rightarrow>
                (case sort_containers (filter (\<lambda>c. matchesLabels (dc_Labels c) (targetContainerLabels conf)) cs) of
                   [] \<Rightarrow> Inl (zh [0x672A, 0x627E, 0x5230, 0x5339, 0x914D, 0x7684, 0x20, 0x63, 0x6C, 0x6F, 0x75, 0x64, 0x66, 0x6C, 0x61, 0x72, 0x65,
                     0x64, 0x20, 0x5BB9, 0x5668])
                 | c # _ \<Rightarrow> Inr (dc_ID c))))"

definition restartContainer :: "'f wd_env \<Rightarrow> nat \<Rightarrow> string \<Rightarrow> string + unit" where
  "restartContainer E n target =
     (case restart_reply E n target of
        Inl err \<Rightarrow> Inl err
      | Inr status \<Rightarrow> if status \<noteq> 204 then Inl (zh [0x44, 0x6F, 0x63, 0x6B, 0x65, 0x72, 0x20, 0x41, 0x50, 0x49, 0x20, 0x72,
        0x65, 0x73, 0x74, 0x61, 0x72, 0x74, 0x20, 0x8FD4, 0x56DE]) else Inr ())"

section \<open>A round\<close>

record watchdog =
  consecutiveFailures :: int
  lastRestart :: "time option"

datatype wd_event = Healthy | Counted wd_reason | Cooling | NoTarget string | RestartFailed string string | Restarted string

definition wd_round :: "'f wd_env \<Rightarrow> 'f wd_config \<Rightarrow> nat \<Rightarrow> watchdog \<Rightarrow> wd_event \<times> watchdog" where
  "wd_round E conf n w =
     (case shouldRestart E conf (probe E conf n) of
        None \<Rightarrow> (Healthy, w\<lparr>consecutiveFailures := 0\<rparr>)
      | Some reason \<Rightarrow>
          let w1 = w\<lparr>consecutiveFailures := consecutiveFailures w + 1\<rparr> in
          if consecutiveFailures w1 < failThreshold conf then (Counted reason, w1)
          else if (case lastRestart w1 of None \<Rightarrow> False | Some t \<Rightarrow> wd_checked_at E n - t < restartCooldown conf)
          then (Cooling, w1)
          else (case resolveContainerTarget E conf n of
              Inl err \<Rightarrow> (NoTarget err, w1)
            | Inr target \<Rightarrow>
                (case restartContainer E n target of
                   Inl err \<Rightarrow> (RestartFailed target err, w1)
                 | Inr _ \<Rightarrow> (Restarted target, \<lparr>consecutiveFailures = 0, lastRestart = Some (wd_done_at E n)\<rparr>))))"

text \<open>The loop: the state before each round, and what happens in it.\<close>

primrec wd_state :: "'f wd_env \<Rightarrow> 'f wd_config \<Rightarrow> nat \<Rightarrow> watchdog" where
  "wd_state E conf 0 = \<lparr>consecutiveFailures = 0, lastRestart = None\<rparr>"
| "wd_state E conf (Suc n) = snd (wd_round E conf n (wd_state E conf n))"

definition wd_event_at :: "'f wd_env \<Rightarrow> 'f wd_config \<Rightarrow> nat \<Rightarrow> wd_event" where
  "wd_event_at E conf n = fst (wd_round E conf n (wd_state E conf n))"

section \<open>Restarts are justified and spaced\<close>

definition broken :: "'f wd_env \<Rightarrow> 'f wd_config \<Rightarrow> nat \<Rightarrow> bool" where
  "broken E conf n \<longleftrightarrow> shouldRestart E conf (probe E conf n) \<noteq> None"

definition is_restart :: "wd_event \<Rightarrow> bool" where
  "is_restart ev \<longleftrightarrow> (\<exists>target. ev = Restarted target)"

text \<open>What the state knows of the rounds before.\<close>

definition wd_knows :: "'f wd_env \<Rightarrow> 'f wd_config \<Rightarrow> nat \<Rightarrow> watchdog \<Rightarrow> bool" where
  "wd_knows E conf n w \<longleftrightarrow>
     0 \<le> consecutiveFailures w \<and> nat (consecutiveFailures w) \<le> n
     \<and> (\<forall>k. n - nat (consecutiveFailures w) \<le> k \<and> k < n \<longrightarrow> broken E conf k \<and> \<not> is_restart (wd_event_at E conf k))
     \<and> (\<forall>j < n. is_restart (wd_event_at E conf j) \<longrightarrow>
          (\<exists>i < n. j \<le> i \<and> is_restart (wd_event_at E conf i) \<and> lastRestart w = Some (wd_done_at E i)))"

lemma wd_round_cases:
  assumes "wd_round E conf n w = (ev, w')"
  obtains (healthy) "\<not> broken E conf n" "ev = Healthy" "w' = w\<lparr>consecutiveFailures := 0\<rparr>"
    | (counted) "broken E conf n" "\<not> is_restart ev" "w' = w\<lparr>consecutiveFailures := consecutiveFailures w + 1\<rparr>"
    | (restarted) target where "broken E conf n" "ev = Restarted target" "failThreshold conf \<le> consecutiveFailures w + 1"
        "w' = \<lparr>consecutiveFailures = 0, lastRestart = Some (wd_done_at E n)\<rparr>"
        "\<And>t. lastRestart w = Some t \<Longrightarrow> restartCooldown conf \<le> wd_checked_at E n - t"
  using assms
  by (auto simp: wd_round_def broken_def is_restart_def Let_def split: option.splits if_splits sum.splits)

lemma wd_state_knows: "wd_knows E conf n (wd_state E conf n)"
proof (induction n)
  case 0
  then show ?case by (simp add: wd_knows_def)
next
  case (Suc n)
  let ?w = "wd_state E conf n"
  obtain ev w' where r: "wd_round E conf n ?w = (ev, w')" by fastforce
  then have ev: "wd_event_at E conf n = ev" and w': "wd_state E conf (Suc n) = w'" by (simp_all add: wd_event_at_def)
  from r show ?case
  proof (cases rule: wd_round_cases)
    case healthy
    with Suc ev w' show ?thesis
      by (auto simp: wd_knows_def is_restart_def less_Suc_eq) blast
  next
    case counted
    have "nat (consecutiveFailures ?w + 1) = Suc (nat (consecutiveFailures ?w))"
      using Suc by (simp add: wd_knows_def nat_add_distrib)
    with counted Suc ev w' show ?thesis
      by (auto simp: wd_knows_def less_Suc_eq)
  next
    case restarted
    with Suc ev w' show ?thesis
      by (auto simp: wd_knows_def is_restart_def less_Suc_eq)
  qed
qed

text \<open>
  What makes a restart in round \<open>n\<close> right: the tunnel was broken in this round and in as many rounds before as
  the threshold asks for, and each earlier restart lies before these rounds and at least the cooldown back.
\<close>

definition justified_restart :: "'f wd_env \<Rightarrow> 'f wd_config \<Rightarrow> nat \<Rightarrow> bool" where
  "justified_restart E conf n \<longleftrightarrow>
     failThreshold conf \<le> int (Suc n)
     \<and> (\<forall>k. Suc n - nat (failThreshold conf) \<le> k \<and> k \<le> n \<longrightarrow> broken E conf k)
     \<and> (\<forall>j < n. is_restart (wd_event_at E conf j) \<longrightarrow>
          j + nat (failThreshold conf) \<le> n \<and> restartCooldown conf \<le> wd_checked_at E n - wd_done_at E j)"

text \<open>
  C40.  The watchdog restarts the tunnel only with reason.  Whatever the tunnel, the public address and Docker
  answer, a round that ends in an acknowledged restart is justified: the number of rounds in a row that the
  threshold asks for were broken, all of them after the last acknowledged restart, and the cooldown is over.
\<close>

theorem watchdog_restarts_justified:
  assumes "is_restart (wd_event_at E conf n)" "\<And>i j. i \<le> j \<Longrightarrow> wd_done_at E i \<le> wd_done_at E j"
  shows "justified_restart E conf n"
proof -
  let ?w = "wd_state E conf n" and ?T = "nat (failThreshold conf)"
  let ?c = "nat (consecutiveFailures ?w)"
  have know: "0 \<le> consecutiveFailures ?w" "?c \<le> n"
    "\<And>k. n - ?c \<le> k \<Longrightarrow> k < n \<Longrightarrow> broken E conf k \<and> \<not> is_restart (wd_event_at E conf k)"
    "\<And>j. j < n \<Longrightarrow> is_restart (wd_event_at E conf j) \<Longrightarrow>
       \<exists>i < n. j \<le> i \<and> is_restart (wd_event_at E conf i) \<and> lastRestart ?w = Some (wd_done_at E i)"
    using wd_state_knows [of E conf n] unfolding wd_knows_def by blast+
  obtain ev w' where r: "wd_round E conf n ?w = (ev, w')" by fastforce
  with assms(1) have "is_restart ev" by (simp add: wd_event_at_def)
  with r obtain now: "broken E conf n" "failThreshold conf \<le> consecutiveFailures ?w + 1"
    "\<And>t. lastRestart ?w = Some t \<Longrightarrow> restartCooldown conf \<le> wd_checked_at E n - t"
    by (cases rule: wd_round_cases) (auto simp: is_restart_def)
  from now(2) know(1) have T: "?T \<le> Suc ?c" by linarith
  have "j + ?T \<le> n \<and> restartCooldown conf \<le> wd_checked_at E n - wd_done_at E j"
    if j: "j < n" "is_restart (wd_event_at E conf j)" for j
  proof -
    have "\<not> n - ?c \<le> j" using know(3) [of j] j by blast
    moreover obtain i where "j \<le> i" "lastRestart ?w = Some (wd_done_at E i)" using know(4) [OF j] by blast
    ultimately show ?thesis using T now(3) assms(2) [of j i] by fastforce
  qed
  moreover have "broken E conf k" if "Suc n - ?T \<le> k" "k \<le> n" for k
    using that T now(1) know(3) [of k] by (cases "k = n") auto
  moreover have "failThreshold conf \<le> int (Suc n)" using now(2) know(1,2) by linarith
  ultimately show ?thesis by (auto simp: justified_restart_def)
qed

definition demo_wd_env :: "int wd_env" where
  "demo_wd_env =
     \<lparr>wd_Getenv = (\<lambda>name. if name = ''WATCHDOG_TARGET_CONTAINER_NAME'' then ''tunnel''
                         else if name = ''WATCHDOG_FAIL_THRESHOLD'' then ''2'' else []),
      wd_ParseFloat = Atoi, wd_less = (\<lambda>x y. x < y), wd_ParseDuration = (\<lambda>s. None),
      metrics_reply = (\<lambda>n. if n = 2 then Inr (200, [''# HELP'', ''cloudflared_tunnel_ha_connections 0''], None) else Inl ''refused''),
      public_reply = (\<lambda>n. Inl ''unused''), list_reply = (\<lambda>n. Inl ''unused''), restart_reply = (\<lambda>n target. Inr 204),
      wd_checked_at = (\<lambda>n. int n * 60 * lim_Second), wd_done_at = (\<lambda>n. int n * 60 * lim_Second + 1)\<rparr>"

definition demo_wd_config :: "int wd_config" where
  "demo_wd_config = projr (loadConfig demo_wd_env 1)"

text \<open>Restarts in the rounds 1 and 4: in round 3 the cooldown of two minutes is not over.\<close>

lemma demo_wd_run:
  "map (wd_event_at demo_wd_env demo_wd_config) [0..<5] =
     [Counted MetricsDown, Restarted ''tunnel'', Counted TooFewConnections, Cooling, Restarted ''tunnel'']"
  by code_simp

theorem watchdog_restarts_justified_witness:
  "is_restart (wd_event_at demo_wd_env demo_wd_config 4) \<and> justified_restart demo_wd_env demo_wd_config 4"
proof -
  have "wd_event_at demo_wd_env demo_wd_config 4 = Restarted ''tunnel''"
    using arg_cong [OF demo_wd_run, of "\<lambda>evs. evs ! 4"] by simp
  then have r: "is_restart (wd_event_at demo_wd_env demo_wd_config 4)" by (simp add: is_restart_def)
  moreover have "justified_restart demo_wd_env demo_wd_config 4"
    by (rule watchdog_restarts_justified [OF r]) (simp add: demo_wd_env_def lim_Second_def)
  ultimately show ?thesis by simp
qed

end
