(* ===== verification/Spec2Isabelle.thy ===== *)
theory Spec2Isabelle
  imports Chat_Api Chat_Delivery Realtime_Handshake Identity_Setup Gateway_Behaviour Widget_Session Ai_Replies Kb_Chunks Kb_Found Kb_Reindex Service_Access Watchdog
begin

text \<open>
  A verification library for InlineChat, a customer chat of several Go services: visitors of a web site
  talk to the agents of the site, or to an AI while no agent has taken over.

  The program.  chat-service keeps conversations, messages and an outbox of events in MySQL and publishes
  the events to Redis; realtime-service holds the websocket connections, broadcasts the events and passes
  messages on to chat-service; auth-service and admin-service share a database of agents, super
  administrators, sites and the audit log, issue tokens and check them; the gateway, the AI service and
  the front ends use these services.

  Conventions.  Each stateful part has a record for its world: the tables as lists of rows in insertion
  order, the auto-increment counters, and a tick that every call to the outside consumes.  An
  environment record says for every tick what the clock shows, whether a call fails and what a library
  answers; it is universally quantified, so the theorems hold for every schedule of failures.  A fallible
  operation returns a sum, \<^verbatim>\<open>Inl\<close> for the error.  Go strings are byte sequences (\<^verbatim>\<open>string\<close>);
  token versions are 64-bit words, the retry delays of the outbox wrap at int64, numbers of rows are
  natural numbers.  Operations of different requests interleave as whole steps.

  Theories.
  \<^item> \<^verbatim>\<open>Prelude\<close> and \<^verbatim>\<open>Text_Laws\<close>: Go's string functions on bytes, number formats, errors, tables
    as lists of rows.  \<^verbatim>\<open>Effects\<close>: operations with state and errors, and what they keep.
  \<^item> \<^verbatim>\<open>Chat_Store\<close>, \<^verbatim>\<open>Conversation_Machine\<close>, \<^verbatim>\<open>Store_Laws\<close>: rows, repositories and
    transactions of chat-service (\<^verbatim>\<open>internal/model\<close>, \<^verbatim>\<open>internal/repository\<close>), the mutations of a
    conversation, the store invariant.
  \<^item> \<^verbatim>\<open>Auto_Close_Timers\<close>, \<^verbatim>\<open>Chat_Service\<close>, \<^verbatim>\<open>Chat_Service_Laws\<close>, \<^verbatim>\<open>Auto_Close\<close>,
    \<^verbatim>\<open>Outbox_Dispatcher\<close>: the operations of the service, the automatic closing, the delivery of events
    (\<^verbatim>\<open>internal/service\<close>, \<^verbatim>\<open>internal/pubsub\<close>).
  \<^item> \<^verbatim>\<open>Chat_System\<close>, \<^verbatim>\<open>Chat_Behaviour\<close>, \<^verbatim>\<open>Chat_Delivery\<close>, \<^verbatim>\<open>Chat_Api\<close>: the steps of the
    whole service, its invariants along every run, atomicity, idempotence, authorisation, the refinement of
    the documented state machine, paging, delivery; the gRPC servers.
  \<^item> \<^verbatim>\<open>Realtime_Hub\<close>, \<^verbatim>\<open>Realtime_Ws\<close>, \<^verbatim>\<open>Realtime_Behaviour\<close>: send queues, rooms, replay and
    sending of realtime-service (\<^verbatim>\<open>internal/ws\<close>), on top of chat-service.
  \<^item> \<^verbatim>\<open>Identity_Store\<close>, \<^verbatim>\<open>Auth_Service\<close>, \<^verbatim>\<open>Admin_Service\<close>, \<^verbatim>\<open>Admin_Api\<close>: the shared
    database, the two services and their gRPC servers; \<^verbatim>\<open>Identity_Laws\<close>, \<^verbatim>\<open>Identity_System\<close>,
    \<^verbatim>\<open>Identity_Steps\<close>: their invariant and its preservation by every operation;
    \<^verbatim>\<open>Identity_Demo\<close>, \<^verbatim>\<open>Identity_Behaviour\<close>, \<^verbatim>\<open>Identity_Access\<close>, \<^verbatim>\<open>Identity_Rules\<close>,
    \<^verbatim>\<open>Identity_Setup\<close>: what the services promise about sessions, logins, authority, domains.

  Interfaces.  The locales name what one part relies on: the laws of a row mutation and of a store step,
  of the room registry of the hub, of a paged message history; each is interpreted on the definitions
  that model the code.

  Bounds.  The scan of the open conversations and the replay are recursive functions with a termination
  measure; no fuel is used.  \<^verbatim>\<open>drain\<close> says how far the write loop of a connection gets beside a replay.

  Not modelled.  Sockets, HTTP and gRPC transport, JSON, SQL text, log output, configuration from the
  environment, the main programs; column widths count as failures of the database; \<^verbatim>\<open>ToLower\<close> and
  \<^verbatim>\<open>EqualFold\<close> are exact for ASCII and for the runes that fold to ASCII.  Broadcasts during a replay
  and two requests inside one database transaction do not interleave.
\<close>

end
